(* ===== verification/Prelude.thy ===== *)
theory Prelude
  imports Main "HOL-Library.Word" "HOL-Library.Char_ord" "HOL-Library.List_Lexorder"
begin

text \<open>
  Shared vocabulary of the development: the error values of the service, the collections of
  rules that the component theories extend, and generic facts on lists, options and sums that
  several components use.
\<close>

section \<open>Rule collections\<close>

text \<open>
  \<^item> \<open>ro\<close>: introduction rules for computations that leave the database, the configuration and the host alone;
  \<^item> \<open>stable\<close>: introduction rules for computations that leave a part of the world alone;
  \<^item> \<open>io_run\<close>: rewrite rules that split a successful or failed run into its steps.
\<close>

named_theorems ro
named_theorems stable
named_theorems io_run

section \<open>Errors as values\<close>

text \<open>
  \<open>ErrorCode\<close> and \<open>DomainError\<close> of \<open>internal/lifecycle/service.go\<close>, \<open>appHTTPError\<close> of
  \<open>internal/app/app.go\<close>, and every other Go error, which the code only ever reads through
  its text.
\<close>

datatype error_code = CodeInvalid | CodeNotFound | CodeConflict | CodeUnusable | CodeInternal

type_synonym fields = "(string \<times> string) list"

datatype err =
    DomainError error_code string fields
  | HttpError nat string string fields
  | PlainError string

fun err_text :: "err \<Rightarrow> string" where
  "err_text (DomainError c m fs) = m"
| "err_text (HttpError s c m fs) = m"
| "err_text (PlainError m) = m"

fun error_code_text :: "error_code \<Rightarrow> string" where
  "error_code_text CodeInvalid = ''invalid''"
| "error_code_text CodeNotFound = ''not_found''"
| "error_code_text CodeConflict = ''conflict''"
| "error_code_text CodeUnusable = ''unprocessable''"
| "error_code_text CodeInternal = ''internal''"

definition Invalid :: "string \<Rightarrow> fields \<Rightarrow> err" where
  "Invalid message fs = DomainError CodeInvalid message fs"

definition NotFound :: "string \<Rightarrow> err" where
  "NotFound message = DomainError CodeNotFound message []"

definition Conflict :: "string \<Rightarrow> err" where
  "Conflict message = DomainError CodeConflict message []"

definition ConflictFields :: "string \<Rightarrow> fields \<Rightarrow> err" where
  "ConflictFields message fs = DomainError CodeConflict message fs"

definition Unprocessable :: "string \<Rightarrow> fields \<Rightarrow> err" where
  "Unprocessable message fs = DomainError CodeUnusable message fs"

definition lifecycleErrorString :: "err option \<Rightarrow> string" where
  "lifecycleErrorString e = (case e of None \<Rightarrow> '''' | Some x \<Rightarrow> err_text x)"

section \<open>Lists\<close>

text \<open>The first element with a property, as a scan that stops at it.\<close>

lemma find_SomeD: "find P xs = Some x \<Longrightarrow> x \<in> set xs \<and> P x"
  by (induction xs) (auto split: if_splits)

lemma find_None_iff': "find P xs = None \<longleftrightarrow> (\<forall>x \<in> set xs. \<not> P x)"
  by (auto simp: find_None_iff)

lemma find_filter_hd: "find P xs = (case filter P xs of [] \<Rightarrow> None | x # _ \<Rightarrow> Some x)"
  by (induction xs) auto

lemma distinct_map_filter: "distinct (map f xs) \<Longrightarrow> distinct (map f (filter P xs))"
  by (induction xs) auto

lemma distinct_map_same:
  "distinct (map f xs) \<Longrightarrow> x \<in> set xs \<Longrightarrow> y \<in> set xs \<Longrightarrow> f x = f y \<Longrightarrow> x = y"
  by (auto simp: distinct_map dest: inj_onD)

lemma find_key_eq:
  "distinct (map f xs) \<Longrightarrow> x \<in> set xs \<Longrightarrow> find (\<lambda>r. f r = f x) xs = Some x"
  by (induction xs) (auto split: if_splits simp: image_iff)

text \<open>Joining with a separator, \<open>strings.Join\<close>.\<close>

fun join :: "string \<Rightarrow> string list \<Rightarrow> string" where
  "join sep [] = ''''"
| "join sep [x] = x"
| "join sep (x # y # zs) = x @ sep @ join sep (y # zs)"

lemma join_Cons: "zs \<noteq> [] \<Longrightarrow> join sep (x # zs) = x @ sep @ join sep zs"
  by (cases zs) auto

lemma join_append:
  "xs \<noteq> [] \<Longrightarrow> ys \<noteq> [] \<Longrightarrow> join sep (xs @ ys) = join sep xs @ sep @ join sep ys"
proof (induction xs)
  case Nil
  then show ?case by simp
next
  case (Cons x xs)
  then show ?case by (cases "xs = []") (auto simp: join_Cons)
qed

end
