(* ===== verification/GoStrings.thy ===== *)
theory GoStrings
  imports Prelude
begin

text \<open>
  The parts of Go's \<open>strings\<close>, \<open>strconv\<close>, \<open>unicode\<close> and \<open>encoding/hex\<close> packages that the
  source uses. A Go string is its sequence of bytes, here a \<^typ>\<open>string\<close>. White space is what
  \<open>unicode.IsSpace\<close> accepts, recognised on the UTF-8 bytes; letter case is ASCII case, which is
  all that comparisons with the source's ASCII literals can observe.
\<close>

section \<open>Prefixes, suffixes, substrings\<close>

fun HasPrefix :: "string \<Rightarrow> string \<Rightarrow> bool" where
  "HasPrefix s [] = True"
| "HasPrefix [] (p # ps) = False"
| "HasPrefix (c # s) (p # ps) = (c = p \<and> HasPrefix s ps)"

definition HasSuffix :: "string \<Rightarrow> string \<Rightarrow> bool" where
  "HasSuffix s p = HasPrefix (rev s) (rev p)"

definition TrimPrefix :: "string \<Rightarrow> string \<Rightarrow> string" where
  "TrimPrefix s p = (if HasPrefix s p then drop (length p) s else s)"

definition TrimSuffix :: "string \<Rightarrow> string \<Rightarrow> string" where
  "TrimSuffix s p = (if HasSuffix s p then take (length s - length p) s else s)"

fun Contains :: "string \<Rightarrow> string \<Rightarrow> bool" where
  "Contains [] p = (p = [])"
| "Contains (c # s) p = (HasPrefix (c # s) p \<or> Contains s p)"

lemma HasPrefix_iff: "HasPrefix s p \<longleftrightarrow> (\<exists>t. s = p @ t)"
  by (induction s p rule: HasPrefix.induct) auto

lemma HasSuffix_iff: "HasSuffix s p \<longleftrightarrow> (\<exists>t. s = t @ p)"
  unfolding HasSuffix_def HasPrefix_iff
  by (metis rev_append rev_rev_ident)

lemma Contains_iff: "Contains s p \<longleftrightarrow> (\<exists>a b. s = a @ p @ b)"
proof (induction s)
  case Nil
  show ?case by simp
next
  case (Cons c s)
  have "(\<exists>a b. c # s = a @ p @ b) \<longleftrightarrow> (\<exists>b. c # s = p @ b) \<or> (\<exists>a b. s = a @ p @ b)"
    by (metis append_Cons append_Nil neq_Nil_conv list.inject)
  then show ?case by (simp add: Cons.IH HasPrefix_iff)
qed

lemma Contains_refl: "Contains s s"
  unfolding Contains_iff by (rule exI[of _ "[]"], rule exI[of _ "[]"]) simp

lemma Contains_trans: "Contains s t \<Longrightarrow> Contains t u \<Longrightarrow> Contains s u"
  unfolding Contains_iff by (metis append.assoc)

section \<open>White space\<close>

definition ascii_space :: "char \<Rightarrow> bool" where
  "ascii_space c = (of_char c \<in> {9, 10, 11, 12, 13, 32 :: nat})"

text \<open>
  The number of bytes of the white space character at the front of a string, 0 for none: the
  ASCII ones, then U+0085, U+00A0, U+1680, U+2000 to U+200A, U+2028, U+2029, U+202F, U+205F
  and U+3000 in UTF-8. \<open>rev_space_len\<close> looks at the end of a string given in reverse.
\<close>

definition wide_space3 :: "nat \<Rightarrow> nat \<Rightarrow> nat \<Rightarrow> bool" where
  "wide_space3 a b c =
     ((a = 225 \<and> b = 154 \<and> c = 128)
      \<or> (a = 226 \<and> b = 128 \<and> (128 \<le> c \<and> c \<le> 138 \<or> c = 168 \<or> c = 169 \<or> c = 175))
      \<or> (a = 226 \<and> b = 129 \<and> c = 159)
      \<or> (a = 227 \<and> b = 128 \<and> c = 128))"

definition space_len :: "string \<Rightarrow> nat" where
  "space_len s =
     (case s of
        [] \<Rightarrow> 0
      | c # t \<Rightarrow>
          if ascii_space c then 1
          else if of_char c < (128::nat) then 0
          else (case t of
                  [] \<Rightarrow> 0
                | d # u \<Rightarrow>
                    if of_char c = (194::nat) \<and> of_char d \<in> {133, 160 :: nat} then 2
                    else (case u of
                            [] \<Rightarrow> 0
                          | e # _ \<Rightarrow> if wide_space3 (of_char c) (of_char d) (of_char e) then 3 else 0)))"

definition rev_space_len :: "string \<Rightarrow> nat" where
  "rev_space_len s =
     (case s of
        [] \<Rightarrow> 0
      | c # t \<Rightarrow>
          if ascii_space c then 1
          else if of_char c < (128::nat) then 0
          else (case t of
                  [] \<Rightarrow> 0
                | d # u \<Rightarrow>
                    if of_char d = (194::nat) \<and> of_char c \<in> {133, 160 :: nat} then 2
                    else (case u of
                            [] \<Rightarrow> 0
                          | e # _ \<Rightarrow> if wide_space3 (of_char e) (of_char d) (of_char c) then 3 else 0)))"

function trim_left :: "(string \<Rightarrow> nat) \<Rightarrow> string \<Rightarrow> string" where
  "trim_left f s = (if s \<noteq> [] \<and> 0 < f s then trim_left f (drop (f s) s) else s)"
  by pat_completeness auto
termination
  by (relation "measure (\<lambda>(f, s). length s)") auto

declare trim_left.simps [simp del]

definition TrimSpace :: "string \<Rightarrow> string" where
  "TrimSpace s = rev (trim_left rev_space_len (rev (trim_left space_len s)))"

lemma trim_left_unfold:
  "trim_left f s = (if s \<noteq> [] \<and> 0 < f s then trim_left f (drop (f s) s) else s)"
  by (rule trim_left.simps)

lemma trim_left_suffix: "\<exists>p. s = p @ trim_left f s"
proof (induction f s rule: trim_left.induct)
  case (1 f s)
  show ?case
  proof (cases "s \<noteq> [] \<and> 0 < f s")
    case True
    with 1 obtain p where "drop (f s) s = p @ trim_left f (drop (f s) s)" by blast
    then have "s = (take (f s) s @ p) @ trim_left f (drop (f s) s)"
      by (metis append.assoc append_take_drop_id)
    moreover have e: "trim_left f s = trim_left f (drop (f s) s)"
      using True by (simp add: trim_left.simps[of f s])
    ultimately show ?thesis unfolding e by blast
  next
    case False
    then show ?thesis by (auto simp: trim_left.simps[of f s])
  qed
qed

lemma trim_left_fix: "trim_left f s = [] \<or> f (trim_left f s) = 0"
proof (induction f s rule: trim_left.induct)
  case (1 f s)
  show ?case
  proof (cases "s \<noteq> [] \<and> 0 < f s")
    case True
    with 1 show ?thesis by (simp add: trim_left.simps[of f s])
  next
    case False
    then show ?thesis by (auto simp: trim_left.simps[of f s])
  qed
qed

lemma trim_left_id: "f s = 0 \<Longrightarrow> trim_left f s = s"
  by (subst trim_left.simps) simp

lemma space_len_le: "space_len s \<le> length s"
  by (auto simp: space_len_def split: list.splits)

lemma space_len_mono: "0 < space_len p \<Longrightarrow> 0 < space_len (p @ q)"
  by (auto simp: space_len_def split: list.splits if_splits)

lemma TrimSpace_left_clean: "TrimSpace s = [] \<or> space_len (TrimSpace s) = 0"
proof -
  let ?t = "trim_left space_len s"
  obtain p where p: "rev ?t = p @ trim_left rev_space_len (rev ?t)"
    using trim_left_suffix by blast
  then have "?t = TrimSpace s @ rev p"
    unfolding TrimSpace_def by (metis rev_append rev_rev_ident)
  then show ?thesis
    using trim_left_fix[of space_len s] space_len_mono[of "TrimSpace s" "rev p"] by auto
qed

lemma TrimSpace_right_clean: "TrimSpace s = [] \<or> rev_space_len (rev (TrimSpace s)) = 0"
  unfolding TrimSpace_def using trim_left_fix[of rev_space_len] by auto

lemma TrimSpace_idem [simp]: "TrimSpace (TrimSpace s) = TrimSpace s"
proof (cases "TrimSpace s = []")
  case True
  then show ?thesis by (simp add: TrimSpace_def trim_left.simps)
next
  case False
  then have l: "space_len (TrimSpace s) = 0" and r: "rev_space_len (rev (TrimSpace s)) = 0"
    using TrimSpace_left_clean TrimSpace_right_clean by blast+
  show ?thesis
    by (subst TrimSpace_def) (simp add: trim_left_id l r)
qed

lemma TrimSpace_Nil [simp]: "TrimSpace [] = []"
  by (simp add: TrimSpace_def trim_left.simps)

text \<open>A string of plain characters (ASCII, no white space) is its own trimming.\<close>

definition plain :: "char \<Rightarrow> bool" where
  "plain c = (\<not> ascii_space c \<and> of_char c < (128::nat))"

lemma space_len_plain: "plain c \<Longrightarrow> space_len (c # s) = 0"
  by (simp add: space_len_def plain_def)

lemma rev_space_len_plain: "plain c \<Longrightarrow> rev_space_len (c # s) = 0"
  by (simp add: rev_space_len_def plain_def)

lemma TrimSpace_plain_ends:
  assumes "s \<noteq> []" "plain (hd s)" "plain (last s)"
  shows "TrimSpace s = s"
proof -
  have l: "trim_left space_len s = s"
    using assms by (intro trim_left_id) (cases s, auto simp: space_len_plain)
  have "rev s = last s # rev (butlast s)"
    using assms(1) by (metis append_butlast_last_id rev.simps(2) rev_append rev_rev_ident
        append.simps(1) append.simps(2) rev_is_Nil_conv)
  then have "trim_left rev_space_len (rev s) = rev s"
    using assms by (intro trim_left_id) (metis rev_space_len_plain)
  with l show ?thesis by (simp add: TrimSpace_def)
qed

lemma TrimSpace_plain: "\<forall>c \<in> set s. plain c \<Longrightarrow> TrimSpace s = s"
  by (cases "s = []") (auto intro: TrimSpace_plain_ends)

section \<open>Splitting and joining\<close>

text \<open>\<open>strings.Split\<close> at a separator of one byte, and \<open>strings.FieldsFunc\<close> for a byte test.\<close>

fun Split :: "string \<Rightarrow> char \<Rightarrow> string list" where
  "Split [] d = [[]]"
| "Split (c # s) d =
     (if c = d then [] # Split s d
      else (case Split s d of [] \<Rightarrow> [[c]] | w # ws \<Rightarrow> (c # w) # ws))"

definition FieldsFunc :: "string \<Rightarrow> (char \<Rightarrow> bool) \<Rightarrow> string list" where
  "FieldsFunc s f =
     filter (\<lambda>w. w \<noteq> []) (Split (map (\<lambda>c. if f c then CHR 0x20 else c) s) (CHR 0x20))"

text \<open>\<open>strings.Fields\<close>: maximal runs without white space; \<open>w\<close> is the field being read.\<close>

function fields_from :: "string \<Rightarrow> string \<Rightarrow> string list" where
  "fields_from w s =
     (if s = [] then (if w = [] then [] else [w])
      else if 0 < space_len s
        then (if w = [] then [] else [w]) @ fields_from [] (drop (space_len s) s)
      else fields_from (w @ [hd s]) (tl s))"
  by pat_completeness auto
termination
  by (relation "measure (\<lambda>(w, s). length s)") auto

declare fields_from.simps [simp del]

definition Fields :: "string \<Rightarrow> string list" where
  "Fields s = fields_from [] s"

text \<open>\<open>strings.Trim\<close> with a set of bytes, and \<open>strings.TrimRight\<close> with one.\<close>

definition Trim :: "string \<Rightarrow> string \<Rightarrow> string" where
  "Trim s cutset =
     rev (dropWhile (\<lambda>c. c \<in> set cutset) (rev (dropWhile (\<lambda>c. c \<in> set cutset) s)))"

definition TrimRight :: "string \<Rightarrow> char \<Rightarrow> string" where
  "TrimRight s d = rev (dropWhile (\<lambda>c. c = d) (rev s))"

text \<open>\<open>strings.ReplaceAll\<close> for a non-empty old string.\<close>

function ReplaceAll :: "string \<Rightarrow> string \<Rightarrow> string \<Rightarrow> string" where
  "ReplaceAll s old new =
     (if s = [] \<or> old = [] then s
      else if HasPrefix s old then new @ ReplaceAll (drop (length old) s) old new
      else hd s # ReplaceAll (tl s) old new)"
  by pat_completeness auto
termination
  by (relation "measure (\<lambda>(s, old, new). length s)") auto

declare ReplaceAll.simps [simp del]

lemma ReplaceAll_single:
  "ReplaceAll s [c] new = concat (map (\<lambda>x. if x = c then new else [x]) s)"
proof (induction s)
  case Nil
  then show ?case by (simp add: ReplaceAll.simps)
next
  case (Cons x s)
  then show ?case by (simp add: ReplaceAll.simps[of "x # s"])
qed

lemma Split_not_Nil [simp]: "Split s d \<noteq> []"
  by (induction s d rule: Split.induct) (auto split: list.splits)

lemma Split_join: "join [d] (Split s d) = s"
proof (induction s d rule: Split.induct)
  case (1 d)
  then show ?case by simp
next
  case (2 c s d)
  show ?case
  proof (cases "c = d")
    case True
    with 2 show ?thesis by (simp add: join_Cons)
  next
    case False
    obtain w ws where w: "Split s d = w # ws" by (cases "Split s d") auto
    then have "join [d] ((c # w) # ws) = c # join [d] (w # ws)"
      by (cases ws) auto
    with False 2 w show ?thesis by simp
  qed
qed

lemma Split_no_sep: "w \<in> set (Split s d) \<Longrightarrow> d \<notin> set w"
proof (induction s d arbitrary: w rule: Split.induct)
  case (1 d)
  then show ?case by simp
next
  case (2 c s d)
  then show ?case by (auto split: if_splits list.splits)
qed

lemma Split_word: "d \<notin> set w \<Longrightarrow> Split w d = [w]"
  by (induction w) auto

lemma Split_append_sep: "d \<notin> set w \<Longrightarrow> Split (w @ d # s) d = w # Split s d"
  by (induction w) auto

lemma Split_of_join:
  "ws \<noteq> [] \<Longrightarrow> \<forall>w \<in> set ws. d \<notin> set w \<Longrightarrow> Split (join [d] ws) d = ws"
proof (induction ws)
  case Nil
  then show ?case by simp
next
  case (Cons w ws)
  then show ?case
    by (cases "ws = []") (auto simp: join_Cons Split_word Split_append_sep)
qed

section \<open>Letter case\<close>

definition to_lower_char :: "char \<Rightarrow> char" where
  "to_lower_char c =
     (let n = of_char c :: nat in if 65 \<le> n \<and> n \<le> 90 then char_of (n + 32) else c)"

definition ToLower :: "string \<Rightarrow> string" where
  "ToLower s = map to_lower_char s"

definition EqualFold :: "string \<Rightarrow> string \<Rightarrow> bool" where
  "EqualFold s t = (ToLower s = ToLower t)"

section \<open>Character classes\<close>

definition is_digit :: "char \<Rightarrow> bool" where
  "is_digit c = (48 \<le> (of_char c :: nat) \<and> (of_char c :: nat) \<le> 57)"

definition is_lower :: "char \<Rightarrow> bool" where
  "is_lower c = (97 \<le> (of_char c :: nat) \<and> (of_char c :: nat) \<le> 122)"

definition is_upper :: "char \<Rightarrow> bool" where
  "is_upper c = (65 \<le> (of_char c :: nat) \<and> (of_char c :: nat) \<le> 90)"

definition is_alnum :: "char \<Rightarrow> bool" where
  "is_alnum c = (is_lower c \<or> is_upper c \<or> is_digit c)"

lemma digit_plain: "is_digit c \<Longrightarrow> plain c"
  by (auto simp: is_digit_def plain_def ascii_space_def)

lemma alnum_plain: "is_alnum c \<Longrightarrow> plain c"
  by (auto simp: is_alnum_def is_digit_def is_lower_def is_upper_def plain_def ascii_space_def)

end
