(* ===== verification/GoStrconv.thy ===== *)
theory GoStrconv
  imports GoStrings
begin

text \<open>
  Go's \<open>strconv.Itoa\<close>, \<open>strconv.Atoi\<close>, \<open>strconv.Quote\<close> and the \<open>%d\<close>, \<open>%q\<close>, \<open>%t\<close> verbs of
  \<open>fmt\<close> as the source uses them, with the round trip between printing and parsing.
\<close>

section \<open>Decimal printing\<close>

definition digit_char :: "nat \<Rightarrow> char" where
  "digit_char n = char_of (48 + n)"

definition digit_val :: "char \<Rightarrow> nat" where
  "digit_val c = of_char c - 48"

fun show_nat :: "nat \<Rightarrow> string" where
  "show_nat n = (if n < 10 then [digit_char n] else show_nat (n div 10) @ [digit_char (n mod 10)])"

declare show_nat.simps [simp del]

definition Itoa :: "int \<Rightarrow> string" where
  "Itoa i = (if i < 0 then CHR ''-'' # show_nat (nat (- i)) else show_nat (nat i))"

definition show_bool :: "bool \<Rightarrow> string" where
  "show_bool b = (if b then ''true'' else ''false'')"

section \<open>Decimal parsing\<close>

definition read_digits :: "string \<Rightarrow> nat" where
  "read_digits s = foldl (\<lambda>n c. 10 * n + digit_val c) 0 s"

definition all_digits :: "string \<Rightarrow> bool" where
  "all_digits s = (s \<noteq> [] \<and> list_all is_digit s)"

lemma digit_val_char [simp]: "n < 10 \<Longrightarrow> digit_val (digit_char n) = n"
  by (simp add: digit_val_def digit_char_def)

lemma is_digit_char [simp]: "n < 10 \<Longrightarrow> is_digit (digit_char n)"
  by (simp add: is_digit_def digit_char_def)

lemma digit_char_val: "is_digit c \<Longrightarrow> digit_char (digit_val c) = c"
  by (simp add: digit_char_def digit_val_def is_digit_def)

lemma digit_val_less: "is_digit c \<Longrightarrow> digit_val c < 10"
  unfolding digit_val_def is_digit_def by linarith

lemma read_digits_snoc [simp]: "read_digits (s @ [c]) = 10 * read_digits s + digit_val c"
  by (simp add: read_digits_def)

lemma read_digits_Nil [simp]: "read_digits [] = 0"
  by (simp add: read_digits_def)

lemma read_show_nat [simp]: "read_digits (show_nat n) = n"
proof (induction n rule: show_nat.induct)
  case (1 n)
  show ?case
  proof (cases "n < 10")
    case True
    then show ?thesis by (simp add: show_nat.simps[of n] read_digits_def)
  next
    case False
    with 1 show ?thesis by (simp add: show_nat.simps[of n])
  qed
qed

lemma show_nat_digits [simp]: "all_digits (show_nat n)"
proof (induction n rule: show_nat.induct)
  case (1 n)
  then show ?case by (cases "n < 10") (simp_all add: show_nat.simps[of n] all_digits_def)
qed

lemma show_nat_not_Nil [simp]: "show_nat n \<noteq> []"
  using show_nat_digits[of n] by (auto simp: all_digits_def)

lemma show_nat_inj: "show_nat m = show_nat n \<Longrightarrow> m = n"
  by (metis read_show_nat)

lemma show_nat_set: "c \<in> set (show_nat n) \<Longrightarrow> is_digit c"
  using show_nat_digits[of n] by (auto simp: all_digits_def list_all_iff)

lemma show_nat_no_leading_zero: "0 < n \<Longrightarrow> hd (show_nat n) \<noteq> CHR ''0''"
proof (induction n rule: show_nat.induct)
  case (1 n)
  show ?case
  proof (cases "n < 10")
    case True
    have "digit_char n \<noteq> CHR ''0''"
    proof
      assume "digit_char n = CHR ''0''"
      then have "digit_val (digit_char n) = digit_val (CHR ''0'')" by simp
      with True have "n = digit_val (CHR ''0'')" by simp
      also have "\<dots> = 0" by (simp add: digit_val_def)
      finally show False using 1(2) by simp
    qed
    with True show ?thesis by (simp add: show_nat.simps[of n])
  next
    case False
    with 1 show ?thesis by (simp add: show_nat.simps[of n])
  qed
qed

section \<open>strconv.Atoi\<close>

text \<open>
  \<open>Atoi\<close> on a 64-bit platform: an optional sign, then at least one decimal digit, then a range
  check. The two errors differ in their text, which \<open>classifyError\<close> reads.
\<close>

definition quote_char :: "char \<Rightarrow> string" where
  "quote_char c =
     (let n = of_char c :: nat;
          hex = (\<lambda>d. if d < 10 then char_of (48 + d) else char_of (87 + d))
      in if n = 34 then [CHR 0x5C, CHR 0x22]
         else if n = 92 then [CHR 0x5C, CHR 0x5C]
         else if n = 7 then [CHR 0x5C, CHR ''a'']
         else if n = 8 then [CHR 0x5C, CHR ''b'']
         else if n = 9 then [CHR 0x5C, CHR ''t'']
         else if n = 10 then [CHR 0x5C, CHR ''n'']
         else if n = 11 then [CHR 0x5C, CHR ''v'']
         else if n = 12 then [CHR 0x5C, CHR ''f'']
         else if n = 13 then [CHR 0x5C, CHR ''r'']
         else if n < 32 \<or> n = 127 then [CHR 0x5C, CHR ''x'', hex (n div 16), hex (n mod 16)]
         else [c])"

definition Quote :: "string \<Rightarrow> string" where
  "Quote s = [CHR 0x22] @ concat (map quote_char s) @ [CHR 0x22]"

definition atoi_syntax_error :: "string \<Rightarrow> err" where
  "atoi_syntax_error s = PlainError (''strconv.Atoi: parsing '' @ Quote s @ '': invalid syntax'')"

definition atoi_range_error :: "string \<Rightarrow> err" where
  "atoi_range_error s = PlainError (''strconv.Atoi: parsing '' @ Quote s @ '': value out of range'')"

definition Atoi :: "string \<Rightarrow> err + int" where
  "Atoi s =
     (let neg = HasPrefix s ''-'';
          t = (if neg \<or> HasPrefix s ''+'' then tl s else s);
          v = (if neg then - int (read_digits t) else int (read_digits t))
      in if \<not> all_digits t then Inl (atoi_syntax_error s)
         else if v < - (2 ^ 63) \<or> 2 ^ 63 \<le> v then Inl (atoi_range_error s)
         else Inr v)"

lemma digit_not_sign: "is_digit c \<Longrightarrow> c \<noteq> CHR ''-'' \<and> c \<noteq> CHR ''+''"
  by (auto simp: is_digit_def)

lemma show_nat_no_sign: "\<not> HasPrefix (show_nat n) ''-'' \<and> \<not> HasPrefix (show_nat n) ''+''"
proof -
  obtain c s where "show_nat n = c # s" by (cases "show_nat n") auto
  moreover have "is_digit c" using calculation show_nat_set[of c n] by simp
  ultimately show ?thesis using digit_not_sign by auto
qed

lemma Atoi_Itoa: "- (2 ^ 63) \<le> i \<Longrightarrow> i < 2 ^ 63 \<Longrightarrow> Atoi (Itoa i) = Inr i"
  using show_nat_no_sign[of "nat i"]
  by (auto simp: Atoi_def Itoa_def Let_def)

lemma Atoi_range: "Atoi s = Inr v \<Longrightarrow> - (2 ^ 63) \<le> v \<and> v < 2 ^ 63"
  by (auto simp: Atoi_def Let_def split: if_splits)

lemma Itoa_plain: "c \<in> set (Itoa i) \<Longrightarrow> plain c \<and> c \<noteq> CHR '',''"
  by (auto simp: Itoa_def is_digit_def dest!: show_nat_set split: if_splits)
     (auto simp: plain_def ascii_space_def)

lemma Itoa_not_Nil [simp]: "Itoa i \<noteq> []"
  by (simp add: Itoa_def)

lemma sign_not_show_nat [simp]: "(CHR ''-'' # s = show_nat n) = False"
  using show_nat_no_sign[of n] by (cases "show_nat n") auto

lemma show_nat_not_sign [simp]: "(show_nat n = CHR ''-'' # s) = False"
  using sign_not_show_nat[of s n] by (metis sign_not_show_nat)

lemma Itoa_inj: "Itoa i = Itoa j \<Longrightarrow> i = j"
  by (auto simp: Itoa_def split: if_splits dest!: show_nat_inj)

end
