(* ===== verification/GoNet.thy ===== *)
theory GoNet
  imports GoStrconv
begin

text \<open>
  Go's \<open>net.IP\<close>, \<open>net.IPMask\<close> and \<open>net.IPNet\<close> on their bytes, with the parser and printer the
  source calls (\<open>net.ParseIP\<close>, \<open>net.ParseCIDR\<close>, \<open>IP.To4\<close>, \<open>IP.String\<close>, \<open>IPNet.Contains\<close>,
  \<open>IPNet.String\<close>), for both address families: an address has 4 or 16 bytes, and \<open>[]\<close> is Go's nil
  address. The lemmas give the round trip of IPv4 addresses through text and through \<open>uint32\<close>.
\<close>

unbundle bit_operations_syntax

type_synonym byte = "8 word"
type_synonym ip = "byte list"
type_synonym u32 = "32 word"
type_synonym u64 = "64 word"

record ipnet =
  net_IP :: ip
  net_Mask :: "byte list"

section \<open>Addresses and masks\<close>

definition v4InV6Prefix :: "byte list" where
  "v4InV6Prefix = replicate 10 0 @ [255, 255]"

definition IPv4 :: "byte \<Rightarrow> byte \<Rightarrow> byte \<Rightarrow> byte \<Rightarrow> ip" where
  "IPv4 a b c d = v4InV6Prefix @ [a, b, c, d]"

definition To4 :: "ip \<Rightarrow> ip option" where
  "To4 ip =
     (if length ip = 4 then Some ip
      else if length ip = 16 \<and> take 12 ip = v4InV6Prefix then Some (drop 12 ip)
      else None)"

fun mask_bytes :: "nat \<Rightarrow> nat \<Rightarrow> byte list" where
  "mask_bytes 0 n = []"
| "mask_bytes (Suc l) n =
     (if 8 \<le> n then 255 # mask_bytes l (n - 8) else NOT (drop_bit n 255) # mask_bytes l 0)"

definition CIDRMask :: "nat \<Rightarrow> nat \<Rightarrow> byte list" where
  "CIDRMask ones bits = mask_bytes (bits div 8) ones"

fun leading_ones :: "nat \<Rightarrow> byte \<Rightarrow> nat" where
  "leading_ones 0 v = 0"
| "leading_ones (Suc k) v = (if bit v k then Suc (leading_ones k v) else 0)"

text \<open>\<open>simpleMaskLength\<close>: the number of leading ones, \<open>None\<close> for Go's -1.\<close>

fun simpleMaskLength :: "byte list \<Rightarrow> nat option" where
  "simpleMaskLength [] = Some 0"
| "simpleMaskLength (v # m) =
     (if v = 255 then map_option (\<lambda>n. 8 + n) (simpleMaskLength m)
      else let n = leading_ones 8 v in
        if v = NOT (drop_bit n 255) \<and> list_all (\<lambda>b. b = 0) m then Some n else None)"

text \<open>\<open>IPMask.Size\<close>.\<close>

definition Mask_Size :: "byte list \<Rightarrow> nat \<times> nat" where
  "Mask_Size m = (case simpleMaskLength m of None \<Rightarrow> (0, 0) | Some n \<Rightarrow> (n, 8 * length m))"

text \<open>\<open>IP.Mask\<close>.\<close>

definition IP_Mask :: "ip \<Rightarrow> byte list \<Rightarrow> ip" where
  "IP_Mask ip m =
     (let m' = (if length m = 16 \<and> length ip = 4 \<and> list_all (\<lambda>b. b = 255) (take 12 m)
                then drop 12 m else m);
          ip' = (if length m' = 4 \<and> length ip = 16 \<and> take 12 ip = v4InV6Prefix
                 then drop 12 ip else ip)
      in if length ip' \<noteq> length m' then [] else map2 (AND) ip' m')"

definition networkNumberAndMask :: "ipnet \<Rightarrow> (ip \<times> byte list) option" where
  "networkNumberAndMask n =
     (let ip = (case To4 (net_IP n) of Some v \<Rightarrow> v | None \<Rightarrow> net_IP n);
          m = net_Mask n
      in if length ip \<noteq> 4 \<and> length ip \<noteq> 16 then None
         else if length m = 4 then (if length ip = 4 then Some (ip, m) else None)
         else if length m = 16 then Some (ip, if length ip = 4 then drop 12 m else m)
         else None)"

text \<open>\<open>IPNet.Contains\<close>.\<close>

definition Net_Contains :: "ipnet \<Rightarrow> ip \<Rightarrow> bool" where
  "Net_Contains n ip =
     (case networkNumberAndMask n of
        None \<Rightarrow> False
      | Some (nn, m) \<Rightarrow>
          (let x = (case To4 ip of Some v \<Rightarrow> v | None \<Rightarrow> ip)
           in length x = length nn \<and> map2 (AND) nn m = map2 (AND) x m))"

section \<open>Printing\<close>

definition byte_text :: "byte \<Rightarrow> string" where
  "byte_text b = show_nat (unat b)"

definition hex_digit :: "nat \<Rightarrow> char" where
  "hex_digit d = (if d < 10 then char_of (48 + d) else char_of (87 + d))"

fun hex_nat :: "nat \<Rightarrow> string" where
  "hex_nat n = (if n < 16 then [hex_digit n] else hex_nat (n div 16) @ [hex_digit (n mod 16)])"

declare hex_nat.simps [simp del]

fun groups16 :: "ip \<Rightarrow> nat list" where
  "groups16 (a # b # r) = (unat a * 256 + unat b) # groups16 r"
| "groups16 _ = []"

text \<open>The longest run of at least two zero groups, the first of that length: its start and end.\<close>

definition zero_run :: "nat list \<Rightarrow> nat \<times> nat" where
  "zero_run gs =
     foldl (\<lambda>(s, e) i.
        let l = length (takeWhile (\<lambda>g. g = 0) (drop i gs))
        in if 2 \<le> l \<and> e - s < l then (i, i + l) else (s, e)) (0, 0) [0..<length gs]"

definition ip6_text :: "ip \<Rightarrow> string" where
  "ip6_text ip =
     (let gs = groups16 ip; (s, e) = zero_run gs
      in if e = 0 then join '':'' (map hex_nat gs)
         else join '':'' (map hex_nat (take s gs)) @ ''::'' @ join '':'' (map hex_nat (drop e gs)))"

text \<open>\<open>IP.String\<close>; the nil address prints as \<open><nil>\<close>.\<close>

definition IP_String :: "ip \<Rightarrow> string" where
  "IP_String ip =
     (case To4 ip of
        Some v \<Rightarrow> join ''.'' (map byte_text v)
      | None \<Rightarrow> if length ip = 16 then ip6_text ip else ''<nil>'')"

text \<open>\<open>IPNet.String\<close>; a mask made by \<open>CIDRMask\<close> always has a length.\<close>

definition Net_String :: "ipnet \<Rightarrow> string" where
  "Net_String n =
     (case networkNumberAndMask n of
        None \<Rightarrow> ''<nil>''
      | Some (nn, m) \<Rightarrow>
          (case simpleMaskLength m of
             Some l \<Rightarrow> IP_String nn @ ''/'' @ show_nat l
           | None \<Rightarrow> IP_String nn @ ''/'' @
               concat (map (\<lambda>b. [hex_digit (unat b div 16), hex_digit (unat b mod 16)]) m)))"

section \<open>Parsing\<close>

text \<open>A decimal field of an IPv4 address: one to three digits, no leading zero, at most 255.\<close>

definition parse_octet :: "string \<Rightarrow> byte option" where
  "parse_octet s =
     (if all_digits s \<and> (length s = 1 \<or> hd s \<noteq> CHR ''0'') \<and> read_digits s \<le> 255
      then Some (of_nat (read_digits s)) else None)"

definition parse_ip4 :: "string \<Rightarrow> (byte list) option" where
  "parse_ip4 s =
     (case Split s (CHR ''.'') of
        [a, b, c, d] \<Rightarrow>
          (case (parse_octet a, parse_octet b, parse_octet c, parse_octet d) of
             (Some w, Some x, Some y, Some z) \<Rightarrow> Some [w, x, y, z]
           | _ \<Rightarrow> None)
      | _ \<Rightarrow> None)"

definition hex_val :: "char \<Rightarrow> nat option" where
  "hex_val c =
     (let n = of_char c :: nat
      in if 48 \<le> n \<and> n \<le> 57 then Some (n - 48)
         else if 97 \<le> n \<and> n \<le> 102 then Some (n - 87)
         else if 65 \<le> n \<and> n \<le> 70 then Some (n - 55)
         else None)"

definition two_bytes :: "nat \<Rightarrow> byte list" where
  "two_bytes n = [of_nat (n div 256), of_nat (n mod 256)]"

text \<open>
  The loop of \<open>netip.parseIPv6\<close>: \<open>i\<close> bytes are in \<open>out\<close>, \<open>ell\<close> is the position of the ellipsis.
  \<open>fuel\<close> bounds the groups; at most eight are read, so eight units are enough. The result is the
  bytes and the ellipsis once the whole string is used.
\<close>

fun ip6_loop :: "nat \<Rightarrow> byte list \<Rightarrow> nat option \<Rightarrow> string \<Rightarrow> (byte list \<times> nat option) option" where
  "ip6_loop fuel out ell s =
     (if length out \<ge> 16 then (if s = [] then Some (out, ell) else None)
      else case fuel of
        0 \<Rightarrow> None
      | Suc fuel' \<Rightarrow>
          (let h = takeWhile (\<lambda>c. hex_val c \<noteq> None) s;
               t = drop (length h) s;
               acc = foldl (\<lambda>n c. 16 * n + the (hex_val c)) 0 h
           in if h = [] \<or> length h > 4 then None
              else if HasPrefix t ''.'' then
                (if (ell = None \<and> length out \<noteq> 12) \<or> length out + 4 > 16 then None
                 else map_option (\<lambda>v. (out @ v, ell)) (parse_ip4 s))
              else if t = [] then Some (out @ two_bytes acc, ell)
              else if \<not> HasPrefix t '':'' \<or> length t = 1 then None
              else if HasPrefix (tl t) '':'' then
                (if ell \<noteq> None then None
                 else if length t = 2 then Some (out @ two_bytes acc, Some (length out + 2))
                 else ip6_loop fuel' (out @ two_bytes acc) (Some (length out + 2)) (drop 2 t))
              else ip6_loop fuel' (out @ two_bytes acc) ell (tl t)))"

declare ip6_loop.simps [simp del]

definition parse_ip6 :: "string \<Rightarrow> ip option" where
  "parse_ip6 s =
     (if s = ''::'' then Some (replicate 16 0)
      else
        (case (if HasPrefix s ''::'' then ip6_loop 8 [] (Some 0) (drop 2 s) else ip6_loop 8 [] None s) of
           None \<Rightarrow> None
         | Some (out, ell) \<Rightarrow>
             (if length out < 16
              then (case ell of
                      None \<Rightarrow> None
                    | Some e \<Rightarrow> Some (take e out @ replicate (16 - length out) 0 @ drop e out))
              else (if ell = None then Some out else None))))"

text \<open>
  \<open>netip.ParseAddr\<close> chooses by the first of \<open>.\<close>, \<open>:\<close>, \<open>%\<close>; an address with a zone is refused by
  both callers. The flag says whether the text was in the IPv4 form (32 address bits).
\<close>

definition parse_addr :: "string \<Rightarrow> (ip \<times> bool) option" where
  "parse_addr s =
     (case find (\<lambda>c. c \<in> set ''.:%'') s of
        None \<Rightarrow> None
      | Some c \<Rightarrow>
          if c = CHR ''.'' then map_option (\<lambda>v. (v4InV6Prefix @ v, True)) (parse_ip4 s)
          else if c = CHR '':'' then map_option (\<lambda>v. (v, False)) (parse_ip6 s)
          else None)"

definition ParseIP :: "string \<Rightarrow> ip option" where
  "ParseIP s = map_option fst (parse_addr s)"

text \<open>\<open>net.ParseIP(s).To4()\<close>, where the nil address has no IPv4 form.\<close>

definition ParseIP4 :: "string \<Rightarrow> ip option" where
  "ParseIP4 s = (case ParseIP s of None \<Rightarrow> None | Some ip \<Rightarrow> To4 ip)"

definition cidr_error :: "string \<Rightarrow> err" where
  "cidr_error s = PlainError (''invalid CIDR address: '' @ s)"

definition ParseCIDR :: "string \<Rightarrow> err + (ip \<times> ipnet)" where
  "ParseCIDR s =
     (let addr = takeWhile (\<lambda>c. c \<noteq> CHR ''/'') s;
          rest = dropWhile (\<lambda>c. c \<noteq> CHR ''/'') s
      in if rest = [] then Inl (cidr_error s)
         else case parse_addr addr of
           None \<Rightarrow> Inl (cidr_error s)
         | Some (ip, v4) \<Rightarrow>
             (let bits = (if v4 then 32 else 128); n = read_digits (tl rest)
              in if \<not> all_digits (tl rest) \<or> bits < n then Inl (cidr_error s)
                 else let m = CIDRMask n bits
                      in Inr (ip, \<lparr>net_IP = IP_Mask ip m, net_Mask = m\<rparr>)))"

section \<open>Addresses as 32-bit numbers\<close>

text \<open>\<open>ipToUint32\<close> and \<open>uint32ToIP\<close> of \<open>internal/lifecycle/service.go\<close>, on the four bytes.\<close>

fun u32_of_bytes :: "byte list \<Rightarrow> u32" where
  "u32_of_bytes [a, b, c, d] =
     push_bit 24 (ucast a) OR push_bit 16 (ucast b) OR push_bit 8 (ucast c) OR ucast d"
| "u32_of_bytes _ = 0"

definition ipToUint32 :: "ip \<Rightarrow> u32" where
  "ipToUint32 ip = (case To4 ip of Some v \<Rightarrow> u32_of_bytes v | None \<Rightarrow> 0)"

definition bytes_of_u32 :: "u32 \<Rightarrow> byte list" where
  "bytes_of_u32 v = [ucast (drop_bit 24 v), ucast (drop_bit 16 v), ucast (drop_bit 8 v), ucast v]"

definition uint32ToIP :: "u32 \<Rightarrow> ip" where
  "uint32ToIP v =
     IPv4 (ucast (drop_bit 24 v)) (ucast (drop_bit 16 v)) (ucast (drop_bit 8 v)) (ucast v)"

lemma To4_IPv4 [simp]: "To4 (IPv4 a b c d) = Some [a, b, c, d]"
  by (simp add: To4_def IPv4_def v4InV6Prefix_def)

lemma To4_four [simp]: "length v = 4 \<Longrightarrow> To4 v = Some v"
  by (simp add: To4_def)

lemma To4_length: "To4 x = Some v \<Longrightarrow> length v = 4"
  by (auto simp: To4_def split: if_splits)

lemma To4_mapped [simp]: "length v = 4 \<Longrightarrow> To4 (v4InV6Prefix @ v) = Some v"
  by (simp add: To4_def v4InV6Prefix_def)

lemma uint32ToIP_bytes: "uint32ToIP v = v4InV6Prefix @ bytes_of_u32 v"
  by (simp add: uint32ToIP_def IPv4_def bytes_of_u32_def)

lemma To4_uint32ToIP [simp]: "To4 (uint32ToIP v) = Some (bytes_of_u32 v)"
  by (simp add: uint32ToIP_def bytes_of_u32_def)

lemma length_bytes_of_u32 [simp]: "length (bytes_of_u32 v) = 4"
  by (simp add: bytes_of_u32_def)

lemma byte_bit_high: "8 \<le> n \<Longrightarrow> \<not> bit (b :: byte) n"
  by (auto dest: bit_imp_le_length)

lemma u32_bytes_id [simp]: "u32_of_bytes (bytes_of_u32 v) = v"
proof (rule bit_eqI)
  fix n assume n: "possible_bit TYPE(32 word) n"
  consider "n < 8" | "8 \<le> n" "n < 16" | "16 \<le> n" "n < 24" | "24 \<le> n" by linarith
  then show "bit (u32_of_bytes (bytes_of_u32 v)) n \<longleftrightarrow> bit v n"
    using n by cases (auto simp: bytes_of_u32_def bit_simps)
qed

lemma four_bytes: "length v = 4 \<Longrightarrow> \<exists>a b c d. v = [a, b, c, d]"
  by (auto simp: numeral_eq_Suc length_Suc_conv)

lemma bytes_u32_id [simp]: "length v = 4 \<Longrightarrow> bytes_of_u32 (u32_of_bytes v) = v"
  by (drule four_bytes) (auto simp: bytes_of_u32_def byte_bit_high intro!: bit_eqI simp: bit_simps)

lemma ipToUint32_uint32ToIP [simp]: "ipToUint32 (uint32ToIP v) = v"
  by (simp add: ipToUint32_def)

lemma u32_of_bytes_inj: "length v = 4 \<Longrightarrow> length w = 4 \<Longrightarrow> u32_of_bytes v = u32_of_bytes w \<Longrightarrow> v = w"
  by (metis bytes_u32_id)

end
