(* ===== verification/GoTime.thy ===== *)
theory GoTime
  imports GoStrconv
begin

text \<open>
  Instants of \<open>time.Time\<close> in UTC as nanoseconds since the Unix epoch, the calendar functions of the
  standard library, and the RFC 3339 text with nanoseconds that the database columns hold.
\<close>

type_synonym time = int
type_synonym duration = int

definition Second :: duration where "Second = 1000000000"
definition Minute :: duration where "Minute = 60 * Second"
definition Hour :: duration where "Hour = 60 * Minute"

section \<open>Calendar\<close>

text \<open>Days before 1 January of a year, from the same day of year 0 of the proleptic calendar.\<close>

definition days_before_year :: "int \<Rightarrow> int" where
  "days_before_year y = 365 * y + (y + 3) div 4 - (y + 99) div 100 + (y + 399) div 400"

definition leap :: "int \<Rightarrow> bool" where
  "leap y \<longleftrightarrow> y mod 4 = 0 \<and> (y mod 100 \<noteq> 0 \<or> y mod 400 = 0)"

definition month_lengths :: "bool \<Rightarrow> int list" where
  "month_lengths l = [31, if l then 29 else 28, 31, 30, 31, 30, 31, 31, 30, 31, 30, 31]"

fun month_split :: "int list \<Rightarrow> int \<Rightarrow> nat \<times> int" where
  "month_split [] d = (0, d)"
| "month_split (m # ms) d =
     (if d < m then (0, d) else (let (k, r) = month_split ms (d - m) in (Suc k, r)))"

text \<open>The year of a day, by the 400, 100, 4 and 1 year cycles that begin with a leap year.\<close>

definition year_of_day :: "int \<Rightarrow> int \<times> int" where
  "year_of_day d =
     (let n400 = d div 146097; r = d mod 146097;
          n100 = (if r < 36525 then 0 else 1 + (r - 36525) div 36524);
          r100 = (if r < 36525 then r else (r - 36525) mod 36524);
          n4 = (if n100 = 0 then r100 div 1461
                else if r100 < 1460 then 0 else 1 + (r100 - 1460) div 1461);
          r4 = (if n100 = 0 then r100 mod 1461
                else if r100 < 1460 then r100 else (r100 - 1460) mod 1461);
          first = (if n100 \<noteq> 0 \<and> n4 = 0 then 365 else 366);
          n1 = (if r4 < first then 0 else 1 + (r4 - first) div 365);
          yday = (if r4 < first then r4 else (r4 - first) mod 365)
      in (400 * n400 + 100 * n100 + 4 * n4 + n1, yday))"

text \<open>Days from 1 January of year 0 to the epoch.\<close>

definition epoch_day :: int where "epoch_day = 719528"

section \<open>Text\<close>

definition pad :: "nat \<Rightarrow> int \<Rightarrow> string" where
  "pad n v = (let s = show_nat (nat v) in replicate (n - length s) CHR ''0'' @ s)"

definition trim_zeros :: "string \<Rightarrow> string" where
  "trim_zeros s = rev (dropWhile (\<lambda>c. c = CHR ''0'') (rev s))"

definition frac_text :: "int \<Rightarrow> string" where
  "frac_text ns = (if ns = 0 then '''' else ''.'' @ trim_zeros (pad 9 ns))"

text \<open>\<open>t.UTC().Format(time.RFC3339Nano)\<close>; trailing zeros of the fraction are not written.\<close>

definition formatTime :: "time \<Rightarrow> string" where
  "formatTime t =
     (let secs = t div 1000000000; ns = t mod 1000000000;
          day = secs div 86400; sod = secs mod 86400;
          (y, yday) = year_of_day (day + epoch_day);
          (m, d) = month_split (month_lengths (leap y)) yday
      in pad 4 y @ ''-'' @ pad 2 (int m + 1) @ ''-'' @ pad 2 (d + 1) @ ''T''
         @ pad 2 (sod div 3600) @ '':'' @ pad 2 (sod div 60 mod 60) @ '':'' @ pad 2 (sod mod 60)
         @ frac_text ns @ ''Z'')"

end
