(* ===== verification/GoRegexp.thy ===== *)
theory GoRegexp
  imports GoStrings
begin

text \<open>
  Regular expressions over bytes, matched by derivatives, with the language they denote. The
  source compiles five anchored patterns over ASCII classes; an anchored match of Go's
  \<open>regexp.MatchString\<close> is membership of the whole text in the language.
\<close>

datatype rx =
    RNone
  | REps
  | RCls "char \<Rightarrow> bool"
  | RSeq rx rx
  | RAlt rx rx
  | RStar rx

inductive_set star_of :: "string set \<Rightarrow> string set" for A where
  star_nil: "[] \<in> star_of A"
| star_step: "u \<in> A \<Longrightarrow> v \<in> star_of A \<Longrightarrow> u @ v \<in> star_of A"

fun lang :: "rx \<Rightarrow> string set" where
  "lang RNone = {}"
| "lang REps = {[]}"
| "lang (RCls P) = {[c] | c. P c}"
| "lang (RSeq a b) = {u @ v | u v. u \<in> lang a \<and> v \<in> lang b}"
| "lang (RAlt a b) = lang a \<union> lang b"
| "lang (RStar a) = star_of (lang a)"

fun nullable :: "rx \<Rightarrow> bool" where
  "nullable RNone = False"
| "nullable REps = True"
| "nullable (RCls P) = False"
| "nullable (RSeq a b) = (nullable a \<and> nullable b)"
| "nullable (RAlt a b) = (nullable a \<or> nullable b)"
| "nullable (RStar a) = True"

fun deriv :: "char \<Rightarrow> rx \<Rightarrow> rx" where
  "deriv c RNone = RNone"
| "deriv c REps = RNone"
| "deriv c (RCls P) = (if P c then REps else RNone)"
| "deriv c (RSeq a b) =
     (if nullable a then RAlt (RSeq (deriv c a) b) (deriv c b) else RSeq (deriv c a) b)"
| "deriv c (RAlt a b) = RAlt (deriv c a) (deriv c b)"
| "deriv c (RStar a) = RSeq (deriv c a) (RStar a)"

fun MatchString :: "rx \<Rightarrow> string \<Rightarrow> bool" where
  "MatchString r [] = nullable r"
| "MatchString r (c # s) = MatchString (deriv c r) s"

definition RPlus :: "rx \<Rightarrow> rx" where
  "RPlus r = RSeq r (RStar r)"

definition ROpt :: "rx \<Rightarrow> rx" where
  "ROpt r = RAlt REps r"

text \<open>\<open>r{0,n}\<close>.\<close>

fun RUpTo :: "nat \<Rightarrow> rx \<Rightarrow> rx" where
  "RUpTo 0 r = REps"
| "RUpTo (Suc n) r = RAlt REps (RSeq r (RUpTo n r))"

lemma nullable_lang: "nullable r \<longleftrightarrow> [] \<in> lang r"
  by (induction r) (auto intro: star_nil)

lemma star_of_Cons:
  "c # s \<in> star_of A \<longleftrightarrow> (\<exists>u v. s = u @ v \<and> c # u \<in> A \<and> v \<in> star_of A)" (is "?L \<longleftrightarrow> ?R")
proof
  assume ?L
  then show ?R
  proof (induction "c # s" arbitrary: s rule: star_of.induct)
    case (star_step u v)
    then show ?case by (cases u) auto
  qed
next
  assume ?R
  then obtain u v where "s = u @ v" "c # u \<in> A" "v \<in> star_of A" by blast
  then show ?L using star_step [of "c # u" A v] by simp
qed

lemma deriv_lang: "s \<in> lang (deriv c r) \<longleftrightarrow> c # s \<in> lang r"
proof (induction r arbitrary: s)
  case (RSeq a b)
  then show ?case by (auto simp: nullable_lang Cons_eq_append_conv)
next
  case (RStar a)
  then show ?case by (auto simp: star_of_Cons)
qed auto

lemma MatchString_lang: "MatchString r s \<longleftrightarrow> s \<in> lang r"
  by (induction s arbitrary: r) (auto simp: nullable_lang deriv_lang)

lemma star_of_cls: "star_of {[c] | c. P c} = {s. list_all P s}"
proof (intro set_eqI iffI)
  fix s assume "s \<in> star_of {[c] | c. P c}"
  then show "s \<in> {s. list_all P s}" by induction auto
next
  fix s assume "s \<in> {s. list_all P s}"
  then have "list_all P s" by simp
  then show "s \<in> star_of {[c] | c. P c}"
  proof (induction s)
    case Nil
    then show ?case by (auto intro: star_nil)
  next
    case (Cons c s)
    then show ?case using star_step [of "[c]" "{[c] | c. P c}" s] by auto
  qed
qed

lemma lang_RStar_cls: "lang (RStar (RCls P)) = {s. list_all P s}"
  by (simp add: star_of_cls)

lemma lang_RSeq_cls: "lang (RSeq (RCls P) r) = {c # s | c s. P c \<and> s \<in> lang r}"
proof -
  have "c # s \<in> lang (RSeq (RCls P) r)" if "P c" "s \<in> lang r" for c s
    unfolding lang.simps using that by (intro CollectI exI [of _ "[c]"] exI [of _ s]) simp
  then show ?thesis by auto
qed

lemma lang_RUpTo_cls: "lang (RUpTo n (RCls P)) = {s. length s \<le> n \<and> list_all P s}"
proof (induction n)
  case (Suc n)
  show ?case
  proof (intro set_eqI)
    fix s
    show "s \<in> lang (RUpTo (Suc n) (RCls P)) \<longleftrightarrow> s \<in> {s. length s \<le> Suc n \<and> list_all P s}"
      by (cases s) (auto simp add: lang_RSeq_cls Suc simp del: lang.simps(3,4))
  qed
qed auto

text \<open>A pattern \<open>^[first][rest]{0,n}$\<close>, the shape of three of the five patterns.\<close>

lemma MatchString_ident:
  "MatchString (RSeq (RCls P) (RUpTo n (RCls Q))) s \<longleftrightarrow>
     (case s of [] \<Rightarrow> False | c # t \<Rightarrow> P c \<and> length t \<le> n \<and> list_all Q t)"
  by (cases s) (simp_all add: MatchString_lang lang_RSeq_cls lang_RUpTo_cls del: lang.simps)

lemma MatchString_ident_star:
  "MatchString (RSeq (RCls P) (RStar (RCls Q))) s \<longleftrightarrow>
     (case s of [] \<Rightarrow> False | c # t \<Rightarrow> P c \<and> list_all Q t)"
  by (cases s) (simp_all add: MatchString_lang lang_RSeq_cls lang_RStar_cls del: lang.simps)

end
