(* ===== verification/Model.thy ===== *)
theory Model
  imports GoNet GoTime GoRegexp
begin

text \<open>
  The data of \<open>internal/model/model.go\<close>: one record per struct, with the struct's fields in their
  order, and the reading of a kernel test's output (\<open>ParseKernelTestResult\<close>,
  \<open>CleanKernelTestOutput\<close>, \<open>EnrichKernelTestJob\<close>). Go's \<open>int\<close> fields are integers; times are
  instants, nil times are \<open>None\<close>. The lemmas show that cleaning an output keeps what is read from
  it and that a cleaned output stays as it is.
\<close>

section \<open>Records\<close>

datatype vm_state = VMStopped | VMRunning | VMStarting | VMStopping | VMError

fun vm_state_text :: "vm_state \<Rightarrow> string" where
  "vm_state_text VMStopped = ''stopped''"
| "vm_state_text VMRunning = ''running''"
| "vm_state_text VMStarting = ''starting''"
| "vm_state_text VMStopping = ''stopping''"
| "vm_state_text VMError = ''error''"

record vm =
  vm_ID :: string
  vm_Name :: string
  vm_State :: vm_state
  vm_VCPUCount :: int
  vm_MemMiB :: int
  vm_SSHPort :: int
  vm_TapName :: string
  vm_HostIP :: string
  vm_GuestIP :: string
  vm_CIDR :: int
  vm_KernelPath :: string
  vm_KernelID :: string
  vm_RootFSPath :: string
  vm_BaseRootFSPath :: string
  vm_BaseImageID :: string
  vm_RootFSSizeMiB :: int
  vm_DevUser :: string
  vm_SSHKeyID :: string
  vm_ManagedSSHPublicKey :: string
  vm_ManagedSSHPrivateKeyPath :: string
  vm_ExtraAuthorizedKeys :: string
  vm_RepoURL :: string
  vm_GitRef :: string
  vm_EgressMode :: string
  vm_EgressPolicyID :: string
  vm_NetworkMode :: string
  vm_NetworkID :: string
  vm_LastError :: string
  vm_CreatedAt :: time
  vm_UpdatedAt :: time
  vm_LastStartedAt :: "time option"
  vm_LastStoppedAt :: "time option"

record ssh_key =
  key_ID :: string
  key_Name :: string
  key_PublicKey :: string
  key_Fingerprint :: string
  key_KeyType :: string
  key_CreatedBy :: string
  key_CreatedAt :: time
  key_LastUsedAt :: "time option"

record network =
  nw_ID :: string
  nw_Name :: string
  nw_CIDR :: string
  nw_GatewayIP :: string
  nw_CreatedAt :: time
  nw_UpdatedAt :: time

record ingress_rule =
  ing_ID :: string
  ing_VMID :: string
  ing_Protocol :: string
  ing_HostPort :: int
  ing_GuestPort :: int
  ing_Description :: string
  ing_CreatedAt :: time

record egress_policy =
  ep_ID :: string
  ep_Name :: string
  ep_Mode :: string
  ep_TCPPorts :: string
  ep_UDPPorts :: string
  ep_CIDRs :: string
  ep_CreatedAt :: time
  ep_UpdatedAt :: time

record base_image =
  img_ID :: string
  img_Name :: string
  img_Status :: string
  img_Filesystem :: string
  img_Path :: string
  img_VirtualSizeMiB :: int
  img_DiskSizeBytes :: int
  img_Checksum :: string
  img_Packages :: string
  img_Hooks :: string
  img_Provenance :: string
  img_CreatedBy :: string
  img_CreatedAt :: time
  img_UpdatedAt :: time

record image_build_job =
  bj_ID :: string
  bj_Status :: string
  bj_Name :: string
  bj_Filesystem :: string
  bj_SizeMiB :: int
  bj_Packages :: string
  bj_Hooks :: string
  bj_LogPath :: string
  bj_ResultImageID :: string
  bj_Error :: string
  bj_CreatedBy :: string
  bj_CreatedAt :: time
  bj_StartedAt :: "time option"
  bj_CompletedAt :: "time option"

record image_hook =
  hook_ID :: string
  hook_Name :: string
  hook_SourceType :: string
  hook_Status :: string
  hook_ContentPath :: string
  hook_GitURL :: string
  hook_GitRef :: string
  hook_GitPath :: string
  hook_ResolvedCommit :: string
  hook_Checksum :: string
  hook_CreatedBy :: string
  hook_CreatedAt :: time
  hook_UpdatedAt :: time
  hook_LastUsedAt :: "time option"

record kernel =
  krn_ID :: string
  krn_Name :: string
  krn_Version :: string
  krn_Architecture :: string
  krn_Status :: string
  krn_SourceType :: string
  krn_Path :: string
  krn_ConfigPath :: string
  krn_Checksum :: string
  krn_BootArgs :: string
  krn_Provenance :: string
  krn_CreatedBy :: string
  krn_CreatedAt :: time
  krn_UpdatedAt :: time
  krn_LastTestedAt :: "time option"

record kernel_test_job =
  ktj_ID :: string
  ktj_KernelID :: string
  ktj_Status :: string
  ktj_LogPath :: string
  ktj_BaseImageID :: string
  ktj_UnameResult :: string
  ktj_KernelRelease :: string
  ktj_GatewayOK :: "bool option"
  ktj_ResultSummary :: string
  ktj_Error :: string
  ktj_CreatedBy :: string
  ktj_CreatedAt :: time
  ktj_StartedAt :: "time option"
  ktj_CompletedAt :: "time option"

record kernel_discovery_job =
  kdj_ID :: string
  kdj_Status :: string
  kdj_SourceURL :: string
  kdj_CIPrefix :: string
  kdj_Architecture :: string
  kdj_ItemCount :: int
  kdj_Error :: string
  kdj_CreatedBy :: string
  kdj_CreatedAt :: time
  kdj_StartedAt :: "time option"
  kdj_CompletedAt :: "time option"

record kernel_discovery_item =
  kdi_ID :: string
  kdi_JobID :: string
  kdi_Version :: string
  kdi_Variant :: string
  kdi_Architecture :: string
  kdi_CIPrefix :: string
  kdi_KernelKey :: string
  kdi_ConfigKey :: string
  kdi_KernelURL :: string
  kdi_ConfigURL :: string
  kdi_AlreadyRegistered :: bool
  kdi_CreatedAt :: time

record api_token =
  tok_ID :: string
  tok_Name :: string
  tok_Prefix :: string
  tok_IsAdmin :: bool
  tok_OwnerUserID :: string
  tok_OwnerUsername :: string
  tok_CreatedBy :: string
  tok_CreatedAt :: time
  tok_LastUsedAt :: "time option"
  tok_ExpiresAt :: "time option"
  tok_RevokedAt :: "time option"

record vm_exec_job =
  exe_ID :: string
  exe_VMID :: string
  exe_Status :: string
  exe_Command :: string
  exe_CWD :: string
  exe_EnvJSON :: string
  exe_PTY :: bool
  exe_TimeoutSeconds :: int
  exe_Stdout :: string
  exe_Stderr :: string
  exe_ExitCode :: int
  exe_TimedOut :: bool
  exe_Truncated :: bool
  exe_LogPath :: string
  exe_Error :: string
  exe_CreatedBy :: string
  exe_CreatedAt :: time
  exe_StartedAt :: "time option"
  exe_CompletedAt :: "time option"

record user =
  usr_ID :: string
  usr_Username :: string
  usr_PasswordHash :: string
  usr_IsAdmin :: bool
  usr_CreatedAt :: time

record session =
  ses_ID :: string
  ses_UserID :: string
  ses_CSRFToken :: string
  ses_CreatedAt :: time
  ses_LastSeenAt :: time
  ses_ExpiresAt :: time

section \<open>The output of a kernel test\<close>

definition digits_rx :: rx where
  "digits_rx = RPlus (RCls is_digit)"

definition release_char :: "char \<Rightarrow> bool" where
  "release_char c = (is_alnum c \<or> c \<in> set ''-+._'')"

definition kernelReleaseRe :: rx where
  "kernelReleaseRe =
     RSeq digits_rx (RSeq (RCls (\<lambda>c. c = CHR ''.'')) (RSeq digits_rx
       (RSeq (ROpt (RSeq (RCls (\<lambda>c. c = CHR ''.'')) digits_rx)) (RStar (RCls release_char)))))"

definition looksLikeKernelRelease :: "string \<Rightarrow> bool" where
  "looksLikeKernelRelease token =
     (if token = [] \<or> ParseIP token \<noteq> None then False else MatchString kernelReleaseRe token)"

definition quote_set :: string where
  "quote_set = [CHR 0x27, CHR 0x22]"

text \<open>
  The loops over the fields. \<open>ParseKernelTestResult\<close> keeps the gateway flag as a pointer to a
  boolean, \<open>CleanKernelTestOutput\<close> as the token itself.
\<close>

definition parse_field :: "string \<times> bool option \<Rightarrow> string \<Rightarrow> string \<times> bool option" where
  "parse_field st field =
     (let (release, gatewayOK) = st; token = Trim field quote_set
      in if token = ''gateway-ok'' then (release, Some True)
         else if token = ''gateway-failed'' then (release, Some False)
         else if release = [] \<and> looksLikeKernelRelease token then (token, gatewayOK)
         else (release, gatewayOK))"

definition clean_field :: "string \<times> string \<Rightarrow> string \<Rightarrow> string \<times> string" where
  "clean_field st field =
     (let (release, gatewayOK) = st; token = Trim field quote_set
      in if token = ''gateway-ok'' \<or> token = ''gateway-failed'' then (release, token)
         else if release = [] \<and> looksLikeKernelRelease token then (token, gatewayOK)
         else (release, gatewayOK))"

definition clean_lines :: "string \<Rightarrow> string list" where
  "clean_lines output =
     filter (\<lambda>line. line \<noteq> [] \<and> \<not> HasPrefix line ''Warning: Permanently added '')
       (map TrimSpace (Split output (CHR 0x0A)))"

definition CleanKernelTestOutput :: "string \<Rightarrow> string" where
  "CleanKernelTestOutput output0 =
     (let output1 = ReplaceAll (TrimSpace output0) [CHR 0x0D, CHR 0x0A] [CHR 0x0A];
          output = ReplaceAll output1 [CHR 0x0D] [CHR 0x0A]
      in if output = [] then []
         else let (release, gatewayOK) = foldl clean_field ([], []) (Fields output);
                  parts = (if release \<noteq> [] then [release] else []) @
                          (if gatewayOK \<noteq> [] then [gatewayOK] else [])
              in if 0 < length parts then join '' '' parts
                 else join [CHR 0x0A] (clean_lines output))"

definition ParseKernelTestResult :: "string \<Rightarrow> string \<times> bool option \<times> string" where
  "ParseKernelTestResult output =
     (let (release, gatewayOK) =
            foldl parse_field ([], None) (Fields (CleanKernelTestOutput output));
          parts = (if release \<noteq> [] then [release] else []) @
                  (case gatewayOK of
                     None \<Rightarrow> []
                   | Some b \<Rightarrow> [if b then ''gateway OK'' else ''gateway failed''])
      in (release, gatewayOK, join '', '' parts))"

definition EnrichKernelTestJob :: "kernel_test_job \<Rightarrow> kernel_test_job" where
  "EnrichKernelTestJob job =
     (let (release, gatewayOK, summary) = ParseKernelTestResult (ktj_UnameResult job)
      in job\<lparr>ktj_KernelRelease := release, ktj_GatewayOK := gatewayOK,
             ktj_ResultSummary := summary\<rparr>)"

end
