(* ===== verification/SqlTable.thy ===== *)
theory SqlTable
  imports Model "HOL-Library.Multiset"
begin

text \<open>
  Tables of the SQLite database as lists of rows in rowid order, with the statements the store
  sends: \<open>INSERT\<close>, \<open>UPDATE\<close>, \<open>DELETE\<close> by a row predicate, and \<open>ORDER BY\<close> as a stable sort on the
  column's text. A constraint of a table is its name in error messages and the tuple of columns it
  keeps unique; as documented for SQLite, a statement that would break one fails as a whole. The
  locale \<open>keyed_table\<close> collects what clients may use of a table with a primary key.
\<close>

datatype sqlv = SText string | SInt int

type_synonym 'r uniq = "string \<times> ('r \<Rightarrow> sqlv list)"

section \<open>Statements\<close>

definition unique_error :: "string \<Rightarrow> err" where
  "unique_error col =
     PlainError (''constraint failed: UNIQUE constraint failed: '' @ col)"

definition violated :: "'r uniq list \<Rightarrow> 'r list \<Rightarrow> 'r \<Rightarrow> string option" where
  "violated us rows r = map_option fst (find (\<lambda>(n, k). list_ex (\<lambda>x. k x = k r) rows) us)"

definition tbl_insert :: "'r uniq list \<Rightarrow> 'r \<Rightarrow> 'r list \<Rightarrow> err + 'r list" where
  "tbl_insert us r rows =
     (case violated us rows r of Some n \<Rightarrow> Inl (unique_error n) | None \<Rightarrow> Inr (rows @ [r]))"

text \<open>\<open>UPDATE t SET f WHERE P\<close>: \<open>seen\<close> are the rows the statement has passed.\<close>

fun update_rows ::
  "'r uniq list \<Rightarrow> ('r \<Rightarrow> bool) \<Rightarrow> ('r \<Rightarrow> 'r) \<Rightarrow> 'r list \<Rightarrow> 'r list \<Rightarrow> err + 'r list"
where
  "update_rows us P f seen [] = Inr seen"
| "update_rows us P f seen (r # rs) =
     (if P r
      then (case violated us (seen @ rs) (f r) of
              Some n \<Rightarrow> Inl (unique_error n)
            | None \<Rightarrow> update_rows us P f (seen @ [f r]) rs)
      else update_rows us P f (seen @ [r]) rs)"

definition tbl_update ::
  "'r uniq list \<Rightarrow> ('r \<Rightarrow> bool) \<Rightarrow> ('r \<Rightarrow> 'r) \<Rightarrow> 'r list \<Rightarrow> err + 'r list"
where
  "tbl_update us P f rows = update_rows us P f [] rows"

definition tbl_delete :: "('r \<Rightarrow> bool) \<Rightarrow> 'r list \<Rightarrow> 'r list" where
  "tbl_delete P rows = filter (\<lambda>r. \<not> P r) rows"

definition order_asc :: "('r \<Rightarrow> 'k::linorder) \<Rightarrow> 'r list \<Rightarrow> 'r list" where
  "order_asc k rows = sort_key k rows"

definition order_desc :: "('r \<Rightarrow> 'k::linorder) \<Rightarrow> 'r list \<Rightarrow> 'r list" where
  "order_desc k rows = rev (sort_key k (rev rows))"

definition count_where :: "('r \<Rightarrow> bool) \<Rightarrow> 'r list \<Rightarrow> nat" where
  "count_where P rows = length (filter P rows)"

lemma set_order_asc [simp]: "set (order_asc k rows) = set rows"
  by (simp add: order_asc_def)

lemma set_order_desc [simp]: "set (order_desc k rows) = set rows"
  by (simp add: order_desc_def)

lemma length_order_desc [simp]: "length (order_desc k rows) = length rows"
  by (simp add: order_desc_def)

lemma distinct_order_desc [simp]: "distinct (map f (order_desc k rows)) = distinct (map f rows)"
proof -
  have "mset (map f (order_desc k rows)) = mset (map f rows)"
    by (simp add: order_desc_def)
  then show ?thesis by (metis mset_eq_imp_distinct_iff)
qed

lemma order_desc_sorted: "sorted (rev (map k (order_desc k rows)))"
  by (simp add: order_desc_def rev_map)

lemma count_where_0: "count_where P rows = 0 \<longleftrightarrow> (\<forall>r \<in> set rows. \<not> P r)"
  by (auto simp: count_where_def filter_empty_conv)

section \<open>Constraints\<close>

definition uniq_ok :: "'r uniq list \<Rightarrow> 'r list \<Rightarrow> bool" where
  "uniq_ok us rows \<longleftrightarrow> (\<forall>(n, k) \<in> set us. distinct (map k rows))"

lemma uniq_ok_Nil [simp]: "uniq_ok us []"
  by (auto simp: uniq_ok_def)

lemma violated_None:
  "violated us rows r = None \<longleftrightarrow> (\<forall>(n, k) \<in> set us. \<forall>x \<in> set rows. k x \<noteq> k r)"
  by (auto simp: violated_def find_None_iff list_ex_iff)

lemma tbl_insert_Inr:
  "tbl_insert us r rows = Inr rows' \<Longrightarrow> violated us rows r = None \<and> rows' = rows @ [r]"
  by (auto simp: tbl_insert_def split: option.splits)

lemma tbl_insert_uniq: "tbl_insert us r rows = Inr rows' \<Longrightarrow> uniq_ok us rows \<Longrightarrow> uniq_ok us rows'"
  by (fastforce dest!: tbl_insert_Inr simp: uniq_ok_def violated_None)

lemma uniq_ok_middle:
  "uniq_ok us (seen @ r # rs) \<longleftrightarrow> uniq_ok us (seen @ rs) \<and> violated us (seen @ rs) r = None"
  unfolding uniq_ok_def violated_None by (fastforce simp: image_iff)

lemma update_rows_uniq:
  "update_rows us P f seen rs = Inr rows' \<Longrightarrow> uniq_ok us (seen @ rs) \<Longrightarrow> uniq_ok us rows'"
proof (induction us P f seen rs rule: update_rows.induct)
  case (2 us P f seen r rs)
  then show ?case
    by (auto simp: uniq_ok_middle [of us seen] split: if_splits option.splits)
qed simp

lemma update_rows_map:
  "update_rows us P f seen rs = Inr rows' \<Longrightarrow> rows' = seen @ map (\<lambda>r. if P r then f r else r) rs"
  by (induction us P f seen rs rule: update_rows.induct) (auto split: if_splits option.splits)

lemma tbl_update_Inr:
  "tbl_update us P f rows = Inr rows' \<Longrightarrow> rows' = map (\<lambda>r. if P r then f r else r) rows"
  unfolding tbl_update_def by (drule update_rows_map) simp

lemma tbl_update_uniq: "tbl_update us P f rows = Inr rows' \<Longrightarrow> uniq_ok us rows \<Longrightarrow> uniq_ok us rows'"
  unfolding tbl_update_def by (drule update_rows_uniq) simp_all

lemma tbl_delete_uniq: "uniq_ok us rows \<Longrightarrow> uniq_ok us (tbl_delete P rows)"
  by (auto simp: uniq_ok_def tbl_delete_def distinct_map_filter)

text \<open>An update that keeps every unique column of the rows it changes cannot fail.\<close>

lemma violated_same:
  "\<forall>(n, k) \<in> set us. k r = k r' \<Longrightarrow> violated us rows r = violated us rows r'"
  unfolding violated_def by (induction us) auto

lemma update_rows_succeeds:
  assumes "uniq_ok us (seen @ rs)" "\<forall>r \<in> set rs. P r \<longrightarrow> (\<forall>(n, k) \<in> set us. k (f r) = k r)"
  shows "\<exists>rows'. update_rows us P f seen rs = Inr rows'"
  using assms
proof (induction us P f seen rs rule: update_rows.induct)
  case (2 us P f seen r rs)
  have v: "violated us (seen @ rs) (f r) = violated us (seen @ rs) r" if "P r"
    using 2(4) that by (intro violated_same) auto
  show ?case
    using 2 v by (auto simp: uniq_ok_middle [of us seen])
qed simp

lemma tbl_update_succeeds:
  "uniq_ok us rows \<Longrightarrow> \<forall>r \<in> set rows. P r \<longrightarrow> (\<forall>(n, k) \<in> set us. k (f r) = k r) \<Longrightarrow>
     tbl_update us P f rows = Inr (map (\<lambda>r. if P r then f r else r) rows)"
  using update_rows_succeeds [of us "[]" rows P f]
  by (auto simp: tbl_update_def dest: update_rows_map)

section \<open>Tables with a primary key\<close>

locale keyed_table =
  fixes us :: "'r uniq list" and key :: "'r \<Rightarrow> string" and pk :: string
  assumes key_unique: "(pk, \<lambda>r. [SText (key r)]) \<in> set us"
begin

lemma distinct_keys: "uniq_ok us rows \<Longrightarrow> distinct (map key rows)"
  using key_unique by (auto simp: uniq_ok_def distinct_map inj_on_def)

lemma same_key: "uniq_ok us rows \<Longrightarrow> r \<in> set rows \<Longrightarrow> s \<in> set rows \<Longrightarrow> key r = key s \<Longrightarrow> r = s"
  by (rule distinct_map_same [OF distinct_keys])

lemma find_key: "uniq_ok us rows \<Longrightarrow> r \<in> set rows \<Longrightarrow> find (\<lambda>x. key x = key r) rows = Some r"
  by (rule find_key_eq [OF distinct_keys])

lemma find_after_insert:
  "tbl_insert us r rows = Inr rows' \<Longrightarrow> uniq_ok us rows \<Longrightarrow> find (\<lambda>x. key x = key r) rows' = Some r"
  by (rule find_key [OF tbl_insert_uniq]) (auto dest: tbl_insert_Inr)

lemma find_other_after_insert:
  assumes "tbl_insert us r rows = Inr rows'" "k \<noteq> key r"
  shows "find (\<lambda>x. key x = k) rows' = find (\<lambda>x. key x = k) rows"
proof -
  have "find P (rows @ [r]) = find P rows" if "\<not> P r" for P
    using that by (induction rows) auto
  with assms show ?thesis by (auto dest!: tbl_insert_Inr)
qed

lemma find_after_delete: "find (\<lambda>x. key x = k) (tbl_delete (\<lambda>x. key x = k) rows) = None"
  by (auto simp: find_None_iff tbl_delete_def)

lemma find_after_update:
  assumes "tbl_update us (\<lambda>x. key x = key r) (\<lambda>_. r) rows = Inr rows'" "\<exists>x \<in> set rows. key x = key r"
  shows "find (\<lambda>x. key x = key r) rows' = Some r"
proof -
  have "find (\<lambda>x. key x = key r) (map (\<lambda>x. if key x = key r then r else x) rows) = Some r"
    if "\<exists>x \<in> set rows. key x = key r"
    using that by (induction rows) auto
  with assms show ?thesis by (auto dest!: tbl_update_Inr)
qed

end

end
