(* ===== verification/Schema.thy ===== *)
theory Schema
  imports SqlTable
begin

text \<open>
  The database of \<open>Store.migrate\<close>: one table per \<open>CREATE TABLE\<close> with its rows as the Go records
  they are read into, and its PRIMARY KEY and UNIQUE constraints under the names the driver
  reports. Every table is an instance of \<open>keyed_table\<close>; \<open>db_ok\<close> says that all constraints hold.
\<close>

text \<open>
  A row of \<open>api_tokens\<close> has the token's columns and the hash; the owner's name of \<open>APIToken\<close> is not
  a column, it comes from the join with \<open>users\<close>. A row of \<open>audit_events\<close> has no constraint but its
  automatic id.
\<close>

record api_token_row =
  atr_Token :: api_token
  atr_Hash :: string

record audit_event =
  aud_Actor :: string
  aud_Source :: string
  aud_Action :: string
  aud_Target :: string
  aud_Outcome :: string
  aud_RequestID :: string
  aud_Message :: string
  aud_CreatedAt :: time

record db =
  users :: "user list"
  sessions :: "session list"
  api_tokens :: "api_token_row list"
  vms :: "vm list"
  ssh_keys :: "ssh_key list"
  networks :: "network list"
  ingress_rules :: "ingress_rule list"
  egress_policies :: "egress_policy list"
  base_images :: "base_image list"
  image_build_jobs :: "image_build_job list"
  image_hooks :: "image_hook list"
  kernels :: "kernel list"
  kernel_test_jobs :: "kernel_test_job list"
  kernel_discovery_jobs :: "kernel_discovery_job list"
  kernel_discovery_items :: "kernel_discovery_item list"
  vm_exec_jobs :: "vm_exec_job list"
  audit_events :: "audit_event list"

section \<open>Constraints\<close>

definition users_uniq :: "user uniq list" where
  "users_uniq =
     [(''users.id (1555)'', \<lambda>r. [SText (usr_ID r)]),
      (''users.username (2067)'', \<lambda>r. [SText (usr_Username r)])]"

definition sessions_uniq :: "session uniq list" where
  "sessions_uniq =
     [(''sessions.id (1555)'', \<lambda>r. [SText (ses_ID r)])]"

definition api_tokens_uniq :: "api_token_row uniq list" where
  "api_tokens_uniq =
     [(''api_tokens.id (1555)'', \<lambda>r. [SText (tok_ID (atr_Token r))]),
      (''api_tokens.token_hash (2067)'', \<lambda>r. [SText (atr_Hash r)]),
      (''api_tokens.owner_user_id, api_tokens.name (2067)'',
         \<lambda>r. [SText (tok_OwnerUserID (atr_Token r)), SText (tok_Name (atr_Token r))])]"

definition vms_uniq :: "vm uniq list" where
  "vms_uniq =
     [(''vms.id (1555)'', \<lambda>r. [SText (vm_ID r)]),
      (''vms.name (2067)'', \<lambda>r. [SText (vm_Name r)]),
      (''vms.ssh_port (2067)'', \<lambda>r. [SInt (vm_SSHPort r)]),
      (''vms.tap_name (2067)'', \<lambda>r. [SText (vm_TapName r)]),
      (''vms.guest_ip (2067)'', \<lambda>r. [SText (vm_GuestIP r)])]"

definition ssh_keys_uniq :: "ssh_key uniq list" where
  "ssh_keys_uniq =
     [(''ssh_keys.id (1555)'', \<lambda>r. [SText (key_ID r)]),
      (''ssh_keys.name (2067)'', \<lambda>r. [SText (key_Name r)]),
      (''ssh_keys.fingerprint (2067)'', \<lambda>r. [SText (key_Fingerprint r)])]"

definition networks_uniq :: "network uniq list" where
  "networks_uniq =
     [(''networks.id (1555)'', \<lambda>r. [SText (nw_ID r)]),
      (''networks.name (2067)'', \<lambda>r. [SText (nw_Name r)]),
      (''networks.cidr (2067)'', \<lambda>r. [SText (nw_CIDR r)])]"

definition ingress_rules_uniq :: "ingress_rule uniq list" where
  "ingress_rules_uniq =
     [(''ingress_rules.id (1555)'', \<lambda>r. [SText (ing_ID r)]),
      (''ingress_rules.host_port (2067)'', \<lambda>r. [SInt (ing_HostPort r)])]"

definition egress_policies_uniq :: "egress_policy uniq list" where
  "egress_policies_uniq =
     [(''egress_policies.id (1555)'', \<lambda>r. [SText (ep_ID r)]),
      (''egress_policies.name (2067)'', \<lambda>r. [SText (ep_Name r)])]"

definition base_images_uniq :: "base_image uniq list" where
  "base_images_uniq =
     [(''base_images.id (1555)'', \<lambda>r. [SText (img_ID r)]),
      (''base_images.name (2067)'', \<lambda>r. [SText (img_Name r)]),
      (''base_images.path (2067)'', \<lambda>r. [SText (img_Path r)])]"

definition image_build_jobs_uniq :: "image_build_job uniq list" where
  "image_build_jobs_uniq =
     [(''image_build_jobs.id (1555)'', \<lambda>r. [SText (bj_ID r)])]"

definition image_hooks_uniq :: "image_hook uniq list" where
  "image_hooks_uniq =
     [(''image_hooks.id (1555)'', \<lambda>r. [SText (hook_ID r)]),
      (''image_hooks.name (2067)'', \<lambda>r. [SText (hook_Name r)])]"

definition kernels_uniq :: "kernel uniq list" where
  "kernels_uniq =
     [(''kernels.id (1555)'', \<lambda>r. [SText (krn_ID r)]),
      (''kernels.name (2067)'', \<lambda>r. [SText (krn_Name r)]),
      (''kernels.path (2067)'', \<lambda>r. [SText (krn_Path r)])]"

definition kernel_test_jobs_uniq :: "kernel_test_job uniq list" where
  "kernel_test_jobs_uniq =
     [(''kernel_test_jobs.id (1555)'', \<lambda>r. [SText (ktj_ID r)])]"

definition kernel_discovery_jobs_uniq :: "kernel_discovery_job uniq list" where
  "kernel_discovery_jobs_uniq =
     [(''kernel_discovery_jobs.id (1555)'', \<lambda>r. [SText (kdj_ID r)])]"

definition kernel_discovery_items_uniq :: "kernel_discovery_item uniq list" where
  "kernel_discovery_items_uniq =
     [(''kernel_discovery_items.id (1555)'', \<lambda>r. [SText (kdi_ID r)])]"

definition vm_exec_jobs_uniq :: "vm_exec_job uniq list" where
  "vm_exec_jobs_uniq =
     [(''vm_exec_jobs.id (1555)'', \<lambda>r. [SText (exe_ID r)])]"

interpretation users_tbl: keyed_table users_uniq usr_ID "''users.id (1555)''"
  by unfold_locales (simp add: users_uniq_def)

interpretation sessions_tbl: keyed_table sessions_uniq ses_ID "''sessions.id (1555)''"
  by unfold_locales (simp add: sessions_uniq_def)

interpretation api_tokens_tbl: keyed_table api_tokens_uniq "\<lambda>r. tok_ID (atr_Token r)" "''api_tokens.id (1555)''"
  by unfold_locales (simp add: api_tokens_uniq_def)

interpretation vms_tbl: keyed_table vms_uniq vm_ID "''vms.id (1555)''"
  by unfold_locales (simp add: vms_uniq_def)

interpretation ssh_keys_tbl: keyed_table ssh_keys_uniq key_ID "''ssh_keys.id (1555)''"
  by unfold_locales (simp add: ssh_keys_uniq_def)

interpretation networks_tbl: keyed_table networks_uniq nw_ID "''networks.id (1555)''"
  by unfold_locales (simp add: networks_uniq_def)

interpretation ingress_rules_tbl: keyed_table ingress_rules_uniq ing_ID "''ingress_rules.id (1555)''"
  by unfold_locales (simp add: ingress_rules_uniq_def)

interpretation egress_policies_tbl: keyed_table egress_policies_uniq ep_ID "''egress_policies.id (1555)''"
  by unfold_locales (simp add: egress_policies_uniq_def)

interpretation base_images_tbl: keyed_table base_images_uniq img_ID "''base_images.id (1555)''"
  by unfold_locales (simp add: base_images_uniq_def)

interpretation image_build_jobs_tbl: keyed_table image_build_jobs_uniq bj_ID "''image_build_jobs.id (1555)''"
  by unfold_locales (simp add: image_build_jobs_uniq_def)

interpretation image_hooks_tbl: keyed_table image_hooks_uniq hook_ID "''image_hooks.id (1555)''"
  by unfold_locales (simp add: image_hooks_uniq_def)

interpretation kernels_tbl: keyed_table kernels_uniq krn_ID "''kernels.id (1555)''"
  by unfold_locales (simp add: kernels_uniq_def)

interpretation kernel_test_jobs_tbl: keyed_table kernel_test_jobs_uniq ktj_ID "''kernel_test_jobs.id (1555)''"
  by unfold_locales (simp add: kernel_test_jobs_uniq_def)

interpretation kernel_discovery_jobs_tbl: keyed_table kernel_discovery_jobs_uniq kdj_ID "''kernel_discovery_jobs.id (1555)''"
  by unfold_locales (simp add: kernel_discovery_jobs_uniq_def)

interpretation kernel_discovery_items_tbl: keyed_table kernel_discovery_items_uniq kdi_ID "''kernel_discovery_items.id (1555)''"
  by unfold_locales (simp add: kernel_discovery_items_uniq_def)

interpretation vm_exec_jobs_tbl: keyed_table vm_exec_jobs_uniq exe_ID "''vm_exec_jobs.id (1555)''"
  by unfold_locales (simp add: vm_exec_jobs_uniq_def)

definition db_ok :: "db \<Rightarrow> bool" where
  "db_ok d \<longleftrightarrow>
     uniq_ok users_uniq (users d)
   \<and> uniq_ok sessions_uniq (sessions d)
   \<and> uniq_ok api_tokens_uniq (api_tokens d)
   \<and> uniq_ok vms_uniq (vms d)
   \<and> uniq_ok ssh_keys_uniq (ssh_keys d)
   \<and> uniq_ok networks_uniq (networks d)
   \<and> uniq_ok ingress_rules_uniq (ingress_rules d)
   \<and> uniq_ok egress_policies_uniq (egress_policies d)
   \<and> uniq_ok base_images_uniq (base_images d)
   \<and> uniq_ok image_build_jobs_uniq (image_build_jobs d)
   \<and> uniq_ok image_hooks_uniq (image_hooks d)
   \<and> uniq_ok kernels_uniq (kernels d)
   \<and> uniq_ok kernel_test_jobs_uniq (kernel_test_jobs d)
   \<and> uniq_ok kernel_discovery_jobs_uniq (kernel_discovery_jobs d)
   \<and> uniq_ok kernel_discovery_items_uniq (kernel_discovery_items d)
   \<and> uniq_ok vm_exec_jobs_uniq (vm_exec_jobs d)"

lemmas uniq_defs =
  users_uniq_def
  sessions_uniq_def
  api_tokens_uniq_def
  vms_uniq_def
  ssh_keys_uniq_def
  networks_uniq_def
  ingress_rules_uniq_def
  egress_policies_uniq_def
  base_images_uniq_def
  image_build_jobs_uniq_def
  image_hooks_uniq_def
  kernels_uniq_def
  kernel_test_jobs_uniq_def
  kernel_discovery_jobs_uniq_def
  kernel_discovery_items_uniq_def
  vm_exec_jobs_uniq_def

text \<open>A new database file.\<close>

definition empty_db :: db where
  "empty_db =
     \<lparr>users = [],
      sessions = [],
      api_tokens = [],
      vms = [],
      ssh_keys = [],
      networks = [],
      ingress_rules = [],
      egress_policies = [],
      base_images = [],
      image_build_jobs = [],
      image_hooks = [],
      kernels = [],
      kernel_test_jobs = [],
      kernel_discovery_jobs = [],
      kernel_discovery_items = [],
      vm_exec_jobs = [],
      audit_events = []\<rparr>"

lemma empty_db_ok: "db_ok empty_db"
  by (simp add: db_ok_def empty_db_def)

end
