(* ===== verification/ConfigModel.thy ===== *)
theory ConfigModel
  imports GoTime
begin

text \<open>
  \<open>internal/config/config.go\<close>: the configuration record, its defaults, \<open>Validate\<close> (which fills
  missing values in place and so returns the updated record) and \<open>Load\<close>. The YAML decoder is a
  third-party package: it is the parameter \<open>unmarshal\<close> of \<open>Load\<close>, as is the file's content.
\<close>

section \<open>Records\<close>

record server_config =
  BindAddress :: string
  Port :: int
  MetadataBindAddress :: string
  MetadataPort :: int
  StaticDir :: string
  TrustedHosts :: "string list"
  AllowedOrigins :: "string list"

record database_config =
  Driver :: string
  DSN :: string

record paths_config =
  StateDir :: string
  LogDir :: string
  KeyDir :: string
  RuntimeDir :: string
  ImageDir :: string
  KernelDir :: string
  KernelImage :: string
  BaseImageDir :: string
  BaseRootFS :: string
  JailerBaseDir :: string
  FirecrackerBin :: string
  JailerBin :: string

record network_config =
  Backend :: string
  VMCIDR :: string
  SSHPortRange :: string
  DefaultNetworkMode :: string
  ProtectedHostCIDRs :: "string list"

record security_config =
  SessionIdleTimeout :: duration
  SessionAbsoluteTimeout :: duration
  TerminalRecording :: string

record image_config =
  BuildDir :: string
  HookDir :: string
  MaxBaseImageMiB :: int
  MaxVMRootFSMiB :: int
  MaxHookBytes :: int
  MaxPackages :: int
  BuildTimeout :: duration
  AllowedGitHosts :: "string list"

record kernel_config =
  MaxKernelBytes :: int
  TestTimeout :: duration
  CIScanTimeout :: duration
  CIImportTimeout :: duration
  FirecrackerCIBaseURL :: string

record config =
  Server :: server_config
  Database :: database_config
  Paths :: paths_config
  NetworkCfg :: network_config
  Security :: security_config
  Images :: image_config
  Kernels :: kernel_config

section \<open>Defaults and validation\<close>

definition Defaults :: config where
  "Defaults =
     \<lparr>Server = \<lparr>BindAddress = ''127.0.0.1'', Port = 8080, MetadataBindAddress = ''0.0.0.0'',
        MetadataPort = 18080, StaticDir = ''/usr/local/share/bap-web/static'',
        TrustedHosts = [], AllowedOrigins = []\<rparr>,
      Database = \<lparr>Driver = ''sqlite'', DSN = ''/var/lib/bap-web/bap-web.db''\<rparr>,
      Paths = \<lparr>StateDir = ''/var/lib/bap-web'', LogDir = ''/var/log/bap-web'',
        KeyDir = ''/var/lib/bap-web/keys'', RuntimeDir = ''/var/lib/bap-web/runtime'',
        ImageDir = ''/var/lib/microvms'', KernelDir = ''/var/lib/microvms/kernels'',
        KernelImage = ''/var/lib/microvms/kernels/vmlinux-5.10.bin'',
        BaseImageDir = ''/var/lib/microvms/base'',
        BaseRootFS = ''/var/lib/microvms/base/base-rootfs.ext4'',
        JailerBaseDir = ''/srv/jailer'', FirecrackerBin = ''/usr/local/bin/firecracker'',
        JailerBin = ''/usr/local/bin/jailer''\<rparr>,
      NetworkCfg = \<lparr>Backend = ''nftables'', VMCIDR = ''172.31.0.0/16'',
        SSHPortRange = ''20000-29999'', DefaultNetworkMode = ''routed_ptp'',
        ProtectedHostCIDRs = [''127.0.0.0/8'', ''169.254.169.254/32'']\<rparr>,
      Security = \<lparr>SessionIdleTimeout = 30 * Minute, SessionAbsoluteTimeout = 12 * Hour,
        TerminalRecording = ''metadata''\<rparr>,
      Images = \<lparr>BuildDir = ''/var/lib/bap-web/image-builds'',
        HookDir = ''/var/lib/bap-web/image-hooks'', MaxBaseImageMiB = 32768,
        MaxVMRootFSMiB = 65536, MaxHookBytes = 256 * 1024, MaxPackages = 100,
        BuildTimeout = 45 * Minute, AllowedGitHosts = []\<rparr>,
      Kernels = \<lparr>MaxKernelBytes = 512 * 1024 * 1024, TestTimeout = 5 * Minute,
        CIScanTimeout = 15 * Second, CIImportTimeout = 2 * Minute,
        FirecrackerCIBaseURL = ''https://s3.amazonaws.com/spec.ccfc.min''\<rparr>\<rparr>"

text \<open>\<open>if x == zero { x = d }\<close>.\<close>

definition fill :: "'a \<Rightarrow> 'a \<Rightarrow> 'a \<Rightarrow> 'a" where
  "fill zero d x = (if x = zero then d else x)"

definition fill_server :: "server_config \<Rightarrow> server_config" where
  "fill_server s = s\<lparr>MetadataBindAddress := fill '''' ''0.0.0.0'' (MetadataBindAddress s),
     MetadataPort := fill 0 18080 (MetadataPort s)\<rparr>"

definition fill_images :: "string \<Rightarrow> image_config \<Rightarrow> image_config" where
  "fill_images stateDir i =
     i\<lparr>BuildDir := fill '''' (stateDir @ ''/image-builds'') (BuildDir i),
       HookDir := fill '''' (stateDir @ ''/image-hooks'') (HookDir i),
       MaxBaseImageMiB := fill 0 32768 (MaxBaseImageMiB i),
       MaxVMRootFSMiB := fill 0 65536 (MaxVMRootFSMiB i),
       MaxHookBytes := fill 0 (256 * 1024) (MaxHookBytes i),
       MaxPackages := fill 0 100 (MaxPackages i),
       BuildTimeout := fill 0 (45 * Minute) (BuildTimeout i)\<rparr>"

definition fill_kernels :: "kernel_config \<Rightarrow> kernel_config" where
  "fill_kernels k =
     k\<lparr>MaxKernelBytes := fill 0 (512 * 1024 * 1024) (MaxKernelBytes k),
       TestTimeout := fill 0 (5 * Minute) (TestTimeout k),
       CIScanTimeout := fill 0 (15 * Second) (CIScanTimeout k),
       CIImportTimeout := fill 0 (2 * Minute) (CIImportTimeout k),
       FirecrackerCIBaseURL :=
         fill '''' ''https://s3.amazonaws.com/spec.ccfc.min'' (FirecrackerCIBaseURL k)\<rparr>"

definition Validate :: "config \<Rightarrow> err + config" where
  "Validate c =
     (if BindAddress (Server c) = '''' \<or> Port (Server c) = 0
      then Inl (PlainError ''server bind_address and port are required'')
      else if Driver (Database c) = '''' \<or> DSN (Database c) = ''''
      then Inl (PlainError ''database driver and dsn are required'')
      else if Driver (Database c) \<noteq> ''sqlite''
      then Inl (PlainError (''only sqlite is implemented in v1, got '' @ Quote (Driver (Database c))))
      else Inr (c\<lparr>Server := fill_server (Server c),
        NetworkCfg := (NetworkCfg c)
          \<lparr>DefaultNetworkMode := fill '''' ''routed_ptp'' (DefaultNetworkMode (NetworkCfg c))\<rparr>,
        Images := fill_images (StateDir (Paths c)) (Images c),
        Kernels := fill_kernels (Kernels c)\<rparr>))"

text \<open>
  \<open>Load(path)\<close>: \<open>readFile\<close> is \<open>os.ReadFile\<close>, \<open>unmarshal\<close> decodes over the defaults.
\<close>

definition Load ::
  "(string \<Rightarrow> err + string) \<Rightarrow> (string \<Rightarrow> config \<Rightarrow> err + config) \<Rightarrow> string \<Rightarrow> err + config"
where
  "Load readFile unmarshal path =
     (let cfg = Defaults
      in if path \<noteq> ''''
         then (case readFile path of
                 Inl e \<Rightarrow> Inl e
               | Inr b \<Rightarrow> (case unmarshal b cfg of Inl e \<Rightarrow> Inl e | Inr cfg' \<Rightarrow> Validate cfg'))
         else Validate cfg)"

definition Addr :: "server_config \<Rightarrow> string" where
  "Addr s = BindAddress s @ '':'' @ Itoa (Port s)"

section \<open>What a loaded configuration guarantees\<close>

text \<open>The state the rest of the service relies on: every limit and default is set.\<close>

definition config_ok :: "config \<Rightarrow> bool" where
  "config_ok c \<longleftrightarrow>
     BindAddress (Server c) \<noteq> '''' \<and> Port (Server c) \<noteq> 0
   \<and> MetadataBindAddress (Server c) \<noteq> '''' \<and> MetadataPort (Server c) \<noteq> 0
   \<and> Driver (Database c) = ''sqlite'' \<and> DSN (Database c) \<noteq> ''''
   \<and> DefaultNetworkMode (NetworkCfg c) \<noteq> ''''
   \<and> BuildDir (Images c) \<noteq> '''' \<and> HookDir (Images c) \<noteq> ''''
   \<and> MaxBaseImageMiB (Images c) \<noteq> 0 \<and> MaxVMRootFSMiB (Images c) \<noteq> 0
   \<and> MaxHookBytes (Images c) \<noteq> 0 \<and> MaxPackages (Images c) \<noteq> 0 \<and> BuildTimeout (Images c) \<noteq> 0
   \<and> MaxKernelBytes (Kernels c) \<noteq> 0 \<and> TestTimeout (Kernels c) \<noteq> 0
   \<and> CIScanTimeout (Kernels c) \<noteq> 0 \<and> CIImportTimeout (Kernels c) \<noteq> 0
   \<and> FirecrackerCIBaseURL (Kernels c) \<noteq> ''''"

lemma fill_neq [simp]: "d \<noteq> zero \<Longrightarrow> fill zero d x \<noteq> zero"
  by (simp add: fill_def)

lemma fill_same [simp]: "x \<noteq> zero \<Longrightarrow> fill zero d x = x"
  by (simp add: fill_def)

lemma time_units [simp]: "Second \<noteq> 0" "Minute \<noteq> 0" "Hour \<noteq> 0"
  by (simp_all add: Second_def Minute_def Hour_def)

lemma Validate_ok: "Validate c = Inr c' \<Longrightarrow> config_ok c'"
  by (auto simp: Validate_def config_ok_def fill_server_def fill_images_def fill_kernels_def
      split: if_splits)

lemma Validate_id: "config_ok c \<Longrightarrow> Validate c = Inr c"
  by (simp add: Validate_def config_ok_def fill_server_def fill_images_def fill_kernels_def)

lemma Defaults_ok: "config_ok Defaults"
  by (simp add: config_ok_def Defaults_def)

end
