(* ===== verification/World.thy ===== *)
theory World
  imports Schema ConfigModel
begin

text \<open>
  The state the service runs in and the shape of its functions. A Go function that returns
  \<open>(T, error)\<close> is a function from the world to an error or a value and the next world. The host
  (clock, random source, SQLite engine, commands, file system, network) answers each effect; its
  answer may depend on everything done so far, and every theorem holds for every host. The
  combinators are Go's control flow; the triples \<open>triple\<close> and their rules carry the proofs of the
  component theories.
\<close>

section \<open>Effects and hosts\<close>

text \<open>
  \<open>Sql\<close> is one statement, \<open>Stat\<close> is \<open>os.Stat\<close>, \<open>Exec\<close> is \<open>exec.CommandContext(..).CombinedOutput()\<close> or \<open>Run()\<close>, \<open>Output\<close>
  is \<open>.Output()\<close>, \<open>Spawn\<close> is \<open>cmd.Start()\<close>, \<open>Os\<close> is a call of the \<open>os\<close> package by its name, \<open>Listen\<close>
  is \<open>net.Listen\<close> on a loopback port, \<open>Http\<close> is a request (method, host or socket, path) with a JSON
  object, \<open>Ssh\<close> is an operation of the ssh client, \<open>Lib\<close> one of another library, \<open>Sleep\<close> is a wait and \<open>Go\<close> the start of a
  goroutine.
\<close>

datatype json = JStr string | JInt int | JBool bool

datatype effect =
    Clock
  | Random nat
  | Sql string
  | Exec string "string list"
  | Output string "string list"
  | Spawn string "string list"
  | Os string "string list"
  | Listen int
  | Stat string
  | Http string string string "(string \<times> json) list"
  | Ssh string "string list"
  | Lib string "string list"
  | Sleep duration
  | Go string "string list"

text \<open>
  A reply is a text, a failure with the error's text and what the command printed, or an HTTP
  response with its status code, status line and body. \<open>os.Stat\<close> answers with the file's data, says
  that the file does not exist (\<open>errors.Is(err, os.ErrNotExist)\<close>), or fails otherwise; a missing file
  of another call of package \<open>os\<close> is a failure that printed \<open>ENOENT\<close>.
\<close>

datatype reply = Ok string | Fail string string | Response nat string string

record file_info =
  fi_Size :: int
  fi_Mode :: nat
  fi_IsDir :: bool
  fi_IsSocket :: bool
  fi_Blocks :: int

datatype stat_reply = Found file_info | Missing string | StatFailed string

text \<open>
  What \<open>session.Run\<close> of an ssh session gives: the writes of the command to its two streams, in order,
  the error of \<open>Run\<close> (an exit status of the command or any other error), and whether the context of the
  call was done before the command was.
\<close>

datatype run_error = ExitError int | OtherError string

record ssh_outcome =
  run_stdout :: "string list"
  run_stderr :: "string list"
  run_result :: "run_error option"
  run_cut :: bool

record host =
  clock :: "effect list \<Rightarrow> time"
  random_hex :: "effect list \<Rightarrow> nat \<Rightarrow> string"
  answer :: "effect list \<Rightarrow> effect \<Rightarrow> reply"
  stat_of :: "effect list \<Rightarrow> string \<Rightarrow> stat_reply"
  ssh_run :: "effect list \<Rightarrow> string \<Rightarrow> ssh_outcome"

section \<open>The world\<close>

record terminal_key =
  tk_VMID :: string
  tk_User :: string
  tk_PublicKey :: string
  tk_ExpiresAt :: time

text \<open>
  \<open>terminalKeys\<close> and \<open>execCancels\<close> are the fields of \<open>lifecycle.Service\<close>; a cancel function is known
  by its job. \<open>trail\<close> has the effects performed, the latest first.
\<close>

record world =
  database :: db
  cfg :: config
  terminalKeys :: "terminal_key list"
  execCancels :: "string list"
  canceledCtx :: "string list"
  host_of :: host
  trail :: "effect list"

type_synonym 'a io = "world \<Rightarrow> (err + 'a) \<times> world"

section \<open>Control flow\<close>

definition returnE :: "'a \<Rightarrow> 'a io" where
  "returnE x = (\<lambda>w. (Inr x, w))"

definition throwE :: "err \<Rightarrow> 'a io" where
  "throwE e = (\<lambda>w. (Inl e, w))"

text \<open>\<open>x, err := m(); if err != nil { return err }\<close>.\<close>

definition bindE :: "'a io \<Rightarrow> ('a \<Rightarrow> 'b io) \<Rightarrow> 'b io" where
  "bindE m f = (\<lambda>w. case m w of (Inl e, w') \<Rightarrow> (Inl e, w') | (Inr x, w') \<Rightarrow> f x w')"

definition seqE :: "'a io \<Rightarrow> 'b io \<Rightarrow> 'b io" where
  "seqE m n = bindE m (\<lambda>_. n)"

text \<open>\<open>x, err := m()\<close> with the error kept as a value.\<close>

definition tryE :: "'a io \<Rightarrow> (err + 'a) io" where
  "tryE m = (\<lambda>w. case m w of (r, w') \<Rightarrow> (Inr r, w'))"

text \<open>\<open>_ = m()\<close>.\<close>

definition ignoreE :: "'a io \<Rightarrow> unit io" where
  "ignoreE m = bindE (tryE m) (\<lambda>_. returnE ())"

definition liftE :: "(err + 'a) \<Rightarrow> 'a io" where
  "liftE r = (\<lambda>w. (r, w))"

definition whenE :: "bool \<Rightarrow> unit io \<Rightarrow> unit io" where
  "whenE b m = (if b then m else returnE ())"

text \<open>\<open>if bad { return err }\<close>.\<close>

definition failIf :: "bool \<Rightarrow> err \<Rightarrow> unit io" where
  "failIf b e = (if b then throwE e else returnE ())"

fun forE :: "'a list \<Rightarrow> ('a \<Rightarrow> unit io) \<Rightarrow> unit io" where
  "forE [] f = returnE ()"
| "forE (x # xs) f = seqE (f x) (forE xs f)"

fun mapE :: "('a \<Rightarrow> 'b io) \<Rightarrow> 'a list \<Rightarrow> 'b list io" where
  "mapE f [] = returnE []"
| "mapE f (x # xs) = bindE (f x) (\<lambda>y. bindE (mapE f xs) (\<lambda>ys. returnE (y # ys)))"

fun foldE :: "('s \<Rightarrow> 'a \<Rightarrow> 's io) \<Rightarrow> 's \<Rightarrow> 'a list \<Rightarrow> 's io" where
  "foldE f s [] = returnE s"
| "foldE f s (x # xs) = bindE (f s x) (\<lambda>s'. foldE f s' xs)"

text \<open>\<open>defer d()\<close> around \<open>m\<close>: \<open>d\<close> runs on every exit and cannot change the result.\<close>

definition deferE :: "unit io \<Rightarrow> 'a io \<Rightarrow> 'a io" where
  "deferE d m = (\<lambda>w. case m w of (r, w') \<Rightarrow> (r, snd (d w')))"

section \<open>Primitive operations\<close>

definition getsW :: "(world \<Rightarrow> 'a) \<Rightarrow> 'a io" where
  "getsW f = (\<lambda>w. (Inr (f w), w))"

definition modifyW :: "(world \<Rightarrow> world) \<Rightarrow> unit io" where
  "modifyW f = (\<lambda>w. (Inr (), f w))"

definition config_get :: "(config \<Rightarrow> 'a) \<Rightarrow> 'a io" where
  "config_get f = getsW (\<lambda>w. f (cfg w))"

definition ask :: "effect \<Rightarrow> reply io" where
  "ask e = (\<lambda>w. (Inr (answer (host_of w) (trail w) e), w\<lparr>trail := e # trail w\<rparr>))"

text \<open>\<open>time.Now().UTC()\<close> and \<open>random.Hex\<close>.\<close>

definition Now :: "time io" where
  "Now = (\<lambda>w. (Inr (clock (host_of w) (trail w)), w\<lparr>trail := Clock # trail w\<rparr>))"

definition Hex :: "nat \<Rightarrow> string io" where
  "Hex n = (\<lambda>w. (Inr (random_hex (host_of w) (trail w) n), w\<lparr>trail := Random n # trail w\<rparr>))"

text \<open>\<open>os.Stat\<close>, with the error kept as a value.\<close>

definition stat :: "string \<Rightarrow> stat_reply io" where
  "stat path = (\<lambda>w. (Inr (stat_of (host_of w) (trail w) path), w\<lparr>trail := Stat path # trail w\<rparr>))"

text \<open>An effect that fails with the host's error text.\<close>

definition perform :: "effect \<Rightarrow> string io" where
  "perform e =
     bindE (ask e) (\<lambda>r. case r of
         Ok out \<Rightarrow> returnE out
       | Fail m out \<Rightarrow> throwE (PlainError m)
       | Response c status body \<Rightarrow> returnE body)"

definition do_effect :: "effect \<Rightarrow> unit io" where
  "do_effect e = seqE (perform e) (returnE ())"

text \<open>A query and a statement that changes the database; either may fail in the engine.\<close>

definition query :: "string \<Rightarrow> (db \<Rightarrow> 'a) \<Rightarrow> 'a io" where
  "query q f = seqE (perform (Sql q)) (getsW (\<lambda>w. f (database w)))"

definition exec :: "string \<Rightarrow> (db \<Rightarrow> err + db) \<Rightarrow> unit io" where
  "exec q f =
     seqE (perform (Sql q))
       (\<lambda>w. case f (database w) of Inl e \<Rightarrow> (Inl e, w) | Inr d \<Rightarrow> (Inr (), w\<lparr>database := d\<rparr>))"

text \<open>\<open>run\<close> and \<open>runShell\<close> of \<open>internal/lifecycle/service.go\<close>.\<close>

definition run :: "string \<Rightarrow> string list \<Rightarrow> unit io" where
  "run name args =
     bindE (ask (Exec name args)) (\<lambda>r. case r of
         Fail m out \<Rightarrow>
           throwE (PlainError (name @ '' '' @ join '' '' args @ '': '' @ m @ '': '' @ TrimSpace out))
       | _ \<Rightarrow> returnE ())"

definition runShell :: "string \<Rightarrow> unit io" where
  "runShell command =
     bindE (ask (Exec ''bash'' [''-lc'', command])) (\<lambda>r. case r of
         Fail m out \<Rightarrow> throwE (PlainError (command @ '': '' @ m @ '': '' @ TrimSpace out))
       | _ \<Rightarrow> returnE ())"

definition commandOK :: "string \<Rightarrow> string list \<Rightarrow> unit io" where
  "commandOK name args = run name args"

section \<open>Computations that leave the database alone\<close>

text \<open>A computation that leaves the database, the configuration and the host alone, whatever it returns.\<close>

definition ro_io :: "'a io \<Rightarrow> bool" where
  "ro_io m \<longleftrightarrow> (\<forall>w. database (snd (m w)) = database w \<and> cfg (snd (m w)) = cfg w \<and> host_of (snd (m w)) = host_of w)"

lemmas flow_defs = returnE_def throwE_def bindE_def seqE_def tryE_def ignoreE_def liftE_def
  whenE_def failIf_def deferE_def getsW_def modifyW_def config_get_def

lemma bindE_Inl [io_run]:
  "bindE m f w = (Inl e, w') \<longleftrightarrow>
     m w = (Inl e, w') \<or> (\<exists>x v. m w = (Inr x, v) \<and> f x v = (Inl e, w'))"
  by (auto simp: bindE_def split: prod.splits sum.splits)

lemma bindE_Inr [io_run]:
  "bindE m f w = (Inr y, w') \<longleftrightarrow> (\<exists>x v. m w = (Inr x, v) \<and> f x v = (Inr y, w'))"
  by (auto simp: bindE_def split: prod.splits sum.splits)

lemma seqE_Inl [io_run]:
  "seqE m n w = (Inl e, w') \<longleftrightarrow>
     m w = (Inl e, w') \<or> (\<exists>x v. m w = (Inr x, v) \<and> n v = (Inl e, w'))"
  by (simp add: seqE_def bindE_Inl)

lemma seqE_Inr [io_run]:
  "seqE m n w = (Inr y, w') \<longleftrightarrow> (\<exists>x v. m w = (Inr x, v) \<and> n v = (Inr y, w'))"
  by (simp add: seqE_def bindE_Inr)

lemma tryE_run [io_run]: "tryE m w = (r, w') \<longleftrightarrow> (\<exists>x. r = Inr x \<and> m w = (x, w'))"
  by (auto simp: tryE_def split: prod.splits)

lemma deferE_run [io_run]: "deferE d m w = (r, w') \<longleftrightarrow> (\<exists>v. m w = (r, v) \<and> w' = snd (d v))"
  by (auto simp: deferE_def split: prod.splits)

lemma ro_ioD: "ro_io m \<Longrightarrow> m w = (r, w') \<Longrightarrow> database w' = database w \<and> cfg w' = cfg w"
  unfolding ro_io_def by (metis snd_conv)

lemma ro_io_run: "ro_io m \<Longrightarrow> m w = (r, w') \<Longrightarrow> database w' = database w \<and> cfg w' = cfg w \<and> host_of w' = host_of w"
  unfolding ro_io_def by (metis snd_conv)

lemma ro_host: "ro_io m \<Longrightarrow> m w = (r, w') \<Longrightarrow> host_of w' = host_of w"
  using ro_io_run by blast

lemma ro_ioI:
  "(\<And>w r w'. m w = (r, w') \<Longrightarrow> database w' = database w \<and> cfg w' = cfg w \<and> host_of w' = host_of w) \<Longrightarrow> ro_io m"
  unfolding ro_io_def by (metis prod.collapse)

lemma ro_return [ro]: "ro_io (returnE x)" by (simp add: ro_io_def returnE_def)
lemma ro_throw [ro]: "ro_io (throwE e)" by (simp add: ro_io_def throwE_def)
lemma ro_lift [ro]: "ro_io (liftE r)" by (simp add: ro_io_def liftE_def)
lemma ro_gets [ro]: "ro_io (getsW f)" by (simp add: ro_io_def getsW_def)
lemma ro_config [ro]: "ro_io (config_get f)" by (simp add: config_get_def ro_gets)
lemma ro_ask [ro]: "ro_io (ask e)" by (simp add: ro_io_def ask_def)
lemma ro_stat [ro]: "ro_io (stat path)" by (simp add: ro_io_def stat_def)
lemma ro_Now [ro]: "ro_io Now" by (simp add: ro_io_def Now_def)
lemma ro_Hex [ro]: "ro_io (Hex n)" by (simp add: ro_io_def Hex_def)

lemma ro_bind [ro]: "ro_io m \<Longrightarrow> (\<And>x. ro_io (f x)) \<Longrightarrow> ro_io (bindE m f)"
proof (rule ro_ioI)
  fix w r w'
  assume m: "ro_io m" and f: "\<And>x. ro_io (f x)" and "bindE m f w = (r, w')"
  then show "database w' = database w \<and> cfg w' = cfg w \<and> host_of w' = host_of w"
    by (cases r) (auto simp: io_run dest!: ro_io_run [OF m] ro_io_run [OF f])
qed

lemma ro_seq [ro]: "ro_io m \<Longrightarrow> ro_io n \<Longrightarrow> ro_io (seqE m n)"
  unfolding seqE_def by (rule ro_bind)

lemma ro_try [ro]: "ro_io m \<Longrightarrow> ro_io (tryE m)"
  by (rule ro_ioI) (auto simp: tryE_def dest!: ro_io_run split: prod.splits)

lemma ro_ignore [ro]: "ro_io m \<Longrightarrow> ro_io (ignoreE m)"
  unfolding ignoreE_def by (intro ro)

lemma ro_when [ro]: "ro_io m \<Longrightarrow> ro_io (whenE b m)"
  by (simp add: whenE_def ro_return)

lemma ro_failIf [ro]: "ro_io (failIf b e)"
  by (simp add: failIf_def ro_return ro_throw)

lemma ro_defer [ro]: "ro_io d \<Longrightarrow> ro_io m \<Longrightarrow> ro_io (deferE d m)"
proof (rule ro_ioI)
  fix w r w'
  assume d: "ro_io d" and m: "ro_io m" and "deferE d m w = (r, w')"
  then obtain v where "m w = (r, v)" "w' = snd (d v)" by (auto simp: io_run)
  with d show "database w' = database w \<and> cfg w' = cfg w \<and> host_of w' = host_of w"
    by (auto simp: ro_io_def dest!: ro_io_run [OF m])
qed

lemma ro_for [ro]: "(\<And>x. ro_io (f x)) \<Longrightarrow> ro_io (forE xs f)"
  by (induction xs) (auto intro: ro)

lemma ro_map [ro]: "(\<And>x. ro_io (f x)) \<Longrightarrow> ro_io (mapE f xs)"
  by (induction xs) (auto intro!: ro)

lemma ro_fold [ro]: "(\<And>s x. ro_io (f s x)) \<Longrightarrow> ro_io (foldE f s xs)"
  by (induction xs arbitrary: s) (auto intro!: ro)

lemma ro_perform [ro]: "ro_io (perform e)"
  unfolding perform_def by (intro ro) (auto split: reply.splits intro: ro)

lemma ro_do_effect [ro]: "ro_io (do_effect e)"
  unfolding do_effect_def by (intro ro)

lemma ro_query [ro]: "ro_io (query q f)"
  unfolding query_def by (intro ro)

lemma ro_run [ro]: "ro_io (run name args)"
  unfolding run_def by (intro ro) (auto split: reply.splits intro: ro)

lemma ro_runShell [ro]: "ro_io (runShell command)"
  unfolding runShell_def by (intro ro) (auto split: reply.splits intro: ro)

lemma ro_commandOK [ro]: "ro_io (commandOK name args)"
  unfolding commandOK_def by (intro ro)

text \<open>Case distinctions inside a program.\<close>

lemma ro_if [ro]: "ro_io m \<Longrightarrow> ro_io n \<Longrightarrow> ro_io (if b then m else n)" by simp
lemma ro_option [ro]: "ro_io m \<Longrightarrow> (\<And>x. ro_io (f x)) \<Longrightarrow> ro_io (case r of None \<Rightarrow> m | Some x \<Rightarrow> f x)"
  by (cases r) auto
lemma ro_sum [ro]:
  "(\<And>x. ro_io (f x)) \<Longrightarrow> (\<And>x. ro_io (g x)) \<Longrightarrow> ro_io (case r of Inl x \<Rightarrow> f x | Inr x \<Rightarrow> g x)"
  by (cases r) auto
lemma ro_prod [ro]: "(\<And>x y. ro_io (f x y)) \<Longrightarrow> ro_io (case r of (x, y) \<Rightarrow> f x y)"
  by (cases r) auto
lemma ro_let [ro]: "(\<And>x. ro_io (f x)) \<Longrightarrow> ro_io (let x = t in f x)" by simp
lemma ro_reply [ro]:
  "(\<And>x. ro_io (f x)) \<Longrightarrow> (\<And>x y. ro_io (g x y)) \<Longrightarrow>
     (\<And>x y z. ro_io (h x y z)) \<Longrightarrow>
     ro_io (case r of Ok x \<Rightarrow> f x | Fail x y \<Rightarrow> g x y | Response x y z \<Rightarrow> h x y z)"
  by (cases r) auto
lemma ro_stat_reply [ro]:
  "(\<And>x. ro_io (f x)) \<Longrightarrow> (\<And>x. ro_io (g x)) \<Longrightarrow> (\<And>x. ro_io (h x)) \<Longrightarrow>
     ro_io (case r of Found x \<Rightarrow> f x | Missing x \<Rightarrow> g x | StatFailed x \<Rightarrow> h x)"
  by (cases r) auto

lemma exec_Inl [io_run]:
  "exec q f w = (Inl e, w') \<longleftrightarrow> perform (Sql q) w = (Inl e, w') \<or>
     (\<exists>x. perform (Sql q) w = (Inr x, w') \<and> f (database w') = Inl e)"
proof -
  have "(case f (database v) of Inl e \<Rightarrow> (Inl e, v) | Inr d \<Rightarrow> (Inr (), v\<lparr>database := d\<rparr>)) = (Inl e, w')
      \<longleftrightarrow> v = w' \<and> f (database v) = Inl e" for v
    by (cases "f (database v)") auto
  then show ?thesis by (auto simp: exec_def seqE_Inl)
qed

lemma exec_Inr [io_run]:
  "exec q f w = (Inr y, w') \<longleftrightarrow>
     (\<exists>x v d. perform (Sql q) w = (Inr x, v) \<and> f (database v) = Inr d \<and> w' = v\<lparr>database := d\<rparr>)"
proof -
  have "(case f (database v) of Inl e \<Rightarrow> (Inl e, v) | Inr d \<Rightarrow> (Inr (), v\<lparr>database := d\<rparr>)) = (Inr y, w')
      \<longleftrightarrow> (\<exists>d. f (database v) = Inr d \<and> w' = v\<lparr>database := d\<rparr>)" for v
    by (cases "f (database v)") auto
  then show ?thesis by (auto simp: exec_def seqE_Inr)
qed

lemma liftE_run [io_run]: "liftE r w = (s, w') \<longleftrightarrow> r = s \<and> w' = w"
  by (auto simp: liftE_def)

lemma config_get_run [io_run]: "config_get f w = (s, w') \<longleftrightarrow> s = Inr (f (cfg w)) \<and> w' = w"
  by (auto simp: config_get_def getsW_def)

lemma returnE_run [io_run]: "returnE x w = (s, w') \<longleftrightarrow> s = Inr x \<and> w' = w"
  by (auto simp: returnE_def)

lemma throwE_run [io_run]: "throwE e w = (s, w') \<longleftrightarrow> s = Inl e \<and> w' = w"
  by (auto simp: throwE_def)

lemma query_run [io_run]:
  "query q f w = (Inr x, w') \<longleftrightarrow> (\<exists>y. perform (Sql q) w = (Inr y, w')) \<and> x = f (database w)"
proof -
  have "database w' = database w" if "perform (Sql q) w = (Inr y, w')" for y
    using ro_ioD [OF ro_perform that] by simp
  then show ?thesis by (auto simp: query_def seqE_Inr getsW_def)
qed

lemma ask_run [io_run]:
  "ask e w = (r, w') \<longleftrightarrow> r = Inr (answer (host_of w) (trail w) e) \<and> w' = w\<lparr>trail := e # trail w\<rparr>"
  by (auto simp: ask_def)

lemma failIf_Inr [io_run]: "failIf b e w = (Inr y, w') \<longleftrightarrow> \<not> b \<and> w' = w"
  by (auto simp: failIf_def returnE_def throwE_def)

lemma failIf_Inl [io_run]: "failIf b e w = (Inl e', w') \<longleftrightarrow> b \<and> e' = e \<and> w' = w"
  by (auto simp: failIf_def returnE_def throwE_def)

text \<open>Case distinctions of a program, as cases of its run.\<close>

lemma if_run [io_run]:
  "(if b then m else n) w = (r, w') \<longleftrightarrow> b \<and> m w = (r, w') \<or> \<not> b \<and> n w = (r, w')"
  by simp

lemma option_run [io_run]:
  "(case t of None \<Rightarrow> m | Some x \<Rightarrow> f x) w = (r, w') \<longleftrightarrow>
     t = None \<and> m w = (r, w') \<or> (\<exists>x. t = Some x \<and> f x w = (r, w'))"
  by (cases t) auto

lemma sum_run [io_run]:
  "(case t of Inl x \<Rightarrow> f x | Inr y \<Rightarrow> g y) w = (r, w') \<longleftrightarrow>
     (\<exists>x. t = Inl x \<and> f x w = (r, w')) \<or> (\<exists>y. t = Inr y \<and> g y w = (r, w'))"
  by (cases t) auto

lemma prod_run [io_run]:
  "(case t of (x, y) \<Rightarrow> f x y) w = (r, w') \<longleftrightarrow> (\<exists>x y. t = (x, y) \<and> f x y w = (r, w'))"
  by (cases t) auto

lemma reply_run [io_run]:
  "(case t of Ok x \<Rightarrow> f x | Fail x y \<Rightarrow> g x y | Response x y z \<Rightarrow> h x y z) w = (r, w') \<longleftrightarrow>
     (\<exists>x. t = Ok x \<and> f x w = (r, w')) \<or> (\<exists>x y. t = Fail x y \<and> g x y w = (r, w'))
     \<or> (\<exists>x y z. t = Response x y z \<and> h x y z w = (r, w'))"
  by (cases t) auto

lemma whenE_run [io_run]:
  "whenE b m w = (r, w') \<longleftrightarrow> b \<and> m w = (r, w') \<or> \<not> b \<and> r = Inr () \<and> w' = w"
  by (auto simp: whenE_def returnE_def)

section \<open>Parts of the world that a computation leaves alone\<close>

text \<open>\<open>stable f m\<close>: no run of \<open>m\<close> changes \<open>f\<close> of the world; one set of rules for every \<open>f\<close>.\<close>

definition stable :: "(world \<Rightarrow> 'b) \<Rightarrow> 'a io \<Rightarrow> bool" where
  "stable f m \<longleftrightarrow> (\<forall>w. f (snd (m w)) = f w)"

lemma stableD: "stable f m \<Longrightarrow> m w = (r, w') \<Longrightarrow> f w' = f w"
  unfolding stable_def by (metis snd_conv)

lemma stable_return [stable]: "stable f (returnE x)" by (simp add: stable_def returnE_def)
lemma stable_throw [stable]: "stable f (throwE e)" by (simp add: stable_def throwE_def)
lemma stable_lift [stable]: "stable f (liftE r)" by (simp add: stable_def liftE_def)
lemma stable_gets [stable]: "stable f (getsW g)" by (simp add: stable_def getsW_def)
lemma stable_config [stable]: "stable f (config_get g)" by (simp add: config_get_def stable_gets)

lemma stable_bind [stable]: "stable f m \<Longrightarrow> (\<And>x. stable f (g x)) \<Longrightarrow> stable f (bindE m g)"
  unfolding stable_def bindE_def by (auto split: prod.splits sum.splits) (metis snd_conv)+

lemma stable_seq [stable]: "stable f m \<Longrightarrow> stable f n \<Longrightarrow> stable f (seqE m n)"
  unfolding seqE_def by (rule stable_bind)

lemma stable_try [stable]: "stable f m \<Longrightarrow> stable f (tryE m)"
  unfolding stable_def tryE_def by (auto split: prod.splits) (metis snd_conv)

lemma stable_ignore [stable]: "stable f m \<Longrightarrow> stable f (ignoreE m)"
  unfolding ignoreE_def by (intro stable)

lemma stable_when [stable]: "stable f m \<Longrightarrow> stable f (whenE b m)" by (simp add: whenE_def stable_return)
lemma stable_failIf [stable]: "stable f (failIf b e)" by (simp add: failIf_def stable_return stable_throw)

lemma stable_defer [stable]: "stable f d \<Longrightarrow> stable f m \<Longrightarrow> stable f (deferE d m)"
  unfolding stable_def deferE_def by (auto split: prod.splits) (metis snd_conv)

lemma stable_for [stable]: "(\<And>x. stable f (g x)) \<Longrightarrow> stable f (forE xs g)"
  by (induction xs) (auto intro: stable)

lemma stable_if [stable]: "stable f m \<Longrightarrow> stable f n \<Longrightarrow> stable f (if b then m else n)" by simp
lemma stable_option [stable]: "stable f m \<Longrightarrow> (\<And>x. stable f (g x)) \<Longrightarrow> stable f (case r of None \<Rightarrow> m | Some x \<Rightarrow> g x)"
  by (cases r) auto
lemma stable_sum [stable]:
  "(\<And>x. stable f (g x)) \<Longrightarrow> (\<And>x. stable f (h x)) \<Longrightarrow> stable f (case r of Inl x \<Rightarrow> g x | Inr x \<Rightarrow> h x)"
  by (cases r) auto
lemma stable_prod [stable]: "(\<And>x y. stable f (g x y)) \<Longrightarrow> stable f (case r of (x, y) \<Rightarrow> g x y)"
  by (cases r) auto
lemma stable_let [stable]: "(\<And>x. stable f (g x)) \<Longrightarrow> stable f (let x = t in g x)" by simp
lemma stable_reply [stable]:
  "(\<And>x. stable f (g x)) \<Longrightarrow> (\<And>x y. stable f (h x y)) \<Longrightarrow> (\<And>x y z. stable f (k x y z)) \<Longrightarrow>
     stable f (case r of Ok x \<Rightarrow> g x | Fail x y \<Rightarrow> h x y | Response x y z \<Rightarrow> k x y z)"
  by (cases r) auto

text \<open>What ignores the trail is not changed by an effect, nor is what ignores this effect.\<close>

definition blind :: "(world \<Rightarrow> 'b) \<Rightarrow> effect \<Rightarrow> bool" where
  "blind f e \<longleftrightarrow> (\<forall>w. f (w\<lparr>trail := e # trail w\<rparr>) = f w)"

lemma stable_ask [stable]: "blind f e \<Longrightarrow> stable f (ask e)" by (simp add: stable_def ask_def blind_def)
lemma stable_Now [stable]: "blind f Clock \<Longrightarrow> stable f Now" by (simp add: stable_def Now_def blind_def)
lemma stable_Hex [stable]: "blind f (Random n) \<Longrightarrow> stable f (Hex n)" by (simp add: stable_def Hex_def blind_def)
lemma stable_stat [stable]: "blind f (Stat p) \<Longrightarrow> stable f (stat p)" by (simp add: stable_def stat_def blind_def)
lemma stable_perform [stable]: "blind f e \<Longrightarrow> stable f (perform e)"
  unfolding perform_def by (intro stable) simp
lemma stable_do_effect [stable]: "blind f e \<Longrightarrow> stable f (do_effect e)"
  unfolding do_effect_def by (intro stable) simp
lemma stable_query [stable]: "blind f (Sql q) \<Longrightarrow> stable f (query q g)"
  unfolding query_def by (intro stable) simp

text \<open>A host whose database engine answers every statement.\<close>

definition sql_ok :: "host \<Rightarrow> bool" where
  "sql_ok h \<longleftrightarrow> (\<forall>t q. \<exists>out. answer h t (Sql q) = Ok out)"

lemma perform_sql_ok:
  "sql_ok (host_of w) \<Longrightarrow> \<exists>out. perform (Sql q) w = (Inr out, w\<lparr>trail := Sql q # trail w\<rparr>)"
  unfolding sql_ok_def perform_def bindE_def ask_def
  by (drule spec [of _ "trail w"], drule spec [of _ q]) (auto simp: returnE_def)

lemma query_ok:
  "sql_ok (host_of w) \<Longrightarrow> query q f w = (Inr (f (database w)), w\<lparr>trail := Sql q # trail w\<rparr>)"
  using perform_sql_ok [of w q] by (auto simp: query_def seqE_def bindE_def getsW_def)

lemma exec_ok:
  "sql_ok (host_of w) \<Longrightarrow> exec q f w =
     (case f (database w) of
        Inl e \<Rightarrow> (Inl e, w\<lparr>trail := Sql q # trail w\<rparr>)
      | Inr d \<Rightarrow> (Inr (), w\<lparr>trail := Sql q # trail w, database := d\<rparr>))"
  using perform_sql_ok [of w q] by (auto simp: exec_def seqE_def bindE_def split: sum.splits)

section \<open>Triples over the database\<close>

text \<open>
  \<open>triple I D m Q\<close>: started in a database with \<open>D\<close>, a run of \<open>m\<close> that returns \<open>x\<close> ends in one with
  \<open>Q x\<close>, and a run that fails ends in one with \<open>I\<close>.
\<close>

definition triple ::
  "(db \<Rightarrow> bool) \<Rightarrow> (db \<Rightarrow> bool) \<Rightarrow> 'a io \<Rightarrow> ('a \<Rightarrow> db \<Rightarrow> bool) \<Rightarrow> bool"
where
  "triple I D m Q \<longleftrightarrow>
     (\<forall>w. D (database w) \<longrightarrow>
        (case m w of (Inl e, w') \<Rightarrow> I (database w') | (Inr x, w') \<Rightarrow> Q x (database w')))"

lemma tripleI:
  "(\<And>w e w'. D (database w) \<Longrightarrow> m w = (Inl e, w') \<Longrightarrow> I (database w')) \<Longrightarrow>
   (\<And>w x w'. D (database w) \<Longrightarrow> m w = (Inr x, w') \<Longrightarrow> Q x (database w')) \<Longrightarrow> triple I D m Q"
  unfolding triple_def by (auto split: prod.splits sum.splits)

lemma triple_err: "triple I D m Q \<Longrightarrow> D (database w) \<Longrightarrow> m w = (Inl e, w') \<Longrightarrow> I (database w')"
  unfolding triple_def by (drule spec [of _ w]) simp

lemma triple_ok: "triple I D m Q \<Longrightarrow> D (database w) \<Longrightarrow> m w = (Inr x, w') \<Longrightarrow> Q x (database w')"
  unfolding triple_def by (drule spec [of _ w]) simp

lemma triple_weaken:
  "triple I D m R \<Longrightarrow> (\<And>d. D' d \<Longrightarrow> D d) \<Longrightarrow> (\<And>x d. R x d \<Longrightarrow> Q x d) \<Longrightarrow> triple I D' m Q"
  by (rule tripleI) (blast dest: triple_err triple_ok)+

lemma triple_post: "triple I D m R \<Longrightarrow> (\<And>x d. R x d \<Longrightarrow> Q x d) \<Longrightarrow> triple I D m Q"
  by (rule triple_weaken)

lemma triple_pre: "triple I D m Q \<Longrightarrow> (\<And>d. D' d \<Longrightarrow> D d) \<Longrightarrow> triple I D' m Q"
  by (rule triple_weaken)

lemma triple_bind:
  "triple I D m R \<Longrightarrow> (\<And>x. triple I (R x) (f x) Q) \<Longrightarrow> triple I D (bindE m f) Q"
  by (rule tripleI) (auto simp: io_run dest: triple_err triple_ok)

lemma triple_seq: "triple I D m (\<lambda>_. R) \<Longrightarrow> triple I R n Q \<Longrightarrow> triple I D (seqE m n) Q"
  unfolding seqE_def by (rule triple_bind)

lemma triple_return: "(\<And>d. D d \<Longrightarrow> Q x d) \<Longrightarrow> triple I D (returnE x) Q"
  by (rule tripleI) (auto simp: returnE_def)

lemma triple_throw: "(\<And>d. D d \<Longrightarrow> I d) \<Longrightarrow> triple I D (throwE e) Q"
  by (rule tripleI) (auto simp: throwE_def)

lemma triple_ro: "ro_io m \<Longrightarrow> (\<And>d. D d \<Longrightarrow> I d) \<Longrightarrow> triple I D m (\<lambda>_. D)"
  by (rule tripleI) (auto dest!: ro_ioD)

lemma triple_query: "(\<And>d. D d \<Longrightarrow> I d) \<Longrightarrow> triple I D (query q f) (\<lambda>x d. D d \<and> x = f d)"
  by (rule tripleI) (auto simp: query_def io_run getsW_def dest!: ro_ioD [OF ro_perform])

lemma triple_exec:
  "(\<And>d. D d \<Longrightarrow> I d) \<Longrightarrow> (\<And>d d'. D d \<Longrightarrow> f d = Inr d' \<Longrightarrow> Q () d') \<Longrightarrow> triple I D (exec q f) Q"
  by (rule tripleI) (auto simp: io_run dest!: ro_ioD [OF ro_perform])

lemma triple_try:
  "triple I D m Q \<Longrightarrow> triple I D (tryE m) (\<lambda>r d. case r of Inl e \<Rightarrow> I d | Inr x \<Rightarrow> Q x d)"
  by (rule tripleI) (auto simp: io_run split: sum.splits dest: triple_err triple_ok)

lemma triple_ignore:
  "triple I D m (\<lambda>_. R) \<Longrightarrow> (\<And>d. R d \<Longrightarrow> S d) \<Longrightarrow> (\<And>d. I d \<Longrightarrow> S d) \<Longrightarrow> triple I D (ignoreE m) (\<lambda>_. S)"
  unfolding ignoreE_def
  by (rule triple_bind [OF triple_try], assumption, rule triple_return) (auto split: sum.splits)

lemma triple_if:
  "(b \<Longrightarrow> triple I D m Q) \<Longrightarrow> (\<not> b \<Longrightarrow> triple I D n Q) \<Longrightarrow> triple I D (if b then m else n) Q"
  by simp

lemma triple_failIf:
  "(\<And>d. D d \<Longrightarrow> I d) \<Longrightarrow> (\<And>d. \<not> b \<Longrightarrow> D d \<Longrightarrow> Q () d) \<Longrightarrow> triple I D (failIf b e) Q"
  by (auto simp: failIf_def intro!: triple_throw triple_return)

lemma triple_when:
  "(b \<Longrightarrow> triple I D m Q) \<Longrightarrow> (\<And>d. \<not> b \<Longrightarrow> D d \<Longrightarrow> Q () d) \<Longrightarrow> triple I D (whenE b m) Q"
  by (auto simp: whenE_def intro!: triple_return)

lemma triple_lift:
  "(\<And>d. D d \<Longrightarrow> I d) \<Longrightarrow> (\<And>x d. r = Inr x \<Longrightarrow> D d \<Longrightarrow> Q x d) \<Longrightarrow> triple I D (liftE r) Q"
  by (rule tripleI) (auto simp: liftE_def)

lemma triple_option:
  "(r = None \<Longrightarrow> triple I D m Q) \<Longrightarrow> (\<And>x. r = Some x \<Longrightarrow> triple I D (f x) Q) \<Longrightarrow>
     triple I D (case r of None \<Rightarrow> m | Some x \<Rightarrow> f x) Q"
  by (cases r) auto

lemma triple_for:
  assumes "\<And>x. x \<in> set xs \<Longrightarrow> triple I D (f x) (\<lambda>_. D)"
  shows "triple I D (forE xs f) (\<lambda>_. D)"
  using assms
proof (induction xs)
  case Nil
  show ?case unfolding forE.simps by (rule triple_return)
next
  case (Cons x xs)
  show ?case unfolding forE.simps
    by (rule triple_seq [OF Cons.prems Cons.IH]) (simp_all add: Cons.prems)
qed

lemma triple_defer:
  assumes d: "ro_io d" and m: "triple I D m Q"
  shows "triple I D (deferE d m) Q"
proof -
  have "database (snd (d v)) = database v" for v
    using d by (simp add: ro_io_def)
  then show ?thesis
    by (intro tripleI) (auto simp: deferE_run dest: triple_err [OF m] triple_ok [OF m])
qed

lemma triple_case:
  assumes "\<And>d. D d \<Longrightarrow> A \<and> D' d" "A \<Longrightarrow> triple I D' m Q"
  shows "triple I D m Q"
  by (rule tripleI) (auto dest!: assms(1) dest: triple_err [OF assms(2)] triple_ok [OF assms(2)])

end
