(* ===== verification/StoreAccess.thy ===== *)
theory StoreAccess
  imports World
begin

text \<open>
  \<open>internal/store/store.go\<close>, first part: users, sessions, API tokens, SSH keys and the audit log.
  Each method is the statements it sends, in order; each statement may fail in the engine. A
  method that scans a row answers \<open>None\<close> for \<open>sql.ErrNoRows\<close>.
\<close>

text \<open>A changed table put back into the database.\<close>

definition put :: "err + 'r list \<Rightarrow> ('r list \<Rightarrow> db) \<Rightarrow> err + db" where
  "put r g = (case r of Inl e \<Rightarrow> Inl e | Inr rows \<Rightarrow> Inr (g rows))"

lemma put_Inr: "put r g = Inr d \<longleftrightarrow> (\<exists>rows. r = Inr rows \<and> d = g rows)"
  by (auto simp: put_def split: sum.splits)

text \<open>The text a time column holds, which is what \<open>ORDER BY created_at\<close> compares.\<close>

definition by_created :: "('r \<Rightarrow> time) \<Rightarrow> 'r \<Rightarrow> string" where
  "by_created f r = formatTime (f r)"

definition assigned_error :: "string \<Rightarrow> nat \<Rightarrow> err" where
  "assigned_error what n = PlainError (what @ '' is assigned to '' @ show_nat n @ '' VM(s)'')"

section \<open>Users and sessions\<close>

definition store_HasUsers :: "bool io" where
  "store_HasUsers = query ''SELECT COUNT(*) FROM users'' (\<lambda>d. 0 < length (users d))"

definition store_CreateUser :: "user \<Rightarrow> unit io" where
  "store_CreateUser u = exec ''INSERT INTO users''
     (\<lambda>d. put (tbl_insert users_uniq u (users d)) (\<lambda>rows. d\<lparr>users := rows\<rparr>))"

definition store_UserByUsername :: "string \<Rightarrow> user option io" where
  "store_UserByUsername username =
     query ''SELECT FROM users'' (\<lambda>d. find (\<lambda>u. usr_Username u = username) (users d))"

definition store_UserByID :: "string \<Rightarrow> user option io" where
  "store_UserByID uid = query ''SELECT FROM users'' (\<lambda>d. find (\<lambda>u. usr_ID u = uid) (users d))"

definition store_ListUsers :: "user list io" where
  "store_ListUsers = query ''SELECT FROM users'' (\<lambda>d. order_asc usr_Username (users d))"

definition store_CreateSession :: "session \<Rightarrow> unit io" where
  "store_CreateSession sess = exec ''INSERT INTO sessions''
     (\<lambda>d. put (tbl_insert sessions_uniq sess (sessions d)) (\<lambda>rows. d\<lparr>sessions := rows\<rparr>))"

definition store_SessionByID :: "string \<Rightarrow> session option io" where
  "store_SessionByID sid =
     query ''SELECT FROM sessions'' (\<lambda>d. find (\<lambda>x. ses_ID x = sid) (sessions d))"

definition store_TouchSession :: "string \<Rightarrow> time \<Rightarrow> unit io" where
  "store_TouchSession sid expires =
     bindE Now (\<lambda>t. exec ''UPDATE sessions''
       (\<lambda>d. put (tbl_update sessions_uniq (\<lambda>x. ses_ID x = sid)
               (\<lambda>x. x\<lparr>ses_LastSeenAt := t, ses_ExpiresAt := expires\<rparr>) (sessions d))
             (\<lambda>rows. d\<lparr>sessions := rows\<rparr>)))"

definition store_DeleteSession :: "string \<Rightarrow> unit io" where
  "store_DeleteSession sid = exec ''DELETE FROM sessions''
     (\<lambda>d. Inr (d\<lparr>sessions := tbl_delete (\<lambda>x. ses_ID x = sid) (sessions d)\<rparr>))"

section \<open>API tokens\<close>

text \<open>The columns of a token; the owner's name is not stored.\<close>

definition token_row :: "api_token \<Rightarrow> string \<Rightarrow> api_token_row" where
  "token_row token tokenHash = \<lparr>atr_Token = token\<lparr>tok_OwnerUsername := ''''\<rparr>, atr_Hash = tokenHash\<rparr>"

definition store_CreateAPIToken :: "api_token \<Rightarrow> string \<Rightarrow> unit io" where
  "store_CreateAPIToken token tokenHash = exec ''INSERT INTO api_tokens''
     (\<lambda>d. put (tbl_insert api_tokens_uniq (token_row token tokenHash) (api_tokens d))
           (\<lambda>rows. d\<lparr>api_tokens := rows\<rparr>))"

text \<open>
  \<open>apiTokenSelectSQL\<close> with \<open>scanAPIToken\<close>: the left join with the owner; \<open>COALESCE\<close> makes a
  missing owner the empty name.
\<close>

definition scanAPIToken :: "db \<Rightarrow> api_token_row \<Rightarrow> api_token" where
  "scanAPIToken d r =
     (case find (\<lambda>u. usr_ID u = tok_OwnerUserID (atr_Token r)) (users d) of
        None \<Rightarrow> (atr_Token r)\<lparr>tok_OwnerUsername := ''''\<rparr>
      | Some u \<Rightarrow> (atr_Token r)\<lparr>tok_OwnerUsername := usr_Username u\<rparr>)"

definition token_order :: "api_token_row list \<Rightarrow> api_token_row list" where
  "token_order rows = order_desc (\<lambda>r. by_created tok_CreatedAt (atr_Token r)) rows"

definition store_ListAPITokens :: "api_token list io" where
  "store_ListAPITokens =
     query ''SELECT FROM api_tokens'' (\<lambda>d. map (scanAPIToken d) (token_order (api_tokens d)))"

definition store_ListAPITokensByOwner :: "string \<Rightarrow> api_token list io" where
  "store_ListAPITokensByOwner ownerUserID =
     query ''SELECT FROM api_tokens''
       (\<lambda>d. map (scanAPIToken d)
          (token_order (filter (\<lambda>r. tok_OwnerUserID (atr_Token r) = ownerUserID) (api_tokens d))))"

definition store_GetAPITokenByID :: "string \<Rightarrow> api_token option io" where
  "store_GetAPITokenByID tid =
     query ''SELECT FROM api_tokens''
       (\<lambda>d. map_option (scanAPIToken d) (find (\<lambda>r. tok_ID (atr_Token r) = tid) (api_tokens d)))"

definition store_GetAPITokenByHash :: "string \<Rightarrow> api_token option io" where
  "store_GetAPITokenByHash tokenHash =
     query ''SELECT FROM api_tokens''
       (\<lambda>d. map_option (scanAPIToken d) (find (\<lambda>r. atr_Hash r = tokenHash) (api_tokens d)))"

definition update_token ::
  "string \<Rightarrow> (api_token \<Rightarrow> api_token) \<Rightarrow> unit io"
where
  "update_token tid f = exec ''UPDATE api_tokens''
     (\<lambda>d. put (tbl_update api_tokens_uniq (\<lambda>r. tok_ID (atr_Token r) = tid)
             (\<lambda>r. r\<lparr>atr_Token := f (atr_Token r)\<rparr>) (api_tokens d))
           (\<lambda>rows. d\<lparr>api_tokens := rows\<rparr>))"

definition store_TouchAPIToken :: "string \<Rightarrow> unit io" where
  "store_TouchAPIToken tid = bindE Now (\<lambda>t. update_token tid (\<lambda>k. k\<lparr>tok_LastUsedAt := Some t\<rparr>))"

text \<open>\<open>COALESCE(revoked_at, ?)\<close>: the first revocation time stays.\<close>

definition store_RevokeAPIToken :: "string \<Rightarrow> unit io" where
  "store_RevokeAPIToken tid =
     bindE Now (\<lambda>t. update_token tid
       (\<lambda>k. k\<lparr>tok_RevokedAt := (case tok_RevokedAt k of None \<Rightarrow> Some t | Some r \<Rightarrow> Some r)\<rparr>))"

section \<open>SSH keys\<close>

definition store_CreateSSHKey :: "ssh_key \<Rightarrow> unit io" where
  "store_CreateSSHKey key = exec ''INSERT INTO ssh_keys''
     (\<lambda>d. put (tbl_insert ssh_keys_uniq key (ssh_keys d)) (\<lambda>rows. d\<lparr>ssh_keys := rows\<rparr>))"

definition store_ListSSHKeys :: "ssh_key list io" where
  "store_ListSSHKeys =
     query ''SELECT FROM ssh_keys'' (\<lambda>d. order_desc (by_created key_CreatedAt) (ssh_keys d))"

definition store_GetSSHKey :: "string \<Rightarrow> ssh_key option io" where
  "store_GetSSHKey kid =
     query ''SELECT FROM ssh_keys'' (\<lambda>d. find (\<lambda>k. key_ID k = kid) (ssh_keys d))"

definition store_GetSSHKeyByFingerprint :: "string \<Rightarrow> ssh_key option io" where
  "store_GetSSHKeyByFingerprint fingerprint =
     query ''SELECT FROM ssh_keys'' (\<lambda>d. find (\<lambda>k. key_Fingerprint k = fingerprint) (ssh_keys d))"

definition store_DeleteSSHKey :: "string \<Rightarrow> unit io" where
  "store_DeleteSSHKey kid =
     bindE (query ''SELECT COUNT(*) FROM vms'' (\<lambda>d. count_where (\<lambda>v. vm_SSHKeyID v = kid) (vms d)))
       (\<lambda>used. seqE (failIf (0 < used) (assigned_error ''SSH key'' used))
         (exec ''DELETE FROM ssh_keys''
            (\<lambda>d. Inr (d\<lparr>ssh_keys := tbl_delete (\<lambda>k. key_ID k = kid) (ssh_keys d)\<rparr>))))"

definition store_TouchSSHKey :: "string \<Rightarrow> unit io" where
  "store_TouchSSHKey kid =
     bindE Now (\<lambda>t. exec ''UPDATE ssh_keys''
       (\<lambda>d. put (tbl_update ssh_keys_uniq (\<lambda>k. key_ID k = kid)
               (\<lambda>k. k\<lparr>key_LastUsedAt := Some t\<rparr>) (ssh_keys d))
             (\<lambda>rows. d\<lparr>ssh_keys := rows\<rparr>)))"

section \<open>Audit log\<close>

definition store_Audit ::
  "string \<Rightarrow> string \<Rightarrow> string \<Rightarrow> string \<Rightarrow> string \<Rightarrow> string \<Rightarrow> string \<Rightarrow> unit io"
where
  "store_Audit actor source action target outcome requestID message =
     bindE Now (\<lambda>t. exec ''INSERT INTO audit_events''
       (\<lambda>d. Inr (d\<lparr>audit_events := audit_events d @
          [\<lparr>aud_Actor = actor, aud_Source = source, aud_Action = action, aud_Target = target,
            aud_Outcome = outcome, aud_RequestID = requestID, aud_Message = message,
            aud_CreatedAt = t\<rparr>]\<rparr>)))"

end
