(* ===== verification/StoreImages.thy ===== *)
theory StoreImages
  imports StoreAccess
begin

text \<open>
  \<open>internal/store/store.go\<close>, third part: base images and their build jobs, hooks, kernels and
  their test and discovery jobs.
\<close>

section \<open>Base images\<close>

definition store_CreateBaseImage :: "base_image \<Rightarrow> unit io" where
  "store_CreateBaseImage img = exec ''INSERT INTO base_images''
     (\<lambda>d. put (tbl_insert base_images_uniq img (base_images d)) (\<lambda>rows. d\<lparr>base_images := rows\<rparr>))"

definition store_ListBaseImages :: "base_image list io" where
  "store_ListBaseImages =
     query ''SELECT FROM base_images'' (\<lambda>d. order_desc (by_created img_CreatedAt) (base_images d))"

definition store_GetBaseImage :: "string \<Rightarrow> base_image option io" where
  "store_GetBaseImage iid =
     query ''SELECT FROM base_images'' (\<lambda>d. find (\<lambda>i. img_ID i = iid) (base_images d))"

definition store_GetBaseImageByPath :: "string \<Rightarrow> base_image option io" where
  "store_GetBaseImageByPath path =
     query ''SELECT FROM base_images'' (\<lambda>d. find (\<lambda>i. img_Path i = path) (base_images d))"

text \<open>\<open>WHERE status = 'active' ORDER BY created_at ASC LIMIT 1\<close>.\<close>

definition first_active :: "('r \<Rightarrow> string) \<Rightarrow> ('r \<Rightarrow> time) \<Rightarrow> 'r list \<Rightarrow> 'r option" where
  "first_active status created rows =
     (case order_asc (by_created created) (filter (\<lambda>r. status r = ''active'') rows) of
        [] \<Rightarrow> None | r # _ \<Rightarrow> Some r)"

definition store_DefaultBaseImage :: "base_image option io" where
  "store_DefaultBaseImage =
     query ''SELECT FROM base_images'' (\<lambda>d. first_active img_Status img_CreatedAt (base_images d))"

definition store_UpdateBaseImage :: "base_image \<Rightarrow> unit io" where
  "store_UpdateBaseImage img =
     bindE Now (\<lambda>t. exec ''UPDATE base_images''
       (\<lambda>d. put (tbl_update base_images_uniq (\<lambda>i. img_ID i = img_ID img)
               (\<lambda>_. img\<lparr>img_UpdatedAt := t\<rparr>) (base_images d))
             (\<lambda>rows. d\<lparr>base_images := rows\<rparr>)))"

definition store_DeleteBaseImage :: "string \<Rightarrow> unit io" where
  "store_DeleteBaseImage iid =
     bindE (query ''SELECT COUNT(*) FROM vms'' (\<lambda>d. count_where (\<lambda>v. vm_BaseImageID v = iid) (vms d)))
       (\<lambda>used. seqE (failIf (0 < used) (assigned_error ''base image'' used))
         (exec ''DELETE FROM base_images''
            (\<lambda>d. Inr (d\<lparr>base_images := tbl_delete (\<lambda>i. img_ID i = iid) (base_images d)\<rparr>))))"

section \<open>Image build jobs\<close>

definition store_CreateImageBuildJob :: "image_build_job \<Rightarrow> unit io" where
  "store_CreateImageBuildJob job = exec ''INSERT INTO image_build_jobs''
     (\<lambda>d. put (tbl_insert image_build_jobs_uniq job (image_build_jobs d))
           (\<lambda>rows. d\<lparr>image_build_jobs := rows\<rparr>))"

definition store_UpdateImageBuildJob :: "image_build_job \<Rightarrow> unit io" where
  "store_UpdateImageBuildJob job = exec ''UPDATE image_build_jobs''
     (\<lambda>d. put (tbl_update image_build_jobs_uniq (\<lambda>j. bj_ID j = bj_ID job) (\<lambda>_. job)
             (image_build_jobs d))
           (\<lambda>rows. d\<lparr>image_build_jobs := rows\<rparr>))"

definition store_ListImageBuildJobs :: "image_build_job list io" where
  "store_ListImageBuildJobs =
     query ''SELECT FROM image_build_jobs''
       (\<lambda>d. order_desc (by_created bj_CreatedAt) (image_build_jobs d))"

definition store_GetImageBuildJob :: "string \<Rightarrow> image_build_job option io" where
  "store_GetImageBuildJob jid =
     query ''SELECT FROM image_build_jobs'' (\<lambda>d. find (\<lambda>j. bj_ID j = jid) (image_build_jobs d))"

section \<open>Image hooks\<close>

definition store_CreateImageHook :: "image_hook \<Rightarrow> unit io" where
  "store_CreateImageHook hook = exec ''INSERT INTO image_hooks''
     (\<lambda>d. put (tbl_insert image_hooks_uniq hook (image_hooks d)) (\<lambda>rows. d\<lparr>image_hooks := rows\<rparr>))"

definition store_UpdateImageHook :: "image_hook \<Rightarrow> unit io" where
  "store_UpdateImageHook hook =
     bindE Now (\<lambda>t. exec ''UPDATE image_hooks''
       (\<lambda>d. put (tbl_update image_hooks_uniq (\<lambda>h. hook_ID h = hook_ID hook)
               (\<lambda>_. hook\<lparr>hook_UpdatedAt := t\<rparr>) (image_hooks d))
             (\<lambda>rows. d\<lparr>image_hooks := rows\<rparr>)))"

definition store_ListImageHooks :: "image_hook list io" where
  "store_ListImageHooks =
     query ''SELECT FROM image_hooks'' (\<lambda>d. order_desc (by_created hook_CreatedAt) (image_hooks d))"

definition store_GetImageHook :: "string \<Rightarrow> image_hook option io" where
  "store_GetImageHook hid =
     query ''SELECT FROM image_hooks'' (\<lambda>d. find (\<lambda>h. hook_ID h = hid) (image_hooks d))"

definition store_DeleteImageHook :: "string \<Rightarrow> unit io" where
  "store_DeleteImageHook hid = exec ''DELETE FROM image_hooks''
     (\<lambda>d. Inr (d\<lparr>image_hooks := tbl_delete (\<lambda>h. hook_ID h = hid) (image_hooks d)\<rparr>))"

section \<open>Kernels\<close>

definition store_CreateKernel :: "kernel \<Rightarrow> unit io" where
  "store_CreateKernel krn = exec ''INSERT INTO kernels''
     (\<lambda>d. put (tbl_insert kernels_uniq krn (kernels d)) (\<lambda>rows. d\<lparr>kernels := rows\<rparr>))"

definition store_ListKernels :: "kernel list io" where
  "store_ListKernels =
     query ''SELECT FROM kernels'' (\<lambda>d. order_desc (by_created krn_CreatedAt) (kernels d))"

definition store_GetKernel :: "string \<Rightarrow> kernel option io" where
  "store_GetKernel kid =
     query ''SELECT FROM kernels'' (\<lambda>d. find (\<lambda>k. krn_ID k = kid) (kernels d))"

definition store_GetKernelByPath :: "string \<Rightarrow> kernel option io" where
  "store_GetKernelByPath path =
     query ''SELECT FROM kernels'' (\<lambda>d. find (\<lambda>k. krn_Path k = path) (kernels d))"

definition store_DefaultKernel :: "kernel option io" where
  "store_DefaultKernel =
     query ''SELECT FROM kernels'' (\<lambda>d. first_active krn_Status krn_CreatedAt (kernels d))"

definition store_UpdateKernel :: "kernel \<Rightarrow> unit io" where
  "store_UpdateKernel krn =
     bindE Now (\<lambda>t. exec ''UPDATE kernels''
       (\<lambda>d. put (tbl_update kernels_uniq (\<lambda>k. krn_ID k = krn_ID krn)
               (\<lambda>_. krn\<lparr>krn_UpdatedAt := t\<rparr>) (kernels d))
             (\<lambda>rows. d\<lparr>kernels := rows\<rparr>)))"

definition store_BackfillVMKernelID :: "string \<Rightarrow> string \<Rightarrow> unit io" where
  "store_BackfillVMKernelID kernelID kernelPath =
     (if kernelID = '''' \<or> kernelPath = '''' then returnE ()
      else exec ''UPDATE vms''
        (\<lambda>d. put (tbl_update vms_uniq (\<lambda>v. vm_KernelID v = '''' \<and> vm_KernelPath v = kernelPath)
                (\<lambda>v. v\<lparr>vm_KernelID := kernelID\<rparr>) (vms d))
              (\<lambda>rows. d\<lparr>vms := rows\<rparr>)))"

definition store_DeleteKernel :: "string \<Rightarrow> unit io" where
  "store_DeleteKernel kid =
     bindE (query ''SELECT path FROM kernels''
              (\<lambda>d. map_option krn_Path (find (\<lambda>k. krn_ID k = kid) (kernels d))))
       (\<lambda>found. case found of
          None \<Rightarrow> returnE ()
        | Some path \<Rightarrow>
            bindE (query ''SELECT COUNT(*) FROM vms''
                     (\<lambda>d. count_where (\<lambda>v. vm_KernelID v = kid \<or> vm_KernelPath v = path) (vms d)))
              (\<lambda>used. seqE (failIf (0 < used) (assigned_error ''kernel'' used))
                (seqE (exec ''DELETE FROM kernel_test_jobs''
                         (\<lambda>d. Inr (d\<lparr>kernel_test_jobs :=
                            tbl_delete (\<lambda>j. ktj_KernelID j = kid) (kernel_test_jobs d)\<rparr>)))
                      (exec ''DELETE FROM kernels''
                         (\<lambda>d. Inr (d\<lparr>kernels := tbl_delete (\<lambda>k. krn_ID k = kid) (kernels d)\<rparr>))))))"

section \<open>Kernel test jobs\<close>

text \<open>The columns of a test job; the three fields of \<open>EnrichKernelTestJob\<close> are not stored.\<close>

definition test_job_row :: "kernel_test_job \<Rightarrow> kernel_test_job" where
  "test_job_row job =
     job\<lparr>ktj_KernelRelease := '''', ktj_GatewayOK := None, ktj_ResultSummary := ''''\<rparr>"

definition store_CreateKernelTestJob :: "kernel_test_job \<Rightarrow> unit io" where
  "store_CreateKernelTestJob job = exec ''INSERT INTO kernel_test_jobs''
     (\<lambda>d. put (tbl_insert kernel_test_jobs_uniq (test_job_row job) (kernel_test_jobs d))
           (\<lambda>rows. d\<lparr>kernel_test_jobs := rows\<rparr>))"

definition store_UpdateKernelTestJob :: "kernel_test_job \<Rightarrow> unit io" where
  "store_UpdateKernelTestJob job = exec ''UPDATE kernel_test_jobs''
     (\<lambda>d. put (tbl_update kernel_test_jobs_uniq (\<lambda>j. ktj_ID j = ktj_ID job) (\<lambda>_. test_job_row job)
             (kernel_test_jobs d))
           (\<lambda>rows. d\<lparr>kernel_test_jobs := rows\<rparr>))"

definition store_ListKernelTestJobs :: "kernel_test_job list io" where
  "store_ListKernelTestJobs =
     query ''SELECT FROM kernel_test_jobs''
       (\<lambda>d. take 50 (order_desc (by_created ktj_CreatedAt) (kernel_test_jobs d)))"

definition store_GetKernelTestJob :: "string \<Rightarrow> kernel_test_job option io" where
  "store_GetKernelTestJob jid =
     query ''SELECT FROM kernel_test_jobs'' (\<lambda>d. find (\<lambda>j. ktj_ID j = jid) (kernel_test_jobs d))"

section \<open>Kernel discovery\<close>

definition store_CreateKernelDiscoveryJob :: "kernel_discovery_job \<Rightarrow> unit io" where
  "store_CreateKernelDiscoveryJob job = exec ''INSERT INTO kernel_discovery_jobs''
     (\<lambda>d. put (tbl_insert kernel_discovery_jobs_uniq job (kernel_discovery_jobs d))
           (\<lambda>rows. d\<lparr>kernel_discovery_jobs := rows\<rparr>))"

definition store_UpdateKernelDiscoveryJob :: "kernel_discovery_job \<Rightarrow> unit io" where
  "store_UpdateKernelDiscoveryJob job = exec ''UPDATE kernel_discovery_jobs''
     (\<lambda>d. put (tbl_update kernel_discovery_jobs_uniq (\<lambda>j. kdj_ID j = kdj_ID job) (\<lambda>_. job)
             (kernel_discovery_jobs d))
           (\<lambda>rows. d\<lparr>kernel_discovery_jobs := rows\<rparr>))"

definition store_ListKernelDiscoveryJobs :: "kernel_discovery_job list io" where
  "store_ListKernelDiscoveryJobs =
     query ''SELECT FROM kernel_discovery_jobs''
       (\<lambda>d. take 50 (order_desc (by_created kdj_CreatedAt) (kernel_discovery_jobs d)))"

definition store_LatestKernelDiscoveryJob :: "kernel_discovery_job option io" where
  "store_LatestKernelDiscoveryJob =
     query ''SELECT FROM kernel_discovery_jobs''
       (\<lambda>d. case order_desc (by_created kdj_CreatedAt) (kernel_discovery_jobs d) of
              [] \<Rightarrow> None | j # _ \<Rightarrow> Some j)"

definition store_GetKernelDiscoveryJob :: "string \<Rightarrow> kernel_discovery_job option io" where
  "store_GetKernelDiscoveryJob jid =
     query ''SELECT FROM kernel_discovery_jobs''
       (\<lambda>d. find (\<lambda>j. kdj_ID j = jid) (kernel_discovery_jobs d))"

text \<open>
  \<open>ReplaceKernelDiscoveryItems\<close> is one transaction: the statements work on \<open>rows\<close>, and the
  database changes when the commit succeeds; on an error before that the rollback discards them.
\<close>

definition insert_item ::
  "kernel_discovery_item list \<Rightarrow> kernel_discovery_item \<Rightarrow> kernel_discovery_item list io"
where
  "insert_item rows item =
     seqE (perform (Sql ''INSERT INTO kernel_discovery_items''))
          (liftE (tbl_insert kernel_discovery_items_uniq item rows))"

definition store_ReplaceKernelDiscoveryItems ::
  "string \<Rightarrow> kernel_discovery_item list \<Rightarrow> unit io"
where
  "store_ReplaceKernelDiscoveryItems jobID items =
     seqE (perform (Sql ''BEGIN''))
    (bindE (query ''DELETE FROM kernel_discovery_items''
              (\<lambda>d. tbl_delete (\<lambda>i. kdi_JobID i = jobID) (kernel_discovery_items d)))
       (\<lambda>kept. seqE (perform (Sql ''PREPARE INSERT INTO kernel_discovery_items''))
         (bindE (foldE insert_item kept items)
           (\<lambda>rows. exec ''COMMIT'' (\<lambda>d. Inr (d\<lparr>kernel_discovery_items := rows\<rparr>))))))"

text \<open>\<open>ORDER BY created_at DESC, version DESC, variant ASC\<close>, the least column first.\<close>

definition item_order :: "kernel_discovery_item list \<Rightarrow> kernel_discovery_item list" where
  "item_order rows =
     order_desc (by_created kdi_CreatedAt) (order_desc kdi_Version (order_asc kdi_Variant rows))"

definition store_ListKernelDiscoveryItems :: "string \<Rightarrow> kernel_discovery_item list io" where
  "store_ListKernelDiscoveryItems jobID =
     query ''SELECT FROM kernel_discovery_items''
       (\<lambda>d. take 200 (item_order
          (filter (\<lambda>i. jobID \<noteq> '''' \<longrightarrow> kdi_JobID i = jobID) (kernel_discovery_items d))))"

definition store_GetKernelDiscoveryItem :: "string \<Rightarrow> kernel_discovery_item option io" where
  "store_GetKernelDiscoveryItem iid =
     query ''SELECT FROM kernel_discovery_items''
       (\<lambda>d. find (\<lambda>i. kdi_ID i = iid) (kernel_discovery_items d))"

definition store_MarkKernelDiscoveryItemRegistered :: "string \<Rightarrow> bool \<Rightarrow> unit io" where
  "store_MarkKernelDiscoveryItemRegistered iid registered = exec ''UPDATE kernel_discovery_items''
     (\<lambda>d. put (tbl_update kernel_discovery_items_uniq (\<lambda>i. kdi_ID i = iid)
             (\<lambda>i. i\<lparr>kdi_AlreadyRegistered := registered\<rparr>) (kernel_discovery_items d))
           (\<lambda>rows. d\<lparr>kernel_discovery_items := rows\<rparr>))"

end
