(* ===== verification/GoPath.thy ===== *)
theory GoPath
  imports GoStrings
begin

text \<open>
  Go's \<open>path/filepath\<close> on Unix by path components: \<open>Clean\<close>, \<open>Join\<close>, \<open>Dir\<close>, \<open>IsAbs\<close> and \<open>Rel\<close>.
  The lemmas describe cleaned paths (no empty, \<open>.\<close> or inner \<open>..\<close> component), which is what the
  containment checks of the service rest on.
\<close>

section \<open>Cleaning\<close>

text \<open>One component on the stack of components kept so far, the last one first.\<close>

definition clean_step :: "bool \<Rightarrow> string list \<Rightarrow> string \<Rightarrow> string list" where
  "clean_step rooted out c =
     (if c = '''' \<or> c = ''.'' then out
      else if c = ''..'' then
        (if out \<noteq> [] \<and> hd out \<noteq> ''..'' then tl out
         else if rooted then out
         else c # out)
      else c # out)"

definition IsAbs :: "string \<Rightarrow> bool" where
  "IsAbs path = HasPrefix path ''/''"

definition clean_comps :: "string \<Rightarrow> string list" where
  "clean_comps path = rev (foldl (clean_step (IsAbs path)) [] (Split path (CHR ''/'')))"

definition path_text :: "bool \<Rightarrow> string list \<Rightarrow> string" where
  "path_text rooted cs =
     (if rooted then ''/'' @ join ''/'' cs else if cs = [] then ''.'' else join ''/'' cs)"

definition Clean :: "string \<Rightarrow> string" where
  "Clean path = path_text (IsAbs path) (clean_comps path)"

text \<open>\<open>filepath.Join\<close> leaves empty elements out.\<close>

definition Join :: "string list \<Rightarrow> string" where
  "Join elems =
     (let es = dropWhile (\<lambda>e. e = '''') elems
      in if es = [] then '''' else Clean (join ''/'' es))"

text \<open>\<open>filepath.Dir\<close>: all but the last element, cleaned.\<close>

definition Dir :: "string \<Rightarrow> string" where
  "Dir path = Clean (rev (dropWhile (\<lambda>c. c \<noteq> CHR ''/'') (rev path)))"

section \<open>Relative paths\<close>

fun strip_common :: "string list \<Rightarrow> string list \<Rightarrow> string list \<times> string list" where
  "strip_common (b # bs) (t # ts) = (if b = t then strip_common bs ts else (b # bs, t # ts))"
| "strip_common bs ts = (bs, ts)"

text \<open>The components of a cleaned path; the path \<open>.\<close> has none as a base.\<close>

definition rel_comps :: "string \<Rightarrow> string list" where
  "rel_comps p = filter (\<lambda>c. c \<noteq> '''') (Split p (CHR ''/''))"

definition Rel :: "string \<Rightarrow> string \<Rightarrow> string option" where
  "Rel basepath targpath =
     (let base = Clean basepath; targ = Clean targpath
      in if targ = base then Some ''.''
         else if IsAbs base \<noteq> IsAbs targ then None
         else let (bs, ts) = strip_common (if base = ''.'' then [] else rel_comps base) (rel_comps targ)
              in if bs \<noteq> [] \<and> hd bs = ''..'' then None
                 else Some (join ''/'' (replicate (length bs) ''..'' @ ts)))"

section \<open>Cleaned paths\<close>

text \<open>A component that names something: not empty, no separator, not \<open>.\<close> or \<open>..\<close>.\<close>

definition name_comp :: "string \<Rightarrow> bool" where
  "name_comp c \<longleftrightarrow> c \<noteq> '''' \<and> c \<noteq> ''.'' \<and> c \<noteq> ''..'' \<and> CHR ''/'' \<notin> set c"

lemma clean_step_name [simp]: "name_comp c \<Longrightarrow> clean_step r out c = c # out"
  by (auto simp: clean_step_def name_comp_def)

lemma clean_step_Nil [simp]: "clean_step r out '''' = out"
  by (simp add: clean_step_def)

lemma foldl_clean_names:
  "list_all name_comp cs \<Longrightarrow> foldl (clean_step r) out cs = rev cs @ out"
  by (induction cs arbitrary: out) auto

lemma clean_step_rooted_names:
  "list_all name_comp out \<Longrightarrow> CHR ''/'' \<notin> set c \<Longrightarrow> list_all name_comp (clean_step True out c)"
  by (cases out) (auto simp: clean_step_def name_comp_def)

lemma foldl_clean_rooted_names:
  "list_all name_comp out \<Longrightarrow> \<forall>c \<in> set cs. CHR ''/'' \<notin> set c \<Longrightarrow>
     list_all name_comp (foldl (clean_step True) out cs)"
  by (induction cs arbitrary: out) (simp_all add: clean_step_rooted_names)

lemma clean_comps_abs: "IsAbs path \<Longrightarrow> list_all name_comp (clean_comps path)"
  using foldl_clean_rooted_names [of "[]" "Split path (CHR ''/'')"] Split_no_sep
  by (auto simp: clean_comps_def list_all_rev)

lemma IsAbs_iff: "IsAbs p \<longleftrightarrow> (\<exists>q. p = CHR ''/'' # q)"
  by (auto simp: IsAbs_def HasPrefix_iff)

lemma Split_root: "Split (CHR ''/'' # q) (CHR ''/'') = '''' # Split q (CHR ''/'')"
  by simp

lemma Split_names:
  "list_all name_comp cs \<Longrightarrow> cs \<noteq> [] \<Longrightarrow> Split (join ''/'' cs) (CHR ''/'') = cs"
  by (rule Split_of_join) (auto simp: list_all_iff name_comp_def)

lemma clean_comps_names:
  assumes "list_all name_comp cs"
  shows "clean_comps (''/'' @ join ''/'' cs) = cs"
proof (cases "cs = []")
  case True
  then show ?thesis by (simp add: clean_comps_def IsAbs_def)
next
  case False
  then show ?thesis
    using assms by (simp add: clean_comps_def Split_names foldl_clean_names)
qed

lemma rel_comps_names: "list_all name_comp cs \<Longrightarrow> rel_comps (''/'' @ join ''/'' cs) = cs"
  by (cases "cs = []")
     (auto simp: rel_comps_def Split_names list_all_iff name_comp_def intro!: filter_True)

lemma Clean_abs: "IsAbs p \<Longrightarrow> Clean p = ''/'' @ join ''/'' (clean_comps p)"
  by (simp add: Clean_def path_text_def)

lemma IsAbs_Clean: "IsAbs p \<Longrightarrow> IsAbs (Clean p)"
  by (simp add: Clean_abs IsAbs_def)

lemma clean_comps_Clean: "IsAbs p \<Longrightarrow> clean_comps (Clean p) = clean_comps p"
  by (simp add: Clean_abs clean_comps_names [simplified] clean_comps_abs)

lemma Clean_idem_abs: "IsAbs p \<Longrightarrow> Clean (Clean p) = Clean p"
  using Clean_abs IsAbs_Clean clean_comps_Clean by metis

lemma Clean_eq_iff: "IsAbs p \<Longrightarrow> IsAbs q \<Longrightarrow> Clean p = Clean q \<longleftrightarrow> clean_comps p = clean_comps q"
  by (metis clean_comps_Clean Clean_abs)

text \<open>Appending components to an absolute path.\<close>

lemma Split_append:
  "Split (s @ CHR ''/'' # t) (CHR ''/'') = Split s (CHR ''/'') @ Split t (CHR ''/'')"
proof (induction s)
  case (Cons c s)
  then show ?case by (auto split: list.splits)
qed simp

lemma clean_comps_append:
  assumes "IsAbs p"
  shows "clean_comps (p @ ''/'' @ q) =
    rev (foldl (clean_step True) (rev (clean_comps p)) (Split q (CHR ''/'')))"
proof -
  have "IsAbs (p @ ''/'' @ q)" using assms by (auto simp: IsAbs_iff)
  then show ?thesis using assms by (simp add: clean_comps_def Split_append)
qed

lemma strip_common_prefix: "strip_common bs (bs @ ts) = ([], ts)"
  by (induction bs) (cases ts, auto)

lemma strip_common_Nil: "fst (strip_common bs ts) = [] \<Longrightarrow> ts = bs @ snd (strip_common bs ts)"
  by (induction bs ts rule: strip_common.induct) (auto split: if_splits)

lemma strip_common_parts:
  "\<exists>cs. bs = cs @ fst (strip_common bs ts) \<and> ts = cs @ snd (strip_common bs ts)"
proof (induction bs ts rule: strip_common.induct)
  case (1 b bs t ts)
  show ?case
  proof (cases "b = t")
    case True
    with 1 obtain cs where "bs = cs @ fst (strip_common bs ts)" "ts = cs @ snd (strip_common bs ts)"
      by blast
    then show ?thesis using True by (intro exI [of _ "b # cs"]) simp
  qed simp
qed simp_all

text \<open>The components of a relative path: parent steps first, then names.\<close>

definition rel_shape :: "string list \<Rightarrow> bool" where
  "rel_shape out \<longleftrightarrow> (\<exists>ns n. out = ns @ replicate n ''..'' \<and> list_all name_comp ns)"

lemma clean_step_rel:
  assumes "rel_shape out" and c: "CHR ''/'' \<notin> set c"
  shows "rel_shape (clean_step False out c)"
proof -
  obtain ns n where o: "out = ns @ replicate n ''..''" "list_all name_comp ns"
    using assms(1) by (auto simp: rel_shape_def)
  show ?thesis
  proof (cases "c = ''..''")
    case True
    show ?thesis
    proof (cases ns)
      case Nil
      then have "clean_step False out c = [] @ replicate (Suc n) ''..''"
        using True o by (cases n) (auto simp: clean_step_def)
      then show ?thesis unfolding rel_shape_def by (metis list.pred_inject(1))
    next
      case (Cons m ms)
      then have "clean_step False out c = ms @ replicate n ''..''"
        using True o by (auto simp: clean_step_def name_comp_def)
      then show ?thesis using o Cons unfolding rel_shape_def by auto
    qed
  next
    case False
    then have "clean_step False out c =
        (if c = '''' \<or> c = ''.'' then out else (c # ns) @ replicate n ''..'')"
      using o by (simp add: clean_step_def)
    moreover have "c \<noteq> '''' \<Longrightarrow> c \<noteq> ''.'' \<Longrightarrow> list_all name_comp (c # ns)"
      using o c False by (simp add: name_comp_def)
    ultimately show ?thesis using assms(1) unfolding rel_shape_def by metis
  qed
qed

lemma clean_comps_rel:
  assumes "\<not> IsAbs path"
  shows "\<exists>n ns. clean_comps path = replicate n ''..'' @ ns \<and> list_all name_comp ns"
proof -
  have "rel_shape (foldl (clean_step False) out cs)"
    if "rel_shape out" "\<forall>c \<in> set cs. CHR ''/'' \<notin> set c" for out cs
    using that by (induction cs arbitrary: out) (simp_all add: clean_step_rel)
  moreover have "rel_shape []" by (auto simp: rel_shape_def)
  ultimately have "rel_shape (foldl (clean_step False) [] (Split path (CHR ''/'')))"
    by (simp add: Split_no_sep)
  then obtain ns n where f: "foldl (clean_step False) [] (Split path (CHR ''/'')) = ns @ replicate n ''..''"
      and ns: "list_all name_comp ns" by (auto simp: rel_shape_def)
  from f have "clean_comps path = replicate n ''..'' @ rev ns"
    using assms by (simp add: clean_comps_def)
  with ns show ?thesis by (metis list_all_rev)
qed

text \<open>Names appended to an absolute path stay below it.\<close>

lemma clean_comps_join_names:
  "IsAbs p \<Longrightarrow> list_all name_comp ns \<Longrightarrow> ns \<noteq> [] \<Longrightarrow>
     clean_comps (p @ ''/'' @ join ''/'' ns) = clean_comps p @ ns"
  using clean_comps_append [of p "join ''/'' ns"] by (simp add: Split_names foldl_clean_names)


section \<open>Lengths, and the walk to the root\<close>
definition comps_size :: "string list \<Rightarrow> nat" where "comps_size cs = sum_list (map (\<lambda>c. Suc (length c)) cs)"

lemma comps_size_simps [simp]:
  "comps_size [] = 0" "comps_size (c # cs) = Suc (length c + comps_size cs)" "comps_size (as @ bs) = comps_size as + comps_size bs"
  "comps_size (rev cs) = comps_size cs"
  by (simp_all add: comps_size_def rev_map [symmetric])

lemma length_join: "cs \<noteq> [] \<Longrightarrow> Suc (length (join ''/'' cs)) = comps_size cs"
proof (induction cs)
  case (Cons c cs)
  then show ?case by (cases cs) auto
qed simp

lemma Split_size: "comps_size (Split s d) = Suc (length s)"
  by (induction s d rule: Split.induct) (auto split: list.splits)

lemma clean_step_size: "comps_size (clean_step r out c) \<le> comps_size out + Suc (length c)"
  by (cases out) (auto simp: clean_step_def)

lemma foldl_clean_size: "comps_size (foldl (clean_step r) out cs) \<le> comps_size out + comps_size cs"
proof (induction cs arbitrary: out)
  case (Cons c cs)
  then show ?case using clean_step_size [of r out c] order_trans [OF Cons.IH [of "clean_step r out c"]] by simp
qed simp

lemma clean_comps_size: "comps_size (clean_comps p) \<le> (if IsAbs p then length p else Suc (length p))"
proof (cases "IsAbs p")
  case True
  then obtain q where q: "p = CHR ''/'' # q" by (auto simp: IsAbs_iff)
  have "clean_comps p = rev (foldl (clean_step True) [] (Split q (CHR ''/'')))"
    using True unfolding clean_comps_def by (simp add: q)
  then show ?thesis using True foldl_clean_size [of True "[]" "Split q (CHR ''/'')"] by (simp add: Split_size q)
next
  case False
  then show ?thesis using foldl_clean_size [of False "[]" "Split p (CHR ''/'')"] by (simp add: clean_comps_def Split_size)
qed

lemma length_Clean: "p \<noteq> '''' \<Longrightarrow> length (Clean p) \<le> length p"
  using clean_comps_size [of p] length_join [of "clean_comps p"]
  by (cases "clean_comps p = []") (auto simp: Clean_def path_text_def Suc_le_eq split: if_splits)

lemma Split_last: "Split (p @ [d]) d = Split p d @ [[]]"
  by (induction p d rule: Split.induct) (auto split: list.splits)

lemma Clean_slash: "p \<noteq> '''' \<Longrightarrow> Clean (p @ ''/'') = Clean p"
proof -
  assume "p \<noteq> ''''"
  then have a: "IsAbs (p @ ''/'') = IsAbs p" by (cases p) (simp_all add: IsAbs_iff)
  have "clean_comps (p @ ''/'') = clean_comps p"
    by (simp add: clean_comps_def a Split_last)
  then show ?thesis by (simp add: Clean_def a)
qed

text \<open>Going to the parent shortens a path until it is the root or \<open>.\<close>.\<close>

lemma Dir_shorter: "Dir p \<noteq> p \<Longrightarrow> Dir p \<noteq> ''.'' \<Longrightarrow> length (Dir p) < length p"
proof -
  assume p: "Dir p \<noteq> p" "Dir p \<noteq> ''.''"
  let ?q = "rev (dropWhile (\<lambda>c. c \<noteq> CHR ''/'') (rev p))"
  have q: "Dir p = Clean ?q" by (simp add: Dir_def)
  have "Clean '''' = ''.''" by code_simp
  then have ne: "?q \<noteq> ''''" using p(2) q by metis
  have le: "length ?q \<le> length p" using length_dropWhile_le [of "\<lambda>c. c \<noteq> CHR ''/''" "rev p"] by simp
  show ?thesis
  proof (cases "length ?q < length p")
    case True
    then show ?thesis using length_Clean [OF ne] q by simp
  next
    case False
    then have d: "dropWhile (\<lambda>c. c \<noteq> CHR ''/'') (rev p) = rev p"
      using le by (metis length_rev not_less takeWhile_dropWhile_id append_eq_append_conv append_Nil order_antisym)
    have pn: "p \<noteq> ''''" using ne by auto
    have "hd (rev p) = CHR ''/''" using hd_dropWhile [of "\<lambda>c. c \<noteq> CHR ''/''" "rev p"] d pn
      by (metis dropWhile_eq_self_iff rev_is_Nil_conv)
    with d pn have qp: "?q = p" "rev p \<noteq> []" "hd (rev p) = CHR ''/''" by simp_all
    then obtain x where x: "p = x @ ''/''" by (metis append_butlast_last_id hd_rev rev_is_Nil_conv)
    show ?thesis
    proof (cases "x = ''''")
      case True
      then have "p = ''/''" using x by simp
      moreover have "Dir ''/'' = ''/''" by code_simp
      ultimately show ?thesis using p(1) by simp
    next
      case False
      then show ?thesis using length_Clean [OF False] Clean_slash [OF False] unfolding q qp(1) unfolding x by simp
    qed
  qed
qed

end
