(* ===== verification/Names.thy ===== *)
theory Names
  imports GoPath GoRegexp World
begin

text \<open>
  The names that \<open>internal/lifecycle\<close> checks and derives: VM and login names, the guest's ssh
  directory, TAP and bridge names, image statuses, package lists and relative paths of hooks; and
  \<open>pathWithin\<close>. The lemmas show that an accepted login name or hook path cannot leave the directory
  it is joined to and that derived interface names fit the kernel's limit.
\<close>

section \<open>Patterns\<close>

definition name_char :: "char \<Rightarrow> bool" where
  "name_char c = (is_alnum c \<or> c = CHR ''-'')"

definition nameRe :: rx where
  "nameRe = RSeq (RCls is_alnum) (RUpTo 31 (RCls name_char))"

definition user_first :: "char \<Rightarrow> bool" where
  "user_first c = (is_lower c \<or> c = CHR ''_'')"

definition user_char :: "char \<Rightarrow> bool" where
  "user_char c = (is_lower c \<or> is_digit c \<or> c = CHR ''_'' \<or> c = CHR ''-'')"

definition devUserRe :: rx where
  "devUserRe = RSeq (RCls user_first) (RUpTo 31 (RCls user_char))"

definition package_char :: "char \<Rightarrow> bool" where
  "package_char c = (is_alnum c \<or> c \<in> set ''_.+:-'')"

definition packageNameRe :: rx where
  "packageNameRe = RSeq (RCls is_alnum) (RUpTo 127 (RCls package_char))"

definition nameRe_text :: string where
  "nameRe_text = ''^[a-zA-Z0-9][a-zA-Z0-9-]{0,31}$''"

definition devUserRe_text :: string where
  "devUserRe_text = ''^[a-z_][a-z0-9_-]{0,31}$''"

section \<open>Login names and the guest's ssh directory\<close>

definition normalizeDevUser :: "string \<Rightarrow> err + string" where
  "normalizeDevUser user0 =
     (let trimmed = TrimSpace user0;
          user = (if trimmed = '''' then ''dev'' else trimmed)
      in if \<not> MatchString devUserRe user
         then Inl (Invalid ''VM dev_user is invalid''
                [(''dev_user'', ''must be a Linux username matching '' @ devUserRe_text)])
         else Inr user)"

definition pathWithin :: "string \<Rightarrow> string \<Rightarrow> bool" where
  "pathWithin path root =
     (case Rel root path of
        None \<Rightarrow> False
      | Some rel \<Rightarrow> rel = ''.'' \<or> (\<not> HasPrefix rel ''../'' \<and> rel \<noteq> ''..''))"

definition guestSSHDir :: "string \<Rightarrow> string \<Rightarrow> err + string" where
  "guestSSHDir root0 devUser =
     (case normalizeDevUser devUser of
        Inl e \<Rightarrow> Inl e
      | Inr user \<Rightarrow>
          (let root = Clean root0; sshDir = Join [root, ''home'', user, ''.ssh'']
           in if \<not> pathWithin sshDir root
              then Inl (Invalid ''VM dev_user is invalid''
                     [(''dev_user'', ''guest home path escapes rootfs'')])
              else Inr sshDir))"

section \<open>Interface names\<close>

definition maxLinuxIFNameLen :: nat where
  "maxLinuxIFNameLen = 15"

definition tapNameForID :: "string \<Rightarrow> string" where
  "tapNameForID vid =
     (let prefix = ''tap-''; suffixLen = maxLinuxIFNameLen - length prefix
      in prefix @ (if suffixLen < length vid then take suffixLen vid else vid))"

definition if_forbidden :: string where
  "if_forbidden = [CHR ''/'', CHR '' '', CHR 0x09, CHR 0x0A, CHR 0x0D]"

definition validIFName :: "string \<Rightarrow> bool" where
  "validIFName name \<longleftrightarrow> 0 < length name \<and> length name \<le> maxLinuxIFNameLen
     \<and> \<not> list_ex (\<lambda>c. c \<in> set if_forbidden) name"

definition bridgeName :: "string \<Rightarrow> string" where
  "bridgeName nid =
     (let name = ''br-bap-'' @ ToLower nid in if 15 < length name then take 15 name else name)"

section \<open>Images and hooks\<close>

definition validImageStatus :: "string \<Rightarrow> bool" where
  "validImageStatus status = (status \<in> {''active'', ''deprecated'', ''archived''})"

definition defaultImageString :: "string \<Rightarrow> string \<Rightarrow> string" where
  "defaultImageString value fallback = (if value = '''' then fallback else value)"

definition cleanRelativePath :: "string \<Rightarrow> string" where
  "cleanRelativePath path0 =
     (let path = Clean (TrimSpace path0)
      in if path = ''.'' \<or> IsAbs path \<or> HasPrefix path ''../'' \<or> path = ''..'' then '''' else path)"

text \<open>The loop of \<open>normalizePackages\<close>: \<open>out\<close> is also the set \<open>seen\<close>.\<close>

fun packages_loop :: "string list \<Rightarrow> string list \<Rightarrow> err + string list" where
  "packages_loop out [] = Inr out"
| "packages_loop out (p # ps) =
     (let pkg = TrimSpace p
      in if pkg = '''' then packages_loop out ps
         else if \<not> MatchString packageNameRe pkg
         then Inl (Invalid ''Package name is invalid'' [(''packages'', ''invalid package '' @ pkg)])
         else packages_loop (if pkg \<in> set out then out else out @ [pkg]) ps)"

definition normalizePackages :: "string list \<Rightarrow> int \<Rightarrow> err + string list" where
  "normalizePackages packages limit =
     (case packages_loop [] packages of
        Inl e \<Rightarrow> Inl e
      | Inr out \<Rightarrow>
          if limit < int (length out)
          then Inl (Invalid ''Too many packages requested''
                 [(''packages'', ''must include at most '' @ Itoa limit @ '' packages'')])
          else Inr out)"

definition splitCommaList :: "string \<Rightarrow> string list" where
  "splitCommaList s = filter (\<lambda>p. p \<noteq> '''') (map TrimSpace (Split s (CHR '','')))"

definition package_sep :: "char \<Rightarrow> bool" where
  "package_sep c = (c \<in> {CHR '','', CHR 0x0A, CHR 0x0D, CHR 0x09, CHR '' ''})"

definition parsePackageForm :: "string \<Rightarrow> string list" where
  "parsePackageForm value =
     map TrimSpace (filter (\<lambda>f. TrimSpace f \<noteq> '''') (FieldsFunc value package_sep))"

definition parseHookIDs :: "string \<Rightarrow> string list" where
  "parseHookIDs value = splitCommaList value"

definition redactArgs :: "string list \<Rightarrow> string list" where
  "redactArgs args =
     map (\<lambda>arg. let lower = ToLower arg
        in if Contains lower ''password'' \<or> Contains lower ''token'' \<or> Contains lower ''secret''
           then ''[redacted]'' else arg) args"

section \<open>What the checks give\<close>

lemma nameRe_iff:
  "MatchString nameRe s \<longleftrightarrow>
     (case s of [] \<Rightarrow> False | c # t \<Rightarrow> is_alnum c \<and> length t \<le> 31 \<and> list_all name_char t)"
  unfolding nameRe_def by (rule MatchString_ident)

lemma devUserRe_iff:
  "MatchString devUserRe s \<longleftrightarrow>
     (case s of [] \<Rightarrow> False | c # t \<Rightarrow> user_first c \<and> length t \<le> 31 \<and> list_all user_char t)"
  unfolding devUserRe_def by (rule MatchString_ident)

lemma user_first_char: "user_first c \<Longrightarrow> user_char c"
  by (auto simp: user_first_def user_char_def)

lemma normalizeDevUser_chars:
  "normalizeDevUser u = Inr v \<Longrightarrow> v \<noteq> '''' \<and> length v \<le> 32 \<and> user_first (hd v) \<and> list_all user_char v"
  by (auto simp: normalizeDevUser_def Let_def devUserRe_iff user_first_char
      split: if_splits list.splits)

lemma not_user_char: "\<not> user_char (CHR ''/'')" "\<not> user_first (CHR ''.'')" "\<not> user_char (CHR 0x27)"
  by (simp_all add: user_char_def user_first_def is_lower_def is_digit_def)

lemma normalizeDevUser_name: "normalizeDevUser u = Inr v \<Longrightarrow> name_comp v"
  using normalizeDevUser_chars [of u v] not_user_char
  by (auto simp: name_comp_def list_all_iff)

lemma user_char_plain: "user_char c \<Longrightarrow> plain c"
  by (auto simp: user_char_def is_lower_def is_digit_def plain_def ascii_space_def)

lemma normalizeDevUser_idem: 
  assumes "normalizeDevUser u = Inr v"
  shows "normalizeDevUser v = Inr v"
proof -
  have "TrimSpace v = v"
    using normalizeDevUser_chars [OF assms] by (intro TrimSpace_plain) (auto simp: list_all_iff user_char_plain)
  moreover have "MatchString devUserRe v" "v \<noteq> ''''"
    using assms by (auto simp: normalizeDevUser_def Let_def devUserRe_iff split: if_splits)
  ultimately show ?thesis by (simp add: normalizeDevUser_def)
qed

text \<open>On absolute paths, \<open>pathWithin\<close> is the prefix relation of components.\<close>

lemma join_dots:
  "list_all name_comp ts \<Longrightarrow> join ''/'' (replicate (Suc n) ''..'' @ ts) = ''..'' \<or>
     HasPrefix (join ''/'' (replicate (Suc n) ''..'' @ ts)) ''../''"
  by (cases n; cases ts) (auto simp: HasPrefix_iff join_Cons)

lemma join_names_no_dots:
  "list_all name_comp ts \<Longrightarrow> join ''/'' ts \<noteq> ''..'' \<and> \<not> HasPrefix (join ''/'' ts) ''../''"
proof (cases ts)
  case (Cons t us)
  assume "list_all name_comp ts"
  then have t: "CHR ''/'' \<notin> set t" "t \<noteq> ''..''" "t \<noteq> ''''" using Cons by (auto simp: name_comp_def)
  have "Split (join ''/'' ts) (CHR ''/'') = ts"
    using \<open>list_all name_comp ts\<close> Cons by (simp add: Split_names)
  moreover have "Split (''../'' @ s) (CHR ''/'') = ''..'' # Split s (CHR ''/'')" for s by simp
  moreover have "Split ''..'' (CHR ''/'') = [''..'']" by simp
  ultimately show ?thesis using t Cons by (metis HasPrefix_iff list.inject)
qed simp

lemma pathWithin_abs:
  assumes "IsAbs path" "IsAbs root"
  shows "pathWithin path root \<longleftrightarrow> (\<exists>ts. clean_comps path = clean_comps root @ ts)"
proof -
  let ?r = "clean_comps root" and ?p = "clean_comps path"
  have names: "list_all name_comp ?r" "list_all name_comp ?p"
    using assms by (simp_all add: clean_comps_abs)
  obtain bs ts where s: "strip_common ?r ?p = (bs, ts)" by fastforce
  obtain cs where cs: "?r = cs @ bs" "?p = cs @ ts"
    using strip_common_parts [of ?r ?p] s by auto
  have bts: "list_all name_comp bs" "list_all name_comp ts" using names cs by auto
  have rel: "Rel root path =
      (if ?p = ?r then Some ''.'' else Some (join ''/'' (replicate (length bs) ''..'' @ ts)))"
  proof -
    have "rel_comps (Clean root) = ?r" "rel_comps (Clean path) = ?p"
      using assms names by (simp_all add: Clean_abs rel_comps_names [simplified])
    moreover have "Clean root \<noteq> ''.''" using assms by (simp add: Clean_abs)
    moreover have "bs \<noteq> [] \<Longrightarrow> hd bs \<noteq> ''..''" using bts by (cases bs) (auto simp: name_comp_def)
    ultimately show ?thesis
      using s assms by (auto simp: Rel_def Let_def IsAbs_Clean Clean_eq_iff)
  qed
  show ?thesis
  proof (cases "bs = []")
    case True
    then have "?p = ?r @ ts" using cs by simp
    then show ?thesis using rel True join_names_no_dots [OF bts(2)] by (auto simp: pathWithin_def)
  next
    case False
    then obtain n where n: "length bs = Suc n" by (cases bs) auto
    have "\<nexists>us. ?p = ?r @ us"
    proof
      assume "\<exists>us. ?p = ?r @ us"
      then have "strip_common ?r ?p = ([], drop (length ?r) ?p)" using strip_common_prefix by fastforce
      then show False using s False by simp
    qed
    moreover from this have "?p \<noteq> ?r" by (metis append_Nil2)
    ultimately show ?thesis using rel n join_dots [OF bts(2), of n] by (auto simp: pathWithin_def)
  qed
qed

lemma Join_abs:
  assumes "IsAbs root" "list_all name_comp ns" "ns \<noteq> []"
  shows "IsAbs (Join (root # ns)) \<and> clean_comps (Join (root # ns)) = clean_comps root @ ns"
proof -
  have e: "Join (root # ns) = Clean (root @ ''/'' @ join ''/'' ns)"
    using assms by (auto simp: Join_def IsAbs_iff join_Cons)
  have a: "IsAbs (root @ ''/'' @ join ''/'' ns)" using assms(1) by (auto simp: IsAbs_iff)
  show ?thesis
    unfolding e using a assms clean_comps_join_names by (metis IsAbs_Clean clean_comps_Clean)
qed

lemma ssh_dir_comps:
  assumes "IsAbs root" "normalizeDevUser u = Inr v"
  shows "clean_comps (Join [Clean root, ''home'', v, ''.ssh'']) = clean_comps root @ [''home'', v, ''.ssh'']"
    and "pathWithin (Join [Clean root, ''home'', v, ''.ssh'']) (Clean root)"
proof -
  have n: "list_all name_comp [''home'', v, ''.ssh'']"
    using normalizeDevUser_name [OF assms(2)] by (simp add: name_comp_def)
  have J: "IsAbs (Join [Clean root, ''home'', v, ''.ssh''])"
    "clean_comps (Join [Clean root, ''home'', v, ''.ssh'']) = clean_comps (Clean root) @ [''home'', v, ''.ssh'']"
    using Join_abs [OF IsAbs_Clean [OF assms(1)] n] by blast+
  show c: "clean_comps (Join [Clean root, ''home'', v, ''.ssh'']) = clean_comps root @ [''home'', v, ''.ssh'']"
    using J assms(1) by (simp add: clean_comps_Clean)
  show "pathWithin (Join [Clean root, ''home'', v, ''.ssh'']) (Clean root)"
    unfolding pathWithin_abs [OF J(1) IsAbs_Clean [OF assms(1)]] J(2) by blast
qed

lemma cleanRelativePath_names:
  assumes "cleanRelativePath p = r" "r \<noteq> ''''"
  shows "\<exists>ns. ns \<noteq> [] \<and> list_all name_comp ns \<and> r = join ''/'' ns"
proof -
  let ?t = "TrimSpace p"
  have r: "r = Clean ?t" "r \<noteq> ''.''" "\<not> IsAbs r" "\<not> HasPrefix r ''../''" "r \<noteq> ''..''"
    using assms by (auto simp: cleanRelativePath_def Let_def split: if_splits)
  have t: "\<not> IsAbs ?t" using r IsAbs_Clean by metis
  then obtain n ns where c: "clean_comps ?t = replicate n ''..'' @ ns" "list_all name_comp ns"
    using clean_comps_rel by blast
  have j: "r = join ''/'' (clean_comps ?t)" "clean_comps ?t \<noteq> []"
    using r t by (auto simp: Clean_def path_text_def split: if_splits)
  have "n = 0"
  proof (rule ccontr)
    assume "n \<noteq> 0"
    then obtain m where "n = Suc m" by (cases n) auto
    then show False using j c join_dots [OF c(2), of m] r by auto
  qed
  then show ?thesis using c j by auto
qed

end
