(* ===== verification/ExecText.thy ===== *)
theory ExecText
  imports World
begin

text \<open>
  The pure part of running commands in a guest (\<open>internal/lifecycle/service.go\<close>): quoting for the
  guest's shell, the checks of an exec request, the command line sent over ssh, the capped output
  buffer and the exit code. A lexer for the POSIX shell words that the command line uses gives the
  quoting its meaning; it refuses every other special character.
\<close>

section \<open>Quoting\<close>

definition shellQuote :: "string \<Rightarrow> string" where
  "shellQuote s = ReplaceAll s [CHR 0x27] [CHR 0x27, CHR 0x5C, CHR 0x27, CHR 0x27]"

definition shellEnv :: "string \<Rightarrow> string" where
  "shellEnv s = [CHR 0x27] @ shellQuote s @ [CHR 0x27]"

section \<open>Exec requests\<close>

record exec_request =
  req_Command :: string
  req_TimeoutSeconds :: int
  req_CWD :: string
  req_Env :: "(string \<times> string) list"
  req_Stdin :: string
  req_PTY :: bool
  req_EnvNil :: bool

text \<open>\<open>req_EnvNil\<close> says that the Go map is nil rather than empty, which only its JSON text shows.\<close>

definition defaultVMExecTimeoutSeconds :: int where "defaultVMExecTimeoutSeconds = 60"
definition maxVMExecTimeoutSeconds :: int where "maxVMExecTimeoutSeconds = 900"
definition maxVMExecOutputBytes :: nat where "maxVMExecOutputBytes = 2 ^ 20"
definition maxVMExecStdinBytes :: nat where "maxVMExecStdinBytes = 2 ^ 20"

definition env_first :: "char \<Rightarrow> bool" where
  "env_first c = (is_lower c \<or> is_upper c \<or> c = CHR ''_'')"

definition env_char :: "char \<Rightarrow> bool" where
  "env_char c = (is_alnum c \<or> c = CHR ''_'')"

definition vmExecEnvNameRe :: rx where
  "vmExecEnvNameRe = RSeq (RCls env_first) (RStar (RCls env_char))"

text \<open>
  The check of the environment; the list has the entries of the Go map in the order in which
  \<open>range\<close> visits them.
\<close>

fun check_env :: "(string \<times> string) list \<Rightarrow> err option" where
  "check_env [] = None"
| "check_env ((name, value) # env) =
     (if \<not> MatchString vmExecEnvNameRe name
      then Some (Invalid ''Environment variable name is invalid'' [(''env'', name)])
      else if CHR 0x00 \<in> set value
      then Some (Invalid ''Environment variable value is invalid''
                   [(''env'', name @ '' must not contain NUL bytes'')])
      else check_env env)"

definition normalizeVMExecRequest :: "exec_request \<Rightarrow> err + exec_request" where
  "normalizeVMExecRequest req0 =
     (let req1 = req0\<lparr>req_Command := TrimSpace (req_Command req0), req_CWD := TrimSpace (req_CWD req0)\<rparr>;
          req = (if req_TimeoutSeconds req1 = 0
                 then req1\<lparr>req_TimeoutSeconds := defaultVMExecTimeoutSeconds\<rparr> else req1)
      in if req_Command req = '''' then Inl (Invalid ''Command is required'' [(''command'', ''required'')])
         else if CHR 0x00 \<in> set (req_Command req)
         then Inl (Invalid ''Command is invalid'' [(''command'', ''must not contain NUL bytes'')])
         else if req_TimeoutSeconds req < 1 \<or> maxVMExecTimeoutSeconds < req_TimeoutSeconds req
         then Inl (Invalid ''Timeout is invalid''
                [(''timeout_seconds'', ''must be between 1 and '' @ Itoa maxVMExecTimeoutSeconds)])
         else if maxVMExecStdinBytes < length (req_Stdin req)
         then Inl (Invalid ''Stdin is too large''
                [(''stdin'', ''must be at most '' @ show_nat maxVMExecStdinBytes @ '' bytes'')])
         else case check_env (req_Env req) of Some e \<Rightarrow> Inl e | None \<Rightarrow> Inr req)"

text \<open>\<open>sort.Strings\<close> on the keys, each with its value.\<close>

definition sorted_env :: "(string \<times> string) list \<Rightarrow> (string \<times> string) list" where
  "sorted_env env = sort_key fst env"

definition buildRemoteExecCommand :: "exec_request \<Rightarrow> string" where
  "buildRemoteExecCommand req =
     (let cd = (if req_CWD req \<noteq> '''' then [''cd '' @ shellEnv (req_CWD req)] else []);
          envParts = map (\<lambda>(k, v). k @ ''='' @ shellEnv v) (sorted_env (req_Env req));
          command0 = ''sh -lc '' @ shellEnv (req_Command req);
          command = (if envParts \<noteq> [] then ''env '' @ join '' '' envParts @ '' '' @ command0 else command0)
      in join '' && '' (cd @ [command]))"

section \<open>Output and exit code\<close>

record limited_buffer =
  lb_limit :: nat
  lb_buf :: string
  lb_truncated :: bool

definition new_buffer :: "nat \<Rightarrow> limited_buffer" where
  "new_buffer limit = \<lparr>lb_limit = limit, lb_buf = '''', lb_truncated = False\<rparr>"

definition lb_write :: "string \<Rightarrow> limited_buffer \<Rightarrow> limited_buffer" where
  "lb_write p b =
     (let remaining = lb_limit b - length (lb_buf b)
      in if lb_limit b \<le> length (lb_buf b) then b\<lparr>lb_truncated := True\<rparr>
         else if remaining < length p
         then b\<lparr>lb_buf := lb_buf b @ take remaining p, lb_truncated := True\<rparr>
         else b\<lparr>lb_buf := lb_buf b @ p\<rparr>)"

definition exitCode :: "run_error option \<Rightarrow> bool \<Rightarrow> int" where
  "exitCode err timedOut =
     (if timedOut then -1
      else case err of None \<Rightarrow> 0 | Some (ExitError n) \<Rightarrow> n | Some (OtherError _) \<Rightarrow> -1)"

section \<open>Shell words\<close>

datatype shell_token = Word string | AndIf

definition flush :: "string option \<Rightarrow> shell_token list" where
  "flush w = (case w of None \<Rightarrow> [] | Some s \<Rightarrow> [Word s])"

definition extend :: "string option \<Rightarrow> string \<Rightarrow> string option" where
  "extend w s = Some (case w of None \<Rightarrow> s | Some t \<Rightarrow> t @ s)"

definition literal_char :: "char \<Rightarrow> bool" where
  "literal_char c = (is_alnum c \<or> c \<in> set ''_-='')"

text \<open>
  The token recognition of the POSIX shell for blanks, single quotes, the backslash, \<open>&&\<close> and
  literal characters; \<open>w\<close> is the word being read. An unclosed quote or any other character gives
  no tokens.
\<close>

function sh_lex :: "string option \<Rightarrow> string \<Rightarrow> shell_token list option" where
  "sh_lex w [] = Some (flush w)"
| "sh_lex w (c # s) =
     (if c = CHR '' '' then map_option (\<lambda>ts. flush w @ ts) (sh_lex None s)
      else if c = CHR 0x27 then
        (let q = takeWhile (\<lambda>x. x \<noteq> CHR 0x27) s; r = dropWhile (\<lambda>x. x \<noteq> CHR 0x27) s
         in if r = [] then None else sh_lex (extend w q) (tl r))
      else if c = CHR 0x5C then
        (if s = [] then None else sh_lex (extend w [hd s]) (tl s))
      else if c = CHR ''&'' then
        (if s \<noteq> [] \<and> hd s = CHR ''&'' then map_option (\<lambda>ts. flush w @ AndIf # ts) (sh_lex None (tl s)) else None)
      else if literal_char c then sh_lex (extend w [c]) s
      else None)"
  by pat_completeness auto
termination
proof (relation "measure (\<lambda>(w, s). length s)", goal_cases)
  case (3 w c s q r)
  then show ?case using length_dropWhile_le [of "\<lambda>x. x \<noteq> CHR 0x27" s] by simp
qed simp_all

declare sh_lex.simps(2) [simp del]

text \<open>Reading a quoted text gives it back, whatever it contains.\<close>

lemma shellQuote_Nil [simp]: "shellQuote [] = []"
  by (simp add: shellQuote_def ReplaceAll_single)

lemma shellQuote_Cons:
  "shellQuote (c # s) = (if c = CHR 0x27 then [CHR 0x27, CHR 0x5C, CHR 0x27, CHR 0x27] else [c]) @ shellQuote s"
  by (simp add: shellQuote_def ReplaceAll_single)

lemma shellQuote_split:
  "shellQuote s = takeWhile (\<lambda>x. x \<noteq> CHR 0x27) s @
     (case dropWhile (\<lambda>x. x \<noteq> CHR 0x27) s of
        [] \<Rightarrow> [] | _ # r \<Rightarrow> [CHR 0x27, CHR 0x5C, CHR 0x27, CHR 0x27] @ shellQuote r)"
  by (induction s) (auto simp: shellQuote_Cons)

lemma extend_extend [simp]: "extend (extend w s) t = extend w (s @ t)"
  by (simp add: extend_def split: option.splits)

lemma takeWhile_quote: "\<forall>x \<in> set a. x \<noteq> CHR 0x27 \<Longrightarrow>
    takeWhile (\<lambda>x. x \<noteq> CHR 0x27) (a @ CHR 0x27 # r) = a \<and> dropWhile (\<lambda>x. x \<noteq> CHR 0x27) (a @ CHR 0x27 # r) = CHR 0x27 # r"
  by (induction a) auto

lemma sh_lex_quoted: "sh_lex w (CHR 0x27 # shellQuote s @ CHR 0x27 # t) = sh_lex (extend w s) t"
proof (induction "length s" arbitrary: s w rule: less_induct)
  case less
  let ?a = "takeWhile (\<lambda>x. x \<noteq> CHR 0x27) s" and ?d = "dropWhile (\<lambda>x. x \<noteq> CHR 0x27) s"
  have a: "\<forall>x \<in> set ?a. x \<noteq> CHR 0x27" by (auto dest: set_takeWhileD)
  show ?case
  proof (cases ?d)
    case Nil
    have q: "shellQuote s = ?a" unfolding shellQuote_split [of s] Nil list.case append_Nil2 by (rule refl)
    have s: "?a = s" by (metis Nil append_Nil2 takeWhile_dropWhile_id)
    have "sh_lex w (CHR 0x27 # ?a @ CHR 0x27 # t) = sh_lex (extend w ?a) t"
      using takeWhile_quote [OF a] by (simp add: sh_lex.simps(2))
    then show ?thesis unfolding q s .
  next
    case (Cons x r)
    have x: "x = CHR 0x27" using dropWhile_eq_Cons_conv [THEN iffD1, OF Cons] by simp
    have s: "s = ?a @ CHR 0x27 # r"
      using dropWhile_eq_Cons_conv [THEN iffD1, OF Cons] unfolding x by (rule conjunct1)
    then have len: "length r < length s" by (metis length_append length_Cons less_add_Suc2 add_Suc_right)
    have q: "shellQuote s = ?a @ [CHR 0x27, CHR 0x5C, CHR 0x27, CHR 0x27] @ shellQuote r"
      using shellQuote_split [of s] Cons by simp
    have "sh_lex w (CHR 0x27 # shellQuote s @ CHR 0x27 # t) =
        sh_lex (extend w ?a) (CHR 0x5C # CHR 0x27 # CHR 0x27 # shellQuote r @ CHR 0x27 # t)"
      using takeWhile_quote [OF a] by (simp add: q sh_lex.simps(2))
    also have "\<dots> = sh_lex (extend w (?a @ [CHR 0x27])) (CHR 0x27 # shellQuote r @ CHR 0x27 # t)"
      by (simp add: sh_lex.simps(2))
    also have "\<dots> = sh_lex (extend w (?a @ [CHR 0x27] @ r)) t"
      using less [OF len, of "extend w (?a @ [CHR 0x27])"] by simp
    finally show ?thesis using s by simp
  qed
qed

lemma sh_lex_shellEnv: "sh_lex w (shellEnv s @ t) = sh_lex (extend w s) t"
  using sh_lex_quoted [of w s t] by (simp add: shellEnv_def)

lemma literal_char_plain: "literal_char c \<Longrightarrow> c \<noteq> CHR '' '' \<and> c \<noteq> CHR 0x27 \<and> c \<noteq> CHR 0x5C \<and> c \<noteq> CHR ''&''"
  by (auto simp: literal_char_def is_alnum_def is_lower_def is_upper_def is_digit_def)

lemma sh_lex_literal: "list_all literal_char a \<Longrightarrow> a \<noteq> [] \<Longrightarrow> sh_lex w (a @ t) = sh_lex (extend w a) t"
proof (induction a arbitrary: w)
  case (Cons c a)
  have "literal_char c" using Cons.prems by simp
  then have "sh_lex w ((c # a) @ t) = sh_lex (extend w [c]) (a @ t)"
    using literal_char_plain [of c] by (simp add: sh_lex.simps(2))
  then show ?case using Cons by (cases "a = []") auto
qed simp

lemma sh_lex_space: "sh_lex w (CHR '' '' # t) = map_option (\<lambda>ts. flush w @ ts) (sh_lex None t)"
  by (simp add: sh_lex.simps(2))

lemma sh_lex_and: "sh_lex w (''&& '' @ t) = map_option (\<lambda>ts. flush w @ AndIf # ts) (sh_lex None t)"
  by (simp add: sh_lex.simps(2) sh_lex_space flush_def option.map_comp comp_def option.map_ident)

lemma extend_None [simp]: "extend None s = Some s"
  by (simp add: extend_def)

lemma extend_Some [simp]: "extend (Some t) s = Some (t @ s)"
  by (simp add: extend_def)

lemma flush_None [simp]: "flush None = []"
  by (simp add: flush_def)

lemma flush_Some [simp]: "flush (Some s) = [Word s]"
  by (simp add: flush_def)

definition env_word :: "string \<times> string \<Rightarrow> shell_token" where
  "env_word kv = Word (fst kv @ ''='' @ snd kv)"

lemma vmExecEnvNameRe_literal: "MatchString vmExecEnvNameRe k \<Longrightarrow> k \<noteq> [] \<and> list_all literal_char k"
  by (auto simp: vmExecEnvNameRe_def MatchString_ident_star env_first_def env_char_def literal_char_def
      is_alnum_def list_all_iff split: list.splits)

lemma sh_lex_env:
  assumes "\<forall>(k, v) \<in> set env. MatchString vmExecEnvNameRe k" "env \<noteq> []"
  shows "sh_lex None (join '' '' (map (\<lambda>(k, v). k @ ''='' @ shellEnv v) env) @ CHR '' '' # t) =
    map_option (\<lambda>ts. map env_word env @ ts) (sh_lex None t)"
  using assms
proof (induction env)
  case (Cons kv env)
  obtain k v where kv: "kv = (k, v)" by (cases kv)
  have k: "k @ ''='' \<noteq> []" "list_all literal_char (k @ ''='')"
    using Cons.prems(1) vmExecEnvNameRe_literal [of k] kv by (auto simp: literal_char_def)
  have one: "sh_lex None (k @ ''='' @ shellEnv v @ CHR '' '' # u) =
      map_option (\<lambda>ts. env_word kv # ts) (sh_lex None u)" for u
    using sh_lex_literal [OF k(2,1), of None "shellEnv v @ CHR '' '' # u"]
    by (simp add: sh_lex_shellEnv sh_lex_space env_word_def kv)
  show ?case
  proof (cases "env = []")
    case True
    then show ?thesis using one [of t] kv by (simp add: env_word_def)
  next
    case False
    then have "sh_lex None (join '' '' (map (\<lambda>(k, v). k @ ''='' @ shellEnv v) (kv # env)) @ CHR '' '' # t) =
        map_option (\<lambda>ts. env_word kv # ts)
          (sh_lex None (join '' '' (map (\<lambda>(k, v). k @ ''='' @ shellEnv v) env) @ CHR '' '' # t))"
      using one kv by (simp add: join_Cons)
    also have "\<dots> = map_option (\<lambda>ts. map env_word (kv # env) @ ts) (sh_lex None t)"
      using Cons False by (simp add: option.map_comp comp_def)
    finally show ?thesis .
  qed
qed simp


text \<open>The words that the guest's shell sees for a request.\<close>

definition remote_tokens :: "exec_request \<Rightarrow> shell_token list" where
  "remote_tokens req =
     (if req_CWD req \<noteq> [] then [Word ''cd'', Word (req_CWD req), AndIf] else []) @
     (if req_Env req \<noteq> [] then Word ''env'' # map env_word (sorted_env (req_Env req)) else []) @
     [Word ''sh'', Word ''-lc'', Word (req_Command req)]"

lemma sh_lex_words:
  assumes "list_all literal_char a" "a \<noteq> []"
  shows "sh_lex None (a @ CHR '' '' # t) = map_option (\<lambda>ts. Word a # ts) (sh_lex None t)"
  using sh_lex_literal [OF assms] by (simp add: sh_lex_space)

lemma sh_lex_command: "sh_lex None (''sh -lc '' @ shellEnv c) = Some [Word ''sh'', Word ''-lc'', Word c]"
  using sh_lex_words [of "''sh''" "''-lc'' @ CHR '' '' # shellEnv c"]
    sh_lex_words [of "''-lc''" "shellEnv c"] sh_lex_shellEnv [of None c "[]"]
  by (simp add: literal_char_def is_alnum_def is_lower_def)

lemma sh_lex_env_command:
  assumes "\<forall>(k, v) \<in> set env. MatchString vmExecEnvNameRe k" "env \<noteq> []"
  shows "sh_lex None (''env '' @ join '' '' (map (\<lambda>(k, v). k @ ''='' @ shellEnv v) env) @ '' '' @ ''sh -lc '' @ shellEnv c) =
    Some (Word ''env'' # map env_word env @ [Word ''sh'', Word ''-lc'', Word c])"
  using sh_lex_words [of "''env''" "join '' '' (map (\<lambda>(k, v). k @ ''='' @ shellEnv v) env) @ CHR '' '' # ''sh -lc '' @ shellEnv c"]
    sh_lex_env [OF assms, of "''sh -lc '' @ shellEnv c"] sh_lex_command [of c]
  by (simp add: literal_char_def is_alnum_def is_lower_def)

lemma sh_lex_cd:
  "sh_lex None (''cd '' @ shellEnv d @ '' && '' @ t) = map_option (\<lambda>ts. [Word ''cd'', Word d, AndIf] @ ts) (sh_lex None t)"
  using sh_lex_words [of "''cd''" "shellEnv d @ CHR '' '' # ''&& '' @ t"]
  by (simp add: literal_char_def is_alnum_def is_lower_def sh_lex_shellEnv sh_lex_space sh_lex_and [simplified]
      flush_None option.map_comp comp_def)

lemma check_env_names: "check_env env = None \<Longrightarrow> \<forall>(k, v) \<in> set env. MatchString vmExecEnvNameRe k"
  by (induction env rule: check_env.induct) (auto split: if_splits)

lemma normalizeVMExecRequest_ok:
  "normalizeVMExecRequest r = Inr req \<Longrightarrow>
    check_env (req_Env req) = None \<and> req_Command req \<noteq> [] \<and> 1 \<le> req_TimeoutSeconds req \<and>
    req_TimeoutSeconds req \<le> maxVMExecTimeoutSeconds \<and> length (req_Stdin req) \<le> maxVMExecStdinBytes"
  by (auto simp: normalizeVMExecRequest_def Let_def split: if_splits option.splits)

text \<open>
  C11: a request that passes the checks is sent as exactly its words: the guest's shell reads the
  directory, each \<open>NAME=value\<close> and the command back as they are, with no other token.
\<close>

theorem buildRemoteExecCommand_words:
  assumes "normalizeVMExecRequest r = Inr req"
  shows "sh_lex None (buildRemoteExecCommand req) = Some (remote_tokens req)"
proof -
  have env: "\<forall>(k, v) \<in> set (sorted_env (req_Env req)). MatchString vmExecEnvNameRe k"
    using normalizeVMExecRequest_ok [OF assms] check_env_names by (auto simp: sorted_env_def)
  have empty: "sorted_env (req_Env req) = [] \<longleftrightarrow> req_Env req = []"
    by (metis sorted_env_def length_0_conv length_sort)
  show ?thesis
    using sh_lex_env_command [OF env] sh_lex_command
    by (simp add: buildRemoteExecCommand_def remote_tokens_def Let_def empty join_Cons sh_lex_cd [simplified])
qed

definition sample_request :: exec_request where
  "sample_request = \<lparr>req_Command = ''uptime -p'', req_TimeoutSeconds = 0, req_CWD = ''/work'',
     req_Env = [(''LANG'', ''C''), (''A'', ''it'' @ [CHR 0x27] @ ''s'')], req_Stdin = '''', req_PTY = False, req_EnvNil = False\<rparr>"

lemma sample_request_ok: "\<exists>req. normalizeVMExecRequest sample_request = Inr req \<and> req_CWD req = ''/work''"
proof -
  have "TrimSpace ''uptime -p'' = ''uptime -p''" "TrimSpace ''/work'' = ''/work''"
    "check_env [(''LANG'', ''C''), (''A'', ''it'' @ [CHR 0x27] @ ''s'')] = None" "HasPrefix ''/work'' ''/''"
    by code_simp+
  then show ?thesis
    by (simp add: normalizeVMExecRequest_def sample_request_def defaultVMExecTimeoutSeconds_def maxVMExecTimeoutSeconds_def
        Let_def)
qed

lemma buildRemoteExecCommand_words_witness:
  "\<exists>req. sh_lex None (buildRemoteExecCommand req) = Some (remote_tokens req) \<and> req_CWD req = ''/work''"
proof -
  obtain req where "normalizeVMExecRequest sample_request = Inr req" "req_CWD req = ''/work''"
    using sample_request_ok by blast
  with buildRemoteExecCommand_words [of sample_request req] show ?thesis by blast
qed

section \<open>The capped buffer\<close>

definition lb_writes :: "string list \<Rightarrow> limited_buffer \<Rightarrow> limited_buffer" where
  "lb_writes ps b = fold lb_write ps b"

lemma lb_writes_limit [simp]: "lb_limit (lb_writes ps b) = lb_limit b"
  by (induction ps arbitrary: b) (auto simp: lb_writes_def lb_write_def Let_def)

lemma lb_writes_buf:
  "length (lb_buf b) \<le> lb_limit b \<Longrightarrow>
    lb_buf (lb_writes ps b) = take (lb_limit b) (lb_buf b @ concat ps)"
proof (induction ps arbitrary: b)
  case (Cons p ps)
  have "length (lb_buf (lb_write p b)) \<le> lb_limit (lb_write p b)"
    using Cons.prems by (auto simp: lb_write_def Let_def)
  from Cons.IH [OF this] Cons.prems show ?case
    by (auto simp: lb_writes_def lb_write_def Let_def)
qed (simp add: lb_writes_def)

lemma lb_writes_truncated:
  "length (lb_buf b) \<le> lb_limit b \<Longrightarrow> (lb_truncated b \<or> lb_limit b < length (lb_buf b @ concat ps)) \<Longrightarrow>
    lb_truncated (lb_writes ps b)"
proof (induction ps arbitrary: b)
  case (Cons p ps)
  have "length (lb_buf (lb_write p b)) \<le> lb_limit (lb_write p b)"
    using Cons.prems by (auto simp: lb_write_def Let_def)
  moreover have "lb_truncated (lb_write p b) \<or>
      lb_limit (lb_write p b) < length (lb_buf (lb_write p b) @ concat ps)"
    using Cons.prems by (auto simp: lb_write_def Let_def)
  ultimately show ?case using Cons.IH [of "lb_write p b"] by (simp add: lb_writes_def)
qed (auto simp: lb_writes_def)

text \<open>
  C23: whatever the sequence of writes, the buffer holds the first bytes of the output up to the
  limit, and it says so when it lost something.
\<close>

theorem limitedBuffer_prefix:
  "lb_buf (lb_writes ps (new_buffer n)) = take n (concat ps) \<and>
   (lb_truncated (lb_writes ps (new_buffer n)) \<or> lb_buf (lb_writes ps (new_buffer n)) = concat ps)"
  using lb_writes_buf [of "new_buffer n" ps] lb_writes_truncated [of "new_buffer n" ps]
  by (auto simp: new_buffer_def)

end
