(* ===== verification/HostOps.thy ===== *)
theory HostOps
  imports StoreImages Names ExecText
begin

text \<open>
  The small operations on the host that \<open>internal/lifecycle\<close> shares: checks of files and binaries,
  network links, TAP and bridge removal (which ignores what is already gone), the default route and
  the paths of a jailed VM. The lemmas at the end show that none of them changes the database.
\<close>

section \<open>Calls\<close>

definition os_call :: "string \<Rightarrow> string list \<Rightarrow> unit io" where
  "os_call name args = do_effect (Os name args)"

definition mkdirAll :: "string \<Rightarrow> string \<Rightarrow> unit io" where
  "mkdirAll path mode = os_call ''MkdirAll'' [path, mode]"

definition writeFile :: "string \<Rightarrow> string \<Rightarrow> string \<Rightarrow> unit io" where
  "writeFile path content mode = os_call ''WriteFile'' [path, content, mode]"

definition removeFile :: "string \<Rightarrow> unit io" where
  "removeFile path = os_call ''Remove'' [path]"

definition readFile :: "string \<Rightarrow> string io" where
  "readFile path = perform (Os ''ReadFile'' [path])"

text \<open>\<open>err := m()\<close>: the error alone.\<close>

definition errorOf :: "unit io \<Rightarrow> err option io" where
  "errorOf m = bindE (tryE m) (\<lambda>r. returnE (case r of Inl e \<Rightarrow> Some e | Inr _ \<Rightarrow> None))"

definition Millisecond :: duration where "Millisecond = 1000000"

definition NL :: string where "NL = [CHR 0x0A]"

definition lines_text :: "string list \<Rightarrow> string" where
  "lines_text ls = concat (map (\<lambda>l. l @ NL) ls)"

section \<open>Files\<close>

definition requireFile :: "string \<Rightarrow> unit io" where
  "requireFile path =
     bindE (stat path) (\<lambda>r. case r of
         Found fi \<Rightarrow> failIf (fi_IsDir fi) (PlainError (path @ '' is a directory''))
       | Missing m \<Rightarrow> throwE (PlainError m)
       | StatFailed m \<Rightarrow> throwE (PlainError m))"

definition requireExecutable :: "string \<Rightarrow> unit io" where
  "requireExecutable path =
     bindE (stat path) (\<lambda>r. case r of
         Found fi \<Rightarrow>
           failIf (fi_IsDir fi \<or> and (fi_Mode fi) 0x49 = 0) (PlainError (path @ '' is not executable''))
       | Missing m \<Rightarrow> throwE (PlainError m)
       | StatFailed m \<Rightarrow> throwE (PlainError m))"

definition imageSizes :: "string \<Rightarrow> (int \<times> int) io" where
  "imageSizes path =
     bindE (stat path) (\<lambda>r. case r of
         Found fi \<Rightarrow>
           returnE ((fi_Size fi + 1024 * 1024 - 1) div (1024 * 1024),
                    if 0 < fi_Blocks fi then fi_Blocks fi * 512 else fi_Size fi)
       | Missing m \<Rightarrow> throwE (PlainError m)
       | StatFailed m \<Rightarrow> throwE (PlainError m))"

definition detectFilesystem :: "string \<Rightarrow> string io" where
  "detectFilesystem path =
     bindE (tryE (perform (Output ''blkid'' [''-o'', ''value'', ''-s'', ''TYPE'', path])))
       (\<lambda>r. returnE (case r of Inl e \<Rightarrow> '''' | Inr out \<Rightarrow> TrimSpace out))"

section \<open>Links\<close>

definition cleanup_texts :: "string list" where
  "cleanup_texts = [''Cannot find device'', ''No such device'', ''does not exist'', ''not found'',
     ''not mounted'', ''not a mountpoint'', ''no mount point specified'', ''Invalid argument'']"

definition cleanupOK :: "err option \<Rightarrow> bool" where
  "cleanupOK err = (case err of None \<Rightarrow> True | Some e \<Rightarrow> list_ex (Contains (err_text e)) cleanup_texts)"

text \<open>
  The closure \<open>ignore(label, err)\<close> around a list of steps: each runs, and the failures that
  \<open>cleanupOK\<close> does not excuse are collected.
\<close>

fun cleanup_steps :: "(string \<times> unit io) list \<Rightarrow> string list io" where
  "cleanup_steps [] = returnE []"
| "cleanup_steps ((label, m) # rest) =
     bindE (errorOf m) (\<lambda>err. bindE (cleanup_steps rest) (\<lambda>errs.
       returnE ((case err of
           Some e \<Rightarrow> if cleanupOK err then [] else [label @ '': '' @ err_text e]
         | None \<Rightarrow> []) @ errs)))"

definition joined_errors :: "string list \<Rightarrow> unit io" where
  "joined_errors errs = failIf (errs \<noteq> []) (PlainError (join ''; '' errs))"

definition linkExists :: "string \<Rightarrow> bool io" where
  "linkExists name =
     bindE (errorOf (run ''ip'' [''link'', ''show'', ''dev'', name])) (\<lambda>err. returnE (err = None))"

text \<open>The name in a line of \<open>ip -o link show\<close>: the second field, without its colon and peer.\<close>

definition link_name :: "string \<Rightarrow> string option" where
  "link_name line =
     (case Fields line of
        _ # f # _ \<Rightarrow>
          (let name0 = TrimSuffix f '':''; name = takeWhile (\<lambda>c. c \<noteq> CHR ''@'') name0
           in if name \<noteq> '''' then Some name else None)
      | _ \<Rightarrow> None)"

definition hostLinks :: "string list io" where
  "hostLinks =
     bindE (perform (Output ''ip'' [''-o'', ''link'', ''show'']))
       (\<lambda>out. returnE (List.map_filter link_name (Split out (CHR 0x0A))))"

text \<open>The loop of \<open>deleteTapDevice\<close>, at most eight attempts; \<open>lastErr\<close> is the last error.\<close>

fun delete_tap_loop :: "nat \<Rightarrow> string \<Rightarrow> err option \<Rightarrow> (bool \<times> err option) io" where
  "delete_tap_loop 0 name lastErr = returnE (False, lastErr)"
| "delete_tap_loop (Suc n) name _ =
     bindE (errorOf (run ''ip'' [''tuntap'', ''del'', ''dev'', name, ''mode'', ''tap''])) (\<lambda>lastErr.
       if cleanupOK lastErr then returnE (True, lastErr)
       else if (case lastErr of None \<Rightarrow> True | Some e \<Rightarrow> \<not> Contains (err_text e) ''Device or resource busy'')
       then returnE (False, lastErr)
       else seqE (ignoreE (run ''ip'' [''link'', ''set'', ''dev'', name, ''nomaster'']))
           (seqE (ignoreE (run ''ip'' [''link'', ''set'', name, ''down'']))
           (seqE (do_effect (Sleep (250 * Millisecond)))
             (delete_tap_loop n name lastErr))))"

definition deleteTapDevice :: "string \<Rightarrow> unit io" where
  "deleteTapDevice name =
     bindE (delete_tap_loop 8 name None) (\<lambda>(gone, lastErr).
       if gone then returnE ()
       else bindE (errorOf (run ''ip'' [''link'', ''delete'', name])) (\<lambda>linkErr.
         case linkErr of
           None \<Rightarrow> returnE ()
         | Some le \<Rightarrow>
             if cleanupOK linkErr then returnE ()
             else case lastErr of
                 Some e \<Rightarrow> throwE (PlainError (err_text e @ ''; fallback link delete: '' @ err_text le))
               | None \<Rightarrow> throwE le))"

definition cleanupTap :: "string \<Rightarrow> unit io" where
  "cleanupTap name =
     bindE (cleanup_steps
       [(''detach'', run ''ip'' [''link'', ''set'', ''dev'', name, ''nomaster'']),
        (''flush'', run ''ip'' [''addr'', ''flush'', ''dev'', name]),
        (''down'', run ''ip'' [''link'', ''set'', name, ''down'']),
        (''delete'', deleteTapDevice name)]) joined_errors"

definition cleanupBridge :: "string \<Rightarrow> unit io" where
  "cleanupBridge name =
     bindE (cleanup_steps
       [(''flush'', run ''ip'' [''addr'', ''flush'', ''dev'', name]),
        (''down'', run ''ip'' [''link'', ''set'', name, ''down'']),
        (''delete'', run ''ip'' [''link'', ''del'', name, ''type'', ''bridge''])]) joined_errors"

fun dev_field :: "string list \<Rightarrow> string option" where
  "dev_field (a # b # rest) = (if a = ''dev'' then Some b else dev_field (b # rest))"
| "dev_field _ = None"

definition defaultIF :: "string io" where
  "defaultIF =
     bindE (perform (Output ''ip'' [''route'', ''show'', ''default''])) (\<lambda>out.
       case dev_field (Fields out) of
         Some name \<Rightarrow> returnE name
       | None \<Rightarrow> throwE (PlainError ''default route interface not found''))"

section \<open>A jailed VM\<close>

definition jailDir :: "config \<Rightarrow> vm \<Rightarrow> string" where
  "jailDir c vm = Join [JailerBaseDir (Paths c), ''firecracker'', vm_Name vm]"

definition chrootRoot :: "config \<Rightarrow> vm \<Rightarrow> string" where
  "chrootRoot c vm = Join [JailerBaseDir (Paths c), ''firecracker'', vm_Name vm, ''root'']"

definition socketPath :: "config \<Rightarrow> vm \<Rightarrow> string" where
  "socketPath c vm = Join [chrootRoot c vm, ''firecracker.socket'']"

definition process_pattern :: "string \<Rightarrow> vm \<Rightarrow> string" where
  "process_pattern program vm = program @ ''.*--id.*'' @ vm_Name vm"

definition processRunning :: "vm \<Rightarrow> bool io" where
  "processRunning vm =
     bindE (ask (Exec ''pgrep'' [''-f'', process_pattern ''firecracker'' vm]))
       (\<lambda>r. returnE (case r of Fail _ _ \<Rightarrow> False | _ \<Rightarrow> True))"

section \<open>None of it changes the database\<close>

lemma ro_os_call [ro]: "ro_io (os_call n a)" unfolding os_call_def by (intro ro)
lemma ro_mkdirAll [ro]: "ro_io (mkdirAll p m)" unfolding mkdirAll_def by (intro ro)
lemma ro_writeFile [ro]: "ro_io (writeFile p c m)" unfolding writeFile_def by (intro ro)
lemma ro_removeFile [ro]: "ro_io (removeFile p)" unfolding removeFile_def by (intro ro)
lemma ro_readFile [ro]: "ro_io (readFile p)" unfolding readFile_def by (intro ro)
lemma ro_errorOf [ro]: "ro_io m \<Longrightarrow> ro_io (errorOf m)" unfolding errorOf_def by (intro ro)
lemma ro_requireFile [ro]: "ro_io (requireFile p)" unfolding requireFile_def by (intro ro)
lemma ro_requireExecutable [ro]: "ro_io (requireExecutable p)" unfolding requireExecutable_def by (intro ro)
lemma ro_imageSizes [ro]: "ro_io (imageSizes p)" unfolding imageSizes_def by (intro ro)
lemma ro_detectFilesystem [ro]: "ro_io (detectFilesystem p)" unfolding detectFilesystem_def by (intro ro)
lemma ro_linkExists [ro]: "ro_io (linkExists n)" unfolding linkExists_def by (intro ro)
lemma ro_hostLinks [ro]: "ro_io hostLinks" unfolding hostLinks_def by (intro ro)
lemma ro_joined_errors [ro]: "ro_io (joined_errors es)" unfolding joined_errors_def by (intro ro)
lemma ro_processRunning [ro]: "ro_io (processRunning vm)" unfolding processRunning_def by (intro ro)
lemma ro_defaultIF [ro]: "ro_io defaultIF" unfolding defaultIF_def by (intro ro)

lemma ro_cleanup_steps [ro]: "list_all (\<lambda>s. ro_io (snd s)) steps \<Longrightarrow> ro_io (cleanup_steps steps)"
  by (induction steps rule: cleanup_steps.induct) (auto intro!: ro)

lemma ro_delete_tap_loop [ro]: "ro_io (delete_tap_loop n name lastErr)"
  by (induction n arbitrary: lastErr) (auto intro!: ro)

lemma ro_deleteTapDevice [ro]: "ro_io (deleteTapDevice name)"
  unfolding deleteTapDevice_def by (intro ro)

lemma ro_cleanupTap [ro]: "ro_io (cleanupTap name)"
  unfolding cleanupTap_def by (intro ro) (simp add: ro)

lemma ro_cleanupBridge [ro]: "ro_io (cleanupBridge name)"
  unfolding cleanupBridge_def by (intro ro) (simp add: ro)


text \<open>The answer of a query is read from the database of the moment.\<close>

lemma query_db: "query q f w = (Inr x, w') \<Longrightarrow> x = f (database w) \<and> database w' = database w \<and> cfg w' = cfg w"
  using ro_ioD [OF ro_query, of q f w "Inr x" w'] by (auto simp: query_run)

lemma errorOf_run [io_run]: "errorOf m w = (r, w') \<longleftrightarrow>
    (\<exists>e. m w = (Inl e, w') \<and> r = Inr (Some e)) \<or> (m w = (Inr (), w') \<and> r = Inr None)"
  by (auto simp: errorOf_def bindE_def tryE_def returnE_def split: prod.splits sum.splits)

lemma ro_db: "ro_io m \<Longrightarrow> m w = (r, w') \<Longrightarrow> database w' = database w"
  by (auto dest: ro_ioD)

lemma exec_db:
  "exec q f w = (r, w') \<Longrightarrow>
     (case r of Inl _ \<Rightarrow> database w' = database w | Inr _ \<Rightarrow> f (database w) = Inr (database w'))"
  by (cases r) (auto simp: io_run dest!: ro_db [OF ro_perform])

lemma ro_cfg: "ro_io m \<Longrightarrow> m w = (r, w') \<Longrightarrow> cfg w' = cfg w"
  by (auto dest: ro_ioD)

end
