(* ===== verification/Guest.thy ===== *)
theory Guest
  imports HostOps
begin

text \<open>
  A VM's disk and what is written into it: choosing the base image and the kernel
  (\<open>resolveBaseImageForVM\<close>, \<open>resolveKernelForVM\<close>), copying and resizing the root file system
  (\<open>prepareRootFSImage\<close>, \<open>resizeMountedRootFS\<close>), the files of the guest (\<open>writeGuestFiles\<close>) and the
  mount, write, unmount sequence \<open>prepareRootFS\<close>. \<open>onErrorE\<close> is the deferred unmount, which runs
  unless the last unmount succeeded.
\<close>

section \<open>Image and kernel of a VM\<close>

definition defaultKernelBootArgs :: string where
  "defaultKernelBootArgs =
     ''console=ttyS0 reboot=k panic=1 pci=off root=/dev/vda rw clocksource=tsc tsc=reliable''"

definition resolveBaseImageForVM :: "string \<Rightarrow> int \<Rightarrow> (base_image \<times> int) io" where
  "resolveBaseImageForVM requestedID requestedSizeMiB =
     bindE (if requestedID \<noteq> '''' then store_GetBaseImage requestedID else store_DefaultBaseImage)
       (\<lambda>found. case found of
           None \<Rightarrow> throwE (NotFound ''base image not found'')
         | Some img \<Rightarrow>
             seqE (failIf (img_Status img \<noteq> ''active'') (Unprocessable ''Base image is not active''
                     [(''base_image_id'', ''select an active base image'')]))
             (bindE (errorOf (requireFile (img_Path img))) (\<lambda>err. case err of
                 Some e \<Rightarrow> throwE (Invalid ''Base image file is unavailable'' [(''base_image_id'', err_text e)])
               | None \<Rightarrow>
                   bindE (if img_VirtualSizeMiB img \<le> 0
                          then bindE (imageSizes (img_Path img)) (\<lambda>(mib, bytes). returnE mib)
                          else returnE (img_VirtualSizeMiB img)) (\<lambda>baseSize.
                   bindE (config_get (\<lambda>c. MaxVMRootFSMiB (Images c))) (\<lambda>maxSize.
                     let sizeMiB = (if requestedSizeMiB = 0 then baseSize else requestedSizeMiB)
                     in seqE (failIf (sizeMiB < baseSize) (Invalid ''VM rootfs size is too small''
                               [(''rootfs_size_mib'', ''must be at least selected base image size '' @ Itoa baseSize @ '' MiB'')]))
                       (seqE (failIf (maxSize < sizeMiB) (Invalid ''VM rootfs size is too large''
                               [(''rootfs_size_mib'', ''must be at most '' @ Itoa maxSize @ '' MiB'')]))
                         (returnE (img, sizeMiB))))))))"

definition resolveKernelForVM :: "string \<Rightarrow> bool \<Rightarrow> kernel io" where
  "resolveKernelForVM requestedID allowPending =
     bindE (if requestedID \<noteq> '''' then store_GetKernel requestedID else store_DefaultKernel)
       (\<lambda>found. case found of
           None \<Rightarrow> throwE (NotFound ''kernel not found'')
         | Some krn \<Rightarrow>
             seqE (failIf (krn_Status krn \<noteq> ''active'' \<and>
                      \<not> (allowPending \<and> (krn_Status krn = ''pending'' \<or> krn_Status krn = ''failed'')))
                    (Unprocessable ''Kernel is not active'' [(''kernel_id'', ''select an active tested kernel'')]))
             (bindE (errorOf (requireFile (krn_Path krn))) (\<lambda>err. case err of
                 Some e \<Rightarrow> throwE (Invalid ''Kernel file is unavailable'' [(''kernel_id'', err_text e)])
               | None \<Rightarrow> returnE krn)))"

definition bootArgsForVM :: "vm \<Rightarrow> string io" where
  "bootArgsForVM vm =
     (if vm_KernelID vm \<noteq> '''' then
        bindE (tryE (store_GetKernel (vm_KernelID vm))) (\<lambda>r. returnE (case r of
            Inr (Some krn) \<Rightarrow> if TrimSpace (krn_BootArgs krn) \<noteq> '''' then krn_BootArgs krn else defaultKernelBootArgs
          | _ \<Rightarrow> defaultKernelBootArgs))
      else returnE defaultKernelBootArgs)"

section \<open>Guest files\<close>

definition DQ :: string where "DQ = [CHR 0x22]"

definition authorizedKeysScript :: string where
  "authorizedKeysScript = lines_text
     [''#!/usr/bin/env bash'',
      ''set -euo pipefail'',
      ''user='' @ DQ @ ''${1:-}'' @ DQ,
      ''[[ -f /etc/bap-web/vm.env ]] || exit 0'',
      ''source /etc/bap-web/vm.env'',
      ''[[ -n '' @ DQ @ ''${VM_ID:-}'' @ DQ @ '' && -n '' @ DQ @ ''${BAP_WEB_AUTHORIZED_KEYS_URL:-}'' @ DQ @ '' ]] || exit 0'',
      ''curl -fsS --max-time 3 --get '' @ [CHR 0x5C],
      ''  --data-urlencode '' @ DQ @ ''vm_id=${VM_ID}'' @ DQ @ '' '' @ [CHR 0x5C],
      ''  --data-urlencode '' @ DQ @ ''user=${user}'' @ DQ @ '' '' @ [CHR 0x5C],
      ''  '' @ DQ @ ''${BAP_WEB_AUTHORIZED_KEYS_URL}'' @ DQ @ '' 2>/dev/null || true'']"

definition authorizedKeysDropIn :: string where
  "authorizedKeysDropIn = lines_text
     [''AuthorizedKeysCommand /usr/local/sbin/bap-web-authorized-keys %u'',
      ''AuthorizedKeysCommandUser nobody'']"

text \<open>The environment file of the key helper.\<close>

definition vm_env :: "vm \<Rightarrow> int \<Rightarrow> string" where
  "vm_env vm metadataPort = lines_text
     [''VM_ID='' @ shellEnv (vm_ID vm),
      ''DEV_USER='' @ shellEnv (vm_DevUser vm),
      ''BAP_WEB_AUTHORIZED_KEYS_URL=http://'' @ shellEnv (vm_HostIP vm) @ '':'' @ Itoa metadataPort @
        ''/metadata/v1/authorized-keys'']"

definition sshd_include :: string where
  "sshd_include = ''Include /etc/ssh/sshd_config.d/*.conf''"

definition writeGuestSSHKeySupport :: "string \<Rightarrow> vm \<Rightarrow> int \<Rightarrow> unit io" where
  "writeGuestSSHKeySupport root vm metadataPort =
     (let scriptPath = Join [root, ''usr/local/sbin/bap-web-authorized-keys''];
          dropIn = Join [root, ''etc/ssh/sshd_config.d/90-bap-web-authorized-keys.conf''];
          sshdConfig = Join [root, ''etc/ssh/sshd_config'']
      in seqE (mkdirAll (Join [root, ''etc/bap-web'']) ''0755'')
        (seqE (writeFile (Join [root, ''etc/bap-web/vm.env'']) (vm_env vm metadataPort) ''0644'')
        (seqE (mkdirAll (Dir scriptPath) ''0755'')
        (seqE (writeFile scriptPath authorizedKeysScript ''0755'')
        (seqE (mkdirAll (Dir dropIn) ''0755'')
        (seqE (writeFile dropIn authorizedKeysDropIn ''0644'')
        (bindE (tryE (readFile sshdConfig)) (\<lambda>r. case r of
            Inl e \<Rightarrow> returnE ()
          | Inr b \<Rightarrow>
              if Contains b sshd_include then returnE ()
              else seqE (os_call ''OpenFile'' [sshdConfig, ''O_APPEND|O_WRONLY'', ''0644''])
                (bindE (errorOf (os_call ''WriteString'' [sshdConfig, NL @ sshd_include @ NL])) (\<lambda>werr.
                 bindE (errorOf (os_call ''Close'' [sshdConfig])) (\<lambda>cerr.
                   case werr of Some e \<Rightarrow> throwE e
                   | None \<Rightarrow> (case cerr of Some e \<Rightarrow> throwE e | None \<Rightarrow> returnE ()))))))))))))"

definition guest_keys :: "vm \<Rightarrow> string" where
  "guest_keys vm = TrimSpace (vm_ManagedSSHPublicKey vm @ NL @ vm_ExtraAuthorizedKeys vm)"

definition SQ :: string where "SQ = [CHR 0x27]"

definition project_env :: "vm \<Rightarrow> string" where
  "project_env vm = lines_text
     [''DEV_USER='' @ SQ @ shellQuote (vm_DevUser vm) @ SQ,
      ''PROJECT='' @ SQ @ shellQuote (vm_Name vm) @ SQ,
      ''WORK_DIR=/work'',
      ''REPO_URL='' @ SQ @ shellQuote (vm_RepoURL vm) @ SQ,
      ''GIT_REF='' @ SQ @ shellQuote (vm_GitRef vm) @ SQ,
      ''DEV_SSH_KEY='' @ SQ @ shellQuote (guest_keys vm) @ SQ]"

definition nm_connection :: "vm \<Rightarrow> string" where
  "nm_connection vm = lines_text
     [''[connection]'', ''id=eth0'', ''type=ethernet'', ''interface-name=eth0'', '''',
      ''[ipv4]'', ''method=manual'',
      ''addresses='' @ vm_GuestIP vm @ ''/'' @ Itoa (vm_CIDR vm),
      ''gateway='' @ vm_HostIP vm, ''dns=1.1.1.1;'', '''',
      ''[ipv6]'', ''method=disabled'']"

text \<open>The caller's record gets the normalised user name; the result is that record.\<close>

definition writeGuestFiles :: "string \<Rightarrow> vm \<Rightarrow> int \<Rightarrow> vm io" where
  "writeGuestFiles root vm0 metadataPort =
     bindE (liftE (normalizeDevUser (vm_DevUser vm0))) (\<lambda>devUser.
       let vm = vm0\<lparr>vm_DevUser := devUser\<rparr>;
           nmPath = Join [root, ''etc/NetworkManager/system-connections/eth0.nmconnection'']
       in seqE (writeFile (Join [root, ''etc/project.env'']) (project_env vm) ''0644'')
         (seqE (writeGuestSSHKeySupport root vm metadataPort)
         (seqE (mkdirAll (Dir nmPath) ''0755'')
         (seqE (writeFile nmPath (nm_connection vm) ''0600'')
         (bindE (liftE (guestSSHDir root (vm_DevUser vm))) (\<lambda>sshDir.
          seqE (mkdirAll sshDir ''0700'')
         (seqE (whenE (guest_keys vm \<noteq> '''')
                 (writeFile (Join [sshDir, ''authorized_keys'']) (guest_keys vm @ NL) ''0600''))
           (returnE vm))))))))"

section \<open>The root file system\<close>

definition prepareRootFSImage :: "vm \<Rightarrow> unit io" where
  "prepareRootFSImage vm =
     seqE (mkdirAll (Dir (vm_RootFSPath vm)) ''0755'')
     (bindE (stat (vm_RootFSPath vm)) (\<lambda>st.
      bindE (case st of
          Missing _ \<Rightarrow>
            seqE (run ''cp'' [''--reflink=auto'', ''--sparse=always'', vm_BaseRootFSPath vm, vm_RootFSPath vm])
              (returnE 0)
        | Found _ \<Rightarrow>
            bindE (stat (vm_RootFSPath vm)) (\<lambda>st2. returnE (case st2 of Found fi \<Rightarrow> fi_Size fi | _ \<Rightarrow> 0))
        | StatFailed _ \<Rightarrow> returnE 0) (\<lambda>previousSize0.
      whenE (0 < vm_RootFSSizeMiB vm)
        (let targetSize = vm_RootFSSizeMiB vm * 1024 * 1024
         in bindE (if previousSize0 = 0
                   then bindE (stat (vm_RootFSPath vm)) (\<lambda>st3.
                          returnE (case st3 of Found fi \<Rightarrow> fi_Size fi | _ \<Rightarrow> previousSize0))
                   else returnE previousSize0) (\<lambda>previousSize.
            seqE (os_call ''Truncate'' [vm_RootFSPath vm, Itoa targetSize])
              (whenE (previousSize < targetSize \<and> vm_BaseImageID vm \<noteq> '''')
                (bindE (tryE (store_GetBaseImage (vm_BaseImageID vm))) (\<lambda>r. case r of
                    Inr (Some img) \<Rightarrow> whenE (img_Filesystem img = ''ext4'') (run ''resize2fs'' [vm_RootFSPath vm])
                  | _ \<Rightarrow> returnE ()))))))))"

definition resizeMountedRootFS :: "vm \<Rightarrow> string \<Rightarrow> unit io" where
  "resizeMountedRootFS vm mountRoot =
     (if vm_RootFSSizeMiB vm \<le> 0 then returnE ()
      else bindE (if vm_BaseImageID vm \<noteq> '''' then
                    bindE (tryE (store_GetBaseImage (vm_BaseImageID vm))) (\<lambda>r.
                      returnE (case r of Inr (Some img) \<Rightarrow> img_Filesystem img | _ \<Rightarrow> ''unknown''))
                  else returnE ''unknown'') (\<lambda>fs.
             if fs = ''xfs'' then run ''xfs_growfs'' [mountRoot] else returnE ()))"

text \<open>\<open>m\<close>, with \<open>d\<close> run before the error is returned if it fails.\<close>

definition onErrorE :: "unit io \<Rightarrow> 'a io \<Rightarrow> 'a io" where
  "onErrorE d m = bindE (tryE m) (\<lambda>r. case r of Inl e \<Rightarrow> seqE d (throwE e) | Inr x \<Rightarrow> returnE x)"

definition prepare_mount :: "vm \<Rightarrow> string" where
  "prepare_mount vm = Join [''/mnt'', ''bap-web-'' @ vm_ID vm]"

definition prepareRootFS :: "vm \<Rightarrow> vm io" where
  "prepareRootFS vm =
     (let mountRoot = prepare_mount vm; dev = Join [mountRoot, ''dev'']
      in seqE (prepareRootFSImage vm)
        (seqE (mkdirAll mountRoot ''0755'')
        (deferE (ignoreE (os_call ''RemoveAll'' [mountRoot]))
          (seqE (run ''mount'' [''-o'', ''loop'', vm_RootFSPath vm, mountRoot])
          (onErrorE (seqE (ignoreE (run ''umount'' [dev])) (ignoreE (run ''umount'' [mountRoot])))
            (seqE (resizeMountedRootFS vm mountRoot)
            (bindE (config_get (\<lambda>c. MetadataPort (Server c))) (\<lambda>metadataPort.
             bindE (writeGuestFiles mountRoot vm metadataPort) (\<lambda>vm'.
             seqE (run ''mount'' [''--bind'', ''/dev'', dev])
             (bindE (liftE (normalizeDevUser (vm_DevUser vm'))) (\<lambda>devUser.
              seqE (ignoreE (run ''chroot'' [mountRoot, ''chown'', ''-R'', devUser @ '':'' @ devUser,
                                    ''/home/'' @ devUser @ ''/.ssh'']))
             (seqE (ignoreE (run ''umount'' [dev]))
             (seqE (run ''umount'' [mountRoot])
               (returnE vm'))))))))))))))"

section \<open>Lemmas\<close>

lemma ro_GetBaseImage [ro]: "ro_io (store_GetBaseImage i)" unfolding store_GetBaseImage_def by (intro ro)
lemma ro_DefaultBaseImage [ro]: "ro_io store_DefaultBaseImage" unfolding store_DefaultBaseImage_def by (intro ro)
lemma ro_GetKernel [ro]: "ro_io (store_GetKernel i)" unfolding store_GetKernel_def by (intro ro)
lemma ro_DefaultKernel [ro]: "ro_io store_DefaultKernel" unfolding store_DefaultKernel_def by (intro ro)

lemma ro_resolveBaseImageForVM [ro]: "ro_io (resolveBaseImageForVM i n)"
  unfolding resolveBaseImageForVM_def by (intro ro)
lemma ro_resolveKernelForVM [ro]: "ro_io (resolveKernelForVM i b)"
  unfolding resolveKernelForVM_def by (intro ro)
lemma ro_bootArgsForVM [ro]: "ro_io (bootArgsForVM vm)"
  unfolding bootArgsForVM_def by (intro ro)
lemma ro_writeGuestSSHKeySupport [ro]: "ro_io (writeGuestSSHKeySupport r vm p)"
  unfolding writeGuestSSHKeySupport_def by (intro ro)
lemma ro_writeGuestFiles [ro]: "ro_io (writeGuestFiles r vm p)"
  unfolding writeGuestFiles_def by (intro ro)
lemma ro_prepareRootFSImage [ro]: "ro_io (prepareRootFSImage vm)"
  unfolding prepareRootFSImage_def by (intro ro)
lemma ro_resizeMountedRootFS [ro]: "ro_io (resizeMountedRootFS vm p)"
  unfolding resizeMountedRootFS_def by (intro ro)
lemma ro_onErrorE [ro]: "ro_io d \<Longrightarrow> ro_io m \<Longrightarrow> ro_io (onErrorE d m)"
  unfolding onErrorE_def by (intro ro)
lemma ro_prepareRootFS [ro]: "ro_io (prepareRootFS vm)"
  unfolding prepareRootFS_def by (intro ro)

lemma onErrorE_Inr [io_run]: "onErrorE d m w = (Inr x, w') \<longleftrightarrow> m w = (Inr x, w')"
  by (auto simp: onErrorE_def io_run split: sum.splits)

text \<open>The record that \<open>prepareRootFS\<close> hands back differs in the user name alone.\<close>

lemma writeGuestFiles_vm:
  "writeGuestFiles root vm p w = (Inr v, w') \<Longrightarrow> \<exists>u. normalizeDevUser (vm_DevUser vm) = Inr u \<and> v = vm\<lparr>vm_DevUser := u\<rparr>"
  by (auto simp: writeGuestFiles_def io_run Let_def)

lemma prepareRootFS_vm:
  "prepareRootFS vm w = (Inr v, w') \<Longrightarrow> \<exists>u. normalizeDevUser (vm_DevUser vm) = Inr u \<and> v = vm\<lparr>vm_DevUser := u\<rparr>"
  by (auto simp: prepareRootFS_def io_run Let_def dest!: writeGuestFiles_vm)

lemma requireFile_file:
  "requireFile p w = (Inr x, w') \<Longrightarrow> \<exists>fi. stat_of (host_of w) (trail w) p = Found fi \<and> \<not> fi_IsDir fi"
  by (auto simp: requireFile_def bindE_def stat_def failIf_def throwE_def returnE_def
      split: stat_reply.splits if_splits)


lemma first_active_in: "first_active status created rows = Some r \<Longrightarrow> r \<in> set rows \<and> status r = ''active''"
proof -
  assume "first_active status created rows = Some r"
  then obtain rs where "order_asc (by_created created) (filter (\<lambda>r. status r = ''active'') rows) = r # rs"
    by (auto simp: first_active_def split: list.splits)
  then have "r \<in> set (order_asc (by_created created) (filter (\<lambda>r. status r = ''active'') rows))" by simp
  then show ?thesis unfolding set_order_asc by simp
qed

lemma image_choice:
  assumes "(if i \<noteq> '''' then store_GetBaseImage i else store_DefaultBaseImage) w = (Inr (Some img), w')"
  shows "img \<in> set (base_images (database w)) \<and> (i \<noteq> '''' \<longrightarrow> img_ID img = i) \<and> cfg w' = cfg w"
  using assms
  by (auto simp: store_GetBaseImage_def store_DefaultBaseImage_def dest!: query_db find_SomeD sym [of "Some img"]
      dest: first_active_in split: if_splits)

lemma resolveBaseImageForVM_ok:
  assumes "resolveBaseImageForVM i n w = (Inr (img, mib), w')"
  shows "img \<in> set (base_images (database w)) \<and> img_Status img = ''active'' \<and> (i \<noteq> '''' \<longrightarrow> img_ID img = i)
    \<and> mib \<le> MaxVMRootFSMiB (Images (cfg w)) \<and> (n \<noteq> 0 \<longrightarrow> mib = n)
    \<and> (0 < img_VirtualSizeMiB img \<longrightarrow> img_VirtualSizeMiB img \<le> mib)"
proof -
  obtain v u baseSize x where
    c: "(if i \<noteq> '''' then store_GetBaseImage i else store_DefaultBaseImage) w = (Inr (Some img), v)"
    and a: "img_Status img = ''active''"
    and f: "requireFile (img_Path img) v = (Inr (), u)"
    and b: "(if img_VirtualSizeMiB img \<le> 0
             then bindE (imageSizes (img_Path img)) (\<lambda>(mib, bytes). returnE mib)
             else returnE (img_VirtualSizeMiB img)) u = (Inr baseSize, x)"
    and m: "mib = (if n = 0 then baseSize else n)" "baseSize \<le> mib" "mib \<le> MaxVMRootFSMiB (Images (cfg x))"
    using assms unfolding resolveBaseImageForVM_def Let_def
    by (clarsimp simp only: bindE_Inr option_run throwE_run seqE_Inr failIf_Inr errorOf_run config_get_run returnE_run
        sum.inject prod.inject not_not not_less option.inject simp_thms ex_simps option.distinct sum.distinct)
  have r: "ro_io (if img_VirtualSizeMiB img \<le> 0
             then bindE (imageSizes (img_Path img)) (\<lambda>(mib, bytes). returnE mib)
             else returnE (img_VirtualSizeMiB img))" by (intro ro)
  have "cfg x = cfg w" using image_choice [OF c] ro_cfg [OF ro_requireFile f] ro_cfg [OF r b] by simp
  then show ?thesis using image_choice [OF c] a b m by (auto simp: io_run)
qed

lemma resolveKernelForVM_ok:
  assumes "resolveKernelForVM i b w = (Inr krn, w')"
  shows "krn \<in> set (kernels (database w)) \<and> (i \<noteq> '''' \<longrightarrow> krn_ID krn = i)
    \<and> (krn_Status krn = ''active'' \<or> b \<and> krn_Status krn \<in> {''pending'', ''failed''})"
  using assms unfolding resolveKernelForVM_def
  by (auto simp: io_run store_GetKernel_def store_DefaultKernel_def dest!: query_db find_SomeD sym [of "Some krn"]
      dest: first_active_in split: if_splits)

end
