(* ===== verification/StoreVM.thy ===== *)
theory StoreVM
  imports StoreAccess
begin

text \<open>
  \<open>internal/store/store.go\<close>, second part: VMs, shared networks, ingress rules, egress policies and
  exec jobs.
\<close>

section \<open>VMs\<close>

definition store_ListVMs :: "vm list io" where
  "store_ListVMs = query ''SELECT FROM vms'' (\<lambda>d. order_desc (by_created vm_CreatedAt) (vms d))"

definition store_GetVM :: "string \<Rightarrow> vm option io" where
  "store_GetVM vid = query ''SELECT FROM vms'' (\<lambda>d. find (\<lambda>v. vm_ID v = vid) (vms d))"

definition store_GetVMByName :: "string \<Rightarrow> vm option io" where
  "store_GetVMByName name = query ''SELECT FROM vms'' (\<lambda>d. find (\<lambda>v. vm_Name v = name) (vms d))"

definition store_CreateVM :: "vm \<Rightarrow> unit io" where
  "store_CreateVM vm = exec ''INSERT INTO vms''
     (\<lambda>d. put (tbl_insert vms_uniq vm (vms d)) (\<lambda>rows. d\<lparr>vms := rows\<rparr>))"

text \<open>\<open>UpdateVM\<close> takes its argument by value: the caller's record keeps its \<open>UpdatedAt\<close>.\<close>

definition store_UpdateVM :: "vm \<Rightarrow> unit io" where
  "store_UpdateVM vm =
     bindE Now (\<lambda>t. exec ''UPDATE vms''
       (\<lambda>d. put (tbl_update vms_uniq (\<lambda>v. vm_ID v = vm_ID vm) (\<lambda>_. vm\<lparr>vm_UpdatedAt := t\<rparr>) (vms d))
             (\<lambda>rows. d\<lparr>vms := rows\<rparr>)))"

definition store_DeleteVM :: "string \<Rightarrow> unit io" where
  "store_DeleteVM vid =
     seqE (exec ''DELETE FROM ingress_rules''
             (\<lambda>d. Inr (d\<lparr>ingress_rules := tbl_delete (\<lambda>r. ing_VMID r = vid) (ingress_rules d)\<rparr>)))
    (seqE (exec ''DELETE FROM vm_exec_jobs''
             (\<lambda>d. Inr (d\<lparr>vm_exec_jobs := tbl_delete (\<lambda>j. exe_VMID j = vid) (vm_exec_jobs d)\<rparr>)))
          (exec ''DELETE FROM vms''
             (\<lambda>d. Inr (d\<lparr>vms := tbl_delete (\<lambda>v. vm_ID v = vid) (vms d)\<rparr>))))"

text \<open>The three sets are Go maps to \<open>true\<close>; the list has their keys.\<close>

definition store_UsedSSHPorts :: "int list io" where
  "store_UsedSSHPorts = query ''SELECT ssh_port FROM vms'' (\<lambda>d. map vm_SSHPort (vms d))"

definition store_UsedIngressHostPorts :: "int list io" where
  "store_UsedIngressHostPorts =
     query ''SELECT host_port FROM ingress_rules'' (\<lambda>d. map ing_HostPort (ingress_rules d))"

definition store_UsedGuestIPs :: "string list io" where
  "store_UsedGuestIPs = query ''SELECT guest_ip FROM vms'' (\<lambda>d. map vm_GuestIP (vms d))"

section \<open>Shared networks\<close>

definition store_CreateNetwork :: "network \<Rightarrow> unit io" where
  "store_CreateNetwork n = exec ''INSERT INTO networks''
     (\<lambda>d. put (tbl_insert networks_uniq n (networks d)) (\<lambda>rows. d\<lparr>networks := rows\<rparr>))"

definition store_ListNetworks :: "network list io" where
  "store_ListNetworks =
     query ''SELECT FROM networks'' (\<lambda>d. order_desc (by_created nw_CreatedAt) (networks d))"

definition store_GetNetwork :: "string \<Rightarrow> network option io" where
  "store_GetNetwork nid =
     query ''SELECT FROM networks'' (\<lambda>d. find (\<lambda>n. nw_ID n = nid) (networks d))"

definition store_DeleteNetwork :: "string \<Rightarrow> unit io" where
  "store_DeleteNetwork nid =
     bindE (query ''SELECT COUNT(*) FROM vms'' (\<lambda>d. count_where (\<lambda>v. vm_NetworkID v = nid) (vms d)))
       (\<lambda>used. seqE (failIf (0 < used) (assigned_error ''network'' used))
         (exec ''DELETE FROM networks''
            (\<lambda>d. Inr (d\<lparr>networks := tbl_delete (\<lambda>n. nw_ID n = nid) (networks d)\<rparr>))))"

section \<open>Ingress rules\<close>

definition store_CreateIngressRule :: "ingress_rule \<Rightarrow> unit io" where
  "store_CreateIngressRule rule = exec ''INSERT INTO ingress_rules''
     (\<lambda>d. put (tbl_insert ingress_rules_uniq rule (ingress_rules d))
           (\<lambda>rows. d\<lparr>ingress_rules := rows\<rparr>))"

definition store_ListIngressRules :: "string \<Rightarrow> ingress_rule list io" where
  "store_ListIngressRules vmID =
     query ''SELECT FROM ingress_rules''
       (\<lambda>d. order_asc ing_HostPort (filter (\<lambda>r. ing_VMID r = vmID) (ingress_rules d)))"

definition store_DeleteIngressRule :: "string \<Rightarrow> string \<Rightarrow> unit io" where
  "store_DeleteIngressRule vmID rid = exec ''DELETE FROM ingress_rules''
     (\<lambda>d. Inr (d\<lparr>ingress_rules :=
        tbl_delete (\<lambda>r. ing_VMID r = vmID \<and> ing_ID r = rid) (ingress_rules d)\<rparr>))"

section \<open>Egress policies\<close>

definition store_CreateEgressPolicy :: "egress_policy \<Rightarrow> unit io" where
  "store_CreateEgressPolicy policy = exec ''INSERT INTO egress_policies''
     (\<lambda>d. put (tbl_insert egress_policies_uniq policy (egress_policies d))
           (\<lambda>rows. d\<lparr>egress_policies := rows\<rparr>))"

definition store_ListEgressPolicies :: "egress_policy list io" where
  "store_ListEgressPolicies =
     query ''SELECT FROM egress_policies''
       (\<lambda>d. order_desc (by_created ep_CreatedAt) (egress_policies d))"

definition store_GetEgressPolicy :: "string \<Rightarrow> egress_policy option io" where
  "store_GetEgressPolicy pid =
     query ''SELECT FROM egress_policies'' (\<lambda>d. find (\<lambda>p. ep_ID p = pid) (egress_policies d))"

definition store_DeleteEgressPolicy :: "string \<Rightarrow> unit io" where
  "store_DeleteEgressPolicy pid =
     bindE (query ''SELECT COUNT(*) FROM vms''
              (\<lambda>d. count_where (\<lambda>v. vm_EgressPolicyID v = pid) (vms d)))
       (\<lambda>used. seqE (failIf (0 < used) (assigned_error ''egress policy'' used))
         (exec ''DELETE FROM egress_policies''
            (\<lambda>d. Inr (d\<lparr>egress_policies := tbl_delete (\<lambda>p. ep_ID p = pid) (egress_policies d)\<rparr>))))"

section \<open>Exec jobs\<close>

definition store_CreateVMExecJob :: "vm_exec_job \<Rightarrow> unit io" where
  "store_CreateVMExecJob job = exec ''INSERT INTO vm_exec_jobs''
     (\<lambda>d. put (tbl_insert vm_exec_jobs_uniq job (vm_exec_jobs d)) (\<lambda>rows. d\<lparr>vm_exec_jobs := rows\<rparr>))"

definition store_UpdateVMExecJob :: "vm_exec_job \<Rightarrow> unit io" where
  "store_UpdateVMExecJob job = exec ''UPDATE vm_exec_jobs''
     (\<lambda>d. put (tbl_update vm_exec_jobs_uniq (\<lambda>j. exe_ID j = exe_ID job) (\<lambda>_. job) (vm_exec_jobs d))
           (\<lambda>rows. d\<lparr>vm_exec_jobs := rows\<rparr>))"

definition store_ListVMExecJobs :: "string \<Rightarrow> vm_exec_job list io" where
  "store_ListVMExecJobs vmID =
     query ''SELECT FROM vm_exec_jobs''
       (\<lambda>d. take 50 (order_desc (by_created exe_CreatedAt)
          (filter (\<lambda>j. exe_VMID j = vmID) (vm_exec_jobs d))))"

definition store_GetVMExecJob :: "string \<Rightarrow> string \<Rightarrow> vm_exec_job option io" where
  "store_GetVMExecJob vmID jid =
     query ''SELECT FROM vm_exec_jobs''
       (\<lambda>d. find (\<lambda>j. exe_VMID j = vmID \<and> exe_ID j = jid) (vm_exec_jobs d))"

end
