(* ===== verification/Cidr.thy ===== *)
theory Cidr
  imports GoNet
begin

text \<open>
  IPv4 networks as the service computes with them (\<open>cidrOverlaps\<close>, \<open>ipNetRange\<close>, \<open>cidrWithin\<close>,
  \<open>cidrPrefix\<close> of \<open>internal/lifecycle/service.go\<close>) and their meaning: \<open>v4_net net b n\<close> says that the
  Go value \<open>net\<close> is the network of the addresses \<open>b\<close> to \<open>b + 2 ^ (32 - n) - 1\<close>, whichever of the two
  byte forms its address has. The word arithmetic of the source is related to natural numbers, so
  that the allocator proofs can use them.
\<close>

section \<open>The functions of the service\<close>

text \<open>
  The range of a network in \<open>uint64\<close>; the callers never pass a nil network, and
  \<open>Mask.Size\<close> is never negative.
\<close>

definition ipNetRange :: "ipnet \<Rightarrow> (u64 \<times> u64) option" where
  "ipNetRange ipnet =
     (let ip = To4 (net_IP ipnet); (ones, bits) = Mask_Size (net_Mask ipnet)
      in case ip of
           None \<Rightarrow> None
         | Some v \<Rightarrow>
             if bits \<noteq> 32 then None
             else let start = ucast (ipToUint32 v) :: u64; size = push_bit (32 - ones) 1 :: u64
                  in Some (start, start + size - 1))"

definition cidrOverlaps :: "ipnet \<Rightarrow> ipnet \<Rightarrow> bool" where
  "cidrOverlaps a b =
     (case ipNetRange a of
        None \<Rightarrow> False
      | Some (aStart, aEnd) \<Rightarrow>
          (case ipNetRange b of
             None \<Rightarrow> False
           | Some (bStart, bEnd) \<Rightarrow> aStart \<le> bEnd \<and> bStart \<le> aEnd))"

definition cidrOverlapsAny :: "ipnet \<Rightarrow> ipnet list \<Rightarrow> bool" where
  "cidrOverlapsAny candidate existing = list_ex (\<lambda>n. cidrOverlaps candidate n) existing"

definition cidrWithin :: "string \<Rightarrow> ipnet \<Rightarrow> bool" where
  "cidrWithin parentCIDR child =
     (case ParseCIDR parentCIDR of
        Inl e \<Rightarrow> False
      | Inr (_, parent) \<Rightarrow>
          (case (To4 (net_IP child), To4 (net_IP parent)) of
             (Some childIP, Some parentIP) \<Rightarrow>
               (let (ones, bits) = Mask_Size (net_Mask child)
                in if bits \<noteq> 32 then False
                   else let start = ipToUint32 childIP; size = push_bit (32 - ones) 1 :: u32
                        in Net_Contains parent (uint32ToIP start)
                           \<and> Net_Contains parent (uint32ToIP (start + size - 1)))
           | _ \<Rightarrow> False))"

definition cidrPrefix :: "string \<Rightarrow> string" where
  "cidrPrefix cidr =
     (case ParseCIDR cidr of
        Inl e \<Rightarrow> ''24''
      | Inr (_, ipnet) \<Rightarrow> show_nat (fst (Mask_Size (net_Mask ipnet))))"

section \<open>Prefix masks\<close>

definition prefix_mask :: "nat \<Rightarrow> u32" where
  "prefix_mask n = NOT (mask (32 - n))"

lemma CIDRMask_bytes: "n \<le> 32 \<Longrightarrow> CIDRMask n 32 = bytes_of_u32 (prefix_mask n)"
proof -
  have "list_all (\<lambda>n. CIDRMask n 32 = bytes_of_u32 (prefix_mask n)) [0..<33]" by code_simp
  then show "n \<le> 32 \<Longrightarrow> CIDRMask n 32 = bytes_of_u32 (prefix_mask n)" by (auto simp: list_all_iff)
qed

lemma Mask_Size_CIDRMask: "n \<le> 32 \<Longrightarrow> Mask_Size (CIDRMask n 32) = (n, 32)"
proof -
  have "list_all (\<lambda>n. Mask_Size (CIDRMask n 32) = (n, 32)) [0..<33]" by code_simp
  then show "n \<le> 32 \<Longrightarrow> Mask_Size (CIDRMask n 32) = (n, 32)" by (auto simp: list_all_iff)
qed

lemma simpleMaskLength_CIDRMask: "n \<le> 32 \<Longrightarrow> simpleMaskLength (CIDRMask n 32) = Some n"
proof -
  have "list_all (\<lambda>n. simpleMaskLength (CIDRMask n 32) = Some n) [0..<33]" by code_simp
  then show "n \<le> 32 \<Longrightarrow> simpleMaskLength (CIDRMask n 32) = Some n" by (auto simp: list_all_iff)
qed

lemma length_mask_bytes [simp]: "length (mask_bytes l n) = l"
  by (induction l n rule: mask_bytes.induct) auto

lemma length_CIDRMask [simp]: "length (CIDRMask n 32) = 4"
  by (simp add: CIDRMask_def)

lemma map2_and_bytes:
  "map2 (AND) (bytes_of_u32 v) (bytes_of_u32 m) = bytes_of_u32 (v AND m)"
  unfolding bytes_of_u32_def by (auto intro!: bit_eqI simp: bit_simps)

lemma bytes_of_u32_inj: "bytes_of_u32 v = bytes_of_u32 w \<longleftrightarrow> v = w"
  by (metis u32_bytes_id)

lemma unat_u32_less: "unat (v :: u32) < 2 ^ 32"
  by (rule less_le_trans [OF unsigned_less]) simp

lemma unat_and_prefix_mask:
  "unat (v AND prefix_mask n) = unat v div 2 ^ (32 - n) * 2 ^ (32 - n)"
proof -
  have "v AND prefix_mask n = push_bit (32 - n) (drop_bit (32 - n) v)"
    by (rule bit_eqI) (auto simp: prefix_mask_def bit_simps)
  then have "unat (v AND prefix_mask n) = unat (push_bit (32 - n) (drop_bit (32 - n) v))" by simp
  also have "\<dots> = unat v div 2 ^ (32 - n) * 2 ^ (32 - n)"
  proof -
    have "unat v div 2 ^ (32 - n) * 2 ^ (32 - n) \<le> unat v" by simp
    then have "unat v div 2 ^ (32 - n) * 2 ^ (32 - n) < 2 ^ 32"
      using unat_u32_less [of v] by linarith
    then show ?thesis
      using unat_u32_less [of v]
      by (simp only: unsigned_push_bit_eq unsigned_drop_bit_eq)
         (simp add: push_bit_eq_mult drop_bit_eq_div take_bit_nat_eq_self)
  qed
  finally show ?thesis .
qed

section \<open>The meaning of a network\<close>

text \<open>The number of addresses of a prefix length.\<close>

definition net_size :: "nat \<Rightarrow> nat" where
  "net_size n = 2 ^ (32 - n)"

definition v4_net :: "ipnet \<Rightarrow> u32 \<Rightarrow> nat \<Rightarrow> bool" where
  "v4_net net b n \<longleftrightarrow>
     To4 (net_IP net) = Some (bytes_of_u32 b) \<and> net_Mask net = CIDRMask n 32 \<and> n \<le> 32
     \<and> net_size n dvd unat b"

definition net_addrs :: "ipnet \<Rightarrow> u32 set" where
  "net_addrs net = {v. Net_Contains net (uint32ToIP v)}"

lemma net_size_pos [simp]: "0 < net_size n"
  by (simp add: net_size_def)

lemma net_size_le: "net_size n \<le> 2 ^ 32"
  unfolding net_size_def by (rule power_increasing) auto

lemma v4_net_end: "v4_net net b n \<Longrightarrow> unat b + net_size n \<le> 2 ^ 32"
proof -
  assume "v4_net net b n"
  then have d: "net_size n dvd unat b" by (simp add: v4_net_def)
  have "net_size n dvd 2 ^ 32" unfolding net_size_def by (rule le_imp_power_dvd) simp
  obtain i where i: "unat b = net_size n * i" using d by (rule dvdE)
  obtain j where j: "(2::nat) ^ 32 = net_size n * j" using \<open>net_size n dvd 2 ^ 32\<close> by (rule dvdE)
  have "i < j" using unat_u32_less [of b] i j by (metis nat_mult_less_cancel_disj)
  then have "net_size n * (i + 1) \<le> net_size n * j" by (intro mult_le_mono2) simp
  then show ?thesis using i j by simp
qed

lemma Contains_iff_range:
  assumes "v4_net net b n"
  shows "Net_Contains net (uint32ToIP v) \<longleftrightarrow> unat b \<le> unat v \<and> unat v < unat b + net_size n"
proof -
  let ?k = "net_size n"
  from assms have net: "To4 (net_IP net) = Some (bytes_of_u32 b)" "net_Mask net = CIDRMask n 32" "n \<le> 32"
    and d: "?k dvd unat b" by (auto simp: v4_net_def)
  have "networkNumberAndMask net = Some (bytes_of_u32 b, bytes_of_u32 (prefix_mask n))"
    using net by (simp add: networkNumberAndMask_def CIDRMask_bytes)
  then have "Net_Contains net (uint32ToIP v) \<longleftrightarrow> b AND prefix_mask n = v AND prefix_mask n"
    by (simp add: Net_Contains_def map2_and_bytes bytes_of_u32_inj)
  also have "\<dots> \<longleftrightarrow> unat b div ?k * ?k = unat v div ?k * ?k"
    by (simp add: word_unat_eq_iff unat_and_prefix_mask net_size_def)
  also have "\<dots> \<longleftrightarrow> unat b = unat v div ?k * ?k"
    using d by simp
  also have "\<dots> \<longleftrightarrow> unat b \<le> unat v \<and> unat v < unat b + ?k"
  proof
    assume e: "unat b = unat v div ?k * ?k"
    have "unat v div ?k * ?k + unat v mod ?k = unat v" "unat v mod ?k < ?k" by simp_all
    then show "unat b \<le> unat v \<and> unat v < unat b + ?k" unfolding e by linarith
  next
    assume r: "unat b \<le> unat v \<and> unat v < unat b + ?k"
    from d obtain i where i: "unat b = i * ?k" by (metis dvdE mult.commute)
    then have "unat v div ?k = i"
      using r by (intro div_nat_eqI) (simp_all add: mult.commute add.commute)
    then show "unat b = unat v div ?k * ?k" using i by simp
  qed
  finally show ?thesis .
qed

lemma ipNetRange_v4:
  assumes "v4_net net b n"
  shows "ipNetRange net = Some (ucast b, ucast b + push_bit (32 - n) 1 - 1)"
  using assms by (simp add: v4_net_def ipNetRange_def Mask_Size_CIDRMask ipToUint32_def Let_def)

lemma unat_range_end:
  assumes "v4_net net b n"
  shows "unat (ucast b + push_bit (32 - n) 1 - 1 :: u64) = unat b + net_size n - 1"
proof -
  have s: "unat (push_bit (32 - n) 1 :: u64) = net_size n"
  proof -
    have "(2::nat) ^ (32 - n) < 2 ^ 64" by (rule power_strict_increasing) auto
    then have "take_bit 64 (push_bit (32 - n) (1::nat)) = 2 ^ (32 - n)"
      by (simp add: push_bit_eq_mult take_bit_nat_eq_self)
    moreover have "unat (push_bit (32 - n) 1 :: u64) = take_bit 64 (push_bit (32 - n) (unat (1::u64)))"
      by (simp only: unsigned_push_bit_eq) simp
    ultimately show ?thesis by (simp add: net_size_def)
  qed
  have s': "unat (2 ^ (32 - n) :: u64) = net_size n" using s by simp
  have b: "unat (ucast b :: u64) = unat b"
    by (simp add: unsigned_ucast_eq take_bit_nat_eq_self less_trans [OF unat_u32_less])
  have a: "unat (ucast b + push_bit (32 - n) 1 :: u64) = unat b + net_size n"
    using v4_net_end [OF assms] by (simp add: unat_word_ariths s' b)
  have "(1 :: u64) \<le> ucast b + push_bit (32 - n) 1"
    unfolding word_le_nat_alt a by (simp add: Suc_leI)
  then show ?thesis using a by (simp add: unat_sub)
qed

lemma cidrOverlaps_v4:
  assumes "v4_net a b n" "v4_net c d m"
  shows "cidrOverlaps a c \<longleftrightarrow> unat b < unat d + net_size m \<and> unat d < unat b + net_size n"
proof -
  have u: "unat (ucast x :: u64) = unat x" for x :: u32
    by (simp add: unsigned_ucast_eq take_bit_nat_eq_self less_trans [OF unat_u32_less])
  have p: "0 < net_size n" "0 < net_size m" by simp_all
  have "cidrOverlaps a c \<longleftrightarrow>
      unat b \<le> unat d + net_size m - 1 \<and> unat d \<le> unat b + net_size n - 1"
    by (simp add: cidrOverlaps_def ipNetRange_v4 [OF assms(1)] ipNetRange_v4 [OF assms(2)]
        word_le_nat_alt unat_range_end [OF assms(1), simplified] unat_range_end [OF assms(2), simplified] u)
  then show ?thesis using p by arith
qed

lemma net_addrs_v4: "v4_net net b n \<Longrightarrow> net_addrs net = {v. unat b \<le> unat v \<and> unat v < unat b + net_size n}"
  by (simp add: net_addrs_def Contains_iff_range)

lemma overlap_iff_share:
  assumes "v4_net a b n" "v4_net c d m"
  shows "cidrOverlaps a c \<longleftrightarrow> net_addrs a \<inter> net_addrs c \<noteq> {}"
proof
  assume "cidrOverlaps a c"
  then have o: "unat b < unat d + net_size m" "unat d < unat b + net_size n"
    by (simp_all add: cidrOverlaps_v4 [OF assms])
  show "net_addrs a \<inter> net_addrs c \<noteq> {}"
  proof (cases "unat b \<le> unat d")
    case True
    then have "d \<in> net_addrs a \<inter> net_addrs c" using o by (simp add: net_addrs_v4 [OF assms(1)] net_addrs_v4 [OF assms(2)])
    then show ?thesis by blast
  next
    case False
    then have "b \<in> net_addrs a \<inter> net_addrs c" using o by (simp add: net_addrs_v4 [OF assms(1)] net_addrs_v4 [OF assms(2)])
    then show ?thesis by blast
  qed
next
  assume "net_addrs a \<inter> net_addrs c \<noteq> {}"
  then show "cidrOverlaps a c"
    by (auto simp: cidrOverlaps_v4 [OF assms] net_addrs_v4 [OF assms(1)] net_addrs_v4 [OF assms(2)])
qed

section \<open>Addresses as text\<close>

lemma byte_text_chars: "c \<in> set (byte_text b) \<Longrightarrow> is_digit c"
  unfolding byte_text_def by (rule show_nat_set)

lemma not_digit: "\<not> is_digit (CHR ''.'')" "\<not> is_digit (CHR '':'')" "\<not> is_digit (CHR ''/'')" "\<not> is_digit (CHR '','')"
    "\<not> is_digit (CHR ''%'')"
  by (simp_all add: is_digit_def)

lemma parse_octet_byte_text [simp]: "parse_octet (byte_text b) = Some b"
proof -
  have "unat b < 2 ^ 8" by (rule less_le_trans [OF unsigned_less]) simp
  then have le: "unat b \<le> 255" by simp
  have "length (byte_text b) = 1 \<or> hd (byte_text b) \<noteq> CHR ''0''"
  proof (cases "unat b = 0")
    case True
    then show ?thesis by (simp add: byte_text_def show_nat.simps [of 0])
  next
    case False
    then show ?thesis using show_nat_no_leading_zero by (simp add: byte_text_def)
  qed
  then show ?thesis using le by (simp add: parse_octet_def byte_text_def)
qed

definition dotted :: "byte list \<Rightarrow> string" where
  "dotted v = join ''.'' (map byte_text v)"

lemma Split_dotted: "v \<noteq> [] \<Longrightarrow> Split (dotted v) (CHR ''.'') = map byte_text v"
  unfolding dotted_def by (rule Split_of_join) (auto dest: byte_text_chars simp: not_digit)

lemma parse_ip4_dotted: "length v = 4 \<Longrightarrow> parse_ip4 (dotted v) = Some v"
  by (frule four_bytes) (auto simp: parse_ip4_def Split_dotted)

lemma dotted_inj: "length v = 4 \<Longrightarrow> length w = 4 \<Longrightarrow> dotted v = dotted w \<Longrightarrow> v = w"
  by (metis parse_ip4_dotted option.inject)

lemma dotted_chars: "c \<in> set (dotted v) \<Longrightarrow> is_digit c \<or> c = CHR ''.''"
proof -
  have "c \<in> set (join s ws) \<Longrightarrow> (\<exists>w \<in> set ws. c \<in> set w) \<or> c \<in> set s" for s ws
    by (induction s ws rule: join.induct) auto
  then show "c \<in> set (dotted v) \<Longrightarrow> is_digit c \<or> c = CHR ''.''"
    unfolding dotted_def by (fastforce dest: byte_text_chars)
qed

lemma parse_addr_dotted:
  assumes "length v = 4"
  shows "parse_addr (dotted v) = Some (v4InV6Prefix @ v, True)"
proof -
  have dot: "CHR ''.'' \<in> set (dotted v)"
    using four_bytes [OF assms] by (auto simp: dotted_def)
  have "find (\<lambda>c. c \<in> set ''.:%'') (dotted v) = Some (CHR ''.'')"
  proof (cases "find (\<lambda>c. c \<in> set ''.:%'') (dotted v)")
    case None
    then show ?thesis using dot by (auto simp: find_None_iff)
  next
    case (Some c)
    then have "c \<in> set (dotted v)" "c \<in> set ''.:%''" by (blast dest: find_SomeD)+
    then show ?thesis using Some by (auto dest!: dotted_chars simp: not_digit)
  qed
  then show ?thesis using assms by (simp add: parse_addr_def parse_ip4_dotted)
qed

lemma IP_String_v4: "To4 ip = Some v \<Longrightarrow> IP_String ip = dotted v"
  by (simp add: IP_String_def dotted_def)

lemma ParseIP_dotted: "length v = 4 \<Longrightarrow> ParseIP (dotted v) = Some (v4InV6Prefix @ v)"
  by (simp add: ParseIP_def parse_addr_dotted)

lemma ParseIP4_dotted: "length v = 4 \<Longrightarrow> ParseIP4 (dotted v) = Some v"
  by (simp add: ParseIP4_def ParseIP_dotted)

text \<open>The text of an address number; different numbers have different texts.\<close>

definition addr_text :: "u32 \<Rightarrow> string" where
  "addr_text v = IP_String (uint32ToIP v)"

lemma addr_text_dotted: "addr_text v = dotted (bytes_of_u32 v)"
  unfolding addr_text_def by (rule IP_String_v4) simp

lemma addr_text_inj: "addr_text v = addr_text w \<longleftrightarrow> v = w"
  using dotted_inj [of "bytes_of_u32 v" "bytes_of_u32 w"] by (auto simp: addr_text_dotted bytes_of_u32_inj)

lemma ParseIP4_addr_text: "ParseIP4 (addr_text v) = Some (bytes_of_u32 v)"
  by (simp add: addr_text_dotted ParseIP4_dotted)

section \<open>Networks as text\<close>

text \<open>The network of an address: what \<open>IP.Mask\<close> of an IPv4 address gives.\<close>

definition mk_net :: "u32 \<Rightarrow> nat \<Rightarrow> ipnet" where
  "mk_net v n = \<lparr>net_IP = bytes_of_u32 (v AND prefix_mask n), net_Mask = CIDRMask n 32\<rparr>"

lemma v4_net_mk_net: "n \<le> 32 \<Longrightarrow> v4_net (mk_net v n) (v AND prefix_mask n) n"
  by (simp add: v4_net_def mk_net_def unat_and_prefix_mask net_size_def)

lemma v4_net_masked: "v4_net net b n \<Longrightarrow> b AND prefix_mask n = b"
  by (simp add: word_unat_eq_iff unat_and_prefix_mask v4_net_def net_size_def)

lemma IP_Mask_v4:
  assumes "To4 ip = Some v" "n \<le> 32"
  shows "IP_Mask ip (CIDRMask n 32) = bytes_of_u32 (u32_of_bytes v AND prefix_mask n)"
proof -
  have l: "length v = 4" using assms(1) by (rule To4_length)
  have m: "map2 (AND) v (CIDRMask n 32) = bytes_of_u32 (u32_of_bytes v AND prefix_mask n)"
    using l assms(2) map2_and_bytes [of "u32_of_bytes v" "prefix_mask n"] by (simp add: CIDRMask_bytes)
  have "length ip = 4 \<and> v = ip \<or> length ip = 16 \<and> take 12 ip = v4InV6Prefix \<and> v = drop 12 ip"
    using assms(1) by (auto simp: To4_def split: if_splits)
  then show ?thesis using l m by (auto simp: IP_Mask_def Let_def)
qed

lemma Net_String_v4:
  assumes "v4_net net b n"
  shows "Net_String net = addr_text b @ ''/'' @ show_nat n"
proof -
  have "networkNumberAndMask net = Some (bytes_of_u32 b, CIDRMask n 32)"
    using assms by (simp add: v4_net_def networkNumberAndMask_def)
  then show ?thesis
    using assms by (simp add: Net_String_def simpleMaskLength_CIDRMask v4_net_def addr_text_dotted
        IP_String_v4)
qed

lemma takeWhile_slash: "CHR ''/'' \<notin> set a \<Longrightarrow> takeWhile (\<lambda>c. c \<noteq> CHR ''/'') (a @ CHR ''/'' # r) = a"
  by (induction a) auto

lemma dropWhile_slash:
  "CHR ''/'' \<notin> set a \<Longrightarrow> dropWhile (\<lambda>c. c \<noteq> CHR ''/'') (a @ CHR ''/'' # r) = CHR ''/'' # r"
  by (induction a) auto

lemma ParseCIDR_text:
  assumes "n \<le> 32"
  shows "ParseCIDR (addr_text v @ ''/'' @ show_nat n) = Inr (uint32ToIP v, mk_net v n)"
proof -
  have s: "CHR ''/'' \<notin> set (addr_text v)"
    by (auto simp: addr_text_dotted not_digit dest: dotted_chars)
  have p: "parse_addr (addr_text v) = Some (uint32ToIP v, True)"
    by (simp add: addr_text_dotted parse_addr_dotted uint32ToIP_bytes)
  have "IP_Mask (uint32ToIP v) (CIDRMask n 32) = bytes_of_u32 (v AND prefix_mask n)"
    using IP_Mask_v4 [of "uint32ToIP v" "bytes_of_u32 v" n] assms by simp
  then show ?thesis
    using assms by (simp add: ParseCIDR_def takeWhile_slash [OF s] dropWhile_slash [OF s] p mk_net_def)
qed

lemma ParseCIDR_Net_String:
  assumes "v4_net net b n"
  shows "ParseCIDR (Net_String net) = Inr (uint32ToIP b, mk_net b n)"
  unfolding Net_String_v4 [OF assms] by (rule ParseCIDR_text) (use assms in \<open>simp add: v4_net_def\<close>)

lemma mk_net_id: "v4_net net b n \<Longrightarrow> mk_net b n = \<lparr>net_IP = bytes_of_u32 b, net_Mask = CIDRMask n 32\<rparr>"
  by (simp add: mk_net_def v4_net_masked)

text \<open>What a parsed IPv4 network is.\<close>

lemma parse_ip4_length: "parse_ip4 s = Some v \<Longrightarrow> length v = 4"
  by (auto simp: parse_ip4_def split: list.splits option.splits)

lemma parse_addr_v4: "parse_addr s = Some (ip, True) \<Longrightarrow> \<exists>v. length v = 4 \<and> ip = v4InV6Prefix @ v"
  by (auto simp: parse_addr_def parse_ip4_length split: option.splits if_splits)

lemma ParseCIDR_v4:
  assumes "ParseCIDR s = Inr (ip, net)" "snd (Mask_Size (net_Mask net)) = 32"
  shows "\<exists>v n. n \<le> 32 \<and> ip = uint32ToIP v \<and> net = mk_net v n"
proof -
  let ?n = "read_digits (tl (dropWhile (\<lambda>c. c \<noteq> CHR ''/'') s))"
  obtain v4 where p: "parse_addr (takeWhile (\<lambda>c. c \<noteq> CHR ''/'') s) = Some (ip, v4)"
    and n: "?n \<le> (if v4 then 32 else 128)"
    and net: "net = \<lparr>net_IP = IP_Mask ip (CIDRMask ?n (if v4 then 32 else 128)),
        net_Mask = CIDRMask ?n (if v4 then 32 else 128)\<rparr>"
    using assms(1) by (auto simp: ParseCIDR_def Let_def split: if_splits option.splits)
  have "v4"
  proof (rule ccontr)
    assume "\<not> v4"
    then have "length (net_Mask net) = 16" using net by (simp add: CIDRMask_def)
    then show False using assms(2) by (auto simp: Mask_Size_def split: option.splits)
  qed
  then obtain w where w: "length w = 4" "ip = v4InV6Prefix @ w" using p parse_addr_v4 [of _ ip] by auto
  have "ip = uint32ToIP (u32_of_bytes w)" using w by (simp add: uint32ToIP_bytes)
  moreover have "net = mk_net (u32_of_bytes w) ?n"
    using net n \<open>v4\<close> w IP_Mask_v4 [of ip w ?n] by (simp add: mk_net_def)
  ultimately show ?thesis using n \<open>v4\<close> by auto
qed

end
