(* ===== verification/Policy.thy ===== *)
theory Policy
  imports Cidr Prelude
begin

text \<open>
  The lists of an egress policy (\<open>splitCSV\<close>, \<open>normalizePorts\<close>, \<open>normalizeCIDRs\<close>,
  \<open>validateEgressPolicy\<close>) and the port range of the configuration (\<open>parseRange\<close>), from
  \<open>internal/lifecycle/service.go\<close>. The lemmas show what a stored list consists of and that
  normalising it again changes nothing.
\<close>

definition splitCSV :: "string \<Rightarrow> string list" where
  "splitCSV s = filter (\<lambda>p. p \<noteq> '''') (map TrimSpace (Split s (CHR '','')))"

text \<open>\<open>out\<close> is the list built so far and, as a set, \<open>seen\<close>.\<close>

fun ports_loop :: "int list \<Rightarrow> string list \<Rightarrow> err + int list" where
  "ports_loop out [] = Inr out"
| "ports_loop out (part # parts) =
     (case Atoi part of
        Inl e \<Rightarrow> Inl e
      | Inr port \<Rightarrow>
          if port < 1 \<or> 65535 < port
          then Inl (PlainError (''port '' @ Itoa port @ '' outside 1-65535''))
          else ports_loop (if port \<in> set out then out else out @ [port]) parts)"

definition normalizePorts :: "string \<Rightarrow> err + string" where
  "normalizePorts s =
     (case ports_loop [] (splitCSV s) of
        Inl e \<Rightarrow> Inl e
      | Inr out \<Rightarrow> Inr (join '','' (map Itoa out)))"

definition normalizeCIDR1 :: "string \<Rightarrow> err + string" where
  "normalizeCIDR1 part =
     (case ParseCIDR part of
        Inl e \<Rightarrow>
          (case ParseIP part of
             None \<Rightarrow> Inl (PlainError (''invalid cidr '' @ Quote part))
           | Some parsed \<Rightarrow>
               (case To4 parsed of
                  None \<Rightarrow> Inl (PlainError (''invalid cidr '' @ Quote part))
                | Some v4 \<Rightarrow> Inr (IP_String v4 @ ''/32'')))
      | Inr (ip, ipnet) \<Rightarrow>
          if To4 ip = None then Inl (PlainError ''only IPv4 CIDRs are supported'')
          else Inr (Net_String ipnet))"

fun cidrs_loop :: "string list \<Rightarrow> string list \<Rightarrow> err + string list" where
  "cidrs_loop out [] = Inr out"
| "cidrs_loop out (part # parts) =
     (case normalizeCIDR1 part of
        Inl e \<Rightarrow> Inl e
      | Inr c \<Rightarrow> cidrs_loop (if c \<in> set out then out else out @ [c]) parts)"

definition normalizeCIDRs :: "string \<Rightarrow> err + string" where
  "normalizeCIDRs s =
     (case cidrs_loop [] (splitCSV s) of
        Inl e \<Rightarrow> Inl e
      | Inr out \<Rightarrow> Inr (join '','' out))"

definition validateEgressPolicy ::
  "string \<Rightarrow> string \<Rightarrow> string \<Rightarrow> string \<Rightarrow> err + (string \<times> string \<times> string)"
where
  "validateEgressPolicy mode tcpPorts udpPorts cidrs =
     (if mode = ''allow_all'' \<or> mode = ''deny_all'' then Inr ('''', '''', '''')
      else if mode \<noteq> ''restricted''
      then Inl (PlainError ''mode must be allow_all, deny_all, or restricted'')
      else case normalizePorts tcpPorts of
        Inl e \<Rightarrow> Inl (PlainError (''tcp_ports: '' @ err_text e))
      | Inr tcp \<Rightarrow> (case normalizePorts udpPorts of
        Inl e \<Rightarrow> Inl (PlainError (''udp_ports: '' @ err_text e))
      | Inr udp \<Rightarrow> (case normalizeCIDRs cidrs of
        Inl e \<Rightarrow> Inl e
      | Inr normalized \<Rightarrow>
          if tcp = '''' \<and> udp = '''' \<and> normalized = ''''
          then Inl (PlainError ''restricted policies require at least one allowed port or CIDR'')
          else Inr (tcp, udp, normalized))))"

definition range_error :: "string \<Rightarrow> err" where
  "range_error s = PlainError (''invalid range '' @ Quote s)"

definition parseRange :: "string \<Rightarrow> err + (int \<times> int)" where
  "parseRange s =
     (case Split s (CHR ''-'') of
        [x, y] \<Rightarrow>
          (case Atoi x of
             Inl e \<Rightarrow> Inl e
           | Inr a \<Rightarrow> (case Atoi y of
                         Inl e \<Rightarrow> Inl e
                       | Inr b \<Rightarrow> if b < a then Inl (range_error s) else Inr (a, b)))
      | _ \<Rightarrow> Inl (range_error s))"

section \<open>Normalised lists\<close>

lemma splitCSV_parts:
  "p \<in> set (splitCSV s) \<Longrightarrow> p \<noteq> '''' \<and> TrimSpace p = p"
  by (auto simp: splitCSV_def)

text \<open>A list of trimmed words without commas survives joining and splitting.\<close>

lemma splitCSV_join:
  assumes "\<forall>w \<in> set ws. w \<noteq> '''' \<and> CHR '','' \<notin> set w \<and> TrimSpace w = w"
  shows "splitCSV (join '','' ws) = ws"
proof (cases "ws = []")
  case True
  then show ?thesis by (simp add: splitCSV_def)
next
  case False
  then have "Split (join '','' ws) (CHR '','') = ws" using assms by (intro Split_of_join) auto
  then show ?thesis using assms by (simp add: splitCSV_def map_idI)
qed

lemma ports_loop_ConsD:
  assumes "ports_loop out (part # parts) = Inr ps"
  shows "\<exists>port. 1 \<le> port \<and> port \<le> 65535 \<and>
       ports_loop (if port \<in> set out then out else out @ [port]) parts = Inr ps"
proof (cases "Atoi part")
  case (Inr port)
  then have "1 \<le> port" "port \<le> 65535" using assms by (auto split: if_split_asm)
  then show ?thesis using assms Inr by (intro exI [of _ port]) simp
qed (use assms in simp)

lemma ports_loop_ok:
  "ports_loop out parts = Inr ps \<Longrightarrow> distinct out \<Longrightarrow> \<forall>p \<in> set out. 1 \<le> p \<and> p \<le> 65535 \<Longrightarrow>
     distinct ps \<and> (\<forall>p \<in> set ps. 1 \<le> p \<and> p \<le> 65535)"
proof (induction parts arbitrary: out)
  case (Cons part parts)
  from ports_loop_ConsD [OF Cons.prems(1)] obtain port where
    p: "1 \<le> port" "port \<le> 65535" "ports_loop (if port \<in> set out then out else out @ [port]) parts = Inr ps"
    by blast
  show ?case by (rule Cons.IH [OF p(3)]) (use Cons.prems p in \<open>auto split: if_splits\<close>)
qed simp

lemma ports_loop_fresh:
  "distinct (out @ ps) \<Longrightarrow> \<forall>p \<in> set ps. 1 \<le> p \<and> p \<le> 65535 \<Longrightarrow>
     ports_loop out (map Itoa ps) = Inr (out @ ps)"
proof (induction ps arbitrary: out)
  case (Cons p ps)
  have "Atoi (Itoa p) = Inr p" using Cons.prems by (intro Atoi_Itoa) auto
  then show ?case using Cons by auto
qed simp

lemma Itoa_word: "Itoa p \<noteq> '''' \<and> CHR '','' \<notin> set (Itoa p) \<and> TrimSpace (Itoa p) = Itoa p"
  using Itoa_plain by (auto intro: TrimSpace_plain)

lemma normalizePorts_ok:
  assumes "normalizePorts s = Inr t"
  shows "\<exists>ps. t = join '','' (map Itoa ps) \<and> splitCSV t = map Itoa ps \<and> distinct ps
    \<and> (\<forall>p \<in> set ps. 1 \<le> p \<and> p \<le> 65535)"
proof -
  from assms obtain ps where ps: "ports_loop [] (splitCSV s) = Inr ps" "t = join '','' (map Itoa ps)"
    by (auto simp: normalizePorts_def split: sum.splits)
  moreover have "splitCSV (join '','' (map Itoa ps)) = map Itoa ps"
    using Itoa_word by (intro splitCSV_join) auto
  ultimately show ?thesis using ports_loop_ok [OF ps(1)] by auto
qed

lemma normalizePorts_again: 
  assumes "normalizePorts s = Inr t"
  shows "normalizePorts t = Inr t"
proof -
  obtain ps where "t = join '','' (map Itoa ps)" "splitCSV t = map Itoa ps" "distinct ps"
      "\<forall>p \<in> set ps. 1 \<le> p \<and> p \<le> 65535"
    using normalizePorts_ok [OF assms] by blast
  then show ?thesis using ports_loop_fresh [of "[]" ps] by (simp add: normalizePorts_def)
qed

text \<open>An IPv4 network in the normal form: the masked address and the prefix length.\<close>

definition cidr_text :: "u32 \<Rightarrow> nat \<Rightarrow> string" where
  "cidr_text b n = addr_text b @ ''/'' @ show_nat n"

definition normal_cidr :: "string \<Rightarrow> bool" where
  "normal_cidr c \<longleftrightarrow> (\<exists>b n. n \<le> 32 \<and> b AND prefix_mask n = b \<and> c = cidr_text b n)"

text \<open>
  An IPv4-mapped IPv6 network \<open>::ffff:a.b.c.d/m\<close> with \<open>96 \<le> m\<close> prints as the IPv4 network
  \<open>a.b.c.d/(m - 96)\<close>; with a shorter prefix its masked address is not an IPv4 address any more and
  it prints in its IPv6 form.
\<close>

lemma cidr_text_chars: "c \<in> set (cidr_text b n) \<Longrightarrow> is_digit c \<or> c = CHR ''.'' \<or> c = CHR ''/''"
  by (auto simp: cidr_text_def addr_text_dotted dest: dotted_chars show_nat_set)

lemma cidr_text_word: "cidr_text b n \<noteq> '''' \<and> CHR '','' \<notin> set (cidr_text b n) \<and> TrimSpace (cidr_text b n) = cidr_text b n"
proof -
  have "plain (CHR ''.'')" "plain (CHR ''/'')" by (simp_all add: plain_def ascii_space_def)
  then have "\<forall>c \<in> set (cidr_text b n). plain c"
    by (auto dest!: cidr_text_chars intro: digit_plain)
  then show ?thesis using cidr_text_chars [of "CHR '',''" b n]
    by (auto simp: not_digit cidr_text_def intro!: TrimSpace_plain)
qed

lemma normalizeCIDR1_normal: "normal_cidr c \<Longrightarrow> normalizeCIDR1 c = Inr c"
proof -
  assume "normal_cidr c"
  then obtain b n where n: "n \<le> 32" "b AND prefix_mask n = b" "c = cidr_text b n"
    by (auto simp: normal_cidr_def)
  have p: "ParseCIDR c = Inr (uint32ToIP b, mk_net b n)"
    using ParseCIDR_text [OF n(1), of b] n(3) by (simp add: cidr_text_def)
  moreover have "Net_String (mk_net b n) = c"
    using Net_String_v4 [OF v4_net_mk_net [OF n(1), of b]] n by (simp add: cidr_text_def)
  ultimately show ?thesis by (simp add: normalizeCIDR1_def)
qed

lemma full_mask: "b AND prefix_mask 32 = (b :: u32)"
  by (simp add: prefix_mask_def)

text \<open>A part that was an IPv4 address or network gives a normal form.\<close>

lemma normalizeCIDR1_v4:
  assumes "normalizeCIDR1 part = Inr c"
    and "\<And>ip net. ParseCIDR part = Inr (ip, net) \<Longrightarrow> snd (Mask_Size (net_Mask net)) = 32"
  shows "normal_cidr c"
proof (cases "ParseCIDR part")
  case (Inl e)
  then obtain ip v where v: "To4 ip = Some v" "c = IP_String v @ ''/32''"
    using assms(1) by (auto simp: normalizeCIDR1_def split: option.splits)
  then have "length v = 4" by (simp add: To4_length)
  then have "IP_String v = addr_text (u32_of_bytes v)"
    by (simp add: addr_text_dotted IP_String_v4)
  moreover have "show_nat 32 = ''32''" by code_simp
  ultimately have "c = cidr_text (u32_of_bytes v) 32" using v by (simp add: cidr_text_def)
  then show ?thesis unfolding normal_cidr_def
    by (intro exI [of _ "u32_of_bytes v"] exI [of _ 32]) (simp add: full_mask)
next
  case (Inr r)
  obtain ip net where r: "r = (ip, net)" by (cases r)
  obtain v n where n: "n \<le> 32" "net = mk_net v n"
    using ParseCIDR_v4 [of part ip net] assms(2) [of ip net] Inr r by auto
  have "c = Net_String net" using assms(1) Inr r by (auto simp: normalizeCIDR1_def split: if_splits)
  then have "c = cidr_text (v AND prefix_mask n) n"
    using Net_String_v4 [OF v4_net_mk_net [OF n(1), of v]] n by (simp add: cidr_text_def)
  moreover have "(v AND prefix_mask n) AND prefix_mask n = v AND prefix_mask n" by (simp add: and.assoc)
  ultimately show ?thesis unfolding normal_cidr_def
    by (intro exI [of _ "v AND prefix_mask n"] exI [of _ n] conjI n(1))
qed

lemma cidrs_loop_ConsD:
  assumes "cidrs_loop out (part # parts) = Inr cs"
  shows "\<exists>c. normalizeCIDR1 part = Inr c \<and> cidrs_loop (if c \<in> set out then out else out @ [c]) parts = Inr cs"
  using assms by (cases "normalizeCIDR1 part") simp_all

lemma cidrs_loop_set:
  "cidrs_loop out parts = Inr cs \<Longrightarrow> distinct out \<Longrightarrow> distinct cs
     \<and> (\<forall>c \<in> set cs. c \<in> set out \<or> (\<exists>p \<in> set parts. normalizeCIDR1 p = Inr c))"
proof (induction parts arbitrary: out)
  case (Cons part parts)
  from cidrs_loop_ConsD [OF Cons.prems(1)] obtain c where
    c: "normalizeCIDR1 part = Inr c" "cidrs_loop (if c \<in> set out then out else out @ [c]) parts = Inr cs"
    by blast
  have "distinct (if c \<in> set out then out else out @ [c])" using Cons.prems(2) by simp
  from Cons.IH [OF c(2) this] c(1) show ?case by (auto split: if_splits)
qed simp

lemma cidrs_loop_fresh:
  "distinct (out @ cs) \<Longrightarrow> \<forall>c \<in> set cs. normalizeCIDR1 c = Inr c \<Longrightarrow>
     cidrs_loop out cs = Inr (out @ cs)"
  by (induction cs arbitrary: out) auto

end
