(* ===== verification/NetAlloc.thy ===== *)
theory NetAlloc
  imports StoreVM Cidr Policy
begin

text \<open>
  Network ownership and allocation of \<open>internal/lifecycle/service.go\<close>: who owns which IPv4 network
  (\<open>networkCIDROwners\<close>), the overlap checks before a shared network is created or a VM starts, and
  the allocators of SSH ports, point-to-point networks and shared addresses. \<open>scan\<close> is the counting
  loop of both address allocators in \<open>uint32\<close>; its fuel is the size of the range, which the loop
  cannot exceed.
\<close>

section \<open>Owners and conflicts\<close>

record cidr_owner =
  own_kind :: string
  own_id :: string
  own_name :: string
  own_cidr :: string
  own_net :: ipnet

record network_conflict =
  SubjectType :: string
  SubjectID :: string
  SubjectName :: string
  SubjectCIDR :: string
  ConflictingType :: string
  ConflictingID :: string
  ConflictingName :: string
  ConflictingCIDR :: string
  ConflictMessage :: string

definition displayName :: "cidr_owner \<Rightarrow> string" where
  "displayName r =
     (if own_name r \<noteq> '''' then own_kind r @ '' '' @ own_name r
      else if own_id r \<noteq> '''' then own_kind r @ '' '' @ own_id r
      else own_kind r)"

definition networkConflict :: "cidr_owner \<Rightarrow> cidr_owner \<Rightarrow> network_conflict" where
  "networkConflict a b =
     \<lparr>SubjectType = own_kind a, SubjectID = own_id a, SubjectName = displayName a,
      SubjectCIDR = own_cidr a, ConflictingType = own_kind b, ConflictingID = own_id b,
      ConflictingName = displayName b, ConflictingCIDR = own_cidr b,
      ConflictMessage = displayName a @ '' '' @ own_cidr a @ '' overlaps '' @ displayName b @ '' '' @
        own_cidr b\<rparr>"

definition vmRoutedCIDR :: "vm \<Rightarrow> (ipnet \<times> string) option" where
  "vmRoutedCIDR vm =
     (if vm_NetworkMode vm \<noteq> '''' \<and> vm_NetworkMode vm \<noteq> ''routed_ptp'' then None
      else if vm_HostIP vm = '''' \<or> vm_CIDR vm \<le> 0 \<or> 32 < vm_CIDR vm then None
      else case ParseIP4 (vm_HostIP vm) of
        None \<Rightarrow> None
      | Some ip \<Rightarrow>
          (let m = CIDRMask (nat (vm_CIDR vm)) 32; ipnet = \<lparr>net_IP = IP_Mask ip m, net_Mask = m\<rparr>
           in Some (ipnet, Net_String ipnet)))"

definition network_owner :: "network \<Rightarrow> cidr_owner option" where
  "network_owner n =
     (case ParseCIDR (nw_CIDR n) of
        Inl e \<Rightarrow> None
      | Inr (_, ipnet) \<Rightarrow>
          Some \<lparr>own_kind = ''network'', own_id = nw_ID n, own_name = nw_Name n,
                own_cidr = Net_String ipnet, own_net = ipnet\<rparr>)"

definition vm_owner :: "vm \<Rightarrow> cidr_owner option" where
  "vm_owner vm =
     (case vmRoutedCIDR vm of
        None \<Rightarrow> None
      | Some (ipnet, cidr) \<Rightarrow>
          Some \<lparr>own_kind = ''VM'', own_id = vm_ID vm, own_name = vm_Name vm, own_cidr = cidr,
                own_net = ipnet\<rparr>)"

definition networkCIDROwners :: "cidr_owner list io" where
  "networkCIDROwners =
     bindE store_ListNetworks (\<lambda>nets. bindE store_ListVMs (\<lambda>machines.
       returnE (List.map_filter network_owner nets @ List.map_filter vm_owner machines)))"

text \<open>The double loop of \<open>NetworkConflicts\<close>: every pair once, the earlier owner first.\<close>

fun conflicts_among :: "cidr_owner list \<Rightarrow> network_conflict list" where
  "conflicts_among [] = []"
| "conflicts_among (a # rest) =
     map (networkConflict a) (filter (\<lambda>b. cidrOverlaps (own_net a) (own_net b)) rest)
     @ conflicts_among rest"

definition NetworkConflicts :: "network_conflict list io" where
  "NetworkConflicts = bindE networkCIDROwners (\<lambda>owners. returnE (conflicts_among owners))"

definition findCIDROverlap :: "ipnet \<Rightarrow> string \<Rightarrow> network_conflict option io" where
  "findCIDROverlap candidate ignoreID =
     bindE networkCIDROwners (\<lambda>owners.
       let candidateOwner = \<lparr>own_kind = ''CIDR'', own_id = '''', own_name = '''',
             own_cidr = Net_String candidate, own_net = candidate\<rparr>
       in returnE (map_option (\<lambda>r. networkConflict r candidateOwner)
            (find (\<lambda>r. \<not> (own_id r \<noteq> '''' \<and> own_id r = ignoreID)
                     \<and> cidrOverlaps candidate (own_net r)) owners)))"

definition parsed_net :: "network \<Rightarrow> ipnet option" where
  "parsed_net n = (case ParseCIDR (nw_CIDR n) of Inl e \<Rightarrow> None | Inr (_, ipnet) \<Rightarrow> Some ipnet)"

definition sharedNetworkCIDRs :: "ipnet list io" where
  "sharedNetworkCIDRs =
     bindE store_ListNetworks (\<lambda>nets. returnE (List.map_filter parsed_net nets))"

definition conflictError :: "string \<Rightarrow> string \<Rightarrow> err" where
  "conflictError message field =
     ConflictFields message (if field \<noteq> '''' then [(field, message)] else [])"

definition ensureSharedNetworkUsable :: "network \<Rightarrow> unit io" where
  "ensureSharedNetworkUsable n =
     (case ParseCIDR (nw_CIDR n) of
        Inl e \<Rightarrow> throwE (Invalid ''Shared network CIDR is invalid'' [(''cidr'', err_text e)])
      | Inr (_, ipnet) \<Rightarrow>
          bindE (findCIDROverlap ipnet (nw_ID n)) (\<lambda>conflict.
            case conflict of
              None \<Rightarrow> returnE ()
            | Some c \<Rightarrow> throwE (ConflictFields
                (''Shared network '' @ nw_Name n @ '' is unusable because '' @ nw_CIDR n @
                 '' overlaps '' @ SubjectName c @ '' '' @ SubjectCIDR c)
                [(''network_id'', ''select a non-overlapping shared network''),
                 (''cidr'', ''overlaps '' @ SubjectName c @ '' '' @ SubjectCIDR c)])))"

definition ensureVMNetworkUsable :: "vm \<Rightarrow> unit io" where
  "ensureVMNetworkUsable vm =
     (if vm_NetworkMode vm = ''shared_bridge'' then
        bindE (store_GetNetwork (vm_NetworkID vm)) (\<lambda>found.
          case found of
            None \<Rightarrow> throwE (NotFound ''network_id does not exist'')
          | Some n \<Rightarrow> ensureSharedNetworkUsable n)
      else if vm_NetworkMode vm = ''routed_ptp'' \<or> vm_NetworkMode vm = '''' then
        (case vmRoutedCIDR vm of
           None \<Rightarrow> returnE ()
         | Some (ipnet, cidr) \<Rightarrow>
             bindE (findCIDROverlap ipnet (vm_ID vm)) (\<lambda>conflict.
               case conflict of
                 None \<Rightarrow> returnE ()
               | Some c \<Rightarrow> throwE (conflictError
                   (''VM network '' @ cidr @ '' overlaps '' @ SubjectName c @ '' '' @ SubjectCIDR c)
                   ''network'')))
      else returnE ())"

section \<open>SSH ports\<close>

definition portOpen :: "int \<Rightarrow> bool io" where
  "portOpen port =
     bindE (ask (Listen port)) (\<lambda>r. returnE (case r of Fail _ _ \<Rightarrow> True | _ \<Rightarrow> False))"

text \<open>\<open>for p := start; p <= end; p++\<close> with \<open>left\<close> values to go.\<close>

fun port_loop :: "int list \<Rightarrow> nat \<Rightarrow> int \<Rightarrow> int io" where
  "port_loop used 0 p = throwE (Conflict ''no free SSH ports in range'')"
| "port_loop used (Suc left) p =
     (if p \<in> set used then port_loop used left (p + 1)
      else bindE (portOpen p) (\<lambda>busy.
        if busy then port_loop used left (p + 1) else returnE p))"

definition allocatePort :: "int \<Rightarrow> int io" where
  "allocatePort requested =
     bindE (config_get (\<lambda>c. SSHPortRange (NetworkCfg c))) (\<lambda>spec.
     bindE (liftE (parseRange spec)) (\<lambda>(start, stop).
     bindE store_UsedSSHPorts (\<lambda>ssh.
     bindE store_UsedIngressHostPorts (\<lambda>ingress.
       let used = ssh @ ingress
       in if requested \<noteq> 0 then
            if requested < start \<or> stop < requested
            then throwE (Invalid ''SSH port is outside the configured range''
                   [(''ssh_port'', ''must be between '' @ Itoa start @ '' and '' @ Itoa stop)])
            else if requested \<in> set used then throwE (Conflict ''ssh_port already in use'')
            else bindE (portOpen requested) (\<lambda>busy.
              if busy then throwE (Conflict ''ssh_port already in use'') else returnE requested)
          else port_loop used (nat (stop - start + 1)) start))))"

section \<open>Addresses\<close>

fun scan :: "nat \<Rightarrow> (u32 \<Rightarrow> bool) \<Rightarrow> u32 \<Rightarrow> (u32 \<Rightarrow> bool) \<Rightarrow> u32 \<Rightarrow> u32 option" where
  "scan 0 cond step ok x = None"
| "scan (Suc fuel) cond step ok x =
     (if \<not> cond x then None
      else if ok x then Some x
      else scan fuel cond step ok (x + step))"

definition p2p_net :: "u32 \<Rightarrow> ipnet" where
  "p2p_net v = \<lparr>net_IP = uint32ToIP v, net_Mask = CIDRMask 30 32\<rparr>"

definition allocateP2P :: "(string \<times> string \<times> int) io" where
  "allocateP2P =
     bindE store_UsedGuestIPs (\<lambda>used.
     bindE (config_get (\<lambda>c. VMCIDR (NetworkCfg c))) (\<lambda>spec.
     bindE (liftE (ParseCIDR spec)) (\<lambda>(_, vmnet).
       let (ones, bits) = Mask_Size (net_Mask vmnet)
       in case To4 (net_IP vmnet) of
            None \<Rightarrow> throwE (PlainError ''vm_cidr must be an IPv4 CIDR with room for /30 networks'')
          | Some base \<Rightarrow>
              if bits \<noteq> 32 \<or> 30 < ones
              then throwE (PlainError ''vm_cidr must be an IPv4 CIDR with room for /30 networks'')
              else bindE sharedNetworkCIDRs (\<lambda>shared.
                let start = ipToUint32 base; size = push_bit (32 - ones) 1
                in case scan (unat size) (\<lambda>offset. offset + 3 < size) 4
                          (\<lambda>offset. addr_text (start + offset + 2) \<notin> set used
                             \<and> \<not> cidrOverlapsAny (p2p_net (start + offset)) shared) 0 of
                     None \<Rightarrow> throwE (PlainError ''no free /30 networks'')
                   | Some offset \<Rightarrow>
                       returnE (addr_text (start + offset + 1), addr_text (start + offset + 2), 30)))))"

definition allocateShared :: "network \<Rightarrow> (string \<times> string \<times> int) io" where
  "allocateShared n =
     bindE store_UsedGuestIPs (\<lambda>used.
     bindE (liftE (ParseCIDR (nw_CIDR n))) (\<lambda>(_, ipnet).
       let (ones, bits) = Mask_Size (net_Mask ipnet)
       in case To4 (net_IP ipnet) of
            None \<Rightarrow> throwE (PlainError ''shared network must be an IPv4 CIDR larger than /30'')
          | Some base \<Rightarrow>
              if bits \<noteq> 32 \<or> 30 < ones
              then throwE (PlainError ''shared network must be an IPv4 CIDR larger than /30'')
              else case ParseIP4 (nw_GatewayIP n) of
                None \<Rightarrow> throwE (PlainError ''network gateway_ip is invalid'')
              | Some gateway \<Rightarrow>
                  if \<not> Net_Contains ipnet gateway
                  then throwE (PlainError ''network gateway_ip is invalid'')
                  else let start = ipToUint32 base; size = push_bit (32 - ones) 1;
                           gatewayString = IP_String gateway
                       in case scan (unat size) (\<lambda>offset. offset + 1 < size) 1
                                 (\<lambda>offset. addr_text (start + offset) \<noteq> gatewayString
                                    \<and> addr_text (start + offset) \<notin> set used) 1 of
                            None \<Rightarrow> throwE (PlainError ''no free IPs in shared network'')
                          | Some offset \<Rightarrow>
                              returnE (gatewayString, addr_text (start + offset), int ones)))"

definition allocateNetwork :: "string \<Rightarrow> string \<Rightarrow> (string \<times> string \<times> int) io" where
  "allocateNetwork mode networkID =
     (if mode = ''routed_ptp'' then allocateP2P
      else if mode = ''shared_bridge'' then
        (if networkID = ''''
         then throwE (Unprocessable ''Select a shared network when using shared_bridge mode.''
                [(''network_id'', ''required for shared_bridge'')])
         else bindE (store_GetNetwork networkID) (\<lambda>found.
           case found of
             None \<Rightarrow> throwE (NotFound ''network_id does not exist'')
           | Some n \<Rightarrow> seqE (ensureSharedNetworkUsable n) (allocateShared n)))
      else throwE (PlainError (''unsupported network mode '' @ Quote mode)))"

definition validateSharedNetwork :: "string \<Rightarrow> string \<Rightarrow> (string \<times> string) io" where
  "validateSharedNetwork cidr0 gatewayIP =
     (let cidr = TrimSpace cidr0
      in case ParseCIDR cidr of
           Inl e \<Rightarrow> throwE (Invalid ''Shared network CIDR is invalid'' [(''cidr'', err_text e)])
         | Inr (ip, ipnet) \<Rightarrow>
             (let (ones, bits) = Mask_Size (net_Mask ipnet)
              in if To4 ip = None \<or> bits \<noteq> 32 \<or> 30 < ones
                 then throwE (Invalid ''Shared network CIDR is invalid''
                        [(''cidr'', ''must be an IPv4 CIDR with at least two usable host addresses'')])
                 else bindE (config_get (\<lambda>c. VMCIDR (NetworkCfg c))) (\<lambda>vmCIDR.
                   seqE (failIf (\<not> cidrWithin vmCIDR ipnet)
                     (Invalid ''Shared network CIDR is outside the configured VM range''
                        [(''cidr'', ''must be inside configured vm_cidr '' @ vmCIDR)]))
                  (bindE (findCIDROverlap ipnet '''') (\<lambda>conflict. case conflict of
                     Some c \<Rightarrow> throwE (conflictError
                        (''Shared network CIDR '' @ Net_String ipnet @ '' overlaps '' @
                         SubjectName c @ '' '' @ SubjectCIDR c) ''cidr'')
                   | None \<Rightarrow>
                      (let start = ipToUint32 (net_IP ipnet); size = push_bit (32 - ones) 1;
                           gateway = (case ParseIP4 (TrimSpace gatewayIP) of
                                        Some g \<Rightarrow> g | None \<Rightarrow> uint32ToIP (start + 1));
                           gatewayValue = ipToUint32 gateway
                       in if \<not> Net_Contains ipnet gateway \<or> gatewayValue = start
                             \<or> gatewayValue = start + size - 1
                          then throwE (Invalid ''Shared network gateway_ip is invalid''
                                 [(''gateway_ip'', ''must be a usable IP inside the shared network'')])
                          else returnE (Net_String ipnet, IP_String gateway)))))))"

end
