(* ===== verification/NetProofs.thy ===== *)
theory NetProofs
  imports NetAlloc
begin

text \<open>
  What the allocators of \<open>NetAlloc\<close> find. The counting loops are related to the search of the least
  index, which gives that a returned address is free and that a failure means that none is; the
  allocated /30 network lies inside the configured range and its numbers do not wrap.
\<close>

section \<open>The counting loop\<close>

lemma find_upt_Suc:
  "find P [0..<Suc n] = (if P 0 then Some 0 else map_option Suc (find (\<lambda>i. P (Suc i)) [0..<n]))"
proof -
  have "find P (map Suc xs) = map_option Suc (find (\<lambda>i. P (Suc i)) xs)" for xs
    by (induction xs) auto
  moreover have "[0..<Suc n] = 0 # map Suc [0..<n]"
    by (simp add: upt_conv_Cons map_Suc_upt del: upt_Suc)
  ultimately show ?thesis by simp
qed

lemma scan_find:
  assumes "\<And>i. i < n \<Longrightarrow> cond (x + of_nat i * st)" "\<not> cond (x + of_nat n * st)" "n < fuel"
  shows "scan fuel cond st ok x =
    map_option (\<lambda>i. x + of_nat i * st) (find (\<lambda>i. ok (x + of_nat i * st)) [0..<n])"
  using assms
proof (induction n arbitrary: fuel x)
  case 0
  then obtain f where "fuel = Suc f" by (cases fuel) auto
  then show ?case using 0 by simp
next
  case (Suc n)
  then obtain f where f: "fuel = Suc f" "n < f" by (cases fuel) auto
  have c: "cond x" using Suc.prems(1) [of 0] by simp
  have shift: "x + st + of_nat i * st = x + of_nat (Suc i) * st" for i
    by (simp add: algebra_simps)
  have "scan f cond st ok (x + st) =
      map_option (\<lambda>i. x + st + of_nat i * st) (find (\<lambda>i. ok (x + st + of_nat i * st)) [0..<n])"
  proof (rule Suc.IH)
    show "cond (x + st + of_nat i * st)" if "i < n" for i
      unfolding shift by (rule Suc.prems(1)) (use that in simp)
    show "\<not> cond (x + st + of_nat n * st)"
      unfolding shift by (rule Suc.prems(2))
  qed (rule f(2))
  then show ?case
    using c f(1) unfolding find_upt_Suc shift
    by (simp add: option.map_comp comp_def del: of_nat_Suc)
qed

lemma find_upt_None: "find P [0..<n] = None \<longleftrightarrow> (\<forall>i < n. \<not> P i)"
  by (auto simp: find_None_iff)

lemma find_upt_Some: "find P [0..<n] = Some i \<longleftrightarrow> i < n \<and> P i \<and> (\<forall>j < i. \<not> P j)"
  by (auto simp: find_Some_iff)

section \<open>Point-to-point networks\<close>

text \<open>The number of /30 networks that the loop visits in a range of prefix length \<open>ones\<close>.\<close>

definition p2p_slots :: "nat \<Rightarrow> nat" where
  "p2p_slots ones = (if ones = 0 then 0 else 2 ^ (30 - ones))"

lemma u32_small: "k < 2 ^ 32 \<Longrightarrow> unat (of_nat k :: u32) = k"
  by (simp add: unat_of_nat take_bit_nat_eq_self)

lemma size_u32: "0 < ones \<Longrightarrow> ones \<le> 32 \<Longrightarrow> unat (push_bit (32 - ones) 1 :: u32) = net_size ones"
proof -
  assume "0 < ones" "ones \<le> 32"
  then have "(2::nat) ^ (32 - ones) < 2 ^ 32" by (intro power_strict_increasing) auto
  then have "unat (of_nat (2 ^ (32 - ones)) :: u32) = 2 ^ (32 - ones)" by (rule u32_small)
  then show ?thesis by (simp add: net_size_def push_bit_eq_mult)
qed

lemma p2p_loop:
  assumes "ones \<le> 30"
  shows "scan (unat (push_bit (32 - ones) 1 :: u32)) (\<lambda>offset. offset + 3 < push_bit (32 - ones) 1) 4 ok 0 =
    map_option (\<lambda>i. of_nat (4 * i)) (find (\<lambda>i. ok (of_nat (4 * i))) [0..<p2p_slots ones])"
proof (cases "ones = 0")
  case True
  then have "(push_bit (32 - ones) 1 :: u32) = 0" by simp
  then show ?thesis using True by (simp add: p2p_slots_def)
next
  case False
  let ?s = "push_bit (32 - ones) 1 :: u32" and ?n = "p2p_slots ones"
  have s: "unat ?s = 4 * ?n"
  proof -
    have "(32::nat) - ones = 2 + (30 - ones)" using assms by simp
    then have "(2::nat) ^ (32 - ones) = 4 * 2 ^ (30 - ones)" by (simp add: power_add)
    then show ?thesis using size_u32 [of ones] False assms by (simp add: p2p_slots_def net_size_def)
  qed
  have "?n \<le> 2 ^ 29" unfolding p2p_slots_def using False
    by (simp only: if_False) (rule power_increasing, simp_all)
  then have n: "4 * ?n \<le> 2 ^ 31" by simp
  have lt: "of_nat (4 * i) + 3 < ?s \<longleftrightarrow> 4 * i + 3 < 4 * ?n" if "i \<le> ?n" for i
  proof -
    have "of_nat (4 * i) + (3 :: u32) = of_nat (4 * i + 3)" by simp
    moreover have "4 * i + 3 < 2 ^ 32" using that n by simp
    ultimately show ?thesis using s by (simp only: word_less_nat_alt u32_small)
  qed
  have "scan (unat ?s) (\<lambda>offset. offset + 3 < ?s) 4 ok 0 =
      map_option (\<lambda>i. 0 + of_nat i * 4) (find (\<lambda>i. ok (0 + of_nat i * 4)) [0..<?n])"
  proof (rule scan_find)
    fix i assume "i < ?n"
    then show "0 + of_nat i * 4 + 3 < ?s" using lt [of i] by (simp add: mult.commute)
  next
    show "\<not> 0 + of_nat ?n * 4 + 3 < ?s" using lt [of ?n] by (simp add: mult.commute)
    have "0 < ?n" using False by (simp add: p2p_slots_def)
    then show "?n < unat ?s" using s by simp
  qed
  then show ?thesis by (simp add: mult.commute)
qed

text \<open>The /30 network at \<open>b\<close> is free: its guest address is unused and it meets no shared network.\<close>

definition p2p_free :: "string set \<Rightarrow> ipnet set \<Rightarrow> u32 \<Rightarrow> bool" where
  "p2p_free used shared b \<longleftrightarrow>
     addr_text (b + 2) \<notin> used \<and> (\<forall>n \<in> shared. \<not> cidrOverlaps (p2p_net b) n)"

definition first_p2p :: "string set \<Rightarrow> ipnet set \<Rightarrow> u32 \<Rightarrow> nat \<Rightarrow> nat option" where
  "first_p2p used shared base ones =
     find (\<lambda>i. p2p_free used shared (base + of_nat (4 * i))) [0..<p2p_slots ones]"

text \<open>The networks that \<open>sharedNetworkCIDRs\<close> reads.\<close>

definition shared_nets :: "db \<Rightarrow> ipnet set" where
  "shared_nets d = {net. \<exists>n \<in> set (networks d). parsed_net n = Some net}"

lemma set_map_filter: "set (List.map_filter f xs) = {y. \<exists>x \<in> set xs. f x = Some y}"
  by (force simp: List.map_filter_def image_iff)

lemma sharedNetworkCIDRs_run:
  "sharedNetworkCIDRs w = (Inr nets, w') \<Longrightarrow> set nets = shared_nets (database w) \<and> database w' = database w"
  by (auto simp: sharedNetworkCIDRs_def store_ListNetworks_def io_run set_map_filter shared_nets_def
      dest!: ro_ioD [OF ro_perform])

lemma p2p_accept:
  "(addr_text (base + x + 2) \<notin> used \<and> \<not> cidrOverlapsAny (p2p_net (base + x)) shared) =
     p2p_free used (set shared) (base + x)"
  by (auto simp: p2p_free_def cidrOverlapsAny_def list_ex_iff)

text \<open>
  A successful allocation: the least free slot of the configured range, its host address one and
  its guest address two above the slot.
\<close>

definition guest_ips :: "db \<Rightarrow> string set" where
  "guest_ips d = vm_GuestIP ` set (vms d)"

lemma allocateP2P_ok:
  assumes "allocateP2P w = (Inr (host, guest, bits), w')"
  shows "\<exists>v ones i b. ParseCIDR (VMCIDR (NetworkCfg (cfg w))) = Inr (uint32ToIP v, mk_net v ones)
    \<and> ones \<le> 30 \<and> i < p2p_slots ones \<and> b = (v AND prefix_mask ones) + of_nat (4 * i)
    \<and> p2p_free (guest_ips (database w)) (shared_nets (database w)) b
    \<and> host = addr_text (b + 1) \<and> guest = addr_text (b + 2) \<and> bits = 30
    \<and> database w' = database w"
proof -
  obtain used w1 ip net ones shared base offset where
    u: "store_UsedGuestIPs w = (Inr used, w1)"
    and p: "ParseCIDR (VMCIDR (NetworkCfg (cfg w1))) = Inr (ip, net)"
    and m: "Mask_Size (net_Mask net) = (ones, 32)" "ones \<le> 30" "To4 (net_IP net) = Some base"
    and sh: "sharedNetworkCIDRs w1 = (Inr shared, w')"
    and sc: "scan (unat (push_bit (32 - ones) 1 :: u32)) (\<lambda>offset. offset + 3 < push_bit (32 - ones) 1) 4
               (\<lambda>offset. addr_text (ipToUint32 base + offset + 2) \<notin> set used
                  \<and> \<not> cidrOverlapsAny (p2p_net (ipToUint32 base + offset)) shared) 0 = Some offset"
    and r: "host = addr_text (ipToUint32 base + offset + 1)" "guest = addr_text (ipToUint32 base + offset + 2)"
      "bits = 30"
    using assms by (auto simp: allocateP2P_def io_run Let_def)
  have d: "used = map vm_GuestIP (vms (database w))" "database w1 = database w" "cfg w1 = cfg w"
    using u by (auto simp: store_UsedGuestIPs_def io_run dest!: ro_ioD [OF ro_perform])
  obtain v n where vn: "n \<le> 32" "ip = uint32ToIP v" "net = mk_net v n"
    using ParseCIDR_v4 [OF p] m(1) by auto
  then have "n = ones" using m(1) by (simp add: mk_net_def Mask_Size_CIDRMask)
  with vn have v: "ip = uint32ToIP v" "net = mk_net v ones" by simp_all
  then have b: "base = bytes_of_u32 (v AND prefix_mask ones)" using m by (simp add: mk_net_def)
  then have start: "ipToUint32 base = v AND prefix_mask ones" by (simp add: ipToUint32_def)
  from sharedNetworkCIDRs_run [OF sh] have s: "set shared = shared_nets (database w)" "database w' = database w"
    using d by auto
  from sc [unfolded start p2p_accept p2p_loop [OF m(2)]]
  obtain i where i: "i < p2p_slots ones" "offset = of_nat (4 * i)"
      "p2p_free (set used) (set shared) ((v AND prefix_mask ones) + of_nat (4 * i))"
    by (auto simp: find_upt_Some)
  have "set used = guest_ips (database w)" using d by (simp add: guest_ips_def)
  then show ?thesis
    using p v d m i r s start
    by (intro exI [of _ v] exI [of _ ones] exI [of _ i] exI [of _ "(v AND prefix_mask ones) + of_nat (4 * i)"])
       (simp del: of_nat_mult)
qed

lemma set_parsed_nets:
  "set (List.map_filter parsed_net (order_desc (by_created nw_CreatedAt) (networks d))) = shared_nets d"
  by (auto simp: set_map_filter shared_nets_def)

text \<open>With a working database, the allocator computes exactly the search of the least free slot.\<close>

lemma allocateP2P_search:
  assumes sql: "sql_ok (host_of w)"
    and p: "ParseCIDR (VMCIDR (NetworkCfg (cfg w))) = Inr (uint32ToIP v, mk_net v ones)" "ones \<le> 30"
  shows "fst (allocateP2P w) =
    (case first_p2p (guest_ips (database w)) (shared_nets (database w)) (v AND prefix_mask ones) ones of
       None \<Rightarrow> Inl (PlainError ''no free /30 networks'')
     | Some i \<Rightarrow> (let b = (v AND prefix_mask ones) + of_nat (4 * i)
                 in Inr (addr_text (b + 1), addr_text (b + 2), 30)))"
proof -
  let ?w1 = "w\<lparr>trail := Sql ''SELECT guest_ip FROM vms'' # trail w\<rparr>"
  have sql1: "sql_ok (host_of ?w1)" using sql by simp
  have m: "Mask_Size (net_Mask (mk_net v ones)) = (ones, 32)"
      "To4 (net_IP (mk_net v ones)) = Some (bytes_of_u32 (v AND prefix_mask ones))"
    using p(2) by (simp_all add: mk_net_def Mask_Size_CIDRMask)
  have start: "ipToUint32 (bytes_of_u32 (v AND prefix_mask ones)) = v AND prefix_mask ones"
    by (simp add: ipToUint32_def)
  show ?thesis
    using p m
    by (simp add: allocateP2P_def bindE_def store_UsedGuestIPs_def query_ok [OF sql] query_ok [OF sql1]
        config_get_def getsW_def liftE_def sharedNetworkCIDRs_def store_ListNetworks_def returnE_def
        throwE_def start p2p_accept p2p_loop [simplified] first_p2p_def Let_def guest_ips_def
        set_parsed_nets split: option.split)
qed

section \<open>Shared addresses\<close>

lemma shared_loop:
  assumes "ones \<le> 30"
  shows "scan (unat (push_bit (32 - ones) 1 :: u32)) (\<lambda>offset. offset + 1 < push_bit (32 - ones) 1) 1 ok 1 =
    (if ones = 0 then None
     else map_option (\<lambda>i. of_nat (Suc i)) (find (\<lambda>i. ok (of_nat (Suc i))) [0..<net_size ones - 2]))"
proof (cases "ones = 0")
  case True
  then have "(push_bit (32 - ones) 1 :: u32) = 0" by simp
  then show ?thesis using True by simp
next
  case False
  let ?s = "push_bit (32 - ones) 1 :: u32" and ?n = "net_size ones - 2"
  have s: "unat ?s = net_size ones" using size_u32 [of ones] False assms by simp
  have lo: "2 ^ 2 \<le> net_size ones" unfolding net_size_def using assms by (intro power_increasing) auto
  have hi: "net_size ones \<le> 2 ^ 31" unfolding net_size_def using False by (intro power_increasing) auto
  have lt: "of_nat (Suc i) + 1 < ?s \<longleftrightarrow> i + 2 < net_size ones" if "i \<le> ?n" for i
  proof -
    have "of_nat (Suc i) + (1 :: u32) = of_nat (i + 2)" by simp
    moreover have "i + 2 < 2 ^ 32" using that hi lo by simp
    ultimately show ?thesis using s by (simp only: word_less_nat_alt u32_small)
  qed
  have e: "1 + of_nat i * (1 :: u32) = of_nat (Suc i)" for i by simp
  have "scan (unat ?s) (\<lambda>offset. offset + 1 < ?s) 1 ok 1 =
      map_option (\<lambda>i. 1 + of_nat i * 1) (find (\<lambda>i. ok (1 + of_nat i * 1)) [0..<?n])"
  proof (rule scan_find)
    show "1 + of_nat i * 1 + 1 < ?s" if "i < ?n" for i
      unfolding e using lt [of i] that by simp
    show "\<not> 1 + of_nat ?n * 1 + 1 < ?s"
      unfolding e using lt [of ?n] lo by simp
    show "?n < unat ?s" using s lo by simp
  qed
  then show ?thesis using False unfolding e by simp
qed

lemma unat_add_small: "unat b + k < 2 ^ 32 \<Longrightarrow> unat (b + of_nat k :: u32) = unat b + k"
  by (simp add: unat_word_ariths unat_of_nat take_bit_nat_eq_self)

lemma allocateShared_ok:
  assumes "allocateShared n w = (Inr (host, guest, bits), w')"
  shows "\<exists>v ones g x. ParseCIDR (nw_CIDR n) = Inr (uint32ToIP v, mk_net v ones) \<and> ones \<le> 30
    \<and> ParseIP4 (nw_GatewayIP n) = Some g \<and> Net_Contains (mk_net v ones) g \<and> host = IP_String g
    \<and> guest = addr_text x \<and> bits = int ones \<and> guest \<noteq> host
    \<and> unat (v AND prefix_mask ones) < unat x
    \<and> unat x < unat (v AND prefix_mask ones) + net_size ones - 1
    \<and> guest \<notin> guest_ips (database w) \<and> database w' = database w"
proof -
  obtain used ip net ones base g offset where
    u: "store_UsedGuestIPs w = (Inr used, w')"
    and p: "ParseCIDR (nw_CIDR n) = Inr (ip, net)"
    and m: "Mask_Size (net_Mask net) = (ones, 32)" "ones \<le> 30" "To4 (net_IP net) = Some base"
    and g: "ParseIP4 (nw_GatewayIP n) = Some g" "Net_Contains net g" "host = IP_String g"
    and sc: "scan (unat (push_bit (32 - ones) 1 :: u32)) (\<lambda>offset. offset + 1 < push_bit (32 - ones) 1) 1
               (\<lambda>offset. addr_text (ipToUint32 base + offset) \<noteq> IP_String g
                  \<and> addr_text (ipToUint32 base + offset) \<notin> set used) 1 = Some offset"
    and r: "guest = addr_text (ipToUint32 base + offset)" "bits = int ones"
    using assms by (auto simp: allocateShared_def io_run Let_def)
  have d: "set used = guest_ips (database w)" "database w' = database w"
    using u by (auto simp: store_UsedGuestIPs_def guest_ips_def io_run dest!: ro_ioD [OF ro_perform])
  obtain v k where vk: "k \<le> 32" "ip = uint32ToIP v" "net = mk_net v k"
    using ParseCIDR_v4 [OF p] m(1) by auto
  then have "k = ones" using m(1) by (simp add: mk_net_def Mask_Size_CIDRMask)
  with vk have v: "ip = uint32ToIP v" "net = mk_net v ones" by simp_all
  let ?b = "v AND prefix_mask ones"
  have "base = bytes_of_u32 ?b" using m v by (simp add: mk_net_def)
  then have start: "ipToUint32 base = ?b" by (simp add: ipToUint32_def)
  from sc [unfolded start shared_loop [OF m(2)]]
  obtain i where i: "i < net_size ones - 2" "offset = of_nat (Suc i)"
      "addr_text (?b + of_nat (Suc i)) \<noteq> IP_String g" "addr_text (?b + of_nat (Suc i)) \<notin> set used"
    by (auto simp: find_upt_Some split: if_splits)
  have "unat ?b + net_size ones \<le> 2 ^ 32"
    using v4_net_end [OF v4_net_mk_net [of ones v]] m(2) by simp
  then have x: "unat (?b + of_nat (Suc i)) = unat ?b + Suc i" using i(1) by (intro unat_add_small) simp
  have lt: "unat ?b < unat (?b + of_nat (Suc i))"
      "unat (?b + of_nat (Suc i)) < unat ?b + net_size ones - 1"
    unfolding x using i(1) by linarith+
  show ?thesis
    by (intro exI [of _ v] exI [of _ ones] exI [of _ g] exI [of _ "?b + of_nat (Suc i)"] conjI)
       (use p v m g r start i lt d in simp_all)
qed

section \<open>Ports\<close>

lemma port_loop_ok:
  "port_loop used k p w = (Inr q, w') \<Longrightarrow>
     p \<le> q \<and> q < p + int k \<and> q \<notin> set used \<and> Listen q \<in> set (trail w') \<and> database w' = database w"
proof (induction used k p arbitrary: w rule: port_loop.induct)
  case (2 used left p)
  then show ?case by (fastforce simp: portOpen_def io_run split: if_splits)
qed (simp add: io_run)

lemma allocatePort_ok:
  assumes "allocatePort requested w = (Inr p, w')"
  shows "\<exists>start stop. parseRange (SSHPortRange (NetworkCfg (cfg w))) = Inr (start, stop)
    \<and> start \<le> p \<and> p \<le> stop \<and> (requested \<noteq> 0 \<longrightarrow> p = requested)
    \<and> p \<notin> vm_SSHPort ` set (vms (database w)) \<and> p \<notin> ing_HostPort ` set (ingress_rules (database w))
    \<and> Listen p \<in> set (trail w') \<and> database w' = database w"
proof -
  obtain start stop ssh ingress w1 w2 where
    r: "parseRange (SSHPortRange (NetworkCfg (cfg w))) = Inr (start, stop)"
    and s: "store_UsedSSHPorts w = (Inr ssh, w1)" and g: "store_UsedIngressHostPorts w1 = (Inr ingress, w2)"
    and c: "requested \<noteq> 0 \<and> start \<le> requested \<and> requested \<le> stop \<and> requested \<notin> set (ssh @ ingress) \<and>
              portOpen requested w2 = (Inr False, w') \<and> p = requested
         \<or> requested = 0 \<and> port_loop (ssh @ ingress) (nat (stop - start + 1)) start w2 = (Inr p, w')"
    using assms by (auto simp: allocatePort_def io_run Let_def not_less)
  have d: "set (ssh @ ingress) = vm_SSHPort ` set (vms (database w)) \<union> ing_HostPort ` set (ingress_rules (database w))"
      "database w2 = database w"
    using s g by (auto simp: store_UsedSSHPorts_def store_UsedIngressHostPorts_def io_run
        dest!: ro_ioD [OF ro_perform])
  have "start \<le> stop" using r by (auto simp: parseRange_def split: list.splits sum.splits if_splits)
  show ?thesis
  proof (cases "requested = 0")
    case True
    then have "port_loop (ssh @ ingress) (nat (stop - start + 1)) start w2 = (Inr p, w')" using c by simp
    from port_loop_ok [OF this] show ?thesis using r d True \<open>start \<le> stop\<close>
      by (intro exI [of _ start] exI [of _ stop]) auto
  next
    case False
    then show ?thesis using c r d
      by (intro exI [of _ start] exI [of _ stop]) (auto simp: portOpen_def io_run)
  qed
qed

end
