(* ===== verification/NetLayout.thy ===== *)
theory NetLayout
  imports NetProofs
begin

text \<open>
  The address plan as a predicate of the database: every routed VM has an aligned /30 of its own,
  every shared network has a normalised IPv4 prefix, a shared VM has a host address of its network,
  and no two of these networks meet. \<open>net_ok_no_conflicts\<close> derives from it that \<open>NetworkConflicts\<close>
  reports nothing; the lemmas after it are the steps that create rows.
\<close>

section \<open>Owners as a function of the database\<close>

definition owners :: "db \<Rightarrow> cidr_owner list" where
  "owners d =
     List.map_filter network_owner (order_desc (by_created nw_CreatedAt) (networks d)) @
     List.map_filter vm_owner (order_desc (by_created vm_CreatedAt) (vms d))"

lemma networkCIDROwners_run:
  "networkCIDROwners w = (Inr os, w') \<Longrightarrow> os = owners (database w) \<and> database w' = database w"
  by (auto simp: networkCIDROwners_def store_ListNetworks_def store_ListVMs_def io_run owners_def
      dest!: ro_ioD [OF ro_perform])

lemma ro_networkCIDROwners [ro]: "ro_io networkCIDROwners"
  unfolding networkCIDROwners_def store_ListNetworks_def store_ListVMs_def by (intro ro)

lemma ro_findCIDROverlap [ro]: "ro_io (findCIDROverlap candidate ignoreID)"
  unfolding findCIDROverlap_def by (intro ro)

lemma findCIDROverlap_None:
  assumes "findCIDROverlap candidate ign w = (Inr None, w')"
  shows "\<forall>r \<in> set (owners (database w)). \<not> (own_id r \<noteq> '''' \<and> own_id r = ign) \<longrightarrow>
           \<not> cidrOverlaps candidate (own_net r)"
  using assms
  by (auto simp: findCIDROverlap_def io_run Let_def find_None_iff dest!: networkCIDROwners_run)

lemma set_owners:
  "set (owners d) = {r. \<exists>n \<in> set (networks d). network_owner n = Some r}
     \<union> {r. \<exists>v \<in> set (vms d). vm_owner v = Some r}"
  by (simp add: owners_def set_map_filter)

lemma network_owner_net: "network_owner n = Some r \<Longrightarrow> parsed_net n = Some (own_net r) \<and> own_id r = nw_ID n"
  by (auto simp: network_owner_def parsed_net_def split: sum.splits)

lemma network_owner_ex: "parsed_net n = Some net \<Longrightarrow> \<exists>r. network_owner n = Some r \<and> own_net r = net"
  by (auto simp: network_owner_def parsed_net_def split: sum.splits)

lemma vm_owner_net: "vm_owner v = Some r \<Longrightarrow> (\<exists>c. vmRoutedCIDR v = Some (own_net r, c)) \<and> own_id r = vm_ID v"
  by (auto simp: vm_owner_def split: option.splits)

lemma vm_owner_ex: "vmRoutedCIDR v = Some (net, c) \<Longrightarrow> \<exists>r. vm_owner v = Some r \<and> own_net r = net"
  by (auto simp: vm_owner_def)

lemma conflicts_among_Nil:
  "conflicts_among rs = [] \<longleftrightarrow> sorted_wrt (\<lambda>a b. \<not> cidrOverlaps (own_net a) (own_net b)) rs"
  by (induction rs) (auto simp: filter_empty_conv)

lemma sorted_wrt_distinct:
  "distinct xs \<Longrightarrow> \<forall>a \<in> set xs. \<forall>b \<in> set xs. a \<noteq> b \<longrightarrow> R a b \<Longrightarrow> sorted_wrt R xs"
  by (induction xs) auto

section \<open>The address plan\<close>

definition routed_at :: "vm \<Rightarrow> u32 \<Rightarrow> bool" where
  "routed_at v b \<longleftrightarrow> vm_NetworkMode v = ''routed_ptp'' \<and> vm_HostIP v = addr_text (b + 1)
     \<and> vm_GuestIP v = addr_text (b + 2) \<and> vm_CIDR v = 30 \<and> 4 dvd unat b"

definition network_at :: "network \<Rightarrow> u32 \<Rightarrow> nat \<Rightarrow> bool" where
  "network_at n b k \<longleftrightarrow> k \<le> 30 \<and> b AND prefix_mask k = b \<and> nw_CIDR n = cidr_text b k"

text \<open>A host address of the network: neither its first nor its last address.\<close>

definition shared_in :: "vm \<Rightarrow> network \<Rightarrow> bool" where
  "shared_in v n \<longleftrightarrow> vm_NetworkMode v = ''shared_bridge'' \<and> vm_NetworkID v = nw_ID n
     \<and> (\<exists>b k x. network_at n b k \<and> vm_GuestIP v = addr_text x
          \<and> unat b < unat x \<and> unat x < unat b + net_size k - 1)"

definition net_ok :: "db \<Rightarrow> bool" where
  "net_ok d \<longleftrightarrow>
     (\<forall>v \<in> set (vms d). (\<exists>b. routed_at v b) \<or> (\<exists>n \<in> set (networks d). shared_in v n))
   \<and> (\<forall>n \<in> set (networks d). \<exists>b k. network_at n b k)
   \<and> (\<forall>n \<in> set (networks d). \<forall>m \<in> set (networks d). n \<noteq> m \<longrightarrow>
        (\<forall>x y. parsed_net n = Some x \<longrightarrow> parsed_net m = Some y \<longrightarrow> \<not> cidrOverlaps x y))
   \<and> (\<forall>v \<in> set (vms d). \<forall>n \<in> set (networks d).
        (\<forall>x c y. vmRoutedCIDR v = Some (x, c) \<longrightarrow> parsed_net n = Some y \<longrightarrow> \<not> cidrOverlaps x y))"

lemma aligned_mask: "4 dvd unat b \<Longrightarrow> b AND prefix_mask 30 = b"
  by (simp add: word_unat_eq_iff unat_and_prefix_mask)

lemma aligned_host:
  assumes "4 dvd unat b"
  shows "(b + 1) AND prefix_mask 30 = b"
proof -
  obtain k where k: "unat b = 4 * k" using assms by (rule dvdE)
  then have "unat b + 1 < 2 ^ 32" using unat_u32_less [of b] by simp
  then have "unat (b + 1) = unat b + 1" using unat_add_small [of b 1] by simp
  then show ?thesis using k by (simp add: word_unat_eq_iff unat_and_prefix_mask)
qed

lemma v4_net_30: "4 dvd unat b \<Longrightarrow> v4_net (mk_net b 30) b 30"
  using v4_net_mk_net [of 30 b] by (simp add: aligned_mask)

lemma v4_net_p2p: "4 dvd unat b \<Longrightarrow> v4_net (p2p_net b) b 30"
  by (simp add: v4_net_def p2p_net_def net_size_def)

lemma addr_text_not_Nil: "addr_text v \<noteq> ''''"
proof
  assume "addr_text v = ''''"
  then have "Split (addr_text v) (CHR ''.'') = ['''']" by simp
  moreover have "length (Split (addr_text v) (CHR ''.'')) = 4"
    by (simp add: addr_text_dotted Split_dotted bytes_of_u32_def)
  ultimately show False by simp
qed

lemma vmRoutedCIDR_at: 
  assumes "routed_at v b"
  shows "\<exists>c. vmRoutedCIDR v = Some (mk_net b 30, c)"
proof -
  have b: "4 dvd unat b" using assms by (simp add: routed_at_def)
  have "IP_Mask (bytes_of_u32 (b + 1)) (CIDRMask 30 32) = bytes_of_u32 b"
    using IP_Mask_v4 [of "bytes_of_u32 (b + 1)" "bytes_of_u32 (b + 1)" 30] aligned_host [OF b] by simp
  then show ?thesis
    using assms aligned_mask [OF b]
    by (simp add: routed_at_def vmRoutedCIDR_def addr_text_not_Nil ParseIP4_addr_text mk_net_def Let_def)
qed

lemma vmRoutedCIDR_shared: "vm_NetworkMode v = ''shared_bridge'' \<Longrightarrow> vmRoutedCIDR v = None"
  by (simp add: vmRoutedCIDR_def)

lemma parsed_net_at: "network_at n b k \<Longrightarrow> parsed_net n = Some (mk_net b k) \<and> v4_net (mk_net b k) b k"
  using ParseCIDR_text [of k b] v4_net_mk_net [of k b]
  by (auto simp: network_at_def parsed_net_def cidr_text_def)

text \<open>Two aligned /30 networks that meet are the same.\<close>

lemma overlap_30:
  assumes "4 dvd unat b" "4 dvd unat c" "v4_net x b 30" "v4_net y c 30" "cidrOverlaps x y"
  shows "b = c"
proof -
  obtain i j where "unat b = 4 * i" "unat c = 4 * j" using assms by (auto elim!: dvdE)
  moreover have "unat b < unat c + 4" "unat c < unat b + 4"
    using cidrOverlaps_v4 [OF assms(3,4)] assms(5) by (simp_all add: net_size_def)
  ultimately show ?thesis by (simp add: word_unat_eq_iff)
qed

lemma distinct_map_filter_id:
  assumes "distinct (map f xs)" "\<And>x r. g x = Some r \<Longrightarrow> h r = f x"
  shows "distinct (map h (List.map_filter g xs))"
proof -
  have "map h (List.map_filter g xs) = map f (filter (\<lambda>x. g x \<noteq> None) xs)"
    using assms(2) by (induction xs) (auto simp: List.map_filter_def)
  then show ?thesis using distinct_map_filter [OF assms(1)] by simp
qed

lemma network_owner_kind: "network_owner n = Some r \<Longrightarrow> own_kind r = ''network''"
  by (auto simp: network_owner_def split: sum.splits)

lemma vm_owner_kind: "vm_owner v = Some r \<Longrightarrow> own_kind r = ''VM''"
  by (auto simp: vm_owner_def split: option.splits)

lemma distinct_owners:
  assumes "uniq_ok vms_uniq (vms d)" "uniq_ok networks_uniq (networks d)"
  shows "distinct (owners d)"
proof -
  have "distinct (map own_id (List.map_filter network_owner (order_desc (by_created nw_CreatedAt) (networks d))))"
    using networks_tbl.distinct_keys [OF assms(2)] network_owner_net
    by (intro distinct_map_filter_id [where f = nw_ID]) auto
  moreover have "distinct (map own_id (List.map_filter vm_owner (order_desc (by_created vm_CreatedAt) (vms d))))"
    using vms_tbl.distinct_keys [OF assms(1)] vm_owner_net
    by (intro distinct_map_filter_id [where f = vm_ID]) auto
  ultimately show ?thesis
    by (auto simp: owners_def set_map_filter distinct_map dest!: network_owner_kind vm_owner_kind)
qed

lemma guest_ip_unique:
  "uniq_ok vms_uniq (vms d) \<Longrightarrow> v \<in> set (vms d) \<Longrightarrow> u \<in> set (vms d) \<Longrightarrow> vm_GuestIP v = vm_GuestIP u \<Longrightarrow> v = u"
  by (auto simp: uniq_ok_def vms_uniq_def distinct_map inj_on_def)

lemma overlap_sym: "cidrOverlaps x y \<Longrightarrow> cidrOverlaps y x"
  by (auto simp: cidrOverlaps_def split: option.splits)

lemma routed_of_owner:
  assumes "net_ok d" "v \<in> set (vms d)" "vm_owner v = Some r"
  shows "\<exists>b. routed_at v b \<and> own_net r = mk_net b 30"
proof -
  obtain c where c: "vmRoutedCIDR v = Some (own_net r, c)" using vm_owner_net [OF assms(3)] by blast
  then have "vm_NetworkMode v \<noteq> ''shared_bridge''" using vmRoutedCIDR_shared by auto
  then obtain b where b: "routed_at v b"
    using assms(1,2) unfolding net_ok_def shared_in_def by blast
  then show ?thesis using vmRoutedCIDR_at [OF b] c by auto
qed

lemma net_ok_no_conflicts:
  assumes u: "uniq_ok vms_uniq (vms d)" "uniq_ok networks_uniq (networks d)" and ok: "net_ok d"
  shows "conflicts_among (owners d) = []"
  unfolding conflicts_among_Nil
proof (rule sorted_wrt_distinct [OF distinct_owners [OF u]], intro ballI impI)
  fix r s assume rs: "r \<in> set (owners d)" "s \<in> set (owners d)" "r \<noteq> s"
  have vv: False if h: "v \<in> set (vms d)" "vm_owner v = Some r" "z \<in> set (vms d)" "vm_owner z = Some s"
      "cidrOverlaps (own_net r) (own_net s)" for v z
  proof -
    obtain b where b: "routed_at v b" "own_net r = mk_net b 30"
      using routed_of_owner [OF ok h(1,2)] by blast
    obtain c where c: "routed_at z c" "own_net s = mk_net c 30"
      using routed_of_owner [OF ok h(3,4)] by blast
    have "b = c" using overlap_30 [of b c "mk_net b 30" "mk_net c 30"] b c h(5) v4_net_30
      by (simp add: routed_at_def)
    then have "vm_GuestIP v = vm_GuestIP z" using b c by (simp add: routed_at_def)
    then have "v = z" using guest_ip_unique u h by blast
    then show False using h rs by simp
  qed
  have nn: False if h: "n \<in> set (networks d)" "network_owner n = Some r" "m \<in> set (networks d)"
      "network_owner m = Some s" "cidrOverlaps (own_net r) (own_net s)" for n m
  proof -
    have "n \<noteq> m" using h(2,4) rs(3) by auto
    then show False
      using ok h network_owner_net [OF h(2)] network_owner_net [OF h(4)] unfolding net_ok_def by blast
  qed
  have vn: False if h: "v \<in> set (vms d)" "vm_owner v = Some p" "n \<in> set (networks d)"
      "network_owner n = Some q" "cidrOverlaps (own_net p) (own_net q)" for v n p q
    using ok h network_owner_net [OF h(4)] vm_owner_net [OF h(2)] unfolding net_ok_def by blast
  show "\<not> cidrOverlaps (own_net r) (own_net s)"
    using rs(1,2) vv nn vn overlap_sym unfolding set_owners by blast
qed

section \<open>Steps that keep the plan\<close>

text \<open>The columns of a VM that the plan depends on.\<close>

definition net_fields :: "vm \<Rightarrow> string \<times> string \<times> string \<times> string \<times> int" where
  "net_fields v = (vm_NetworkMode v, vm_NetworkID v, vm_HostIP v, vm_GuestIP v, vm_CIDR v)"

lemma net_fields_routed: "net_fields v = net_fields u \<Longrightarrow> routed_at v b = routed_at u b"
  by (simp add: net_fields_def routed_at_def)

lemma net_fields_shared: "net_fields v = net_fields u \<Longrightarrow> shared_in v n = shared_in u n"
  by (simp add: net_fields_def shared_in_def)

lemma net_fields_cidr: "net_fields v = net_fields u \<Longrightarrow> vmRoutedCIDR v = vmRoutedCIDR u"
  unfolding net_fields_def vmRoutedCIDR_def prod.inject by (elim conjE) (simp only:)

lemma net_ok_cong:
  assumes ok: "net_ok d" and n: "networks d' = networks d"
    and f: "net_fields ` set (vms d') \<subseteq> net_fields ` set (vms d)"
  shows "net_ok d'"
proof -
  have ex: "\<exists>u \<in> set (vms d). net_fields v = net_fields u" if "v \<in> set (vms d')" for v
    using f that by blast
  show ?thesis
    unfolding net_ok_def n
  proof (intro conjI ballI)
    fix v assume "v \<in> set (vms d')"
    then obtain u where u: "u \<in> set (vms d)" "net_fields v = net_fields u" using ex by blast
    show "(\<exists>b. routed_at v b) \<or> (\<exists>n \<in> set (networks d). shared_in v n)"
      using ok u(1) unfolding net_ok_def net_fields_routed [OF u(2)] net_fields_shared [OF u(2)] by blast
    fix n assume "n \<in> set (networks d)"
    then show "\<forall>x c y. vmRoutedCIDR v = Some (x, c) \<longrightarrow> parsed_net n = Some y \<longrightarrow> \<not> cidrOverlaps x y"
      using ok u(1) unfolding net_ok_def net_fields_cidr [OF u(2)] by blast
  qed (use ok in \<open>simp_all add: net_ok_def\<close>)
qed

lemma overlap_p2p: "4 dvd unat b \<Longrightarrow> cidrOverlaps (p2p_net b) y = cidrOverlaps (mk_net b 30) y"
  by (simp add: cidrOverlaps_def ipNetRange_v4 [OF v4_net_p2p] ipNetRange_v4 [OF v4_net_30])

lemma net_ok_insert_routed:
  assumes ok: "net_ok d" and r: "routed_at vm b" and free: "p2p_free used (shared_nets d) b"
  shows "net_ok (d\<lparr>vms := vms d @ [vm]\<rparr>)"
proof -
  have al: "4 dvd unat b" using r by (simp add: routed_at_def)
  have "\<not> cidrOverlaps x y" if "n \<in> set (networks d)" "vmRoutedCIDR vm = Some (x, c)" "parsed_net n = Some y" for n x c y
  proof -
    have "x = mk_net b 30" using vmRoutedCIDR_at [OF r] that(2) by auto
    moreover have "\<not> cidrOverlaps (p2p_net b) y"
      using free that by (auto simp: p2p_free_def shared_nets_def)
    ultimately show ?thesis using overlap_p2p [OF al] by simp
  qed
  then show ?thesis using ok r unfolding net_ok_def by auto
qed

lemma net_ok_insert_shared:
  assumes "net_ok d" "n \<in> set (networks d)" "shared_in vm n"
  shows "net_ok (d\<lparr>vms := vms d @ [vm]\<rparr>)"
proof -
  have "vmRoutedCIDR vm = None"
    using assms(3) vmRoutedCIDR_shared by (simp add: shared_in_def)
  then show ?thesis using assms unfolding net_ok_def by auto
qed

lemma net_ok_insert_network:
  assumes ok: "net_ok d" and n: "network_at n b k"
    and free: "\<forall>r \<in> set (owners d). \<not> cidrOverlaps (mk_net b k) (own_net r)"
  shows "net_ok (d\<lparr>networks := networks d @ [n]\<rparr>)"
proof -
  have p: "parsed_net n = Some (mk_net b k)" using parsed_net_at [OF n] by simp
  have old: "\<not> cidrOverlaps (mk_net b k) y" "\<not> cidrOverlaps y (mk_net b k)"
    if h: "m \<in> set (networks d)" "parsed_net m = Some y" for m y
  proof -
    obtain r where "network_owner m = Some r" "own_net r = y" using network_owner_ex h(2) by blast
    then show "\<not> cidrOverlaps (mk_net b k) y" using free h(1) unfolding set_owners by blast
    then show "\<not> cidrOverlaps y (mk_net b k)" using overlap_sym by blast
  qed
  have vms: "\<not> cidrOverlaps x (mk_net b k)" if h: "v \<in> set (vms d)" "vmRoutedCIDR v = Some (x, c)" for v x c
  proof -
    obtain r where "vm_owner v = Some r" "own_net r = x" using vm_owner_ex h(2) by blast
    then have "\<not> cidrOverlaps (mk_net b k) x" using free h(1) unfolding set_owners by blast
    then show ?thesis using overlap_sym by blast
  qed
  show ?thesis
    unfolding net_ok_def
  proof (intro conjI ballI impI allI)
    fix v assume "v \<in> set (vms (d\<lparr>networks := networks d @ [n]\<rparr>))"
    then show "(\<exists>b. routed_at v b) \<or> (\<exists>m \<in> set (networks (d\<lparr>networks := networks d @ [n]\<rparr>)). shared_in v m)"
      using ok by (fastforce simp: net_ok_def)
  next
    fix m assume "m \<in> set (networks (d\<lparr>networks := networks d @ [n]\<rparr>))"
    then show "\<exists>b k. network_at m b k" using ok n by (auto simp: net_ok_def)
  next
    fix m q x y
    assume "m \<in> set (networks (d\<lparr>networks := networks d @ [n]\<rparr>))"
      "q \<in> set (networks (d\<lparr>networks := networks d @ [n]\<rparr>))" "m \<noteq> q"
      "parsed_net m = Some x" "parsed_net q = Some y"
    then show "\<not> cidrOverlaps x y" using ok p old by (auto simp: net_ok_def)
  next
    fix v m x c y
    assume "v \<in> set (vms (d\<lparr>networks := networks d @ [n]\<rparr>))"
      "m \<in> set (networks (d\<lparr>networks := networks d @ [n]\<rparr>))"
      "vmRoutedCIDR v = Some (x, c)" "parsed_net m = Some y"
    then show "\<not> cidrOverlaps x y" using ok p vms by (auto simp: net_ok_def)
  qed
qed

lemma net_ok_delete_network:
  assumes ok: "net_ok d" and unused: "\<forall>v \<in> set (vms d). vm_NetworkID v \<noteq> nid"
  shows "net_ok (d\<lparr>networks := tbl_delete (\<lambda>n. nw_ID n = nid) (networks d)\<rparr>)"
proof -
  have keep: "\<exists>n \<in> set (networks d). nw_ID n \<noteq> nid \<and> shared_in v n"
    if "v \<in> set (vms d)" "n \<in> set (networks d)" "shared_in v n" for v n
  proof (intro bexI conjI)
    show "nw_ID n \<noteq> nid" using unused that by (auto simp: shared_in_def)
  qed (use that in simp_all)
  show ?thesis
    unfolding net_ok_def
  proof (intro conjI ballI impI allI)
    fix v assume "v \<in> set (vms (d\<lparr>networks := tbl_delete (\<lambda>n. nw_ID n = nid) (networks d)\<rparr>))"
    then show "(\<exists>b. routed_at v b) \<or>
        (\<exists>n \<in> set (networks (d\<lparr>networks := tbl_delete (\<lambda>n. nw_ID n = nid) (networks d)\<rparr>)). shared_in v n)"
      using ok keep by (fastforce simp: net_ok_def tbl_delete_def)
  qed (use ok in \<open>auto simp: net_ok_def tbl_delete_def\<close>)
qed

section \<open>What the allocators promise the plan\<close>

lemma p2p_slot_aligned:
  assumes "ones \<le> 30" "i < p2p_slots ones" "b = (v AND prefix_mask ones) + of_nat (4 * i)"
  shows "4 dvd unat b \<and> unat b = unat (v AND prefix_mask ones) + 4 * i
    \<and> unat b + 4 \<le> unat (v AND prefix_mask ones) + net_size ones"
proof -
  have o: "ones \<noteq> 0"
  proof
    assume "ones = 0"
    then show False using assms(2) by (simp add: p2p_slots_def)
  qed
  have "(32::nat) - ones = 2 + (30 - ones)" using assms(1) by simp
  then have s: "net_size ones = 4 * p2p_slots ones"
    using o by (simp add: net_size_def p2p_slots_def power_add)
  have e: "unat (v AND prefix_mask ones) + net_size ones \<le> 2 ^ 32"
    using v4_net_end [OF v4_net_mk_net [of ones v]] assms(1) by simp
  then have u: "unat b = unat (v AND prefix_mask ones) + 4 * i"
    unfolding assms(3) using s assms(2) by (intro unat_add_small) simp
  have "4 dvd net_size ones" using s by simp
  then have "4 dvd unat (v AND prefix_mask ones)"
    using v4_net_mk_net [of ones v] assms(1) by (auto simp: v4_net_def intro: dvd_trans)
  then show ?thesis using u s assms(2) by simp
qed

text \<open>A validated shared network: normalised, with a gateway inside it, and clear of every owner.\<close>

lemma validateSharedNetwork_ok:
  assumes "validateSharedNetwork cidr gatewayIP w = (Inr (c, g), w')"
  shows "\<exists>b k gw. k \<le> 30 \<and> b AND prefix_mask k = b \<and> c = cidr_text b k \<and> g = addr_text gw
    \<and> unat b < unat gw \<and> unat gw < unat b + net_size k - 1
    \<and> cidrWithin (VMCIDR (NetworkCfg (cfg w))) (mk_net b k)
    \<and> (\<forall>r \<in> set (owners (database w)). \<not> cidrOverlaps (mk_net b k) (own_net r))
    \<and> database w' = database w"
proof -
  obtain ip net ones gateway where
    p: "ParseCIDR (TrimSpace cidr) = Inr (ip, net)"
    and m: "Mask_Size (net_Mask net) = (ones, 32)" "ones \<le> 30"
    and within: "cidrWithin (VMCIDR (NetworkCfg (cfg w))) net"
    and o: "findCIDROverlap net '''' w = (Inr None, w')"
    and gw: "gateway = (case ParseIP4 (TrimSpace gatewayIP) of Some g \<Rightarrow> g | None \<Rightarrow> uint32ToIP (ipToUint32 (net_IP net) + 1))"
    and g: "Net_Contains net gateway" "ipToUint32 gateway \<noteq> ipToUint32 (net_IP net)"
      "ipToUint32 gateway \<noteq> ipToUint32 (net_IP net) + push_bit (32 - ones) 1 - 1"
    and r: "c = Net_String net" "g = IP_String gateway"
    using assms by (auto simp: validateSharedNetwork_def io_run Let_def not_less)
  obtain v k where vk: "k \<le> 32" "ip = uint32ToIP v" "net = mk_net v k"
    using ParseCIDR_v4 [OF p] m(1) by auto
  then have k: "k = ones" using m(1) by (simp add: mk_net_def Mask_Size_CIDRMask)
  define b where "b = v AND prefix_mask k"
  have b: "b AND prefix_mask k = b" by (simp add: b_def and.assoc)
  have net: "net = mk_net b k" using vk(3) b by (simp add: mk_net_def b_def)
  have v4: "v4_net net b k" using v4_net_mk_net [OF vk(1), of v] vk(3) by (simp add: b_def)
  have start: "ipToUint32 (net_IP net) = b" using v4 by (simp add: v4_net_def ipToUint32_def)
  obtain q where q: "To4 gateway = Some q" "length q = 4"
  proof (cases "ParseIP4 (TrimSpace gatewayIP)")
    case None
    then show ?thesis using gw that [of "bytes_of_u32 (b + 1)"] by (simp add: start)
  next
    case (Some q)
    then have "length q = 4" by (auto simp: ParseIP4_def To4_length split: option.splits)
    then show ?thesis using gw that [of q] Some by simp
  qed
  define a where "a = u32_of_bytes q"
  have a: "ipToUint32 gateway = a" "IP_String gateway = addr_text a"
    using q by (simp_all add: ipToUint32_def a_def IP_String_v4 addr_text_dotted)
  have "Net_Contains net gateway = Net_Contains net (uint32ToIP a)"
    using q by (simp add: Net_Contains_def a_def Let_def cong: option.case_cong prod.case_cong)
  then have range: "unat b \<le> unat a" "unat a < unat b + net_size k"
    using g(1) Contains_iff_range [OF v4] by simp_all
  have "unat a \<noteq> unat b" using g(2) start a(1) by (simp add: word_unat_eq_iff)
  moreover have "unat a \<noteq> unat b + net_size k - 1"
  proof
    assume "unat a = unat b + net_size k - 1"
    then have "unat a + 1 = unat b + net_size k" using net_size_pos [of k] by linarith
    then have "(of_nat (unat a + 1) :: u32) = of_nat (unat b + net_size k)" by (rule arg_cong)
    then have "a + 1 = b + of_nat (net_size k)" by (simp add: add.commute)
    then have "a = b + push_bit (32 - ones) 1 - 1"
      using k by (simp add: net_size_def push_bit_eq_mult algebra_simps)
    then show False using g(3) start a(1) by simp
  qed
  ultimately have lt: "unat b < unat a" "unat a < unat b + net_size k - 1" using range by linarith+
  have "c = cidr_text b k" using Net_String_v4 [OF v4] r(1) by (simp add: cidr_text_def)
  then show ?thesis
    using m(2) k b lt a r within net findCIDROverlap_None [OF o] ro_ioD [OF ro_findCIDROverlap o]
    by (intro exI [of _ b] exI [of _ k] exI [of _ a]) simp
qed

end
