(* ===== verification/Firewall.thy ===== *)
theory Firewall
  imports HostOps NetLayout
begin

text \<open>
  \<open>applyNFT\<close>, \<open>egressNFTRules\<close> and \<open>applyFirewalldMetadata\<close> of \<open>internal/lifecycle/service.go\<close>. A
  rule is data (\<open>nft_rule\<close>) that \<open>rule_text\<close> prints as the command line of the code. \<open>ruleset\<close> is the
  abstract specification, a function of the database; \<open>applyNFT_commands\<close> shows that a successful run
  issues its rules in order and nothing else. The theory \<open>Packets\<close> gives the rules their meaning.
\<close>

section \<open>Rules and their text\<close>

datatype nft_chain = CInput | CPrerouting | CPostrouting | CForward

datatype nft_match =
    IifName string | OifName string | SAddr string | SAddrNot string | DAddr string
  | DPort string string | CtEstablished

datatype nft_verdict = Accept | Drop | Dnat string int | Masquerade

record nft_rule =
  r_chain :: nft_chain
  r_matches :: "nft_match list"
  r_verdict :: nft_verdict

definition quoted :: "string \<Rightarrow> string" where
  "quoted s = [CHR 0x22] @ s @ [CHR 0x22]"

fun chain_text :: "nft_chain \<Rightarrow> string" where
  "chain_text CInput = ''input''"
| "chain_text CPrerouting = ''prerouting''"
| "chain_text CPostrouting = ''postrouting''"
| "chain_text CForward = ''forward''"

fun match_text :: "nft_match \<Rightarrow> string" where
  "match_text (IifName n) = ''iifname '' @ quoted n"
| "match_text (OifName n) = ''oifname '' @ quoted n"
| "match_text (SAddr a) = ''ip saddr '' @ a"
| "match_text (SAddrNot a) = ''ip saddr != '' @ a"
| "match_text (DAddr a) = ''ip daddr '' @ a"
| "match_text (DPort proto p) = proto @ '' dport '' @ p"
| "match_text CtEstablished = ''ct state established,related''"

fun verdict_text :: "nft_verdict \<Rightarrow> string" where
  "verdict_text Accept = ''accept''"
| "verdict_text Drop = ''drop''"
| "verdict_text (Dnat ip port) = ''dnat to '' @ ip @ '':'' @ Itoa port"
| "verdict_text Masquerade = ''masquerade''"

definition rule_text :: "nft_rule \<Rightarrow> string" where
  "rule_text r = join '' '' ([''nft add rule ip bap_web'', chain_text (r_chain r)] @
     map match_text (r_matches r) @ [verdict_text (r_verdict r)])"

abbreviation fwd :: "nft_match list \<Rightarrow> nft_verdict \<Rightarrow> nft_rule" where
  "fwd ms v \<equiv> \<lparr>r_chain = CForward, r_matches = ms, r_verdict = v\<rparr>"

section \<open>The rules of one VM\<close>

definition vm_live :: "vm \<Rightarrow> bool" where
  "vm_live vm \<longleftrightarrow> vm_State vm = VMRunning \<or> vm_State vm = VMStarting"

definition established_rule :: nft_rule where
  "established_rule = fwd [CtEstablished] Accept"

text \<open>Guests may only use their own address, or an address of their bridge's network.\<close>

definition spoof_rule :: "string \<Rightarrow> string \<Rightarrow> nft_rule" where
  "spoof_rule netDev addr = fwd [IifName netDev, SAddrNot addr] Drop"

definition vm_base_rules :: "config \<Rightarrow> string \<Rightarrow> string \<Rightarrow> vm \<Rightarrow> nft_rule list" where
  "vm_base_rules c lan netDev vm =
     [\<lparr>r_chain = CInput, r_matches = [IifName netDev, SAddr (vm_GuestIP vm), DAddr (vm_HostIP vm),
         DPort ''tcp'' (Itoa (MetadataPort (Server c)))], r_verdict = Accept\<rparr>,
      \<lparr>r_chain = CPrerouting, r_matches = [IifName lan, DPort ''tcp'' (Itoa (vm_SSHPort vm))],
         r_verdict = Dnat (vm_GuestIP vm) 22\<rparr>,
      fwd [IifName lan, OifName netDev, DPort ''tcp'' ''22'', DAddr (vm_GuestIP vm)] Accept,
      \<lparr>r_chain = CPostrouting, r_matches = [SAddr (vm_GuestIP vm), OifName lan], r_verdict = Masquerade\<rparr>]"

definition protected_cidrs :: "config \<Rightarrow> string list" where
  "protected_cidrs c =
     (let protected = ProtectedHostCIDRs (NetworkCfg c)
      in if length protected = 0 then [''127.0.0.0/8'', ''169.254.169.254/32''] else protected)"

definition protected_rule :: "vm \<Rightarrow> string \<Rightarrow> nft_rule" where
  "protected_rule vm cidr = fwd [SAddr (vm_GuestIP vm), DAddr cidr] Drop"

definition ingress_rules_for :: "string \<Rightarrow> string \<Rightarrow> vm \<Rightarrow> ingress_rule \<Rightarrow> nft_rule list" where
  "ingress_rules_for lan netDev vm rule =
     [\<lparr>r_chain = CPrerouting, r_matches = [IifName lan, DPort (ing_Protocol rule) (Itoa (ing_HostPort rule))],
         r_verdict = Dnat (vm_GuestIP vm) (ing_GuestPort rule)\<rparr>,
      fwd [IifName lan, OifName netDev, DPort (ing_Protocol rule) (Itoa (ing_GuestPort rule)),
           DAddr (vm_GuestIP vm)] Accept]"

definition egress_rule :: "vm \<Rightarrow> string \<Rightarrow> nft_match list \<Rightarrow> nft_verdict \<Rightarrow> nft_rule" where
  "egress_rule vm lan ms v = fwd ([SAddr (vm_GuestIP vm), OifName lan] @ ms) v"

definition egress_rules :: "vm \<Rightarrow> string \<Rightarrow> string \<Rightarrow> string \<Rightarrow> string \<Rightarrow> string \<Rightarrow> err + nft_rule list" where
  "egress_rules vm lan policyMode tcpPorts udpPorts cidrs =
     (if policyMode = ''allow_all'' \<or> policyMode = '''' then Inr [egress_rule vm lan [] Accept]
      else if policyMode = ''deny_all'' then Inr [egress_rule vm lan [] Drop]
      else if policyMode = ''restricted'' then
        Inr (map (\<lambda>p. egress_rule vm lan [DPort ''tcp'' p] Accept) (splitCSV tcpPorts) @
             map (\<lambda>p. egress_rule vm lan [DPort ''udp'' p] Accept) (splitCSV udpPorts) @
             map (\<lambda>a. egress_rule vm lan [DAddr a] Accept) (splitCSV cidrs) @
             [egress_rule vm lan [] Drop])
      else Inl (PlainError (''unsupported egress mode '' @ Quote policyMode)))"

definition egressNFTRules :: "vm \<Rightarrow> string \<Rightarrow> nft_rule list io" where
  "egressNFTRules vm lan =
     (if vm_EgressPolicyID vm \<noteq> '''' then
        bindE (store_GetEgressPolicy (vm_EgressPolicyID vm)) (\<lambda>found. case found of
            None \<Rightarrow> throwE (PlainError (''egress policy not found for VM '' @ vm_Name vm))
          | Some p \<Rightarrow> liftE (egress_rules vm lan (ep_Mode p) (ep_TCPPorts p) (ep_UDPPorts p) (ep_CIDRs p)))
      else liftE (egress_rules vm lan (vm_EgressMode vm) '''' '''' ''''))"

section \<open>\<open>applyNFT\<close>\<close>

definition nft_chains :: "string list" where
  "nft_chains =
     [''add chain ip bap_web input { type filter hook input priority -100; policy accept; }'',
      ''add chain ip bap_web prerouting { type nat hook prerouting priority dstnat; policy accept; }'',
      ''add chain ip bap_web postrouting { type nat hook postrouting priority srcnat; policy accept; }'',
      ''add chain ip bap_web forward { type filter hook forward priority filter; policy accept; }'']"

definition chain_command :: "string \<Rightarrow> string" where
  "chain_command c = ''nft '' @ [CHR 0x27] @ c @ [CHR 0x27]"

definition addRule :: "nft_rule \<Rightarrow> unit io" where
  "addRule r = runShell (rule_text r)"

text \<open>The start of the loop body: the VM's device, with the anti-spoofing rule.\<close>

definition nft_device :: "(string \<times> network) list \<Rightarrow> vm \<Rightarrow> (string \<times> (string \<times> network) list) io" where
  "nft_device shared vm =
     (if vm_NetworkMode vm = ''shared_bridge'' then
        (case map_of shared (vm_NetworkID vm) of
           Some n \<Rightarrow> returnE (bridgeName (nw_ID n), shared)
         | None \<Rightarrow>
             bindE (store_GetNetwork (vm_NetworkID vm)) (\<lambda>found. case found of
                 None \<Rightarrow> throwE (PlainError (''network not found for VM '' @ vm_Name vm))
               | Some n \<Rightarrow>
                   seqE (addRule (spoof_rule (bridgeName (nw_ID n)) (nw_CIDR n)))
                     (returnE (bridgeName (nw_ID n), (vm_NetworkID vm, n) # shared))))
      else seqE (addRule (spoof_rule (vm_TapName vm) (vm_GuestIP vm)))
             (returnE (vm_TapName vm, shared)))"

definition nft_vm :: "string \<Rightarrow> (string \<times> network) list \<Rightarrow> vm \<Rightarrow> (string \<times> network) list io" where
  "nft_vm lan shared vm =
     (if \<not> vm_live vm then returnE shared
      else bindE (nft_device shared vm) (\<lambda>(netDev, shared').
           bindE (config_get (\<lambda>c. vm_base_rules c lan netDev vm @ map (protected_rule vm) (protected_cidrs c))) (\<lambda>base.
           bindE (store_ListIngressRules (vm_ID vm)) (\<lambda>ingress.
           bindE (egressNFTRules vm lan) (\<lambda>egress.
             seqE (forE (base @ concat (map (ingress_rules_for lan netDev vm) ingress) @ egress) addRule)
               (returnE shared'))))))"

definition firewalld_rule :: "config \<Rightarrow> vm \<Rightarrow> string" where
  "firewalld_rule c vm =
     ''rule family='' @ quoted ''ipv4'' @ '' source address='' @ quoted (vm_GuestIP vm) @
     '' destination address='' @ quoted (vm_HostIP vm) @ '' port port='' @
     quoted (Itoa (MetadataPort (Server c))) @ '' protocol='' @ quoted ''tcp'' @ '' accept''"

definition applyFirewalldMetadata :: "vm list \<Rightarrow> unit io" where
  "applyFirewalldMetadata machines =
     bindE (errorOf (commandOK ''firewall-cmd'' [''--state''])) (\<lambda>err.
       if err \<noteq> None then returnE ()
       else forE machines (\<lambda>vm.
         if \<not> vm_live vm then returnE ()
         else bindE (config_get (\<lambda>c. firewalld_rule c vm)) (\<lambda>rule.
              bindE (errorOf (run ''firewall-cmd'' [''--add-rich-rule'', rule])) (\<lambda>e. case e of
                  None \<Rightarrow> returnE ()
                | Some e \<Rightarrow> failIf (\<not> Contains (err_text e) ''ALREADY_ENABLED'') e))))"

definition applyNFT :: "unit io" where
  "applyNFT =
     bindE store_ListVMs (\<lambda>machines.
     seqE (ignoreE (run ''nft'' [''delete'', ''table'', ''ip'', ''bap_web'']))
    (seqE (run ''nft'' [''add'', ''table'', ''ip'', ''bap_web''])
    (seqE (forE nft_chains (\<lambda>c. runShell (chain_command c)))
    (seqE (addRule established_rule)
    (bindE defaultIF (\<lambda>lan.
     bindE (foldE (nft_vm lan) [] machines) (\<lambda>_.
       applyFirewalldMetadata machines)))))))"

section \<open>It leaves the database alone\<close>

lemma ro_GetNetwork [ro]: "ro_io (store_GetNetwork i)" unfolding store_GetNetwork_def by (intro ro)
lemma ro_GetEgressPolicy [ro]: "ro_io (store_GetEgressPolicy i)" unfolding store_GetEgressPolicy_def by (intro ro)
lemma ro_ListIngressRules [ro]: "ro_io (store_ListIngressRules i)" unfolding store_ListIngressRules_def by (intro ro)
lemma ro_ListVMs [ro]: "ro_io store_ListVMs" unfolding store_ListVMs_def by (intro ro)
lemma ro_addRule [ro]: "ro_io (addRule r)" unfolding addRule_def by (intro ro)
lemma ro_egressNFTRules [ro]: "ro_io (egressNFTRules vm lan)" unfolding egressNFTRules_def by (intro ro)
lemma ro_nft_device [ro]: "ro_io (nft_device shared vm)" unfolding nft_device_def by (intro ro)
lemma ro_nft_vm [ro]: "ro_io (nft_vm lan shared vm)" unfolding nft_vm_def by (intro ro)
lemma ro_applyFirewalldMetadata [ro]: "ro_io (applyFirewalldMetadata machines)"
  unfolding applyFirewalldMetadata_def by (intro ro)
lemma ro_applyNFT [ro]: "ro_io applyNFT" unfolding applyNFT_def by (intro ro)

section \<open>The rules as a function of the database\<close>

definition listed_vms :: "db \<Rightarrow> vm list" where
  "listed_vms d = order_desc (by_created vm_CreatedAt) (vms d)"

definition ingress_of :: "db \<Rightarrow> vm \<Rightarrow> ingress_rule list" where
  "ingress_of d vm = order_asc ing_HostPort (filter (\<lambda>r. ing_VMID r = vm_ID vm) (ingress_rules d))"

definition network_of :: "db \<Rightarrow> vm \<Rightarrow> network option" where
  "network_of d vm = find (\<lambda>n. nw_ID n = vm_NetworkID vm) (networks d)"

definition egress_of :: "db \<Rightarrow> string \<Rightarrow> vm \<Rightarrow> nft_rule list option" where
  "egress_of d lan vm =
     (case (if vm_EgressPolicyID vm \<noteq> '''' then
              (case find (\<lambda>p. ep_ID p = vm_EgressPolicyID vm) (egress_policies d) of
                 None \<Rightarrow> Inl (PlainError '''')
               | Some p \<Rightarrow> egress_rules vm lan (ep_Mode p) (ep_TCPPorts p) (ep_UDPPorts p) (ep_CIDRs p))
            else egress_rules vm lan (vm_EgressMode vm) '''' '''' '''')
      of Inl _ \<Rightarrow> None | Inr rs \<Rightarrow> Some rs)"

lemma egressNFTRules_run:
  "egressNFTRules vm lan w = (Inr rs, w') \<Longrightarrow> egress_of (database w) lan vm = Some rs"
  by (auto simp: egressNFTRules_def egress_of_def store_GetEgressPolicy_def io_run dest!: query_db
      split: if_splits sum.splits option.splits)

text \<open>The device of a live VM and the anti-spoofing rule it adds, given the networks seen before.\<close>

definition device_of :: "db \<Rightarrow> string list \<Rightarrow> vm \<Rightarrow> (string \<times> nft_rule list \<times> string list) option" where
  "device_of d seen vm =
     (if vm_NetworkMode vm = ''shared_bridge'' then
        (case network_of d vm of
           None \<Rightarrow> None
         | Some n \<Rightarrow> Some (bridgeName (nw_ID n),
             (if vm_NetworkID vm \<in> set seen then [] else [spoof_rule (bridgeName (nw_ID n)) (nw_CIDR n)]),
             (if vm_NetworkID vm \<in> set seen then seen else vm_NetworkID vm # seen)))
      else Some (vm_TapName vm, [spoof_rule (vm_TapName vm) (vm_GuestIP vm)], seen))"

definition vm_block :: "config \<Rightarrow> db \<Rightarrow> string \<Rightarrow> string \<Rightarrow> vm \<Rightarrow> nft_rule list \<Rightarrow> nft_rule list" where
  "vm_block c d lan netDev vm egress =
     vm_base_rules c lan netDev vm @ map (protected_rule vm) (protected_cidrs c) @
     concat (map (ingress_rules_for lan netDev vm) (ingress_of d vm)) @ egress"

fun rules_from :: "config \<Rightarrow> db \<Rightarrow> string \<Rightarrow> string list \<Rightarrow> vm list \<Rightarrow> nft_rule list option" where
  "rules_from c d lan seen [] = Some []"
| "rules_from c d lan seen (vm # rest) =
     (if \<not> vm_live vm then rules_from c d lan seen rest
      else case device_of d seen vm of
          None \<Rightarrow> None
        | Some (netDev, spoof, seen') \<Rightarrow>
            (case egress_of d lan vm of
               None \<Rightarrow> None
             | Some egress \<Rightarrow>
                 map_option (\<lambda>rs. spoof @ vm_block c d lan netDev vm egress @ rs) (rules_from c d lan seen' rest)))"

definition ruleset :: "config \<Rightarrow> db \<Rightarrow> string \<Rightarrow> nft_rule list option" where
  "ruleset c d lan = map_option (\<lambda>rs. established_rule # rs) (rules_from c d lan [] (listed_vms d))"

section \<open>The commands of a run\<close>

text \<open>The shell commands of a trail, the earliest first.\<close>

fun shell_command :: "effect \<Rightarrow> string option" where
  "shell_command (Exec p [a, c]) = (if p = ''bash'' \<and> a = ''-lc'' then Some c else None)"
| "shell_command _ = None"

definition shell_log :: "effect list \<Rightarrow> string list" where
  "shell_log t = List.map_filter shell_command (rev t)"

lemma shell_log_Cons: "shell_log (e # t) = shell_log t @ (case shell_command e of None \<Rightarrow> [] | Some c \<Rightarrow> [c])"
  by (simp add: shell_log_def List.map_filter_def split: option.splits)

definition quiet :: "'a io \<Rightarrow> bool" where
  "quiet m \<longleftrightarrow> (\<forall>w. shell_log (trail (snd (m w))) = shell_log (trail w))"

lemma quietI: "(\<And>w r w'. m w = (r, w') \<Longrightarrow> shell_log (trail w') = shell_log (trail w)) \<Longrightarrow> quiet m"
  unfolding quiet_def by (metis prod.collapse)

lemma quietD: "quiet m \<Longrightarrow> m w = (r, w') \<Longrightarrow> shell_log (trail w') = shell_log (trail w)"
  unfolding quiet_def by (metis snd_conv)

lemma quiet_ask: "shell_command e = None \<Longrightarrow> quiet (ask e)"
  by (simp add: quiet_def ask_def shell_log_Cons)

lemma quiet_return: "quiet (returnE x)" by (simp add: quiet_def returnE_def)
lemma quiet_throw: "quiet (throwE e)" by (simp add: quiet_def throwE_def)
lemma quiet_lift: "quiet (liftE r)" by (simp add: quiet_def liftE_def)
lemma quiet_gets: "quiet (getsW f)" by (simp add: quiet_def getsW_def)
lemma quiet_config: "quiet (config_get f)" by (simp add: config_get_def quiet_gets)

lemma quiet_bind: "quiet m \<Longrightarrow> (\<And>x. quiet (f x)) \<Longrightarrow> quiet (bindE m f)"
proof (rule quietI)
  fix w r w'
  assume m: "quiet m" and f: "\<And>x. quiet (f x)" and "bindE m f w = (r, w')"
  then show "shell_log (trail w') = shell_log (trail w)"
    by (cases r) (auto simp: io_run dest!: quietD [OF m] quietD [OF f])
qed

lemma quiet_seq: "quiet m \<Longrightarrow> quiet n \<Longrightarrow> quiet (seqE m n)"
  unfolding seqE_def by (rule quiet_bind)

lemma quiet_try: "quiet m \<Longrightarrow> quiet (tryE m)"
  by (rule quietI) (auto simp: io_run dest: quietD)

lemma quiet_ignore: "quiet m \<Longrightarrow> quiet (ignoreE m)"
  unfolding ignoreE_def by (intro quiet_bind quiet_try quiet_return)

lemma quiet_errorOf: "quiet m \<Longrightarrow> quiet (errorOf m)"
  unfolding errorOf_def by (intro quiet_bind quiet_try quiet_return)

lemma quiet_for: "(\<And>x. quiet (f x)) \<Longrightarrow> quiet (forE xs f)"
  by (induction xs) (auto intro: quiet_return quiet_seq)

lemma quiet_failIf: "quiet (failIf b e)" by (simp add: failIf_def quiet_return quiet_throw)

lemma quiet_if: "quiet m \<Longrightarrow> quiet n \<Longrightarrow> quiet (if b then m else n)" by simp

lemma quiet_option: "quiet m \<Longrightarrow> (\<And>x. quiet (f x)) \<Longrightarrow> quiet (case r of None \<Rightarrow> m | Some x \<Rightarrow> f x)"
  by (cases r) auto

lemma quiet_perform: "shell_command e = None \<Longrightarrow> quiet (perform e)"
  unfolding perform_def
  by (intro quiet_bind quiet_ask) (auto intro: quiet_return quiet_throw split: reply.splits)

lemma quiet_query: "quiet (query q f)"
  unfolding query_def by (intro quiet_seq quiet_perform quiet_gets) simp

lemma shell_command_other: "name \<noteq> ''bash'' \<Longrightarrow> shell_command (Exec name args) = None"
  by (induction "Exec name args" rule: shell_command.induct) auto

lemma quiet_run: "name \<noteq> ''bash'' \<Longrightarrow> quiet (run name args)"
  unfolding run_def
  by (intro quiet_bind quiet_ask shell_command_other)
    (auto intro: quiet_return quiet_throw split: reply.splits)

lemmas quiet_rules = quiet_return quiet_throw quiet_lift quiet_config quiet_bind quiet_seq quiet_try
  quiet_ignore quiet_errorOf quiet_for quiet_failIf quiet_if quiet_option quiet_query quiet_run

text \<open>What a successful run adds to the shell's log.\<close>

definition emits :: "'a io \<Rightarrow> string list \<Rightarrow> bool" where
  "emits m cs \<longleftrightarrow> (\<forall>w x w'. m w = (Inr x, w') \<longrightarrow> shell_log (trail w') = shell_log (trail w) @ cs)"

lemma emitsD: "emits m cs \<Longrightarrow> m w = (Inr x, w') \<Longrightarrow> shell_log (trail w') = shell_log (trail w) @ cs"
  by (auto simp: emits_def)

lemma emits_quiet: "quiet m \<Longrightarrow> emits m []"
  by (auto simp: emits_def dest: quietD)

lemma emits_runShell: "emits (runShell c) [c]"
  by (auto simp: emits_def runShell_def io_run shell_log_Cons)

lemma emits_addRule: "emits (addRule r) [rule_text r]"
  unfolding addRule_def by (rule emits_runShell)

lemma emits_for:
  assumes e: "\<And>x. emits (f x) [g x]"
  shows "emits (forE xs f) (map g xs)"
proof (induction xs)
  case Nil
  show ?case by (simp add: emits_def io_run)
next
  case (Cons x xs)
  show ?case unfolding emits_def by (auto simp: io_run dest!: emitsD [OF e] emitsD [OF Cons.IH])
qed

lemma quiet_applyFirewalldMetadata: "quiet (applyFirewalldMetadata machines)"
  unfolding applyFirewalldMetadata_def commandOK_def by (intro quiet_rules) simp_all

lemma quiet_defaultIF: "quiet defaultIF"
  unfolding defaultIF_def by (intro quiet_rules quiet_perform) simp_all

lemma quiet_egressNFTRules: "quiet (egressNFTRules vm lan)"
  unfolding egressNFTRules_def store_GetEgressPolicy_def by (intro quiet_rules)

lemma quiet_ListIngressRules: "quiet (store_ListIngressRules i)"
  unfolding store_ListIngressRules_def by (intro quiet_rules)

lemma quiet_GetNetwork: "quiet (store_GetNetwork i)"
  unfolding store_GetNetwork_def by (intro quiet_rules)

text \<open>The map of the loop holds the rows of the networks seen.\<close>

definition seen_ok :: "db \<Rightarrow> (string \<times> network) list \<Rightarrow> string list \<Rightarrow> bool" where
  "seen_ok d shared seen \<longleftrightarrow> map fst shared = seen \<and>
     (\<forall>(i, n) \<in> set shared. find (\<lambda>m. nw_ID m = i) (networks d) = Some n)"

lemma seen_ok_lookup:
  "seen_ok d shared seen \<Longrightarrow> map_of shared i = (if i \<in> set seen then find (\<lambda>m. nw_ID m = i) (networks d) else None)"
proof (induction shared arbitrary: seen)
  case (Cons p shared)
  obtain j n where p: "p = (j, n)" by (cases p)
  have "seen_ok d shared (tl seen)" using Cons.prems by (auto simp: seen_ok_def)
  from Cons.IH [OF this] Cons.prems show ?case by (auto simp: seen_ok_def p)
qed (simp add: seen_ok_def)

lemma nft_device_run:
  assumes "nft_device shared vm w = (Inr (netDev, shared'), w')" "seen_ok (database w) shared seen"
  shows "\<exists>spoof seen'. device_of (database w) seen vm = Some (netDev, spoof, seen')
    \<and> seen_ok (database w) shared' seen' \<and> shell_log (trail w') = shell_log (trail w) @ map rule_text spoof"
proof (cases "vm_NetworkMode vm = ''shared_bridge''")
  case False
  then show ?thesis using assms
    by (auto simp: nft_device_def device_of_def io_run dest: emitsD [OF emits_addRule])
next
  case shared: True
  show ?thesis
  proof (cases "vm_NetworkID vm \<in> set seen")
    case True
    then obtain n where "map_of shared (vm_NetworkID vm) = Some n" "network_of (database w) vm = Some n"
    proof -
      have "map_of shared (vm_NetworkID vm) \<noteq> None"
        using True assms(2) by (auto simp: seen_ok_def map_of_eq_None_iff)
      then show thesis using that seen_ok_lookup [OF assms(2), of "vm_NetworkID vm"] True
        by (auto simp: network_of_def)
    qed
    then show ?thesis using assms shared True by (auto simp: nft_device_def device_of_def io_run)
  next
    case False
    then have "map_of shared (vm_NetworkID vm) = None" using seen_ok_lookup [OF assms(2)] by simp
    then obtain n v u where n: "store_GetNetwork (vm_NetworkID vm) w = (Inr (Some n), v)"
      "addRule (spoof_rule (bridgeName (nw_ID n)) (nw_CIDR n)) v = (Inr (), w')"
      "netDev = bridgeName (nw_ID n)" "shared' = (vm_NetworkID vm, n) # shared"
      using assms(1) shared by (auto simp: nft_device_def io_run)
    have f: "find (\<lambda>m. nw_ID m = vm_NetworkID vm) (networks (database w)) = Some n"
      using n(1) by (auto simp: store_GetNetwork_def dest!: query_db)
    then show ?thesis
      using n shared False assms(2) quietD [OF quiet_GetNetwork n(1)] emitsD [OF emits_addRule n(2)]
      by (auto simp: device_of_def network_of_def seen_ok_def)
  qed
qed

lemma nft_vm_run:
  assumes r: "nft_vm lan shared vm w = (Inr shared', w')" and s: "seen_ok (database w) shared seen" and l: "vm_live vm"
  shows "\<exists>netDev spoof seen' egress. device_of (database w) seen vm = Some (netDev, spoof, seen')
    \<and> egress_of (database w) lan vm = Some egress \<and> seen_ok (database w) shared' seen'
    \<and> shell_log (trail w') = shell_log (trail w) @ map rule_text (spoof @ vm_block (cfg w) (database w) lan netDev vm egress)"
proof -
  obtain netDev v ingress x egress y where
    d: "nft_device shared vm w = (Inr (netDev, shared'), v)"
    and i: "store_ListIngressRules (vm_ID vm) v = (Inr ingress, x)"
    and e: "egressNFTRules vm lan x = (Inr egress, y)"
    and f: "forE (vm_base_rules (cfg v) lan netDev vm @ map (protected_rule vm) (protected_cidrs (cfg v)) @
        concat (map (ingress_rules_for lan netDev vm) ingress) @ egress) addRule y = (Inr (), w')"
    using r l by (auto simp: nft_vm_def io_run)
  have v: "database v = database w" "cfg v = cfg w" using ro_ioD [OF ro_nft_device d] by simp_all
  have x: "database x = database w" "ingress = ingress_of (database w) vm"
    using i v by (auto simp: store_ListIngressRules_def ingress_of_def dest!: query_db)
  have eg: "egress_of (database w) lan vm = Some egress" using egressNFTRules_run [OF e] x by simp
  have "shell_log (trail w') = shell_log (trail v) @ map rule_text (vm_block (cfg w) (database w) lan netDev vm egress)"
    using quietD [OF quiet_ListIngressRules i] quietD [OF quiet_egressNFTRules e]
      emitsD [OF emits_for [OF emits_addRule] f] x v by (simp add: vm_block_def)
  then show ?thesis using nft_device_run [OF d s] eg by auto
qed

lemma nft_loop_run:
  assumes "foldE (nft_vm lan) shared machines w = (Inr shared', w')" "seen_ok (database w) shared seen"
  shows "\<exists>rs. rules_from (cfg w) (database w) lan seen machines = Some rs
    \<and> shell_log (trail w') = shell_log (trail w) @ map rule_text rs"
  using assms
proof (induction machines arbitrary: shared w seen)
  case (Cons vm rest)
  obtain s v where v: "nft_vm lan shared vm w = (Inr s, v)" "foldE (nft_vm lan) s rest v = (Inr shared', w')"
    using Cons.prems(1) by (auto simp: io_run)
  have d: "database v = database w" "cfg v = cfg w" using ro_ioD [OF ro_nft_vm v(1)] by simp_all
  show ?case
  proof (cases "vm_live vm")
    case False
    then show ?thesis using Cons v by (auto simp: nft_vm_def io_run)
  next
    case True
    obtain netDev spoof seen' egress where b: "device_of (database w) seen vm = Some (netDev, spoof, seen')"
      "egress_of (database w) lan vm = Some egress" "seen_ok (database w) s seen'"
      "shell_log (trail v) = shell_log (trail w) @ map rule_text (spoof @ vm_block (cfg w) (database w) lan netDev vm egress)"
      using nft_vm_run [OF v(1) Cons.prems(2) True] by blast
    have "\<exists>rs. rules_from (cfg v) (database v) lan seen' rest = Some rs
        \<and> shell_log (trail w') = shell_log (trail v) @ map rule_text rs"
      using Cons.IH [OF v(2)] b(3) d by simp
    then show ?thesis using True b d by auto
  qed
qed (simp add: io_run)

lemma applyNFT_log:
  assumes "applyNFT w = (Inr (), w')"
  shows "\<exists>lan rs. ruleset (cfg w) (database w) lan = Some rs \<and> database w' = database w
    \<and> shell_log (trail w') = shell_log (trail w) @ map chain_command nft_chains @ map rule_text rs"
proof -
  obtain machines w1 r2 w2 w3 w4 w5 lan w6 shared w7 where
    1: "store_ListVMs w = (Inr machines, w1)"
    and 2: "run ''nft'' [''delete'', ''table'', ''ip'', ''bap_web''] w1 = (r2, w2)"
    and 3: "run ''nft'' [''add'', ''table'', ''ip'', ''bap_web''] w2 = (Inr (), w3)"
    and 4: "forE nft_chains (\<lambda>c. runShell (chain_command c)) w3 = (Inr (), w4)"
    and 5: "addRule established_rule w4 = (Inr (), w5)"
    and 6: "defaultIF w5 = (Inr lan, w6)"
    and 7: "foldE (nft_vm lan) [] machines w6 = (Inr shared, w7)"
    and 8: "applyFirewalldMetadata machines w7 = (Inr (), w')"
    using assms by (auto simp: applyNFT_def ignoreE_def io_run)
  have d: "database w6 = database w" "cfg w6 = cfg w"
    using ro_ioD [OF ro_ListVMs 1] ro_ioD [OF ro_run 2] ro_ioD [OF ro_run 3]
      ro_ioD [OF ro_for [OF ro_runShell] 4] ro_ioD [OF ro_addRule 5] ro_ioD [OF ro_defaultIF 6] by simp_all
  have m: "machines = listed_vms (database w)"
    using 1 by (auto simp: store_ListVMs_def listed_vms_def dest!: query_db)
  have log1: "shell_log (trail w1) = shell_log (trail w)"
    using 1 by (auto simp: store_ListVMs_def dest: quietD [OF quiet_query])
  have log3: "shell_log (trail w3) = shell_log (trail w)"
    using log1 quietD [OF quiet_run 2] quietD [OF quiet_run 3] by simp
  have log6: "shell_log (trail w6) = shell_log (trail w) @ map chain_command nft_chains @ [rule_text established_rule]"
    using log3 emitsD [OF emits_for [OF emits_runShell] 4] emitsD [OF emits_addRule 5] quietD [OF quiet_defaultIF 6] by simp
  obtain rs where rs: "rules_from (cfg w) (database w) lan [] machines = Some rs"
    "shell_log (trail w7) = shell_log (trail w6) @ map rule_text rs"
    using nft_loop_run [OF 7, of "[]"] d by (auto simp: seen_ok_def)
  have "database w' = database w" using ro_ioD [OF ro_applyNFT assms] by simp
  moreover have "ruleset (cfg w) (database w) lan = Some (established_rule # rs)"
    using rs(1) m by (simp add: ruleset_def)
  moreover have "shell_log (trail w') = shell_log (trail w) @ map chain_command nft_chains @ map rule_text (established_rule # rs)"
    using rs(2) log6 quietD [OF quiet_applyFirewalldMetadata 8] by simp
  ultimately show ?thesis by blast
qed

text \<open>
  C10: a successful \<open>applyNFT\<close> issues exactly the commands of the abstract rule set of the database:
  the four chains, then the rules in their order; and it leaves the database as it was.
\<close>

theorem applyNFT_commands:
  assumes "applyNFT w = (Inr (), w')"
  shows "\<exists>lan rs. ruleset (cfg w) (database w) lan = Some rs \<and> database w' = database w
    \<and> shell_log (trail w') = shell_log (trail w) @ map chain_command nft_chains @ map rule_text rs"
  by (rule applyNFT_log [OF assms])

end
