(* ===== verification/Machine.thy ===== *)
theory Machine
  imports Guest Firewall
begin

text \<open>
  Running one VM: its TAP device and bridge (\<open>setupTap\<close>, \<open>ensureBridge\<close>), the jailed Firecracker
  process and its API socket (\<open>startFirecracker\<close>, \<open>waitSocket\<close>, \<open>firecrackerPut\<close>) and the cleanup
  after it (\<open>cleanupVMRuntime\<close>). \<open>waitSocket\<close> polls until a deadline of the clock; \<open>wait_loop_enough\<close>
  shows that its fuel suffices on every host whose clock does not go back and whose timers wait.
\<close>

section \<open>Network devices\<close>

definition ensureBridge :: "network \<Rightarrow> unit io" where
  "ensureBridge n =
     (let bridge = bridgeName (nw_ID n)
      in bindE (linkExists bridge) (\<lambda>there.
         seqE (whenE (\<not> there) (run ''ip'' [''link'', ''add'', bridge, ''type'', ''bridge'']))
         (seqE (ignoreE (run ''ip'' [''addr'', ''add'', nw_GatewayIP n @ ''/'' @ cidrPrefix (nw_CIDR n), ''dev'', bridge]))
           (run ''ip'' [''link'', ''set'', bridge, ''up'']))))"

definition setupTap :: "vm \<Rightarrow> unit io" where
  "setupTap vm =
     seqE (failIf (\<not> validIFName (vm_TapName vm))
       (PlainError (''tap_name '' @ Quote (vm_TapName vm) @ '' is invalid; Linux interface names must be 1-'' @
          show_nat maxLinuxIFNameLen @ '' bytes'')))
     (bindE (errorOf (run ''ip'' [''tuntap'', ''add'', ''dev'', vm_TapName vm, ''mode'', ''tap''])) (\<lambda>err.
      seqE (case err of None \<Rightarrow> returnE () | Some e \<Rightarrow> failIf (\<not> Contains (err_text e) ''File exists'') e)
     (seqE (ignoreE (run ''ip'' [''addr'', ''flush'', ''dev'', vm_TapName vm]))
       (if vm_NetworkMode vm = ''shared_bridge'' then
          bindE (store_GetNetwork (vm_NetworkID vm)) (\<lambda>found. case found of
              None \<Rightarrow> throwE (PlainError ''network not found'')
            | Some n \<Rightarrow>
                seqE (ensureBridge n)
                (seqE (run ''ip'' [''link'', ''set'', vm_TapName vm, ''master'', bridgeName (nw_ID n)])
                  (run ''ip'' [''link'', ''set'', vm_TapName vm, ''up''])))
        else seqE (run ''ip'' [''addr'', ''add'', vm_HostIP vm @ ''/'' @ Itoa (vm_CIDR vm), ''dev'', vm_TapName vm])
               (run ''ip'' [''link'', ''set'', vm_TapName vm, ''up''])))))"

section \<open>The Firecracker process\<close>

text \<open>\<open>None\<close> is the end of the fuel, which \<open>waitSocket\<close> reports like the deadline.\<close>

fun wait_loop :: "nat \<Rightarrow> time \<Rightarrow> string \<Rightarrow> bool option io" where
  "wait_loop 0 deadline sock = returnE None"
| "wait_loop (Suc n) deadline sock =
     bindE Now (\<lambda>now.
       if \<not> now < deadline then returnE (Some False)
       else bindE (stat sock) (\<lambda>st.
         if (case st of Found fi \<Rightarrow> fi_IsSocket fi | _ \<Rightarrow> False) then returnE (Some True)
         else seqE (do_effect (Sleep (100 * Millisecond))) (wait_loop n deadline sock)))"

definition wait_rounds :: nat where "wait_rounds = 151"

definition waitSocket :: "vm \<Rightarrow> unit io" where
  "waitSocket vm =
     bindE (config_get (\<lambda>c. socketPath c vm)) (\<lambda>sock.
     bindE Now (\<lambda>now.
     bindE (wait_loop wait_rounds (now + 15 * Second) sock) (\<lambda>r.
       failIf (r \<noteq> Some True) (PlainError (''Firecracker socket did not appear: '' @ sock)))))"

text \<open>A JSON object is given by its members in the order in which \<open>json.Marshal\<close> writes a map: by key.\<close>

definition firecrackerPut :: "vm \<Rightarrow> string \<Rightarrow> (string \<times> json) list \<Rightarrow> unit io" where
  "firecrackerPut vm path body =
     bindE (config_get (\<lambda>c. socketPath c vm)) (\<lambda>sock.
     bindE (ask (Http ''PUT'' sock path (sort_key fst body))) (\<lambda>r. case r of
         Response code status rb \<Rightarrow>
           failIf (code \<noteq> 204 \<and> code \<noteq> 200)
             (PlainError (''firecracker '' @ path @ '': '' @ status @ '': '' @ rb))
       | Fail m out \<Rightarrow> throwE (PlainError m)
       | Ok out \<Rightarrow> throwE (PlainError out)))"

definition firecrackerAction :: "vm \<Rightarrow> (string \<times> json) list \<Rightarrow> unit io" where
  "firecrackerAction vm body = firecrackerPut vm ''/actions'' body"

definition kernel_mount :: "config \<Rightarrow> vm \<Rightarrow> string" where
  "kernel_mount c vm = Join [chrootRoot c vm, ''var/lib/microvms/kernels'']"

definition rootfs_mount :: "config \<Rightarrow> vm \<Rightarrow> string" where
  "rootfs_mount c vm = Join [chrootRoot c vm, ''var/lib/microvms'', vm_Name vm]"

definition kill_vm :: "vm \<Rightarrow> unit io" where
  "kill_vm vm =
     seqE (ignoreE (run ''pkill'' [''-9'', ''-f'', process_pattern ''firecracker'' vm]))
          (ignoreE (run ''pkill'' [''-9'', ''-f'', process_pattern ''jailer'' vm]))"

definition jailer_args :: "config \<Rightarrow> vm \<Rightarrow> string list" where
  "jailer_args c vm =
     [''--id'', vm_Name vm, ''--exec-file'', FirecrackerBin (Paths c), ''--uid'', ''0'', ''--gid'', ''0'',
      ''--chroot-base-dir'', JailerBaseDir (Paths c), ''--'', ''--api-sock'', ''/firecracker.socket'',
      ''--log-path'', ''/firecracker.log'', ''--level'', ''Debug'']"

text \<open>The configuration of the machine over its API, in the order of the calls.\<close>

definition boot_machine :: "vm \<Rightarrow> unit io" where
  "boot_machine vm =
     seqE (firecrackerPut vm ''/machine-config''
        [(''vcpu_count'', JInt (vm_VCPUCount vm)), (''mem_size_mib'', JInt (vm_MemMiB vm)), (''smt'', JBool False)])
     (bindE (bootArgsForVM vm) (\<lambda>bootArgs.
      seqE (firecrackerPut vm ''/boot-source''
        [(''kernel_image_path'', JStr (vm_KernelPath vm)), (''boot_args'', JStr bootArgs)])
     (seqE (firecrackerPut vm ''/drives/rootfs''
        [(''drive_id'', JStr ''rootfs''), (''path_on_host'', JStr (vm_RootFSPath vm)),
         (''is_root_device'', JBool True), (''is_read_only'', JBool False)])
     (seqE (firecrackerPut vm ''/network-interfaces/eth0''
        [(''iface_id'', JStr ''eth0''), (''host_dev_name'', JStr (vm_TapName vm))])
       (firecrackerPut vm ''/actions'' [(''action_type'', JStr ''InstanceStart'')])))))"

definition startFirecracker :: "vm \<Rightarrow> unit io" where
  "startFirecracker vm =
     bindE (config_get (\<lambda>c. c)) (\<lambda>c.
       let logPath = Join [LogDir (Paths c), vm_Name vm @ ''.log'']
       in seqE (kill_vm vm)
         (seqE (ignoreE (run ''umount'' [kernel_mount c vm]))
         (seqE (ignoreE (run ''umount'' [rootfs_mount c vm]))
         (seqE (ignoreE (os_call ''RemoveAll'' [jailDir c vm]))
         (seqE (mkdirAll (LogDir (Paths c)) ''0755'')
         (seqE (os_call ''OpenFile'' [logPath, ''O_CREATE|O_TRUNC|O_WRONLY'', ''0600''])
         (deferE (ignoreE (os_call ''Close'' [logPath]))
           (seqE (do_effect (Spawn (JailerBin (Paths c)) (jailer_args c vm)))
           (seqE (waitSocket vm)
           (seqE (mkdirAll (kernel_mount c vm) ''0755'')
           (seqE (mkdirAll (rootfs_mount c vm) ''0755'')
           (seqE (run ''mount'' [''--bind'', KernelDir (Paths c), kernel_mount c vm])
           (seqE (run ''mount'' [''--bind'', Dir (vm_RootFSPath vm), rootfs_mount c vm])
             (boot_machine vm))))))))))))))"

definition cleanupVMRuntime :: "vm \<Rightarrow> unit io" where
  "cleanupVMRuntime vm =
     bindE (config_get (\<lambda>c. c)) (\<lambda>c.
     bindE (cleanup_steps
       [(''unmount kernels'', run ''umount'' [kernel_mount c vm]),
        (''unmount rootfs'', run ''umount'' [rootfs_mount c vm])]) (\<lambda>errs1.
     bindE (errorOf (os_call ''RemoveAll'' [jailDir c vm])) (\<lambda>rm.
     bindE (if vm_TapName vm \<noteq> '''' then cleanup_steps [(''cleanup tap'', cleanupTap (vm_TapName vm))]
            else returnE []) (\<lambda>errs2.
       joined_errors (errs1 @ (case rm of None \<Rightarrow> [] | Some e \<Rightarrow> [''remove jailer dir: '' @ err_text e]) @ errs2)))))"

section \<open>None of it changes the database\<close>

lemma ro_ensureBridge [ro]: "ro_io (ensureBridge n)" unfolding ensureBridge_def by (intro ro)
lemma ro_setupTap [ro]: "ro_io (setupTap vm)" unfolding setupTap_def by (intro ro)
lemma ro_wait_loop [ro]: "ro_io (wait_loop n deadline sock)"
  by (induction n) (auto intro!: ro)
lemma ro_waitSocket [ro]: "ro_io (waitSocket vm)" unfolding waitSocket_def by (intro ro)
lemma ro_firecrackerPut [ro]: "ro_io (firecrackerPut vm p b)" unfolding firecrackerPut_def by (intro ro)
lemma ro_firecrackerAction [ro]: "ro_io (firecrackerAction vm b)" unfolding firecrackerAction_def by (intro ro)
lemma ro_kill_vm [ro]: "ro_io (kill_vm vm)" unfolding kill_vm_def by (intro ro)
lemma ro_boot_machine [ro]: "ro_io (boot_machine vm)" unfolding boot_machine_def by (intro ro)
lemma ro_startFirecracker [ro]: "ro_io (startFirecracker vm)" unfolding startFirecracker_def by (intro ro)
lemma ro_cleanupVMRuntime [ro]: "ro_io (cleanupVMRuntime vm)"
  unfolding cleanupVMRuntime_def by (intro ro) (simp_all add: ro)

section \<open>Waiting ends\<close>

text \<open>A clock that does not go back, with timers that wait for their time.\<close>

definition steady :: "host \<Rightarrow> bool" where
  "steady h \<longleftrightarrow> (\<forall>t e. clock h t \<le> clock h (e # t)) \<and> (\<forall>t d. clock h t + d \<le> clock h (Sleep d # t))"

lemma do_effect_world: "do_effect e w = (r, w') \<Longrightarrow> w' = w\<lparr>trail := e # trail w\<rparr>"
  by (auto simp: do_effect_def perform_def seqE_def bindE_def ask_def returnE_def throwE_def
      split: reply.splits prod.splits sum.splits)

lemma wait_loop_step:
  "wait_loop (Suc n) deadline sock w =
     (if \<not> clock (host_of w) (trail w) < deadline then (Inr (Some False), w\<lparr>trail := Clock # trail w\<rparr>)
      else if (case stat_of (host_of w) (Clock # trail w) sock of Found fi \<Rightarrow> fi_IsSocket fi | _ \<Rightarrow> False)
      then (Inr (Some True), w\<lparr>trail := Stat sock # Clock # trail w\<rparr>)
      else seqE (do_effect (Sleep (100 * Millisecond))) (wait_loop n deadline sock) (w\<lparr>trail := Stat sock # Clock # trail w\<rparr>))"
  by (simp add: bindE_def Now_def stat_def returnE_def)

declare wait_loop.simps(2) [simp del]

text \<open>
  A loop that polls until a deadline: a round that goes on has paused. Its last parameter but the world is
  what it carries from round to round.
\<close>

locale polling =
  fixes loop :: "nat \<Rightarrow> time \<Rightarrow> 's \<Rightarrow> 'a io" and pause :: duration and exhausted :: 'a
  assumes round: "steady (host_of w) \<Longrightarrow> loop (Suc n) deadline s w = (Inr exhausted, w') \<Longrightarrow>
    clock (host_of w) (trail w) < deadline \<and> (\<exists>s' w1. host_of w1 = host_of w
      \<and> clock (host_of w) (trail w) + pause \<le> clock (host_of w) (trail w1) \<and> loop n deadline s' w1 = (Inr exhausted, w'))"
begin

lemma enough:
  "steady (host_of w) \<Longrightarrow> deadline \<le> clock (host_of w) (trail w) + int n * pause \<Longrightarrow>
    fst (loop (Suc n) deadline s w) \<noteq> Inr exhausted"
proof (induction n arbitrary: s w)
  case 0
  then show ?case using round [of w 0 deadline s] by (cases "loop (Suc 0) deadline s w") auto
next
  case (Suc n)
  show ?case
  proof
    assume "fst (loop (Suc (Suc n)) deadline s w) = Inr exhausted"
    then obtain s' w1 w' where "host_of w1 = host_of w" "loop (Suc n) deadline s' w1 = (Inr exhausted, w')"
      "clock (host_of w) (trail w) + pause \<le> clock (host_of w) (trail w1)"
      using round [OF Suc.prems(1)] by (metis prod.collapse)
    then show False using Suc.IH [of w1 s'] Suc.prems by (simp add: algebra_simps)
  qed
qed

end

text \<open>One round of the wait for the clock.\<close>

lemma steady_round:
  assumes "steady h" "t1 = e # Clock # t0"
  shows "clock h t0 + d \<le> clock h (Sleep d # t1)"
proof -
  have "clock h t0 \<le> clock h (Clock # t0)" "clock h (Clock # t0) \<le> clock h t1" "clock h t1 + d \<le> clock h (Sleep d # t1)"
    using assms by (simp_all add: steady_def)
  then show ?thesis by linarith
qed

interpretation socket: polling "\<lambda>n deadline sock. wait_loop n deadline sock" "100 * Millisecond" None
proof
  fix w n deadline sock w'
  assume s: "steady (host_of w)" and run: "wait_loop (Suc n) deadline sock w = (Inr None, w')"
  let ?w1 = "w\<lparr>trail := Stat sock # Clock # trail w\<rparr>"
  obtain u v where d: "do_effect (Sleep (100 * Millisecond)) ?w1 = (Inr u, v)" and l: "wait_loop n deadline sock v = (Inr None, w')"
    and c: "clock (host_of w) (trail w) < deadline"
    using run by (auto simp: wait_loop_step io_run split: if_splits)
  show "clock (host_of w) (trail w) < deadline \<and> (\<exists>sock' w1. host_of w1 = host_of w
      \<and> clock (host_of w) (trail w) + 100 * Millisecond \<le> clock (host_of w) (trail w1)
      \<and> wait_loop n deadline sock' w1 = (Inr None, w'))"
    using do_effect_world [OF d] steady_round [OF s refl, of "trail w" "100 * Millisecond" "Stat sock"] c l
    by (intro conjI exI [of _ sock] exI [of _ v]) simp_all
qed


text \<open>The socket is reported only when the host has one.\<close>

lemma wait_loop_found:
  "wait_loop n deadline sock w = (Inr (Some True), w') \<Longrightarrow>
    \<exists>t fi. stat_of (host_of w) t sock = Found fi \<and> fi_IsSocket fi"
proof (induction n arbitrary: w)
  case (Suc n)
  let ?w1 = "w\<lparr>trail := Stat sock # Clock # trail w\<rparr>"
  show ?case
  proof (cases "case stat_of (host_of w) (Clock # trail w) sock of Found fi \<Rightarrow> fi_IsSocket fi | _ \<Rightarrow> False")
    case True
    then show ?thesis by (auto split: stat_reply.splits)
  next
    case False
    then have "seqE (do_effect (Sleep (100 * Millisecond))) (wait_loop n deadline sock) ?w1 = (Inr (Some True), w')"
      using Suc.prems by (simp add: wait_loop_step split: if_splits)
    then obtain u v where "do_effect (Sleep (100 * Millisecond)) ?w1 = (Inr u, v)"
      "wait_loop n deadline sock v = (Inr (Some True), w')" by (auto simp: io_run)
    then show ?thesis using Suc.IH [of v] do_effect_world by fastforce
  qed
qed (simp add: io_run)

end
