(* ===== verification/Lifecycle.thy ===== *)
theory Lifecycle
  imports Machine
begin

text \<open>
  The operations on VMs, networks, egress policies and ingress rules of
  \<open>internal/lifecycle/service.go\<close>, each the whole Go function with its early returns. The theory
  \<open>Plan\<close> proves what they keep.
\<close>

section \<open>Requests\<close>

record create_request =
  cr_Name :: string
  cr_VCPUCount :: int
  cr_MemMiB :: int
  cr_SSHPort :: int
  cr_DevUser :: string
  cr_SSHKeyID :: string
  cr_ExtraAuthorizedKeys :: string
  cr_RepoURL :: string
  cr_GitRef :: string
  cr_EgressMode :: string
  cr_EgressPolicyID :: string
  cr_NetworkMode :: string
  cr_NetworkID :: string
  cr_BaseImageID :: string
  cr_RootFSSizeMiB :: int
  cr_KernelID :: string
  cr_AllowPendingKernel :: bool

text \<open>\<open>store.GetVM\<close> with the error that every operation reports for an unknown VM.\<close>

definition require_vm :: "string \<Rightarrow> vm io" where
  "require_vm vid =
     bindE (store_GetVM vid) (\<lambda>found. case found of
         None \<Rightarrow> throwE (NotFound ''VM not found'') | Some vm \<Rightarrow> returnE vm)"

lemma ro_require_vm [ro]: "ro_io (require_vm vid)"
  unfolding require_vm_def store_GetVM_def by (intro ro)

definition failVM :: "vm \<Rightarrow> err \<Rightarrow> 'a io" where
  "failVM vm e =
     bindE Now (\<lambda>now.
       seqE (ignoreE (store_UpdateVM (vm\<lparr>vm_State := VMError, vm_LastError := err_text e, vm_UpdatedAt := now\<rparr>)))
         (throwE e))"

definition ensureTapName :: "vm \<Rightarrow> vm io" where
  "ensureTapName vm =
     (if validIFName (vm_TapName vm) then returnE vm
      else if vm_live vm
      then throwE (PlainError (''running VM has invalid tap_name '' @ Quote (vm_TapName vm)))
      else let vm' = vm\<lparr>vm_TapName := tapNameForID (vm_ID vm)\<rparr>
           in seqE (store_UpdateVM vm') (returnE vm'))"

section \<open>Creating a VM\<close>

definition valid_resources :: "int \<Rightarrow> int \<Rightarrow> unit io" where
  "valid_resources vcpu mem =
     seqE (failIf (vcpu \<le> 0 \<or> 32 < vcpu)
             (Invalid ''VM resource request is invalid'' [(''vcpu_count'', ''must be between 1 and 32'')]))
          (failIf (mem < 128 \<or> 262144 < mem)
             (Invalid ''VM resource request is invalid'' [(''mem_mib'', ''must be between 128 and 262144'')]))"

text \<open>The first part of \<open>CreateVM\<close>: the request with its defaults.\<close>

definition create_egress :: "create_request \<Rightarrow> create_request io" where
  "create_egress req =
     (if cr_EgressPolicyID req \<noteq> '''' then
        bindE (store_GetEgressPolicy (cr_EgressPolicyID req)) (\<lambda>found. case found of
            None \<Rightarrow> throwE (NotFound ''egress_policy_id does not exist'')
          | Some p \<Rightarrow> returnE (req\<lparr>cr_EgressMode := ep_Mode p\<rparr>))
      else if cr_EgressMode req \<noteq> ''allow_all'' \<and> cr_EgressMode req \<noteq> ''deny_all''
      then throwE (Invalid ''Egress mode is invalid''
             [(''egress_mode'', ''must be allow_all or deny_all unless egress_policy_id is set'')])
      else returnE req)"

definition create_defaults :: "create_request \<Rightarrow> create_request io" where
  "create_defaults req0 =
     (let req = req0\<lparr>cr_Name := TrimSpace (cr_Name req0)\<rparr>
      in seqE (failIf (\<not> MatchString nameRe (cr_Name req))
               (Invalid ''VM name is invalid'' [(''name'', ''must match '' @ nameRe_text)]))
        (seqE (valid_resources (cr_VCPUCount req) (cr_MemMiB req))
        (bindE (liftE (normalizeDevUser (cr_DevUser req))) (\<lambda>devUser.
         bindE (config_get (\<lambda>c. DefaultNetworkMode (NetworkCfg c))) (\<lambda>defaultMode.
           let req = req\<lparr>cr_DevUser := devUser,
                 cr_GitRef := (if cr_GitRef req = '''' then ''HEAD'' else cr_GitRef req),
                 cr_EgressMode := (if cr_EgressMode req = '''' then ''allow_all'' else cr_EgressMode req),
                 cr_NetworkMode := (if cr_NetworkMode req = '''' then defaultMode else cr_NetworkMode req)\<rparr>
           in seqE (failIf (cr_NetworkMode req \<noteq> ''routed_ptp'' \<and> cr_NetworkMode req \<noteq> ''shared_bridge'')
                (Invalid ''Network mode is invalid'' [(''network_mode'', ''must be routed_ptp or shared_bridge'')]))
              (create_egress req))))))"

definition create_primary_key :: "create_request \<Rightarrow> string io" where
  "create_primary_key req =
     (if cr_SSHKeyID req \<noteq> '''' then
        bindE (store_GetSSHKey (cr_SSHKeyID req)) (\<lambda>found. case found of
            None \<Rightarrow> throwE (NotFound ''ssh_key_id does not exist'')
          | Some key \<Rightarrow> returnE (key_PublicKey key))
      else if TrimSpace (cr_ExtraAuthorizedKeys req) = ''''
      then throwE (Unprocessable ''Select an SSH key or paste at least one authorized public key.''
             [(''ssh_key_id'', ''select a reusable SSH key or leave blank only when extra_authorized_keys is set''),
              (''extra_authorized_keys'', ''required when no SSH key is selected'')])
      else returnE '''')"

definition new_vm ::
  "create_request \<Rightarrow> string \<Rightarrow> int \<Rightarrow> string \<times> string \<times> int \<Rightarrow> kernel \<Rightarrow> base_image \<times> int \<Rightarrow> string \<Rightarrow> string \<Rightarrow> time \<Rightarrow> vm"
where
  "new_vm req vid port addr krn img rootfsPath primaryKey now =
     \<lparr>vm_ID = vid, vm_Name = cr_Name req, vm_State = VMStopped, vm_VCPUCount = cr_VCPUCount req,
      vm_MemMiB = cr_MemMiB req, vm_SSHPort = port, vm_TapName = tapNameForID vid, vm_HostIP = fst addr,
      vm_GuestIP = fst (snd addr), vm_CIDR = snd (snd addr), vm_KernelPath = krn_Path krn,
      vm_KernelID = krn_ID krn, vm_RootFSPath = rootfsPath, vm_BaseRootFSPath = img_Path (fst img),
      vm_BaseImageID = img_ID (fst img), vm_RootFSSizeMiB = snd img, vm_DevUser = cr_DevUser req,
      vm_SSHKeyID = cr_SSHKeyID req, vm_ManagedSSHPublicKey = primaryKey,
      vm_ManagedSSHPrivateKeyPath = '''', vm_ExtraAuthorizedKeys = TrimSpace (cr_ExtraAuthorizedKeys req),
      vm_RepoURL = TrimSpace (cr_RepoURL req), vm_GitRef = cr_GitRef req, vm_EgressMode = cr_EgressMode req,
      vm_EgressPolicyID = cr_EgressPolicyID req, vm_NetworkMode = cr_NetworkMode req,
      vm_NetworkID = cr_NetworkID req, vm_LastError = '''', vm_CreatedAt = now, vm_UpdatedAt = now,
      vm_LastStartedAt = None, vm_LastStoppedAt = None\<rparr>"

definition CreateVM :: "create_request \<Rightarrow> vm io" where
  "CreateVM req0 =
     bindE (create_defaults req0) (\<lambda>req.
     bindE (store_GetVMByName (cr_Name req)) (\<lambda>existing.
     seqE (failIf (existing \<noteq> None) (Conflict ''VM name already exists''))
    (bindE (resolveKernelForVM (cr_KernelID req) (cr_AllowPendingKernel req)) (\<lambda>krn.
     bindE (resolveBaseImageForVM (cr_BaseImageID req) (cr_RootFSSizeMiB req)) (\<lambda>img.
     bindE (create_primary_key req) (\<lambda>primaryKey.
     bindE (allocatePort (cr_SSHPort req)) (\<lambda>port.
     bindE (Hex 8) (\<lambda>vid.
     bindE (allocateNetwork (cr_NetworkMode req) (cr_NetworkID req)) (\<lambda>addr.
     bindE (config_get (\<lambda>c. ImageDir (Paths c))) (\<lambda>imageDir.
     bindE Now (\<lambda>now.
       let ext = (if img_Filesystem (fst img) = ''xfs'' then ''xfs'' else ''ext4'');
           rootfsPath = Join [imageDir, cr_Name req, ''rootfs.'' @ ext]
       in bindE (prepareRootFS (new_vm req vid port addr krn img rootfsPath primaryKey now)) (\<lambda>vm.
          seqE (store_CreateVM vm)
         (seqE (whenE (cr_SSHKeyID req \<noteq> '''') (ignoreE (store_TouchSSHKey (cr_SSHKeyID req))))
           (returnE vm))))))))))))))"

section \<open>Starting, stopping and deleting\<close>

definition StartVM :: "string \<Rightarrow> unit io" where
  "StartVM vid =
     bindE (require_vm vid) (\<lambda>vm0.
     bindE (ensureTapName vm0) (\<lambda>vm1.
     seqE (ensureVMNetworkUsable vm1)
    (bindE (if vm_State vm1 = VMRunning then processRunning vm1 else returnE False) (\<lambda>up.
       if up then returnE ()
       else bindE Now (\<lambda>now.
         let vm2 = vm1\<lparr>vm_State := VMStarting, vm_LastError := '''', vm_UpdatedAt := now\<rparr>
         in seqE (store_UpdateVM vm2)
           (bindE (errorOf (seqE (setupTap vm2) (seqE applyNFT (startFirecracker vm2)))) (\<lambda>err.
              case err of
                Some e \<Rightarrow> failVM vm2 e
              | None \<Rightarrow> bindE Now (\<lambda>now2.
                  store_UpdateVM (vm2\<lparr>vm_State := VMRunning, vm_LastStartedAt := Some now, vm_UpdatedAt := now2\<rparr>)))))))))"

definition StopVM :: "string \<Rightarrow> unit io" where
  "StopVM vid =
     bindE (require_vm vid) (\<lambda>vm0.
       let vm1 = vm0\<lparr>vm_State := VMStopping\<rparr>
       in seqE (ignoreE (store_UpdateVM vm1))
         (seqE (ignoreE (firecrackerAction vm1 [(''action_type'', JStr ''SendCtrlAltDel'')]))
         (bindE (ask (Sleep (2 * Second))) (\<lambda>_.
          seqE (kill_vm vm1)
         (bindE (errorOf (cleanupVMRuntime vm1)) (\<lambda>cleanupErr.
          bindE Now (\<lambda>now.
          seqE (store_UpdateVM (vm1\<lparr>vm_State := VMStopped, vm_LastStoppedAt := Some now, vm_UpdatedAt := now,
                  vm_LastError := lifecycleErrorString cleanupErr\<rparr>))
         (seqE applyNFT
           (case cleanupErr of None \<Rightarrow> returnE () | Some e \<Rightarrow> throwE e)))))))))"

definition DeleteVM :: "string \<Rightarrow> unit io" where
  "DeleteVM vid =
     bindE (require_vm vid) (\<lambda>vm.
     seqE (StopVM vid)
    (seqE (whenE (vm_RootFSPath vm \<noteq> '''')
             (seqE (ignoreE (removeFile (vm_RootFSPath vm))) (ignoreE (removeFile (Dir (vm_RootFSPath vm))))))
    (seqE (whenE (vm_ManagedSSHPrivateKeyPath vm \<noteq> '''')
             (seqE (ignoreE (removeFile (vm_ManagedSSHPrivateKeyPath vm)))
                   (ignoreE (removeFile (vm_ManagedSSHPrivateKeyPath vm @ ''.pub'')))))
      (store_DeleteVM vid))))"

definition UpdateResources :: "string \<Rightarrow> int \<Rightarrow> int \<Rightarrow> bool \<Rightarrow> vm option io" where
  "UpdateResources vid vcpuCount0 memMiB0 restart =
     bindE (require_vm vid) (\<lambda>vm0.
       let vcpuCount = (if vcpuCount0 \<le> 0 then vm_VCPUCount vm0 else vcpuCount0);
           memMiB = (if memMiB0 \<le> 0 then vm_MemMiB vm0 else memMiB0);
           running = vm_live vm0
       in seqE (valid_resources vcpuCount memMiB)
         (seqE (failIf (running \<and> \<not> restart)
            (Unprocessable ''VM must be stopped to update resources, or restart must be true''
               [(''restart'', ''select restart to update a running VM'')]))
         (bindE (if running then seqE (StopVM vid) (require_vm vid) else returnE vm0) (\<lambda>vm1.
          seqE (store_UpdateVM (vm1\<lparr>vm_VCPUCount := vcpuCount, vm_MemMiB := memMiB\<rparr>))
         (seqE (whenE running (StartVM vid)) (store_GetVM vid))))))"

definition RestartVM :: "string \<Rightarrow> int \<Rightarrow> int \<Rightarrow> vm option io" where
  "RestartVM vid vcpuCount memMiB =
     (let again = seqE (StopVM vid) (seqE (StartVM vid) (store_GetVM vid))
      in if 0 < vcpuCount \<or> 0 < memMiB then
           bindE (UpdateResources vid vcpuCount memMiB True) (\<lambda>found. case found of
               Some vm \<Rightarrow> if vm_State vm = VMRunning then returnE found else again
             | None \<Rightarrow> again)
         else again)"

text \<open>One VM of \<open>Reconcile\<close>; the pair is (\<open>changed\<close>, \<open>hasRunning\<close>).\<close>

definition reconcile_vm :: "bool \<times> bool \<Rightarrow> vm \<Rightarrow> (bool \<times> bool) io" where
  "reconcile_vm flags vm =
     (if vm_live vm \<or> vm_State vm = VMStopping then
        bindE (processRunning vm) (\<lambda>up.
          if up then returnE (fst flags, True)
          else bindE Now (\<lambda>now.
            bindE (errorOf (cleanupVMRuntime (vm\<lparr>vm_State := VMStopped, vm_LastStoppedAt := Some now, vm_UpdatedAt := now\<rparr>)))
              (\<lambda>err. seqE (store_UpdateVM (vm\<lparr>vm_State := VMStopped, vm_LastStoppedAt := Some now, vm_UpdatedAt := now,
                    vm_LastError := ''reconciled: Firecracker process not running'' @
                      (case err of None \<Rightarrow> '''' | Some e \<Rightarrow> ''; cleanup: '' @ err_text e)\<rparr>))
                (returnE (True, True)))))
      else returnE flags)"

definition Reconcile :: "unit io" where
  "Reconcile =
     bindE store_ListVMs (\<lambda>machines.
     bindE (foldE reconcile_vm (False, False) machines) (\<lambda>(changed, hasRunning).
       whenE (changed \<or> hasRunning) applyNFT))"

section \<open>Networks, policies and ingress rules\<close>

definition CreateNetwork :: "string \<Rightarrow> string \<Rightarrow> string \<Rightarrow> network io" where
  "CreateNetwork name0 cidr gatewayIP =
     (let name = TrimSpace name0
      in seqE (failIf (\<not> MatchString nameRe name)
               (Invalid ''Network name is invalid'' [(''name'', ''must match '' @ nameRe_text)]))
        (bindE (validateSharedNetwork cidr gatewayIP) (\<lambda>(normalizedCIDR, normalizedGateway).
         bindE Now (\<lambda>now.
         bindE (Hex 8) (\<lambda>nid.
           let n = \<lparr>nw_ID = nid, nw_Name = name, nw_CIDR = normalizedCIDR, nw_GatewayIP = normalizedGateway,
                    nw_CreatedAt = now, nw_UpdatedAt = now\<rparr>
           in seqE (store_CreateNetwork n) (returnE n))))))"

definition DeleteNetwork :: "string \<Rightarrow> unit io" where
  "DeleteNetwork nid =
     bindE (store_GetNetwork nid) (\<lambda>found. case found of
         None \<Rightarrow> throwE (NotFound ''network not found'')
       | Some n \<Rightarrow> seqE (store_DeleteNetwork nid) (cleanupBridge (bridgeName (nw_ID n))))"

definition CreateEgressPolicy :: "string \<Rightarrow> string \<Rightarrow> string \<Rightarrow> string \<Rightarrow> string \<Rightarrow> egress_policy io" where
  "CreateEgressPolicy name0 mode0 tcpPorts udpPorts cidrs =
     (let name = TrimSpace name0; mode = TrimSpace mode0
      in seqE (failIf (\<not> MatchString nameRe name)
               (Invalid ''Egress policy name is invalid'' [(''name'', ''must match '' @ nameRe_text)]))
        (bindE (liftE (validateEgressPolicy mode tcpPorts udpPorts cidrs)) (\<lambda>(tcp, udp, nets).
         bindE Now (\<lambda>now.
         bindE (Hex 8) (\<lambda>pid.
           let p = \<lparr>ep_ID = pid, ep_Name = name, ep_Mode = mode, ep_TCPPorts = tcp, ep_UDPPorts = udp,
                    ep_CIDRs = nets, ep_CreatedAt = now, ep_UpdatedAt = now\<rparr>
           in seqE (store_CreateEgressPolicy p) (returnE p))))))"

definition DeleteEgressPolicy :: "string \<Rightarrow> unit io" where
  "DeleteEgressPolicy pid = store_DeleteEgressPolicy pid"

definition SetVMEgressPolicy :: "string \<Rightarrow> string \<Rightarrow> string \<Rightarrow> vm option io" where
  "SetVMEgressPolicy vid mode0 policyID =
     bindE (require_vm vid) (\<lambda>vm0.
       let mode1 = TrimSpace mode0
       in bindE (if policyID \<noteq> '''' then
              bindE (store_GetEgressPolicy policyID) (\<lambda>found. case found of
                  None \<Rightarrow> throwE (NotFound ''egress policy not found'')
                | Some p \<Rightarrow> returnE (vm0\<lparr>vm_EgressMode := ep_Mode p, vm_EgressPolicyID := ep_ID p\<rparr>))
            else let mode = (if mode1 = '''' then ''allow_all'' else mode1)
                 in if mode \<noteq> ''allow_all'' \<and> mode \<noteq> ''deny_all''
                    then throwE (Invalid ''Egress mode is invalid''
                           [(''egress_mode'', ''must be allow_all or deny_all when no policy is selected'')])
                    else returnE (vm0\<lparr>vm_EgressMode := mode, vm_EgressPolicyID := ''''\<rparr>)) (\<lambda>vm.
          seqE (store_UpdateVM vm)
         (seqE (whenE (vm_live vm) applyNFT) (store_GetVM vid))))"

definition AddIngressRule :: "string \<Rightarrow> string \<Rightarrow> int \<Rightarrow> int \<Rightarrow> string \<Rightarrow> ingress_rule io" where
  "AddIngressRule vmID protocol0 hostPort guestPort description =
     bindE (require_vm vmID) (\<lambda>vm.
       let protocol = ToLower (TrimSpace protocol0)
       in seqE (failIf (protocol \<noteq> ''tcp'' \<and> protocol \<noteq> ''udp'')
               (Invalid ''Ingress rule is invalid'' [(''protocol'', ''must be tcp or udp'')]))
         (seqE (failIf (hostPort < 1 \<or> 65535 < hostPort \<or> guestPort < 1 \<or> 65535 < guestPort)
               (Invalid ''Ingress rule is invalid'' [(''host_port'', ''must be between 1 and 65535''),
                  (''guest_port'', ''must be between 1 and 65535'')]))
         (bindE store_UsedSSHPorts (\<lambda>sshPorts.
          bindE (if hostPort \<in> set sshPorts then returnE True else portOpen hostPort) (\<lambda>busy.
          seqE (failIf busy (Conflict ''host_port already in use''))
         (bindE (Hex 8) (\<lambda>rid.
          bindE Now (\<lambda>now.
            let rule = \<lparr>ing_ID = rid, ing_VMID = vm_ID vm, ing_Protocol = protocol, ing_HostPort = hostPort,
                  ing_GuestPort = guestPort, ing_Description = TrimSpace description, ing_CreatedAt = now\<rparr>
            in seqE (store_CreateIngressRule rule)
              (seqE (whenE (vm_live vm) applyNFT) (returnE rule))))))))))"

definition DeleteIngressRule :: "string \<Rightarrow> string \<Rightarrow> unit io" where
  "DeleteIngressRule vmID ruleID =
     bindE (require_vm vmID) (\<lambda>vm.
     seqE (store_DeleteIngressRule vmID ruleID) (whenE (vm_live vm) applyNFT))"

section \<open>Host status and orphans\<close>

record host_orphans =
  TAPs :: "string list"
  Bridges :: "string list"

definition HostOrphans :: "host_orphans io" where
  "HostOrphans =
     bindE store_ListVMs (\<lambda>machines.
     bindE store_ListNetworks (\<lambda>nets.
     bindE hostLinks (\<lambda>links.
       let activeTAPs = map vm_TapName (filter (\<lambda>v. vm_live v \<and> vm_TapName v \<noteq> '''') machines);
           activeBridges = map (\<lambda>n. bridgeName (nw_ID n)) nets
       in returnE \<lparr>TAPs = filter (\<lambda>l. HasPrefix l ''tap-'' \<and> l \<notin> set activeTAPs) links,
                   Bridges = filter (\<lambda>l. HasPrefix l ''br-bap-'' \<and> l \<notin> set activeBridges) links\<rparr>)))"

text \<open>The result has the orphans and the error, as the Go function returns both.\<close>

definition CleanupHostOrphans :: "(host_orphans \<times> err option) io" where
  "CleanupHostOrphans =
     bindE HostOrphans (\<lambda>orphans.
     bindE (cleanup_steps (map (\<lambda>t. (t, cleanupTap t)) (TAPs orphans))) (\<lambda>errs1.
     bindE (cleanup_steps (map (\<lambda>b. (b, cleanupBridge b)) (Bridges orphans))) (\<lambda>errs2.
     bindE (errorOf applyNFT) (\<lambda>nft.
       let errs = errs1 @ errs2 @ (case nft of None \<Rightarrow> [] | Some e \<Rightarrow> [''apply nftables: '' @ err_text e])
       in returnE (orphans, if errs \<noteq> [] then Some (PlainError (join ''; '' errs)) else None)))))"

text \<open>\<open>check(name, err)\<close>: the entry of one check.\<close>

definition check_entry :: "string \<Rightarrow> unit io \<Rightarrow> (string \<times> string) io" where
  "check_entry name m =
     bindE (errorOf m) (\<lambda>err. returnE (name, case err of Some e \<Rightarrow> err_text e | None \<Rightarrow> ''ok''))"

record host_status =
  hs_Checks :: "(string \<times> string) list"
  hs_Orphans :: host_orphans
  hs_NetworkConflicts :: "network_conflict list"

definition HostStatus :: "host_status io" where
  "HostStatus =
     bindE (config_get (\<lambda>c. Paths c)) (\<lambda>paths.
     bindE (mapE (\<lambda>(name, m). check_entry name m)
       [(''kvm'', requireFile ''/dev/kvm''),
        (''firecracker'', requireExecutable (FirecrackerBin paths)),
        (''jailer'', requireExecutable (JailerBin paths)),
        (''kernel'', bindE store_DefaultKernel (\<lambda>found. case found of
             None \<Rightarrow> throwE (PlainError ''no active kernel'')
           | Some krn \<Rightarrow> requireFile (krn_Path krn))),
        (''base_rootfs'', requireFile (BaseRootFS paths)),
        (''ip_forward'', commandOK ''sysctl'' [''net.ipv4.ip_forward'']),
        (''nftables'', commandOK ''nft'' [''list'', ''ruleset''])]) (\<lambda>checks.
     bindE (tryE HostOrphans) (\<lambda>scan.
     bindE (tryE NetworkConflicts) (\<lambda>found.
       let orphans = (case scan of Inr o1 \<Rightarrow> o1 | Inl _ \<Rightarrow> \<lparr>TAPs = [], Bridges = []\<rparr>);
           conflicts = (case found of Inr cs \<Rightarrow> cs | Inl _ \<Rightarrow> [])
       in returnE \<lparr>hs_Checks = checks @
              (case scan of Inl e \<Rightarrow> [(''orphan_scan'', err_text e)] | Inr _ \<Rightarrow> []) @
              (if TAPs orphans \<noteq> [] \<or> Bridges orphans \<noteq> []
               then [(''network_orphans'', show_nat (length (TAPs orphans)) @ '' TAP(s), '' @
                       show_nat (length (Bridges orphans)) @ '' bridge(s)'')] else []) @
              (case found of Inl e \<Rightarrow> [(''network_conflicts'', err_text e)]
               | Inr cs \<Rightarrow> if cs \<noteq> [] then [(''network_conflicts'', show_nat (length cs) @ '' conflict(s)'')] else []),
            hs_Orphans = orphans, hs_NetworkConflicts = conflicts\<rparr>))))"

text \<open>The lines that \<open>VMLogs\<close> keeps: the last \<open>n\<close> of the log, read line by line.\<close>

fun tail_lines :: "nat \<Rightarrow> string list \<Rightarrow> string list \<Rightarrow> string list" where
  "tail_lines n out [] = out"
| "tail_lines n out (l # ls) =
     tail_lines n (if length out = n then tl out @ [l] else out @ [l]) ls"

text \<open>
  \<open>ReadLines\<close> is the scanner over the opened file: it answers with the file's lines, each followed
  by a line feed, or fails with the scanner's error.
\<close>

definition VMLogs :: "vm \<Rightarrow> int \<Rightarrow> (string \<times> string list) io" where
  "VMLogs vm lines0 =
     bindE (config_get (\<lambda>c. Join [LogDir (Paths c), vm_Name vm @ ''.log''])) (\<lambda>path.
       let n = (if lines0 \<le> 0 \<or> 2000 < lines0 then 300 else nat lines0)
       in bindE (ask (Os ''Open'' [path])) (\<lambda>r. case r of
            Fail m out \<Rightarrow> if out = ''ENOENT'' then returnE (path, []) else throwE (PlainError m)
          | _ \<Rightarrow> bindE (perform (Os ''ReadLines'' [path])) (\<lambda>body.
                  returnE (path, tail_lines n [] (butlast (Split body (CHR 0x0A)))))))"

end
