(* ===== verification/Packets.thy ===== *)
theory Packets
  imports Firewall
begin

text \<open>
  The meaning of the rule set that \<open>applyNFT\<close> installs: a packet is decided by the first rule of the
  chain that matches it, and the chains' policy is to accept. The theorems say what the rules
  guarantee about forwarded packets of new connections: protected networks cannot be reached, a
  packet to the LAN needs the VM's egress policy, an address that no running VM has cannot be used,
  and a forwarded port reaches its VM.
\<close>

section \<open>Packets and rules\<close>

record packet =
  p_iif :: string
  p_oif :: string
  p_src :: u32
  p_dst :: u32
  p_proto :: string
  p_dport :: nat
  p_established :: bool

definition addr_matches :: "string \<Rightarrow> u32 \<Rightarrow> bool" where
  "addr_matches s a =
     (case ParseCIDR s of
        Inr (_, ipnet) \<Rightarrow> Net_Contains ipnet (uint32ToIP a)
      | Inl _ \<Rightarrow> (case ParseIP4 s of Some b \<Rightarrow> u32_of_bytes b = a | None \<Rightarrow> False))"

fun matches :: "packet \<Rightarrow> nft_match \<Rightarrow> bool" where
  "matches p (IifName n) = (p_iif p = n)"
| "matches p (OifName n) = (p_oif p = n)"
| "matches p (SAddr a) = addr_matches a (p_src p)"
| "matches p (SAddrNot a) = (\<not> addr_matches a (p_src p))"
| "matches p (DAddr a) = addr_matches a (p_dst p)"
| "matches p (DPort proto port) = (p_proto p = proto \<and> Atoi port = Inr (int (p_dport p)))"
| "matches p CtEstablished = p_established p"

definition rule_matches :: "nft_chain \<Rightarrow> packet \<Rightarrow> nft_rule \<Rightarrow> bool" where
  "rule_matches c p r = (r_chain r = c \<and> list_all (matches p) (r_matches r))"

definition forwarded :: "nft_rule list \<Rightarrow> packet \<Rightarrow> bool" where
  "forwarded rs p =
     (case find (rule_matches CForward p) rs of None \<Rightarrow> True | Some r \<Rightarrow> r_verdict r \<noteq> Drop)"

definition dnat_target :: "nft_rule list \<Rightarrow> packet \<Rightarrow> (string \<times> int) option" where
  "dnat_target rs p =
     (case find (rule_matches CPrerouting p) rs of
        Some r \<Rightarrow> (case r_verdict r of Dnat ip port \<Rightarrow> Some (ip, port) | _ \<Rightarrow> None)
      | None \<Rightarrow> None)"

text \<open>A packet that starts a connection and does not come from the LAN.\<close>

definition fresh_outbound :: "string \<Rightarrow> packet \<Rightarrow> bool" where
  "fresh_outbound lan p \<longleftrightarrow> p_iif p \<noteq> lan \<and> \<not> p_established p"

section \<open>Deciding a packet\<close>

lemma forwarded_drop:
  assumes "\<forall>q \<in> set pre. rule_matches CForward p q \<longrightarrow> r_verdict q = Drop"
    "rule_matches CForward p r" "r_verdict r = Drop"
  shows "\<not> forwarded (pre @ r # post) p"
  using assms(1)
proof (induction pre)
  case Nil
  then show ?case using assms(2,3) by (simp add: forwarded_def)
next
  case (Cons q pre)
  then show ?case by (cases "rule_matches CForward p q") (auto simp: forwarded_def)
qed

lemma addr_matches_text [simp]: "addr_matches (addr_text a) x \<longleftrightarrow> a = x"
proof -
  have "CHR ''/'' \<notin> set (addr_text a)"
    using dotted_chars [of "CHR ''/''" "bytes_of_u32 a"] by (auto simp: addr_text_dotted is_digit_def)
  then have "dropWhile (\<lambda>c. c \<noteq> CHR ''/'') (addr_text a) = []" by auto
  then show ?thesis by (simp add: addr_matches_def ParseCIDR_def ParseIP4_addr_text)
qed

lemma addr_matches_cidr:
  assumes "k \<le> 32" "b AND prefix_mask k = b"
  shows "addr_matches (cidr_text b k) x \<longleftrightarrow> unat b \<le> unat x \<and> unat x < unat b + net_size k"
  using Contains_iff_range [OF v4_net_mk_net [OF assms(1), of b]] ParseCIDR_text [OF assms(1)] assms(2)
  by (simp add: addr_matches_def cidr_text_def)

section \<open>The shape of a rule set\<close>

lemma rules_from_split:
  "rules_from c d lan seen (us @ v # vs) = Some rs \<Longrightarrow> vm_live v \<Longrightarrow>
    \<exists>pre seen1 netDev spoof seen2 egress post. rs = pre @ spoof @ vm_block c d lan netDev v egress @ post
      \<and> rules_from c d lan seen us = Some pre \<and> device_of d seen1 v = Some (netDev, spoof, seen2)
      \<and> egress_of d lan v = Some egress \<and> rules_from c d lan seen2 vs = Some post"
proof (induction us arbitrary: seen rs)
  case Nil
  then obtain netDev spoof seen2 egress post where
    "device_of d seen v = Some (netDev, spoof, seen2)" "egress_of d lan v = Some egress"
    "rules_from c d lan seen2 vs = Some post" "rs = spoof @ vm_block c d lan netDev v egress @ post"
    by (auto split: option.splits prod.splits)
  then show ?case
    by (intro exI [of _ "[]"] exI [of _ seen] exI [of _ netDev] exI [of _ spoof] exI [of _ seen2]
        exI [of _ egress] exI [of _ post]) simp
next
  case (Cons u us)
  show ?case
  proof (cases "vm_live u")
    case False
    then show ?thesis using Cons by simp
  next
    case True
    then obtain netDev spoof seen2 egress rest where
      b: "device_of d seen u = Some (netDev, spoof, seen2)" "egress_of d lan u = Some egress"
      "rules_from c d lan seen2 (us @ v # vs) = Some rest" "rs = spoof @ vm_block c d lan netDev u egress @ rest"
      using Cons.prems by (auto split: option.splits prod.splits)
    from Cons.IH [OF b(3) Cons.prems(2)] obtain pre seen1 dev spoofv seen3 eg post where
      r: "rest = pre @ spoofv @ vm_block c d lan dev v eg @ post" "rules_from c d lan seen2 us = Some pre"
      "device_of d seen1 v = Some (dev, spoofv, seen3)" "egress_of d lan v = Some eg"
      "rules_from c d lan seen3 vs = Some post"
      by (elim exE conjE)
    have "rs = (spoof @ vm_block c d lan netDev u egress @ pre) @ spoofv @ vm_block c d lan dev v eg @ post"
      using b(4) r(1) by simp
    moreover have "rules_from c d lan seen (u # us) = Some (spoof @ vm_block c d lan netDev u egress @ pre)"
      using True b r by simp
    ultimately show ?thesis using r by blast
  qed
qed

text \<open>Which forwarded packets of a new outbound connection a rule can let pass.\<close>

lemma egress_rules_shape:
  "egress_rules vm lan mode tcp udp cidrs = Inr rs \<Longrightarrow> r \<in> set rs \<Longrightarrow>
    r_chain r = CForward \<and> SAddr (vm_GuestIP vm) \<in> set (r_matches r) \<and> OifName lan \<in> set (r_matches r)"
  by (auto simp: egress_rules_def egress_rule_def split: if_splits)

lemma egress_of_shape:
  "egress_of d lan vm = Some rs \<Longrightarrow> r \<in> set rs \<Longrightarrow>
    r_chain r = CForward \<and> SAddr (vm_GuestIP vm) \<in> set (r_matches r) \<and> OifName lan \<in> set (r_matches r)"
  by (auto simp: egress_of_def dest: egress_rules_shape split: if_splits sum.splits option.splits)

lemma spoof_drops: "device_of d seen v = Some (netDev, spoof, seen') \<Longrightarrow> r \<in> set spoof \<Longrightarrow> r_verdict r = Drop"
  by (auto simp: device_of_def spoof_rule_def split: if_splits option.splits)

lemma block_accepts:
  assumes "r \<in> set (vm_block c d lan netDev v egress)" "egress_of d lan v = Some egress"
    "rule_matches CForward p r" "r_verdict r \<noteq> Drop" "p_iif p \<noteq> lan"
  shows "r \<in> set egress \<and> addr_matches (vm_GuestIP v) (p_src p) \<and> p_oif p = lan"
proof -
  have e: "r \<in> set egress"
    using assms(1,3-5) by (auto simp: vm_block_def vm_base_rules_def protected_rule_def ingress_rules_for_def rule_matches_def)
  have m: "\<forall>x \<in> set (r_matches r). matches p x" using assms(3) by (simp add: rule_matches_def list_all_iff)
  then have "matches p (SAddr (vm_GuestIP v))" "matches p (OifName lan)"
    using egress_of_shape [OF assms(2) e] by blast+
  then show ?thesis using e by simp
qed

lemma rules_from_accepts:
  "rules_from c d lan seen us = Some rs \<Longrightarrow> r \<in> set rs \<Longrightarrow> rule_matches CForward p r \<Longrightarrow>
    r_verdict r \<noteq> Drop \<Longrightarrow> p_iif p \<noteq> lan \<Longrightarrow>
    \<exists>u \<in> set us. vm_live u \<and> addr_matches (vm_GuestIP u) (p_src p) \<and> p_oif p = lan"
proof (induction us arbitrary: seen rs)
  case (Cons u us)
  show ?case
  proof (cases "vm_live u")
    case False
    then show ?thesis using Cons by auto
  next
    case True
    then obtain netDev spoof seen2 egress rest where
      b: "device_of d seen u = Some (netDev, spoof, seen2)" "egress_of d lan u = Some egress"
      "rules_from c d lan seen2 us = Some rest" "rs = spoof @ vm_block c d lan netDev u egress @ rest"
      using Cons.prems by (auto split: option.splits prod.splits)
    consider "r \<in> set spoof" | "r \<in> set (vm_block c d lan netDev u egress)" | "r \<in> set rest"
      using Cons.prems(2) b(4) by auto
    then show ?thesis
    proof cases
      case 1
      then show ?thesis using spoof_drops [OF b(1)] Cons.prems(4) by simp
    next
      case 2
      then show ?thesis using block_accepts [OF 2 b(2) Cons.prems(3-5)] True by auto
    next
      case 3
      then show ?thesis using Cons.IH [OF b(3) 3 Cons.prems(3-5)] by auto
    qed
  qed
qed simp

section \<open>Guest addresses\<close>

text \<open>In the address plan every VM has an address of its own.\<close>

lemma guest_addr:
  assumes "net_ok d" "v \<in> set (vms d)"
  shows "\<exists>a. vm_GuestIP v = addr_text a"
  using assms unfolding net_ok_def routed_at_def shared_in_def by blast

lemma guest_addr_unique:
  assumes "net_ok d" "uniq_ok vms_uniq (vms d)" "v \<in> set (vms d)" "u \<in> set (vms d)"
    "addr_matches (vm_GuestIP v) a" "addr_matches (vm_GuestIP u) a"
  shows "v = u"
proof -
  obtain x y where "vm_GuestIP v = addr_text x" "vm_GuestIP u = addr_text y"
    using guest_addr assms(1,3,4) by blast
  then have "vm_GuestIP v = vm_GuestIP u" using assms(5,6) by simp
  then show ?thesis using guest_ip_unique assms(2-4) by blast
qed

lemma set_listed [simp]: "set (listed_vms d) = set (vms d)"
  by (simp add: listed_vms_def)

lemma listed_split:
  assumes "uniq_ok vms_uniq (vms d)" "v \<in> set (vms d)"
  shows "\<exists>us vs. listed_vms d = us @ v # vs \<and> v \<notin> set us \<and> v \<notin> set vs"
proof -
  have "distinct (map vm_ID (listed_vms d))"
    using vms_tbl.distinct_keys [OF assms(1)] by (simp add: listed_vms_def)
  then have "distinct (listed_vms d)" by (simp add: distinct_map)
  moreover have "v \<in> set (listed_vms d)" using assms(2) by simp
  ultimately show ?thesis by (metis distinct.simps(2) distinct_append in_set_conv_decomp Int_iff empty_iff list.set_intros(1) disjoint_iff)
qed

text \<open>The rule set around the block of one live VM.\<close>

lemma ruleset_at:
  assumes rs: "ruleset c d lan = Some rs" and n: "net_ok d" "uniq_ok vms_uniq (vms d)"
    and v: "v \<in> set (vms d)" "vm_live v" "addr_matches (vm_GuestIP v) (p_src p)" and f: "fresh_outbound lan p"
  shows "\<exists>pre netDev egress post. rs = pre @ vm_block c d lan netDev v egress @ post
    \<and> egress_of d lan v = Some egress
    \<and> (\<forall>q \<in> set pre. rule_matches CForward p q \<longrightarrow> r_verdict q = Drop)"
proof -
  obtain us vs where l: "listed_vms d = us @ v # vs" "v \<notin> set us" using listed_split [OF n(2) v(1)] by blast
  obtain rs0 where r0: "rules_from c d lan [] (us @ v # vs) = Some rs0" "rs = established_rule # rs0"
    using rs l(1) by (auto simp: ruleset_def)
  obtain pre seen1 netDev spoof seen2 egress post where s:
    "rs0 = pre @ spoof @ vm_block c d lan netDev v egress @ post" "rules_from c d lan [] us = Some pre"
    "device_of d seen1 v = Some (netDev, spoof, seen2)" "egress_of d lan v = Some egress"
    using rules_from_split [OF r0(1) v(2)] by blast
  have drops: "r_verdict q = Drop" if q: "q \<in> set (established_rule # pre @ spoof)" "rule_matches CForward p q" for q
  proof (rule ccontr)
    assume nd: "r_verdict q \<noteq> Drop"
    have "q \<noteq> established_rule" using q(2) f by (auto simp: established_rule_def rule_matches_def fresh_outbound_def)
    then have "q \<in> set pre" using q(1) nd spoof_drops [OF s(3)] by auto
    then obtain u where u: "u \<in> set us" "addr_matches (vm_GuestIP u) (p_src p)"
      using rules_from_accepts [OF s(2) _ q(2) nd] f by (auto simp: fresh_outbound_def)
    have "u \<in> set (listed_vms d)" using u(1) l(1) by simp
    then have "u \<in> set (vms d)" by simp
    then have "v = u" using guest_addr_unique [OF n v(1) _ v(3) u(2)] by simp
    then show False using u(1) l(2) by simp
  qed
  have "rs = (established_rule # pre @ spoof) @ vm_block c d lan netDev v egress @ post" using r0(2) s(1) by simp
  then show ?thesis using drops s(4) by blast
qed

section \<open>What the rules guarantee\<close>

lemma protected_drop:
  assumes rs: "ruleset c d lan = Some rs" and n: "net_ok d" "uniq_ok vms_uniq (vms d)"
    and v: "v \<in> set (vms d)" "vm_live v" "addr_matches (vm_GuestIP v) (p_src p)" and f: "fresh_outbound lan p"
    and dst: "cidr \<in> set (protected_cidrs c)" "addr_matches cidr (p_dst p)"
  shows "\<not> forwarded rs p"
proof -
  obtain pre netDev egress post where s: "rs = pre @ vm_block c d lan netDev v egress @ post"
    "\<forall>q \<in> set pre. rule_matches CForward p q \<longrightarrow> r_verdict q = Drop"
    using ruleset_at [OF rs n v f] by blast
  obtain cs1 cs2 where c: "protected_cidrs c = cs1 @ cidr # cs2" using dst(1) by (meson split_list)
  define before where "before = pre @ vm_base_rules c lan netDev v @ map (protected_rule v) cs1"
  have "rs = before @ protected_rule v cidr # (map (protected_rule v) cs2 @
      concat (map (ingress_rules_for lan netDev v) (ingress_of d v)) @ egress @ post)"
    by (simp add: s(1) vm_block_def c before_def)
  moreover have "\<forall>q \<in> set before. rule_matches CForward p q \<longrightarrow> r_verdict q = Drop"
    using s(2) f by (auto simp: before_def vm_base_rules_def protected_rule_def rule_matches_def fresh_outbound_def)
  moreover have "rule_matches CForward p (protected_rule v cidr)" "r_verdict (protected_rule v cidr) = Drop"
    using v(3) dst(2) by (simp_all add: protected_rule_def rule_matches_def)
  ultimately show ?thesis using forwarded_drop by metis
qed


text \<open>What a VM's egress settings permit towards the LAN.\<close>

definition permitted :: "string \<Rightarrow> string \<Rightarrow> string \<Rightarrow> string \<Rightarrow> packet \<Rightarrow> bool" where
  "permitted mode tcp udp cidrs p =
     (mode = ''allow_all'' \<or> mode = '''' \<or>
      mode = ''restricted'' \<and>
        ((\<exists>q \<in> set (splitCSV tcp). p_proto p = ''tcp'' \<and> Atoi q = Inr (int (p_dport p)))
       \<or> (\<exists>q \<in> set (splitCSV udp). p_proto p = ''udp'' \<and> Atoi q = Inr (int (p_dport p)))
       \<or> (\<exists>a \<in> set (splitCSV cidrs). addr_matches a (p_dst p))))"

definition egress_permits :: "db \<Rightarrow> vm \<Rightarrow> packet \<Rightarrow> bool" where
  "egress_permits d v p =
     (if vm_EgressPolicyID v \<noteq> '''' then
        (case find (\<lambda>q. ep_ID q = vm_EgressPolicyID v) (egress_policies d) of
           None \<Rightarrow> False
         | Some q \<Rightarrow> permitted (ep_Mode q) (ep_TCPPorts q) (ep_UDPPorts q) (ep_CIDRs q) p)
      else permitted (vm_EgressMode v) '''' '''' '''' p)"

lemma egress_rules_deny:
  assumes "egress_rules v lan mode tcp udp cidrs = Inr rs" "\<not> permitted mode tcp udp cidrs p"
    "addr_matches (vm_GuestIP v) (p_src p)" "p_oif p = lan"
  shows "\<exists>as r. rs = as @ [r] \<and> rule_matches CForward p r \<and> r_verdict r = Drop
    \<and> (\<forall>q \<in> set as. rule_matches CForward p q \<longrightarrow> r_verdict q = Drop)"
proof -
  have m: "mode = ''deny_all'' \<or> mode = ''restricted''"
    using assms(1,2) by (auto simp: egress_rules_def permitted_def split: if_splits)
  have last: "rule_matches CForward p (egress_rule v lan [] Drop)" "r_verdict (egress_rule v lan [] Drop) = Drop"
    using assms(3,4) by (simp_all add: egress_rule_def rule_matches_def)
  show ?thesis
  proof (cases "mode = ''deny_all''")
    case True
    then have "rs = [] @ [egress_rule v lan [] Drop]" using assms(1) by (simp add: egress_rules_def)
    then show ?thesis using last by fastforce
  next
    case False
    define as where "as = map (\<lambda>q. egress_rule v lan [DPort ''tcp'' q] Accept) (splitCSV tcp) @
             map (\<lambda>q. egress_rule v lan [DPort ''udp'' q] Accept) (splitCSV udp) @
             map (\<lambda>a. egress_rule v lan [DAddr a] Accept) (splitCSV cidrs)"
    have "rs = as @ [egress_rule v lan [] Drop]" using m False assms(1) by (auto simp: egress_rules_def as_def)
    moreover have "\<not> rule_matches CForward p q" if "q \<in> set as" for q
      using that m False assms(2) by (auto simp: as_def permitted_def egress_rule_def rule_matches_def)
    ultimately show ?thesis using last by blast
  qed
qed

lemma egress_of_deny:
  assumes "egress_of d lan v = Some rs" "\<not> egress_permits d v p"
    "addr_matches (vm_GuestIP v) (p_src p)" "p_oif p = lan"
  shows "\<exists>as r. rs = as @ [r] \<and> rule_matches CForward p r \<and> r_verdict r = Drop
    \<and> (\<forall>q \<in> set as. rule_matches CForward p q \<longrightarrow> r_verdict q = Drop)"
proof (cases "vm_EgressPolicyID v = ''''")
  case True
  then show ?thesis using assms egress_rules_deny [OF _ _ assms(3,4)]
    by (auto simp: egress_of_def egress_permits_def split: sum.splits)
next
  case False
  then obtain q where "find (\<lambda>q. ep_ID q = vm_EgressPolicyID v) (egress_policies d) = Some q"
    using assms(1) by (auto simp: egress_of_def split: sum.splits option.splits)
  then show ?thesis using assms False egress_rules_deny [OF _ _ assms(3,4)]
    by (auto simp: egress_of_def egress_permits_def split: sum.splits)
qed

lemma egress_only_permitted:
  assumes rs: "ruleset c d lan = Some rs" and n: "net_ok d" "uniq_ok vms_uniq (vms d)"
    and v: "v \<in> set (vms d)" "vm_live v" "addr_matches (vm_GuestIP v) (p_src p)"
    and f: "fresh_outbound lan p" "p_oif p = lan" "forwarded rs p"
  shows "egress_permits d v p"
proof (rule ccontr)
  assume deny: "\<not> egress_permits d v p"
  obtain pre netDev egress post where s: "rs = pre @ vm_block c d lan netDev v egress @ post"
    "egress_of d lan v = Some egress" "\<forall>q \<in> set pre. rule_matches CForward p q \<longrightarrow> r_verdict q = Drop"
    using ruleset_at [OF rs n v f(1)] by blast
  obtain as r where a: "egress = as @ [r]" "rule_matches CForward p r" "r_verdict r = Drop"
    "\<forall>q \<in> set as. rule_matches CForward p q \<longrightarrow> r_verdict q = Drop"
    using egress_of_deny [OF s(2) deny v(3) f(2)] by blast
  define mid where "mid = vm_base_rules c lan netDev v @ map (protected_rule v) (protected_cidrs c) @
      concat (map (ingress_rules_for lan netDev v) (ingress_of d v))"
  have "\<forall>q \<in> set mid. rule_matches CForward p q \<longrightarrow> r_verdict q = Drop"
    using f(1) by (auto simp: mid_def vm_base_rules_def protected_rule_def ingress_rules_for_def rule_matches_def fresh_outbound_def)
  then have "\<forall>q \<in> set (pre @ mid @ as). rule_matches CForward p q \<longrightarrow> r_verdict q = Drop" using s(3) a(4) by auto
  moreover have "rs = (pre @ mid @ as) @ r # post" by (simp add: s(1) a(1) vm_block_def mid_def)
  ultimately show False using forwarded_drop [OF _ a(2,3)] f(3) by metis
qed


text \<open>
  C9: a routed VM cannot open a connection with an address that no live VM has.
\<close>

theorem foreign_source_dropped:
  assumes rs: "ruleset c d lan = Some rs" and u: "uniq_ok vms_uniq (vms d)"
    and v: "v \<in> set (vms d)" "vm_live v" "vm_NetworkMode v \<noteq> ''shared_bridge''" "p_iif p = vm_TapName v"
    and f: "fresh_outbound lan p" and src: "\<forall>z \<in> set (vms d). vm_live z \<longrightarrow> \<not> addr_matches (vm_GuestIP z) (p_src p)"
  shows "\<not> forwarded rs p"
proof -
  obtain us vs where l: "listed_vms d = us @ v # vs" using listed_split [OF u v(1)] by blast
  obtain rs0 where r0: "rules_from c d lan [] (us @ v # vs) = Some rs0" "rs = established_rule # rs0"
    using rs l by (auto simp: ruleset_def)
  obtain pre seen1 netDev spoof seen2 egress post where s:
    "rs0 = pre @ spoof @ vm_block c d lan netDev v egress @ post" "rules_from c d lan [] us = Some pre"
    "device_of d seen1 v = Some (netDev, spoof, seen2)"
    using rules_from_split [OF r0(1) v(2)] by blast
  have spoof: "spoof = [spoof_rule (vm_TapName v) (vm_GuestIP v)]" using s(3) v(3) by (auto simp: device_of_def)
  have us: "set us \<subseteq> set (vms d)" using l set_listed [of d] by auto
  have drops: "r_verdict q = Drop" if q: "q \<in> set (established_rule # pre)" "rule_matches CForward p q" for q
  proof (rule ccontr)
    assume nd: "r_verdict q \<noteq> Drop"
    have "q \<noteq> established_rule" using q(2) f by (auto simp: established_rule_def rule_matches_def fresh_outbound_def)
    then have "q \<in> set pre" using q(1) by simp
    then show False using rules_from_accepts [OF s(2) _ q(2) nd] f src us by (auto simp: fresh_outbound_def)
  qed
  have "rule_matches CForward p (spoof_rule (vm_TapName v) (vm_GuestIP v))"
    using v src by (simp add: spoof_rule_def rule_matches_def)
  moreover have "rs = (established_rule # pre) @ spoof_rule (vm_TapName v) (vm_GuestIP v) #
      (vm_block c d lan netDev v egress @ post)" using r0(2) s(1) spoof by simp
  ultimately show ?thesis using forwarded_drop [of "established_rule # pre" p] drops by (metis nft_rule.select_convs(3) spoof_rule_def)
qed

section \<open>Forwarded ports\<close>

text \<open>
  The SSH ports are values of Go's \<open>int\<close> (the configured range is not checked any further), the host
  ports are port numbers, and no ingress rule uses the SSH port of a VM.
\<close>

definition ports_ok :: "db \<Rightarrow> bool" where
  "ports_ok d \<longleftrightarrow>
     (\<forall>v \<in> set (vms d). - (2 ^ 63) \<le> vm_SSHPort v \<and> vm_SSHPort v < 2 ^ 63)
   \<and> (\<forall>r \<in> set (ingress_rules d). 1 \<le> ing_HostPort r \<and> ing_HostPort r \<le> 65535)
   \<and> (\<forall>v \<in> set (vms d). \<forall>r \<in> set (ingress_rules d). vm_SSHPort v \<noteq> ing_HostPort r)"

lemma rules_from_members:
  "rules_from c d lan seen us = Some rs \<Longrightarrow> r \<in> set rs \<Longrightarrow>
    \<exists>u \<in> set us. \<exists>seen1 netDev spoof seen2 egress. vm_live u \<and> device_of d seen1 u = Some (netDev, spoof, seen2)
      \<and> egress_of d lan u = Some egress \<and> r \<in> set spoof \<union> set (vm_block c d lan netDev u egress)"
proof (induction us arbitrary: seen rs)
  case (Cons u us)
  show ?case
  proof (cases "vm_live u")
    case False
    then show ?thesis using Cons by auto
  next
    case True
    then obtain netDev spoof seen2 egress rest where
      b: "device_of d seen u = Some (netDev, spoof, seen2)" "egress_of d lan u = Some egress"
      "rules_from c d lan seen2 us = Some rest" "rs = spoof @ vm_block c d lan netDev u egress @ rest"
      using Cons.prems by (auto split: option.splits prod.splits)
    show ?thesis
    proof (cases "r \<in> set rest")
      case h: True
      show ?thesis using Cons.IH [OF b(3) h] by auto
    next
      case False
      then have "r \<in> set spoof \<union> set (vm_block c d lan netDev u egress)" using Cons.prems(2) b(4) by auto
      then show ?thesis using True b(1,2) by (intro bexI [of _ u]) (blast, simp)
    qed
  qed
qed simp

lemma spoof_forward: "device_of d seen v = Some (netDev, spoof, seen') \<Longrightarrow> r \<in> set spoof \<Longrightarrow> r_chain r = CForward"
  by (auto simp: device_of_def spoof_rule_def split: if_splits option.splits)

lemma prerouting_rules:
  assumes "ruleset c d lan = Some rs" "r \<in> set rs" "rule_matches CPrerouting p r"
  shows "\<exists>u \<in> set (vms d). vm_live u \<and>
    (p_proto p = ''tcp'' \<and> Atoi (Itoa (vm_SSHPort u)) = Inr (int (p_dport p)) \<and> r_verdict r = Dnat (vm_GuestIP u) 22
   \<or> (\<exists>i \<in> set (ingress_rules d). ing_VMID i = vm_ID u \<and> p_proto p = ing_Protocol i
        \<and> Atoi (Itoa (ing_HostPort i)) = Inr (int (p_dport p))
        \<and> r_verdict r = Dnat (vm_GuestIP u) (ing_GuestPort i)))"
proof -
  have "r \<noteq> established_rule" using assms(3) by (auto simp: established_rule_def rule_matches_def)
  then obtain rs0 where "rules_from c d lan [] (listed_vms d) = Some rs0" "r \<in> set rs0"
    using assms(1,2) by (auto simp: ruleset_def)
  then obtain u seen1 netDev spoof seen2 egress where u: "u \<in> set (listed_vms d)" "vm_live u"
    "device_of d seen1 u = Some (netDev, spoof, seen2)" "egress_of d lan u = Some egress"
    "r \<in> set spoof \<union> set (vm_block c d lan netDev u egress)"
    using rules_from_members by (metis (no_types, lifting))
  have "r_chain r = CPrerouting" using assms(3) by (simp add: rule_matches_def)
  then have "r \<notin> set spoof" "r \<notin> set egress"
    using spoof_forward [OF u(3)] egress_of_shape [OF u(4)] by fastforce+
  then have "r \<in> set (vm_block c d lan netDev u [])" using u(5) by (auto simp: vm_block_def)
  then have "p_proto p = ''tcp'' \<and> Atoi (Itoa (vm_SSHPort u)) = Inr (int (p_dport p)) \<and> r_verdict r = Dnat (vm_GuestIP u) 22
   \<or> (\<exists>i \<in> set (ingress_of d u). p_proto p = ing_Protocol i \<and> Atoi (Itoa (ing_HostPort i)) = Inr (int (p_dport p))
        \<and> r_verdict r = Dnat (vm_GuestIP u) (ing_GuestPort i))"
    using assms(3) by (auto simp: vm_block_def vm_base_rules_def protected_rule_def ingress_rules_for_def rule_matches_def)
  then show ?thesis using u(1,2) by (intro bexI [of _ u]) (auto simp: ingress_of_def)
qed

lemma dnat_all:
  assumes "r \<in> set rs" "rule_matches CPrerouting p r"
    "\<And>q. q \<in> set rs \<Longrightarrow> rule_matches CPrerouting p q \<Longrightarrow> r_verdict q = Dnat ip port"
  shows "dnat_target rs p = Some (ip, port)"
proof (cases "find (rule_matches CPrerouting p) rs")
  case None
  then show ?thesis using assms(1,2) by (auto simp: find_None_iff)
next
  case (Some q)
  then have "r_verdict q = Dnat ip port" using assms(3) [of q] by (auto dest: find_SomeD)
  then show ?thesis using Some by (simp add: dnat_target_def)
qed

lemma ruleset_block:
  assumes rs: "ruleset c d lan = Some rs" and v: "v \<in> set (vms d)" "vm_live v"
  shows "\<exists>netDev egress. set (vm_block c d lan netDev v egress) \<subseteq> set rs"
proof -
  obtain rs0 where r0: "rules_from c d lan [] (listed_vms d) = Some rs0" "rs = established_rule # rs0"
    using rs by (auto simp: ruleset_def)
  obtain us vs where l: "listed_vms d = us @ v # vs" using v(1) set_listed by (metis in_set_conv_decomp)
  obtain pre seen1 netDev spoof seen2 egress post where
    "rs0 = pre @ spoof @ vm_block c d lan netDev v egress @ post"
    using rules_from_split [OF r0(1) [unfolded l] v(2)] by blast
  then show ?thesis using r0(2) by (intro exI [of _ netDev] exI [of _ egress]) auto
qed

lemma port_unique:
  "uniq_ok vms_uniq (vms d) \<Longrightarrow> v \<in> set (vms d) \<Longrightarrow> u \<in> set (vms d) \<Longrightarrow> vm_SSHPort v = vm_SSHPort u \<Longrightarrow> v = u"
  by (auto simp: uniq_ok_def vms_uniq_def distinct_map inj_on_def)

lemma host_port_unique:
  "uniq_ok ingress_rules_uniq (ingress_rules d) \<Longrightarrow> r \<in> set (ingress_rules d) \<Longrightarrow> s \<in> set (ingress_rules d) \<Longrightarrow>
    ing_HostPort r = ing_HostPort s \<Longrightarrow> r = s"
  by (auto simp: uniq_ok_def ingress_rules_uniq_def distinct_map inj_on_def)

text \<open>
  C8: a connection from the LAN to a live VM's SSH port is sent to port 22 of that VM, and one to an
  ingress rule's host port to that rule's guest port.
\<close>

theorem ports_reach_their_vm:
  assumes rs: "ruleset c d lan = Some rs" and u: "uniq_ok vms_uniq (vms d)" "uniq_ok ingress_rules_uniq (ingress_rules d)"
    and ok: "ports_ok d" and v: "v \<in> set (vms d)" "vm_live v" and p: "p_iif p = lan"
  shows "(p_proto p = ''tcp'' \<and> int (p_dport p) = vm_SSHPort v \<longrightarrow> dnat_target rs p = Some (vm_GuestIP v, 22))
    \<and> (\<forall>i \<in> set (ingress_rules d). ing_VMID i = vm_ID v \<and> p_proto p = ing_Protocol i \<and> int (p_dport p) = ing_HostPort i \<longrightarrow>
         dnat_target rs p = Some (vm_GuestIP v, ing_GuestPort i))"
proof -
  obtain netDev egress where b: "set (vm_block c d lan netDev v egress) \<subseteq> set rs"
    using ruleset_block [OF rs v] by blast
  have atoi: "Atoi (Itoa x) = Inr x" if "1 \<le> x" "x \<le> 65535" for x using that by (intro Atoi_Itoa) simp_all
  have ssh: "Atoi (Itoa (vm_SSHPort z)) = Inr (vm_SSHPort z)" if "z \<in> set (vms d)" for z
    using ok that by (intro Atoi_Itoa) (auto simp: ports_ok_def)
  have ing: "Atoi (Itoa (ing_HostPort i)) = Inr (ing_HostPort i)" if "i \<in> set (ingress_rules d)" for i
    using ok that by (intro atoi) (auto simp: ports_ok_def)
  show ?thesis
  proof (intro conjI impI ballI)
    assume h: "p_proto p = ''tcp'' \<and> int (p_dport p) = vm_SSHPort v"
    define r where "r = \<lparr>r_chain = CPrerouting, r_matches = [IifName lan, DPort ''tcp'' (Itoa (vm_SSHPort v))],
         r_verdict = Dnat (vm_GuestIP v) 22\<rparr>"
    have r: "r \<in> set rs" "rule_matches CPrerouting p r"
      using b p h ssh [OF v(1)] by (auto simp: r_def vm_block_def vm_base_rules_def rule_matches_def)
    have "r_verdict q = Dnat (vm_GuestIP v) 22" if q: "q \<in> set rs" "rule_matches CPrerouting p q" for q
    proof -
      have "ing_HostPort j \<noteq> int (p_dport p)" if "j \<in> set (ingress_rules d)" for j
        using ok v(1) that h unfolding ports_ok_def by metis
      then obtain z where z: "z \<in> set (vms d)" "vm_SSHPort z = int (p_dport p)" "r_verdict q = Dnat (vm_GuestIP z) 22"
        using prerouting_rules [OF rs q] ssh ing by auto
      have "v = z" using port_unique [OF u(1) v(1) z(1)] z(2) h by simp
      then show ?thesis using z(3) by simp
    qed
    then show "dnat_target rs p = Some (vm_GuestIP v, 22)" by (rule dnat_all [OF r])
  next
    fix i assume i: "i \<in> set (ingress_rules d)"
      and h: "ing_VMID i = vm_ID v \<and> p_proto p = ing_Protocol i \<and> int (p_dport p) = ing_HostPort i"
    define r where "r = \<lparr>r_chain = CPrerouting, r_matches = [IifName lan, DPort (ing_Protocol i) (Itoa (ing_HostPort i))],
         r_verdict = Dnat (vm_GuestIP v) (ing_GuestPort i)\<rparr>"
    have "i \<in> set (ingress_of d v)" using i h by (simp add: ingress_of_def)
    then have "r \<in> set (vm_block c d lan netDev v egress)" by (auto simp: r_def vm_block_def ingress_rules_for_def)
    then have r: "r \<in> set rs" "rule_matches CPrerouting p r"
      using b p h ing [OF i] by (auto simp: r_def rule_matches_def)
    have "r_verdict q = Dnat (vm_GuestIP v) (ing_GuestPort i)" if q: "q \<in> set rs" "rule_matches CPrerouting p q" for q
    proof -
      obtain z where z: "z \<in> set (vms d)"
        "(p_proto p = ''tcp'' \<and> Atoi (Itoa (vm_SSHPort z)) = Inr (int (p_dport p)) \<and> r_verdict q = Dnat (vm_GuestIP z) 22
         \<or> (\<exists>j \<in> set (ingress_rules d). ing_VMID j = vm_ID z \<and> p_proto p = ing_Protocol j
            \<and> Atoi (Itoa (ing_HostPort j)) = Inr (int (p_dport p)) \<and> r_verdict q = Dnat (vm_GuestIP z) (ing_GuestPort j)))"
        using prerouting_rules [OF rs q] by blast
      have "vm_SSHPort z \<noteq> int (p_dport p)" using ok z(1) i h by (auto simp: ports_ok_def)
      then obtain j where j: "j \<in> set (ingress_rules d)" "ing_VMID j = vm_ID z" "ing_HostPort j = int (p_dport p)"
        "r_verdict q = Dnat (vm_GuestIP z) (ing_GuestPort j)"
        using z ssh ing by auto
      have "j = i" using host_port_unique [OF u(2) j(1) i] j(3) h by simp
      then have "z = v" using vms_tbl.same_key [OF u(1) z(1) v(1)] j(2) h by simp
      then show ?thesis using j(4) \<open>j = i\<close> by simp
    qed
    then show "dnat_target rs p = Some (vm_GuestIP v, ing_GuestPort i)" by (rule dnat_all [OF r])
  qed
qed

section \<open>Sample hosts\<close>

text \<open>A routed VM with the /30 at \<open>b\<close>, and a host with given VMs and networks.\<close>

definition sample_vm :: "string \<Rightarrow> int \<Rightarrow> u32 \<Rightarrow> string \<Rightarrow> vm" where
  "sample_vm name port b mode =
     \<lparr>vm_ID = name, vm_Name = name, vm_State = VMRunning, vm_VCPUCount = 1, vm_MemMiB = 512,
      vm_SSHPort = port, vm_TapName = ''tap-'' @ name, vm_HostIP = addr_text (b + 1),
      vm_GuestIP = addr_text (b + 2), vm_CIDR = 30, vm_KernelPath = '''', vm_KernelID = '''',
      vm_RootFSPath = '''', vm_BaseRootFSPath = '''', vm_BaseImageID = '''', vm_RootFSSizeMiB = 0,
      vm_DevUser = ''dev'', vm_SSHKeyID = '''', vm_ManagedSSHPublicKey = '''',
      vm_ManagedSSHPrivateKeyPath = '''', vm_ExtraAuthorizedKeys = '''', vm_RepoURL = '''',
      vm_GitRef = ''HEAD'', vm_EgressMode = mode, vm_EgressPolicyID = '''',
      vm_NetworkMode = ''routed_ptp'', vm_NetworkID = '''', vm_LastError = '''', vm_CreatedAt = 0,
      vm_UpdatedAt = 0, vm_LastStartedAt = None, vm_LastStoppedAt = None\<rparr>"

definition sample_cfg :: config where
  "sample_cfg = Defaults\<lparr>NetworkCfg := NetworkCfg Defaults\<lparr>ProtectedHostCIDRs := [cidr_text 0x7F000000 8]\<rparr>\<rparr>"

definition alpha :: vm where "alpha = sample_vm ''alpha'' 20000 0xAC1F0000 ''allow_all''"
definition beta :: vm where "beta = sample_vm ''beta'' 20001 0xAC1F0004 ''deny_all''"

definition two_vms :: db where "two_vms = empty_db\<lparr>vms := [alpha, beta]\<rparr>"

definition packet_from :: "string \<Rightarrow> u32 \<Rightarrow> u32 \<Rightarrow> packet" where
  "packet_from dev src dst =
     \<lparr>p_iif = dev, p_oif = ''eth0'', p_src = src, p_dst = dst, p_proto = ''tcp'', p_dport = 443, p_established = False\<rparr>"

lemmas sample_defs = sample_vm_def sample_cfg_def alpha_def beta_def two_vms_def empty_db_def packet_from_def

lemma listed_two: "listed_vms two_vms = [alpha, beta]"
  by (simp add: listed_vms_def two_vms_def empty_db_def order_desc_def by_created_def alpha_def beta_def sample_vm_def)

lemma two_vms_uniq: "uniq_ok vms_uniq [alpha, beta]"
  by (simp add: uniq_ok_def vms_uniq_def sample_defs addr_text_inj)

lemma sample_routed: "4 dvd unat b \<Longrightarrow> routed_at (sample_vm name port b mode) b"
  by (simp add: routed_at_def sample_vm_def)

lemma two_vms_net_ok: "net_ok two_vms"
  using sample_routed [of "0xAC1F0000" "''alpha''" 20000 "''allow_all''"]
    sample_routed [of "0xAC1F0004" "''beta''" 20001 "''deny_all''"]
  by (auto simp: net_ok_def two_vms_def empty_db_def alpha_def beta_def)

lemma alpha_simps [simp]: "vm_live alpha" "vm_TapName alpha = ''tap-alpha''" "vm_GuestIP alpha = addr_text 0xAC1F0002"
  "vm_SSHPort alpha = 20000" "vm_NetworkMode alpha = ''routed_ptp''" "vm_EgressPolicyID alpha = ''''"
  "vm_EgressMode alpha = ''allow_all''" "vm_ID alpha = ''alpha''"
  by (simp_all add: alpha_def sample_vm_def vm_live_def)

lemma beta_simps [simp]: "vm_live beta" "vm_TapName beta = ''tap-beta''" "vm_GuestIP beta = addr_text 0xAC1F0006"
  "vm_SSHPort beta = 20001" "vm_NetworkMode beta = ''routed_ptp''" "vm_EgressPolicyID beta = ''''"
  "vm_EgressMode beta = ''deny_all''" "vm_ID beta = ''beta''"
  by (simp_all add: beta_def sample_vm_def vm_live_def)

lemma two_vms_simps [simp]: "vms two_vms = [alpha, beta]" "ingress_rules two_vms = []" "networks two_vms = []"
  "egress_policies two_vms = []"
  by (simp_all add: two_vms_def empty_db_def)

lemma sample_protected [simp]: "protected_cidrs sample_cfg = [cidr_text 0x7F000000 8]"
  by (simp add: protected_cidrs_def sample_cfg_def)

lemma packet_from_simps [simp]: "p_iif (packet_from dev a b) = dev" "p_oif (packet_from dev a b) = ''eth0''"
  "p_src (packet_from dev a b) = a" "p_dst (packet_from dev a b) = b" "p_proto (packet_from dev a b) = ''tcp''"
  "p_dport (packet_from dev a b) = 443" "\<not> p_established (packet_from dev a b)"
  by (simp_all add: packet_from_def)

lemma loopback [simp]: "addr_matches (cidr_text 0x7F000000 8) x \<longleftrightarrow> 0x7F000000 \<le> unat x \<and> unat x < 0x80000000"
proof -
  have "(0x7F000000 :: u32) AND prefix_mask 8 = 0x7F000000"
    by (simp add: word_unat_eq_iff unat_and_prefix_mask)
  then show ?thesis using addr_matches_cidr [of 8 "0x7F000000" x] by (simp add: net_size_def)
qed

lemma two_vms_rules:
  "ruleset sample_cfg two_vms ''eth0'' = Some (established_rule #
     spoof_rule ''tap-alpha'' (addr_text 0xAC1F0002) #
       vm_block sample_cfg two_vms ''eth0'' ''tap-alpha'' alpha [egress_rule alpha ''eth0'' [] Accept] @
     spoof_rule ''tap-beta'' (addr_text 0xAC1F0006) #
       vm_block sample_cfg two_vms ''eth0'' ''tap-beta'' beta [egress_rule beta ''eth0'' [] Drop])"
  by (simp add: ruleset_def listed_two device_of_def egress_of_def egress_rules_def)

lemmas rule_defs = established_rule_def spoof_rule_def vm_block_def vm_base_rules_def protected_rule_def
  ingress_of_def egress_rule_def rule_matches_def order_asc_def

lemma two_vms_ports: "ports_ok two_vms"
  by (simp add: ports_ok_def)



lemma foreign_source_dropped_witness:
  "\<not> forwarded (the (ruleset sample_cfg two_vms ''eth0'')) (packet_from ''tap-beta'' 0x0A000001 0x08080808)"
  by (rule foreign_source_dropped [of sample_cfg two_vms "''eth0''" _ beta])
    (simp_all add: two_vms_rules two_vms_uniq fresh_outbound_def)

lemma ports_reach_their_vm_witness: 
  "dnat_target (the (ruleset sample_cfg two_vms ''eth0''))
     ((packet_from ''eth0'' 0x08080808 0xC0A80001)\<lparr>p_dport := 20001\<rparr>) = Some (addr_text 0xAC1F0006, 22)"
  using ports_reach_their_vm [of sample_cfg two_vms "''eth0''" "the (ruleset sample_cfg two_vms ''eth0'')" beta
      "(packet_from ''eth0'' 0x08080808 0xC0A80001)\<lparr>p_dport := 20001\<rparr>"]
  by (simp add: two_vms_rules two_vms_uniq two_vms_ports)


definition gamma :: vm where
  "gamma = (sample_vm ''gamma'' 20002 0xAC1F0100 ''deny_all'')\<lparr>vm_NetworkMode := ''shared_bridge'', vm_NetworkID := ''n1''\<rparr>"

definition lab_network :: network where
  "lab_network = \<lparr>nw_ID = ''n1'', nw_Name = ''lab'', nw_CIDR = cidr_text 0xAC1F0100 24,
     nw_GatewayIP = addr_text 0xAC1F0101, nw_CreatedAt = 0, nw_UpdatedAt = 0\<rparr>"

definition shared_host :: db where "shared_host = empty_db\<lparr>vms := [gamma], networks := [lab_network]\<rparr>"

lemma lab_addresses: "addr_matches (cidr_text 0xAC1F0100 24) x \<longleftrightarrow> 0xAC1F0100 \<le> unat x \<and> unat x < 0xAC1F0200"
proof -
  have "(0xAC1F0100 :: u32) AND prefix_mask 24 = 0xAC1F0100"
    by (simp add: word_unat_eq_iff unat_and_prefix_mask)
  then show ?thesis using addr_matches_cidr [of 24 "0xAC1F0100" x] by (simp add: net_size_def)
qed

lemma gamma_simps: "vm_live gamma" "vm_GuestIP gamma = addr_text 0xAC1F0102" "vm_NetworkMode gamma = ''shared_bridge''"
  "vm_NetworkID gamma = ''n1''" "vm_EgressPolicyID gamma = ''''" "vm_EgressMode gamma = ''deny_all''" "vm_ID gamma = ''gamma''"
  by (simp_all add: gamma_def sample_vm_def vm_live_def)

lemma bridge_n1: "bridgeName ''n1'' = ''br-bap-n1''"
  by (simp add: bridgeName_def ToLower_def to_lower_char_def)




end
