(* ===== verification/Evolution.thy ===== *)
theory Evolution
  imports Lifecycle Packets
begin

text \<open>
  What the service may do to the database, as an abstract step relation: \<open>db_step d d'\<close> has one rule
  per kind of change, with the facts about \<open>d\<close> that the code has established when it makes it. The
  theory \<open>Plan\<close> shows that every operation of \<open>Lifecycle\<close>, on every exit, is a sequence of such steps;
  an invariant of the steps (locale \<open>db_invariant\<close>) is then an invariant of the service.
  Three are proved here: the address and port plan, the resource bounds, and the links between rows.
\<close>

section \<open>The columns of a VM\<close>

text \<open>A VM without the columns that change while it lives, and without those of its current run.\<close>

definition identity :: "vm \<Rightarrow> vm" where
  "identity v = v\<lparr>vm_State := VMStopped, vm_TapName := '''', vm_LastError := '''', vm_UpdatedAt := 0,
     vm_LastStartedAt := None, vm_LastStoppedAt := None, vm_VCPUCount := 0, vm_MemMiB := 0,
     vm_EgressMode := '''', vm_EgressPolicyID := '''', vm_DevUser := '''', vm_ManagedSSHPublicKey := '''',
     vm_ManagedSSHPrivateKeyPath := ''''\<rparr>"

definition valid_size :: "vm \<Rightarrow> bool" where
  "valid_size v \<longleftrightarrow> 1 \<le> vm_VCPUCount v \<and> vm_VCPUCount v \<le> 32 \<and> 128 \<le> vm_MemMiB v \<and> vm_MemMiB v \<le> 262144"

definition valid_egress :: "db \<Rightarrow> vm \<Rightarrow> bool" where
  "valid_egress d v \<longleftrightarrow>
     (if vm_EgressPolicyID v = '''' then vm_EgressMode v = ''allow_all'' \<or> vm_EgressMode v = ''deny_all''
      else \<exists>p \<in> set (egress_policies d). ep_ID p = vm_EgressPolicyID v \<and> ep_Mode p = vm_EgressMode v)"

definition same_size :: "vm \<Rightarrow> vm \<Rightarrow> bool" where
  "same_size u v \<longleftrightarrow> vm_VCPUCount u = vm_VCPUCount v \<and> vm_MemMiB u = vm_MemMiB v"

definition same_egress :: "vm \<Rightarrow> vm \<Rightarrow> bool" where
  "same_egress u v \<longleftrightarrow> vm_EgressMode u = vm_EgressMode v \<and> vm_EgressPolicyID u = vm_EgressPolicyID v"

text \<open>The row \<open>u\<close> may be overwritten by \<open>v\<close>.\<close>

definition may_become :: "db \<Rightarrow> vm \<Rightarrow> vm \<Rightarrow> bool" where
  "may_become d u v \<longleftrightarrow> identity u = identity v \<and> (same_size u v \<or> valid_size v)
     \<and> (same_egress u v \<or> valid_egress d v)"

text \<open>The row is up to its volatile columns still the one that was read.\<close>

definition same_vm :: "vm \<Rightarrow> vm \<Rightarrow> bool" where
  "same_vm u v \<longleftrightarrow> identity u = identity v \<and> same_size u v \<and> same_egress u v"

lemma same_vm_refl [simp]: "same_vm v v"
  by (simp add: same_vm_def same_size_def same_egress_def)

lemma same_vm_sym: "same_vm u v \<Longrightarrow> same_vm v u"
  by (simp add: same_vm_def same_size_def same_egress_def)

lemma same_vm_trans: "same_vm u v \<Longrightarrow> same_vm v z \<Longrightarrow> same_vm u z"
  by (simp add: same_vm_def same_size_def same_egress_def)

lemma same_vm_may: "same_vm u v \<Longrightarrow> may_become d u v"
  by (simp add: same_vm_def may_become_def)

lemma identity_simps [simp]:
  "vm_ID (identity v) = vm_ID v" "vm_Name (identity v) = vm_Name v" "vm_SSHPort (identity v) = vm_SSHPort v"
  "vm_NetworkMode (identity v) = vm_NetworkMode v" "vm_NetworkID (identity v) = vm_NetworkID v"
  "vm_HostIP (identity v) = vm_HostIP v" "vm_GuestIP (identity v) = vm_GuestIP v" "vm_CIDR (identity v) = vm_CIDR v"
  "vm_BaseImageID (identity v) = vm_BaseImageID v" "vm_KernelID (identity v) = vm_KernelID v"
  by (simp_all add: identity_def)

lemma identity_fields:
  assumes "identity u = identity v"
  shows "vm_ID u = vm_ID v" "vm_Name u = vm_Name v" "vm_SSHPort u = vm_SSHPort v" "vm_NetworkMode u = vm_NetworkMode v"
    "vm_NetworkID u = vm_NetworkID v" "vm_HostIP u = vm_HostIP v" "vm_GuestIP u = vm_GuestIP v" "vm_CIDR u = vm_CIDR v"
    "vm_BaseImageID u = vm_BaseImageID v" "vm_KernelID u = vm_KernelID v"
  using arg_cong [OF assms, of vm_ID] arg_cong [OF assms, of vm_Name] arg_cong [OF assms, of vm_SSHPort]
    arg_cong [OF assms, of vm_NetworkMode] arg_cong [OF assms, of vm_NetworkID] arg_cong [OF assms, of vm_HostIP]
    arg_cong [OF assms, of vm_GuestIP] arg_cong [OF assms, of vm_CIDR] arg_cong [OF assms, of vm_BaseImageID]
    arg_cong [OF assms, of vm_KernelID]
  by (simp_all only: identity_simps)

lemma same_vm_ID: "same_vm u v \<Longrightarrow> vm_ID u = vm_ID v"
  unfolding same_vm_def using identity_fields(1) by blast

text \<open>The updates of the volatile columns.\<close>

lemma same_vm_upd [simp]:
  "same_vm u (v\<lparr>vm_State := st\<rparr>) = same_vm u v"
  "same_vm u (v\<lparr>vm_TapName := s\<rparr>) = same_vm u v"
  "same_vm u (v\<lparr>vm_LastError := s\<rparr>) = same_vm u v"
  "same_vm u (v\<lparr>vm_UpdatedAt := t\<rparr>) = same_vm u v"
  "same_vm u (v\<lparr>vm_LastStartedAt := o1\<rparr>) = same_vm u v"
  "same_vm u (v\<lparr>vm_LastStoppedAt := o1\<rparr>) = same_vm u v"
  "same_vm u (v\<lparr>vm_DevUser := s\<rparr>) = same_vm u v"
  "same_vm u (v\<lparr>vm_ManagedSSHPublicKey := s\<rparr>) = same_vm u v"
  "same_vm u (v\<lparr>vm_ManagedSSHPrivateKeyPath := s\<rparr>) = same_vm u v"
  by (simp_all add: same_vm_def same_size_def same_egress_def identity_def)

lemma may_become_updated [simp]: "may_become d u (v\<lparr>vm_UpdatedAt := t\<rparr>) = may_become d u v"
  by (simp add: may_become_def same_size_def same_egress_def valid_size_def valid_egress_def identity_def)

section \<open>Steps\<close>

text \<open>A VM's address: a free /30 of its own or a host address of its shared network.\<close>

definition fresh_address :: "db \<Rightarrow> vm \<Rightarrow> bool" where
  "fresh_address d v \<longleftrightarrow> (\<exists>b. routed_at v b \<and> p2p_free (guest_ips d) (shared_nets d) b)
     \<or> (\<exists>n \<in> set (networks d). shared_in v n)"

definition fresh_port :: "db \<Rightarrow> vm \<Rightarrow> bool" where
  "fresh_port d v \<longleftrightarrow> - (2 ^ 63) \<le> vm_SSHPort v \<and> vm_SSHPort v < 2 ^ 63
     \<and> vm_SSHPort v \<notin> ing_HostPort ` set (ingress_rules d)"

definition known_parts :: "db \<Rightarrow> vm \<Rightarrow> bool" where
  "known_parts d v \<longleftrightarrow> vm_BaseImageID v \<in> img_ID ` set (base_images d) \<and> vm_KernelID v \<in> krn_ID ` set (kernels d)"

text \<open>The rows that a VM names stay: no image or kernel in use goes.\<close>

definition parts_kept :: "db \<Rightarrow> db \<Rightarrow> bool" where
  "parts_kept d d' \<longleftrightarrow> (\<forall>v \<in> set (vms d). known_parts d v \<longrightarrow> known_parts d' v)"

inductive db_step :: "db \<Rightarrow> db \<Rightarrow> bool" where
  vm_written: "tbl_update vms_uniq (\<lambda>v. vm_ID v = vm_ID vm) (\<lambda>_. vm) (vms d) = Inr rows \<Longrightarrow>
      \<forall>u \<in> set (vms d). vm_ID u = vm_ID vm \<longrightarrow> may_become d u vm \<Longrightarrow> db_step d (d\<lparr>vms := rows\<rparr>)"
| vm_created: "tbl_insert vms_uniq vm (vms d) = Inr rows \<Longrightarrow> fresh_address d vm \<Longrightarrow> fresh_port d vm \<Longrightarrow>
      valid_size vm \<Longrightarrow> valid_egress d vm \<Longrightarrow> known_parts d vm \<Longrightarrow> vm_State vm = VMStopped \<Longrightarrow>
      db_step d (d\<lparr>vms := rows\<rparr>)"
| vm_deleted: "\<forall>r \<in> set (ingress_rules d). ing_VMID r \<noteq> vid \<Longrightarrow> \<forall>j \<in> set (vm_exec_jobs d). exe_VMID j \<noteq> vid \<Longrightarrow>
      db_step d (d\<lparr>vms := tbl_delete (\<lambda>v. vm_ID v = vid) (vms d)\<rparr>)"
| network_created: "tbl_insert networks_uniq n (networks d) = Inr rows \<Longrightarrow> network_at n b k \<Longrightarrow>
      \<forall>r \<in> set (owners d). \<not> cidrOverlaps (mk_net b k) (own_net r) \<Longrightarrow> db_step d (d\<lparr>networks := rows\<rparr>)"
| network_deleted: "\<forall>v \<in> set (vms d). vm_NetworkID v \<noteq> nid \<Longrightarrow>
      db_step d (d\<lparr>networks := tbl_delete (\<lambda>n. nw_ID n = nid) (networks d)\<rparr>)"
| policy_created: "tbl_insert egress_policies_uniq p (egress_policies d) = Inr rows \<Longrightarrow>
      db_step d (d\<lparr>egress_policies := rows\<rparr>)"
| policy_deleted: "\<forall>v \<in> set (vms d). vm_EgressPolicyID v \<noteq> pid \<Longrightarrow>
      db_step d (d\<lparr>egress_policies := tbl_delete (\<lambda>p. ep_ID p = pid) (egress_policies d)\<rparr>)"
| rule_created: "tbl_insert ingress_rules_uniq r (ingress_rules d) = Inr rows \<Longrightarrow> ing_VMID r \<in> vm_ID ` set (vms d) \<Longrightarrow>
      ing_HostPort r \<notin> vm_SSHPort ` set (vms d) \<Longrightarrow> 1 \<le> ing_HostPort r \<Longrightarrow> ing_HostPort r \<le> 65535 \<Longrightarrow>
      1 \<le> ing_GuestPort r \<Longrightarrow> ing_GuestPort r \<le> 65535 \<Longrightarrow> db_step d (d\<lparr>ingress_rules := rows\<rparr>)"
| rules_deleted: "db_step d (d\<lparr>ingress_rules := tbl_delete P (ingress_rules d)\<rparr>)"
| jobs_changed: "uniq_ok vm_exec_jobs_uniq rows \<Longrightarrow>
      exe_VMID ` set rows \<subseteq> exe_VMID ` set (vm_exec_jobs d) \<union> vm_ID ` set (vms d) \<Longrightarrow>
      db_step d (d\<lparr>vm_exec_jobs := rows\<rparr>)"
| kernel_backfilled: "kid \<in> krn_ID ` set (kernels d) \<Longrightarrow>
      tbl_update vms_uniq (\<lambda>v. vm_KernelID v = '''' \<and> vm_KernelPath v = path) (\<lambda>v. v\<lparr>vm_KernelID := kid\<rparr>) (vms d) = Inr rows \<Longrightarrow>
      db_step d (d\<lparr>vms := rows\<rparr>)"
| key_backfilled: "kid \<in> key_ID ` set (ssh_keys d) \<Longrightarrow>
      tbl_update vms_uniq (\<lambda>v. vm_ID v = vid) (\<lambda>v. v\<lparr>vm_SSHKeyID := kid, vm_ManagedSSHPublicKey := key\<rparr>) (vms d) = Inr rows \<Longrightarrow>
      db_step d (d\<lparr>vms := rows\<rparr>)"
| other: "vms d' = vms d \<Longrightarrow> networks d' = networks d \<Longrightarrow> ingress_rules d' = ingress_rules d \<Longrightarrow>
      egress_policies d' = egress_policies d \<Longrightarrow> vm_exec_jobs d' = vm_exec_jobs d \<Longrightarrow> parts_kept d d' \<Longrightarrow>
      db_ok d' \<Longrightarrow> db_step d d'"

lemma db_step_ok: "db_step d d' \<Longrightarrow> db_ok d \<Longrightarrow> db_ok d'"
  by (induction rule: db_step.induct)
    (simp_all add: db_ok_def tbl_update_uniq tbl_insert_uniq tbl_delete_uniq)

definition db_steps :: "db \<Rightarrow> db \<Rightarrow> bool" where
  "db_steps = db_step\<^sup>*\<^sup>*"

lemma db_steps_refl [simp]: "db_steps d d" by (simp add: db_steps_def)
lemma db_steps_trans: "db_steps d e \<Longrightarrow> db_steps e f \<Longrightarrow> db_steps d f" by (simp add: db_steps_def)
lemma db_steps_step: "db_steps d e \<Longrightarrow> db_step e f \<Longrightarrow> db_steps d f" by (simp add: db_steps_def)

lemma db_steps_ok: "db_steps d d' \<Longrightarrow> db_ok d \<Longrightarrow> db_ok d'"
  unfolding db_steps_def by (induction rule: rtranclp_induct) (auto dest: db_step_ok)

section \<open>Invariants\<close>

locale db_invariant =
  fixes I :: "db \<Rightarrow> bool"
  assumes initial: "I empty_db"
    and step: "db_step d d' \<Longrightarrow> db_ok d \<Longrightarrow> I d \<Longrightarrow> I d'"
begin

lemma steps:
  assumes "db_steps d d'" "db_ok d" "I d"
  shows "I d'"
proof -
  have "db_ok d' \<and> I d'" using assms(1) unfolding db_steps_def
    by (induction rule: rtranclp_induct) (use assms(2,3) step db_step_ok in auto)
  then show ?thesis by simp
qed

lemma reachable: "db_steps empty_db d \<Longrightarrow> I d"
  by (rule steps [OF _ empty_db_ok initial])

end


lemma written_rows:
  assumes "tbl_update vms_uniq (\<lambda>v. vm_ID v = vm_ID vm) (\<lambda>_. vm) (vms d) = Inr rows"
    "\<forall>u \<in> set (vms d). vm_ID u = vm_ID vm \<longrightarrow> may_become d u vm"
  shows "\<forall>r \<in> set rows. \<exists>u \<in> set (vms d). may_become d u r" "vm_ID ` set rows = vm_ID ` set (vms d)"
proof -
  have rows: "rows = map (\<lambda>v. if vm_ID v = vm_ID vm then vm else v) (vms d)" using assms(1) by (rule tbl_update_Inr)
  show "\<forall>r \<in> set rows. \<exists>u \<in> set (vms d). may_become d u r"
    using assms(2) same_vm_may [OF same_vm_refl] by (auto simp: rows)
  show "vm_ID ` set rows = vm_ID ` set (vms d)" unfolding rows set_map image_image
    by (intro image_cong refl) simp
qed

lemma may_become_identity: "may_become d u v \<Longrightarrow> identity u = identity v"
  by (simp add: may_become_def)

subsection \<open>The address and port plan\<close>

definition plan_ok :: "db \<Rightarrow> bool" where
  "plan_ok d \<longleftrightarrow> net_ok d \<and> ports_ok d"

lemma identity_net_fields: "identity u = identity v \<Longrightarrow> net_fields u = net_fields v"
  using identity_fields [of u v] by (simp add: net_fields_def)

lemma plan_rows:
  assumes r: "\<And>r. r \<in> set rows \<Longrightarrow> \<exists>u \<in> set (vms d). net_fields u = net_fields r \<and> vm_SSHPort u = vm_SSHPort r"
    and ok: "plan_ok d"
  shows "plan_ok (d\<lparr>vms := rows\<rparr>)"
proof -
  have "net_ok (d\<lparr>vms := rows\<rparr>)"
  proof (rule net_ok_cong)
    show "net_fields ` set (vms (d\<lparr>vms := rows\<rparr>)) \<subseteq> net_fields ` set (vms d)"
      using r by (simp add: image_subset_iff) (metis image_eqI)
  qed (use ok in \<open>simp_all add: plan_ok_def\<close>)
  moreover have "ports_ok (d\<lparr>vms := rows\<rparr>)"
    unfolding ports_ok_def
  proof (intro conjI ballI)
    fix v assume "v \<in> set (vms (d\<lparr>vms := rows\<rparr>))"
    then obtain u where u: "u \<in> set (vms d)" "vm_SSHPort u = vm_SSHPort v" using r by auto
    then show "- (2 ^ 63) \<le> vm_SSHPort v" "vm_SSHPort v < 2 ^ 63"
      using ok unfolding plan_ok_def ports_ok_def by metis+
    show "vm_SSHPort v \<noteq> ing_HostPort i" if "i \<in> set (ingress_rules (d\<lparr>vms := rows\<rparr>))" for i
    proof -
      have "vm_SSHPort u \<noteq> ing_HostPort i"
        using u(1) ok that unfolding plan_ok_def ports_ok_def by (simp del: not_None_eq)
      then show ?thesis using u(2) by simp
    qed
  qed (use ok in \<open>simp_all add: plan_ok_def ports_ok_def\<close>)
  ultimately show ?thesis by (simp add: plan_ok_def)
qed

lemma plan_vm_written:
  assumes w: "tbl_update vms_uniq (\<lambda>v. vm_ID v = vm_ID vm) (\<lambda>_. vm) (vms d) = Inr rows"
    "\<forall>u \<in> set (vms d). vm_ID u = vm_ID vm \<longrightarrow> may_become d u vm" and ok: "plan_ok d"
  shows "plan_ok (d\<lparr>vms := rows\<rparr>)"
  by (rule plan_rows [OF _ ok]) (meson w written_rows(1) may_become_identity identity_net_fields identity_fields(3))

text \<open>A VM whose kernel is filled in, and how a table of VMs looks after it.\<close>

lemma backfilled_rows:
  assumes "tbl_update vms_uniq (\<lambda>v. vm_KernelID v = '''' \<and> vm_KernelPath v = path) (\<lambda>v. v\<lparr>vm_KernelID := kid\<rparr>) (vms d) = Inr rows"
    "r \<in> set rows"
  shows "\<exists>u \<in> set (vms d). r = u \<or> r = u\<lparr>vm_KernelID := kid\<rparr>"
  using assms(2) unfolding tbl_update_Inr [OF assms(1)] by auto

lemma keyed_rows:
  assumes "tbl_update vms_uniq (\<lambda>v. vm_ID v = vid) (\<lambda>v. v\<lparr>vm_SSHKeyID := kid, vm_ManagedSSHPublicKey := key\<rparr>) (vms d) = Inr rows"
    "r \<in> set rows"
  shows "\<exists>u \<in> set (vms d). r = u \<or> r = u\<lparr>vm_SSHKeyID := kid, vm_ManagedSSHPublicKey := key\<rparr>"
  using assms(2) unfolding tbl_update_Inr [OF assms(1)] by auto

lemma net_ok_vm_created: "net_ok d \<Longrightarrow> fresh_address d vm \<Longrightarrow> net_ok (d\<lparr>vms := vms d @ [vm]\<rparr>)"
  unfolding fresh_address_def using net_ok_insert_routed net_ok_insert_shared by blast

lemma plan_step: "db_step d d' \<Longrightarrow> plan_ok d \<Longrightarrow> plan_ok d'"
proof (induction rule: db_step.induct)
  case (vm_written vm d rows)
  then show ?case using plan_vm_written by blast
next
  case (vm_created vm d rows)
  then show ?case using net_ok_vm_created [of d vm]
    by (auto simp: plan_ok_def ports_ok_def fresh_port_def dest!: tbl_insert_Inr)
next
  case (vm_deleted d vid)
  have "net_ok (d\<lparr>vms := tbl_delete (\<lambda>v. vm_ID v = vid) (vms d)\<rparr>)"
    by (rule net_ok_cong [of d]) (use vm_deleted in \<open>auto simp: plan_ok_def tbl_delete_def\<close>)
  then show ?case using vm_deleted by (auto simp: plan_ok_def ports_ok_def tbl_delete_def)
next
  case (network_created n d rows b k)
  then show ?case using net_ok_insert_network [of d n b k]
    by (auto simp: plan_ok_def ports_ok_def dest!: tbl_insert_Inr)
next
  case (network_deleted d nid)
  have "net_ok d" "ports_ok d" using network_deleted(2) by (simp_all add: plan_ok_def)
  then show ?case using net_ok_delete_network [OF _ network_deleted(1)] by (simp add: plan_ok_def ports_ok_def)
next
  case (rule_created r d rows)
  have "net_ok (d\<lparr>ingress_rules := rows\<rparr>)"
    by (rule net_ok_cong [of d]) (use rule_created in \<open>auto simp: plan_ok_def\<close>)
  moreover have "rows = ingress_rules d @ [r]" using rule_created(1) by (auto dest: tbl_insert_Inr)
  moreover have "\<forall>v \<in> set (vms d). vm_SSHPort v \<noteq> ing_HostPort r" using rule_created(3) by (auto simp: image_iff)
  ultimately show ?case using rule_created(4,5) rule_created.prems by (simp add: plan_ok_def ports_ok_def)
next
  case (kernel_backfilled kid d path rows)
  have "\<exists>u \<in> set (vms d). net_fields u = net_fields r \<and> vm_SSHPort u = vm_SSHPort r" if "r \<in> set rows" for r
    using backfilled_rows [OF kernel_backfilled(2) that] by (elim bexE) (rule bexI, auto simp: net_fields_def)
  then show ?case by (rule plan_rows [OF _ kernel_backfilled.prems])
next
  case (key_backfilled kid d vid key rows)
  have "\<exists>u \<in> set (vms d). net_fields u = net_fields r \<and> vm_SSHPort u = vm_SSHPort r" if "r \<in> set rows" for r
    using keyed_rows [OF key_backfilled(2) that] by (elim bexE) (rule bexI, auto simp: net_fields_def)
  then show ?case by (rule plan_rows [OF _ key_backfilled.prems])
next
  case (rules_deleted d P)
  have "net_ok (d\<lparr>ingress_rules := tbl_delete P (ingress_rules d)\<rparr>)"
    by (rule net_ok_cong [of d]) (use rules_deleted in \<open>auto simp: plan_ok_def\<close>)
  then show ?case using rules_deleted by (auto simp: plan_ok_def ports_ok_def tbl_delete_def)
next
  case (policy_created p d rows)
  then show ?case using net_ok_cong [of d "d\<lparr>egress_policies := rows\<rparr>"] by (simp add: plan_ok_def ports_ok_def)
next
  case (policy_deleted d pid)
  then show ?case using net_ok_cong [of d "d\<lparr>egress_policies := tbl_delete (\<lambda>p. ep_ID p = pid) (egress_policies d)\<rparr>"]
    by (simp add: plan_ok_def ports_ok_def)
next
  case (jobs_changed rows d)
  then show ?case using net_ok_cong [of d "d\<lparr>vm_exec_jobs := rows\<rparr>"] by (simp add: plan_ok_def ports_ok_def)
next
  case (other d' d)
  then show ?case using net_ok_cong [of d d'] by (simp add: plan_ok_def ports_ok_def)
qed

interpretation plan: db_invariant plan_ok
proof
  show "plan_ok empty_db" by (simp add: plan_ok_def net_ok_def ports_ok_def empty_db_def)
qed (rule plan_step)

subsection \<open>Sizes\<close>

definition sizes_ok :: "db \<Rightarrow> bool" where
  "sizes_ok d \<longleftrightarrow> (\<forall>v \<in> set (vms d). valid_size v)"

interpretation sizes: db_invariant sizes_ok
proof
  show "sizes_ok empty_db" by (simp add: sizes_ok_def empty_db_def)
  show "db_step d d' \<Longrightarrow> sizes_ok d \<Longrightarrow> sizes_ok d'" for d d'
  proof (induction rule: db_step.induct)
    case (vm_written vm d rows)
    then show ?case
      using written_rows(1) [OF vm_written(1,2)]
      by (fastforce simp: sizes_ok_def may_become_def same_size_def valid_size_def)
  next
    case (kernel_backfilled kid d path rows)
    have "valid_size r" if "r \<in> set rows" for r
      using backfilled_rows [OF kernel_backfilled(2) that] kernel_backfilled.prems by (auto simp: sizes_ok_def valid_size_def)
    then show ?case by (simp add: sizes_ok_def)
  next
    case (key_backfilled kid d vid key rows)
    have "valid_size r" if "r \<in> set rows" for r
      using keyed_rows [OF key_backfilled(2) that] key_backfilled.prems by (auto simp: sizes_ok_def valid_size_def)
    then show ?case by (simp add: sizes_ok_def)
  qed (auto simp: sizes_ok_def tbl_delete_def dest!: tbl_insert_Inr)
qed

subsection \<open>Links between rows\<close>

text \<open>
  Every ingress rule and exec job belongs to a VM; a VM's mode is that of the policy it names, or one
  of the two modes without a policy; its image and its kernel exist.
\<close>

definition links_ok :: "db \<Rightarrow> bool" where
  "links_ok d \<longleftrightarrow> (\<forall>r \<in> set (ingress_rules d). ing_VMID r \<in> vm_ID ` set (vms d))
     \<and> (\<forall>j \<in> set (vm_exec_jobs d). exe_VMID j \<in> vm_ID ` set (vms d))
     \<and> (\<forall>v \<in> set (vms d). valid_egress d v \<and> known_parts d v)"

lemma valid_egress_upd [simp]:
  "valid_egress (d\<lparr>vms := x1\<rparr>) v = valid_egress d v" "valid_egress (d\<lparr>networks := x2\<rparr>) v = valid_egress d v"
  "valid_egress (d\<lparr>ingress_rules := x3\<rparr>) v = valid_egress d v" "valid_egress (d\<lparr>vm_exec_jobs := x4\<rparr>) v = valid_egress d v"
  by (simp_all add: valid_egress_def)

lemma known_parts_upd [simp]:
  "known_parts (d\<lparr>vms := x1\<rparr>) v = known_parts d v" "known_parts (d\<lparr>networks := x2\<rparr>) v = known_parts d v"
  "known_parts (d\<lparr>ingress_rules := x3\<rparr>) v = known_parts d v" "known_parts (d\<lparr>vm_exec_jobs := x4\<rparr>) v = known_parts d v"
  "known_parts (d\<lparr>egress_policies := x5\<rparr>) v = known_parts d v"
  by (simp_all add: known_parts_def)

lemma valid_egress_same: "same_egress u v \<Longrightarrow> valid_egress d u = valid_egress d v"
  by (simp add: same_egress_def valid_egress_def)

lemma known_parts_identity:
  assumes "identity u = identity v"
  shows "known_parts d u = known_parts d v"
  unfolding known_parts_def identity_fields(9,10) [OF assms] by (rule refl)

lemma links_vm_written:
  assumes w: "tbl_update vms_uniq (\<lambda>v. vm_ID v = vm_ID vm) (\<lambda>_. vm) (vms d) = Inr rows"
    "\<forall>u \<in> set (vms d). vm_ID u = vm_ID vm \<longrightarrow> may_become d u vm" and ok: "links_ok d"
  shows "links_ok (d\<lparr>vms := rows\<rparr>)"
proof -
  have "valid_egress d r \<and> known_parts d r" if "r \<in> set rows" for r
  proof -
    from bspec [OF written_rows(1) [OF w] that] obtain u where u: "u \<in> set (vms d)" "may_become d u r" ..
    have "\<forall>z \<in> set (vms d). valid_egress d z \<and> known_parts d z" using ok unfolding links_ok_def by blast
    then have "valid_egress d u" "known_parts d u" using u(1) by blast+
    moreover have "identity u = identity r" "same_egress u r \<or> valid_egress d r"
      using u(2) by (simp_all add: may_become_def)
    ultimately show ?thesis using valid_egress_same [of u r d] known_parts_identity [of u r d] by auto
  qed
  then show ?thesis using ok written_rows(2) [OF w] by (simp add: links_ok_def)
qed

lemma links_step: "db_step d d' \<Longrightarrow> links_ok d \<Longrightarrow> links_ok d'"
proof (induction rule: db_step.induct)
  case (vm_written vm d rows)
  then show ?case using links_vm_written by blast
next
  case (vm_deleted d vid)
  then show ?case by (fastforce simp: links_ok_def tbl_delete_def)
next
  case (policy_created p d rows)
  then show ?case by (auto simp: links_ok_def valid_egress_def dest!: tbl_insert_Inr)
next
  case (policy_deleted d pid)
  have "valid_egress (d\<lparr>egress_policies := tbl_delete (\<lambda>p. ep_ID p = pid) (egress_policies d)\<rparr>) v"
    if v: "v \<in> set (vms d)" for v
  proof -
    have "valid_egress d v" "vm_EgressPolicyID v \<noteq> pid" using policy_deleted v by (simp_all add: links_ok_def)
    moreover from this(2) have "ep_ID p = vm_EgressPolicyID v \<Longrightarrow> ep_ID p \<noteq> pid" for p by simp
    ultimately show ?thesis unfolding valid_egress_def tbl_delete_def by (simp split: if_splits) blast
  qed
  then show ?case using policy_deleted by (simp add: links_ok_def)
next
  case (jobs_changed rows d)
  then show ?case by (auto simp: links_ok_def)
next
  case (kernel_backfilled kid d path rows)
  have "valid_egress d r \<and> known_parts d r" if "r \<in> set rows" for r
    using backfilled_rows [OF kernel_backfilled(2) that] kernel_backfilled.prems kernel_backfilled(1)
    by (auto simp: links_ok_def valid_egress_def known_parts_def)
  moreover have "vm_ID ` set rows = vm_ID ` set (vms d)"
    unfolding tbl_update_Inr [OF kernel_backfilled(2)] set_map image_image by (intro image_cong refl) simp
  ultimately show ?case using kernel_backfilled.prems unfolding links_ok_def by simp
next
  case (key_backfilled kid d vid key rows)
  have "valid_egress d r \<and> known_parts d r" if "r \<in> set rows" for r
    using keyed_rows [OF key_backfilled(2) that] key_backfilled.prems
    by (auto simp: links_ok_def valid_egress_def known_parts_def)
  moreover have "vm_ID ` set rows = vm_ID ` set (vms d)"
    unfolding tbl_update_Inr [OF key_backfilled(2)] set_map image_image by (intro image_cong refl) simp
  ultimately show ?case using key_backfilled.prems unfolding links_ok_def by simp
next
  case (other d' d)
  then show ?case by (auto simp: links_ok_def parts_kept_def valid_egress_def)
qed (auto simp: links_ok_def tbl_delete_def dest!: tbl_insert_Inr)

interpretation links: db_invariant links_ok
proof
  show "links_ok empty_db" by (simp add: links_ok_def empty_db_def)
qed (rule links_step)

text \<open>The invariant that the operations themselves rely on.\<close>

definition good :: "db \<Rightarrow> bool" where
  "good d \<longleftrightarrow> db_ok d \<and> plan_ok d"

lemma good_empty: "good empty_db"
  by (simp add: good_def empty_db_ok plan.initial)

lemma good_step: "db_step d d' \<Longrightarrow> good d \<Longrightarrow> good d'"
  by (simp add: good_def db_step_ok plan_step)

lemma good_steps: "db_steps d d' \<Longrightarrow> good d \<Longrightarrow> good d'"
  using db_steps_ok plan.steps by (auto simp: good_def)

end
