(* ===== verification/Plan.thy ===== *)
theory Plan
  imports Evolution
begin

text \<open>
  Every operation of \<open>Lifecycle\<close> is a sequence of steps of \<open>Evolution\<close>. A function that writes a VM's
  row back does it from the record it read: \<open>tracked\<close> says that the rows of the records read so far
  are still theirs up to the volatile columns, and \<open>kept\<close> that a computation leaves it so.
\<close>

section \<open>Computations as steps\<close>

text \<open>Whatever the host answers, and whether the run succeeds or fails, the database makes steps.\<close>

definition evolves :: "'a io \<Rightarrow> bool" where
  "evolves m \<longleftrightarrow> (\<forall>w. good (database w) \<longrightarrow> db_steps (database w) (database (snd (m w))))"

context db_invariant
begin

lemma evolves_keeps:
  "evolves m \<Longrightarrow> good (database w) \<Longrightarrow> I (database w) \<Longrightarrow> I (database (snd (m w)))"
  using steps by (auto simp: evolves_def good_def)

end

section \<open>Tracked rows\<close>

definition tracked :: "db \<Rightarrow> vm set \<Rightarrow> db \<Rightarrow> bool" where
  "tracked d0 S d \<longleftrightarrow> good d \<and> db_steps d0 d \<and>
     (\<forall>v \<in> S. \<forall>u \<in> set (vms d). vm_ID u = vm_ID v \<longrightarrow> same_vm u v)"

lemma tracked_mono: "tracked d0 S d \<Longrightarrow> T \<subseteq> S \<Longrightarrow> tracked d0 T d"
  unfolding tracked_def by blast

definition kept :: "db \<Rightarrow> vm set \<Rightarrow> 'a io \<Rightarrow> bool" where
  "kept d0 S m \<longleftrightarrow> triple (tracked d0 S) (tracked d0 S) m (\<lambda>_. tracked d0 S)"

lemma kept_evolves:
  assumes k: "\<And>d0. kept d0 {} m"
  shows "evolves m"
  unfolding evolves_def
proof (intro allI impI)
  fix w :: world assume d: "good (database w)"
  obtain r w' where m: "m w = (r, w')" by fastforce
  have "tracked (database w) {} (database w)" using d by (simp add: tracked_def)
  with k [of "database w"] m have "tracked (database w) {} (database w')"
    by (cases r) (auto simp: kept_def dest: triple_ok triple_err)
  then show "db_steps (database w) (database (snd (m w)))" using m by (simp add: tracked_def)
qed

lemma kept_ro: "ro_io m \<Longrightarrow> kept d0 S m"
  unfolding kept_def by (rule triple_ro)

lemma kept_ignore: "kept d0 S m \<Longrightarrow> kept d0 S (ignoreE m)"
  unfolding kept_def by (rule triple_ignore)

lemma triple_bind_fact:
  assumes m: "triple J D m (\<lambda>_. E)" and J: "\<And>d. J d \<Longrightarrow> I d" and A: "\<And>w x w'. m w = (Inr x, w') \<Longrightarrow> A x"
    and f: "\<And>x. A x \<Longrightarrow> triple I E (f x) Q"
  shows "triple I D (bindE m f) Q"
proof (rule tripleI)
  fix w e w' assume d: "D (database w)" and "bindE m f w = (Inl e, w')"
  then consider "m w = (Inl e, w')" | x v where "m w = (Inr x, v)" "f x v = (Inl e, w')" by (auto simp: io_run)
  then show "I (database w')"
  proof cases
    case 1
    show ?thesis by (rule J [OF triple_err [OF m d 1]])
  next
    case 2
    show ?thesis by (rule triple_err [OF f [OF A [OF 2(1)]] triple_ok [OF m d 2(1)] 2(2)])
  qed
next
  fix w y w' assume d: "D (database w)" and "bindE m f w = (Inr y, w')"
  then obtain x v where 2: "m w = (Inr x, v)" "f x v = (Inr y, w')" by (auto simp: io_run)
  show "Q y (database w')" by (rule triple_ok [OF f [OF A [OF 2(1)]] triple_ok [OF m d 2(1)] 2(2)])
qed

text \<open>How a computation goes on: what comes next may rely on the rows tracked so far.\<close>

lemma go_bind:
  "kept d0 S m \<Longrightarrow> T \<subseteq> S \<Longrightarrow> (\<And>x. triple (tracked d0 T) (tracked d0 S) (f x) Q) \<Longrightarrow>
     triple (tracked d0 T) (tracked d0 S) (bindE m f) Q"
  unfolding kept_def
  by (rule triple_bind_fact [where J = "tracked d0 S" and A = "\<lambda>_. True"]) (auto intro: tracked_mono)

lemma go_seq:
  "kept d0 S m \<Longrightarrow> T \<subseteq> S \<Longrightarrow> triple (tracked d0 T) (tracked d0 S) n Q \<Longrightarrow>
     triple (tracked d0 T) (tracked d0 S) (seqE m n) Q"
  unfolding seqE_def by (rule go_bind)

lemma go_end: "kept d0 S m \<Longrightarrow> T \<subseteq> S \<Longrightarrow> triple (tracked d0 T) (tracked d0 S) m (\<lambda>_. tracked d0 T)"
  unfolding kept_def by (rule tripleI) (auto dest: triple_err triple_ok intro: tracked_mono)

lemma go_throw: "T \<subseteq> S \<Longrightarrow> triple (tracked d0 T) (tracked d0 S) (throwE e) Q"
  by (rule triple_throw) (rule tracked_mono)

lemma go_lift:
  "T \<subseteq> S \<Longrightarrow> (\<And>x. r = Inr x \<Longrightarrow> triple (tracked d0 T) (tracked d0 S) (f x) Q) \<Longrightarrow>
     triple (tracked d0 T) (tracked d0 S) (bindE (liftE r) f) Q"
  by (rule triple_bind_fact [where A = "\<lambda>x. r = Inr x", OF triple_ro [OF ro_lift]])
    (auto simp: io_run intro: tracked_mono)

lemma kept_seq: "kept d0 S m \<Longrightarrow> kept d0 S n \<Longrightarrow> kept d0 S (seqE m n)"
  unfolding kept_def by (rule go_seq [unfolded kept_def]) simp_all

lemma kept_bind: "kept d0 S m \<Longrightarrow> (\<And>x. kept d0 S (f x)) \<Longrightarrow> kept d0 S (bindE m f)"
  unfolding kept_def by (rule go_bind [unfolded kept_def]) simp_all

section \<open>Reading and writing a VM\<close>

lemma require_vm_reads:
  assumes "require_vm vid w = (Inr vm, w')"
  shows "vm \<in> set (vms (database w)) \<and> vm_ID vm = vid \<and> database w' = database w"
proof -
  have "database w' = database w" using assms ro_db [OF ro_require_vm] by blast
  then show ?thesis using assms by (auto simp: require_vm_def store_GetVM_def io_run dest!: find_SomeD)
qed

lemma row_same_vm:
  assumes "good d" "v \<in> set (vms d)" "u \<in> set (vms d)" "vm_ID u = vm_ID v"
  shows "same_vm u v"
  using vms_tbl.same_key [OF _ assms(3,2,4)] assms(1) by (simp add: good_def db_ok_def)

lemma tracked_row: "tracked d0 S d \<Longrightarrow> v \<in> set (vms d) \<Longrightarrow> tracked d0 (insert v S) d"
  unfolding tracked_def using row_same_vm [of d v] by auto

lemma go_require_vm:
  assumes "T \<subseteq> S" "\<And>vm. vm_ID vm = vid \<Longrightarrow> triple (tracked d0 T) (tracked d0 (insert vm S)) (f vm) Q"
  shows "triple (tracked d0 T) (tracked d0 S) (bindE (require_vm vid) f) Q"
proof (rule tripleI)
  fix w e w' assume t: "tracked d0 S (database w)" and "bindE (require_vm vid) f w = (Inl e, w')"
  then consider "require_vm vid w = (Inl e, w')"
    | vm v where "require_vm vid w = (Inr vm, v)" "f vm v = (Inl e, w')" by (auto simp: io_run)
  then show "tracked d0 T (database w')"
  proof cases
    case 1
    then show ?thesis using t assms(1) ro_db [OF ro_require_vm] by (metis tracked_mono)
  next
    case 2
    then show ?thesis using require_vm_reads [OF 2(1)] tracked_row [OF t] triple_err [OF assms(2) _ 2(2)] by simp
  qed
next
  fix w x w' assume t: "tracked d0 S (database w)" and "bindE (require_vm vid) f w = (Inr x, w')"
  then obtain vm v where "require_vm vid w = (Inr vm, v)" "f vm v = (Inr x, w')" by (auto simp: io_run)
  then show "Q x (database w')"
    using require_vm_reads [of vid w vm v] tracked_row [OF t] triple_ok [OF assms(2), of vm v x w'] by simp
qed

lemma store_UpdateVM_db:
  assumes "store_UpdateVM vm w = (r, w')"
  shows "case r of Inl _ \<Rightarrow> database w' = database w
    | Inr _ \<Rightarrow> \<exists>t rows. tbl_update vms_uniq (\<lambda>v. vm_ID v = vm_ID vm) (\<lambda>_. vm\<lparr>vm_UpdatedAt := t\<rparr>) (vms (database w)) = Inr rows
        \<and> database w' = (database w)\<lparr>vms := rows\<rparr>"
proof -
  obtain t where "exec ''UPDATE vms'' (\<lambda>d. put (tbl_update vms_uniq (\<lambda>v. vm_ID v = vm_ID vm)
      (\<lambda>_. vm\<lparr>vm_UpdatedAt := t\<rparr>) (vms d)) (\<lambda>rows. d\<lparr>vms := rows\<rparr>)) (snd (Now w)) = (r, w')"
    using assms by (auto simp: store_UpdateVM_def bindE_def Now_def)
  from exec_db [OF this] show ?thesis
    by (auto simp: put_Inr Now_def split: sum.splits)
qed

lemma write_step:
  assumes u: "tbl_update vms_uniq (\<lambda>v. vm_ID v = vm_ID vm) (\<lambda>_. vm\<lparr>vm_UpdatedAt := t\<rparr>) (vms d) = Inr rows"
    and m: "\<forall>u \<in> set (vms d). vm_ID u = vm_ID vm \<longrightarrow> may_become d u vm"
  shows "db_step d (d\<lparr>vms := rows\<rparr>)"
proof -
  have "tbl_update vms_uniq (\<lambda>v. vm_ID v = vm_ID (vm\<lparr>vm_UpdatedAt := t\<rparr>)) (\<lambda>_. vm\<lparr>vm_UpdatedAt := t\<rparr>) (vms d) = Inr rows"
    using u by simp
  then show ?thesis by (rule vm_written) (use m in simp)
qed

lemma write_tracked:
  assumes t: "tracked d0 S d" and v: "v \<in> S" "same_vm v vm"
    and u: "tbl_update vms_uniq (\<lambda>v. vm_ID v = vm_ID vm) (\<lambda>_. vm\<lparr>vm_UpdatedAt := now\<rparr>) (vms d) = Inr rows"
  shows "tracked d0 S (d\<lparr>vms := rows\<rparr>)"
proof -
  have old: "same_vm u vm" if "u \<in> set (vms d)" "vm_ID u = vm_ID vm" for u
    using t that v same_vm_ID [OF v(2)] same_vm_trans [of u v vm] by (simp add: tracked_def)
  have step: "db_step d (d\<lparr>vms := rows\<rparr>)"
    by (rule write_step [OF u]) (use old same_vm_may in blast)
  have rows: "rows = map (\<lambda>r. if vm_ID r = vm_ID vm then vm\<lparr>vm_UpdatedAt := now\<rparr> else r) (vms d)"
    using u by (rule tbl_update_Inr)
  have "same_vm r z" if h: "z \<in> S" "r \<in> set rows" "vm_ID r = vm_ID z" for z r
  proof -
    obtain u where u: "u \<in> set (vms d)" "r = (if vm_ID u = vm_ID vm then vm\<lparr>vm_UpdatedAt := now\<rparr> else u)"
      using h(2) by (auto simp: rows)
    have "same_vm u r" using u old by simp
    moreover have "same_vm u z" using t h u by (auto simp: tracked_def split: if_splits)
    ultimately show ?thesis using same_vm_sym same_vm_trans by blast
  qed
  then show ?thesis
    using t good_step [OF step] db_steps_step [OF _ step, of d0] by (simp add: tracked_def)
qed

lemma kept_UpdateVM:
  assumes "v \<in> S" "same_vm v vm"
  shows "kept d0 S (store_UpdateVM vm)"
  unfolding kept_def
proof (rule tripleI)
  fix w e w' assume "tracked d0 S (database w)" "store_UpdateVM vm w = (Inl e, w')"
  then show "tracked d0 S (database w')" using store_UpdateVM_db [of vm w "Inl e" w'] by simp
next
  fix w x w' assume t: "tracked d0 S (database w)" and "store_UpdateVM vm w = (Inr x, w')"
  then show "tracked d0 S (database w')"
    using store_UpdateVM_db [of vm w "Inr x" w'] write_tracked [OF t assms] by auto
qed

text \<open>A write that changes more than the volatile columns ends the tracking.\<close>

lemma go_UpdateVM:
  assumes v: "v \<in> S" "vm_ID v = vm_ID vm" and m: "\<And>u d. tracked d0 S d \<Longrightarrow> same_vm u v \<Longrightarrow> may_become d u vm"
  shows "triple (tracked d0 {}) (tracked d0 S) (store_UpdateVM vm) (\<lambda>_. tracked d0 {})"
proof (rule tripleI)
  fix w e w' assume "tracked d0 S (database w)" "store_UpdateVM vm w = (Inl e, w')"
  then show "tracked d0 {} (database w')"
    using store_UpdateVM_db [of vm w "Inl e" w'] by (auto intro: tracked_mono)
next
  fix w x w' assume t: "tracked d0 S (database w)" and "store_UpdateVM vm w = (Inr x, w')"
  then obtain now rows where u: "tbl_update vms_uniq (\<lambda>v. vm_ID v = vm_ID vm) (\<lambda>_. vm\<lparr>vm_UpdatedAt := now\<rparr>) (vms (database w)) = Inr rows"
    "database w' = (database w)\<lparr>vms := rows\<rparr>"
    using store_UpdateVM_db [of vm w "Inr x" w'] by auto
  have "db_step (database w) (database w')" unfolding u(2)
    by (rule write_step [OF u(1)]) (use t v m [OF t] in \<open>simp add: tracked_def\<close>)
  then show "tracked d0 {} (database w')" using t by (auto simp: tracked_def db_steps_step dest: good_step)
qed

section \<open>Running a VM\<close>

lemma go_ensureTapName:
  assumes v: "v \<in> S" "same_vm v vm" and T: "T \<subseteq> S"
    and f: "\<And>vm'. same_vm v vm' \<Longrightarrow> triple (tracked d0 T) (tracked d0 S) (f vm') Q"
  shows "triple (tracked d0 T) (tracked d0 S) (bindE (ensureTapName vm) f) Q"
proof (rule triple_bind_fact [where A = "same_vm v"])
  show "same_vm v x" if "ensureTapName vm w = (Inr x, w')" for w x w'
    using that v by (auto simp: ensureTapName_def Let_def io_run)
  show "triple (tracked d0 S) (tracked d0 S) (ensureTapName vm) (\<lambda>_. tracked d0 S)"
    unfolding ensureTapName_def Let_def kept_def [symmetric]
    by (simp add: v ro kept_ro kept_seq kept_UpdateVM [OF v(1)])
qed (use f T tracked_mono in blast)+


lemma kept_failVM: "v \<in> S \<Longrightarrow> same_vm v vm \<Longrightarrow> kept d0 S (failVM vm e)"
  unfolding failVM_def
  by (intro kept_bind kept_seq kept_ignore kept_ro [OF ro_Now] kept_ro [OF ro_throw] kept_UpdateVM) simp_all

lemma ro_ensureVMNetworkUsable [ro]: "ro_io (ensureVMNetworkUsable vm)"
  unfolding ensureVMNetworkUsable_def ensureSharedNetworkUsable_def by (intro ro)

lemma kept_open: "triple (tracked d0 S) (tracked d0 S) m (\<lambda>_. tracked d0 S) \<Longrightarrow> kept d0 S m"
  by (simp add: kept_def)

lemma kept_if: "kept d0 S m \<Longrightarrow> kept d0 S n \<Longrightarrow> kept d0 S (if b then m else n)" by simp

lemma kept_when: "kept d0 S m \<Longrightarrow> kept d0 S (whenE b m)"
  by (simp add: whenE_def kept_ro ro_return)

lemma kept_option: "kept d0 S m \<Longrightarrow> (\<And>x. kept d0 S (f x)) \<Longrightarrow> kept d0 S (case r of None \<Rightarrow> m | Some x \<Rightarrow> f x)"
  by (cases r) simp_all

lemma kept_errorOf: "kept d0 S m \<Longrightarrow> kept d0 S (errorOf m)"
  unfolding kept_def by (rule tripleI) (auto simp: errorOf_run split: sum.splits dest: triple_err triple_ok)

lemmas kept_rules = kept_seq kept_bind kept_if kept_when kept_option kept_ignore kept_errorOf


lemma kept_StartVM: "kept d0 S (StartVM vid)"
  unfolding StartVM_def Let_def
  apply (rule kept_open, rule go_require_vm, simp)
  subgoal for vm0
    apply (rule go_ensureTapName [of vm0], simp, simp, blast)
    apply (rule go_end)
     apply (auto intro!: kept_rules kept_UpdateVM [of vm0] kept_failVM [of vm0] intro: kept_ro ro)
    done
  done

lemma kept_StopVM: "kept d0 S (StopVM vid)"
  unfolding StopVM_def Let_def
  apply (rule kept_open, rule go_require_vm, simp)
  subgoal for vm0
    by (rule go_end) (auto intro!: kept_rules kept_UpdateVM [of vm0] intro: kept_ro ro)
  done


text \<open>One VM after the other: \<open>Reconcile\<close> writes the rows it listed.\<close>

lemma kept_fold: "(\<And>s x. x \<in> set xs \<Longrightarrow> kept d0 S (f s x)) \<Longrightarrow> kept d0 S (foldE f s xs)"
  by (induction xs arbitrary: s) (auto intro!: kept_bind kept_ro [OF ro_return])

lemma kept_reconcile_vm: "v \<in> S \<Longrightarrow> kept d0 S (reconcile_vm flags v)"
  unfolding reconcile_vm_def by (auto intro!: kept_rules kept_UpdateVM [of v] intro: kept_ro ro)

lemma kept_prod: "(\<And>x y. kept d0 S (f x y)) \<Longrightarrow> kept d0 S (case r of (x, y) \<Rightarrow> f x y)"
  by (cases r) simp

lemma kept_ListVMs:
  assumes "\<And>machines. kept d0 (S \<union> set machines) (f machines)"
  shows "kept d0 S (bindE store_ListVMs f)"
proof -
  have "triple (tracked d0 S) (tracked d0 S) store_ListVMs (\<lambda>machines. tracked d0 (S \<union> set machines))"
  proof (rule tripleI)
    fix w machines w' assume t: "tracked d0 S (database w)" and r: "store_ListVMs w = (Inr machines, w')"
    have "database w' = database w" using r ro_db [OF ro_ListVMs] by blast
    moreover have "set machines = set (vms (database w))" using r by (auto simp: store_ListVMs_def io_run)
    ultimately show "tracked d0 (S \<union> set machines) (database w')"
      using t row_same_vm [of "database w"] by (auto simp: tracked_def)
  next
    fix w e w' assume "tracked d0 S (database w)" and "store_ListVMs w = (Inl e, w')"
    then show "tracked d0 S (database w')" using ro_db [OF ro_ListVMs] by metis
  qed
  then show ?thesis
    unfolding kept_def by (rule triple_bind) (rule go_end [OF assms], blast)
qed

lemma kept_Reconcile: "kept d0 S Reconcile"
  unfolding Reconcile_def
  by (intro kept_ListVMs) (auto intro!: kept_rules kept_fold kept_prod kept_reconcile_vm intro: kept_ro ro)

section \<open>Operations that read and then write\<close>

text \<open>A run from a given world: between a read and the write the database has not changed.\<close>

definition sound :: "world \<Rightarrow> 'a io \<Rightarrow> bool" where
  "sound w m \<longleftrightarrow> (good (database w) \<longrightarrow> db_steps (database w) (database (snd (m w))))"

lemma evolves_sound: "(\<And>w. sound w m) \<Longrightarrow> evolves m"
  by (simp add: evolves_def sound_def)

lemma sound_evolves: "evolves m \<Longrightarrow> sound w m"
  by (simp add: evolves_def sound_def)

lemma sound_ro: "ro_io m \<Longrightarrow> sound w m"
  by (simp add: sound_def ro_io_def)

lemma sound_bind:
  assumes "sound w m" "\<And>x v. m w = (Inr x, v) \<Longrightarrow> sound v (f x)"
  shows "sound w (bindE m f)"
  unfolding sound_def
proof
  assume g: "good (database w)"
  obtain r v where m: "m w = (r, v)" by fastforce
  then have s: "db_steps (database w) (database v)" using assms(1) g by (simp add: sound_def)
  show "db_steps (database w) (database (snd (bindE m f w)))"
  proof (cases r)
    case (Inl e)
    then show ?thesis using m s by (simp add: bindE_def)
  next
    case (Inr x)
    then show ?thesis
      using m s assms(2) [of x v] good_steps [OF s g] by (auto simp: bindE_def sound_def dest: db_steps_trans)
  qed
qed

lemma sound_read:
  assumes "ro_io m" "\<And>x v. m w = (Inr x, v) \<Longrightarrow> database v = database w \<Longrightarrow> cfg v = cfg w \<Longrightarrow> sound v (f x)"
  shows "sound w (bindE m f)"
  by (rule sound_bind [OF sound_ro [OF assms(1)]]) (use assms(2) ro_ioD [OF assms(1)] in blast)

lemma sound_seq: "sound w m \<Longrightarrow> (\<And>x v. m w = (Inr x, v) \<Longrightarrow> sound v n) \<Longrightarrow> sound w (seqE m n)"
  unfolding seqE_def by (rule sound_bind)

lemma sound_check:
  "ro_io m \<Longrightarrow> (\<And>x v. m w = (Inr x, v) \<Longrightarrow> database v = database w \<Longrightarrow> cfg v = cfg w \<Longrightarrow> sound v n) \<Longrightarrow> sound w (seqE m n)"
  unfolding seqE_def by (rule sound_read)

lemma sound_option:
  "(r = None \<Longrightarrow> sound w m) \<Longrightarrow> (\<And>x. r = Some x \<Longrightarrow> sound w (f x)) \<Longrightarrow> sound w (case r of None \<Rightarrow> m | Some x \<Rightarrow> f x)"
  by (cases r) simp_all

lemma sound_throw: "sound w (throwE e)" by (rule sound_ro) (rule ro)

lemma sound_exec:
  assumes "\<And>d'. good (database w) \<Longrightarrow> f (database w) = Inr d' \<Longrightarrow> db_step (database w) d'"
  shows "sound w (exec q f)"
  unfolding sound_def
proof
  assume g: "good (database w)"
  obtain r v where e: "exec q f w = (r, v)" by fastforce
  from exec_db [OF e] show "db_steps (database w) (database (snd (exec q f w)))"
    using e assms [OF g] db_steps_step [OF db_steps_refl] by (cases r) auto
qed

lemma sound_UpdateVM:
  assumes v: "v \<in> set (vms (database w))" "vm_ID v = vm_ID vm" and m: "may_become (database w) v vm"
  shows "sound w (store_UpdateVM vm)"
  unfolding sound_def
proof
  assume g: "good (database w)"
  obtain r w' where e: "store_UpdateVM vm w = (r, w')" by fastforce
  show "db_steps (database w) (database (snd (store_UpdateVM vm w)))"
  proof (cases r)
    case (Inl x)
    then show ?thesis using store_UpdateVM_db [OF e] e by simp
  next
    case (Inr x)
    then obtain t rows where
      u: "tbl_update vms_uniq (\<lambda>v. vm_ID v = vm_ID vm) (\<lambda>_. vm\<lparr>vm_UpdatedAt := t\<rparr>) (vms (database w)) = Inr rows"
        "database w' = (database w)\<lparr>vms := rows\<rparr>"
      using store_UpdateVM_db [OF e] by auto
    have "u = v" if "u \<in> set (vms (database w))" "vm_ID u = vm_ID vm" for u
      using vms_tbl.same_key [OF _ that(1) v(1)] that(2) v(2) g by (simp add: good_def db_ok_def)
    then have "db_step (database w) (database w')"
      unfolding u(2) by (intro write_step [OF u(1)]) (use m in auto)
    then show ?thesis using e db_steps_step [OF db_steps_refl] by simp
  qed
qed

lemmas evolves_StartVM = kept_evolves [OF kept_StartVM]
  and evolves_StopVM = kept_evolves [OF kept_StopVM]
  and evolves_Reconcile = kept_evolves [OF kept_Reconcile]

lemma sound_if: "(b \<Longrightarrow> sound w m) \<Longrightarrow> (\<not> b \<Longrightarrow> sound w n) \<Longrightarrow> sound w (if b then m else n)" by simp

lemma sound_when: "(b \<Longrightarrow> sound w m) \<Longrightarrow> sound w (whenE b m)"
  by (simp add: whenE_def sound_ro ro_return)

lemma valid_resources_run: "valid_resources c m w = (Inr x, w') \<Longrightarrow> 1 \<le> c \<and> c \<le> 32 \<and> 128 \<le> m \<and> m \<le> 262144"
  by (auto simp: valid_resources_def io_run not_less)

lemma ro_valid_resources [ro]: "ro_io (valid_resources c m)"
  unfolding valid_resources_def by (intro ro)

lemma ro_GetVM [ro]: "ro_io (store_GetVM vid)" unfolding store_GetVM_def by (intro ro)

lemma evolves_UpdateResources: "evolves (UpdateResources vid c m restart)"
proof (rule evolves_sound)
  have up: "sound w (store_UpdateVM (v\<lparr>vm_VCPUCount := c', vm_MemMiB := m'\<rparr>))"
    if "v \<in> set (vms (database w))" "1 \<le> c' \<and> c' \<le> 32 \<and> 128 \<le> m' \<and> m' \<le> 262144" for w v c' m'
  proof (rule sound_UpdateVM [OF that(1)])
    show "may_become (database w) v (v\<lparr>vm_VCPUCount := c', vm_MemMiB := m'\<rparr>)"
      using that(2) by (simp add: may_become_def identity_def valid_size_def same_egress_def)
  qed simp
  show "sound w (UpdateResources vid c m restart)" for w
    unfolding UpdateResources_def Let_def
    apply (rule sound_read [OF ro_require_vm], rule sound_check [OF ro_valid_resources], rule sound_check [OF ro_failIf])
    apply (rule sound_bind)
     apply (rule sound_if, rule sound_seq [OF sound_evolves [OF evolves_StopVM] sound_ro [OF ro_require_vm]], rule sound_ro [OF ro_return])
    apply (rule sound_seq, rule up)
      apply (auto simp: io_run dest!: require_vm_reads valid_resources_run)[2]
    apply (rule sound_seq [OF sound_when [OF sound_evolves [OF evolves_StartVM]] sound_ro [OF ro_GetVM]])
    done
qed


lemma evolves_RestartVM: "evolves (RestartVM vid c m)"
proof (rule evolves_sound)
  have again: "sound w (seqE (StopVM vid) (seqE (StartVM vid) (store_GetVM vid)))" for w
    by (intro sound_seq sound_evolves evolves_StopVM evolves_StartVM sound_ro ro)
  show "sound w (RestartVM vid c m)" for w
    unfolding RestartVM_def Let_def
    by (intro sound_if sound_bind sound_option sound_evolves [OF evolves_UpdateResources] again sound_ro [OF ro_return])
qed

lemma GetEgressPolicy_run:
  "store_GetEgressPolicy i w = (Inr (Some p), w') \<Longrightarrow> p \<in> set (egress_policies (database w)) \<and> ep_ID p = i"
  by (auto simp: store_GetEgressPolicy_def io_run dest!: sym [of "Some p"] find_SomeD)

text \<open>The policy or mode that \<open>SetVMEgressPolicy\<close> gives the record.\<close>

lemma evolves_SetVMEgressPolicy: "evolves (SetVMEgressPolicy vid mode pid)"
proof (rule evolves_sound)
  fix w
  let ?choose = "\<lambda>vm0. if pid \<noteq> '''' then
              bindE (store_GetEgressPolicy pid) (\<lambda>found. case found of
                  None \<Rightarrow> throwE (NotFound ''egress policy not found'')
                | Some p \<Rightarrow> returnE (vm0\<lparr>vm_EgressMode := ep_Mode p, vm_EgressPolicyID := ep_ID p\<rparr>))
            else let mode = (if TrimSpace mode = '''' then ''allow_all'' else TrimSpace mode)
                 in if mode \<noteq> ''allow_all'' \<and> mode \<noteq> ''deny_all''
                    then throwE (Invalid ''Egress mode is invalid''
                           [(''egress_mode'', ''must be allow_all or deny_all when no policy is selected'')])
                    else returnE (vm0\<lparr>vm_EgressMode := mode, vm_EgressPolicyID := ''''\<rparr>)"
  have ro_choose: "ro_io (?choose vm0)" for vm0 unfolding Let_def by (intro ro)
  have chosen: "may_become (database w1) vm0 vm \<and> vm_ID vm = vm_ID vm0"
    if r: "?choose vm0 w1 = (Inr vm, w2)" for vm0 vm w1 w2
  proof -
    obtain m p where vm: "vm = vm0\<lparr>vm_EgressMode := m, vm_EgressPolicyID := p\<rparr>"
      and ok: "if p = '''' then m = ''allow_all'' \<or> m = ''deny_all''
         else \<exists>q \<in> set (egress_policies (database w1)). ep_ID q = p \<and> ep_Mode q = m"
    proof (cases "pid = ''''")
      case True
      let ?m = "if TrimSpace mode = '''' then ''allow_all'' else TrimSpace mode"
      from r True have "vm = vm0\<lparr>vm_EgressMode := ?m, vm_EgressPolicyID := ''''\<rparr>" "?m = ''allow_all'' \<or> ?m = ''deny_all''"
        by (auto simp: throwE_def returnE_def Let_def split: if_splits)
      then show ?thesis using that by simp
    next
      case False
      with r obtain q where q: "store_GetEgressPolicy pid w1 = (Inr (Some q), w2)"
        "vm = vm0\<lparr>vm_EgressMode := ep_Mode q, vm_EgressPolicyID := ep_ID q\<rparr>"
        by (auto simp: bindE_Inr option_run throwE_run returnE_run)
      show ?thesis
        using that [OF q(2)] GetEgressPolicy_run [OF q(1)] False by auto
    qed
    then show ?thesis
      by (simp add: may_become_def identity_def same_size_def valid_egress_def)
  qed
  show "sound w (SetVMEgressPolicy vid mode pid)"
    unfolding SetVMEgressPolicy_def Let_def [of "TrimSpace mode"]
  proof (rule sound_read [OF ro_require_vm], rule sound_read [OF ro_choose], rule sound_seq)
    fix vm0 w1 vm w2
    assume a: "require_vm vid w = (Inr vm0, w1)" "?choose vm0 w1 = (Inr vm, w2)"
      "database w1 = database w" "database w2 = database w1"
    show "sound w2 (store_UpdateVM vm)"
      using a require_vm_reads [OF a(1)] chosen [OF a(2)] by (intro sound_UpdateVM [of vm0]) simp_all
    show "sound w3 (seqE (whenE (vm_live vm) applyNFT) (store_GetVM vid))" for w3 by (intro sound_ro ro)
  qed
qed

lemma evolves_DeleteVM: "evolves (DeleteVM vid)"
proof -
  have "evolves (store_DeleteVM vid)"
  proof (rule evolves_sound)
    show "sound w (store_DeleteVM vid)" for w
      unfolding store_DeleteVM_def
    proof (rule sound_seq, rule sound_exec, use rules_deleted in force, rule sound_seq, rule sound_exec)
      show "db_step (database v) d'" if "Inr ((database v)\<lparr>vm_exec_jobs := tbl_delete (\<lambda>j. exe_VMID j = vid) (vm_exec_jobs (database v))\<rparr>) = Inr d'"
        "good (database v)" for v d'
        using that jobs_changed [of "tbl_delete (\<lambda>j. exe_VMID j = vid) (vm_exec_jobs (database v))" "database v"]
        by (auto simp: good_def db_ok_def tbl_delete_uniq) (auto simp: tbl_delete_def)
      fix x v y u
      assume a: "exec ''DELETE FROM ingress_rules''
           (\<lambda>d. Inr (d\<lparr>ingress_rules := tbl_delete (\<lambda>r. ing_VMID r = vid) (ingress_rules d)\<rparr>)) w = (Inr x, v)"
         "exec ''DELETE FROM vm_exec_jobs''
           (\<lambda>d. Inr (d\<lparr>vm_exec_jobs := tbl_delete (\<lambda>j. exe_VMID j = vid) (vm_exec_jobs d)\<rparr>)) v = (Inr y, u)"
      show "sound u (exec ''DELETE FROM vms'' (\<lambda>d. Inr (d\<lparr>vms := tbl_delete (\<lambda>v. vm_ID v = vid) (vms d)\<rparr>)))"
      proof (rule sound_exec)
        have v: "database v = (database w)\<lparr>ingress_rules := tbl_delete (\<lambda>r. ing_VMID r = vid) (ingress_rules (database w))\<rparr>"
          using exec_db [OF a(1)] by simp
        have "database u = (database v)\<lparr>vm_exec_jobs := tbl_delete (\<lambda>j. exe_VMID j = vid) (vm_exec_jobs (database v))\<rparr>"
          using exec_db [OF a(2)] by simp
        then have d: "database u = (database w)\<lparr>ingress_rules := tbl_delete (\<lambda>r. ing_VMID r = vid) (ingress_rules (database w)),
            vm_exec_jobs := tbl_delete (\<lambda>j. exe_VMID j = vid) (vm_exec_jobs (database w))\<rparr>"
          by (simp add: v)
        show "db_step (database u) d'" if "Inr ((database u)\<lparr>vms := tbl_delete (\<lambda>v. vm_ID v = vid) (vms (database u))\<rparr>) = Inr d'" for d'
        proof -
          have "d' = (database u)\<lparr>vms := tbl_delete (\<lambda>v. vm_ID v = vid) (vms (database u))\<rparr>" using that by simp
          then show ?thesis by (simp only:) (rule vm_deleted, simp_all add: d tbl_delete_def)
        qed
      qed
    qed
  qed
  then have d: "sound w (store_DeleteVM vid)" for w by (rule sound_evolves)
  show ?thesis
    unfolding DeleteVM_def
    by (rule evolves_sound, rule sound_read [OF ro_require_vm], rule sound_seq [OF sound_evolves [OF evolves_StopVM]],
        (rule sound_check, intro ro)+, rule d)
qed

end
