(* ===== verification/Creation.thy ===== *)
theory Creation
  imports Plan
begin

text \<open>
  The operations of \<open>Lifecycle\<close> that create and delete rows are steps of \<open>Evolution\<close>: what their
  checks and allocators establish is what the steps ask for.
\<close>

section \<open>Networks, policies and ingress rules\<close>

lemma sound_prod: "(\<And>x y. r = (x, y) \<Longrightarrow> sound w (f x y)) \<Longrightarrow> sound w (case r of (x, y) \<Rightarrow> f x y)"
  by (cases r) simp

lemma sound_insert:
  assumes "\<And>rows. good (database w) \<Longrightarrow> f (database w) = Inr rows \<Longrightarrow> db_step (database w) (g (database w) rows)"
  shows "sound w (exec q (\<lambda>d. put (f d) (g d)))"
  by (rule sound_exec) (use assms in \<open>auto simp: put_Inr\<close>)

lemma ro_validateSharedNetwork [ro]: "ro_io (validateSharedNetwork cidr gw)"
  unfolding validateSharedNetwork_def Let_def by (intro ro)

lemma evolves_CreateNetwork: "evolves (CreateNetwork name cidr gw)"
proof (rule evolves_sound)
  show "sound w (CreateNetwork name cidr gw)" for w
    unfolding CreateNetwork_def Let_def
  proof (rule sound_check [OF ro_failIf], rule sound_read [OF ro_validateSharedNetwork], rule sound_prod,
      rule sound_read [OF ro_Now], rule sound_read [OF ro_Hex], rule sound_seq [OF _ sound_ro [OF ro_return]])
    fix w1 w2 w3 w4 :: world and c g now nid and x
    assume v: "validateSharedNetwork cidr gw w1 = (Inr x, w2)" "x = (c, g)"
      and d: "database w2 = database w1" "database w3 = database w2" "database w4 = database w3"
    let ?n = "\<lparr>nw_ID = nid, nw_Name = TrimSpace name, nw_CIDR = c, nw_GatewayIP = g, nw_CreatedAt = now, nw_UpdatedAt = now\<rparr>"
    obtain b k where n: "network_at ?n b k" "\<forall>r \<in> set (owners (database w4)). \<not> cidrOverlaps (mk_net b k) (own_net r)"
      using validateSharedNetwork_ok [OF v(1) [unfolded v(2)]] d by (auto simp: network_at_def)
    show "sound w4 (store_CreateNetwork ?n)"
      unfolding store_CreateNetwork_def by (rule sound_insert) (rule network_created [OF _ n])
  qed
qed


text \<open>\<open>DELETE\<close> after \<open>COUNT(*)\<close>: the row goes only when no VM names it.\<close>

lemma evolves_DeleteNetwork: "evolves (DeleteNetwork nid)"
proof (rule evolves_sound)
  have del: "sound w (store_DeleteNetwork nid)" for w
    unfolding store_DeleteNetwork_def
  proof (rule sound_read [OF ro_query], rule sound_check [OF ro_failIf], rule sound_exec)
    fix w1 w2 w3 :: world and used x d'
    assume q: "query ''SELECT COUNT(*) FROM vms'' (\<lambda>d. count_where (\<lambda>v. vm_NetworkID v = nid) (vms d)) w1 = (Inr used, w2)"
      and f: "failIf (0 < used) (assigned_error ''network'' used) w2 = (Inr x, w3)" and d: "database w2 = database w1"
      and r: "Inr ((database w3)\<lparr>networks := tbl_delete (\<lambda>n. nw_ID n = nid) (networks (database w3))\<rparr>) = Inr d'"
    have "count_where (\<lambda>v. vm_NetworkID v = nid) (vms (database w3)) = 0" using q f d by (auto simp: io_run)
    then have "\<forall>v \<in> set (vms (database w3)). vm_NetworkID v \<noteq> nid" by (simp add: count_where_0)
    from network_deleted [OF this] show "db_step (database w3) d'" using r by simp
  qed
  show "sound w (DeleteNetwork nid)" for w
    unfolding DeleteNetwork_def
    by (rule sound_read, simp add: store_GetNetwork_def ro_query, rule sound_option, rule sound_throw,
        rule sound_seq [OF del sound_ro [OF ro_cleanupBridge]])
qed

lemma evolves_CreateEgressPolicy: "evolves (CreateEgressPolicy name mode tcp udp cidrs)"
proof (rule evolves_sound)
  have ins: "sound w (store_CreateEgressPolicy p)" for w p
    unfolding store_CreateEgressPolicy_def by (rule sound_insert) (rule policy_created)
  show "sound w (CreateEgressPolicy name mode tcp udp cidrs)" for w
    unfolding CreateEgressPolicy_def Let_def
    by (rule sound_check [OF ro_failIf], rule sound_read [OF ro_lift], (rule sound_prod)+, rule sound_read [OF ro_Now],
        rule sound_read [OF ro_Hex], rule sound_seq [OF ins sound_ro [OF ro_return]])
qed

lemma evolves_DeleteEgressPolicy: "evolves (DeleteEgressPolicy pid)"
  unfolding DeleteEgressPolicy_def store_DeleteEgressPolicy_def
proof (rule evolves_sound, rule sound_read [OF ro_query], rule sound_check [OF ro_failIf], rule sound_exec)
  fix w1 w2 w3 :: world and used x d'
  assume q: "query ''SELECT COUNT(*) FROM vms'' (\<lambda>d. count_where (\<lambda>v. vm_EgressPolicyID v = pid) (vms d)) w1 = (Inr used, w2)"
    and f: "failIf (0 < used) (assigned_error ''egress policy'' used) w2 = (Inr x, w3)" and d: "database w2 = database w1"
    and r: "Inr ((database w3)\<lparr>egress_policies := tbl_delete (\<lambda>p. ep_ID p = pid) (egress_policies (database w3))\<rparr>) = Inr d'"
  have "count_where (\<lambda>v. vm_EgressPolicyID v = pid) (vms (database w3)) = 0" using q f d by (auto simp: io_run)
  then have "\<forall>v \<in> set (vms (database w3)). vm_EgressPolicyID v \<noteq> pid" by (simp add: count_where_0)
  from policy_deleted [OF this] show "db_step (database w3) d'" using r by simp
qed

lemma ro_portOpen [ro]: "ro_io (portOpen p)" unfolding portOpen_def by (intro ro)
lemma ro_UsedSSHPorts [ro]: "ro_io store_UsedSSHPorts" unfolding store_UsedSSHPorts_def by (intro ro)

lemma evolves_AddIngressRule: "evolves (AddIngressRule vid proto hp gp descr)"
proof (rule evolves_sound)
  have busy: "ro_io (if hp \<in> set ports then returnE True else portOpen hp)" for ports by (intro ro)
  show "sound w (AddIngressRule vid proto hp gp descr)" for w
    unfolding AddIngressRule_def Let_def
  proof (rule sound_read [OF ro_require_vm], rule sound_check [OF ro_failIf], rule sound_check [OF ro_failIf],
      rule sound_read [OF ro_UsedSSHPorts], rule sound_read [OF busy], rule sound_check [OF ro_failIf],
      rule sound_read [OF ro_Hex], rule sound_read [OF ro_Now], rule sound_seq)
    fix w w1 w2 w3 w4 w5 w6 w7 w8 :: world and vm :: vm and x2 x3 ports b x6 rid now
    let ?r = "\<lparr>ing_ID = rid, ing_VMID = vm_ID vm, ing_Protocol = ToLower (TrimSpace proto), ing_HostPort = hp,
        ing_GuestPort = gp, ing_Description = TrimSpace descr, ing_CreatedAt = now\<rparr>"
    assume v: "require_vm vid w = (Inr vm, w1)"
      and g: "failIf (hp < 1 \<or> 65535 < hp \<or> gp < 1 \<or> 65535 < gp) (Invalid ''Ingress rule is invalid''
          [(''host_port'', ''must be between 1 and 65535''), (''guest_port'', ''must be between 1 and 65535'')]) w2 = (Inr x3, w3)"
      and p: "store_UsedSSHPorts w3 = (Inr ports, w4)"
      and b: "(if hp \<in> set ports then returnE True else portOpen hp) w4 = (Inr b, w5)"
      and f: "failIf b (Conflict ''host_port already in use'') w5 = (Inr x6, w6)"
      and d: "database w1 = database w" "database w2 = database w1" "database w3 = database w2" "database w4 = database w3"
        "database w5 = database w4" "database w6 = database w5" "database w7 = database w6" "database w8 = database w7"
    have vm: "vm_ID vm \<in> vm_ID ` set (vms (database w8))" using require_vm_reads [OF v] d by auto
    have "ports = map vm_SSHPort (vms (database w8))" using p d by (auto simp: store_UsedSSHPorts_def io_run)
    moreover have "hp \<notin> set ports" using b f by (auto simp: io_run)
    ultimately have "hp \<notin> vm_SSHPort ` set (vms (database w8))" by simp
    then show "sound w8 (store_CreateIngressRule ?r)"
      unfolding store_CreateIngressRule_def
      by (intro sound_insert rule_created) (use vm g in \<open>auto simp: io_run\<close>)
    show "sound w9 (seqE (whenE (vm_live vm) applyNFT) (returnE ?r))" for w9 by (intro sound_ro ro)
  qed
qed

lemma evolves_DeleteIngressRule: "evolves (DeleteIngressRule vid rid)"
proof (rule evolves_sound)
  have del: "sound w (store_DeleteIngressRule vid rid)" for w
    unfolding store_DeleteIngressRule_def by (rule sound_exec) (auto intro: rules_deleted)
  show "sound w (DeleteIngressRule vid rid)" for w
    unfolding DeleteIngressRule_def
    by (rule sound_read [OF ro_require_vm], rule sound_seq [OF del], intro sound_ro ro)
qed


section \<open>A new VM\<close>

lemma mk_net_inj:
  assumes "mk_net v m = mk_net b k" "m \<le> 32" "k \<le> 32"
  shows "v AND prefix_mask m = b AND prefix_mask k \<and> m = k"
proof -
  have i: "bytes_of_u32 (v AND prefix_mask m) = bytes_of_u32 (b AND prefix_mask k)" "CIDRMask m 32 = CIDRMask k 32"
    using assms(1) by (simp_all add: mk_net_def)
  show ?thesis
    using arg_cong [OF i(1), of u32_of_bytes] arg_cong [OF i(2), of Mask_Size] assms(2,3) by (simp add: Mask_Size_CIDRMask)
qed

lemma ro_allocateP2P [ro]: "ro_io allocateP2P"
  unfolding allocateP2P_def Let_def store_UsedGuestIPs_def sharedNetworkCIDRs_def store_ListNetworks_def by (intro ro)

lemma ro_allocateNetwork [ro]: "ro_io (allocateNetwork mode nid)"
  unfolding allocateNetwork_def allocateShared_def Let_def store_UsedGuestIPs_def store_GetNetwork_def
    ensureSharedNetworkUsable_def by (intro ro)

lemma allocateP2P_fresh:
  assumes "allocateP2P w = (Inr (host, guest, bits), w')"
    "vm_NetworkMode v = ''routed_ptp''" "vm_HostIP v = host" "vm_GuestIP v = guest" "vm_CIDR v = bits"
  shows "fresh_address (database w) v"
proof -
  obtain x ones i b where b: "ones \<le> 30" "i < p2p_slots ones" "b = (x AND prefix_mask ones) + of_nat (4 * i)"
    and f: "p2p_free (guest_ips (database w)) (shared_nets (database w)) b"
    and r: "host = addr_text (b + 1)" "guest = addr_text (b + 2)" "bits = 30"
    using allocateP2P_ok [OF assms(1)] by blast
  have "4 dvd unat b" using p2p_slot_aligned [OF b] by blast
  then have "routed_at v b" using r assms(2-5) by (simp add: routed_at_def)
  then show ?thesis using f unfolding fresh_address_def by blast
qed

lemma allocateShared_fresh_address:
  assumes a: "allocateShared n w = (Inr (host, guest, bits), w')" and n: "n \<in> set (networks (database w))" "net_ok (database w)"
    and v: "vm_NetworkMode v = ''shared_bridge''" "vm_NetworkID v = nw_ID n" "vm_GuestIP v = guest"
  shows "fresh_address (database w) v"
proof -
  obtain x ones y where x: "ParseCIDR (nw_CIDR n) = Inr (uint32ToIP x, mk_net x ones)" "ones \<le> 30" "guest = addr_text y"
      "unat (x AND prefix_mask ones) < unat y" "unat y < unat (x AND prefix_mask ones) + net_size ones - 1"
    using allocateShared_ok [OF a] by blast
  obtain b k where b: "network_at n b k" using n by (auto simp: net_ok_def)
  then have k: "k \<le> 30" "b AND prefix_mask k = b" "nw_CIDR n = addr_text b @ ''/'' @ show_nat k"
    by (simp_all add: network_at_def cidr_text_def)
  have "mk_net x ones = mk_net b k" using x(1) ParseCIDR_text [of k b] k by simp
  then have "x AND prefix_mask ones = b AND prefix_mask k \<and> ones = k"
    using x(2) k(1) by (intro mk_net_inj) simp_all
  then have "x AND prefix_mask ones = b" "ones = k" unfolding k(2) by blast+
  then have "shared_in v n" using b x v unfolding shared_in_def by blast
  then show ?thesis using n(1) unfolding fresh_address_def by blast
qed

lemma allocateNetwork_fresh:
  assumes a: "allocateNetwork mode nid w = (Inr addr, w')" and n: "net_ok (database w)"
    and v: "vm_NetworkMode v = mode" "vm_NetworkID v = nid" "vm_HostIP v = fst addr" "vm_GuestIP v = fst (snd addr)"
      "vm_CIDR v = snd (snd addr)"
  shows "fresh_address (database w) v"
proof -
  obtain host guest bits where addr: "addr = (host, guest, bits)" by (cases addr)
  consider "mode = ''routed_ptp''" "allocateP2P w = (Inr addr, w')"
    | net w1 w2 x where "mode = ''shared_bridge''" "store_GetNetwork nid w = (Inr (Some net), w1)"
        "ensureSharedNetworkUsable net w1 = (Inr x, w2)" "allocateShared net w2 = (Inr addr, w')"
    using a unfolding allocateNetwork_def by (auto simp: io_run split: if_splits)
  then show ?thesis
  proof cases
    case 1
    show ?thesis by (rule allocateP2P_fresh [OF 1(2) [unfolded addr]]) (use v 1 addr in simp_all)
  next
    case 2
    have net: "net \<in> set (networks (database w))" "nw_ID net = nid"
      using 2(2) by (auto simp: store_GetNetwork_def io_run dest!: sym [of "Some net"] find_SomeD)
    have "ro_io (store_GetNetwork nid)" "ro_io (ensureSharedNetworkUsable net)"
      unfolding store_GetNetwork_def ensureSharedNetworkUsable_def by (intro ro)+
    then have d: "database w2 = database w" using ro_db 2(2,3) by metis
    have "fresh_address (database w2) v"
      by (rule allocateShared_fresh_address [OF 2(4) [unfolded addr]]) (use v 2 addr net n d in simp_all)
    then show ?thesis using d by simp
  qed
qed

lemma allocatePort_fresh:
  assumes "allocatePort req w = (Inr p, w')" "vm_SSHPort v = p"
  shows "fresh_port (database w) v"
proof -
  obtain start stop where r: "parseRange (SSHPortRange (NetworkCfg (cfg w))) = Inr (start, stop)" "start \<le> p" "p \<le> stop"
    and f: "p \<notin> ing_HostPort ` set (ingress_rules (database w))"
    using allocatePort_ok [OF assms(1)] by blast
  have "- (2 ^ 63) \<le> start" "stop < 2 ^ 63"
    using r(1) Atoi_range by (auto simp: parseRange_def split: list.splits sum.splits if_splits)
  then show ?thesis using r f assms(2) by (simp add: fresh_port_def)
qed

lemma ro_port_loop [ro]: "ro_io (port_loop used n p)"
  by (induction used n p rule: port_loop.induct) (auto intro!: ro)

lemma ro_allocatePort [ro]: "ro_io (allocatePort p)"
  unfolding allocatePort_def Let_def store_UsedIngressHostPorts_def by (intro ro)

lemma ro_create_defaults [ro]: "ro_io (create_defaults req)"
  unfolding create_defaults_def create_egress_def Let_def by (intro ro)

lemma ro_create_primary_key [ro]: "ro_io (create_primary_key req)"
  unfolding create_primary_key_def store_GetSSHKey_def by (intro ro)


lemma create_egress_run:
  assumes "create_egress r w = (Inr req, w')"
  shows "(\<exists>m. req = r\<lparr>cr_EgressMode := m\<rparr>) \<and>
    (if cr_EgressPolicyID req = [] then cr_EgressMode req = ''allow_all'' \<or> cr_EgressMode req = ''deny_all''
     else \<exists>p \<in> set (egress_policies (database w)). ep_ID p = cr_EgressPolicyID req \<and> ep_Mode p = cr_EgressMode req)"
proof (cases "cr_EgressPolicyID r = []")
  case True
  then have "req = r" "cr_EgressMode r = ''allow_all'' \<or> cr_EgressMode r = ''deny_all''"
    using assms by (auto simp: create_egress_def throwE_run returnE_run split: if_splits)
  moreover have "r = r\<lparr>cr_EgressMode := cr_EgressMode r\<rparr>" by simp
  ultimately show ?thesis using True by metis
next
  case False
  then obtain p where "store_GetEgressPolicy (cr_EgressPolicyID r) w = (Inr (Some p), w')" "req = r\<lparr>cr_EgressMode := ep_Mode p\<rparr>"
    using assms by (auto simp: create_egress_def bindE_Inr option_run throwE_run returnE_run)
  then show ?thesis using GetEgressPolicy_run [of "cr_EgressPolicyID r" w p w'] False by auto
qed

lemma create_defaults_run:
  assumes "create_defaults req0 w = (Inr req, w')"
  shows "1 \<le> cr_VCPUCount req \<and> cr_VCPUCount req \<le> 32 \<and> 128 \<le> cr_MemMiB req \<and> cr_MemMiB req \<le> 262144"
    "if cr_EgressPolicyID req = [] then cr_EgressMode req = ''allow_all'' \<or> cr_EgressMode req = ''deny_all''
     else \<exists>p \<in> set (egress_policies (database w)). ep_ID p = cr_EgressPolicyID req \<and> ep_Mode p = cr_EgressMode req"
proof -
  obtain u w1 n dev g m k where v: "valid_resources (cr_VCPUCount req0) (cr_MemMiB req0) w = (Inr u, w1)"
    and e: "create_egress (req0\<lparr>cr_Name := n, cr_DevUser := dev, cr_GitRef := g, cr_EgressMode := m, cr_NetworkMode := k\<rparr>) w1
      = (Inr req, w')"
    using assms unfolding create_defaults_def Let_def
    by (auto simp: seqE_Inr bindE_Inr failIf_Inr liftE_run config_get_run simp del: if_split)
  have "database w1 = database w" using ro_db [OF ro_valid_resources v] .
  then show "1 \<le> cr_VCPUCount req \<and> cr_VCPUCount req \<le> 32 \<and> 128 \<le> cr_MemMiB req \<and> cr_MemMiB req \<le> 262144"
    "if cr_EgressPolicyID req = [] then cr_EgressMode req = ''allow_all'' \<or> cr_EgressMode req = ''deny_all''
     else \<exists>p \<in> set (egress_policies (database w)). ep_ID p = cr_EgressPolicyID req \<and> ep_Mode p = cr_EgressMode req"
    using create_egress_run [OF e] valid_resources_run [OF v] by auto
qed

lemma evolves_TouchSSHKey: "evolves (store_TouchSSHKey kid)"
proof (rule evolves_sound)
  show "sound w (store_TouchSSHKey kid)" for w
    unfolding store_TouchSSHKey_def
  proof (rule sound_read [OF ro_Now], rule sound_insert)
    fix v :: world and t rows
    assume "good (database v)" "tbl_update ssh_keys_uniq (\<lambda>k. key_ID k = kid) (\<lambda>k. k\<lparr>key_LastUsedAt := Some t\<rparr>)
        (ssh_keys (database v)) = Inr rows"
    then show "db_step (database v) ((database v)\<lparr>ssh_keys := rows\<rparr>)"
      by (intro other) (auto simp: parts_kept_def known_parts_def good_def db_ok_def tbl_update_uniq)
  qed
qed

lemma evolves_ignore: "evolves m \<Longrightarrow> evolves (ignoreE m)"
  by (auto simp: evolves_def ignoreE_def tryE_def bindE_def returnE_def split: prod.splits) 

lemma new_vm_simps [simp]:
  fixes req vid port addr krn img path key now
  defines "v \<equiv> new_vm req vid port addr krn img path key now"
  shows "vm_NetworkMode v = cr_NetworkMode req" "vm_NetworkID v = cr_NetworkID req" "vm_HostIP v = fst addr"
    "vm_GuestIP v = fst (snd addr)" "vm_CIDR v = snd (snd addr)" "vm_SSHPort v = port" "vm_State v = VMStopped"
    "vm_VCPUCount v = cr_VCPUCount req" "vm_MemMiB v = cr_MemMiB req" "vm_EgressMode v = cr_EgressMode req"
    "vm_EgressPolicyID v = cr_EgressPolicyID req" "vm_BaseImageID v = img_ID (fst img)" "vm_KernelID v = krn_ID krn"
  by (simp_all add: v_def new_vm_def)

lemma ro_GetVMByName [ro]: "ro_io (store_GetVMByName n)" unfolding store_GetVMByName_def by (intro ro)

lemma evolves_CreateVM: "evolves (CreateVM req0)"
proof (rule evolves_sound)
  show "sound w (CreateVM req0)" for w
    unfolding CreateVM_def Let_def
  proof (rule sound_read [OF ro_create_defaults], rule sound_read [OF ro_GetVMByName], rule sound_check [OF ro_failIf],
      rule sound_read [OF ro_resolveKernelForVM], rule sound_read [OF ro_resolveBaseImageForVM], rule sound_read [OF ro_create_primary_key],
      rule sound_read [OF ro_allocatePort], rule sound_read [OF ro_Hex], rule sound_read [OF ro_allocateNetwork],
      rule sound_read [OF ro_config], rule sound_read [OF ro_Now], rule sound_read [OF ro_prepareRootFS], rule sound_seq)
    fix req :: create_request and krn :: kernel and img :: "base_image \<times> int" and vm :: vm
      and found u key port vid addr dir now and w w1 w2 w3 w4 w5 w6 w7 w8 w9 w10 w11 w12 :: world
    let ?path = "Join [dir, cr_Name req, ''rootfs.'' @ (if img_Filesystem (fst img) = ''xfs'' then ''xfs'' else ''ext4'')]"
    let ?new = "new_vm req vid port addr krn img ?path key now"
    assume a: "create_defaults req0 w = (Inr req, w1)"
        "resolveKernelForVM (cr_KernelID req) (cr_AllowPendingKernel req) w3 = (Inr krn, w4)"
        "resolveBaseImageForVM (cr_BaseImageID req) (cr_RootFSSizeMiB req) w4 = (Inr img, w5)"
        "allocatePort (cr_SSHPort req) w6 = (Inr port, w7)"
        "allocateNetwork (cr_NetworkMode req) (cr_NetworkID req) w8 = (Inr addr, w9)"
        "prepareRootFS ?new w11 = (Inr vm, w12)"
      and d: "database w1 = database w" "database w2 = database w1" "database w3 = database w2" "database w4 = database w3"
        "database w5 = database w4" "database w6 = database w5" "database w7 = database w6" "database w8 = database w7"
        "database w9 = database w8" "database w10 = database w9" "database w11 = database w10" "database w12 = database w11"
    have db: "database w12 = database w" "database w3 = database w" "database w4 = database w" "database w6 = database w" "database w8 = database w"
      using d by simp_all
    obtain dev where vm: "vm = ?new\<lparr>vm_DevUser := dev\<rparr>" using prepareRootFS_vm [OF a(6)] by blast
    obtain image mib where img: "img = (image, mib)" by (cases img)
    have krn: "krn \<in> set (kernels (database w))" using resolveKernelForVM_ok [OF a(2)] db by simp
    have image: "image \<in> set (base_images (database w))" using resolveBaseImageForVM_ok [OF a(3) [unfolded img]] db by simp
    show "sound w12 (store_CreateVM vm)"
      unfolding store_CreateVM_def
    proof (rule sound_insert, rule vm_created, assumption)
      assume g: "good (database w12)"
      then have "net_ok (database w8)" unfolding db by (simp add: good_def plan_ok_def)
      then show "fresh_address (database w12) vm"
        using allocateNetwork_fresh [OF a(5), of vm] unfolding db by (simp add: vm)
      show "fresh_port (database w12) vm" using allocatePort_fresh [OF a(4), of vm] unfolding db by (simp add: vm)
      show "valid_size vm" using create_defaults_run(1) [OF a(1)] by (simp add: vm valid_size_def)
      show "valid_egress (database w12) vm" using create_defaults_run(2) [OF a(1)] unfolding db by (simp add: vm valid_egress_def)
      show "known_parts (database w12) vm" using krn image unfolding db by (simp add: vm img known_parts_def)
      show "vm_State vm = VMStopped" by (simp add: vm)
    qed
    show "sound w13 (seqE (whenE (cr_SSHKeyID req \<noteq> '''') (ignoreE (store_TouchSSHKey (cr_SSHKeyID req)))) (returnE vm))" for w13
      by (rule sound_seq [OF sound_when sound_ro [OF ro_return]])
        (rule sound_evolves [OF evolves_ignore [OF evolves_TouchSSHKey]])
  qed
qed

end
