(* ===== verification/Runs.thy ===== *)
theory Runs
  imports Guest
begin

text \<open>
  What every run of a function does to the world, as a relation between the world before and the world
  after. The locale \<open>run_relation\<close> asks for a reflexive and transitive relation and gives a rule per
  combinator; \<open>trail_relation\<close> adds that an effect may be recorded, \<open>world_relation\<close> that the database may
  change. Interpreted below: the trail only grows, and the host stays the same.
\<close>

definition runs :: "(world \<Rightarrow> world \<Rightarrow> bool) \<Rightarrow> 'a io \<Rightarrow> bool" where
  "runs R m \<longleftrightarrow> (\<forall>w. R w (snd (m w)))"

named_theorems runs

lemma runsD: "runs R m \<Longrightarrow> m w = (r, w') \<Longrightarrow> R w w'"
  unfolding runs_def by (metis snd_conv)

lemma runsI: "(\<And>w r w'. m w = (r, w') \<Longrightarrow> R w w') \<Longrightarrow> runs R m"
  unfolding runs_def by (metis prod.collapse)

locale run_relation =
  fixes R :: "world \<Rightarrow> world \<Rightarrow> bool"
  assumes same: "R w w"
    and step: "R w v \<Longrightarrow> R v u \<Longrightarrow> R w u"
begin

lemma runs_return [runs]: "runs R (returnE x)" by (simp add: runs_def returnE_def same)
lemma runs_throw [runs]: "runs R (throwE e)" by (simp add: runs_def throwE_def same)
lemma runs_lift [runs]: "runs R (liftE r)" by (simp add: runs_def liftE_def same)
lemma runs_gets [runs]: "runs R (getsW f)" by (simp add: runs_def getsW_def same)
lemma runs_config [runs]: "runs R (config_get f)" by (simp add: config_get_def runs_gets)

lemma runs_bind [runs]: "runs R m \<Longrightarrow> (\<And>x. runs R (f x)) \<Longrightarrow> runs R (bindE m f)"
proof (rule runsI)
  fix w r w' assume m: "runs R m" and f: "\<And>x. runs R (f x)" and b: "bindE m f w = (r, w')"
  obtain q v where q: "m w = (q, v)" by fastforce
  show "R w w'"
    using b q runsD [OF m q] step runsD [OF f] by (cases q) (auto simp: bindE_def)
qed

lemma runs_seq [runs]: "runs R m \<Longrightarrow> runs R n \<Longrightarrow> runs R (seqE m n)"
  unfolding seqE_def by (rule runs_bind)

lemma runs_try [runs]: "runs R m \<Longrightarrow> runs R (tryE m)"
  by (rule runsI) (auto simp: tryE_def split: prod.splits dest: runsD)

lemma runs_ignore [runs]: "runs R m \<Longrightarrow> runs R (ignoreE m)"
  unfolding ignoreE_def by (intro runs)

lemma runs_errorOf [runs]: "runs R m \<Longrightarrow> runs R (errorOf m)"
  unfolding errorOf_def by (intro runs)

lemma runs_when [runs]: "runs R m \<Longrightarrow> runs R (whenE b m)" by (simp add: whenE_def runs_return)
lemma runs_failIf [runs]: "runs R (failIf b e)" by (simp add: failIf_def runs_return runs_throw)

lemma runs_defer [runs]: "runs R d \<Longrightarrow> runs R m \<Longrightarrow> runs R (deferE d m)"
proof (rule runsI)
  fix w r w' assume d: "runs R d" and m: "runs R m" and b: "deferE d m w = (r, w')"
  then obtain v where v: "m w = (r, v)" "w' = snd (d v)" by (auto simp: deferE_run)
  show "R w w'" using runsD [OF m v(1)] d step unfolding runs_def v(2) by blast
qed

lemma runs_for [runs]: "(\<And>x. runs R (f x)) \<Longrightarrow> runs R (forE xs f)"
  by (induction xs) (auto intro: runs)

lemma runs_map [runs]: "(\<And>x. runs R (f x)) \<Longrightarrow> runs R (mapE f xs)"
  by (induction xs) (auto intro!: runs)

lemma runs_fold [runs]: "(\<And>s x. runs R (f s x)) \<Longrightarrow> runs R (foldE f s xs)"
  by (induction xs arbitrary: s) (auto intro!: runs)

lemma runs_onError [runs]: "runs R d \<Longrightarrow> runs R m \<Longrightarrow> runs R (onErrorE d m)"
  unfolding onErrorE_def by (intro runs_bind runs_try) (auto split: sum.splits intro: runs)

lemma runs_if [runs]: "runs R m \<Longrightarrow> runs R n \<Longrightarrow> runs R (if b then m else n)" by simp
lemma runs_option [runs]: "runs R m \<Longrightarrow> (\<And>x. runs R (f x)) \<Longrightarrow> runs R (case r of None \<Rightarrow> m | Some x \<Rightarrow> f x)"
  by (cases r) auto
lemma runs_sum [runs]:
  "(\<And>x. runs R (f x)) \<Longrightarrow> (\<And>x. runs R (g x)) \<Longrightarrow> runs R (case r of Inl x \<Rightarrow> f x | Inr x \<Rightarrow> g x)"
  by (cases r) auto
lemma runs_prod [runs]: "(\<And>x y. runs R (f x y)) \<Longrightarrow> runs R (case r of (x, y) \<Rightarrow> f x y)"
  by (cases r) auto
lemma runs_let [runs]: "(\<And>x. runs R (f x)) \<Longrightarrow> runs R (let x = t in f x)" by simp
lemma runs_reply [runs]:
  "(\<And>x. runs R (f x)) \<Longrightarrow> (\<And>x y. runs R (g x y)) \<Longrightarrow> (\<And>x y z. runs R (h x y z)) \<Longrightarrow>
     runs R (case r of Ok x \<Rightarrow> f x | Fail x y \<Rightarrow> g x y | Response x y z \<Rightarrow> h x y z)"
  by (cases r) auto
lemma runs_stat_reply [runs]:
  "(\<And>x. runs R (f x)) \<Longrightarrow> (\<And>x. runs R (g x)) \<Longrightarrow> (\<And>x. runs R (h x)) \<Longrightarrow>
     runs R (case r of Found x \<Rightarrow> f x | Missing x \<Rightarrow> g x | StatFailed x \<Rightarrow> h x)"
  by (cases r) auto

end

locale trail_relation = run_relation +
  assumes effect: "R w (w\<lparr>trail := e # trail w\<rparr>)"
begin

lemma runs_ask [runs]: "runs R (ask e)" by (simp add: runs_def ask_def effect)
lemma runs_Now [runs]: "runs R Now" by (simp add: runs_def Now_def effect)
lemma runs_Hex [runs]: "runs R (Hex n)" by (simp add: runs_def Hex_def effect)
lemma runs_stat [runs]: "runs R (stat p)" by (simp add: runs_def stat_def effect)
lemma runs_perform [runs]: "runs R (perform e)" unfolding perform_def by (intro runs)
lemma runs_do_effect [runs]: "runs R (do_effect e)" unfolding do_effect_def by (intro runs)
lemma runs_query [runs]: "runs R (query q f)" unfolding query_def by (intro runs)
lemma runs_run [runs]: "runs R (run n a)" unfolding run_def by (intro runs)
lemma runs_runShell [runs]: "runs R (runShell c)" unfolding runShell_def by (intro runs)
lemma runs_os_call [runs]: "runs R (os_call n a)" unfolding os_call_def by (intro runs)
lemma runs_mkdirAll [runs]: "runs R (mkdirAll p m)" unfolding mkdirAll_def by (intro runs)
lemma runs_writeFile [runs]: "runs R (writeFile p c m)" unfolding writeFile_def by (intro runs)
lemma runs_readFile [runs]: "runs R (readFile p)" unfolding readFile_def by (intro runs)
lemma runs_removeFile [runs]: "runs R (removeFile p)" unfolding removeFile_def by (intro runs)
lemma runs_requireFile [runs]: "runs R (requireFile p)" unfolding requireFile_def by (intro runs)
lemma runs_imageSizes [runs]: "runs R (imageSizes p)" unfolding imageSizes_def by (intro runs)
lemma runs_detectFilesystem [runs]: "runs R (detectFilesystem p)" unfolding detectFilesystem_def by (intro runs)

end

locale world_relation = trail_relation +
  assumes database: "R w (w\<lparr>database := d\<rparr>)"
begin

lemma runs_exec [runs]: "runs R (exec q f)"
proof -
  have "runs R (\<lambda>w. case f (database w) of Inl e \<Rightarrow> (Inl e, w) | Inr d \<Rightarrow> (Inr (), w\<lparr>database := d\<rparr>))"
    by (simp add: runs_def same database split: sum.splits)
  then show ?thesis unfolding exec_def by (intro runs)
qed

lemma runs_UpdateImageHook [runs]: "runs R (store_UpdateImageHook h)" unfolding store_UpdateImageHook_def by (intro runs)
lemma runs_CreateBaseImage [runs]: "runs R (store_CreateBaseImage i)" unfolding store_CreateBaseImage_def by (intro runs)

end

section \<open>The trail only grows, and the host stays\<close>

definition grown :: "world \<Rightarrow> world \<Rightarrow> bool" where
  "grown w w' \<longleftrightarrow> (\<exists>t. trail w' = t @ trail w)"

interpretation grown: world_relation grown
proof
  show "grown w v \<Longrightarrow> grown v u \<Longrightarrow> grown w u" for w v u
    unfolding grown_def by (metis append_assoc)
qed (simp_all add: grown_def)

definition same_host :: "world \<Rightarrow> world \<Rightarrow> bool" where
  "same_host w w' \<longleftrightarrow> host_of w' = host_of w \<and> cfg w' = cfg w"

interpretation same_host: world_relation same_host
  by unfold_locales (simp_all add: same_host_def)

lemma done_stays: "grown w w' \<Longrightarrow> e \<in> set (trail w) \<Longrightarrow> e \<in> set (trail w')"
  by (auto simp: grown_def)

end
