(* ===== verification/GoEncoding.thy ===== *)
theory GoEncoding
  imports GoNet
begin

text \<open>
  Go's \<open>base64.StdEncoding\<close>, \<open>hex.EncodeToString\<close> and the JSON text of a string (\<open>encoding/json\<close> of
  Go 1.24, which escapes \<open><\<close>, \<open>>\<close> and \<open>&\<close> and replaces each byte that is not part of a UTF-8 sequence).
\<close>

section \<open>base64\<close>

definition b64_alphabet :: string where
  "b64_alphabet = ''ABCDEFGHIJKLMNOPQRSTUVWXYZabcdefghijklmnopqrstuvwxyz0123456789+/''"

definition b64_char :: "nat \<Rightarrow> char" where
  "b64_char n = b64_alphabet ! (n mod 64)"

definition byte_of :: "char \<Rightarrow> nat" where
  "byte_of c = of_char c"

fun base64Encode :: "string \<Rightarrow> string" where
  "base64Encode [] = []"
| "base64Encode [a] =
     [b64_char (byte_of a div 4), b64_char (byte_of a mod 4 * 16), CHR ''='', CHR ''='']"
| "base64Encode [a, b] =
     [b64_char (byte_of a div 4), b64_char (byte_of a mod 4 * 16 + byte_of b div 16),
      b64_char (byte_of b mod 16 * 4), CHR ''='']"
| "base64Encode (a # b # c # s) =
     [b64_char (byte_of a div 4), b64_char (byte_of a mod 4 * 16 + byte_of b div 16),
      b64_char (byte_of b mod 16 * 4 + byte_of c div 64), b64_char (byte_of c mod 64)] @ base64Encode s"

text \<open>The decoder of RFC 4648, which \<open>base64 -d\<close> runs in the guest.\<close>

definition b64_val :: "char \<Rightarrow> nat option" where
  "b64_val c = find (\<lambda>n. b64_char n = c) [0..<64]"

fun base64Decode :: "string \<Rightarrow> string option" where
  "base64Decode [] = Some []"
| "base64Decode [a, b, c, d] =
     (case (b64_val a, b64_val b) of
        (Some i, Some j) \<Rightarrow>
          if c = CHR ''='' then (if d = CHR ''='' then Some [char_of (i * 4 + j div 16)] else None)
          else (case b64_val c of
              None \<Rightarrow> None
            | Some k \<Rightarrow>
                if d = CHR ''='' then Some [char_of (i * 4 + j div 16), char_of (j mod 16 * 16 + k div 4)]
                else map_option (\<lambda>l. [char_of (i * 4 + j div 16), char_of (j mod 16 * 16 + k div 4),
                       char_of (k mod 4 * 64 + l)]) (b64_val d))
      | _ \<Rightarrow> None)"
| "base64Decode (a # b # c # d # s) =
     (case (b64_val a, b64_val b, b64_val c, b64_val d, base64Decode s) of
        (Some i, Some j, Some k, Some l, Some t) \<Rightarrow>
          Some (char_of (i * 4 + j div 16) # char_of (j mod 16 * 16 + k div 4) # char_of (k mod 4 * 64 + l) # t)
      | _ \<Rightarrow> None)"
| "base64Decode _ = None"

lemma b64_val_char: "n < 64 \<Longrightarrow> b64_val (b64_char n) = Some n"
proof -
  have "list_all (\<lambda>n. b64_val (b64_char n) = Some n) [0..<64]" by code_simp
  then show "n < 64 \<Longrightarrow> b64_val (b64_char n) = Some n" by (auto simp: list_all_iff)
qed

lemma b64_char_not_pad: "b64_char n \<noteq> CHR ''=''"
proof -
  have "list_all (\<lambda>n. b64_char n \<noteq> CHR ''='') [0..<64]" by code_simp
  then have "b64_char (n mod 64) \<noteq> CHR ''=''" by (auto simp: list_all_iff)
  then show ?thesis by (simp add: b64_char_def)
qed

lemma byte_less: "byte_of c < 256"
  by (simp add: byte_of_def)

lemma char_of_byte: "char_of (byte_of c) = c"
  by (simp add: byte_of_def)

text \<open>The arithmetic of one group.\<close>

lemma group_parts:
  fixes a b c :: nat
  assumes "a < 256" "b < 256" "c < 256"
  shows "a div 4 * 4 + (a mod 4 * 16 + b div 16) div 16 = a"
    "(a mod 4 * 16 + b div 16) mod 16 * 16 + (b mod 16 * 4 + c div 64) div 4 = b"
    "(b mod 16 * 4 + c div 64) mod 4 * 64 + c mod 64 = c"
    "a div 4 < 64" "a mod 4 * 16 + b div 16 < 64" "b mod 16 * 4 + c div 64 < 64" "c mod 64 < 64"
proof -
  have b: "b div 16 < 16" and c: "c div 64 < 4" using assms by auto
  then show "a div 4 * 4 + (a mod 4 * 16 + b div 16) div 16 = a" by simp
  have "(a mod 4 * 16 + b div 16) mod 16 = b div 16" using b by simp
  moreover have "(b mod 16 * 4 + c div 64) div 4 = b mod 16" using c by simp
  ultimately show "(a mod 4 * 16 + b div 16) mod 16 * 16 + (b mod 16 * 4 + c div 64) div 4 = b" by simp
  have "(b mod 16 * 4 + c div 64) mod 4 = c div 64" using c by simp
  then show "(b mod 16 * 4 + c div 64) mod 4 * 64 + c mod 64 = c" by simp
qed (use assms in \<open>auto simp: less_mult_imp_div_less\<close>)

lemma base64_group:
  "b64_val (b64_char (byte_of a div 4)) = Some (byte_of a div 4)"
  "b64_val (b64_char (byte_of a mod 4 * 16 + byte_of b div 16)) = Some (byte_of a mod 4 * 16 + byte_of b div 16)"
  "b64_val (b64_char (byte_of b mod 16 * 4 + byte_of c div 64)) = Some (byte_of b mod 16 * 4 + byte_of c div 64)"
  "b64_val (b64_char (byte_of c mod 64)) = Some (byte_of c mod 64)"
  using group_parts [of "byte_of a" "byte_of b" "byte_of c"] byte_less by (simp_all add: b64_val_char)

lemma base64_round_trip: "base64Decode (base64Encode s) = Some s"
proof (induction s rule: base64Encode.induct)
  case (2 a)
  show ?case
    using base64_group(1) [of a] base64_group(2) [of a "CHR 0x00"] group_parts(1) [of "byte_of a" 0 0] byte_less [of a]
    by (simp add: byte_of_def char_of_byte [unfolded byte_of_def])
next
  case (3 a b)
  show ?case
    using base64_group(1) [of a] base64_group(2) [of a b] base64_group(3) [of b "CHR 0x00"] group_parts(1,2) [of "byte_of a" "byte_of b" 0]
      byte_less b64_char_not_pad
    by (simp add: char_of_byte) (simp add: byte_of_def)
next
  case (4 a b c s)
  note g = base64_group(1) [of a] base64_group(2) [of a b] base64_group(3) [of b c] base64_group(4) [of c] group_parts(1-3) [of "byte_of a" "byte_of b" "byte_of c", OF byte_less byte_less byte_less]
  show ?case
  proof (cases "base64Encode s")
    case Nil
    then have "s = []" by (cases s rule: base64Encode.cases) auto
    then show ?thesis using g b64_char_not_pad by (simp add: char_of_byte)
  next
    case (Cons x xs)
    then show ?thesis using 4 g by (simp add: char_of_byte)
  qed
qed simp

section \<open>Hexadecimal\<close>

definition hexEncode :: "string \<Rightarrow> string" where
  "hexEncode s = concat (map (\<lambda>c. [hex_digit (byte_of c div 16), hex_digit (byte_of c mod 16)]) s)"

section \<open>JSON strings\<close>

text \<open>The length of the UTF-8 sequence a string begins with; 0 for a byte that begins none.\<close>

definition cont :: "char \<Rightarrow> bool" where
  "cont c = (128 \<le> byte_of c \<and> byte_of c < 192)"

definition utf8_len :: "string \<Rightarrow> nat" where
  "utf8_len s =
     (case s of
        [] \<Rightarrow> 0
      | a # t \<Rightarrow>
          (let x = byte_of a
           in if x < 128 then 1
              else if 194 \<le> x \<and> x < 224 then (case t of b # _ \<Rightarrow> if cont b then 2 else 0 | _ \<Rightarrow> 0)
              else if 224 \<le> x \<and> x < 240 then
                (case t of
                   b # c # _ \<Rightarrow>
                     if cont b \<and> cont c \<and> (x = 224 \<longrightarrow> 160 \<le> byte_of b) \<and> (x = 237 \<longrightarrow> byte_of b < 160) then 3 else 0
                 | _ \<Rightarrow> 0)
              else if 240 \<le> x \<and> x < 245 then
                (case t of
                   b # c # d # _ \<Rightarrow>
                     if cont b \<and> cont c \<and> cont d \<and> (x = 240 \<longrightarrow> 144 \<le> byte_of b) \<and> (x = 244 \<longrightarrow> byte_of b < 144) then 4 else 0
                 | _ \<Rightarrow> 0)
              else 0))"

definition json_ascii :: "char \<Rightarrow> string" where
  "json_ascii c =
     (if c = CHR 0x22 \<or> c = CHR 0x5C then [CHR 0x5C, c]
      else if byte_of c = 8 then [CHR 0x5C, CHR ''b'']
      else if byte_of c = 12 then [CHR 0x5C, CHR ''f'']
      else if byte_of c = 10 then [CHR 0x5C, CHR ''n'']
      else if byte_of c = 13 then [CHR 0x5C, CHR ''r'']
      else if byte_of c = 9 then [CHR 0x5C, CHR ''t'']
      else if byte_of c < 32 \<or> c = CHR ''<'' \<or> c = CHR ''>'' \<or> c = CHR ''&''
      then [CHR 0x5C, CHR ''u'', CHR ''0'', CHR ''0'', hex_digit (byte_of c div 16), hex_digit (byte_of c mod 16)]
      else [c])"

function json_chars :: "string \<Rightarrow> string" where
  "json_chars [] = []"
| "json_chars (a # s) =
     (let n = utf8_len (a # s)
      in if n = 0 then [CHR 0x5C] @ ''ufffd'' @ json_chars s
         else if n = 1 then json_ascii a @ json_chars s
         else if n = 3 \<and> byte_of a = 226 \<and> map byte_of (take 1 s) = [128] \<and> map byte_of (take 1 (drop 1 s)) \<in> {[168], [169]}
         then [CHR 0x5C] @ ''u202'' @ [if map byte_of (take 1 (drop 1 s)) = [168] then CHR ''8'' else CHR ''9'']
                @ json_chars (drop 2 s)
         else a # take (n - 1) s @ json_chars (drop (n - 1) s))"
  by pat_completeness auto
termination by (relation "measure length") auto

definition json_string :: "string \<Rightarrow> string" where
  "json_string s = [CHR 0x22] @ json_chars s @ [CHR 0x22]"

text \<open>\<open>json.Marshal\<close> of a \<open>map[string]string\<close>: the entries sorted by key.\<close>

definition json_string_map :: "(string \<times> string) list \<Rightarrow> string" where
  "json_string_map kvs =
     [CHR 0x7B] @ join '','' (map (\<lambda>(k, v). json_string k @ '':'' @ json_string v) (sort_key fst kvs)) @ [CHR 0x7D]"

end
