(* ===== verification/GoCrypto.thy ===== *)
theory GoCrypto
  imports GoEncoding
begin

text \<open>
  \<open>crypto/sha256\<close> (FIPS 180-4) on strings of bytes, for the checksums of images and kernels and the
  hashes of API tokens. The text of a checksum has 64 hexadecimal digits whatever the input.
\<close>

unbundle bit_operations_syntax

section \<open>The compression function\<close>

definition sha_k :: "u32 list" where
  "sha_k = [
     0x428a2f98, 0x71374491, 0xb5c0fbcf, 0xe9b5dba5, 0x3956c25b, 0x59f111f1, 0x923f82a4, 0xab1c5ed5,
     0xd807aa98, 0x12835b01, 0x243185be, 0x550c7dc3, 0x72be5d74, 0x80deb1fe, 0x9bdc06a7, 0xc19bf174,
     0xe49b69c1, 0xefbe4786, 0x0fc19dc6, 0x240ca1cc, 0x2de92c6f, 0x4a7484aa, 0x5cb0a9dc, 0x76f988da,
     0x983e5152, 0xa831c66d, 0xb00327c8, 0xbf597fc7, 0xc6e00bf3, 0xd5a79147, 0x06ca6351, 0x14292967,
     0x27b70a85, 0x2e1b2138, 0x4d2c6dfc, 0x53380d13, 0x650a7354, 0x766a0abb, 0x81c2c92e, 0x92722c85,
     0xa2bfe8a1, 0xa81a664b, 0xc24b8b70, 0xc76c51a3, 0xd192e819, 0xd6990624, 0xf40e3585, 0x106aa070,
     0x19a4c116, 0x1e376c08, 0x2748774c, 0x34b0bcb5, 0x391c0cb3, 0x4ed8aa4a, 0x5b9cca4f, 0x682e6ff3,
     0x748f82ee, 0x78a5636f, 0x84c87814, 0x8cc70208, 0x90befffa, 0xa4506ceb, 0xbef9a3f7, 0xc67178f2]"

record sha_state =
  h0 :: u32  h1 :: u32  h2 :: u32  h3 :: u32
  h4 :: u32  h5 :: u32  h6 :: u32  h7 :: u32

definition sha_init :: sha_state where
  "sha_init = \<lparr>h0 = 0x6a09e667, h1 = 0xbb67ae85, h2 = 0x3c6ef372, h3 = 0xa54ff53a,
     h4 = 0x510e527f, h5 = 0x9b05688c, h6 = 0x1f83d9ab, h7 = 0x5be0cd19\<rparr>"

text \<open>A window of sixteen words of the message schedule, and the word after it.\<close>

definition sha_next :: "u32 list \<Rightarrow> u32" where
  "sha_next ws =
     (let x = ws ! 1; y = ws ! 14;
          s0 = word_rotr 7 x XOR word_rotr 18 x XOR drop_bit 3 x;
          s1 = word_rotr 17 y XOR word_rotr 19 y XOR drop_bit 10 y
      in ws ! 0 + s0 + ws ! 9 + s1)"

definition sha_round :: "u32 \<Rightarrow> u32 \<Rightarrow> sha_state \<Rightarrow> sha_state" where
  "sha_round k w s =
     (let s1 = word_rotr 6 (h4 s) XOR word_rotr 11 (h4 s) XOR word_rotr 25 (h4 s);
          ch = (h4 s AND h5 s) XOR (NOT (h4 s) AND h6 s);
          t1 = h7 s + s1 + ch + k + w;
          s0 = word_rotr 2 (h0 s) XOR word_rotr 13 (h0 s) XOR word_rotr 22 (h0 s);
          maj = (h0 s AND h1 s) XOR (h0 s AND h2 s) XOR (h1 s AND h2 s);
          t2 = s0 + maj
      in \<lparr>h0 = t1 + t2, h1 = h0 s, h2 = h1 s, h3 = h2 s, h4 = h3 s + t1, h5 = h4 s, h6 = h5 s, h7 = h6 s\<rparr>)"

fun sha_rounds :: "u32 list \<Rightarrow> u32 list \<Rightarrow> sha_state \<Rightarrow> sha_state" where
  "sha_rounds [] ws s = s"
| "sha_rounds (k # ks) ws s = sha_rounds ks (tl ws @ [sha_next ws]) (sha_round k (hd ws) s)"

definition sha_add :: "sha_state \<Rightarrow> sha_state \<Rightarrow> sha_state" where
  "sha_add a b = \<lparr>h0 = h0 a + h0 b, h1 = h1 a + h1 b, h2 = h2 a + h2 b, h3 = h3 a + h3 b,
     h4 = h4 a + h4 b, h5 = h5 a + h5 b, h6 = h6 a + h6 b, h7 = h7 a + h7 b\<rparr>"

section \<open>The message\<close>

definition sha_pad :: "string \<Rightarrow> string" where
  "sha_pad m =
     m @ [CHR 0x80] @ replicate ((119 - length m mod 64) mod 64) (CHR 0x00) @
     map (\<lambda>i. char_of (8 * int (length m) div 256 ^ (7 - i) mod 256)) [0..<8]"

definition sha_word :: "string \<Rightarrow> u32" where
  "sha_word s = foldl (\<lambda>w c. 256 * w + of_nat (byte_of c)) 0 s"

fun chunks :: "nat \<Rightarrow> nat \<Rightarrow> string \<Rightarrow> string list" where
  "chunks 0 n s = []"
| "chunks (Suc k) n s = take n s # chunks k n (drop n s)"

definition sha_block :: "sha_state \<Rightarrow> string \<Rightarrow> sha_state" where
  "sha_block s block = sha_add s (sha_rounds sha_k (map sha_word (chunks 16 4 block)) s)"

definition word_bytes :: "u32 \<Rightarrow> string" where
  "word_bytes w = map (\<lambda>i. char_of (uint w div 256 ^ (3 - i) mod 256)) [0..<4]"

definition sha256 :: "string \<Rightarrow> string" where
  "sha256 m =
     (let p = sha_pad m; s = foldl sha_block sha_init (chunks (length p div 64) 64 p)
      in word_bytes (h0 s) @ word_bytes (h1 s) @ word_bytes (h2 s) @ word_bytes (h3 s) @
         word_bytes (h4 s) @ word_bytes (h5 s) @ word_bytes (h6 s) @ word_bytes (h7 s))"

text \<open>The text of a checksum: \<open>hex.EncodeToString(sha256.Sum256(..))\<close>.\<close>

definition sha256_hex :: "string \<Rightarrow> string" where
  "sha256_hex m = hexEncode (sha256 m)"

section \<open>Its shape\<close>

lemma sha_pad_blocks: "64 dvd length (sha_pad m)"
proof -
  let ?n = "length m"
  have "?n + 1 + (119 - ?n mod 64) mod 64 + 8 = 64 * (?n div 64) + (?n mod 64 + (119 - ?n mod 64) mod 64 + 9)"
    using div_mult_mod_eq [of ?n 64] by linarith
  moreover have "64 dvd (r + (119 - r) mod 64 + 9 :: nat)" if "r < 64" for r
  proof (cases "r < 56")
    case True
    then have "(119 - r) mod 64 = 55 - r" using mod_less [of "55 - r" 64] mod_add_self2 [of "55 - r" 64] by simp
    then show ?thesis using True by simp
  next
    case False
    then have "(119 - r) mod 64 = 119 - r" by simp
    then show ?thesis using that by (simp add: dvd_def)
  qed
  ultimately have "64 dvd ?n + 1 + (119 - ?n mod 64) mod 64 + 8" by (metis dvd_add dvd_triv_left mod_less_divisor zero_less_numeral)
  then show ?thesis by (simp add: sha_pad_def ac_simps)
qed

lemma length_sha256 [simp]: "length (sha256 m) = 32"
  by (simp add: sha256_def word_bytes_def Let_def)

lemma length_hexEncode [simp]: "length (hexEncode s) = 2 * length s"
  unfolding hexEncode_def by (induction s) simp_all

lemma hex_digit_set: "n < 16 \<Longrightarrow> hex_digit n \<in> set ''0123456789abcdef''"
proof -
  have "list_all (\<lambda>n. hex_digit n \<in> set ''0123456789abcdef'') [0..<16]" by code_simp
  then show "n < 16 \<Longrightarrow> hex_digit n \<in> set ''0123456789abcdef''" by (simp add: list_all_iff)
qed

lemma hexEncode_digits: "set (hexEncode s) \<subseteq> set ''0123456789abcdef''"
proof -
  have "hex_digit (byte_of c div 16) \<in> set ''0123456789abcdef''" "hex_digit (byte_of c mod 16) \<in> set ''0123456789abcdef''" for c
    using byte_less [of c] by (intro hex_digit_set; simp)+
  then show ?thesis by (auto simp: hexEncode_def)
qed

definition is_checksum :: "string \<Rightarrow> bool" where
  "is_checksum s \<longleftrightarrow> length s = 64 \<and> set s \<subseteq> set ''0123456789abcdef''"

lemma sha256_hex_checksum: "is_checksum (sha256_hex m)"
  using hexEncode_digits by (simp add: is_checksum_def sha256_hex_def)

end
