(* ===== verification/GoUrl.thy ===== *)
theory GoUrl
  imports GoEncoding
begin

text \<open>
  \<open>net/url\<close> of Go 1.24 on strings of bytes: \<open>Parse\<close>, \<open>String\<close>, \<open>Hostname\<close>, \<open>Query\<close> and \<open>Encode\<close>, with
  the escaping of each part of a URL. An error is its text without the prefix \<open>parse "...": \<close>.
\<close>

section \<open>Escaping\<close>

datatype url_part = EncodePath | EncodeUserPassword | EncodeHost | EncodeZone | EncodeQueryComponent | EncodeFragment

definition shouldEscape :: "url_part \<Rightarrow> char \<Rightarrow> bool" where
  "shouldEscape mode c =
     (if is_alnum c then False
      else if (mode = EncodeHost \<or> mode = EncodeZone) \<and> c \<in> set (''!$&()*+,;=:[]<>'' @ [CHR 0x27, CHR 0x22]) then False
      else if c \<in> set ''-_.~'' then False
      else if c \<in> set ''$&+,/:;=?@'' \<and> mode = EncodePath then c = CHR ''?''
      else if c \<in> set ''$&+,/:;=?@'' \<and> mode = EncodeUserPassword then c \<in> set ''@/?:''
      else if c \<in> set ''$&+,/:;=?@'' \<and> mode = EncodeQueryComponent then True
      else if c \<in> set ''$&+,/:;=?@'' \<and> mode = EncodeFragment then False
      else if mode = EncodeFragment \<and> c \<in> set ''!()*'' then False
      else True)"

definition upper_hex :: "nat \<Rightarrow> char" where
  "upper_hex d = (if d < 10 then char_of (48 + d) else char_of (55 + d))"

definition escape_char :: "url_part \<Rightarrow> char \<Rightarrow> string" where
  "escape_char mode c =
     (if c = CHR '' '' \<and> mode = EncodeQueryComponent then ''+''
      else if shouldEscape mode c then [CHR ''%'', upper_hex (byte_of c div 16), upper_hex (byte_of c mod 16)]
      else [c])"

definition url_escape :: "url_part \<Rightarrow> string \<Rightarrow> string" where
  "url_escape mode s = concat (map (escape_char mode) s)"

definition hex_val :: "char \<Rightarrow> nat option" where
  "hex_val c =
     (let n = byte_of c
      in if 48 \<le> n \<and> n \<le> 57 then Some (n - 48)
         else if 97 \<le> n \<and> n \<le> 102 then Some (n - 87)
         else if 65 \<le> n \<and> n \<le> 70 then Some (n - 55)
         else None)"

definition escape_error :: "string \<Rightarrow> string" where
  "escape_error s = ''invalid URL escape '' @ Quote (take 3 s)"

text \<open>The check of one byte that \<open>%xy\<close> stands for: in a host only non-ASCII bytes may be escaped.\<close>

definition escape_allowed :: "url_part \<Rightarrow> nat \<Rightarrow> nat \<Rightarrow> bool" where
  "escape_allowed mode x y =
     (let v = 16 * x + y
      in (mode = EncodeHost \<longrightarrow> 8 \<le> x \<or> v = 37)
       \<and> (mode = EncodeZone \<longrightarrow> v = 37 \<or> v = 32 \<or> \<not> shouldEscape EncodeHost (char_of v)))"

fun url_unescape :: "url_part \<Rightarrow> string \<Rightarrow> string + string" where
  "url_unescape mode [] = Inr []"
| "url_unescape mode (c # s) =
     (if c = CHR ''%'' then
        (case s of
           a # b # t \<Rightarrow>
             (case (hex_val a, hex_val b) of
                (Some x, Some y) \<Rightarrow>
                  if escape_allowed mode x y then map_sum id (\<lambda>r. char_of (16 * x + y) # r) (url_unescape mode t)
                  else Inl (escape_error (c # s))
              | _ \<Rightarrow> Inl (escape_error (c # s)))
         | _ \<Rightarrow> Inl (escape_error (c # s)))
      else if c = CHR ''+'' \<and> mode = EncodeQueryComponent then map_sum id (\<lambda>r. CHR '' '' # r) (url_unescape mode s)
      else if (mode = EncodeHost \<or> mode = EncodeZone) \<and> byte_of c < 128 \<and> shouldEscape mode c
      then Inl (''invalid character '' @ Quote [c] @ '' in host name'')
      else map_sum id (\<lambda>r. c # r) (url_unescape mode s))"

definition QueryEscape :: "string \<Rightarrow> string" where
  "QueryEscape s = url_escape EncodeQueryComponent s"

definition QueryUnescape :: "string \<Rightarrow> string + string" where
  "QueryUnescape s = url_unescape EncodeQueryComponent s"

section \<open>Parsing\<close>

record url =
  u_Scheme :: string
  u_Opaque :: string
  u_User :: "(string \<times> string option) option"
  u_Host :: string
  u_Path :: string
  u_RawPath :: string
  u_OmitHost :: bool
  u_ForceQuery :: bool
  u_RawQuery :: string
  u_Fragment :: string
  u_RawFragment :: string

definition no_url :: url where
  "no_url = \<lparr>u_Scheme = '''', u_Opaque = '''', u_User = None, u_Host = '''', u_Path = '''', u_RawPath = '''',
     u_OmitHost = False, u_ForceQuery = False, u_RawQuery = '''', u_Fragment = '''', u_RawFragment = ''''\<rparr>"

text \<open>\<open>strings.Cut\<close> at a byte, and the same at its last occurrence.\<close>

definition cut :: "string \<Rightarrow> char \<Rightarrow> string \<times> string option" where
  "cut s c =
     (let a = takeWhile (\<lambda>x. x \<noteq> c) s
      in if length a = length s then (s, None) else (a, Some (drop (Suc (length a)) s)))"

definition cut_last :: "string \<Rightarrow> char \<Rightarrow> (string \<times> string) option" where
  "cut_last s c =
     (case cut (rev s) c of (a, None) \<Rightarrow> None | (a, Some b) \<Rightarrow> Some (rev b, rev a))"

definition after_cut :: "string \<times> string option \<Rightarrow> string" where
  "after_cut p = (case snd p of None \<Rightarrow> '''' | Some b \<Rightarrow> b)"

text \<open>\<open>getScheme\<close>: the scheme and what follows its colon.\<close>

fun scheme_at :: "string \<Rightarrow> string \<Rightarrow> (string \<times> string) option" where
  "scheme_at acc [] = None"
| "scheme_at acc (c # s) =
     (if is_lower c \<or> is_upper c then scheme_at (acc @ [c]) s
      else if is_digit c \<or> c \<in> set ''+-.'' then (if acc = [] then None else scheme_at (acc @ [c]) s)
      else if c = CHR '':'' then Some (acc, s)
      else None)"

definition getScheme :: "string \<Rightarrow> string + string \<times> string" where
  "getScheme s =
     (case scheme_at [] s of
        None \<Rightarrow> Inr ('''', s)
      | Some (scheme, rest) \<Rightarrow> if scheme = '''' then Inl ''missing protocol scheme'' else Inr (scheme, rest))"

definition validOptionalPort :: "string \<Rightarrow> bool" where
  "validOptionalPort port =
     (case port of [] \<Rightarrow> True | c # ds \<Rightarrow> c = CHR '':'' \<and> list_all is_digit ds)"

text \<open>The index of the first occurrence of a text.\<close>

fun index_of :: "string \<Rightarrow> string \<Rightarrow> nat option" where
  "index_of s t = (if HasPrefix s t then Some 0 else (case s of [] \<Rightarrow> None | _ # r \<Rightarrow> map_option Suc (index_of r t)))"

declare index_of.simps [simp del]

definition parseHost :: "string \<Rightarrow> string + string" where
  "parseHost host =
     (if HasPrefix host ''['' then
        (case cut_last host (CHR '']'') of
           None \<Rightarrow> Inl (''missing '' @ [CHR 0x27] @ '']'' @ [CHR 0x27] @ '' in host'')
         | Some (lit, colonPort) \<Rightarrow>
             if \<not> validOptionalPort colonPort then Inl (''invalid port '' @ Quote colonPort @ '' after host'')
             else (case index_of lit ''%25'' of
                     None \<Rightarrow> url_unescape EncodeHost host
                   | Some z \<Rightarrow>
                       (case url_unescape EncodeHost (take z host) of Inl e \<Rightarrow> Inl e | Inr h1 \<Rightarrow>
                       (case url_unescape EncodeZone (drop z lit) of Inl e \<Rightarrow> Inl e | Inr h2 \<Rightarrow>
                       (case url_unescape EncodeHost (drop (length lit) host) of Inl e \<Rightarrow> Inl e
                         | Inr h3 \<Rightarrow> Inr (h1 @ h2 @ h3))))))
      else (case cut_last host (CHR '':'') of
              Some (h, port) \<Rightarrow>
                if \<not> validOptionalPort ('':'' @ port) then Inl (''invalid port '' @ Quote ('':'' @ port) @ '' after host'')
                else url_unescape EncodeHost host
            | None \<Rightarrow> url_unescape EncodeHost host))"

definition validUserinfo :: "string \<Rightarrow> bool" where
  "validUserinfo s = list_all (\<lambda>c. is_alnum c \<or> c \<in> set (''-._:~!$&()*+,;=%@'' @ [CHR 0x27])) s"

definition parseAuthority :: "string \<Rightarrow> string + (string \<times> string option) option \<times> string" where
  "parseAuthority authority =
     (case cut_last authority (CHR ''@'') of
        None \<Rightarrow> (case parseHost authority of Inl e \<Rightarrow> Inl e | Inr host \<Rightarrow> Inr (None, host))
      | Some (userinfo, h) \<Rightarrow>
          (case parseHost h of
             Inl e \<Rightarrow> Inl e
           | Inr host \<Rightarrow>
               if \<not> validUserinfo userinfo then Inl ''net/url: invalid userinfo''
               else (case cut userinfo (CHR '':'') of
                       (name, None) \<Rightarrow>
                         (case url_unescape EncodeUserPassword name of
                            Inl e \<Rightarrow> Inl e | Inr n \<Rightarrow> Inr (Some (n, None), host))
                     | (name, Some pw) \<Rightarrow>
                         (case url_unescape EncodeUserPassword name of
                            Inl e \<Rightarrow> Inl e
                          | Inr n \<Rightarrow>
                              (case url_unescape EncodeUserPassword pw of
                                 Inl e \<Rightarrow> Inl e | Inr p \<Rightarrow> Inr (Some (n, Some p), host))))))"

definition setPath :: "string \<Rightarrow> url \<Rightarrow> string + url" where
  "setPath p u =
     (case url_unescape EncodePath p of
        Inl e \<Rightarrow> Inl e
      | Inr path \<Rightarrow> Inr (u\<lparr>u_Path := path, u_RawPath := (if url_escape EncodePath path = p then '''' else p)\<rparr>))"

definition is_ctl :: "char \<Rightarrow> bool" where
  "is_ctl c = (byte_of c < 32 \<or> byte_of c = 127)"

definition parse_url :: "string \<Rightarrow> string + url" where
  "parse_url rawURL =
     (if list_ex is_ctl rawURL then Inl ''net/url: invalid control character in URL''
      else if rawURL = ''*'' then Inr (no_url\<lparr>u_Path := ''*''\<rparr>)
      else case getScheme rawURL of
        Inl e \<Rightarrow> Inl e
      | Inr (scheme0, rest0) \<Rightarrow>
          let scheme = ToLower scheme0;
              force = HasSuffix rest0 ''?'' \<and> length (filter (\<lambda>c. c = CHR ''?'') rest0) = 1;
              rest = (if force then butlast rest0 else fst (cut rest0 (CHR ''?'')));
              u = no_url\<lparr>u_Scheme := scheme, u_ForceQuery := force,
                    u_RawQuery := (if force then '''' else after_cut (cut rest0 (CHR ''?'')))\<rparr>
          in if \<not> HasPrefix rest ''/'' \<and> scheme \<noteq> '''' then Inr (u\<lparr>u_Opaque := rest\<rparr>)
             else if \<not> HasPrefix rest ''/'' \<and> Contains (fst (cut rest (CHR ''/''))) '':''
             then Inl ''first path segment in URL cannot contain colon''
             else if (scheme \<noteq> '''' \<or> \<not> HasPrefix rest ''///'') \<and> HasPrefix rest ''//'' then
               (let authority = takeWhile (\<lambda>c. c \<noteq> CHR ''/'') (drop 2 rest)
                in case parseAuthority authority of
                     Inl e \<Rightarrow> Inl e
                   | Inr (user, host) \<Rightarrow>
                       setPath (drop (2 + length authority) rest) (u\<lparr>u_User := user, u_Host := host\<rparr>))
             else setPath rest (u\<lparr>u_OmitHost := (scheme \<noteq> '''' \<and> HasPrefix rest ''/'')\<rparr>))"

definition url_Parse :: "string \<Rightarrow> string + url" where
  "url_Parse rawURL =
     (let (u, frag) = cut rawURL (CHR ''#'')
      in case parse_url u of
           Inl e \<Rightarrow> Inl (''parse '' @ Quote u @ '': '' @ e)
         | Inr x \<Rightarrow>
             (case frag of
                None \<Rightarrow> Inr x
              | Some f \<Rightarrow>
                  if f = '''' then Inr x
                  else (case url_unescape EncodeFragment f of
                          Inl e \<Rightarrow> Inl (''parse '' @ Quote rawURL @ '': '' @ e)
                        | Inr g \<Rightarrow>
                            Inr (x\<lparr>u_Fragment := g, u_RawFragment := (if url_escape EncodeFragment g = f then '''' else f)\<rparr>))))"

text \<open>\<open>u.Hostname()\<close>.\<close>

definition Hostname :: "url \<Rightarrow> string" where
  "Hostname u =
     (let host = (case cut_last (u_Host u) (CHR '':'') of
                    Some (h, port) \<Rightarrow> if list_all is_digit port then h else u_Host u
                  | None \<Rightarrow> u_Host u)
      in if HasPrefix host ''['' \<and> HasSuffix host '']'' then butlast (tl host) else host)"

section \<open>Printing\<close>

definition validEncoded :: "url_part \<Rightarrow> string \<Rightarrow> bool" where
  "validEncoded mode s =
     list_all (\<lambda>c. c \<in> set (''!$&()*+,;=:@[]%'' @ [CHR 0x27]) \<or> \<not> shouldEscape mode c) s"

definition EscapedPath :: "url \<Rightarrow> string" where
  "EscapedPath u =
     (if u_RawPath u \<noteq> '''' \<and> validEncoded EncodePath (u_RawPath u) \<and> url_unescape EncodePath (u_RawPath u) = Inr (u_Path u)
      then u_RawPath u
      else if u_Path u = ''*'' then ''*'' else url_escape EncodePath (u_Path u))"

definition EscapedFragment :: "url \<Rightarrow> string" where
  "EscapedFragment u =
     (if u_RawFragment u \<noteq> '''' \<and> validEncoded EncodeFragment (u_RawFragment u)
         \<and> url_unescape EncodeFragment (u_RawFragment u) = Inr (u_Fragment u)
      then u_RawFragment u else url_escape EncodeFragment (u_Fragment u))"

definition user_text :: "string \<times> string option \<Rightarrow> string" where
  "user_text ui =
     (case ui of (n, pw) \<Rightarrow>
        url_escape EncodeUserPassword n @
        (case pw of None \<Rightarrow> '''' | Some p \<Rightarrow> '':'' @ url_escape EncodeUserPassword p))"

definition url_String :: "url \<Rightarrow> string" where
  "url_String u =
     (let scheme = (if u_Scheme u \<noteq> '''' then u_Scheme u @ '':'' else '''');
          host =
            (if (u_Scheme u \<noteq> '''' \<or> u_Host u \<noteq> '''' \<or> u_User u \<noteq> None)
                \<and> \<not> (u_OmitHost u \<and> u_Host u = '''' \<and> u_User u = None) then
               (if u_Host u \<noteq> '''' \<or> u_Path u \<noteq> '''' \<or> u_User u \<noteq> None then ''//'' else '''') @
               (case u_User u of None \<Rightarrow> '''' | Some ui \<Rightarrow> user_text ui @ ''@'') @
               url_escape EncodeHost (u_Host u)
             else '''');
          path = EscapedPath u;
          slash = (if path \<noteq> '''' \<and> \<not> HasPrefix path ''/'' \<and> u_Host u \<noteq> '''' then ''/'' else '''');
          dot = (if scheme @ host @ slash = '''' \<and> Contains (fst (cut path (CHR ''/''))) '':'' then ''./'' else '''')
      in scheme @ (if u_Opaque u \<noteq> '''' then u_Opaque u else host @ slash @ dot @ path) @
         (if u_ForceQuery u \<or> u_RawQuery u \<noteq> '''' then ''?'' @ u_RawQuery u else '''') @
         (if u_Fragment u \<noteq> '''' then ''#'' @ EscapedFragment u else ''''))"

section \<open>Queries\<close>

type_synonym url_values = "(string \<times> string list) list"

fun values_add :: "string \<Rightarrow> string \<Rightarrow> url_values \<Rightarrow> url_values" where
  "values_add k v [] = [(k, [v])]"
| "values_add k v ((k', vs) # m) = (if k' = k then (k', vs @ [v]) # m else (k', vs) # values_add k v m)"

definition values_Set :: "string \<Rightarrow> string \<Rightarrow> url_values \<Rightarrow> url_values" where
  "values_Set k v m = (k, [v]) # filter (\<lambda>p. fst p \<noteq> k) m"

text \<open>One setting of a query; a malformed one is left out.\<close>

definition query_setting :: "string \<Rightarrow> (string \<times> string) option" where
  "query_setting s =
     (if Contains s '';'' \<or> s = '''' then None
      else case (QueryUnescape (fst (cut s (CHR ''=''))), QueryUnescape (after_cut (cut s (CHR ''='')))) of
             (Inr k, Inr v) \<Rightarrow> Some (k, v)
           | _ \<Rightarrow> None)"

definition url_Query :: "url \<Rightarrow> url_values" where
  "url_Query u =
     foldl (\<lambda>m s. case query_setting s of None \<Rightarrow> m | Some (k, v) \<Rightarrow> values_add k v m) [] (Split (u_RawQuery u) (CHR ''&''))"

definition values_Encode :: "url_values \<Rightarrow> string" where
  "values_Encode m =
     join ''&'' (concat (map (\<lambda>(k, vs). map (\<lambda>v. QueryEscape k @ ''='' @ QueryEscape v) vs) (sort_key fst m)))"

section \<open>Round trips\<close>

lemma byte_char [simp]: "n < 256 \<Longrightarrow> byte_of (char_of n) = n"
  by (simp add: byte_of_def)

lemma hex_val_upper: "n < 16 \<Longrightarrow> hex_val (upper_hex n) = Some n"
  by (simp add: hex_val_def upper_hex_def Let_def)

lemma QueryUnescape_append:
  "QueryUnescape (escape_char EncodeQueryComponent c @ s) = map_sum id (\<lambda>r. c # r) (QueryUnescape s)"
proof -
  have n: "16 * (byte_of c div 16) + byte_of c mod 16 = byte_of c" "byte_of c div 16 < 16" "byte_of c mod 16 < 16"
    using byte_less [of c] by simp_all
  have c: "char_of (byte_of c) = c" by (simp add: byte_of_def)
  have e: "shouldEscape EncodeQueryComponent (CHR ''%'')" "shouldEscape EncodeQueryComponent (CHR ''+'')"
    by code_simp+
  consider "c = CHR '' ''" | "c \<noteq> CHR '' ''" "shouldEscape EncodeQueryComponent c" | "c \<noteq> CHR '' ''" "\<not> shouldEscape EncodeQueryComponent c"
    by blast
  then show ?thesis
  proof cases
    case 1
    then show ?thesis by (simp add: escape_char_def QueryUnescape_def)
  next
    case 2
    then show ?thesis by (simp add: escape_char_def QueryUnescape_def hex_val_upper [OF n(2)] hex_val_upper [OF n(3)] escape_allowed_def n(1) c)
  next
    case 3
    then have "c \<noteq> CHR ''%''" "c \<noteq> CHR ''+''" using e by blast+
    then show ?thesis using 3 by (simp add: escape_char_def QueryUnescape_def)
  qed
qed

lemma QueryEscape_round_trip: "QueryUnescape (QueryEscape s) = Inr s"
  unfolding QueryEscape_def url_escape_def
  by (induction s) (simp_all add: QueryUnescape_append, simp add: QueryUnescape_def)

text \<open>An escaped text has none of the separators of a query.\<close>

definition query_sep :: "char \<Rightarrow> bool" where
  "query_sep c = (c \<in> {CHR ''&'', CHR ''='', CHR '';'', CHR ''#''})"

lemma escape_char_plain: "\<not> list_ex query_sep (escape_char EncodeQueryComponent c)"
proof -
  have "list_all (\<lambda>n. \<not> query_sep (upper_hex n)) [0..<16]" by code_simp
  then have h: "\<not> query_sep (upper_hex n)" if "n < 16" for n using that by (simp add: list_all_iff)
  have n: "byte_of c div 16 < 16" "byte_of c mod 16 < 16" using byte_less [of c] by simp_all
  have "list_all (shouldEscape EncodeQueryComponent) [CHR ''&'', CHR ''='', CHR '';'', CHR ''#'']" by code_simp
  then have s: "query_sep c \<Longrightarrow> shouldEscape EncodeQueryComponent c" by (auto simp: query_sep_def)
  have p: "\<not> query_sep (CHR ''+'')" "\<not> query_sep (CHR ''%'')" by code_simp+
  have "\<not> shouldEscape EncodeQueryComponent c \<Longrightarrow> \<not> query_sep c" using s by blast
  then show ?thesis using h [OF n(1)] h [OF n(2)] p by (auto simp: escape_char_def)
qed

lemma QueryEscape_plain: "\<not> list_ex query_sep (QueryEscape s)"
  using escape_char_plain by (simp add: QueryEscape_def url_escape_def list_ex_iff)

lemma QueryEscape_Nil [simp]: "QueryEscape s = '''' \<longleftrightarrow> s = ''''"
  by (cases s) (auto simp: QueryEscape_def url_escape_def escape_char_def)

end
