(* ===== verification/BaseImages.thy ===== *)
theory BaseImages
  imports Runs GoCrypto GoUrl
begin

text \<open>
  Base images (\<open>internal/lifecycle/images.go\<close>): registration of an existing file, build jobs, and the
  hooks that a build runs. A symbolic link is resolved by the host; the check of a path against its
  directory and the walk up its parents are the code's own.
\<close>

section \<open>Files\<close>

definition EvalSymlinks :: "string \<Rightarrow> string io" where
  "EvalSymlinks path = perform (Os ''EvalSymlinks'' [path])"

text \<open>\<open>sha256File\<close> of \<open>kernels.go\<close> has the same body.\<close>

definition fileSHA256 :: "string \<Rightarrow> string io" where
  "fileSHA256 path =
     seqE (os_call ''Open'' [path])
       (deferE (ignoreE (os_call ''Close'' [path]))
         (bindE (perform (Os ''Copy'' [path])) (\<lambda>content. returnE (sha256_hex content))))"

text \<open>\<open>os.Remove\<close> or \<open>os.RemoveAll\<close> where a missing file is no error.\<close>

definition remove_existing :: "string \<Rightarrow> string \<Rightarrow> unit io" where
  "remove_existing call path =
     bindE (ask (Os call [path])) (\<lambda>r. case r of
         Fail m out \<Rightarrow> if out = ''ENOENT'' then returnE () else throwE (PlainError m)
       | _ \<Rightarrow> returnE ())"

definition world_writable :: "file_info \<Rightarrow> bool" where
  "world_writable fi = (and (fi_Mode fi) 2 \<noteq> 0)"

text \<open>\<open>os.Stat\<close> where every failure is returned.\<close>

definition must_stat :: "string \<Rightarrow> file_info io" where
  "must_stat path =
     bindE (stat path) (\<lambda>r. case r of
         Found fi \<Rightarrow> returnE fi | Missing m \<Rightarrow> throwE (PlainError m) | StatFailed m \<Rightarrow> throwE (PlainError m))"

lemma Dir_dot [simp]: "Dir ''.'' = ''.''" by code_simp

text \<open>The loop of \<open>secureExistingPath\<close>: a directory and its parents.\<close>

function secure_dirs :: "string \<Rightarrow> unit io" where
  "secure_dirs dir =
     bindE (must_stat dir) (\<lambda>info.
       seqE (failIf (world_writable info) (PlainError (''directory '' @ dir @ '' must not be world-writable'')))
         (if Dir dir = dir then returnE () else secure_dirs (Dir dir)))"
  by pat_completeness auto
termination
  by (relation "measure (\<lambda>dir. if dir = ''.'' then 0 else Suc (length dir))") (auto dest: Dir_shorter)

declare secure_dirs.simps [simp del]

definition secureExistingPath :: "string \<Rightarrow> unit io" where
  "secureExistingPath path =
     bindE (must_stat path) (\<lambda>st.
       seqE (failIf (world_writable st) (PlainError ''file must not be world-writable'')) (secure_dirs (Dir path)))"

section \<open>Registration\<close>

record register_image =
  ri_Name :: string
  ri_Path :: string
  ri_Status :: string
  ri_Filesystem :: string
  ri_Provenance :: string

text \<open>A file with resolved links must lie below a directory; \<open>validateKernelPath\<close> has the same body.\<close>

definition validate_below :: "string \<Rightarrow> string \<Rightarrow> string io" where
  "validate_below path dir =
     bindE (EvalSymlinks path) (\<lambda>clean.
     bindE (EvalSymlinks dir) (\<lambda>base.
     seqE (failIf (\<not> pathWithin clean base) (PlainError (''must be inside '' @ base))) (returnE clean)))"

definition validateImagePath :: "string \<Rightarrow> string io" where
  "validateImagePath path = bindE (config_get (\<lambda>c. BaseImageDir (Paths c))) (validate_below path)"

text \<open>\<open>if err := m(); err != nil { return Invalid(text, field: err) }\<close>.\<close>

definition invalidOn :: "string \<Rightarrow> string \<Rightarrow> 'a io \<Rightarrow> 'a io" where
  "invalidOn text field m =
     bindE (tryE m) (\<lambda>r. case r of Inl e \<Rightarrow> throwE (Invalid text [(field, err_text e)]) | Inr x \<Rightarrow> returnE x)"

definition RegisterBaseImage :: "register_image \<Rightarrow> string \<Rightarrow> base_image io" where
  "RegisterBaseImage req actor =
     (let name = TrimSpace (ri_Name req)
      in seqE (failIf (\<not> MatchString nameRe name)
               (Invalid ''Base image name is invalid'' [(''name'', ''must match '' @ nameRe_text)]))
        (bindE (invalidOn ''Base image path is invalid'' ''path'' (validateImagePath (ri_Path req))) (\<lambda>path.
         seqE (invalidOn ''Base image path is invalid'' ''path'' (requireFile path))
        (seqE (invalidOn ''Base image path is unsafe'' ''path'' (secureExistingPath path))
        (bindE (let fs0 = TrimSpace (ri_Filesystem req) in if fs0 = '''' then detectFilesystem path else returnE fs0) (\<lambda>fs1.
         let fs = defaultImageString fs1 ''unknown'';
             status = defaultImageString (TrimSpace (ri_Status req)) ''active''
         in seqE (failIf (fs \<noteq> ''unknown'' \<and> fs \<noteq> ''ext4'' \<and> fs \<noteq> ''xfs'')
                   (Invalid ''Base image filesystem is unsupported'' [(''filesystem'', ''must be ext4, xfs, or unknown'')]))
           (seqE (failIf (\<not> validImageStatus status)
                   (Invalid ''Base image status is invalid'' [(''status'', ''must be active, deprecated, or archived'')]))
           (bindE (imageSizes path) (\<lambda>(virtualMiB, diskBytes).
            bindE (config_get (\<lambda>c. MaxBaseImageMiB (Images c))) (\<lambda>limit.
            seqE (failIf (virtualMiB \<le> 0 \<or> limit < virtualMiB)
                   (Invalid ''Base image size is invalid''
                     [(''path'', ''virtual size must be between 1 and '' @ Itoa limit @ '' MiB'')]))
           (bindE (fileSHA256 path) (\<lambda>sum.
            bindE Now (\<lambda>now.
            bindE (Hex 8) (\<lambda>iid.
              let img = \<lparr>img_ID = iid, img_Name = name, img_Status = status, img_Filesystem = fs, img_Path = path,
                    img_VirtualSizeMiB = virtualMiB, img_DiskSizeBytes = diskBytes, img_Checksum = sum,
                    img_Packages = '''', img_Hooks = '''', img_Provenance = TrimSpace (ri_Provenance req),
                    img_CreatedBy = actor, img_CreatedAt = now, img_UpdatedAt = now\<rparr>
              in seqE (store_CreateBaseImage img) (returnE img)))))))))))))))"

definition EnsureDefaultBaseImage :: "unit io" where
  "EnsureDefaultBaseImage =
     bindE (config_get (\<lambda>c. BaseRootFS (Paths c))) (\<lambda>path.
       if TrimSpace path = '''' then returnE ()
       else bindE (stat path) (\<lambda>st. case st of
           Missing _ \<Rightarrow> returnE ()
         | StatFailed m \<Rightarrow> throwE (PlainError m)
         | Found _ \<Rightarrow>
             bindE (store_GetBaseImageByPath path) (\<lambda>existing.
               if existing \<noteq> None then returnE ()
               else seqE (RegisterBaseImage \<lparr>ri_Name = ''default-base-rootfs'', ri_Path = path, ri_Status = ''active'',
                      ri_Filesystem = '''', ri_Provenance = ''configured paths.base_rootfs''\<rparr> ''system'') (returnE ()))))"

definition require_image :: "string \<Rightarrow> base_image io" where
  "require_image iid =
     bindE (store_GetBaseImage iid) (\<lambda>found. case found of
         None \<Rightarrow> throwE (NotFound ''base image not found'') | Some img \<Rightarrow> returnE img)"

definition UpdateBaseImageStatus :: "string \<Rightarrow> string \<Rightarrow> base_image option io" where
  "UpdateBaseImageStatus iid status0 =
     bindE (require_image iid) (\<lambda>img.
       let status = TrimSpace status0
       in seqE (failIf (\<not> validImageStatus status)
               (Invalid ''Base image status is invalid'' [(''status'', ''must be active, deprecated, or archived'')]))
         (seqE (store_UpdateBaseImage (img\<lparr>img_Status := status\<rparr>)) (store_GetBaseImage iid)))"

definition DeleteBaseImage :: "string \<Rightarrow> unit io" where
  "DeleteBaseImage iid =
     bindE (require_image iid) (\<lambda>img.
     seqE (store_DeleteBaseImage iid)
       (if HasPrefix (img_Provenance img) ''managed build job '' \<and> img_Path img \<noteq> ''''
        then seqE (remove_existing ''Remove'' (img_Path img)) (remove_existing ''Remove'' (Dir (img_Path img)))
        else returnE ()))"

section \<open>Hooks\<close>

record hook_request =
  hr_Name :: string
  hr_SourceType :: string
  hr_Content :: string
  hr_GitURL :: string
  hr_GitRef :: string
  hr_GitPath :: string

definition validateGitHook :: "string list \<Rightarrow> hook_request \<Rightarrow> err option" where
  "validateGitHook allowedHosts req =
     (let invalid_url = Invalid ''Git URL is invalid'' [(''git_url'', ''must be an absolute http(s) URL'')]
      in case url_Parse (TrimSpace (hr_GitURL req)) of
           Inl e \<Rightarrow> Some invalid_url
         | Inr parsed \<Rightarrow>
             if u_Scheme parsed = '''' \<or> u_Host parsed = '''' then Some invalid_url
             else if u_User parsed \<noteq> None
             then Some (Invalid ''Git URL credentials are not supported'' [(''git_url'', ''must not include credentials'')])
             else if u_Scheme parsed \<noteq> ''https'' \<and> u_Scheme parsed \<noteq> ''http''
             then Some (Invalid ''Git URL scheme is unsupported'' [(''git_url'', ''must use https or http'')])
             else if allowedHosts \<noteq> [] \<and> \<not> list_ex (EqualFold (Hostname parsed)) allowedHosts
             then Some (Invalid ''Git host is not allowed'' [(''git_url'', ''host is not in allowed_git_hosts'')])
             else if cleanRelativePath (hr_GitPath req) = ''''
             then Some (Invalid ''Git hook path is invalid'' [(''git_path'', ''required'')])
             else None)"

definition upload_hook :: "hook_request \<Rightarrow> image_hook \<Rightarrow> image_hook io" where
  "upload_hook req hook =
     (let content = TrimSpace (hr_Content req)
      in seqE (failIf (content = '''') (Invalid ''Image hook content is required'' [(''content'', ''required'')]))
        (bindE (config_get (\<lambda>c. (MaxHookBytes (Images c), HookDir (Images c)))) (\<lambda>(limit, dir).
         seqE (failIf (limit < int (length content))
                 (Invalid ''Image hook is too large'' [(''content'', ''must be at most '' @ Itoa limit @ '' bytes'')]))
        (seqE (mkdirAll dir ''0700'')
           (let path = Join [dir, hook_ID hook @ ''.sh'']
            in seqE (writeFile path (content @ NL) ''0600'')
              (bindE (fileSHA256 path) (\<lambda>sum. returnE (hook\<lparr>hook_ContentPath := path, hook_Checksum := sum\<rparr>))))))))"

definition git_hook :: "hook_request \<Rightarrow> image_hook \<Rightarrow> image_hook io" where
  "git_hook req hook =
     bindE (config_get (\<lambda>c. AllowedGitHosts (Images c))) (\<lambda>allowed.
       case validateGitHook allowed req of
         Some e \<Rightarrow> throwE e
       | None \<Rightarrow> returnE (hook\<lparr>hook_GitURL := TrimSpace (hr_GitURL req),
             hook_GitRef := defaultImageString (TrimSpace (hr_GitRef req)) ''HEAD'',
             hook_GitPath := cleanRelativePath (hr_GitPath req)\<rparr>))"

definition CreateImageHook :: "hook_request \<Rightarrow> string \<Rightarrow> image_hook io" where
  "CreateImageHook req actor =
     (let name = TrimSpace (hr_Name req)
      in seqE (failIf (\<not> MatchString nameRe name)
               (Invalid ''Image hook name is invalid'' [(''name'', ''must match '' @ nameRe_text)]))
        (let sourceType = defaultImageString (TrimSpace (hr_SourceType req)) ''upload''
         in bindE Now (\<lambda>now.
            bindE (Hex 8) (\<lambda>hid.
              let hook = \<lparr>hook_ID = hid, hook_Name = name, hook_SourceType = sourceType, hook_Status = ''active'',
                    hook_ContentPath = '''', hook_GitURL = '''', hook_GitRef = '''', hook_GitPath = '''',
                    hook_ResolvedCommit = '''', hook_Checksum = '''', hook_CreatedBy = actor, hook_CreatedAt = now,
                    hook_UpdatedAt = now, hook_LastUsedAt = None\<rparr>
              in bindE (if sourceType = ''upload'' then upload_hook req hook
                        else if sourceType = ''git'' then git_hook req hook
                        else throwE (Invalid ''Image hook source_type is invalid'' [(''source_type'', ''must be upload or git'')]))
                  (\<lambda>hook'. seqE (store_CreateImageHook hook') (returnE hook'))))))"

definition DeleteImageHook :: "string \<Rightarrow> unit io" where
  "DeleteImageHook hid =
     bindE (store_GetImageHook hid) (\<lambda>found. case found of
         None \<Rightarrow> throwE (NotFound ''image hook not found'')
       | Some hook \<Rightarrow>
           seqE (whenE (hook_ContentPath hook \<noteq> '''') (ignoreE (removeFile (hook_ContentPath hook))))
             (store_DeleteImageHook hid))"

fun loadHooks :: "string list \<Rightarrow> image_hook list io" where
  "loadHooks [] = returnE []"
| "loadHooks (hid0 # ids) =
     (let hid = TrimSpace hid0
      in if hid = '''' then loadHooks ids
         else bindE (store_GetImageHook hid) (\<lambda>found. case found of
             None \<Rightarrow> throwE (NotFound ''image hook not found'')
           | Some hook \<Rightarrow>
               seqE (failIf (hook_Status hook \<noteq> ''active'') (Unprocessable ''Image hook is not active''
                       [(''hook_ids'', ''remove inactive hook '' @ hook_Name hook)]))
                 (bindE (loadHooks ids) (\<lambda>hooks. returnE (hook # hooks)))))"

section \<open>Starting a build\<close>

record build_request =
  br_Name :: string
  br_Filesystem :: string
  br_SizeMiB :: int
  br_Packages :: "string list"
  br_HookIDs :: "string list"

definition StartImageBuild :: "build_request \<Rightarrow> string \<Rightarrow> image_build_job io" where
  "StartImageBuild req actor =
     (let name = TrimSpace (br_Name req); fs = defaultImageString (TrimSpace (br_Filesystem req)) ''ext4''
      in seqE (failIf (\<not> MatchString nameRe name)
               (Invalid ''Base image name is invalid'' [(''name'', ''must match '' @ nameRe_text)]))
        (seqE (failIf (fs \<noteq> ''ext4'' \<and> fs \<noteq> ''xfs'')
               (Invalid ''Filesystem is unsupported'' [(''filesystem'', ''must be ext4 or xfs'')]))
        (bindE (config_get Images) (\<lambda>imgs.
         seqE (failIf (br_SizeMiB req \<le> 0 \<or> MaxBaseImageMiB imgs < br_SizeMiB req)
               (Invalid ''Base image size is invalid''
                 [(''size_mib'', ''must be between 1 and '' @ Itoa (MaxBaseImageMiB imgs))]))
        (bindE (liftE (normalizePackages (br_Packages req) (MaxPackages imgs))) (\<lambda>packages.
         bindE (loadHooks (br_HookIDs req)) (\<lambda>hooks.
         seqE (mkdirAll (BuildDir imgs) ''0700'')
        (bindE (config_get (\<lambda>c. LogDir (Paths c))) (\<lambda>logDir.
         seqE (mkdirAll logDir ''0700'')
        (bindE Now (\<lambda>now.
         bindE (Hex 8) (\<lambda>jid.
         bindE (Hex 8) (\<lambda>suffix.
           let job = \<lparr>bj_ID = jid, bj_Status = ''queued'', bj_Name = name, bj_Filesystem = fs, bj_SizeMiB = br_SizeMiB req,
                 bj_Packages = join '','' packages, bj_Hooks = join '','' (br_HookIDs req),
                 bj_LogPath = Join [logDir, ''image-build-'' @ suffix @ ''.log''], bj_ResultImageID = '''', bj_Error = '''',
                 bj_CreatedBy = actor, bj_CreatedAt = now, bj_StartedAt = None, bj_CompletedAt = None\<rparr>
           in seqE (store_CreateImageBuildJob job)
             (seqE (ignoreE (do_effect (Go ''runImageBuild'' (jid # packages)))) (returnE job)))))))))))))))"

section \<open>The tools of a build\<close>

definition log_write :: "string \<Rightarrow> string \<Rightarrow> unit io" where
  "log_write log text = ignoreE (os_call ''Fprintf'' [log, text])"

text \<open>\<open>time.RFC3339\<close>: without the fraction of a second.\<close>

definition RFC3339 :: "time \<Rightarrow> string" where
  "RFC3339 t = formatTime (t div Second * Second)"

definition logf :: "string \<Rightarrow> string \<Rightarrow> unit io" where
  "logf log text = bindE Now (\<lambda>t. log_write log (RFC3339 t @ '' '' @ text @ NL))"

definition runLogged :: "string \<Rightarrow> string \<Rightarrow> string list \<Rightarrow> unit io" where
  "runLogged log name args =
     bindE (ask (Exec name args)) (\<lambda>r. case r of
         Fail m out \<Rightarrow>
           seqE (log_write log (name @ '' '' @ join '' '' (redactArgs args) @ '' failed: '' @ m @ NL))
             (throwE (PlainError (name @ '' failed: '' @ m)))
       | _ \<Rightarrow> returnE ())"

definition umount_all :: "string list \<Rightarrow> unit io" where
  "umount_all targets = forE targets (\<lambda>t. ignoreE (run ''umount'' [t]))"

text \<open>The mounts made so far, and the error that ended the loop.\<close>

fun bind_devices :: "string \<Rightarrow> string list \<Rightarrow> string list \<Rightarrow> (string list \<times> err option) io" where
  "bind_devices devDir mounts [] = returnE (mounts, None)"
| "bind_devices devDir mounts (dev # devs) =
     (let target = Join [devDir, dev]
      in bindE (stat target) (\<lambda>st.
         bindE (case st of Missing _ \<Rightarrow> errorOf (writeFile target '''' ''0600'') | _ \<Rightarrow> returnE None) (\<lambda>werr.
           if werr \<noteq> None then returnE (mounts, werr)
           else bindE (errorOf (run ''mount'' [''--bind'', Join [''/dev'', dev], target])) (\<lambda>err.
                  if err \<noteq> None then returnE (mounts, err)
                  else bind_devices devDir (mounts @ [target]) devs))))"

definition bindMinimalDevices :: "string \<Rightarrow> (string list \<times> err option) io" where
  "bindMinimalDevices mountRoot =
     (let devDir = Join [mountRoot, ''dev'']
      in bindE (errorOf (mkdirAll devDir ''0755'')) (\<lambda>err.
           if err \<noteq> None then returnE ([], err)
           else bind_devices devDir [] [''null'', ''zero'', ''random'', ''urandom'']))"

fun pseudo_mounts :: "string \<Rightarrow> string list \<Rightarrow> (string \<times> string \<times> string) list \<Rightarrow> (string list \<times> err option) io" where
  "pseudo_mounts mountRoot mounted [] = returnE (mounted, None)"
| "pseudo_mounts mountRoot mounted ((fsType, source, t) # rest) =
     (let target = Join [mountRoot, t]
      in bindE (errorOf (mkdirAll target ''0755'')) (\<lambda>derr.
         bindE (if derr \<noteq> None then returnE derr else errorOf (run ''mount'' [''-t'', fsType, source, target])) (\<lambda>err.
           if err \<noteq> None then seqE (umount_all (rev mounted)) (returnE (mounted, err))
           else pseudo_mounts mountRoot (mounted @ [target]) rest)))"

definition mountBuildPseudoFilesystems :: "string \<Rightarrow> (string list \<times> err option) io" where
  "mountBuildPseudoFilesystems mountRoot =
     pseudo_mounts mountRoot [] [(''proc'', ''proc'', ''proc''), (''sysfs'', ''sysfs'', ''sys'')]"

definition writeAndRunChrootScript :: "string \<Rightarrow> string \<Rightarrow> string \<Rightarrow> string \<Rightarrow> unit io" where
  "writeAndRunChrootScript log mountRoot name content0 =
     (let target = Join [mountRoot, ''tmp'', name];
          content = ReplaceAll content0 [CHR 0x0D, CHR 0x0A] NL
      in seqE (mkdirAll (Dir target) ''0755'')
        (seqE (failIf (1024 * 1024 < length content) (PlainError (''script '' @ name @ '' is too large'')))
        (seqE (writeFile target content ''0700'')
          (runLogged log ''chroot'' [mountRoot, ''/bin/bash'', ''/tmp/'' @ name]))))"

definition baseRootFSPackages :: "string list" where
  "baseRootFSPackages =
     [''almalinux-release'', ''systemd'', ''openssh-server'', ''iproute'', ''iputils'', ''sudo'', ''bash'',
      ''coreutils'', ''procps-ng'', ''passwd'', ''vim'', ''tar'', ''libstdc++'', ''curl'', ''git'', ''NetworkManager'']"

definition baseConfigureScript :: string where
  "baseConfigureScript = lines_text
     [''set -euo pipefail'',
      ''useradd -m -s /bin/bash dev 2>/dev/null || true'',
      ''usermod -aG wheel dev'',
      ''passwd -l root || true'',
      ''mkdir -p /etc/sudoers.d /etc/bootstrap.d /etc/NetworkManager/system-connections'',
      ''echo '' @ SQ @ ''%wheel ALL=(ALL) NOPASSWD: ALL'' @ SQ @ '' >/etc/sudoers.d/wheel'',
      ''chmod 0440 /etc/sudoers.d/wheel'',
      ''sed -i -e '' @ SQ @ ''s/^#*PasswordAuthentication.*/PasswordAuthentication no/'' @ SQ @ '' -e '' @ SQ @ ''s/^#*PermitRootLogin.*/PermitRootLogin no/'' @ SQ @ '' /etc/ssh/sshd_config'',
      ''cat >/usr/local/sbin/project-bootstrap.sh <<'' @ SQ @ ''BOOT'' @ SQ,
      ''#!/usr/bin/env bash'',
      ''set -euo pipefail'',
      ''SENTINEL='' @ DQ @ ''/var/lib/first-run.done'' @ DQ,
      ''[[ -f '' @ DQ @ ''$SENTINEL'' @ DQ @ '' ]] && exit 0'',
      ''[[ -f /etc/project.env ]] || { echo '' @ DQ @ ''Missing /etc/project.env'' @ DQ @ ''; exit 1; }'',
      ''source /etc/project.env'',
      ''DEV_USER='' @ DQ @ ''${DEV_USER:-dev}'' @ DQ,
      ''WORK_DIR='' @ DQ @ ''${WORK_DIR:-/work}'' @ DQ,
      ''PROJECT='' @ DQ @ ''${PROJECT:-project}'' @ DQ,
      ''id '' @ DQ @ ''$DEV_USER'' @ DQ @ '' >/dev/null 2>&1 || useradd -m -s /bin/bash '' @ DQ @ ''$DEV_USER'' @ DQ,
      ''install -d -m 0700 -o '' @ DQ @ ''$DEV_USER'' @ DQ @ '' -g '' @ DQ @ ''$DEV_USER'' @ DQ @ '' '' @ DQ @ ''/home/$DEV_USER/.ssh'' @ DQ,
      ''if [[ -n '' @ DQ @ ''${DEV_SSH_KEY:-}'' @ DQ @ '' ]]; then'',
      ''  printf '' @ SQ @ ''%s'' @ [CHR 0x5C] @ ''n'' @ SQ @ '' '' @ DQ @ ''$DEV_SSH_KEY'' @ DQ @ '' >'' @ DQ @ ''/home/$DEV_USER/.ssh/authorized_keys'' @ DQ,
      ''  chmod 0600 '' @ DQ @ ''/home/$DEV_USER/.ssh/authorized_keys'' @ DQ,
      ''fi'',
      ''chown -R '' @ DQ @ ''$DEV_USER:$DEV_USER'' @ DQ @ '' '' @ DQ @ ''/home/$DEV_USER/.ssh'' @ DQ,
      ''install -d -m 0755 -o '' @ DQ @ ''$DEV_USER'' @ DQ @ '' -g '' @ DQ @ ''$DEV_USER'' @ DQ @ '' '' @ DQ @ ''$WORK_DIR'' @ DQ,
      ''if [[ -n '' @ DQ @ ''${REPO_URL:-}'' @ DQ @ '' ]]; then'',
      ''  if [[ ! -d '' @ DQ @ ''$WORK_DIR/$PROJECT/.git'' @ DQ @ '' ]]; then'',
      ''    sudo -u '' @ DQ @ ''$DEV_USER'' @ DQ @ '' git clone '' @ DQ @ ''$REPO_URL'' @ DQ @ '' '' @ DQ @ ''$WORK_DIR/$PROJECT'' @ DQ,
      ''  fi'',
      ''  cd '' @ DQ @ ''$WORK_DIR/$PROJECT'' @ DQ,
      ''  sudo -u '' @ DQ @ ''$DEV_USER'' @ DQ @ '' git fetch --all --prune || true'',
      ''  sudo -u '' @ DQ @ ''$DEV_USER'' @ DQ @ '' git checkout -f '' @ DQ @ ''${GIT_REF:-HEAD}'' @ DQ @ '' || true'',
      ''fi'',
      ''for f in /etc/bootstrap.d/*.sh; do'',
      ''  [[ -f '' @ DQ @ ''$f'' @ DQ @ '' && -x '' @ DQ @ ''$f'' @ DQ @ '' ]] && '' @ DQ @ ''$f'' @ DQ @ '' || true'',
      ''done'',
      ''touch '' @ DQ @ ''$SENTINEL'' @ DQ,
      ''BOOT'',
      ''chmod +x /usr/local/sbin/project-bootstrap.sh'',
      ''cat >/etc/systemd/system/project-bootstrap.service <<'' @ SQ @ ''UNIT'' @ SQ,
      ''[Unit]'',
      ''Description=Project bootstrap (first-run)'',
      ''After=network-online.target'',
      ''Wants=network-online.target'',
      '''',
      ''[Service]'',
      ''Type=oneshot'',
      ''ExecStart=/usr/local/sbin/project-bootstrap.sh'',
      ''RemainAfterExit=yes'',
      '''',
      ''[Install]'',
      ''WantedBy=multi-user.target'',
      ''UNIT'',
      ''systemctl enable NetworkManager'',
      ''systemctl enable sshd'',
      ''systemctl enable project-bootstrap.service'',
      ''echo microvm >/etc/hostname'']"

section \<open>Running a hook\<close>

text \<open>\<open>git clone\<close> of one ref, or of everything followed by a checkout.\<close>

definition clone_hook :: "string \<Rightarrow> image_hook \<Rightarrow> string \<Rightarrow> unit io" where
  "clone_hook log hook repoDir =
     bindE (errorOf (runLogged log ''git'' [''clone'', ''--depth'', ''1'', ''--branch'', hook_GitRef hook, hook_GitURL hook, repoDir]))
       (\<lambda>err. if err = None then returnE ()
         else seqE (ignoreE (os_call ''RemoveAll'' [repoDir]))
           (bindE (errorOf (runLogged log ''git'' [''clone'', hook_GitURL hook, repoDir])) (\<lambda>cloneErr. case cloneErr of
                Some e \<Rightarrow> throwE (PlainError (''clone hook repository: '' @ err_text e))
              | None \<Rightarrow>
                  bindE (errorOf (runLogged log ''git'' [''-C'', repoDir, ''checkout'', hook_GitRef hook])) (\<lambda>checkoutErr.
                    case checkoutErr of
                      Some e \<Rightarrow> throwE (PlainError (''checkout hook ref: '' @ err_text e))
                    | None \<Rightarrow> returnE ()))))"

text \<open>The output of a command whose error is dropped.\<close>

definition output_of :: "string \<Rightarrow> string list \<Rightarrow> string io" where
  "output_of name args =
     bindE (ask (Output name args)) (\<lambda>r. returnE (case r of Ok out \<Rightarrow> out | Fail m out \<Rightarrow> out | Response c s body \<Rightarrow> body))"

definition run_git_hook :: "string \<Rightarrow> string \<Rightarrow> string \<Rightarrow> image_hook \<Rightarrow> unit io" where
  "run_git_hook log mountRoot buildRoot hook0 =
     (let repoDir = Join [buildRoot, ''git-'' @ hook_ID hook0]
      in seqE (clone_hook log hook0 repoDir)
        (bindE (output_of ''git'' [''-C'', repoDir, ''rev-parse'', ''HEAD'']) (\<lambda>commitOut.
           let hook1 = hook0\<lparr>hook_ResolvedCommit := TrimSpace commitOut\<rparr>
           in bindE (tryE (EvalSymlinks repoDir)) (\<lambda>repo.
              bindE (EvalSymlinks (Join [repoDir, hook_GitPath hook1])) (\<lambda>cleanHook.
              seqE (failIf (\<not> pathWithin cleanHook (case repo of Inl e \<Rightarrow> '''' | Inr r \<Rightarrow> r))
                     (PlainError ''git hook path escapes repository''))
             (bindE (fileSHA256 cleanHook) (\<lambda>sum.
                let hook = hook1\<lparr>hook_Checksum := sum\<rparr>
                in seqE (ignoreE (store_UpdateImageHook hook))
                  (bindE (readFile cleanHook) (\<lambda>content.
                   bindE (config_get (\<lambda>c. MaxHookBytes (Images c))) (\<lambda>limit.
                   seqE (failIf (limit < int (length content)) (Invalid ''Image hook is too large''
                          [(''hook_ids'', ''hook '' @ hook_Name hook @ '' exceeds '' @ Itoa limit @ '' bytes'')]))
                     (writeAndRunChrootScript log mountRoot (hook_ID hook @ ''.sh'') content)))))))))))"

definition runBuildHook :: "string \<Rightarrow> string \<Rightarrow> string \<Rightarrow> image_hook \<Rightarrow> unit io" where
  "runBuildHook log mountRoot buildRoot hook =
     (if hook_SourceType hook = ''upload'' then
        seqE (failIf (hook_ContentPath hook = '''') (PlainError (''hook '' @ hook_Name hook @ '' has no content path'')))
          (bindE (readFile (hook_ContentPath hook)) (\<lambda>content.
            writeAndRunChrootScript log mountRoot (hook_ID hook @ ''.sh'') content))
      else if hook_SourceType hook = ''git'' then run_git_hook log mountRoot buildRoot hook
      else throwE (PlainError (''unsupported hook source_type '' @ Quote (hook_SourceType hook))))"

text \<open>One hook of the build's loop; the hook written back is the one that was loaded.\<close>

definition build_hook :: "string \<Rightarrow> string \<Rightarrow> string \<Rightarrow> image_hook \<Rightarrow> unit io" where
  "build_hook log mountRoot buildRoot hook =
     seqE (runBuildHook log mountRoot buildRoot hook)
       (bindE Now (\<lambda>now. ignoreE (store_UpdateImageHook (hook\<lparr>hook_LastUsedAt := Some now\<rparr>))))"

section \<open>A build\<close>

definition sparse_image :: "string \<Rightarrow> image_build_job \<Rightarrow> string \<Rightarrow> unit io" where
  "sparse_image log job imagePath =
     seqE (os_call ''OpenFile'' [imagePath, ''O_CREATE|O_EXCL|O_WRONLY'', ''0600''])
    (seqE (onErrorE (ignoreE (os_call ''Close'' [imagePath]))
            (os_call ''Truncate'' [imagePath, Itoa (bj_SizeMiB job * 1024 * 1024)]))
    (seqE (os_call ''Close'' [imagePath])
      (if bj_Filesystem job = ''xfs'' then runLogged log ''mkfs.xfs'' [''-f'', imagePath]
       else runLogged log ''mkfs.ext4'' [''-q'', imagePath])))"

text \<open>
  What happens while the image is mounted. The device mounts are undone before the pseudo file systems,
  on an error as on success; an error of \<open>bindMinimalDevices\<close> leaves the list of device mounts empty.
\<close>

definition fill_image :: "string \<Rightarrow> string \<Rightarrow> string \<Rightarrow> string list \<Rightarrow> image_hook list \<Rightarrow> unit io" where
  "fill_image log mountRoot buildRoot packages hooks =
     seqE (logf log ''installing packages'')
    (seqE (runLogged log ''dnf'' ([''install'', ''--installroot='' @ mountRoot, ''--releasever=10'',
              ''--setopt=install_weak_deps=False'', ''-y''] @ baseRootFSPackages @ packages))
    (bindE (bindMinimalDevices mountRoot) (\<lambda>(binds, berr). case berr of
        Some e \<Rightarrow> throwE e
      | None \<Rightarrow>
          bindE (mountBuildPseudoFilesystems mountRoot) (\<lambda>(mounts, merr). case merr of
              Some e \<Rightarrow> seqE (umount_all (rev binds)) (throwE e)
            | None \<Rightarrow>
                seqE (onErrorE (seqE (umount_all (rev binds)) (umount_all (rev mounts)))
                       (seqE (writeAndRunChrootScript log mountRoot ''bap-image-configure.sh'' baseConfigureScript)
                       (seqE (forE hooks (build_hook log mountRoot buildRoot))
                       (seqE (logf log ''cleaning package cache'')
                         (ignoreE (runLogged log ''dnf'' [''--installroot='' @ mountRoot, ''clean'', ''all'']))))))
                  (seqE (umount_all (rev binds)) (umount_all (rev mounts)))))))"

text \<open>Between the mount of the image and its unmount, with the unmount on an error.\<close>

definition mounted_build :: "string \<Rightarrow> string \<Rightarrow> string \<Rightarrow> string list \<Rightarrow> image_hook list \<Rightarrow> unit io" where
  "mounted_build log mountRoot buildRoot packages hooks =
     onErrorE (ignoreE (run ''umount'' [mountRoot]))
       (seqE (fill_image log mountRoot buildRoot packages hooks) (runLogged log ''umount'' [mountRoot]))"

definition register_build :: "string \<Rightarrow> image_build_job \<Rightarrow> string \<Rightarrow> string io" where
  "register_build log job imagePath =
     bindE (fileSHA256 imagePath) (\<lambda>sum.
     bindE (imageSizes imagePath) (\<lambda>(virtualMiB, diskBytes).
     bindE (Hex 8) (\<lambda>iid.
     bindE Now (\<lambda>created.
     bindE Now (\<lambda>updated.
       let img = \<lparr>img_ID = iid, img_Name = bj_Name job, img_Status = ''active'', img_Filesystem = bj_Filesystem job,
             img_Path = imagePath, img_VirtualSizeMiB = virtualMiB, img_DiskSizeBytes = diskBytes, img_Checksum = sum,
             img_Packages = bj_Packages job, img_Hooks = bj_Hooks job,
             img_Provenance = ''managed build job '' @ bj_ID job, img_CreatedBy = bj_CreatedBy job,
             img_CreatedAt = created, img_UpdatedAt = updated\<rparr>
       in seqE (store_CreateBaseImage img)
         (seqE (logf log (''image created: '' @ imagePath @ '' checksum='' @ sum)) (returnE iid)))))))"

text \<open>The result is the id of the image, which the code stores in the job.\<close>

definition buildBaseImage :: "image_build_job \<Rightarrow> string list \<Rightarrow> image_hook list \<Rightarrow> string io" where
  "buildBaseImage job packages hooks =
     (let log = bj_LogPath job
      in seqE (os_call ''OpenFile'' [log, ''O_CREATE|O_WRONLY|O_APPEND'', ''0600''])
        (deferE (ignoreE (os_call ''Close'' [log]))
          (bindE (config_get (\<lambda>c. (BuildDir (Images c), BaseImageDir (Paths c)))) (\<lambda>(buildDir, baseDir).
            let buildRoot = Join [buildDir, bj_ID job]; mountRoot = Join [buildRoot, ''mnt''];
                imageDir = Join [baseDir, bj_Name job @ ''-'' @ bj_ID job];
                imagePath = Join [imageDir, ''rootfs'' @ (if bj_Filesystem job = ''xfs'' then ''.xfs'' else ''.ext4'')]
            in seqE (mkdirAll mountRoot ''0700'')
              (seqE (mkdirAll imageDir ''0700'')
                (deferE (ignoreE (os_call ''RemoveAll'' [buildRoot]))
                  (seqE (logf log (''creating sparse '' @ bj_Filesystem job @ '' image at '' @ imagePath))
                  (seqE (sparse_image log job imagePath)
                  (seqE (runLogged log ''mount'' [''-o'', ''loop'', imagePath, mountRoot])
                  (seqE (mounted_build log mountRoot buildRoot packages hooks)
                    (register_build log job imagePath)))))))))))"

definition runImageBuild :: "string \<Rightarrow> string list \<Rightarrow> image_hook list \<Rightarrow> unit io" where
  "runImageBuild jobID packages hooks =
     bindE (tryE (store_GetImageBuildJob jobID)) (\<lambda>r. case r of
         Inr (Some job0) \<Rightarrow>
           bindE Now (\<lambda>started.
             let job = job0\<lparr>bj_Status := ''running'', bj_StartedAt := Some started\<rparr>
             in seqE (ignoreE (store_UpdateImageBuildJob job))
               (bindE (tryE (buildBaseImage job packages hooks)) (\<lambda>result.
                bindE Now (\<lambda>completed.
                  ignoreE (store_UpdateImageBuildJob
                    (case result of
                       Inl e \<Rightarrow> job\<lparr>bj_CompletedAt := Some completed, bj_Status := ''failed'', bj_Error := err_text e\<rparr>
                     | Inr iid \<Rightarrow> job\<lparr>bj_CompletedAt := Some completed, bj_Status := ''succeeded'', bj_ResultImageID := iid\<rparr>))))))
       | _ \<Rightarrow> returnE ())"

section \<open>What leaves the database alone\<close>

lemma ro_EvalSymlinks [ro]: "ro_io (EvalSymlinks p)" unfolding EvalSymlinks_def by (intro ro)
lemma ro_fileSHA256 [ro]: "ro_io (fileSHA256 p)" unfolding fileSHA256_def by (intro ro)
lemma ro_remove_existing [ro]: "ro_io (remove_existing c p)" unfolding remove_existing_def by (intro ro)
lemma ro_must_stat [ro]: "ro_io (must_stat p)" unfolding must_stat_def by (intro ro)
lemma ro_secure_dirs [ro]: "ro_io (secure_dirs d)"
proof (induction d rule: secure_dirs.induct)
  case (1 dir)
  have "ro_io (if Dir dir = dir then returnE () else secure_dirs (Dir dir))"
    using 1 ro_return by (cases "Dir dir = dir") simp_all
  then show ?case by (subst secure_dirs.simps) (rule ro_bind [OF ro_must_stat], rule ro_seq [OF ro_failIf])
qed
lemma ro_secureExistingPath [ro]: "ro_io (secureExistingPath p)" unfolding secureExistingPath_def by (intro ro)
lemma ro_validate_below [ro]: "ro_io (validate_below p d)" unfolding validate_below_def by (intro ro)
lemma ro_validateImagePath [ro]: "ro_io (validateImagePath p)" unfolding validateImagePath_def by (intro ro)
lemma ro_invalidOn [ro]: "ro_io m \<Longrightarrow> ro_io (invalidOn t f m)" unfolding invalidOn_def by (intro ro)
lemma ro_require_image [ro]: "ro_io (require_image i)" unfolding require_image_def by (intro ro)
lemma ro_upload_hook [ro]: "ro_io (upload_hook r h)" unfolding upload_hook_def Let_def by (intro ro)
lemma ro_git_hook [ro]: "ro_io (git_hook r h)" unfolding git_hook_def by (intro ro)
lemma ro_GetImageHook [ro]: "ro_io (store_GetImageHook h)" unfolding store_GetImageHook_def by (intro ro)
lemma ro_loadHooks [ro]: "ro_io (loadHooks hs)" by (induction hs) (auto intro!: ro simp: Let_def)
lemma ro_log_write [ro]: "ro_io (log_write l t)" unfolding log_write_def by (intro ro)
lemma ro_logf [ro]: "ro_io (logf l t)" unfolding logf_def by (intro ro)
lemma ro_runLogged [ro]: "ro_io (runLogged l n a)" unfolding runLogged_def by (intro ro)
lemma ro_umount_all [ro]: "ro_io (umount_all ts)" unfolding umount_all_def by (intro ro)
lemma ro_bind_devices [ro]: "ro_io (bind_devices d ms devs)"
  by (induction devs arbitrary: ms) (auto simp: Let_def intro!: ro)
lemma ro_bindMinimalDevices [ro]: "ro_io (bindMinimalDevices m)" unfolding bindMinimalDevices_def Let_def by (intro ro)
lemma ro_pseudo_mounts [ro]: "ro_io (pseudo_mounts m ms rest)"
  by (induction m ms rest rule: pseudo_mounts.induct) (auto simp: Let_def intro!: ro)
lemma ro_mountPseudo [ro]: "ro_io (mountBuildPseudoFilesystems m)" unfolding mountBuildPseudoFilesystems_def by (intro ro)
lemma ro_writeAndRunChrootScript [ro]: "ro_io (writeAndRunChrootScript l m n c)"
  unfolding writeAndRunChrootScript_def Let_def by (intro ro)
lemma ro_clone_hook [ro]: "ro_io (clone_hook l h d)" unfolding clone_hook_def by (intro ro)
lemma ro_output_of [ro]: "ro_io (output_of n a)" unfolding output_of_def by (intro ro)
lemma ro_sparse_image [ro]: "ro_io (sparse_image l j p)" unfolding sparse_image_def by (intro ro)

section \<open>The walk up the parents\<close>

lemma must_stat_run: "must_stat p w = (Inr fi, w') \<Longrightarrow> stat_of (host_of w) (trail w) p = Found fi"
  by (auto simp: must_stat_def bindE_def stat_def returnE_def throwE_def split: stat_reply.splits)

text \<open>The directories that the walk visits.\<close>

inductive parent_of :: "string \<Rightarrow> string \<Rightarrow> bool" where
  itself: "parent_of p p"
| above: "parent_of p d \<Longrightarrow> parent_of p (Dir d)"

lemma parent_of_step: "parent_of (Dir p) d \<Longrightarrow> parent_of p d"
  by (induction "Dir p" d rule: parent_of.induct) (auto intro: parent_of.intros)

lemma parent_of_cases: "parent_of p d \<Longrightarrow> d = p \<or> parent_of (Dir p) d"
  by (induction rule: parent_of.induct) (auto intro: parent_of.intros)

definition safe_on :: "host \<Rightarrow> string \<Rightarrow> bool" where
  "safe_on h p \<longleftrightarrow> (\<exists>t fi. stat_of h t p = Found fi \<and> \<not> world_writable fi)"

lemma secure_dirs_ok:
  "secure_dirs p w = (Inr (), w') \<Longrightarrow> parent_of p d \<Longrightarrow> safe_on (host_of w) d"
proof (induction p arbitrary: w rule: secure_dirs.induct)
  case (1 dir)
  obtain fi w1 where s: "must_stat dir w = (Inr fi, w1)" "\<not> world_writable fi"
    and rest: "(if Dir dir = dir then returnE () else secure_dirs (Dir dir)) w1 = (Inr (), w')"
    using "1.prems"(1) by (subst (asm) secure_dirs.simps) (auto simp: io_run)
  have h: "host_of w1 = host_of w" using ro_io_run [OF ro_must_stat s(1)] by simp
  have here: "safe_on (host_of w) dir" using must_stat_run [OF s(1)] s(2) unfolding safe_on_def by blast
  show ?case
  proof (cases "d = dir")
    case False
    then have above: "parent_of (Dir dir) d" using parent_of_cases "1.prems"(2) by blast
    show ?thesis
    proof (cases "Dir dir = dir")
      case True
      have "parent_of q d \<Longrightarrow> q = dir \<Longrightarrow> d = dir" for q
        by (induction rule: parent_of.induct) (simp_all add: True)
      then show ?thesis using above False True by simp
    next
      case False
      then show ?thesis using "1.IH" [OF False, of w1] rest above h by simp
    qed
  qed (use here in simp)
qed

lemma secureExistingPath_ok:
  assumes "secureExistingPath p w = (Inr (), w')" "parent_of p d"
  shows "safe_on (host_of w) d"
proof -
  obtain fi w1 where s: "must_stat p w = (Inr fi, w1)" "\<not> world_writable fi" "secure_dirs (Dir p) w1 = (Inr (), w')"
    using assms(1) by (auto simp: secureExistingPath_def io_run)
  have h: "host_of w1 = host_of w" using ro_io_run [OF ro_must_stat s(1)] by simp
  show ?thesis
    using parent_of_cases [OF assms(2)] must_stat_run [OF s(1)] s(2) secure_dirs_ok [OF s(3)] h by (auto simp: safe_on_def)
qed

section \<open>What a registered image is\<close>

text \<open>The host resolves the links of a path to another.\<close>

definition resolves_to :: "host \<Rightarrow> string \<Rightarrow> string \<Rightarrow> bool" where
  "resolves_to h p q \<longleftrightarrow> (\<exists>t. case answer h t (Os ''EvalSymlinks'' [p]) of
       Ok x \<Rightarrow> x = q | Response c s x \<Rightarrow> x = q | Fail m x \<Rightarrow> False)"

lemma EvalSymlinks_run: "EvalSymlinks p w = (Inr q, w') \<Longrightarrow> resolves_to (host_of w) p q"
  by (auto simp: EvalSymlinks_def perform_def io_run resolves_to_def split: reply.splits intro!: exI [of _ "trail w"])

lemma validate_below_ok:
  assumes "validate_below p d w = (Inr q, w')"
  shows "\<exists>base. resolves_to (host_of w) p q \<and> resolves_to (host_of w) d base \<and> pathWithin q base"
proof -
  obtain w1 base w2 where e: "EvalSymlinks p w = (Inr q, w1)" "EvalSymlinks d w1 = (Inr base, w2)" "pathWithin q base"
    using assms by (auto simp: validate_below_def io_run)
  have "host_of w1 = host_of w" using ro_io_run [OF ro_EvalSymlinks e(1)] by simp
  then show ?thesis using EvalSymlinks_run [OF e(1)] EvalSymlinks_run [OF e(2)] e(3) by auto
qed

lemma fileSHA256_ok: "fileSHA256 p w = (Inr s, w') \<Longrightarrow> is_checksum s"
  by (auto simp: fileSHA256_def io_run sha256_hex_checksum)

lemma invalidOn_run [io_run]: "invalidOn t f m w = (Inr x, w') \<longleftrightarrow> m w = (Inr x, w')"
  by (auto simp: invalidOn_def io_run split: sum.splits)

definition valid_image :: "config \<Rightarrow> host \<Rightarrow> base_image \<Rightarrow> bool" where
  "valid_image c h img \<longleftrightarrow>
     validImageStatus (img_Status img) \<and> img_Filesystem img \<in> {''unknown'', ''ext4'', ''xfs''}
     \<and> 0 < img_VirtualSizeMiB img \<and> img_VirtualSizeMiB img \<le> MaxBaseImageMiB (Images c) \<and> is_checksum (img_Checksum img)
     \<and> (\<exists>base. resolves_to h (BaseImageDir (Paths c)) base \<and> pathWithin (img_Path img) base)
     \<and> (\<forall>d. parent_of (img_Path img) d \<longrightarrow> safe_on h d)"

lemma stored_image:
  "store_CreateBaseImage img w = (Inr x, w') \<Longrightarrow> img \<in> set (base_images (database w'))"
  by (auto simp: store_CreateBaseImage_def io_run put_Inr dest!: tbl_insert_Inr)


end
