(* ===== verification/KernelNames.thy ===== *)
theory KernelNames
  imports BaseImages
begin

text \<open>
  The pure functions of \<open>internal/lifecycle/kernels.go\<close>: which versions, object keys and release prefixes
  are accepted, how versions are ordered, and the names of directories and files of an imported kernel.
\<close>

section \<open>Paths\<close>

text \<open>\<open>filepath.Base\<close>.\<close>

definition Base :: "string \<Rightarrow> string" where
  "Base path =
     (if path = '''' then ''.''
      else let p = TrimRight path (CHR ''/''); b = rev (takeWhile (\<lambda>c. c \<noteq> CHR ''/'') (rev p))
           in if b = '''' then ''/'' else b)"

definition path_part_char :: "char \<Rightarrow> bool" where
  "path_part_char c \<longleftrightarrow> is_alnum c \<or> c \<in> {CHR ''-'', CHR ''_'', CHR ''.''}"

text \<open>The loop over the runes of a string; each rune that is not kept becomes one hyphen.\<close>

function part_runes :: "string \<Rightarrow> string" where
  "part_runes [] = []"
| "part_runes (c # s) =
     (if path_part_char c then c # part_runes s else CHR ''-'' # part_runes (drop (utf8_len (c # s) - 1) s))"
  by pat_completeness auto
termination by (relation "measure length") auto

definition sanitizePathPart :: "string \<Rightarrow> string" where
  "sanitizePathPart value0 =
     (let v = defaultImageString (TrimSpace value0) ''kernel''; clean = Trim (part_runes v) ''.-''
      in if clean = '''' then ''kernel'' else clean)"

definition cleanKernelFilename :: "string \<Rightarrow> string" where
  "cleanKernelFilename name0 =
     (let name = Base (TrimSpace name0)
      in if name = ''.'' \<or> name = ''/'' \<or> name = '''' then '''' else sanitizePathPart name)"

section \<open>Versions\<close>

definition validKernelStatus :: "string \<Rightarrow> bool" where
  "validKernelStatus status = (status \<in> {''pending'', ''active'', ''failed'', ''archived''})"

definition validKernelVersionNumbers :: "string \<Rightarrow> int \<Rightarrow> int \<Rightarrow> bool" where
  "validKernelVersionNumbers version major minor =
     (case Split version (CHR ''.'') of
        [a, b, c] \<Rightarrow> Atoi a = Inr major \<and> Atoi b = Inr minor \<and> (case Atoi c of Inr patch \<Rightarrow> 0 \<le> patch | Inl _ \<Rightarrow> False)
      | _ \<Rightarrow> False)"

definition validFirecrackerKernelVersion :: "string \<Rightarrow> bool" where
  "validFirecrackerKernelVersion version =
     (if Contains version ''/'' \<or> Contains version [CHR 0x5C] \<or> Contains version ''..'' then False
      else if HasSuffix version ''-no-acpi'' then validKernelVersionNumbers (TrimSuffix version ''-no-acpi'') 5 10
      else validKernelVersionNumbers version 5 10 \<or> validKernelVersionNumbers version 6 1)"

definition supportedFirecrackerCIKernelKey :: "string \<Rightarrow> bool" where
  "supportedFirecrackerCIKernelKey key =
     (if Contains key ''/debug/'' \<or> HasSuffix key ''.config'' \<or> HasSuffix key ''.gz'' then False
      else HasPrefix (Base key) ''vmlinux-'' \<and> validFirecrackerKernelVersion (TrimPrefix (Base key) ''vmlinux-''))"

definition kernelVariant :: "string \<Rightarrow> string" where
  "kernelVariant version = (if HasSuffix version ''-no-acpi'' then ''no-acpi'' else ''standard'')"

text \<open>
  The value of \<open>strconv.Atoi\<close> when its error is dropped: 0 for a syntax error, the nearest bound for a
  number out of range.
\<close>

definition atoi_value :: "string \<Rightarrow> int" where
  "atoi_value s =
     (case Atoi s of
        Inr v \<Rightarrow> v
      | Inl _ \<Rightarrow>
          let neg = HasPrefix s ''-''; t = (if neg \<or> HasPrefix s ''+'' then tl s else s)
          in if \<not> all_digits t then 0 else if neg then - (2 ^ 63) else 2 ^ 63 - 1)"

definition parseKernelVersionRank :: "string \<Rightarrow> int \<times> int \<times> int \<times> bool" where
  "parseKernelVersionRank version =
     (let parts = Split (TrimSuffix version ''-no-acpi'') (CHR ''.'');
          num = (\<lambda>i. if i < length parts then atoi_value (parts ! i) else 0)
      in (num 0, num 1, num 2, HasSuffix version ''-no-acpi''))"

definition compare_strings :: "string \<Rightarrow> string \<Rightarrow> int" where
  "compare_strings a b = (if a = b then 0 else if a < b then -1 else 1)"

fun first_difference :: "(int \<times> int) list \<Rightarrow> int \<Rightarrow> int" where
  "first_difference [] rest = rest"
| "first_difference ((a, b) # ps) rest = (if b < a then 1 else if a < b then -1 else first_difference ps rest)"

definition compareKernelVersions :: "string \<Rightarrow> string \<Rightarrow> int" where
  "compareKernelVersions a b =
     (let (majorA, minorA, patchA, noACPIA) = parseKernelVersionRank a;
          (majorB, minorB, patchB, noACPIB) = parseKernelVersionRank b
      in first_difference [(majorA, majorB), (minorA, minorB), (patchA, patchB)]
           (if noACPIA = noACPIB then compare_strings a b else if \<not> noACPIA \<and> noACPIB then 1 else -1))"

definition kernelCIName :: "string \<Rightarrow> string" where
  "kernelCIName version =
     (let base = TrimSuffix version ''-no-acpi''
      in ''fc-'' @ ReplaceAll base ''.'' ''-'' @ TrimPrefix version base)"

definition inferKernelVersion :: "string \<Rightarrow> string" where
  "inferKernelVersion path =
     (let base = TrimSuffix (TrimPrefix (Base path) ''vmlinux-'') ''.bin''
      in if base = '''' \<or> base = Base path then '''' else base)"

section \<open>Release prefixes\<close>

definition normalizeFirecrackerCIPrefix :: "string \<Rightarrow> err + string" where
  "normalizeFirecrackerCIPrefix prefix0 =
     (let prefix = TrimSpace prefix0
      in if prefix = '''' then Inr ''''
         else if \<not> HasPrefix prefix ''firecracker-ci/'' \<or> Contains prefix ''..''
         then Inl (Invalid ''CI prefix is invalid'' [(''ci_prefix'', ''must be a firecracker-ci prefix'')])
         else Inr (if HasSuffix prefix ''/'' then prefix else prefix @ ''/''))"

definition firecrackerReleasePrefixVersion :: "string \<Rightarrow> (int \<times> int) option" where
  "firecrackerReleasePrefixVersion prefix =
     (let name = TrimSuffix (TrimPrefix prefix ''firecracker-ci/'') ''/''
      in if \<not> HasPrefix name ''v'' then None
         else case Split (TrimPrefix name ''v'') (CHR ''.'') of
           [a, b] \<Rightarrow> (case (Atoi a, Atoi b) of (Inr major, Inr minor) \<Rightarrow> Some (major, minor) | _ \<Rightarrow> None)
         | _ \<Rightarrow> None)"

definition firecrackerCIURL :: "config \<Rightarrow> string \<Rightarrow> string" where
  "firecrackerCIURL c key = TrimRight (FirecrackerCIBaseURL (Kernels c)) (CHR ''/'') @ ''/'' @ key"

section \<open>Sorting\<close>

text \<open>
  \<open>sort.Slice\<close> with a strict order \<open>before\<close>. Elements that the order does not tell apart keep their order
  here; the library leaves it open.
\<close>

fun insert_by :: "('a \<Rightarrow> 'a \<Rightarrow> bool) \<Rightarrow> 'a \<Rightarrow> 'a list \<Rightarrow> 'a list" where
  "insert_by before x [] = [x]"
| "insert_by before x (y # ys) = (if before y x then y # insert_by before x ys else x # y # ys)"

definition sort_by :: "('a \<Rightarrow> 'a \<Rightarrow> bool) \<Rightarrow> 'a list \<Rightarrow> 'a list" where
  "sort_by before xs = foldr (insert_by before) xs []"

lemma set_insert_by [simp]: "set (insert_by before x ys) = insert x (set ys)"
  by (induction ys) auto

lemma set_sort_by [simp]: "set (sort_by before xs) = set xs"
  unfolding sort_by_def by (induction xs) auto

lemma length_insert_by [simp]: "length (insert_by before x ys) = Suc (length ys)"
  by (induction ys) auto

lemma length_sort_by [simp]: "length (sort_by before xs) = length xs"
  unfolding sort_by_def by (induction xs) auto

text \<open>What \<open>sort.Slice\<close> asks of its \<open>less\<close> function.\<close>

locale strict_weak_order =
  fixes before :: "'a \<Rightarrow> 'a \<Rightarrow> bool"
  assumes asymmetric: "before x y \<Longrightarrow> \<not> before y x"
    and negative: "\<not> before x y \<Longrightarrow> \<not> before y z \<Longrightarrow> \<not> before x z"
begin

lemma insert_sorted:
  "sorted_wrt (\<lambda>a b. \<not> before b a) ys \<Longrightarrow> sorted_wrt (\<lambda>a b. \<not> before b a) (insert_by before x ys)"
proof (induction ys)
  case (Cons y ys)
  show ?case
  proof (cases "before y x")
    case True
    then show ?thesis using Cons asymmetric by auto
  next
    case False
    have "\<not> before z x" if "z \<in> set ys" for z using negative [OF _ False, of z] Cons.prems that by auto
    then show ?thesis using False Cons.prems by auto
  qed
qed simp

lemma sort_sorted: "sorted_wrt (\<lambda>a b. \<not> before b a) (sort_by before xs)"
  unfolding sort_by_def by (induction xs) (auto intro: insert_sorted)

end

section \<open>The order of versions\<close>

text \<open>The order as a key into a linear order: newest last, and of equal numbers the one with ACPI last.\<close>

definition version_key :: "string \<Rightarrow> int \<times> int \<times> int \<times> int \<times> string" where
  "version_key v =
     (case parseKernelVersionRank v of (major, minor, patch, noACPI) \<Rightarrow> (major, minor, patch, if noACPI then 0 else 1, v))"

definition key_less :: "int \<times> int \<times> int \<times> int \<times> string \<Rightarrow> int \<times> int \<times> int \<times> int \<times> string \<Rightarrow> bool" where
  "key_less a b =
     (case a of (a1, a2, a3, a4, s) \<Rightarrow> case b of (b1, b2, b3, b4, t) \<Rightarrow>
        a1 < b1 \<or> a1 = b1 \<and> (a2 < b2 \<or> a2 = b2 \<and> (a3 < b3 \<or> a3 = b3 \<and> (a4 < b4 \<or> a4 = b4 \<and> s < t))))"

lemma compare_key:
  "compareKernelVersions a b = (if a = b then 0 else if key_less (version_key a) (version_key b) then -1 else 1)"
  by (auto simp: compareKernelVersions_def version_key_def key_less_def compare_strings_def split: prod.splits)

lemma key_less_irrefl: "\<not> key_less k k" by (simp add: key_less_def split: prod.splits)
lemma key_less_trans: "key_less k l \<Longrightarrow> key_less l m \<Longrightarrow> key_less k m" by (auto simp: key_less_def split: prod.splits)
lemma key_less_total: "key_less k l \<or> k = l \<or> key_less l k" by (auto simp: key_less_def split: prod.splits)

lemma version_key_inj: "version_key a = version_key b \<Longrightarrow> a = b"
  by (auto simp: version_key_def split: prod.splits)

text \<open>
  C37: the comparison of kernel versions is a linear order: it is 0 for equal versions only, swapping the
  versions swaps its sign, and it is transitive.
\<close>

theorem compareKernelVersions_order:
  "compareKernelVersions a b \<in> {-1, 0, 1} \<and> (compareKernelVersions a b = 0 \<longleftrightarrow> a = b)
    \<and> compareKernelVersions b a = - compareKernelVersions a b
    \<and> (0 < compareKernelVersions a b \<and> 0 < compareKernelVersions b c \<longrightarrow> 0 < compareKernelVersions a c)"
  using key_less_total [of "version_key a" "version_key b"] version_key_inj
  unfolding compare_key by (auto simp: key_less_irrefl split: if_splits dest: key_less_trans)

definition newer :: "string \<Rightarrow> string \<Rightarrow> bool" where
  "newer a b = (0 < compareKernelVersions a b)"

lemma newer_key: "newer a b \<longleftrightarrow> key_less (version_key b) (version_key a)"
  using key_less_total [of "version_key a" "version_key b"] version_key_inj
  unfolding newer_def compare_key by (auto simp: key_less_irrefl dest: key_less_trans)

interpretation newest_first: strict_weak_order "\<lambda>x y. newer (f x) (f y)" for f :: "'a \<Rightarrow> string"
proof
  show "newer (f x) (f y) \<Longrightarrow> \<not> newer (f y) (f x)" for x y :: 'a
    unfolding newer_key using key_less_irrefl key_less_trans by blast
  show "\<not> newer (f x) (f y) \<Longrightarrow> \<not> newer (f y) (f z) \<Longrightarrow> \<not> newer (f x) (f z)" for x y z :: 'a
    unfolding newer_key using key_less_trans key_less_total by metis
qed

section \<open>Names of directories and files\<close>

lemma part_runes_chars: "c \<in> set (part_runes s) \<Longrightarrow> path_part_char c"
  by (induction s rule: part_runes.induct) (auto simp: path_part_char_def split: if_splits)

lemma set_dropWhile_subset: "set (dropWhile P xs) \<subseteq> set xs"
  by (auto dest: set_dropWhileD)

lemma set_Trim: "set (Trim s cs) \<subseteq> set s"
  using set_dropWhile_subset [of "\<lambda>c. c \<in> set cs" s] set_dropWhile_subset [of "\<lambda>c. c \<in> set cs" "rev (dropWhile (\<lambda>c. c \<in> set cs) s)"]
  unfolding Trim_def by (simp only: set_rev)

lemma Trim_ends: "Trim s cs \<noteq> [] \<Longrightarrow> hd (Trim s cs) \<notin> set cs \<and> last (Trim s cs) \<notin> set cs"
proof -
  let ?a = "dropWhile (\<lambda>c. c \<in> set cs) s"
  let ?b = "dropWhile (\<lambda>c. c \<in> set cs) (rev ?a)"
  assume ne: "Trim s cs \<noteq> []"
  then have b: "?b \<noteq> []" by (simp add: Trim_def)
  then have "hd ?b \<notin> set cs" using hd_dropWhile by blast
  then have l: "last (Trim s cs) \<notin> set cs" using b by (simp add: Trim_def last_rev)
  obtain ws where ws: "rev ?a = ws @ ?b" by (metis takeWhile_dropWhile_id)
  then have "?a = rev ?b @ rev ws" by (metis rev_append rev_rev_ident)
  then have "hd (rev ?b) = hd ?a" using b by (metis hd_append2 rev_is_Nil_conv)
  moreover have "?a \<noteq> []" using b by (metis dropWhile.simps(1) rev.simps(1))
  then have "hd ?a \<notin> set cs" using hd_dropWhile by blast
  ultimately show ?thesis using l by (simp add: Trim_def)
qed

text \<open>
  A sanitised name is one path component: it is not empty, has letters, digits, hyphens, underscores
  and dots only, and does not begin or end with a dot or a hyphen.
\<close>

lemma sanitizePathPart_component:
  "name_comp (sanitizePathPart v) \<and> list_all path_part_char (sanitizePathPart v)
    \<and> hd (sanitizePathPart v) \<notin> {CHR ''.'', CHR ''-''} \<and> last (sanitizePathPart v) \<notin> {CHR ''.'', CHR ''-''}"
proof -
  let ?t = "Trim (part_runes (defaultImageString (TrimSpace v) ''kernel'')) ''.-''"
  have k: "name_comp ''kernel'' \<and> list_all path_part_char ''kernel'' \<and> hd ''kernel'' \<notin> {CHR ''.'', CHR ''-''}
      \<and> last ''kernel'' \<notin> {CHR ''.'', CHR ''-''}" by code_simp
  have "list_all path_part_char ?t" using set_Trim part_runes_chars by (fastforce simp: list_all_iff)
  moreover have "hd ?t \<notin> {CHR ''.'', CHR ''-''} \<and> last ?t \<notin> {CHR ''.'', CHR ''-''}" if "?t \<noteq> ''''"
    using Trim_ends [OF that] by simp
  moreover have "\<not> path_part_char (CHR ''/'')" by code_simp
  ultimately have "?t \<noteq> '''' \<Longrightarrow> name_comp ?t"
    by (auto simp: name_comp_def list_all_iff)
  then show ?thesis
    using k \<open>list_all path_part_char ?t\<close> \<open>?t \<noteq> '''' \<Longrightarrow> hd ?t \<notin> {CHR ''.'', CHR ''-''} \<and> last ?t \<notin> {CHR ''.'', CHR ''-''}\<close>
    unfolding sanitizePathPart_def Let_def by simp
qed


lemma distinct_sort_by: "distinct (map f xs) \<Longrightarrow> distinct (map f (sort_by before xs))"
  by (metis card_distinct distinct_card length_map length_sort_by set_map set_sort_by)

end
