(* ===== verification/SshKeys.thy ===== *)
theory SshKeys
  imports BaseImages
begin

text \<open>
  \<open>internal/sshkeys/sshkeys.go\<close>: keys that are generated or imported. The ssh package is third-party code:
  what it makes of a key is the answer of the host.
\<close>

record generated_key =
  gen_Key :: ssh_key
  gen_PrivateKey :: string

text \<open>A call that cannot fail.\<close>

definition ssh_text :: "string \<Rightarrow> string list \<Rightarrow> string io" where
  "ssh_text name args =
     bindE (ask (Ssh name args)) (\<lambda>r. returnE (case r of Ok x \<Rightarrow> x | Fail m x \<Rightarrow> x | Response c s x \<Rightarrow> x))"

definition Generate :: "string \<Rightarrow> string \<Rightarrow> generated_key io" where
  "Generate name0 createdBy =
     (let name = TrimSpace name0
      in seqE (failIf (name = '''') (PlainError ''key name is required''))
        (bindE (perform (Ssh ''GenerateKey'' [])) (\<lambda>public.
         bindE (perform (Ssh ''NewPublicKey'' [public])) (\<lambda>pub.
         bindE (perform (Ssh ''MarshalPrivateKey'' [public, ''bap-web:'' @ name])) (\<lambda>pem.
         bindE Now (\<lambda>now.
         bindE (Hex 8) (\<lambda>kid.
         bindE (ssh_text ''MarshalAuthorizedKey'' [pub]) (\<lambda>line.
         bindE (ssh_text ''FingerprintSHA256'' [pub]) (\<lambda>fingerprint.
         bindE (ssh_text ''Type'' [pub]) (\<lambda>keyType.
           returnE \<lparr>gen_Key = \<lparr>key_ID = kid, key_Name = name, key_PublicKey = TrimSpace line, key_Fingerprint = fingerprint,
                       key_KeyType = keyType, key_CreatedBy = createdBy, key_CreatedAt = now, key_LastUsedAt = None\<rparr>,
                     gen_PrivateKey = pem\<rparr>))))))))))"

definition NormalizePublicKey :: "string \<Rightarrow> (string \<times> string \<times> string) io" where
  "NormalizePublicKey publicKey =
     bindE (tryE (perform (Ssh ''ParseAuthorizedKey'' [TrimSpace publicKey]))) (\<lambda>r. case r of
         Inl e \<Rightarrow> throwE (PlainError (''invalid SSH public key: '' @ err_text e))
       | Inr pub \<Rightarrow>
           bindE (ssh_text ''MarshalAuthorizedKey'' [pub]) (\<lambda>line.
           bindE (ssh_text ''FingerprintSHA256'' [pub]) (\<lambda>fingerprint.
           bindE (ssh_text ''Type'' [pub]) (\<lambda>keyType.
             returnE (TrimSpace line, fingerprint, keyType)))))"

definition Import :: "string \<Rightarrow> string \<Rightarrow> string \<Rightarrow> ssh_key io" where
  "Import name0 publicKey createdBy =
     (let name = TrimSpace name0
      in seqE (failIf (name = '''') (PlainError ''key name is required''))
        (bindE (NormalizePublicKey publicKey) (\<lambda>(normalized, fingerprint, keyType).
         bindE (Hex 8) (\<lambda>kid.
         bindE Now (\<lambda>now.
           returnE \<lparr>key_ID = kid, key_Name = name, key_PublicKey = normalized, key_Fingerprint = fingerprint,
              key_KeyType = keyType, key_CreatedBy = createdBy, key_CreatedAt = now, key_LastUsedAt = None\<rparr>)))))"

lemma ro_ssh_text [ro]: "ro_io (ssh_text n a)" unfolding ssh_text_def by (intro ro)
lemma ro_Generate [ro]: "ro_io (Generate n c)" unfolding Generate_def Let_def by (intro ro)
lemma ro_NormalizePublicKey [ro]: "ro_io (NormalizePublicKey k)" unfolding NormalizePublicKey_def by (intro ro)
lemma ro_Import [ro]: "ro_io (Import n k c)" unfolding Import_def Let_def by (intro ro)

end
