(* ===== verification/Kernels.thy ===== *)
theory Kernels
  imports Lifecycle KernelNames SshKeys
begin

text \<open>
  The operations on kernels of \<open>internal/lifecycle/kernels.go\<close>: registration, uploads, imports from the
  Firecracker CI bucket, discovery jobs and boot tests. The XML decoder is a parameter; an HTTP response
  is a status, and its body what is read from it afterwards, up to an error. \<open>runtime.GOARCH\<close> is a constant
  of the build that the host supplies.
\<close>

section \<open>Requests\<close>

record register_kernel =
  rk_Name :: string
  rk_Version :: string
  rk_Path :: string
  rk_ConfigPath :: string
  rk_Status :: string
  rk_BootArgs :: string
  rk_SourceType :: string
  rk_Provenance :: string
  rk_TrustExisting :: bool

record import_kernel =
  ik_Name :: string
  ik_Version :: string
  ik_CIPrefix :: string
  ik_ArtifactID :: string

text \<open>An \<open>io.Reader\<close>: the bytes it yields, and the error that ends them if it is not \<open>io.EOF\<close>.\<close>

type_synonym reader = "string \<times> err option"

record upload_kernel =
  uk_Name :: string
  uk_Version :: string
  uk_KernelName :: string
  uk_KernelReader :: "reader option"
  uk_ConfigName :: string
  uk_ConfigReader :: "reader option"

record kernel_update =
  ku_Name :: string
  ku_Status :: string
  ku_BootArgs :: string

record s3_result =
  s3_Contents :: "string list"
  s3_CommonPrefixes :: "string list"
  s3_IsTruncated :: bool
  s3_NextContinuationToken :: string

type_synonym xml_decoder = "reader \<Rightarrow> err + s3_result"

section \<open>The kernel file\<close>

definition hostArchitecture :: "string io" where
  "hostArchitecture =
     bindE (output_of ''GOARCH'' []) (\<lambda>goarch.
       returnE (if goarch = ''amd64'' then ''x86_64'' else if goarch = ''arm64'' then ''aarch64'' else goarch))"

definition detectKernelArchitecture :: "string \<Rightarrow> string io" where
  "detectKernelArchitecture path =
     bindE (tryE (perform (Output ''file'' [''-b'', path]))) (\<lambda>r. returnE (case r of
         Inl e \<Rightarrow> ''''
       | Inr out \<Rightarrow>
           let text = ToLower out
           in if Contains text ''x86-64'' \<or> Contains text ''x86_64'' then ''x86_64''
              else if Contains text ''aarch64'' \<or> Contains text ''arm64'' then ''aarch64''
              else ''''))"

definition validateKernelPath :: "string \<Rightarrow> string io" where
  "validateKernelPath path = bindE (config_get (\<lambda>c. KernelDir (Paths c))) (validate_below path)"

definition validateKernelFile :: "string \<Rightarrow> unit io" where
  "validateKernelFile path =
     bindE (must_stat path) (\<lambda>st.
     bindE (config_get (\<lambda>c. MaxKernelBytes (Kernels c))) (\<lambda>limit.
     seqE (failIf (fi_Size st \<le> 0 \<or> limit < fi_Size st)
             (Invalid ''Kernel size is invalid'' [(''kernel'', ''must be between 1 and '' @ Itoa limit @ '' bytes'')]))
    (bindE (detectKernelArchitecture path) (\<lambda>arch.
     seqE (failIf (arch = '''') (Invalid ''Kernel architecture could not be detected''
             [(''kernel'', ''must be an uncompressed x86_64 or aarch64 kernel image'')]))
    (bindE hostArchitecture (\<lambda>own.
       failIf (arch \<noteq> own) (Invalid ''Kernel architecture does not match host''
         [(''kernel'', ''expected '' @ own @ '', got '' @ arch)])))))))"

definition writeLimitedFile :: "string \<Rightarrow> reader \<Rightarrow> int \<Rightarrow> string \<Rightarrow> unit io" where
  "writeLimitedFile path r limit mode =
     seqE (mkdirAll (Dir path) ''0700'')
    (seqE (os_call ''OpenFile'' [path, ''O_CREATE|O_WRONLY|O_TRUNC'', mode])
      (deferE (ignoreE (os_call ''Close'' [path]))
        (let data = take (nat (limit + 1)) (fst r)
         in seqE (os_call ''Write'' [path, data])
           (seqE (case snd r of Some e \<Rightarrow> failIf (int (length (fst r)) < limit + 1) e | None \<Rightarrow> returnE ())
             (failIf (limit < int (length data)) (PlainError (''file exceeds '' @ Itoa limit @ '' bytes'')))))))"

section \<open>Registration\<close>

definition kernel_config_path :: "register_kernel \<Rightarrow> string io" where
  "kernel_config_path req =
     (if TrimSpace (rk_ConfigPath req) = '''' then returnE ''''
      else bindE (invalidOn ''Kernel config path is invalid'' ''config_path'' (validateKernelPath (rk_ConfigPath req))) (\<lambda>path.
           seqE (invalidOn ''Kernel config path is invalid'' ''config_path'' (requireFile path)) (returnE path)))"

definition RegisterKernel :: "register_kernel \<Rightarrow> string \<Rightarrow> kernel io" where
  "RegisterKernel req actor =
     (let name = TrimSpace (rk_Name req)
      in seqE (failIf (\<not> MatchString nameRe name)
               (Invalid ''Kernel name is invalid'' [(''name'', ''must match '' @ nameRe_text)]))
        (bindE (invalidOn ''Kernel path is invalid'' ''path'' (validateKernelPath (rk_Path req))) (\<lambda>path.
         seqE (invalidOn ''Kernel path is invalid'' ''path'' (requireFile path))
        (seqE (invalidOn ''Kernel path is unsafe'' ''path'' (secureExistingPath path))
        (seqE (whenE (\<not> rk_TrustExisting req) (validateKernelFile path))
        (bindE (kernel_config_path req) (\<lambda>configPath.
         let status = defaultImageString (TrimSpace (rk_Status req)) ''pending'';
             sourceType = defaultImageString (TrimSpace (rk_SourceType req)) ''upload''
         in seqE (failIf (\<not> validKernelStatus status)
                   (Invalid ''Kernel status is invalid'' [(''status'', ''must be pending, active, failed, or archived'')]))
           (seqE (failIf (sourceType \<noteq> ''configured'' \<and> sourceType \<noteq> ''firecracker-ci'' \<and> sourceType \<noteq> ''upload'')
                   (Invalid ''Kernel source_type is invalid''
                     [(''source_type'', ''must be configured, firecracker-ci, or upload'')]))
           (bindE (fileSHA256 path) (\<lambda>checksum.
            bindE (detectKernelArchitecture path) (\<lambda>arch0.
            bindE (if arch0 = '''' then hostArchitecture else returnE arch0) (\<lambda>arch.
            bindE Now (\<lambda>now.
            bindE (Hex 8) (\<lambda>kid.
              let krn = \<lparr>krn_ID = kid, krn_Name = name, krn_Version = TrimSpace (rk_Version req), krn_Architecture = arch,
                    krn_Status = status, krn_SourceType = sourceType, krn_Path = path, krn_ConfigPath = configPath,
                    krn_Checksum = checksum,
                    krn_BootArgs = defaultImageString (TrimSpace (rk_BootArgs req)) defaultKernelBootArgs,
                    krn_Provenance = TrimSpace (rk_Provenance req), krn_CreatedBy = actor, krn_CreatedAt = now,
                    krn_UpdatedAt = now, krn_LastTestedAt = None\<rparr>
              in seqE (store_CreateKernel krn) (returnE krn)))))))))))))))"

definition EnsureDefaultKernel :: "unit io" where
  "EnsureDefaultKernel =
     bindE (config_get (\<lambda>c. KernelImage (Paths c))) (\<lambda>path.
       if TrimSpace path = '''' then returnE ()
       else bindE (stat path) (\<lambda>st. case st of
           Missing _ \<Rightarrow> returnE ()
         | StatFailed m \<Rightarrow> throwE (PlainError m)
         | Found _ \<Rightarrow>
             bindE (store_GetKernelByPath path) (\<lambda>existing. case existing of
                 Some krn \<Rightarrow> store_BackfillVMKernelID (krn_ID krn) (krn_Path krn)
               | None \<Rightarrow>
                   bindE (RegisterKernel \<lparr>rk_Name = ''default-kernel-5-10'', rk_Version = inferKernelVersion path, rk_Path = path,
                       rk_ConfigPath = '''', rk_Status = ''active'', rk_BootArgs = defaultKernelBootArgs,
                       rk_SourceType = ''configured'', rk_Provenance = ''configured paths.kernel_image'',
                       rk_TrustExisting = True\<rparr> ''system'') (\<lambda>krn.
                   store_BackfillVMKernelID (krn_ID krn) (krn_Path krn)))))"

definition kernel_dir :: "string \<Rightarrow> string \<Rightarrow> string io" where
  "kernel_dir name kid =
     bindE (config_get (\<lambda>c. KernelDir (Paths c))) (\<lambda>base. returnE (Join [base, sanitizePathPart name @ ''-'' @ kid]))"

text \<open>The directory of an import or upload is removed when the rest fails.\<close>

definition or_remove :: "string \<Rightarrow> 'a io \<Rightarrow> 'a io" where
  "or_remove dir m = onErrorE (ignoreE (os_call ''RemoveAll'' [dir])) m"

definition UploadKernel :: "upload_kernel \<Rightarrow> string \<Rightarrow> kernel io" where
  "UploadKernel req actor =
     (case uk_KernelReader req of
        None \<Rightarrow> throwE (Invalid ''Kernel file is required'' [(''kernel'', ''required'')])
      | Some kernelReader \<Rightarrow>
          bindE (Hex 8) (\<lambda>kid.
          bindE (kernel_dir (uk_Name req) kid) (\<lambda>dir.
          seqE (mkdirAll dir ''0700'')
            (or_remove dir
              (let kernelPath = Join [dir, defaultImageString (cleanKernelFilename (uk_KernelName req)) ''vmlinux'']
               in bindE (config_get (\<lambda>c. MaxKernelBytes (Kernels c))) (\<lambda>limit.
                  seqE (invalidOn ''Kernel upload is invalid'' ''kernel'' (writeLimitedFile kernelPath kernelReader limit ''0600''))
                 (bindE (case uk_ConfigReader req of
                     None \<Rightarrow> returnE ''''
                   | Some configReader \<Rightarrow>
                       let configPath = Join [dir, defaultImageString (cleanKernelFilename (uk_ConfigName req)) ''kernel.config'']
                       in seqE (invalidOn ''Kernel config upload is invalid'' ''config''
                                  (writeLimitedFile configPath configReader (4 * 1024 * 1024) ''0600''))
                            (returnE configPath)) (\<lambda>configPath.
                  RegisterKernel \<lparr>rk_Name = uk_Name req, rk_Version = uk_Version req, rk_Path = kernelPath,
                     rk_ConfigPath = configPath, rk_Status = ''pending'', rk_BootArgs = defaultKernelBootArgs,
                     rk_SourceType = ''upload'', rk_Provenance = ''admin upload'', rk_TrustExisting = False\<rparr> actor))))))))"

section \<open>The CI bucket\<close>

text \<open>\<open>http.NewRequest\<close> and \<open>client.Do\<close>: the status code and line.\<close>

definition http_get :: "string \<Rightarrow> (nat \<times> string) io" where
  "http_get rawURL =
     (case url_Parse rawURL of
        Inl e \<Rightarrow> throwE (PlainError e)
      | Inr u \<Rightarrow>
          bindE (ask (Http ''GET'' (u_Host u) rawURL [])) (\<lambda>r. case r of
              Response code status body \<Rightarrow> returnE (code, status)
            | Ok body \<Rightarrow> returnE (200, ''200 OK'')
            | Fail m out \<Rightarrow> throwE (PlainError m)))"

definition body_of :: "string \<Rightarrow> reader io" where
  "body_of rawURL =
     bindE (ask (Os ''ReadBody'' [rawURL])) (\<lambda>r. returnE (case r of
         Ok body \<Rightarrow> (body, None) | Response c s body \<Rightarrow> (body, None) | Fail m body \<Rightarrow> (body, Some (PlainError m))))"

definition close_body :: "string \<Rightarrow> unit io" where
  "close_body rawURL = ignoreE (os_call ''CloseBody'' [rawURL])"

definition newer_release :: "string \<Rightarrow> string \<Rightarrow> bool" where
  "newer_release a b =
     (case (firecrackerReleasePrefixVersion a, firecrackerReleasePrefixVersion b) of
        (Some (majorA, minorA), Some (majorB, minorB)) \<Rightarrow>
          if majorA \<noteq> majorB then majorA < majorB else minorA < minorB
      | _ \<Rightarrow> False)"

definition latestFirecrackerCIPrefix :: "xml_decoder \<Rightarrow> string io" where
  "latestFirecrackerCIPrefix xml =
     bindE (config_get (\<lambda>c. FirecrackerCIBaseURL (Kernels c) @ ''?list-type=2&prefix=firecracker-ci/&delimiter=/'')) (\<lambda>u.
     bindE (http_get u) (\<lambda>(code, status).
       deferE (close_body u)
         (seqE (failIf (code \<noteq> 200) (PlainError (''Firecracker CI listing returned '' @ status)))
         (bindE (body_of u) (\<lambda>body.
          bindE (liftE (xml body)) (\<lambda>result.
            let prefixes = filter (\<lambda>p. firecrackerReleasePrefixVersion p \<noteq> None) (s3_CommonPrefixes result)
            in if prefixes = [] then throwE (PlainError ''no stable Firecracker CI release prefixes found'')
               else returnE (last (sort_by newer_release prefixes))))))))"

text \<open>The URL of one page of a listing.\<close>

definition page_url :: "url \<Rightarrow> string \<Rightarrow> string \<Rightarrow> string" where
  "page_url u prefix token =
     (let q0 = values_Set ''prefix'' prefix (values_Set ''list-type'' ''2'' (url_Query u));
          q = (if token \<noteq> '''' then values_Set ''continuation-token'' token q0 else q0)
      in url_String (u\<lparr>u_RawQuery := values_Encode q\<rparr>))"

text \<open>
  The loop over the pages. It ends with the listing or with its context: \<open>rounds\<close> is how many requests fit
  before the deadline of the scan, after which a request fails.
\<close>

fun list_keys :: "xml_decoder \<Rightarrow> nat \<Rightarrow> string \<Rightarrow> string \<Rightarrow> string list \<Rightarrow> string list io" where
  "list_keys xml 0 prefix token keys = throwE (PlainError ''context deadline exceeded'')"
| "list_keys xml (Suc rounds) prefix token keys =
     bindE (config_get (\<lambda>c. TrimRight (FirecrackerCIBaseURL (Kernels c)) (CHR ''/''))) (\<lambda>base.
       case url_Parse base of
         Inl e \<Rightarrow> throwE (PlainError e)
       | Inr u \<Rightarrow>
           let page = page_url u prefix token
           in bindE (http_get page) (\<lambda>(code, status).
              if code \<noteq> 200 then seqE (close_body page) (throwE (PlainError (''Firecracker CI object listing returned '' @ status)))
              else bindE (body_of page) (\<lambda>body.
                   seqE (close_body page)
                  (bindE (liftE (xml body)) (\<lambda>result.
                     let keys' = keys @ filter (\<lambda>k. k \<noteq> '''') (s3_Contents result)
                     in if \<not> s3_IsTruncated result \<or> s3_NextContinuationToken result = '''' then returnE keys'
                        else list_keys xml rounds prefix (s3_NextContinuationToken result) keys')))))"

definition listFirecrackerCIKeys :: "xml_decoder \<Rightarrow> nat \<Rightarrow> string \<Rightarrow> string list io" where
  "listFirecrackerCIKeys xml rounds prefix = list_keys xml rounds prefix '''' []"

definition downloadFirecrackerCIObject :: "string \<Rightarrow> string \<Rightarrow> int \<Rightarrow> unit io" where
  "downloadFirecrackerCIObject key dst limit =
     bindE (config_get (\<lambda>c. c)) (\<lambda>c.
       case url_Parse (firecrackerCIURL c key) of
         Inl e \<Rightarrow> throwE (PlainError e)
       | Inr parsed \<Rightarrow>
           (case url_Parse (TrimRight (FirecrackerCIBaseURL (Kernels c)) (CHR ''/'')) of
              Inl e \<Rightarrow> throwE (PlainError e)
            | Inr base \<Rightarrow>
                seqE (failIf (u_Scheme parsed \<noteq> u_Scheme base \<or> u_Host parsed \<noteq> u_Host base \<or> u_Scheme parsed = ''''
                        \<or> u_Host parsed = '''') (Invalid ''Firecracker CI URL is invalid''
                        [(''ci_prefix'', ''must resolve under configured Firecracker CI base URL'')]))
               (seqE (failIf (u_Scheme parsed \<noteq> ''https'' \<and> Hostname parsed \<noteq> ''localhost'' \<and> Hostname parsed \<noteq> ''127.0.0.1'')
                        (Invalid ''Firecracker CI URL is invalid''
                        [(''ci_prefix'', ''must use https unless testing against localhost'')]))
               (bindE (http_get (url_String parsed)) (\<lambda>(code, status).
                  deferE (close_body (url_String parsed))
                    (seqE (failIf (code \<noteq> 200) (PlainError (''download '' @ key @ '' returned '' @ status)))
                    (bindE (body_of (url_String parsed)) (\<lambda>body.
                     seqE (writeLimitedFile dst body limit ''0600'')
                       (seqE (fileSHA256 dst) (returnE ())))))))))) "

definition importFirecrackerCIKernelByKeys :: "string \<Rightarrow> string \<Rightarrow> string \<Rightarrow> string \<Rightarrow> string \<Rightarrow> kernel io" where
  "importFirecrackerCIKernelByKeys name0 version kernelKey configKey actor =
     bindE (Hex 8) (\<lambda>kid.
       let name = defaultImageString name0 (kernelCIName version)
       in bindE (kernel_dir name kid) (\<lambda>dir.
          seqE (mkdirAll dir ''0700'')
            (let kernelPath = Join [dir, ''vmlinux-'' @ version]; configPath0 = Join [dir, ''vmlinux-'' @ version @ ''.config'']
             in bindE (config_get (\<lambda>c. c)) (\<lambda>c.
                or_remove dir
                  (seqE (downloadFirecrackerCIObject kernelKey kernelPath (MaxKernelBytes (Kernels c)))
                  (bindE (if configKey = '''' then returnE ''''
                          else bindE (errorOf (downloadFirecrackerCIObject configKey configPath0 (4 * 1024 * 1024))) (\<lambda>err.
                               if err = None then returnE configPath0
                               else seqE (ignoreE (removeFile configPath0)) (returnE ''''))) (\<lambda>configPath.
                   RegisterKernel \<lparr>rk_Name = name, rk_Version = version, rk_Path = kernelPath, rk_ConfigPath = configPath,
                      rk_Status = ''pending'', rk_BootArgs = defaultKernelBootArgs, rk_SourceType = ''firecracker-ci'',
                      rk_Provenance = firecrackerCIURL c kernelKey, rk_TrustExisting = False\<rparr> actor)))))))"

definition findKernelByProvenance :: "string \<Rightarrow> kernel option io" where
  "findKernelByProvenance provenance =
     bindE store_ListKernels (\<lambda>krns. returnE (find (\<lambda>k. krn_Provenance k = provenance) krns))"

definition already_registered :: "'a io" where
  "already_registered =
     throwE (ConflictFields ''Kernel artifact is already registered'' [(''artifact_id'', ''already registered'')])"

definition import_artifact :: "import_kernel \<Rightarrow> string \<Rightarrow> string \<Rightarrow> kernel io" where
  "import_artifact req artifactID actor =
     bindE (store_GetKernelDiscoveryItem artifactID) (\<lambda>found. case found of
         None \<Rightarrow> throwE (NotFound ''kernel discovery artifact not found'')
       | Some item \<Rightarrow>
           if kdi_AlreadyRegistered item then already_registered
           else bindE (findKernelByProvenance (kdi_KernelURL item)) (\<lambda>existing.
             if existing \<noteq> None
             then seqE (ignoreE (store_MarkKernelDiscoveryItemRegistered (kdi_ID item) True)) already_registered
             else bindE (importFirecrackerCIKernelByKeys (defaultImageString (TrimSpace (ik_Name req)) (kernelCIName (kdi_Version item)))
                      (kdi_Version item) (kdi_KernelKey item) (kdi_ConfigKey item) actor) (\<lambda>krn.
                  seqE (ignoreE (store_MarkKernelDiscoveryItemRegistered (kdi_ID item) True)) (returnE krn))))"

definition ImportFirecrackerCIKernel :: "xml_decoder \<Rightarrow> import_kernel \<Rightarrow> string \<Rightarrow> kernel io" where
  "ImportFirecrackerCIKernel xml req actor =
     (if TrimSpace (ik_ArtifactID req) \<noteq> '''' then import_artifact req (TrimSpace (ik_ArtifactID req)) actor
      else let version = TrimSpace (ik_Version req)
        in seqE (failIf (version = '''') (Invalid ''Kernel version is required'' [(''version'', ''required'')]))
          (seqE (failIf (\<not> validFirecrackerKernelVersion version) (Invalid ''Kernel version is unsupported''
                   [(''version'', ''use a Firecracker CI 5.10, 5.10-no-acpi, or 6.1 kernel'')]))
          (bindE (liftE (normalizeFirecrackerCIPrefix (ik_CIPrefix req))) (\<lambda>prefix0.
           bindE (if prefix0 = '''' then latestFirecrackerCIPrefix xml else returnE prefix0) (\<lambda>prefix.
           bindE hostArchitecture (\<lambda>arch.
             let kernelKey = prefix @ arch @ ''/vmlinux-'' @ version
             in importFirecrackerCIKernelByKeys (defaultImageString (TrimSpace (ik_Name req)) (kernelCIName version))
                  version kernelKey (kernelKey @ ''.config'') actor)))))) "

section \<open>Discovery\<close>

text \<open>The loop over the keys; \<open>seen\<close> has the URLs of the items so far.\<close>

fun discover :: "string \<Rightarrow> string \<Rightarrow> string \<Rightarrow> config \<Rightarrow> string list \<Rightarrow> string list \<Rightarrow> time \<Rightarrow> string list \<Rightarrow> string list
    \<Rightarrow> kernel_discovery_item list io" where
  "discover jobID prefix arch c registered configs now seen [] = returnE []"
| "discover jobID prefix arch c registered configs now seen (key # keys) =
     (let u = firecrackerCIURL c key
      in if \<not> supportedFirecrackerCIKernelKey key \<or> u \<in> set seen
         then discover jobID prefix arch c registered configs now seen keys
         else bindE (Hex 8) (\<lambda>iid.
           let version = TrimPrefix (Base key) ''vmlinux-'';
               configKey = (if key @ ''.config'' \<in> set configs then key @ ''.config'' else '''');
               item = \<lparr>kdi_ID = iid, kdi_JobID = jobID, kdi_Version = version, kdi_Variant = kernelVariant version,
                 kdi_Architecture = arch, kdi_CIPrefix = prefix, kdi_KernelKey = key, kdi_ConfigKey = configKey,
                 kdi_KernelURL = u, kdi_ConfigURL = (if configKey \<noteq> '''' then firecrackerCIURL c configKey else ''''),
                 kdi_AlreadyRegistered = (u \<in> set registered), kdi_CreatedAt = now\<rparr>
           in bindE (discover jobID prefix arch c registered configs now (u # seen) keys) (\<lambda>items. returnE (item # items))))"

definition discoveryItemsFromKeys :: "string \<Rightarrow> string \<Rightarrow> string \<Rightarrow> string list \<Rightarrow> kernel_discovery_item list io" where
  "discoveryItemsFromKeys jobID prefix arch keys =
     bindE store_ListKernels (\<lambda>krns.
       let registered = filter (\<lambda>p. TrimSpace p \<noteq> '''') (map krn_Provenance krns);
           configs = filter (\<lambda>k. HasSuffix k ''.config'') keys
       in bindE Now (\<lambda>now.
          bindE (config_get (\<lambda>c. c)) (\<lambda>c.
          bindE (discover jobID prefix arch c registered configs now [] keys) (\<lambda>items.
            returnE (sort_by (\<lambda>a b. newer (kdi_Version a) (kdi_Version b)) items)))))"

definition StartKernelDiscovery :: "string \<Rightarrow> string \<Rightarrow> kernel_discovery_job io" where
  "StartKernelDiscovery ciPrefix actor =
     bindE (liftE (normalizeFirecrackerCIPrefix ciPrefix)) (\<lambda>prefix.
     bindE Now (\<lambda>now.
     bindE (Hex 8) (\<lambda>jid.
     bindE (config_get (\<lambda>c. TrimRight (FirecrackerCIBaseURL (Kernels c)) (CHR ''/''))) (\<lambda>source.
     bindE hostArchitecture (\<lambda>arch.
       let job = \<lparr>kdj_ID = jid, kdj_Status = ''queued'', kdj_SourceURL = source, kdj_CIPrefix = prefix,
             kdj_Architecture = arch, kdj_ItemCount = 0, kdj_Error = '''', kdj_CreatedBy = actor, kdj_CreatedAt = now,
             kdj_StartedAt = None, kdj_CompletedAt = None\<rparr>
       in seqE (store_CreateKernelDiscoveryJob job)
         (seqE (ignoreE (do_effect (Go ''runKernelDiscovery'' [jid]))) (returnE job)))))))"

text \<open>The job is shared with the caller: its new fields count on an error too.\<close>

definition discover_into :: "xml_decoder \<Rightarrow> nat \<Rightarrow> kernel_discovery_job \<Rightarrow> (kernel_discovery_job \<times> err option) io" where
  "discover_into xml rounds job =
     bindE (tryE
       (bindE (listFirecrackerCIKeys xml rounds (kdj_CIPrefix job @ kdj_Architecture job @ ''/'')) (\<lambda>keys.
        bindE (discoveryItemsFromKeys (kdj_ID job) (kdj_CIPrefix job) (kdj_Architecture job) keys) (\<lambda>items.
        seqE (failIf (items = []) (PlainError (''no supported kernels found in '' @ kdj_CIPrefix job @ '' for '' @ kdj_Architecture job)))
          (returnE items))))) (\<lambda>r. case r of
         Inl e \<Rightarrow> returnE (job, Some e)
       | Inr items \<Rightarrow>
           bindE (errorOf (store_ReplaceKernelDiscoveryItems (kdj_ID job) items)) (\<lambda>err.
             returnE (job\<lparr>kdj_ItemCount := int (length items)\<rparr>, err)))"

definition executeKernelDiscovery :: "xml_decoder \<Rightarrow> nat \<Rightarrow> kernel_discovery_job \<Rightarrow> (kernel_discovery_job \<times> err option) io" where
  "executeKernelDiscovery xml rounds job =
     (let prefix = TrimSpace (kdj_CIPrefix job)
      in if prefix = '''' then
           bindE (tryE (latestFirecrackerCIPrefix xml)) (\<lambda>r. case r of
               Inl e \<Rightarrow> returnE (job, Some e)
             | Inr latest \<Rightarrow>
                 let job' = job\<lparr>kdj_CIPrefix := latest\<rparr>
                 in bindE (errorOf (store_UpdateKernelDiscoveryJob job')) (\<lambda>err.
                      if err \<noteq> None then returnE (job', err) else discover_into xml rounds job'))
         else bindE (discover_into xml rounds (job\<lparr>kdj_CIPrefix := prefix\<rparr>)) (\<lambda>(job', err).
                returnE (job'\<lparr>kdj_CIPrefix := kdj_CIPrefix job\<rparr>, err)))"

definition runKernelDiscovery :: "xml_decoder \<Rightarrow> nat \<Rightarrow> string \<Rightarrow> unit io" where
  "runKernelDiscovery xml rounds jobID =
     bindE (tryE (store_GetKernelDiscoveryJob jobID)) (\<lambda>r. case r of
         Inr (Some job0) \<Rightarrow>
           bindE Now (\<lambda>started.
             let job1 = job0\<lparr>kdj_Status := ''running'', kdj_StartedAt := Some started\<rparr>
             in seqE (ignoreE (store_UpdateKernelDiscoveryJob job1))
               (bindE (executeKernelDiscovery xml rounds job1) (\<lambda>(job2, err).
                bindE Now (\<lambda>completed.
                  let job3 = job2\<lparr>kdj_CompletedAt := Some completed\<rparr>
                  in ignoreE (store_UpdateKernelDiscoveryJob
                       (case err of
                          Some e \<Rightarrow> job3\<lparr>kdj_Status := ''failed'', kdj_Error := err_text e\<rparr>
                        | None \<Rightarrow> job3\<lparr>kdj_Status := ''succeeded''\<rparr>))))))
       | _ \<Rightarrow> returnE ())"


section \<open>What a discovery finds\<close>

lemma discover_found:
  "discover jid prefix arch c registered configs now seen keys w = (Inr items, w') \<Longrightarrow>
     distinct (map kdi_KernelURL items)
   \<and> set (map kdi_KernelURL items) = firecrackerCIURL c ` {k \<in> set keys. supportedFirecrackerCIKernelKey k} - set seen
   \<and> (\<forall>i \<in> set items. kdi_KernelKey i \<in> set keys \<and> supportedFirecrackerCIKernelKey (kdi_KernelKey i)
        \<and> kdi_KernelURL i = firecrackerCIURL c (kdi_KernelKey i)
        \<and> (kdi_AlreadyRegistered i \<longleftrightarrow> kdi_KernelURL i \<in> set registered)
        \<and> (kdi_ConfigKey i = '''' \<or> kdi_ConfigKey i = kdi_KernelKey i @ ''.config'' \<and> kdi_ConfigKey i \<in> set configs))"
proof (induction keys arbitrary: seen items w)
  case Nil
  then show ?case by (simp add: io_run)
next
  case (Cons key keys)
  let ?u = "firecrackerCIURL c key"
  show ?case
  proof (cases "\<not> supportedFirecrackerCIKernelKey key \<or> ?u \<in> set seen")
    case True
    then have "discover jid prefix arch c registered configs now seen keys w = (Inr items, w')"
      using Cons.prems by (simp add: Let_def)
    from Cons.IH [OF this] True show ?thesis by auto
  next
    case False
    then obtain v item rest where r: "discover jid prefix arch c registered configs now (?u # seen) keys v = (Inr rest, w')"
      and items: "items = item # rest" and item: "kdi_KernelURL item = ?u" "kdi_KernelKey item = key"
        "kdi_AlreadyRegistered item \<longleftrightarrow> ?u \<in> set registered"
        "kdi_ConfigKey item = (if key @ ''.config'' \<in> set configs then key @ ''.config'' else '''')"
      using Cons.prems by (auto simp: Let_def io_run)
    from Cons.IH [OF r] False item show ?thesis unfolding items by auto
  qed
qed


end
