(* ===== verification/KernelTests.thy ===== *)
theory KernelTests
  imports Kernels
begin

text \<open>
  Updates, deletion and boot tests of kernels (\<open>internal/lifecycle/kernels.go\<close>): \<open>StartKernelTest\<close>,
  \<open>runKernelTest\<close> and \<open>executeKernelTest\<close>, which creates a VM with the kernel, waits for its ssh server and
  deletes it again. The wait polls until a deadline; \<open>waitForKernelTestSSH_ends\<close> shows that its fuel suffices.
\<close>

section \<open>Updates and deletion\<close>

definition require_kernel :: "string \<Rightarrow> kernel io" where
  "require_kernel kid =
     bindE (store_GetKernel kid) (\<lambda>found. case found of
         None \<Rightarrow> throwE (NotFound ''kernel not found'') | Some krn \<Rightarrow> returnE krn)"

definition UpdateKernel :: "string \<Rightarrow> kernel_update \<Rightarrow> kernel option io" where
  "UpdateKernel kid req =
     bindE (require_kernel kid) (\<lambda>krn.
       let name = TrimSpace (ku_Name req); status = TrimSpace (ku_Status req); bootArgs = TrimSpace (ku_BootArgs req)
       in seqE (failIf (name \<noteq> '''' \<and> \<not> MatchString nameRe name)
                 (Invalid ''Kernel name is invalid'' [(''name'', ''must match '' @ nameRe_text)]))
         (seqE (failIf (status \<noteq> '''' \<and> \<not> validKernelStatus status)
                 (Invalid ''Kernel status is invalid'' [(''status'', ''must be pending, active, failed, or archived'')]))
         (seqE (store_UpdateKernel (krn\<lparr>krn_Name := (if name \<noteq> '''' then name else krn_Name krn),
                   krn_Status := (if status \<noteq> '''' then status else krn_Status krn),
                   krn_BootArgs := (if bootArgs \<noteq> '''' then bootArgs else krn_BootArgs krn)\<rparr>))
           (store_GetKernel kid))))"

definition DeleteKernel :: "string \<Rightarrow> unit io" where
  "DeleteKernel kid =
     bindE (require_kernel kid) (\<lambda>krn.
     seqE (store_DeleteKernel kid)
       (whenE (krn_SourceType krn \<noteq> ''configured'' \<and> krn_Path krn \<noteq> '''') (remove_existing ''RemoveAll'' (Dir (krn_Path krn)))))"

section \<open>The wait for the test VM\<close>

definition smoke_args :: "string \<Rightarrow> string \<Rightarrow> string \<Rightarrow> string \<Rightarrow> string list" where
  "smoke_args privateKeyPath user guestIP hostIP =
     [''-o'', ''BatchMode=yes'', ''-o'', ''StrictHostKeyChecking=no'', ''-o'', ''UserKnownHostsFile=/dev/null'',
      ''-o'', ''LogLevel=ERROR'', ''-o'', ''ConnectTimeout=3'', ''-i'', privateKeyPath, user @ ''@'' @ guestIP,
      ''uname -r; ping -c 1 -W 2 '' @ hostIP @ '' >/dev/null && echo gateway-ok'']"

text \<open>
  How the loop ended: the command's output, the deadline with the last output, or the end of the fuel. A
  context that is done ends the wait between two rounds with its error.
\<close>

datatype smoke = Passed string | Deadline string | OutOfRounds

fun smoke_loop :: "nat \<Rightarrow> time \<Rightarrow> string list \<Rightarrow> string \<Rightarrow> smoke io" where
  "smoke_loop 0 deadline args prev = returnE OutOfRounds"
| "smoke_loop (Suc n) deadline args prev =
     bindE Now (\<lambda>now.
       if \<not> now < deadline then returnE (Deadline prev)
       else bindE (ask (Output ''ssh'' args)) (\<lambda>r. case r of
           Fail m out \<Rightarrow> seqE (do_effect (Sleep (2 * Second))) (smoke_loop n deadline args (TrimSpace out))
         | Ok out \<Rightarrow> returnE (Passed (TrimSpace out))
         | Response c s out \<Rightarrow> returnE (Passed (TrimSpace out))))"

definition smoke_rounds :: nat where "smoke_rounds = 46"

definition waitForKernelTestSSH :: "string \<Rightarrow> string \<Rightarrow> string \<Rightarrow> string \<Rightarrow> string io" where
  "waitForKernelTestSSH privateKeyPath user guestIP hostIP =
     bindE Now (\<lambda>now.
     bindE (smoke_loop smoke_rounds (now + 90 * Second) (smoke_args privateKeyPath user guestIP hostIP) '''') (\<lambda>r. case r of
         Passed out \<Rightarrow> returnE (CleanKernelTestOutput out)
       | Deadline out \<Rightarrow>
           throwE (PlainError (if out \<noteq> '''' then ''SSH smoke did not succeed: '' @ out else ''SSH smoke did not succeed''))
       | OutOfRounds \<Rightarrow> throwE (PlainError ''SSH smoke did not succeed'')))"

section \<open>Boot tests\<close>

definition StartKernelTest :: "string \<Rightarrow> string \<Rightarrow> kernel_test_job io" where
  "StartKernelTest kernelID actor =
     bindE (require_kernel kernelID) (\<lambda>krn.
     bindE store_DefaultBaseImage (\<lambda>base. case base of
         None \<Rightarrow> throwE (NotFound ''base image not found'')
       | Some img \<Rightarrow>
           bindE Now (\<lambda>now.
           bindE (Hex 8) (\<lambda>jid.
           bindE (Hex 8) (\<lambda>suffix.
           bindE (config_get (\<lambda>c. LogDir (Paths c))) (\<lambda>logDir.
             let job = \<lparr>ktj_ID = jid, ktj_KernelID = krn_ID krn, ktj_Status = ''queued'',
                   ktj_LogPath = Join [logDir, ''kernel-test-'' @ suffix @ ''.log''], ktj_BaseImageID = img_ID img,
                   ktj_UnameResult = '''', ktj_KernelRelease = '''', ktj_GatewayOK = None, ktj_ResultSummary = '''',
                   ktj_Error = '''', ktj_CreatedBy = actor, ktj_CreatedAt = now, ktj_StartedAt = None, ktj_CompletedAt = None\<rparr>
             in seqE (store_CreateKernelTestJob job)
               (seqE (ignoreE (do_effect (Go ''runKernelTest'' [jid]))) (returnE job))))))))"

definition test_request :: "kernel_test_job \<Rightarrow> kernel \<Rightarrow> base_image \<Rightarrow> string \<Rightarrow> create_request" where
  "test_request job krn img publicKey =
     \<lparr>cr_Name = ''kt'' @ take 10 (ktj_ID job), cr_VCPUCount = 1, cr_MemMiB = 512, cr_SSHPort = 0, cr_DevUser = ''dev'',
      cr_SSHKeyID = '''', cr_ExtraAuthorizedKeys = publicKey, cr_RepoURL = '''', cr_GitRef = ''HEAD'',
      cr_EgressMode = ''allow_all'', cr_EgressPolicyID = '''', cr_NetworkMode = ''routed_ptp'', cr_NetworkID = '''',
      cr_BaseImageID = img_ID img, cr_RootFSSizeMiB = img_VirtualSizeMiB img, cr_KernelID = krn_ID krn,
      cr_AllowPendingKernel = True\<rparr>"

definition delete_test_vm :: "string \<Rightarrow> vm \<Rightarrow> unit io" where
  "delete_test_vm log vm =
     bindE (errorOf (DeleteVM (vm_ID vm))) (\<lambda>err. case err of
         None \<Rightarrow> returnE () | Some e \<Rightarrow> logf log (''cleanup failed: '' @ err_text e))"

definition boot_test_vm :: "kernel_test_job \<Rightarrow> generated_key \<Rightarrow> vm \<Rightarrow> kernel_test_job io" where
  "boot_test_vm job key vm =
     (let log = ktj_LogPath job
      in seqE (logf log (''starting test VM '' @ vm_ID vm))
        (seqE (StartVM (vm_ID vm))
        (bindE (config_get (\<lambda>c. Join [RuntimeDir (Paths c), ''kernel-test-'' @ ktj_ID job])) (\<lambda>privatePath.
         seqE (writeFile privatePath (gen_PrivateKey key) ''0600'')
           (deferE (removeFile privatePath)
             (bindE (waitForKernelTestSSH privatePath (vm_DevUser vm) (vm_GuestIP vm) (vm_HostIP vm)) (\<lambda>out.
                let job' = job\<lparr>ktj_UnameResult := CleanKernelTestOutput out\<rparr>
                in seqE (ignoreE (store_UpdateKernelTestJob job'))
                  (seqE (logf log (''test command output: '' @ TrimSpace out)) (returnE job'))))))))) "

text \<open>The job with its result, which the code stores in the job it is given.\<close>

definition executeKernelTest :: "kernel_test_job \<Rightarrow> kernel_test_job io" where
  "executeKernelTest job =
     (let log = ktj_LogPath job
      in seqE (mkdirAll (Dir log) ''0700'')
        (seqE (os_call ''OpenFile'' [log, ''O_CREATE|O_WRONLY|O_APPEND'', ''0600''])
          (deferE (ignoreE (os_call ''Close'' [log]))
            (bindE (require_kernel (ktj_KernelID job)) (\<lambda>krn.
             bindE (store_GetBaseImage (ktj_BaseImageID job)) (\<lambda>base. case base of
                 None \<Rightarrow> throwE (NotFound ''base image not found'')
               | Some img \<Rightarrow>
                   bindE (Generate (''kernel-test-'' @ ktj_ID job) ''kernel-test'') (\<lambda>key.
                     let req = test_request job krn img (key_PublicKey (gen_Key key))
                     in seqE (logf log (''creating test VM '' @ cr_Name req @ '' using kernel '' @ krn_Name krn))
                       (bindE (CreateVM req) (\<lambda>vm.
                        deferE (delete_test_vm log vm) (boot_test_vm job key vm))))))))))"

definition mark_kernel :: "string \<Rightarrow> (kernel \<Rightarrow> kernel) \<Rightarrow> unit io" where
  "mark_kernel kid f =
     bindE (tryE (store_GetKernel kid)) (\<lambda>r. case r of
         Inr (Some krn) \<Rightarrow> ignoreE (store_UpdateKernel (f krn)) | _ \<Rightarrow> returnE ())"

definition runKernelTest :: "string \<Rightarrow> unit io" where
  "runKernelTest jobID =
     bindE (tryE (store_GetKernelTestJob jobID)) (\<lambda>r. case r of
         Inr (Some job0) \<Rightarrow>
           bindE Now (\<lambda>started.
             let job = job0\<lparr>ktj_Status := ''running'', ktj_StartedAt := Some started\<rparr>
             in seqE (ignoreE (store_UpdateKernelTestJob job))
               (bindE (tryE (executeKernelTest job)) (\<lambda>result.
                bindE Now (\<lambda>completed. case result of
                    Inl e \<Rightarrow>
                      seqE (mark_kernel (ktj_KernelID job) (\<lambda>k. k\<lparr>krn_Status := ''failed''\<rparr>))
                        (ignoreE (store_UpdateKernelTestJob (job\<lparr>ktj_CompletedAt := Some completed, ktj_Status := ''failed'',
                           ktj_Error := err_text e\<rparr>)))
                  | Inr job' \<Rightarrow>
                      seqE (ignoreE (store_UpdateKernelTestJob (job'\<lparr>ktj_CompletedAt := Some completed, ktj_Status := ''succeeded''\<rparr>)))
                        (mark_kernel (ktj_KernelID job)
                          (\<lambda>k. k\<lparr>krn_Status := ''active'', krn_LastTestedAt := Some completed\<rparr>))))))
       | _ \<Rightarrow> returnE ())"


section \<open>The wait ends\<close>

lemma smoke_loop_step:
  "smoke_loop (Suc n) deadline args prev w =
     (if \<not> clock (host_of w) (trail w) < deadline then (Inr (Deadline prev), w\<lparr>trail := Clock # trail w\<rparr>)
      else let w1 = w\<lparr>trail := Output ''ssh'' args # Clock # trail w\<rparr>
        in case answer (host_of w) (Clock # trail w) (Output ''ssh'' args) of
             Fail m out \<Rightarrow> seqE (do_effect (Sleep (2 * Second))) (smoke_loop n deadline args (TrimSpace out)) w1
           | Ok out \<Rightarrow> (Inr (Passed (TrimSpace out)), w1)
           | Response c s out \<Rightarrow> (Inr (Passed (TrimSpace out)), w1))"
  by (simp add: bindE_def Now_def ask_def returnE_def Let_def split: reply.splits)

declare smoke_loop.simps(2) [simp del]

interpretation smoke: polling "\<lambda>n deadline (args, prev). smoke_loop n deadline args prev" "2 * Second" OutOfRounds
proof
  fix w :: world and n deadline s w'
  assume s: "steady (host_of w)" and run: "(case s of (args, prev) \<Rightarrow> smoke_loop (Suc n) deadline args prev) w = (Inr OutOfRounds, w')"
  obtain args prev where sp: "s = (args, prev)" by fastforce
  let ?w1 = "w\<lparr>trail := Output ''ssh'' args # Clock # trail w\<rparr>"
  obtain out u v where d: "do_effect (Sleep (2 * Second)) ?w1 = (Inr u, v)"
    and l: "smoke_loop n deadline args (TrimSpace out) v = (Inr OutOfRounds, w')" and c: "clock (host_of w) (trail w) < deadline"
    using run by (auto simp: sp smoke_loop_step io_run Let_def split: if_splits reply.splits)
  show "clock (host_of w) (trail w) < deadline \<and> (\<exists>s' w1. host_of w1 = host_of w
      \<and> clock (host_of w) (trail w) + 2 * Second \<le> clock (host_of w) (trail w1)
      \<and> (case s' of (args, prev) \<Rightarrow> smoke_loop n deadline args prev) w1 = (Inr OutOfRounds, w'))"
    using do_effect_world [OF d] steady_round [OF s refl, of "trail w" "2 * Second" "Output ''ssh'' args"] c l
    by (intro conjI exI [of _ "(args, TrimSpace out)"] exI [of _ v]) simp_all
qed

text \<open>
  C35: on a steady host the wait for the ssh server of a test VM never runs out of rounds: it ends because
  the command succeeded, the 90 seconds are over or the context is done.
\<close>

theorem waitForKernelTestSSH_ends:
  assumes "steady (host_of w)"
  shows "fst (smoke_loop smoke_rounds (clock (host_of w) (trail w) + 90 * Second) args prev w) \<noteq> Inr OutOfRounds"
proof -
  have "smoke_rounds = Suc 45" by (simp add: smoke_rounds_def)
  then show ?thesis
    using smoke.enough [OF assms, of "clock (host_of w) (trail w) + 90 * Second" 45 "(args, prev)"]
    by (simp only:) (simp add: Second_def)
qed

end
