(* ===== verification/Catalogue.thy ===== *)
theory Catalogue
  imports Creation KernelTests
begin

text \<open>
  The operations on images, hooks and kernels as sequences of steps of \<open>Evolution\<close>: most write tables that
  no invariant speaks of, a deletion happens only when no VM names the row, and the backfill names a kernel
  that exists. \<open>evo\<close> collects the rules for computations whose parts need no facts about each other.
\<close>

section \<open>Composition\<close>

named_theorems evo

lemma evolves_ro: "ro_io m \<Longrightarrow> evolves m"
  by (simp add: evolves_def ro_io_def)

lemma evolves_bind [evo]: "evolves m \<Longrightarrow> (\<And>x. evolves (f x)) \<Longrightarrow> evolves (bindE m f)"
  by (rule evolves_sound, rule sound_bind) (auto intro: sound_evolves)

lemma evolves_seq [evo]: "evolves m \<Longrightarrow> evolves n \<Longrightarrow> evolves (seqE m n)"
  unfolding seqE_def by (rule evolves_bind)

lemma evolves_try [evo]: "evolves m \<Longrightarrow> evolves (tryE m)"
  by (auto simp: evolves_def tryE_def split: prod.splits)

lemma evolves_ignoreE [evo]: "evolves m \<Longrightarrow> evolves (ignoreE m)"
  by (rule evolves_ignore)

lemma evolves_defer [evo]:
  assumes "evolves d" "evolves m"
  shows "evolves (deferE d m)"
  unfolding evolves_def
proof (intro allI impI)
  fix w :: world assume g: "good (database w)"
  obtain r v where m: "m w = (r, v)" by fastforce
  then have s: "db_steps (database w) (database v)" using assms(2) g by (auto simp: evolves_def)
  then have "db_steps (database v) (database (snd (d v)))" using assms(1) good_steps [OF s g] by (simp add: evolves_def)
  then show "db_steps (database w) (database (snd (deferE d m w)))" using s m by (simp add: deferE_def db_steps_trans)
qed

lemma evolves_if [evo]: "evolves m \<Longrightarrow> evolves n \<Longrightarrow> evolves (if b then m else n)" by simp
lemma evolves_let [evo]: "(\<And>x. evolves (f x)) \<Longrightarrow> evolves (let x = a in f x)" by simp
lemma evolves_option [evo]: "evolves m \<Longrightarrow> (\<And>x. evolves (f x)) \<Longrightarrow> evolves (case r of None \<Rightarrow> m | Some x \<Rightarrow> f x)"
  by (cases r) simp_all
lemma evolves_sum [evo]: "(\<And>e. evolves (f e)) \<Longrightarrow> (\<And>x. evolves (g x)) \<Longrightarrow> evolves (case r of Inl e \<Rightarrow> f e | Inr x \<Rightarrow> g x)"
  by (cases r) simp_all
lemma evolves_prod [evo]: "(\<And>x y. evolves (f x y)) \<Longrightarrow> evolves (case r of (x, y) \<Rightarrow> f x y)" by (cases r) simp
lemma evolves_stat_reply [evo]:
  "(\<And>x. evolves (f x)) \<Longrightarrow> (\<And>x. evolves (g x)) \<Longrightarrow> (\<And>x. evolves (h x)) \<Longrightarrow>
    evolves (case r of Found x \<Rightarrow> f x | Missing x \<Rightarrow> g x | StatFailed x \<Rightarrow> h x)"
  by (cases r) simp_all
lemma evolves_for [evo]: "(\<And>x. evolves (f x)) \<Longrightarrow> evolves (forE xs f)"
  by (induction xs) (auto intro: evolves_seq evolves_ro [OF ro_return])
lemma evolves_when [evo]: "evolves m \<Longrightarrow> evolves (whenE b m)"
  by (simp add: whenE_def evolves_ro ro_return)
lemma evolves_onError [evo]: "evolves d \<Longrightarrow> evolves m \<Longrightarrow> evolves (onErrorE d m)"
  unfolding onErrorE_def by (intro evolves_bind evolves_try evolves_sum evolves_seq evolves_ro [OF ro_throw] evolves_ro [OF ro_return])
lemma evolves_errorOf [evo]: "evolves m \<Longrightarrow> evolves (errorOf m)"
  unfolding errorOf_def by (intro evolves_bind evolves_try evolves_sum evolves_ro [OF ro_throw] evolves_ro [OF ro_return])
lemma evolves_invalidOn [evo]: "evolves m \<Longrightarrow> evolves (invalidOn t f m)"
  unfolding invalidOn_def by (intro evolves_bind evolves_try evolves_sum evolves_ro [OF ro_throw] evolves_ro [OF ro_return])
lemma evolves_or_remove [evo]: "evolves m \<Longrightarrow> evolves (or_remove dir m)"
  unfolding or_remove_def by (intro evolves_onError evolves_ignoreE evolves_ro [OF ro_os_call])

lemmas evolves_primitive [evo] =
  evolves_ro [OF ro_return] evolves_ro [OF ro_throw] evolves_ro [OF ro_lift] evolves_ro [OF ro_gets] evolves_ro [OF ro_config]
  evolves_ro [OF ro_ask] evolves_ro [OF ro_stat] evolves_ro [OF ro_Now] evolves_ro [OF ro_Hex] evolves_ro [OF ro_failIf]
  evolves_ro [OF ro_perform] evolves_ro [OF ro_do_effect] evolves_ro [OF ro_query] evolves_ro [OF ro_run]
  evolves_ro [OF ro_os_call] evolves_ro [OF ro_mkdirAll] evolves_ro [OF ro_writeFile] evolves_ro [OF ro_removeFile]
  evolves_ro [OF ro_readFile] evolves_ro [OF ro_requireFile] evolves_ro [OF ro_imageSizes] evolves_ro [OF ro_detectFilesystem]
  evolves_ro [OF ro_EvalSymlinks] evolves_ro [OF ro_fileSHA256] evolves_ro [OF ro_remove_existing] evolves_ro [OF ro_must_stat]
  evolves_ro [OF ro_secureExistingPath] evolves_ro [OF ro_validate_below] evolves_ro [OF ro_validateImagePath]
  evolves_ro [OF ro_require_image] evolves_ro [OF ro_upload_hook] evolves_ro [OF ro_git_hook] evolves_ro [OF ro_GetImageHook]
  evolves_ro [OF ro_loadHooks] evolves_ro [OF ro_log_write] evolves_ro [OF ro_logf] evolves_ro [OF ro_runLogged]
  evolves_ro [OF ro_umount_all] evolves_ro [OF ro_bindMinimalDevices] evolves_ro [OF ro_mountPseudo]
  evolves_ro [OF ro_writeAndRunChrootScript] evolves_ro [OF ro_clone_hook] evolves_ro [OF ro_output_of]
  evolves_ro [OF ro_sparse_image] evolves_ro [OF ro_GetBaseImage] evolves_ro [OF ro_DefaultBaseImage] evolves_ro [OF ro_GetKernel]
  evolves_ro [OF ro_Generate]

section \<open>Writes of tables without invariants\<close>

text \<open>A write that leaves alone what the invariants speak of.\<close>

definition aside :: "db \<Rightarrow> db \<Rightarrow> bool" where
  "aside d d' \<longleftrightarrow> vms d' = vms d \<and> networks d' = networks d \<and> ingress_rules d' = ingress_rules d
    \<and> egress_policies d' = egress_policies d \<and> vm_exec_jobs d' = vm_exec_jobs d \<and> parts_kept d d' \<and> db_ok d'"

lemma sound_aside:
  assumes "\<And>d'. good (database w) \<Longrightarrow> f (database w) = Inr d' \<Longrightarrow> aside (database w) d'"
  shows "sound w (exec q f)"
  by (rule sound_exec) (use assms in \<open>simp add: aside_def other\<close>)

lemma evolves_table:
  assumes "\<And>d rows. good d \<Longrightarrow> f d = Inr rows \<Longrightarrow> aside d (g d rows)"
  shows "evolves (exec q (\<lambda>d. put (f d) (g d)))"
  by (rule evolves_sound, rule sound_aside) (auto simp: put_Inr intro: assms)

lemma parts_kept_same: "base_images d' = base_images d \<Longrightarrow> kernels d' = kernels d \<Longrightarrow> parts_kept d d'"
  by (simp add: parts_kept_def known_parts_def)

text \<open>A table of parts that gained a row, or whose rows kept their ids, has the parts of every VM.\<close>

lemma updated_ids:
  assumes "tbl_update us (\<lambda>r. key r = key x) (\<lambda>_. x') rows = Inr rows'" "key x' = key x"
  shows "key ` set rows' = key ` set rows"
proof -
  have "rows' = map (\<lambda>r. if key r = key x then x' else r) rows" using assms(1) by (rule tbl_update_Inr)
  then show ?thesis unfolding image_image set_map by (simp only: set_map image_image, intro image_cong refl) (simp add: assms(2))
qed

lemma parts_kept_images: "img_ID ` set (base_images d) \<subseteq> img_ID ` set rows \<Longrightarrow> parts_kept d (d\<lparr>base_images := rows\<rparr>)"
  by (auto simp: parts_kept_def known_parts_def)

lemma parts_kept_kernels: "krn_ID ` set (kernels d) \<subseteq> krn_ID ` set rows \<Longrightarrow> parts_kept d (d\<lparr>kernels := rows\<rparr>)"
  by (auto simp: parts_kept_def known_parts_def)

lemma evolves_CreateBaseImage_row [evo]: "evolves (store_CreateBaseImage img)"
  unfolding store_CreateBaseImage_def
  by (rule evolves_table) (auto simp: aside_def good_def db_ok_def tbl_insert_uniq intro!: parts_kept_images dest: tbl_insert_Inr)

lemma evolves_CreateKernel_row [evo]: "evolves (store_CreateKernel krn)"
  unfolding store_CreateKernel_def
  by (rule evolves_table) (auto simp: aside_def good_def db_ok_def tbl_insert_uniq intro!: parts_kept_kernels dest: tbl_insert_Inr)

lemma evolves_UpdateBaseImage_row [evo]: "evolves (store_UpdateBaseImage img)"
  unfolding store_UpdateBaseImage_def
proof (rule evolves_bind [OF evolves_ro [OF ro_Now]], rule evolves_table)
  fix t d rows
  assume g: "good d" and u: "tbl_update base_images_uniq (\<lambda>i. img_ID i = img_ID img) (\<lambda>_. img\<lparr>img_UpdatedAt := t\<rparr>) (base_images d) = Inr rows"
  show "aside d (d\<lparr>base_images := rows\<rparr>)"
    using g tbl_update_uniq [OF u] updated_ids [OF u] by (simp add: aside_def good_def db_ok_def parts_kept_images)
qed

lemma evolves_UpdateKernel_row [evo]: "evolves (store_UpdateKernel krn)"
  unfolding store_UpdateKernel_def
proof (rule evolves_bind [OF evolves_ro [OF ro_Now]], rule evolves_table)
  fix t d rows
  assume g: "good d" and u: "tbl_update kernels_uniq (\<lambda>i. krn_ID i = krn_ID krn) (\<lambda>_. krn\<lparr>krn_UpdatedAt := t\<rparr>) (kernels d) = Inr rows"
  show "aside d (d\<lparr>kernels := rows\<rparr>)"
    using g tbl_update_uniq [OF u] updated_ids [OF u] by (simp add: aside_def good_def db_ok_def parts_kept_kernels)
qed

lemmas table_facts = aside_def good_def db_ok_def parts_kept_same tbl_insert_uniq tbl_update_uniq tbl_delete_uniq

lemma evolves_jobs_and_hooks [evo]:
  "evolves (store_CreateImageBuildJob bj)" "evolves (store_UpdateImageBuildJob bj)" "evolves (store_CreateImageHook h)"
  "evolves (store_CreateKernelTestJob tj)" "evolves (store_UpdateKernelTestJob tj)"
  "evolves (store_CreateKernelDiscoveryJob dj)" "evolves (store_UpdateKernelDiscoveryJob dj)"
  "evolves (store_MarkKernelDiscoveryItemRegistered iid b)"
  unfolding store_CreateImageBuildJob_def store_UpdateImageBuildJob_def store_CreateImageHook_def
    store_CreateKernelTestJob_def store_UpdateKernelTestJob_def store_CreateKernelDiscoveryJob_def
    store_UpdateKernelDiscoveryJob_def store_MarkKernelDiscoveryItemRegistered_def
  by (rule evolves_table, simp add: table_facts)+

lemma evolves_UpdateImageHook [evo]: "evolves (store_UpdateImageHook h)"
  unfolding store_UpdateImageHook_def
  by (rule evolves_bind [OF evolves_ro [OF ro_Now]], rule evolves_table) (simp add: table_facts)

lemma evolves_aside:
  assumes "\<And>d d'. good d \<Longrightarrow> f d = Inr d' \<Longrightarrow> aside d d'"
  shows "evolves (exec q f)"
  by (rule evolves_sound, rule sound_aside) (rule assms)

lemma evolves_DeleteImageHook_row [evo]: "evolves (store_DeleteImageHook hid)"
  unfolding store_DeleteImageHook_def by (rule evolves_aside) (auto simp: table_facts)


section \<open>Deletions and transactions\<close>

lemma sound_good: "(good (database w) \<Longrightarrow> sound w m) \<Longrightarrow> sound w m"
  by (simp add: sound_def)

lemma count_none: "count_where P xs \<le> 0 \<Longrightarrow> x \<in> set xs \<Longrightarrow> \<not> P x"
  by (auto simp: count_where_def filter_empty_conv)

lemma evolves_DeleteBaseImage_row [evo]: "evolves (store_DeleteBaseImage iid)"
  unfolding store_DeleteBaseImage_def
proof (rule evolves_sound, rule sound_read [OF ro_query], rule sound_check [OF ro_failIf], rule sound_aside)
  fix w w1 w2 :: world and used x d'
  assume q: "query ''SELECT COUNT(*) FROM vms'' (\<lambda>d. count_where (\<lambda>v. vm_BaseImageID v = iid) (vms d)) w = (Inr used, w1)"
    and d: "database w1 = database w" "database w2 = database w1" and g: "good (database w2)"
    and f: "failIf (0 < used) (assigned_error ''base image'' used) w1 = (Inr x, w2)"
    and e: "Inr ((database w2)\<lparr>base_images := tbl_delete (\<lambda>i. img_ID i = iid) (base_images (database w2))\<rparr>) = Inr d'"
  have used: "count_where (\<lambda>v. vm_BaseImageID v = iid) (vms (database w)) \<le> 0"
    using query_db [OF q] f by (simp add: io_run)
  then have "parts_kept (database w) d'"
    using e d count_none [OF used] by (force simp: parts_kept_def known_parts_def tbl_delete_def)
  then show "aside (database w2) d'" using g e d by (auto simp: aside_def good_def db_ok_def tbl_delete_uniq)
qed

lemma evolves_DeleteKernel_row [evo]: "evolves (store_DeleteKernel kid)"
  unfolding store_DeleteKernel_def
proof (rule evolves_sound, rule sound_read [OF ro_query], rule sound_option, rule sound_ro [OF ro_return],
    rule sound_read [OF ro_query], rule sound_check [OF ro_failIf], rule sound_seq [OF sound_aside], goal_cases)
  case (1 w found w1 path used w2 x w3 d')
  then show ?case by (auto simp: table_facts)
next
  case (2 w found w1 path used w2 x w3 y w4)
  have del: "kernels (database w4) = kernels (database w3) \<and> vms (database w4) = vms (database w3)"
    using exec_db [OF 2(11)] by (auto dest: sym)
  have used: "count_where (\<lambda>v. vm_KernelID v = kid \<or> vm_KernelPath v = path) (vms (database w4)) \<le> 0"
    using query_db [OF 2(5)] 2 del by (simp add: io_run)
  then have "parts_kept (database w4) ((database w4)\<lparr>kernels := tbl_delete (\<lambda>k. krn_ID k = kid) (kernels (database w4))\<rparr>)"
    using count_none [OF used] by (force simp: parts_kept_def known_parts_def tbl_delete_def)
  then show ?case by (intro sound_aside) (auto simp: aside_def good_def db_ok_def tbl_delete_uniq)
qed

lemma insert_items_uniq:
  "foldE insert_item rows items w = (Inr rows', w') \<Longrightarrow> uniq_ok kernel_discovery_items_uniq rows \<Longrightarrow>
    uniq_ok kernel_discovery_items_uniq rows'"
  by (induction items arbitrary: rows w) (auto simp: io_run insert_item_def tbl_insert_uniq)

lemma evolves_ReplaceItems [evo]: "evolves (store_ReplaceKernelDiscoveryItems jid items)"
  unfolding store_ReplaceKernelDiscoveryItems_def
proof (rule evolves_sound, rule sound_good, rule sound_check [OF ro_perform], rule sound_read [OF ro_query],
    rule sound_check [OF ro_perform], rule sound_read, goal_cases)
  case (1 w)
  show ?case unfolding insert_item_def by (intro ro)
next
  case (2 w a w1 rows0 w2 b w3 rows w4)
  have "uniq_ok kernel_discovery_items_uniq rows0" using 2 query_db [OF 2(5)] by (simp add: good_def db_ok_def tbl_delete_uniq)
  then have "uniq_ok kernel_discovery_items_uniq rows" using 2 insert_items_uniq by blast
  then show ?case by (intro sound_aside) (auto simp: table_facts)
qed

lemma sound_Backfill:
  assumes "kid \<in> krn_ID ` set (kernels (database w))"
  shows "sound w (store_BackfillVMKernelID kid path)"
  unfolding store_BackfillVMKernelID_def
  by (intro sound_if sound_ro [OF ro_return] sound_exec) (auto simp: put_Inr intro: kernel_backfilled [OF assms])


section \<open>Images and hooks\<close>

lemmas catalogue_ro = ro_bind ro_seq ro_option ro_query ro_return ro_throw ro_if

lemma evolves_RegisterBaseImage [evo]: "evolves (RegisterBaseImage req actor)"
  unfolding RegisterBaseImage_def Let_def by (intro evo)

lemma evolves_EnsureDefaultBaseImage: "evolves EnsureDefaultBaseImage"
  unfolding EnsureDefaultBaseImage_def store_GetBaseImageByPath_def by (intro evo)

lemma evolves_UpdateBaseImageStatus: "evolves (UpdateBaseImageStatus iid st)"
  unfolding UpdateBaseImageStatus_def Let_def by (intro evo)

lemma evolves_DeleteBaseImage: "evolves (DeleteBaseImage iid)"
  unfolding DeleteBaseImage_def by (intro evo)

lemma evolves_CreateImageHook: "evolves (CreateImageHook req actor)"
  unfolding CreateImageHook_def Let_def by (intro evo)

lemma evolves_DeleteImageHook: "evolves (DeleteImageHook hid)"
  unfolding DeleteImageHook_def by (intro evo)

lemma evolves_StartImageBuild: "evolves (StartImageBuild req actor)"
  unfolding StartImageBuild_def Let_def by (intro evo)

lemma evolves_build_hook [evo]: "evolves (build_hook log mnt root h)"
  unfolding build_hook_def runBuildHook_def run_git_hook_def Let_def by (intro evo)

lemma evolves_buildBaseImage [evo]: "evolves (buildBaseImage job packages hooks)"
  unfolding buildBaseImage_def mounted_build_def fill_image_def register_build_def Let_def by (intro evo)

lemma evolves_runImageBuild: "evolves (runImageBuild jid packages hooks)"
  unfolding runImageBuild_def store_GetImageBuildJob_def Let_def by (intro evo)

section \<open>Kernels\<close>

lemma ro_hostArchitecture: "ro_io hostArchitecture" unfolding hostArchitecture_def by (intro ro)
lemma ro_detectKernelArchitecture: "ro_io (detectKernelArchitecture p)" unfolding detectKernelArchitecture_def by (intro ro)
lemma ro_validateKernelFile: "ro_io (validateKernelFile p)"
  unfolding validateKernelFile_def by (intro ro ro_hostArchitecture ro_detectKernelArchitecture)
lemma ro_writeLimitedFile: "ro_io (writeLimitedFile p r l m)" unfolding writeLimitedFile_def Let_def by (intro ro)
lemma ro_http_get: "ro_io (http_get u)" unfolding http_get_def by (intro ro)
lemma ro_body_of: "ro_io (body_of u)" unfolding body_of_def by (intro ro)
lemma ro_close_body: "ro_io (close_body u)" unfolding close_body_def by (intro ro)
lemma ro_latestPrefix: "ro_io (latestFirecrackerCIPrefix xml)"
  unfolding latestFirecrackerCIPrefix_def Let_def by (intro ro ro_http_get ro_body_of ro_close_body)
lemma ro_list_keys: "ro_io (list_keys xml n p t ks)"
  by (induction n arbitrary: t ks) (auto simp: Let_def intro!: ro ro_http_get ro_body_of ro_close_body)
lemma ro_download: "ro_io (downloadFirecrackerCIObject k d l)"
  unfolding downloadFirecrackerCIObject_def by (intro ro ro_http_get ro_body_of ro_close_body ro_writeLimitedFile)
lemma ro_discover: "ro_io (discover j p a c r cs now seen keys)"
  by (induction keys arbitrary: seen) (auto simp: Let_def intro!: ro)
lemma ro_discoveryItems: "ro_io (discoveryItemsFromKeys j p a ks)"
  unfolding discoveryItemsFromKeys_def store_ListKernels_def Let_def by (intro ro ro_discover)
lemma ro_kernel_dir: "ro_io (kernel_dir n k)" unfolding kernel_dir_def by (intro ro)

lemmas evolves_kernel_parts [evo] =
  evolves_ro [OF ro_hostArchitecture] evolves_ro [OF ro_detectKernelArchitecture] evolves_ro [OF ro_validateKernelFile]
  evolves_ro [OF ro_writeLimitedFile] evolves_ro [OF ro_latestPrefix] evolves_ro [OF ro_list_keys] evolves_ro [OF ro_download]
  evolves_ro [OF ro_discoveryItems] evolves_ro [OF ro_kernel_dir]

lemma evolves_RegisterKernel [evo]: "evolves (RegisterKernel req actor)"
  unfolding RegisterKernel_def kernel_config_path_def validateKernelPath_def Let_def by (intro evo)

lemma evolves_UploadKernel: "evolves (UploadKernel req actor)"
  unfolding UploadKernel_def Let_def by (intro evo)

lemma evolves_importByKeys [evo]: "evolves (importFirecrackerCIKernelByKeys n v k c actor)"
  unfolding importFirecrackerCIKernelByKeys_def Let_def by (intro evo)

lemma evolves_ImportKernel: "evolves (ImportFirecrackerCIKernel xml req actor)"
  unfolding ImportFirecrackerCIKernel_def import_artifact_def already_registered_def findKernelByProvenance_def
    store_GetKernelDiscoveryItem_def store_ListKernels_def Let_def by (intro evo)

lemma evolves_StartKernelDiscovery: "evolves (StartKernelDiscovery p actor)"
  unfolding StartKernelDiscovery_def Let_def by (intro evo)

lemma evolves_runKernelDiscovery: "evolves (runKernelDiscovery xml n jid)"
  unfolding runKernelDiscovery_def executeKernelDiscovery_def discover_into_def listFirecrackerCIKeys_def
    store_GetKernelDiscoveryJob_def Let_def by (intro evo)

lemma ro_require_kernel: "ro_io (require_kernel kid)" unfolding require_kernel_def by (intro ro)

lemma evolves_UpdateKernel: "evolves (UpdateKernel kid req)"
  unfolding UpdateKernel_def Let_def by (intro evo evolves_ro [OF ro_require_kernel])

lemma evolves_DeleteKernel: "evolves (DeleteKernel kid)"
  unfolding DeleteKernel_def by (intro evo evolves_ro [OF ro_require_kernel])

lemma evolves_StartKernelTest: "evolves (StartKernelTest kid actor)"
  unfolding StartKernelTest_def Let_def by (intro evo evolves_ro [OF ro_require_kernel])

lemma ro_smoke_loop: "ro_io (smoke_loop n d a l)"
proof (induction n arbitrary: l)
  case (Suc n)
  then show ?case by (auto simp: smoke_loop.simps(2) intro!: ro split: reply.splits)
qed (simp add: ro_return)

lemma ro_waitForKernelTestSSH: "ro_io (waitForKernelTestSSH k u g h)"
proof -
  have "ro_io (case r of Passed out \<Rightarrow> returnE (CleanKernelTestOutput out) | Deadline out \<Rightarrow> throwE (e out) | OutOfRounds \<Rightarrow> throwE e')"
    for r e e' by (cases r) (simp_all add: ro_return ro_throw)
  then show ?thesis unfolding waitForKernelTestSSH_def by (intro ro ro_smoke_loop)
qed

lemma evolves_executeKernelTest [evo]: "evolves (executeKernelTest job)"
  unfolding executeKernelTest_def delete_test_vm_def boot_test_vm_def Let_def
  by (intro evo evolves_ro [OF ro_require_kernel] evolves_ro [OF ro_waitForKernelTestSSH] evolves_CreateVM evolves_StartVM evolves_DeleteVM)

lemma evolves_runKernelTest: "evolves (runKernelTest jid)"
  unfolding runKernelTest_def mark_kernel_def store_GetKernelTestJob_def Let_def by (intro evo)


section \<open>The default kernel\<close>

lemma stored_kernel: "store_CreateKernel krn w = (Inr x, w') \<Longrightarrow> krn \<in> set (kernels (database w'))"
  by (auto simp: store_CreateKernel_def io_run put_Inr dest!: tbl_insert_Inr)

lemma RegisterKernel_stored: "RegisterKernel req actor w = (Inr krn, w') \<Longrightarrow> krn \<in> set (kernels (database w'))"
  unfolding RegisterKernel_def by (auto simp: io_run Let_def simp del: if_run dest!: stored_kernel)

lemma evolves_EnsureDefaultKernel: "evolves EnsureDefaultKernel"
proof (rule evolves_sound)
  have path: "ro_io (store_GetKernelByPath p)" for p unfolding store_GetKernelByPath_def by (intro ro)
  have ensure: "sound v (bindE (store_GetKernelByPath p) (\<lambda>existing. case existing of
          Some krn \<Rightarrow> store_BackfillVMKernelID (krn_ID krn) (krn_Path krn)
        | None \<Rightarrow> bindE (RegisterKernel req ''system'') (\<lambda>krn. store_BackfillVMKernelID (krn_ID krn) (krn_Path krn))))" for v p req
  proof (rule sound_read [OF path], rule sound_option)
    fix found v1 krn assume g: "store_GetKernelByPath p v = (Inr found, v1)" "found = Some krn" and d: "database v1 = database v"
    have "krn \<in> set (kernels (database v))"
      using query_db [OF g(1) [unfolded store_GetKernelByPath_def]] g(2) by (auto dest!: sym [of "Some krn"] find_SomeD)
    then show "sound v1 (store_BackfillVMKernelID (krn_ID krn) (krn_Path krn))" using d by (intro sound_Backfill) auto
  next
    fix v1 :: world
    show "sound v1 (bindE (RegisterKernel req ''system'') (\<lambda>krn. store_BackfillVMKernelID (krn_ID krn) (krn_Path krn)))"
      by (rule sound_bind [OF sound_evolves [OF evolves_RegisterKernel]], rule sound_Backfill) (auto dest: RegisterKernel_stored)
  qed
  show "sound w EnsureDefaultKernel" for w
    unfolding EnsureDefaultKernel_def
  proof (rule sound_read [OF ro_config], rule sound_if, rule sound_ro [OF ro_return], rule sound_read [OF ro_stat])
    fix path st and v :: world
    show "sound v (case st of Missing _ \<Rightarrow> returnE () | StatFailed m \<Rightarrow> throwE (PlainError m)
        | Found _ \<Rightarrow> bindE (store_GetKernelByPath path) (\<lambda>existing. case existing of
            Some krn \<Rightarrow> store_BackfillVMKernelID (krn_ID krn) (krn_Path krn)
          | None \<Rightarrow> bindE (RegisterKernel \<lparr>rk_Name = ''default-kernel-5-10'', rk_Version = inferKernelVersion path, rk_Path = path,
                       rk_ConfigPath = '''', rk_Status = ''active'', rk_BootArgs = defaultKernelBootArgs,
                       rk_SourceType = ''configured'', rk_Provenance = ''configured paths.kernel_image'',
                       rk_TrustExisting = True\<rparr> ''system'') (\<lambda>krn. store_BackfillVMKernelID (krn_ID krn) (krn_Path krn))))"
      using ensure by (cases st) (simp_all add: sound_ro [OF ro_return] sound_throw)
  qed
qed

end
