(* ===== verification/SshAccess.thy ===== *)
theory SshAccess
  imports Lifecycle GoEncoding
begin

text \<open>
  Ssh access to guests (\<open>internal/lifecycle/service.go\<close>): the short-lived keys that the metadata server
  hands to a guest (\<open>AuthorizedKeys\<close>), ssh clients with their cleanup, the migration of VMs with a key
  file of their own, and the relays of a terminal. The ssh library is the effect \<open>Ssh\<close>; a signer is
  known by its public key.
\<close>

section \<open>Short-lived keys\<close>

definition AuthorizedKeys :: "vm \<Rightarrow> string \<Rightarrow> string io" where
  "AuthorizedKeys vm usr =
     (if usr \<noteq> '''' \<and> usr \<noteq> vm_DevUser vm then returnE ''''
      else bindE
        (if vm_SSHKeyID vm \<noteq> '''' then
           bindE (store_GetSSHKey (vm_SSHKeyID vm)) (\<lambda>found. case found of
               None \<Rightarrow> returnE []
             | Some key \<Rightarrow> returnE [key_PublicKey key])
         else if vm_ManagedSSHPublicKey vm \<noteq> '''' then returnE [vm_ManagedSSHPublicKey vm]
         else returnE []) (\<lambda>keys1.
         let extra = TrimSpace (vm_ExtraAuthorizedKeys vm);
             keys2 = (if extra \<noteq> '''' then keys1 @ [extra] else keys1)
         in bindE Now (\<lambda>now.
            bindE (getsW terminalKeys) (\<lambda>all.
              let filtered = filter (\<lambda>k. now < tk_ExpiresAt k) all;
                  mine = filter (\<lambda>k. tk_VMID k = vm_ID vm \<and> tk_User k = vm_DevUser vm) filtered
              in seqE (modifyW (\<lambda>w. w\<lparr>terminalKeys := filtered\<rparr>))
                   (returnE (TrimSpace (join NL (keys2 @ map tk_PublicKey mine)) @ NL))))))"

definition Minute :: duration where "Minute = 60 * Second"

definition newEphemeralTerminalSigner :: "vm \<Rightarrow> string io" where
  "newEphemeralTerminalSigner vm =
     bindE (perform (Ssh ''GenerateKey'' [])) (\<lambda>marshaled.
     bindE Now (\<lambda>now.
       let publicKey = TrimSpace marshaled
       in seqE (modifyW (\<lambda>w. w\<lparr>terminalKeys := terminalKeys w @
              [\<lparr>tk_VMID = vm_ID vm, tk_User = vm_DevUser vm, tk_PublicKey = publicKey, tk_ExpiresAt = now + 2 * Minute\<rparr>]\<rparr>))
            (returnE publicKey)))"

text \<open>The cleanup function that \<open>newEphemeralTerminalSigner\<close> returns with the signer.\<close>

definition dropTerminalKey :: "vm \<Rightarrow> string \<Rightarrow> unit io" where
  "dropTerminalKey vm publicKey =
     modifyW (\<lambda>w. w\<lparr>terminalKeys := filter (\<lambda>k. \<not> (tk_VMID k = vm_ID vm \<and> tk_User k = vm_DevUser vm \<and> tk_PublicKey k = publicKey))
       (terminalKeys w)\<rparr>)"

section \<open>Clients\<close>

definition sshDial :: "vm \<Rightarrow> string \<Rightarrow> duration \<Rightarrow> unit io" where
  "sshDial vm key timeout = do_effect (Ssh ''Dial'' [vm_DevUser vm, vm_GuestIP vm @ '':22'', key, Itoa timeout])"

definition legacySSHClient :: "vm \<Rightarrow> unit io" where
  "legacySSHClient vm =
     bindE (readFile (vm_ManagedSSHPrivateKeyPath vm)) (\<lambda>key.
     seqE (do_effect (Ssh ''ParsePrivateKey'' [key])) (sshDial vm key (10 * Second)))"

text \<open>
  \<open>sshClientForVM\<close> gives its error as a value, because the caller defers the cleanup (here the key it
  drops; \<open>None\<close> for a cleanup that does nothing) before it looks at the error.
\<close>

definition sshClientForVM :: "vm \<Rightarrow> (err option \<times> string option) io" where
  "sshClientForVM vm =
     bindE (tryE (newEphemeralTerminalSigner vm)) (\<lambda>signer. case signer of
         Inl e \<Rightarrow> returnE (Some e, None)
       | Inr key \<Rightarrow>
           bindE (errorOf (sshDial vm key (10 * Second))) (\<lambda>err.
             if err \<noteq> None \<and> vm_ManagedSSHPrivateKeyPath vm \<noteq> '''' then
               seqE (dropTerminalKey vm key)
                 (bindE (errorOf (legacySSHClient vm)) (\<lambda>legacy. returnE (legacy, None)))
             else returnE (err, Some key)))"

definition with_cleanup :: "vm \<Rightarrow> string option \<Rightarrow> 'a io \<Rightarrow> 'a io" where
  "with_cleanup vm key m = (case key of None \<Rightarrow> m | Some k \<Rightarrow> deferE (dropTerminalKey vm k) m)"

text \<open>\<open>defer client.Close()\<close> and \<open>defer session.Close()\<close> around a session.\<close>

definition with_session :: "'a io \<Rightarrow> 'a io" where
  "with_session m =
     deferE (ignoreE (do_effect (Ssh ''CloseClient'' [])))
       (seqE (do_effect (Ssh ''NewSession'' []))
         (deferE (ignoreE (do_effect (Ssh ''CloseSession'' []))) m))"

definition verifyEphemeralSSH :: "vm \<Rightarrow> unit io" where
  "verifyEphemeralSSH vm =
     bindE (newEphemeralTerminalSigner vm) (\<lambda>key.
       deferE (dropTerminalKey vm key)
         (seqE (sshDial vm key (8 * Second)) (with_session (do_effect (Ssh ''Run'' [''true''])))))"

section \<open>Migration\<close>

definition helper_script :: "vm \<Rightarrow> int \<Rightarrow> string" where
  "helper_script vm metadataPort =
     (let put = (\<lambda>content target. ''printf %s '' @ Quote (base64Encode content) @ '' | base64 -d | sudo tee '' @ target @ '' >/dev/null'')
      in lines_text
       [''set -euo pipefail'',
        ''sudo install -d -m 0755 /etc/bap-web /usr/local/sbin /etc/ssh/sshd_config.d'',
        put (vm_env vm metadataPort) ''/etc/bap-web/vm.env'',
        put authorizedKeysScript ''/usr/local/sbin/bap-web-authorized-keys'',
        put authorizedKeysDropIn ''/etc/ssh/sshd_config.d/90-bap-web-authorized-keys.conf'',
        ''sudo chmod 0644 /etc/bap-web/vm.env /etc/ssh/sshd_config.d/90-bap-web-authorized-keys.conf'',
        ''sudo chmod 0755 /usr/local/sbin/bap-web-authorized-keys'',
        ''sudo grep -q '' @ SQ @ ''^Include /etc/ssh/sshd_config.d/'' @ [CHR 0x5C] @ ''*.conf'' @ SQ @
          '' /etc/ssh/sshd_config || printf '' @ SQ @ [CHR 0x5C] @ ''nInclude /etc/ssh/sshd_config.d/*.conf'' @ [CHR 0x5C] @ ''n'' @ SQ @
          '' | sudo tee -a /etc/ssh/sshd_config >/dev/null'',
        ''sudo systemctl reload sshd || sudo systemctl restart sshd''])"

definition installRunningSSHHelper :: "vm \<Rightarrow> unit io" where
  "installRunningSSHHelper vm =
     seqE (legacySSHClient vm)
       (with_session
         (bindE (config_get (\<lambda>c. MetadataPort (Server c))) (\<lambda>port.
          bindE (ask (Ssh ''CombinedOutput'' [''bash -s'', helper_script vm port])) (\<lambda>r. case r of
              Fail m out \<Rightarrow> throwE (PlainError (''install authorized keys helper: '' @ m @ '': '' @ out))
            | _ \<Rightarrow> returnE ()))))"

text \<open>\<open>continue\<close> in the loop: the error only ends the work on this VM.\<close>

definition remove_key_files :: "vm \<Rightarrow> unit io" where
  "remove_key_files vm =
     seqE (ignoreE (removeFile (vm_ManagedSSHPrivateKeyPath vm)))
    (seqE (ignoreE (removeFile (vm_ManagedSSHPrivateKeyPath vm @ ''.pub'')))
          (ignoreE (store_UpdateVM (vm\<lparr>vm_ManagedSSHPrivateKeyPath := ''''\<rparr>))))"

definition migrate_running :: "vm \<Rightarrow> unit io" where
  "migrate_running vm =
     (if vm_ManagedSSHPrivateKeyPath vm = '''' then returnE ()
      else bindE (stat (vm_ManagedSSHPrivateKeyPath vm)) (\<lambda>s. case s of
          Found _ \<Rightarrow> ignoreE
            (seqE (installRunningSSHHelper vm)
            (bindE (ask (Sleep (500 * Millisecond))) (\<lambda>_.
             seqE (verifyEphemeralSSH vm) (remove_key_files vm))))
        | _ \<Rightarrow> returnE ()))"

definition migrate_stopped :: "vm \<Rightarrow> unit io" where
  "migrate_stopped vm =
     (if vm_State vm = VMStopped \<or> vm_State vm = VMError then
        (if vm_ManagedSSHPrivateKeyPath vm = '''' then returnE ()
         else ignoreE (bindE (prepareRootFS vm) remove_key_files))
      else returnE ())"

definition migrate_vm :: "vm \<Rightarrow> unit io" where
  "migrate_vm vm0 =
     bindE (if vm_SSHKeyID vm0 \<noteq> '''' \<and> vm_ManagedSSHPublicKey vm0 = '''' then
              bindE (store_GetSSHKey (vm_SSHKeyID vm0)) (\<lambda>found. case found of
                  None \<Rightarrow> returnE vm0
                | Some key \<Rightarrow>
                    seqE (ignoreE (store_UpdateVM (vm0\<lparr>vm_ManagedSSHPublicKey := key_PublicKey key\<rparr>)))
                      (returnE (vm0\<lparr>vm_ManagedSSHPublicKey := key_PublicKey key\<rparr>)))
            else returnE vm0) (\<lambda>vm1.
       if vm_RootFSPath vm1 = '''' then returnE ()
       else bindE (if vm_ManagedSSHPrivateKeyPath vm1 \<noteq> '''' then
                     bindE (stat (vm_ManagedSSHPrivateKeyPath vm1)) (\<lambda>s. case s of
                         Missing _ \<Rightarrow>
                           seqE (ignoreE (store_UpdateVM (vm1\<lparr>vm_ManagedSSHPrivateKeyPath := ''''\<rparr>)))
                             (returnE (vm1\<lparr>vm_ManagedSSHPrivateKeyPath := ''''\<rparr>))
                       | _ \<Rightarrow> returnE vm1)
                   else returnE vm1) (\<lambda>vm2.
            bindE (if vm_State vm2 = VMRunning then processRunning vm2 else returnE False) (\<lambda>up.
              if up then migrate_running vm2 else migrate_stopped vm2)))"

definition MigrateSSHAccess :: "unit io" where
  "MigrateSSHAccess = bindE store_ListVMs (\<lambda>machines. forE machines migrate_vm)"


section \<open>The database is only changed by the migration\<close>

lemma ro_newSigner [ro]: "ro_io (newEphemeralTerminalSigner vm)"
  unfolding newEphemeralTerminalSigner_def Let_def by (intro ro) (simp add: ro_io_def modifyW_def)
lemma ro_dropKey [ro]: "ro_io (dropTerminalKey vm k)"
  by (simp add: ro_io_def dropTerminalKey_def modifyW_def)
lemma ro_sshDial [ro]: "ro_io (sshDial vm k t)" unfolding sshDial_def by (intro ro)
lemma ro_legacySSHClient [ro]: "ro_io (legacySSHClient vm)" unfolding legacySSHClient_def by (intro ro)
lemma ro_sshClientForVM [ro]: "ro_io (sshClientForVM vm)" unfolding sshClientForVM_def by (intro ro)
lemma ro_with_cleanup [ro]: "ro_io m \<Longrightarrow> ro_io (with_cleanup vm k m)" unfolding with_cleanup_def by (intro ro)
lemma ro_with_session [ro]: "ro_io m \<Longrightarrow> ro_io (with_session m)" unfolding with_session_def by (intro ro)
lemma ro_verifySSH [ro]: "ro_io (verifyEphemeralSSH vm)" unfolding verifyEphemeralSSH_def by (intro ro)
lemma ro_installHelper [ro]: "ro_io (installRunningSSHHelper vm)" unfolding installRunningSSHHelper_def by (intro ro)
lemma ro_AuthorizedKeys [ro]: "ro_io (AuthorizedKeys vm u)"
  unfolding AuthorizedKeys_def Let_def store_GetSSHKey_def by (intro ro) (simp add: ro_io_def modifyW_def)


section \<open>Short-lived keys are dropped again\<close>

lemma blind_keys [simp]: "blind terminalKeys e"
  by (simp add: blind_def)

text \<open>A key the host generates is new: it is not among those in use.\<close>

definition fresh_keys :: "host \<Rightarrow> terminal_key list \<Rightarrow> bool" where
  "fresh_keys h ks \<longleftrightarrow> (\<forall>t r. answer h t (Ssh ''GenerateKey'' []) = r \<longrightarrow>
     (case r of Ok m \<Rightarrow> TrimSpace m \<notin> tk_PublicKey ` set ks
      | Response c s m \<Rightarrow> TrimSpace m \<notin> tk_PublicKey ` set ks | Fail _ _ \<Rightarrow> True))"

definition with_key :: "vm \<Rightarrow> string \<Rightarrow> time \<Rightarrow> terminal_key list \<Rightarrow> terminal_key list" where
  "with_key vm k t ks = ks @ [\<lparr>tk_VMID = vm_ID vm, tk_User = vm_DevUser vm, tk_PublicKey = k, tk_ExpiresAt = t\<rparr>]"

lemma filter_with_key:
  "k \<notin> tk_PublicKey ` set ks \<Longrightarrow>
    filter (\<lambda>x. \<not> (tk_VMID x = vm_ID vm \<and> tk_User x = vm_DevUser vm \<and> tk_PublicKey x = k)) (with_key vm k t ks) = ks"
  by (auto simp: with_key_def filter_id_conv)

lemma newSigner_keys:
  assumes "newEphemeralTerminalSigner vm w = (r, w')" "fresh_keys (host_of w) (terminalKeys w)"
  shows "case r of Inl _ \<Rightarrow> terminalKeys w' = terminalKeys w
    | Inr k \<Rightarrow> k \<notin> tk_PublicKey ` set (terminalKeys w) \<and> (\<exists>t. terminalKeys w' = with_key vm k t (terminalKeys w))"
proof -
  have "stable terminalKeys (perform (Ssh ''GenerateKey'' []))" by (intro stable) simp
  note k = stableD [OF this]
  show ?thesis
  proof (cases r)
    case (Inl e)
    then have "perform (Ssh ''GenerateKey'' []) w = (Inl e, w')"
      using assms(1) by (auto simp: newEphemeralTerminalSigner_def io_run Let_def Now_def modifyW_def)
    then show ?thesis using k Inl by auto
  next
    case (Inr key)
    obtain m w1 where m: "perform (Ssh ''GenerateKey'' []) w = (Inr m, w1)" and key: "key = TrimSpace m"
      and w': "terminalKeys w' = with_key vm key (clock (host_of w1) (trail w1) + 2 * Minute) (terminalKeys w1)"
      using assms(1) Inr by (auto simp: newEphemeralTerminalSigner_def io_run Let_def Now_def modifyW_def with_key_def)
    have "key \<notin> tk_PublicKey ` set (terminalKeys w)"
      using m assms(2) unfolding key
      by (auto simp: perform_def io_run fresh_keys_def split: reply.splits dest!: spec [of _ "trail w"])
    then show ?thesis using k [OF m] w' Inr by auto
  qed
qed

lemma dropTerminalKey_keys:
  "terminalKeys (snd (dropTerminalKey vm k w)) =
     filter (\<lambda>x. \<not> (tk_VMID x = vm_ID vm \<and> tk_User x = vm_DevUser vm \<and> tk_PublicKey x = k)) (terminalKeys w)"
  by (simp add: dropTerminalKey_def modifyW_def)

lemma stable_sshDial [stable]: "stable terminalKeys (sshDial vm k t)" unfolding sshDial_def by (intro stable) simp
lemma stable_legacy [stable]: "stable terminalKeys (legacySSHClient vm)"
  unfolding legacySSHClient_def readFile_def by (intro stable) simp_all
lemma stable_errorOf [stable]: "stable f m \<Longrightarrow> stable f (errorOf m)" unfolding errorOf_def by (intro stable)
lemma stable_with_session [stable]: "stable terminalKeys m \<Longrightarrow> stable terminalKeys (with_session m)"
  unfolding with_session_def by (intro stable) simp_all

lemma sshClientForVM_keys:
  assumes "sshClientForVM vm w = (Inr (err, key), w')" "fresh_keys (host_of w) (terminalKeys w)"
  shows "case key of None \<Rightarrow> terminalKeys w' = terminalKeys w
    | Some k \<Rightarrow> k \<notin> tk_PublicKey ` set (terminalKeys w) \<and> (\<exists>t. terminalKeys w' = with_key vm k t (terminalKeys w))"
proof -
  obtain signer w1 where s: "newEphemeralTerminalSigner vm w = (signer, w1)" by fastforce
  note keys = newSigner_keys [OF s assms(2)]
  show ?thesis
  proof (cases signer)
    case (Inl e)
    then have "key = None" "w' = w1" using assms(1) s by (auto simp: sshClientForVM_def io_run)
    then show ?thesis using keys Inl by simp
  next
    case (Inr k)
    obtain derr w2 where d: "errorOf (sshDial vm k (10 * Second)) w1 = (Inr derr, w2)"
      and rest: "(if derr \<noteq> None \<and> vm_ManagedSSHPrivateKeyPath vm \<noteq> '''' then
               seqE (dropTerminalKey vm k)
                 (bindE (errorOf (legacySSHClient vm)) (\<lambda>legacy. returnE (legacy, None)))
             else returnE (derr, Some k)) w2 = (Inr (err, key), w')"
      using assms(1) s Inr by (auto simp: sshClientForVM_def bindE_def tryE_def split: prod.splits sum.splits)
    have "stable terminalKeys (errorOf (sshDial vm k (10 * Second)))" by (intro stable)
    from stableD [OF this d] have w2: "terminalKeys w2 = terminalKeys w1" .
    show ?thesis
    proof (cases "derr \<noteq> None \<and> vm_ManagedSSHPrivateKeyPath vm \<noteq> ''''")
      case True
      obtain w3 where w3: "dropTerminalKey vm k w2 = (Inr (), w3)" by (simp add: dropTerminalKey_def modifyW_def)
      then obtain legacy where l: "errorOf (legacySSHClient vm) w3 = (Inr legacy, w')" "key = None"
        using rest True by (auto simp: io_run)
      have "stable terminalKeys (errorOf (legacySSHClient vm))" by (intro stable)
      from stableD [OF this l(1)] have "terminalKeys w' = terminalKeys w3" .
      also have "\<dots> = terminalKeys w"
        using dropTerminalKey_keys [of vm k w2] keys Inr w2 w3 filter_with_key by auto
      finally show ?thesis using l(2) by simp
    next
      case False
      then have "key = Some k" "w' = w2" using rest by (auto simp: returnE_def)
      then show ?thesis using keys Inr w2 by simp
    qed
  qed
qed

lemma with_cleanup_keys:
  assumes k: "sshClientForVM vm w = (Inr (err, key), w1)" "fresh_keys (host_of w) (terminalKeys w)"
    and m: "stable terminalKeys m" and r: "with_cleanup vm key m w1 = (r, w')"
  shows "terminalKeys w' = terminalKeys w"
proof (cases key)
  case None
  then show ?thesis using sshClientForVM_keys [OF k] stableD [OF m] r by (simp add: with_cleanup_def)
next
  case (Some pub)
  then obtain v where v: "m w1 = (r, v)" "w' = snd (dropTerminalKey vm pub v)"
    using r by (auto simp: with_cleanup_def deferE_run)
  then show ?thesis
    using sshClientForVM_keys [OF k] stableD [OF m v(1)] Some filter_with_key by (auto simp: dropTerminalKey_keys)
qed

end
