(* ===== verification/ExecJobs.thy ===== *)
theory ExecJobs
  imports SshAccess
begin

text \<open>
  Commands in guests (\<open>internal/lifecycle/service.go\<close>): \<open>ExecuteVMCommand\<close>, and exec jobs, which a
  goroutine runs (\<open>runVMExecJob\<close>) while a request may cancel them (\<open>CancelVMExecJob\<close>). The goroutine and
  the request are written as their atomic parts, each one access to the shared state (database, cancel
  table, log); the Go functions are the parts in sequence, and \<open>exec_race\<close> is every interleaving of the
  two. A context is the id of the exec job it belongs to, empty for a request's.
\<close>

section \<open>Contexts\<close>

definition ctx_io :: "string \<Rightarrow> 'a io \<Rightarrow> 'a io" where
  "ctx_io ctx m = (\<lambda>w. if ctx \<in> set (canceledCtx w) then (Inl (PlainError ''context canceled''), w) else m w)"

section \<open>One command\<close>

record exec_result =
  xr_Stdout :: string
  xr_Stderr :: string
  xr_ExitCode :: int
  xr_StartedAt :: time
  xr_FinishedAt :: time
  xr_TimedOut :: bool
  xr_Truncated :: bool

definition sessionRun :: "string \<Rightarrow> int \<Rightarrow> ssh_outcome io" where
  "sessionRun command timeoutSeconds =
     (\<lambda>w. (Inr (ssh_run (host_of w) (trail w) command), w\<lparr>trail := Ssh ''Run'' [command, Itoa timeoutSeconds] # trail w\<rparr>))"

definition executeVMCommand :: "vm \<Rightarrow> exec_request \<Rightarrow> exec_result io" where
  "executeVMCommand vm req =
     bindE Now (\<lambda>started.
     bindE (sshClientForVM vm) (\<lambda>(err, key).
       with_cleanup vm key
         (case err of
            Some e \<Rightarrow> throwE e
          | None \<Rightarrow> with_session
              (seqE (whenE (req_PTY req) (ignoreE (do_effect (Ssh ''RequestPty'' [''xterm-256color'', ''40'', ''120'']))))
              (seqE (whenE (req_Stdin req \<noteq> '''')
                       (seqE (do_effect (Ssh ''StdinPipe'' [])) (ignoreE (do_effect (Go ''stdin'' [req_Stdin req])))))
              (bindE (sessionRun (buildRemoteExecCommand req) (req_TimeoutSeconds req)) (\<lambda>o1.
               seqE (whenE (run_cut o1)
                       (seqE (ignoreE (do_effect (Ssh ''Signal'' [''KILL'']))) (ignoreE (do_effect (Ssh ''CloseSession'' [])))))
              (bindE Now (\<lambda>finished.
                 let stdout = lb_writes (run_stdout o1) (new_buffer maxVMExecOutputBytes);
                     stderr = lb_writes (run_stderr o1) (new_buffer maxVMExecOutputBytes)
                 in returnE \<lparr>xr_Stdout = lb_buf stdout, xr_Stderr = lb_buf stderr,
                      xr_ExitCode = exitCode (run_result o1) (run_cut o1), xr_StartedAt = started, xr_FinishedAt = finished,
                      xr_TimedOut = run_cut o1, xr_Truncated = lb_truncated stdout \<or> lb_truncated stderr\<rparr>))))))))) "

definition require_running :: "vm \<Rightarrow> unit io" where
  "require_running vm =
     failIf (vm_State vm \<noteq> VMRunning)
       (Unprocessable ''VM must be running to execute commands'' [(''state'', vm_state_text (vm_State vm))])"

definition ExecuteVMCommand :: "string \<Rightarrow> string \<Rightarrow> exec_request \<Rightarrow> exec_result io" where
  "ExecuteVMCommand ctx vmID req0 =
     bindE (liftE (normalizeVMExecRequest req0)) (\<lambda>req.
     bindE (ctx_io ctx (require_vm vmID)) (\<lambda>vm.
     seqE (require_running vm) (executeVMCommand vm req)))"

section \<open>Starting a job\<close>

definition env_json :: "exec_request \<Rightarrow> string" where
  "env_json req = (if req_EnvNil req then ''null'' else json_string_map (req_Env req))"

definition StartVMExecJob :: "string \<Rightarrow> exec_request \<Rightarrow> string \<Rightarrow> vm_exec_job io" where
  "StartVMExecJob vmID req0 actor =
     bindE (liftE (normalizeVMExecRequest req0)) (\<lambda>req.
     bindE (require_vm vmID) (\<lambda>vm.
     seqE (require_running vm)
    (bindE Now (\<lambda>now.
     bindE (Hex 8) (\<lambda>jid.
     bindE (config_get (\<lambda>c. LogDir (Paths c))) (\<lambda>logDir.
     bindE (Hex 8) (\<lambda>suffix.
       let job = \<lparr>exe_ID = jid, exe_VMID = vm_ID vm, exe_Status = ''queued'', exe_Command = req_Command req, exe_CWD = req_CWD req,
             exe_EnvJSON = env_json req, exe_PTY = req_PTY req, exe_TimeoutSeconds = req_TimeoutSeconds req,
             exe_Stdout = '''', exe_Stderr = '''', exe_ExitCode = -1, exe_TimedOut = False, exe_Truncated = False,
             exe_LogPath = Join [logDir, ''vm-exec-'' @ suffix @ ''.log''], exe_Error = '''', exe_CreatedBy = actor,
             exe_CreatedAt = now, exe_StartedAt = None, exe_CompletedAt = None\<rparr>
       in seqE (store_CreateVMExecJob job)
         (seqE (ignoreE (do_effect (Go ''runVMExecJob'' [jid, vm_ID vm]))) (returnE job)))))))))"

section \<open>Running a job\<close>

definition bool_text :: "bool \<Rightarrow> string" where
  "bool_text b = (if b then ''true'' else ''false'')"

definition exec_log :: "vm_exec_job \<Rightarrow> string" where
  "exec_log job =
     lines_text
       [''job='' @ exe_ID job, ''vm='' @ exe_VMID job, ''status='' @ exe_Status job, ''exit_code='' @ Itoa (exe_ExitCode job),
        ''timed_out='' @ bool_text (exe_TimedOut job), ''truncated='' @ bool_text (exe_Truncated job), ''command='' @ exe_Command job,
        '''', ''[stdout]'', exe_Stdout job, '''', ''[stderr]'', exe_Stderr job] @
     (if exe_Error job \<noteq> '''' then lines_text ['''', ''[error]'', exe_Error job] else '''')"

definition writeVMExecJobLog :: "vm_exec_job \<Rightarrow> unit io" where
  "writeVMExecJobLog job =
     (if exe_LogPath job = '''' then returnE ()
      else ignoreE
        (seqE (mkdirAll (Dir (exe_LogPath job)) ''0700'')
        (seqE (os_call ''OpenFile'' [exe_LogPath job, ''O_CREATE|O_WRONLY|O_TRUNC'', ''0600''])
        (deferE (ignoreE (os_call ''Close'' [exe_LogPath job]))
          (os_call ''Write'' [exe_LogPath job, exec_log job])))))"

text \<open>The parts of the goroutine. Its context is new when it registers itself.\<close>

definition exec_register :: "string \<Rightarrow> unit io" where
  "exec_register jobID =
     modifyW (\<lambda>w. w\<lparr>execCancels := jobID # filter (\<lambda>j. j \<noteq> jobID) (execCancels w),
       canceledCtx := filter (\<lambda>j. j \<noteq> jobID) (canceledCtx w)\<rparr>)"

definition exec_unregister :: "string \<Rightarrow> unit io" where
  "exec_unregister jobID =
     modifyW (\<lambda>w. w\<lparr>canceledCtx := jobID # canceledCtx w, execCancels := filter (\<lambda>j. j \<noteq> jobID) (execCancels w)\<rparr>)"

text \<open>\<open>None\<close>: there is no job to run.\<close>

definition exec_load :: "string \<Rightarrow> string \<Rightarrow> vm_exec_job option io" where
  "exec_load jobID vmID =
     bindE (tryE (ctx_io jobID (store_GetVMExecJob vmID jobID))) (\<lambda>r. case r of
         Inr (Some job) \<Rightarrow>
           if exe_Status job = ''canceled'' then seqE (writeVMExecJobLog job) (returnE None) else returnE (Some job)
       | _ \<Rightarrow> returnE None)"

definition exec_mark :: "string \<Rightarrow> vm_exec_job \<Rightarrow> vm_exec_job io" where
  "exec_mark jobID job =
     bindE Now (\<lambda>started.
       let job' = job\<lparr>exe_Status := ''running'', exe_StartedAt := Some started\<rparr>
       in seqE (ignoreE (ctx_io jobID (store_UpdateVMExecJob job'))) (returnE job'))"

definition exec_recheck :: "string \<Rightarrow> string \<Rightarrow> bool io" where
  "exec_recheck jobID vmID =
     bindE (tryE (store_GetVMExecJob vmID jobID)) (\<lambda>r. case r of
         Inr (Some latest) \<Rightarrow>
           if exe_Status latest = ''canceled'' then seqE (writeVMExecJobLog latest) (returnE True) else returnE False
       | _ \<Rightarrow> returnE False)"

definition exec_outcome :: "vm_exec_job \<Rightarrow> time \<Rightarrow> err + exec_result \<Rightarrow> vm_exec_job" where
  "exec_outcome job completed result =
     (case result of
        Inl e \<Rightarrow> job\<lparr>exe_CompletedAt := Some completed, exe_Status := ''failed'', exe_Error := err_text e\<rparr>
      | Inr r \<Rightarrow>
          let job' = job\<lparr>exe_Stdout := xr_Stdout r, exe_Stderr := xr_Stderr r, exe_ExitCode := xr_ExitCode r,
                exe_TimedOut := xr_TimedOut r, exe_Truncated := xr_Truncated r, exe_CompletedAt := Some completed\<rparr>
          in if xr_TimedOut r then job'\<lparr>exe_Status := ''failed'', exe_Error := ''command timed out''\<rparr>
             else if xr_ExitCode r \<noteq> 0
             then job'\<lparr>exe_Status := ''failed'', exe_Error := ''command exited with status '' @ Itoa (xr_ExitCode r)\<rparr>
             else job'\<lparr>exe_Status := ''succeeded'', exe_Error := ''''\<rparr>)"

definition exec_complete :: "vm_exec_job \<Rightarrow> unit io" where
  "exec_complete job = seqE (ignoreE (store_UpdateVMExecJob job)) (writeVMExecJobLog job)"

definition runVMExecJob :: "string \<Rightarrow> string \<Rightarrow> exec_request \<Rightarrow> unit io" where
  "runVMExecJob jobID vmID req =
     seqE (exec_register jobID) (deferE (exec_unregister jobID)
       (bindE (exec_load jobID vmID) (\<lambda>found. case found of
            None \<Rightarrow> returnE ()
          | Some job0 \<Rightarrow>
              bindE (exec_mark jobID job0) (\<lambda>job.
              bindE (tryE (ExecuteVMCommand jobID vmID req)) (\<lambda>result.
              bindE Now (\<lambda>completed.
              bindE (exec_recheck jobID vmID) (\<lambda>canceled.
                if canceled then returnE () else exec_complete (exec_outcome job completed result))))))))"

section \<open>Cancelling a job\<close>

definition final_status :: "string \<Rightarrow> bool" where
  "final_status s = (s \<in> {''succeeded'', ''failed'', ''canceled''})"

definition cancel_read :: "string \<Rightarrow> string \<Rightarrow> vm_exec_job io" where
  "cancel_read vmID jobID =
     bindE (store_GetVMExecJob vmID jobID) (\<lambda>found. case found of
         None \<Rightarrow> throwE (NotFound ''exec job not found'') | Some job \<Rightarrow> returnE job)"

definition cancel_signal :: "string \<Rightarrow> unit io" where
  "cancel_signal jobID =
     modifyW (\<lambda>w. if jobID \<in> set (execCancels w) then w\<lparr>canceledCtx := jobID # canceledCtx w\<rparr> else w)"

definition cancel_write :: "vm_exec_job \<Rightarrow> vm_exec_job io" where
  "cancel_write job =
     bindE Now (\<lambda>now.
       let job' = job\<lparr>exe_Status := ''canceled'', exe_Error := ''canceled'', exe_CompletedAt := Some now\<rparr>
       in seqE (store_UpdateVMExecJob job') (returnE job'))"

definition CancelVMExecJob :: "string \<Rightarrow> string \<Rightarrow> vm_exec_job io" where
  "CancelVMExecJob vmID jobID =
     bindE (cancel_read vmID jobID) (\<lambda>job.
       if final_status (exe_Status job) then returnE job
       else seqE (cancel_signal jobID) (cancel_write job))"


section \<open>What leaves the database alone\<close>

lemma ro_ctx [ro]: "ro_io m \<Longrightarrow> ro_io (ctx_io ctx m)"
  by (simp add: ro_io_def ctx_io_def)
lemma ro_sessionRun [ro]: "ro_io (sessionRun c t)"
  by (simp add: ro_io_def sessionRun_def)
lemma ro_executeVMCommand [ro]: "ro_io (executeVMCommand vm req)"
  unfolding executeVMCommand_def Let_def by (intro ro)
lemma ro_ExecuteVMCommand [ro]: "ro_io (ExecuteVMCommand ctx vmID req)"
  unfolding ExecuteVMCommand_def require_running_def by (intro ro)
lemma ro_writeVMExecJobLog [ro]: "ro_io (writeVMExecJobLog job)"
  unfolding writeVMExecJobLog_def by (intro ro)
lemma ro_exec_register [ro]: "ro_io (exec_register j)" by (simp add: ro_io_def exec_register_def modifyW_def)
lemma ro_exec_unregister [ro]: "ro_io (exec_unregister j)" by (simp add: ro_io_def exec_unregister_def modifyW_def)
lemma ro_exec_load [ro]: "ro_io (exec_load j v)"
  unfolding exec_load_def store_GetVMExecJob_def by (intro ro)
lemma ro_exec_recheck [ro]: "ro_io (exec_recheck j v)"
  unfolding exec_recheck_def store_GetVMExecJob_def by (intro ro)
lemma ro_cancel_signal [ro]: "ro_io (cancel_signal j)" by (simp add: ro_io_def cancel_signal_def modifyW_def)


section \<open>A command leaves no key behind\<close>

lemma stable_sessionRun [stable]: "stable terminalKeys (sessionRun c t)"
  by (simp add: stable_def sessionRun_def)

text \<open>
  C26: whatever the outcome of a command, error exits included, the short-lived key made for it is gone
  when it returns and every other key is still there.
\<close>

theorem executeVMCommand_keys:
  assumes "executeVMCommand vm req w = (r, w')" "fresh_keys (host_of w) (terminalKeys w)"
  shows "terminalKeys w' = terminalKeys w"
proof -
  obtain t w0 where now: "Now w = (Inr t, w0)" "terminalKeys w0 = terminalKeys w" "host_of w0 = host_of w"
    by (simp add: Now_def)
  obtain c w1 where client: "sshClientForVM vm w0 = (c, w1)" by fastforce
  have "\<exists>err key. c = Inr (err, key)"
    using client by (auto simp: sshClientForVM_def bindE_def tryE_def seqE_def errorOf_def returnE_def dropTerminalKey_def
        modifyW_def split: prod.splits sum.splits if_splits)
  then obtain err key where c: "c = Inr (err, key)" by blast
  let ?m = "case err of
            Some e \<Rightarrow> throwE e
          | None \<Rightarrow> with_session
              (seqE (whenE (req_PTY req) (ignoreE (do_effect (Ssh ''RequestPty'' [''xterm-256color'', ''40'', ''120'']))))
              (seqE (whenE (req_Stdin req \<noteq> '''')
                       (seqE (do_effect (Ssh ''StdinPipe'' [])) (ignoreE (do_effect (Go ''stdin'' [req_Stdin req])))))
              (bindE (sessionRun (buildRemoteExecCommand req) (req_TimeoutSeconds req)) (\<lambda>o1.
               seqE (whenE (run_cut o1)
                       (seqE (ignoreE (do_effect (Ssh ''Signal'' [''KILL'']))) (ignoreE (do_effect (Ssh ''CloseSession'' [])))))
              (bindE Now (\<lambda>finished.
                 returnE \<lparr>xr_Stdout = lb_buf (lb_writes (run_stdout o1) (new_buffer maxVMExecOutputBytes)),
                      xr_Stderr = lb_buf (lb_writes (run_stderr o1) (new_buffer maxVMExecOutputBytes)),
                      xr_ExitCode = exitCode (run_result o1) (run_cut o1), xr_StartedAt = t, xr_FinishedAt = finished,
                      xr_TimedOut = run_cut o1,
                      xr_Truncated = lb_truncated (lb_writes (run_stdout o1) (new_buffer maxVMExecOutputBytes))
                         \<or> lb_truncated (lb_writes (run_stderr o1) (new_buffer maxVMExecOutputBytes))\<rparr>))))))"
  have "with_cleanup vm key ?m w1 = (r, w')"
    using assms(1) now(1) client unfolding executeVMCommand_def Let_def c by (simp add: bindE_def [of Now] bindE_def [of "sshClientForVM vm"])
  moreover have "stable terminalKeys ?m" by (intro stable) simp_all
  ultimately show ?thesis
    using with_cleanup_keys [of vm w0 err key w1 ?m r w'] client assms(2) now unfolding c by simp
qed

end
