(* ===== verification/Service.thy ===== *)
theory Service
  imports Catalogue ExecJobs
begin

text \<open>
  The service as a whole: a call is one exported method of \<open>internal/lifecycle\<close> that may write, or one
  of the goroutines it starts, and \<open>serve\<close> answers a list of calls, one after the other, whatever each returns. Since every method
  evolves by the steps of \<open>Evolution\<close>, each invariant of the steps holds after any calls.
\<close>

section \<open>Exec jobs and the migration\<close>

lemma sound_try: "sound w m \<Longrightarrow> sound w (tryE m)"
  by (auto simp: sound_def tryE_def split: prod.splits)

lemma sound_ignore: "sound w m \<Longrightarrow> sound w (ignoreE m)"
  unfolding ignoreE_def by (intro sound_bind sound_try sound_ro [OF ro_return])

lemma sound_defer: "ro_io d \<Longrightarrow> sound w m \<Longrightarrow> sound w (deferE d m)"
  by (auto simp: sound_def deferE_def ro_io_def split: prod.splits)

lemma sound_ctx: "sound w m \<Longrightarrow> sound w (ctx_io ctx m)"
  by (simp add: sound_def ctx_io_def)

text \<open>The rows with a job's id belong to the VM that the job says.\<close>

definition own_rows :: "vm_exec_job \<Rightarrow> db \<Rightarrow> bool" where
  "own_rows job d \<longleftrightarrow> (\<forall>r \<in> set (vm_exec_jobs d). exe_ID r = exe_ID job \<longrightarrow> exe_VMID r = exe_VMID job)"

lemma sound_UpdateVMExecJob:
  assumes "own_rows job (database w)"
  shows "sound w (store_UpdateVMExecJob job)"
  unfolding store_UpdateVMExecJob_def
proof (rule sound_insert)
  fix rows assume g: "good (database w)"
    and u: "tbl_update vm_exec_jobs_uniq (\<lambda>j. exe_ID j = exe_ID job) (\<lambda>_. job) (vm_exec_jobs (database w)) = Inr rows"
  have rows: "rows = map (\<lambda>j. if exe_ID j = exe_ID job then job else j) (vm_exec_jobs (database w))" using u by (rule tbl_update_Inr)
  have "exe_VMID (if exe_ID j = exe_ID job then job else j) = exe_VMID j" if "j \<in> set (vm_exec_jobs (database w))" for j
    using assms that by (auto simp: own_rows_def)
  then have "exe_VMID ` set rows \<subseteq> exe_VMID ` set (vm_exec_jobs (database w))"
    unfolding rows set_map image_image by (intro image_subsetI) (metis imageI)
  then show "db_step (database w) ((database w)\<lparr>vm_exec_jobs := rows\<rparr>)"
    by (intro jobs_changed tbl_update_uniq [OF u]) (use g in \<open>auto simp: good_def db_ok_def\<close>)
qed

lemma UpdateVMExecJob_own:
  assumes "store_UpdateVMExecJob job w = (r, w')" "own_rows job (database w)"
  shows "own_rows job (database w')"
  using exec_db [OF assms(1) [unfolded store_UpdateVMExecJob_def]] assms(2)
  by (auto simp: own_rows_def put_Inr split: sum.splits dest!: tbl_update_Inr)

lemma own_rows_cong: "exe_ID a = exe_ID b \<Longrightarrow> exe_VMID a = exe_VMID b \<Longrightarrow> own_rows a d = own_rows b d"
  by (simp add: own_rows_def)

lemma loaded_own: "good d \<Longrightarrow> job \<in> set (vm_exec_jobs d) \<Longrightarrow> own_rows job d"
  using vm_exec_jobs_tbl.same_key by (fastforce simp: own_rows_def good_def db_ok_def)

text \<open>A goroutine whose job row is there writes it back twice at most.\<close>

lemma exec_load_run:
  "exec_load j v w = (Inr (Some job), w') \<Longrightarrow> job \<in> set (vm_exec_jobs (database w))"
  by (auto simp: exec_load_def ctx_io_def store_GetVMExecJob_def io_run split: if_splits sum.splits option.splits
      dest!: sym [of "Some job"] find_SomeD)

lemma exec_mark_run:
  assumes "exec_mark j job w = (Inr job', w')" "own_rows job (database w)"
  shows "own_rows job' (database w')"
proof -
  obtain t w1 where n: "Now w = (Inr t, w1)" by (simp add: Now_def)
  then have w1: "database w1 = database w" using ro_db [OF ro_Now] by blast
  let ?j = "job\<lparr>exe_Status := ''running'', exe_StartedAt := Some t\<rparr>"
  obtain r where r: "job' = ?j" "w' = w1 \<or> store_UpdateVMExecJob ?j w1 = (r, w')"
    using assms(1) n by (auto simp: exec_mark_def ctx_io_def io_run ignoreE_def Let_def split: if_splits)
  have "own_rows ?j (database w1)" using assms(2) w1 own_rows_cong [of ?j job] by simp
  then show ?thesis using r UpdateVMExecJob_own [of ?j w1 r w'] by auto
qed

lemma evolves_runVMExecJob: "evolves (runVMExecJob j v req)"
proof (rule evolves_sound)
  show "sound w (runVMExecJob j v req)" for w
    unfolding runVMExecJob_def
  proof (rule sound_check [OF ro_exec_register], rule sound_defer [OF ro_exec_unregister], rule sound_read [OF ro_exec_load],
      rule sound_option, rule sound_ro [OF ro_return])
    fix w1 w2 :: world and found job0
    assume l: "exec_load j v w1 = (Inr found, w2)" "found = Some job0" "database w2 = database w1"
    show "sound w2 (bindE (exec_mark j job0) (\<lambda>job.
              bindE (tryE (ExecuteVMCommand j v req)) (\<lambda>result.
              bindE Now (\<lambda>completed.
              bindE (exec_recheck j v) (\<lambda>canceled.
                if canceled then returnE () else exec_complete (exec_outcome job completed result))))))"
    proof (rule sound_good)
      assume g: "good (database w2)"
      have own: "own_rows job0 (database w2)"
        using loaded_own [OF g] exec_load_run l by auto
      have mark: "sound w2 (exec_mark j job0)"
        unfolding exec_mark_def Let_def
      proof (rule sound_read [OF ro_Now], rule sound_seq [OF sound_ignore [OF sound_ctx] sound_ro [OF ro_return]])
        fix t and w3 :: world assume "database w3 = database w2"
        then show "sound w3 (store_UpdateVMExecJob (job0\<lparr>exe_Status := ''running'', exe_StartedAt := Some t\<rparr>))"
          using own by (intro sound_UpdateVMExecJob) (simp add: own_rows_def)
      qed
      show "sound w2 (bindE (exec_mark j job0) (\<lambda>job.
              bindE (tryE (ExecuteVMCommand j v req)) (\<lambda>result.
              bindE Now (\<lambda>completed.
              bindE (exec_recheck j v) (\<lambda>canceled.
                if canceled then returnE () else exec_complete (exec_outcome job completed result))))))"
      proof (rule sound_bind [OF mark], rule sound_read [OF ro_try [OF ro_ExecuteVMCommand]], rule sound_read [OF ro_Now],
          rule sound_read [OF ro_exec_recheck], rule sound_if, rule sound_ro [OF ro_return])
        fix job result completed canceled and w3 w4 w5 w6 :: world
        assume m: "exec_mark j job0 w2 = (Inr job, w3)"
          and d: "database w4 = database w3" "database w5 = database w4" "database w6 = database w5"
        have "own_rows job (database w3)" using exec_mark_run [OF m own] .
        then have "own_rows (exec_outcome job completed result) (database w6)"
          using d by (auto simp: own_rows_def exec_outcome_def Let_def split: sum.splits)
        then show "sound w6 (exec_complete (exec_outcome job completed result))"
          unfolding exec_complete_def
          by (intro sound_seq sound_ignore sound_UpdateVMExecJob sound_ro [OF ro_writeVMExecJobLog])
      qed
    qed
  qed
qed

lemma evolves_StartVMExecJob: "evolves (StartVMExecJob vid req actor)"
proof (rule evolves_sound)
  have running: "ro_io (require_running vm)" for vm unfolding require_running_def by (intro ro)
  show "sound w (StartVMExecJob vid req actor)" for w
    unfolding StartVMExecJob_def Let_def
  proof (rule sound_read [OF ro_lift], rule sound_read [OF ro_require_vm], rule sound_check [OF running], rule sound_read [OF ro_Now],
      rule sound_read [OF ro_Hex], rule sound_read [OF ro_config], rule sound_read [OF ro_Hex], rule sound_seq)
    fix req1 vm now jid dir suffix and w1 w2 w3 w4 w5 w6 w7 :: world
    assume v: "require_vm vid w1 = (Inr vm, w2)"
      and d: "database w2 = database w1" "database w3 = database w2" "database w4 = database w3" "database w5 = database w4"
        "database w6 = database w5" "database w7 = database w6"
    let ?job = "\<lparr>exe_ID = jid, exe_VMID = vm_ID vm, exe_Status = ''queued'', exe_Command = req_Command req1, exe_CWD = req_CWD req1,
             exe_EnvJSON = env_json req1, exe_PTY = req_PTY req1, exe_TimeoutSeconds = req_TimeoutSeconds req1,
             exe_Stdout = '''', exe_Stderr = '''', exe_ExitCode = -1, exe_TimedOut = False, exe_Truncated = False,
             exe_LogPath = Join [dir, ''vm-exec-'' @ suffix @ ''.log''], exe_Error = '''', exe_CreatedBy = actor,
             exe_CreatedAt = now, exe_StartedAt = None, exe_CompletedAt = None\<rparr>"
    have vm: "vm_ID vm \<in> vm_ID ` set (vms (database w7))" using require_vm_reads [OF v] d by auto
    show "sound w7 (store_CreateVMExecJob ?job)"
      unfolding store_CreateVMExecJob_def
    proof (rule sound_insert)
      fix rows assume g: "good (database w7)" and i: "tbl_insert vm_exec_jobs_uniq ?job (vm_exec_jobs (database w7)) = Inr rows"
      show "db_step (database w7) ((database w7)\<lparr>vm_exec_jobs := rows\<rparr>)"
        by (rule jobs_changed [OF tbl_insert_uniq [OF i]]) (use g vm tbl_insert_Inr [OF i] in \<open>auto simp: good_def db_ok_def\<close>)
    qed
    show "sound w8 (seqE (ignoreE (do_effect (Go ''runVMExecJob'' [jid, vm_ID vm]))) (returnE ?job))" for w8
      by (intro sound_ro ro)
  qed
qed

lemma evolves_CancelVMExecJob: "evolves (CancelVMExecJob vid jid)"
proof (rule evolves_sound)
  have read: "ro_io (cancel_read vid jid)" unfolding cancel_read_def store_GetVMExecJob_def by (intro ro)
  show "sound w (CancelVMExecJob vid jid)" for w
    unfolding CancelVMExecJob_def
  proof (rule sound_good, rule sound_read [OF read], rule sound_if, rule sound_ro [OF ro_return], rule sound_check [OF ro_cancel_signal])
    fix job and w1 w2 w3 :: world
    assume g: "good (database w)" and r: "cancel_read vid jid w = (Inr job, w1)"
      and d: "database w1 = database w" "database w2 = database w1"
    have "job \<in> set (vm_exec_jobs (database w))"
      using r by (auto simp: cancel_read_def store_GetVMExecJob_def io_run dest!: sym [of "Some job"] find_SomeD)
    then have own: "own_rows job (database w2)" using loaded_own g d by simp
    show "sound w2 (cancel_write job)"
      unfolding cancel_write_def Let_def
    proof (rule sound_read [OF ro_Now], rule sound_seq [OF _ sound_ro [OF ro_return]])
      fix t and w4 :: world assume "database w4 = database w2"
      then show "sound w4 (store_UpdateVMExecJob (job\<lparr>exe_Status := ''canceled'', exe_Error := ''canceled'', exe_CompletedAt := Some t\<rparr>))"
        using own by (intro sound_UpdateVMExecJob) (simp add: own_rows_def)
    qed
  qed
qed

text \<open>The migration writes each row back from the list it read at the start.\<close>

lemma kept_for: "(\<And>x. x \<in> set xs \<Longrightarrow> kept d0 S (f x)) \<Longrightarrow> kept d0 S (forE xs f)"
  by (induction xs) (auto intro!: kept_seq kept_ro [OF ro_return])

lemma kept_stat_reply:
  "(\<And>x. kept d0 S (f x)) \<Longrightarrow> (\<And>x. kept d0 S (g x)) \<Longrightarrow> (\<And>x. kept d0 S (h x)) \<Longrightarrow>
     kept d0 S (case r of Found x \<Rightarrow> f x | Missing x \<Rightarrow> g x | StatFailed x \<Rightarrow> h x)"
  by (cases r) simp_all

lemma stat_reply_run:
  "(case s of Found x \<Rightarrow> f x | Missing x \<Rightarrow> g x | StatFailed x \<Rightarrow> h x) w = r \<longleftrightarrow>
     (\<exists>x. s = Found x \<and> f x w = r) \<or> (\<exists>x. s = Missing x \<and> g x w = r) \<or> (\<exists>x. s = StatFailed x \<and> h x w = r)"
  by (cases s) simp_all

text \<open>What comes after a computation may rely on a fact about its result.\<close>

lemma kept_bind_fact:
  "kept d0 S m \<Longrightarrow> (\<And>w x w'. m w = (Inr x, w') \<Longrightarrow> A x) \<Longrightarrow> (\<And>x. A x \<Longrightarrow> kept d0 S (f x)) \<Longrightarrow> kept d0 S (bindE m f)"
  unfolding kept_def by (rule triple_bind_fact [where J = "tracked d0 S" and A = A]) auto

lemma kept_remove_key_files: "v \<in> S \<Longrightarrow> same_vm v vm \<Longrightarrow> kept d0 S (remove_key_files vm)"
  unfolding remove_key_files_def by (auto intro!: kept_rules kept_UpdateVM [of v] intro: kept_ro ro)

lemma kept_migrate_running: "v \<in> S \<Longrightarrow> same_vm v vm \<Longrightarrow> kept d0 S (migrate_running vm)"
  unfolding migrate_running_def
  by (auto intro!: kept_rules kept_stat_reply kept_remove_key_files [of v] intro: kept_ro ro)

lemma kept_migrate_stopped: "v \<in> S \<Longrightarrow> same_vm v vm \<Longrightarrow> kept d0 S (migrate_stopped vm)"
  unfolding migrate_stopped_def
  by (intro kept_if kept_ignore kept_bind_fact [where A = "same_vm v"] kept_ro [OF ro_return] kept_ro [OF ro_prepareRootFS]
      kept_remove_key_files [of v]) (auto dest!: prepareRootFS_vm)

lemma kept_migrate_vm:
  assumes v: "v \<in> S"
  shows "kept d0 S (migrate_vm v)"
  unfolding migrate_vm_def
proof (rule kept_bind_fact [where A = "same_vm v"])
  have key: "ro_io (store_GetSSHKey k)" for k unfolding store_GetSSHKey_def by (intro ro)
  show "kept d0 S (if vm_SSHKeyID v \<noteq> '''' \<and> vm_ManagedSSHPublicKey v = '''' then
              bindE (store_GetSSHKey (vm_SSHKeyID v)) (\<lambda>found. case found of
                  None \<Rightarrow> returnE v
                | Some key \<Rightarrow>
                    seqE (ignoreE (store_UpdateVM (v\<lparr>vm_ManagedSSHPublicKey := key_PublicKey key\<rparr>)))
                      (returnE (v\<lparr>vm_ManagedSSHPublicKey := key_PublicKey key\<rparr>)))
            else returnE v)"
    using v by (auto intro!: kept_rules kept_UpdateVM [of v] kept_ro [OF key] kept_ro [OF ro_return])
  show "same_vm v x" if "(if vm_SSHKeyID v \<noteq> '''' \<and> vm_ManagedSSHPublicKey v = '''' then
              bindE (store_GetSSHKey (vm_SSHKeyID v)) (\<lambda>found. case found of
                  None \<Rightarrow> returnE v
                | Some key \<Rightarrow>
                    seqE (ignoreE (store_UpdateVM (v\<lparr>vm_ManagedSSHPublicKey := key_PublicKey key\<rparr>)))
                      (returnE (v\<lparr>vm_ManagedSSHPublicKey := key_PublicKey key\<rparr>)))
            else returnE v) w = (Inr x, w')" for w x w'
    using that by (auto simp: io_run split: if_splits)
  fix vm1 assume 1: "same_vm v vm1"
  show "kept d0 S (if vm_RootFSPath vm1 = '''' then returnE ()
       else bindE (if vm_ManagedSSHPrivateKeyPath vm1 \<noteq> '''' then
                     bindE (stat (vm_ManagedSSHPrivateKeyPath vm1)) (\<lambda>s. case s of
                         Missing _ \<Rightarrow>
                           seqE (ignoreE (store_UpdateVM (vm1\<lparr>vm_ManagedSSHPrivateKeyPath := ''''\<rparr>)))
                             (returnE (vm1\<lparr>vm_ManagedSSHPrivateKeyPath := ''''\<rparr>))
                       | _ \<Rightarrow> returnE vm1)
                   else returnE vm1) (\<lambda>vm2.
            bindE (if vm_State vm2 = VMRunning then processRunning vm2 else returnE False) (\<lambda>up.
              if up then migrate_running vm2 else migrate_stopped vm2)))"
  proof (intro kept_if kept_bind_fact [where A = "same_vm v"] kept_ro [OF ro_return])
    show "kept d0 S (bindE (stat (vm_ManagedSSHPrivateKeyPath vm1)) (\<lambda>s. case s of
                         Missing _ \<Rightarrow>
                           seqE (ignoreE (store_UpdateVM (vm1\<lparr>vm_ManagedSSHPrivateKeyPath := ''''\<rparr>)))
                             (returnE (vm1\<lparr>vm_ManagedSSHPrivateKeyPath := ''''\<rparr>))
                       | _ \<Rightarrow> returnE vm1))"
      using v 1 by (auto intro!: kept_rules kept_stat_reply kept_UpdateVM [of v] kept_ro [OF ro_stat] kept_ro [OF ro_return])
    show "same_vm v x" if "(if vm_ManagedSSHPrivateKeyPath vm1 \<noteq> '''' then
                     bindE (stat (vm_ManagedSSHPrivateKeyPath vm1)) (\<lambda>s. case s of
                         Missing _ \<Rightarrow>
                           seqE (ignoreE (store_UpdateVM (vm1\<lparr>vm_ManagedSSHPrivateKeyPath := ''''\<rparr>)))
                             (returnE (vm1\<lparr>vm_ManagedSSHPrivateKeyPath := ''''\<rparr>))
                       | _ \<Rightarrow> returnE vm1)
                   else returnE vm1) w = (Inr x, w')" for w x w'
      using that 1 by (auto simp: io_run stat_reply_run split: if_splits)
    fix vm2 assume 2: "same_vm v vm2"
    show "kept d0 S (bindE (if vm_State vm2 = VMRunning then processRunning vm2 else returnE False) (\<lambda>up.
              if up then migrate_running vm2 else migrate_stopped vm2))"
      using v 2 by (auto intro!: kept_rules kept_migrate_running [of v] kept_migrate_stopped [of v] intro: kept_ro ro)
  qed
qed

lemma kept_MigrateSSHAccess: "kept d0 S MigrateSSHAccess"
  unfolding MigrateSSHAccess_def by (intro kept_ListVMs kept_for kept_migrate_vm) simp

lemmas evolves_MigrateSSHAccess = kept_evolves [OF kept_MigrateSSHAccess]

section \<open>Calls\<close>

datatype call =
    CallCreateVM create_request
  | CallStartVM string
  | CallStopVM string
  | CallDeleteVM string
  | CallRestartVM string int int
  | CallUpdateResources string int int bool
  | CallCreateNetwork string string string
  | CallDeleteNetwork string
  | CallCreateEgressPolicy string string string string string
  | CallDeleteEgressPolicy string
  | CallSetVMEgressPolicy string string string
  | CallAddIngressRule string string int int string
  | CallDeleteIngressRule string string
  | CallReconcile
  | CallCleanupHostOrphans
  | CallMigrateSSHAccess
  | CallExecuteVMCommand string string exec_request
  | CallStartVMExecJob string exec_request string
  | CallRunVMExecJob string string exec_request
  | CallCancelVMExecJob string string
  | CallEnsureDefaultBaseImage
  | CallRegisterBaseImage register_image string
  | CallUpdateBaseImageStatus string string
  | CallDeleteBaseImage string
  | CallCreateImageHook hook_request string
  | CallDeleteImageHook string
  | CallStartImageBuild build_request string
  | CallRunImageBuild string "string list" "image_hook list"
  | CallEnsureDefaultKernel
  | CallRegisterKernel register_kernel string
  | CallUploadKernel upload_kernel string
  | CallImportKernel xml_decoder import_kernel string
  | CallUpdateKernel string kernel_update
  | CallDeleteKernel string
  | CallStartKernelDiscovery string string
  | CallRunKernelDiscovery xml_decoder nat string
  | CallStartKernelTest string string
  | CallRunKernelTest string

fun perform_call :: "call \<Rightarrow> unit io" where
  "perform_call (CallCreateVM req) = seqE (CreateVM req) (returnE ())"
| "perform_call (CallStartVM vid) = StartVM vid"
| "perform_call (CallStopVM vid) = StopVM vid"
| "perform_call (CallDeleteVM vid) = DeleteVM vid"
| "perform_call (CallRestartVM vid c m) = seqE (RestartVM vid c m) (returnE ())"
| "perform_call (CallUpdateResources vid c m r) = seqE (UpdateResources vid c m r) (returnE ())"
| "perform_call (CallCreateNetwork name cidr gw) = seqE (CreateNetwork name cidr gw) (returnE ())"
| "perform_call (CallDeleteNetwork nid) = DeleteNetwork nid"
| "perform_call (CallCreateEgressPolicy name mode tcp udp cidrs) = seqE (CreateEgressPolicy name mode tcp udp cidrs) (returnE ())"
| "perform_call (CallDeleteEgressPolicy pid) = DeleteEgressPolicy pid"
| "perform_call (CallSetVMEgressPolicy vid mode pid) = seqE (SetVMEgressPolicy vid mode pid) (returnE ())"
| "perform_call (CallAddIngressRule vid proto hp gp descr) = seqE (AddIngressRule vid proto hp gp descr) (returnE ())"
| "perform_call (CallDeleteIngressRule vid rid) = DeleteIngressRule vid rid"
| "perform_call CallReconcile = Reconcile"
| "perform_call CallCleanupHostOrphans = seqE CleanupHostOrphans (returnE ())"
| "perform_call CallMigrateSSHAccess = MigrateSSHAccess"
| "perform_call (CallExecuteVMCommand ctx vid req) = seqE (ExecuteVMCommand ctx vid req) (returnE ())"
| "perform_call (CallStartVMExecJob vid req actor) = seqE (StartVMExecJob vid req actor) (returnE ())"
| "perform_call (CallRunVMExecJob jid vid req) = runVMExecJob jid vid req"
| "perform_call (CallCancelVMExecJob vid jid) = seqE (CancelVMExecJob vid jid) (returnE ())"
| "perform_call CallEnsureDefaultBaseImage = EnsureDefaultBaseImage"
| "perform_call (CallRegisterBaseImage reg actor) = seqE (RegisterBaseImage reg actor) (returnE ())"
| "perform_call (CallUpdateBaseImageStatus iid st) = seqE (UpdateBaseImageStatus iid st) (returnE ())"
| "perform_call (CallDeleteBaseImage iid) = DeleteBaseImage iid"
| "perform_call (CallCreateImageHook hook actor) = seqE (CreateImageHook hook actor) (returnE ())"
| "perform_call (CallDeleteImageHook hid) = DeleteImageHook hid"
| "perform_call (CallStartImageBuild build actor) = seqE (StartImageBuild build actor) (returnE ())"
| "perform_call (CallRunImageBuild jid packages hooks) = runImageBuild jid packages hooks"
| "perform_call CallEnsureDefaultKernel = EnsureDefaultKernel"
| "perform_call (CallRegisterKernel krn actor) = seqE (RegisterKernel krn actor) (returnE ())"
| "perform_call (CallUploadKernel upload actor) = seqE (UploadKernel upload actor) (returnE ())"
| "perform_call (CallImportKernel xml imp actor) = seqE (ImportFirecrackerCIKernel xml imp actor) (returnE ())"
| "perform_call (CallUpdateKernel kid upd) = seqE (UpdateKernel kid upd) (returnE ())"
| "perform_call (CallDeleteKernel kid) = DeleteKernel kid"
| "perform_call (CallStartKernelDiscovery prefix actor) = seqE (StartKernelDiscovery prefix actor) (returnE ())"
| "perform_call (CallRunKernelDiscovery xml rounds jid) = runKernelDiscovery xml rounds jid"
| "perform_call (CallStartKernelTest kid actor) = seqE (StartKernelTest kid actor) (returnE ())"
| "perform_call (CallRunKernelTest jid) = runKernelTest jid"

definition serve :: "call list \<Rightarrow> world \<Rightarrow> world" where
  "serve calls w = fold (\<lambda>c w. snd (perform_call c w)) calls w"

lemma evolves_done: "evolves m \<Longrightarrow> evolves (seqE m (returnE ()))"
  by (auto intro!: evolves_sound sound_seq intro: sound_evolves sound_ro ro)

lemma ro_HostOrphans [ro]: "ro_io HostOrphans"
  unfolding HostOrphans_def Let_def store_ListVMs_def store_ListNetworks_def by (intro ro)

lemma ro_CleanupHostOrphans: "ro_io CleanupHostOrphans"
  unfolding CleanupHostOrphans_def Let_def
  by (intro ro) (auto simp: list_all_iff intro: ro)

lemma evolves_call: "evolves (perform_call c)"
  by (cases c) (simp_all add: evolves_done evolves_CreateVM evolves_StartVM evolves_StopVM evolves_DeleteVM evolves_RestartVM
      evolves_UpdateResources evolves_CreateNetwork evolves_DeleteNetwork evolves_CreateEgressPolicy evolves_DeleteEgressPolicy
      evolves_SetVMEgressPolicy evolves_AddIngressRule evolves_DeleteIngressRule evolves_Reconcile
      evolves_ro [OF ro_CleanupHostOrphans] evolves_ro [OF ro_ExecuteVMCommand] evolves_MigrateSSHAccess evolves_StartVMExecJob
      evolves_runVMExecJob evolves_CancelVMExecJob evolves_EnsureDefaultBaseImage evolves_RegisterBaseImage
      evolves_UpdateBaseImageStatus evolves_DeleteBaseImage evolves_CreateImageHook evolves_DeleteImageHook
      evolves_StartImageBuild evolves_runImageBuild evolves_EnsureDefaultKernel evolves_RegisterKernel evolves_UploadKernel
      evolves_ImportKernel evolves_UpdateKernel evolves_DeleteKernel evolves_StartKernelDiscovery
      evolves_runKernelDiscovery evolves_StartKernelTest evolves_runKernelTest)

lemma serve_steps: "good (database w) \<Longrightarrow> db_steps (database w) (database (serve calls w))"
proof (induction calls arbitrary: w)
  case (Cons c calls)
  have s: "db_steps (database w) (database (snd (perform_call c w)))"
    using evolves_call Cons.prems by (simp add: evolves_def)
  show ?case
    using db_steps_trans [OF s Cons.IH [OF good_steps [OF s Cons.prems]]] by (simp add: serve_def)
qed (simp add: serve_def)

end
