(* ===== verification/Terminal.thy ===== *)
theory Terminal
  imports SshAccess
begin

text \<open>
  The terminal of a VM (\<open>SSHTerminal\<close> and its relays in \<open>internal/lifecycle/service.go\<close>): the size that is
  accepted, what a websocket message means, and the three loops that copy data. A loop is a function of
  the results of its blocking calls, in order; \<open>None\<close> as its report means that it sent no result.
\<close>

record terminal_size =
  ts_Rows :: int
  ts_Cols :: int

record control_message =
  ctl_Type :: string
  ctl_Rows :: int
  ctl_Cols :: int

definition normalizeTerminalSize :: "terminal_size \<Rightarrow> terminal_size" where
  "normalizeTerminalSize size0 =
     (let size1 = (if ts_Rows size0 < 8 \<or> 200 < ts_Rows size0 then size0\<lparr>ts_Rows := 40\<rparr> else size0)
      in if ts_Cols size1 < 20 \<or> 400 < ts_Cols size1 then size1\<lparr>ts_Cols := 120\<rparr> else size1)"

text \<open>The argument is the result of \<open>json.Unmarshal\<close> into the control message.\<close>

definition parseTerminalResizeMessage :: "control_message option \<Rightarrow> terminal_size option" where
  "parseTerminalResizeMessage decoded =
     (case decoded of
        None \<Rightarrow> None
      | Some ctrl \<Rightarrow>
          if ctl_Type ctrl \<noteq> ''resize'' then None
          else Some (normalizeTerminalSize \<lparr>ts_Rows = ctl_Rows ctrl, ts_Cols = ctl_Cols ctrl\<rparr>))"

section \<open>From the browser to the guest\<close>

datatype ws_message = TextMessage string "control_message option" | BinaryMessage string
datatype guest_input = WindowChange terminal_size | GuestWrite string

fun ws_data :: "ws_message \<Rightarrow> string" where
  "ws_data (TextMessage msg ctrl) = msg"
| "ws_data (BinaryMessage msg) = msg"

definition guest_input_of :: "ws_message \<Rightarrow> guest_input" where
  "guest_input_of m =
     (case m of
        TextMessage msg ctrl \<Rightarrow> (case parseTerminalResizeMessage ctrl of Some sz \<Rightarrow> WindowChange sz | None \<Rightarrow> GuestWrite msg)
      | BinaryMessage msg \<Rightarrow> GuestWrite msg)"

text \<open>
  Each round is the result of \<open>ReadMessage\<close> and the error of the write or window change that it leads to.
  The function gives the inputs tried, in order, and the error reported.
\<close>

fun wsToWriter :: "((err + ws_message) \<times> err option) list \<Rightarrow> guest_input list \<times> err option" where
  "wsToWriter [] = ([], None)"
| "wsToWriter ((Inl e, _) # rounds) = ([], Some e)"
| "wsToWriter ((Inr m, Some e) # rounds) = ([guest_input_of m], Some e)"
| "wsToWriter ((Inr m, None) # rounds) = (case wsToWriter rounds of (ins, rep) \<Rightarrow> (guest_input_of m # ins, rep))"

section \<open>From the guest to the browser\<close>

datatype read_error = EOF | ReadError err

text \<open>Each round is what \<open>Read\<close> put into the buffer and its error.\<close>

fun readerToTerminalOutput :: "(string \<times> read_error option) list \<Rightarrow> string list \<times> err option" where
  "readerToTerminalOutput [] = ([], None)"
| "readerToTerminalOutput ((bytes, e) # rounds) =
     (let sent = (if bytes = '''' then [] else [bytes])
      in case e of
           Some EOF \<Rightarrow> (sent, None)
         | Some (ReadError err) \<Rightarrow> (sent, Some err)
         | None \<Rightarrow> (case readerToTerminalOutput rounds of (out, rep) \<Rightarrow> (sent @ out, rep)))"

text \<open>
  The chunks received before the channel is closed, each with the error of its write; the inner option of
  the report is the error, \<open>None\<close> when the channel was closed.
\<close>

fun terminalOutputToWS :: "(string \<times> err option) list \<Rightarrow> string list \<times> err option option" where
  "terminalOutputToWS [] = ([], Some None)"
| "terminalOutputToWS ((msg, Some e) # chunks) = ([msg], Some (Some e))"
| "terminalOutputToWS ((msg, None) # chunks) = (case terminalOutputToWS chunks of (out, rep) \<Rightarrow> (msg # out, rep))"

lemma normalizeTerminalSize_bounds:
  "8 \<le> ts_Rows (normalizeTerminalSize s) \<and> ts_Rows (normalizeTerminalSize s) \<le> 200
   \<and> 20 \<le> ts_Cols (normalizeTerminalSize s) \<and> ts_Cols (normalizeTerminalSize s) \<le> 400"
  by (auto simp: normalizeTerminalSize_def Let_def)

lemma relay_bytes: "snd (readerToTerminalOutput rounds) = None \<Longrightarrow> list_all (\<lambda>(b, e). e = None) (butlast rounds) \<Longrightarrow>
    concat (fst (readerToTerminalOutput rounds)) = concat (map fst rounds)"
proof (induction rounds rule: readerToTerminalOutput.induct)
  case (2 bytes e rounds)
  then show ?case
    by (cases rounds) (auto simp: Let_def split: option.splits read_error.splits prod.splits if_splits)
qed simp

lemma terminal_output_order:
  "list_all (\<lambda>c. snd c = None) chunks \<Longrightarrow> terminalOutputToWS chunks = (map fst chunks, Some None)"
  by (induction chunks rule: terminalOutputToWS.induct) simp_all



section \<open>A terminal session\<close>

text \<open>
  The relays run until the request's context ends or one of them reports; which comes first, and with what
  error, is the answer of the host to the \<open>select\<close>.
\<close>

definition SSHTerminal :: "vm \<Rightarrow> terminal_size \<Rightarrow> unit io" where
  "SSHTerminal vm size0 =
     (let sz = normalizeTerminalSize size0
      in bindE (sshClientForVM vm) (\<lambda>(err, key).
        with_cleanup vm key
          (case err of
             Some e \<Rightarrow> throwE e
           | None \<Rightarrow> with_session
               (seqE (ignoreE (do_effect (Ssh ''StdinPipe'' [])))
               (seqE (ignoreE (do_effect (Ssh ''StdoutPipe'' [])))
               (seqE (ignoreE (do_effect (Ssh ''StderrPipe'' [])))
               (seqE (ignoreE (do_effect (Ssh ''RequestPty'' [''xterm-256color'', Itoa (ts_Rows sz), Itoa (ts_Cols sz)])))
               (seqE (do_effect (Ssh ''Shell'' []))
                 (deferE (ignoreE (do_effect (Go ''close done'' [])))
                   (seqE (ignoreE (do_effect (Go ''relays'' []))) (do_effect (Go ''select'' []))))))))))))"

lemma SSHTerminal_keys:
  assumes "SSHTerminal vm sz w = (r, w')" "fresh_keys (host_of w) (terminalKeys w)"
  shows "terminalKeys w' = terminalKeys w"
proof -
  obtain c w1 where client: "sshClientForVM vm w = (c, w1)" by fastforce
  have "\<exists>err key. c = Inr (err, key)"
    using client by (auto simp: sshClientForVM_def bindE_def tryE_def seqE_def errorOf_def returnE_def dropTerminalKey_def
        modifyW_def split: prod.splits sum.splits if_splits)
  then obtain err key where c: "c = Inr (err, key)" by blast
  let ?size = "normalizeTerminalSize sz"
  let ?m = "case err of
             Some e \<Rightarrow> throwE e
           | None \<Rightarrow> with_session
               (seqE (ignoreE (do_effect (Ssh ''StdinPipe'' [])))
               (seqE (ignoreE (do_effect (Ssh ''StdoutPipe'' [])))
               (seqE (ignoreE (do_effect (Ssh ''StderrPipe'' [])))
               (seqE (ignoreE (do_effect (Ssh ''RequestPty'' [''xterm-256color'', Itoa (ts_Rows ?size), Itoa (ts_Cols ?size)])))
               (seqE (do_effect (Ssh ''Shell'' []))
                 (deferE (ignoreE (do_effect (Go ''close done'' [])))
                   (seqE (ignoreE (do_effect (Go ''relays'' []))) (do_effect (Go ''select'' [])))))))))"
  have "with_cleanup vm key ?m w1 = (r, w')"
    using assms(1) client unfolding SSHTerminal_def Let_def c by (simp add: bindE_def)
  moreover have "stable terminalKeys ?m" by (intro stable) simp_all
  ultimately show ?thesis
    using with_cleanup_keys [of vm w err key w1 ?m r w'] client assms(2) unfolding c by simp
qed

end
