(* ===== verification/GoHttp.thy ===== *)
theory GoHttp
  imports GoTime GoUrl
begin

text \<open>
  Pieces of the standard library that the web application uses: \<open>net.SplitHostPort\<close>, \<open>fmt.Sscanf\<close> with one
  \<open>%d\<close>, \<open>strings.Cut\<close> at a space and \<open>time.Parse\<close> with \<open>time.RFC3339\<close>.
\<close>

section \<open>Addresses\<close>

definition last_index :: "char \<Rightarrow> string \<Rightarrow> nat option" where
  "last_index c s = (case cut_last s c of None \<Rightarrow> None | Some (front, back) \<Rightarrow> Some (length front))"

text \<open>\<open>net.SplitHostPort\<close>; the error's text is never read.\<close>

definition SplitHostPort :: "string \<Rightarrow> (string \<times> string) option" where
  "SplitHostPort hp =
     (case last_index (CHR '':'') hp of
        None \<Rightarrow> None
      | Some i \<Rightarrow>
          let port = drop (Suc i) hp
          in if HasPrefix hp ''['' then
               (case index_of hp '']'' of
                  None \<Rightarrow> None
                | Some e \<Rightarrow>
                    if Suc e \<noteq> i \<or> CHR ''['' \<in> set (drop 1 hp) \<or> CHR '']'' \<in> set (drop (Suc e) hp) then None
                    else Some (drop 1 (take e hp), port))
             else let host = take i hp
               in if CHR '':'' \<in> set host \<or> CHR ''['' \<in> set hp \<or> CHR '']'' \<in> set hp then None else Some (host, port))"

section \<open>Numbers\<close>

text \<open>\<open>fmt.Sscanf(s, "%d", &v)\<close> into an \<open>int\<close>: a sign and digits; what follows them is not read.\<close>

definition Sscanf_d :: "string \<Rightarrow> int option" where
  "Sscanf_d s =
     (let neg = HasPrefix s ''-''; rest = (if neg \<or> HasPrefix s ''+'' then tl s else s); ds = takeWhile is_digit rest;
          v = (if neg then - int (read_digits ds) else int (read_digits ds))
      in if ds = [] \<or> v < - (2 ^ 63) \<or> 2 ^ 63 \<le> v then None else Some v)"

section \<open>Times\<close>

text \<open>Two digits, and the value in a range.\<close>

definition two :: "string \<Rightarrow> int \<Rightarrow> int \<Rightarrow> (int \<times> string) option" where
  "two s lo hi =
     (case s of a # b # rest \<Rightarrow>
          if is_digit a \<and> is_digit b \<and> lo \<le> int (read_digits [a, b]) \<and> int (read_digits [a, b]) \<le> hi
          then Some (int (read_digits [a, b]), rest) else None
      | _ \<Rightarrow> None)"

text \<open>The hour may have one digit.\<close>

definition hour_of :: "string \<Rightarrow> (int \<times> string) option" where
  "hour_of s =
     (case s of
        a # rest \<Rightarrow>
          if \<not> is_digit a then None
          else (case rest of
              b # rest' \<Rightarrow> if is_digit b then two s 0 23 else Some (int (digit_val a), rest)
            | [] \<Rightarrow> Some (int (digit_val a), rest))
      | [] \<Rightarrow> None)"

definition expect :: "string \<Rightarrow> string \<Rightarrow> string option" where
  "expect p s = (if HasPrefix s p then Some (drop (length p) s) else None)"

text \<open>The nanoseconds of a fraction; digits after the ninth are dropped.\<close>

definition fraction :: "string \<Rightarrow> int \<times> string" where
  "fraction s =
     (case s of
        c # d # rest \<Rightarrow>
          if (c = CHR ''.'' \<or> c = CHR '','') \<and> is_digit d
          then let ds = takeWhile is_digit (d # rest)
               in (int (read_digits (take 9 (ds @ replicate 9 (CHR ''0'')))), dropWhile is_digit (d # rest))
          else (0, s)
      | _ \<Rightarrow> (0, s))"

text \<open>The offset of a zone in seconds; the limits are those of \<open>time.parse\<close>.\<close>

definition zone :: "string \<Rightarrow> int option" where
  "zone s =
     (if s = ''Z'' then Some 0
      else case s of
          sg # rest \<Rightarrow>
            if sg \<noteq> CHR ''+'' \<and> sg \<noteq> CHR ''-'' then None
            else (case two rest 0 24 of
                None \<Rightarrow> None
              | Some (h, rest1) \<Rightarrow>
                  (case expect '':'' rest1 of
                     None \<Rightarrow> None
                   | Some rest2 \<Rightarrow>
                       (case two rest2 0 60 of
                          Some (m, []) \<Rightarrow> Some (if sg = CHR ''-'' then - (h * 3600 + m * 60) else h * 3600 + m * 60)
                        | _ \<Rightarrow> None)))
        | [] \<Rightarrow> None)"

definition day_of_date :: "int \<Rightarrow> int \<Rightarrow> int \<Rightarrow> int" where
  "day_of_date y m d = days_before_year y + sum_list (take (nat (m - 1)) (month_lengths (leap y))) + d - 1 - epoch_day"

definition year_part :: "string \<Rightarrow> (int \<times> string) option" where
  "year_part s =
     (let y = take 4 s in if length y = 4 \<and> list_all is_digit y then Some (int (read_digits y), drop 4 s) else None)"

definition bind_part :: "(int \<times> string) option \<Rightarrow> string \<Rightarrow> (int \<Rightarrow> string \<Rightarrow> time option) \<Rightarrow> time option" where
  "bind_part p sep f =
     (case p of None \<Rightarrow> None | Some (v, rest) \<Rightarrow> (case expect sep rest of None \<Rightarrow> None | Some rest' \<Rightarrow> f v rest'))"

definition ParseRFC3339 :: "string \<Rightarrow> time option" where
  "ParseRFC3339 s =
     bind_part (year_part s) ''-'' (\<lambda>y s1.
     bind_part (two s1 1 12) ''-'' (\<lambda>m s2.
     bind_part (two s2 1 (month_lengths (leap y) ! nat (m - 1))) ''T'' (\<lambda>d s3.
     bind_part (hour_of s3) '':'' (\<lambda>hh s4.
     bind_part (two s4 0 59) '':'' (\<lambda>mm s5.
     bind_part (two s5 0 59) '''' (\<lambda>ss s6.
       case fraction s6 of (ns, s7) \<Rightarrow>
         (case zone s7 of
            None \<Rightarrow> None
          | Some off \<Rightarrow> Some (((day_of_date y m d * 24 + hh) * 60 + mm) * 60 * Second + (ss - off) * Second + ns))))))))"

end
