(* ===== verification/Http.thy ===== *)
theory Http
  imports Service Terminal GoHttp
begin

text \<open>
  Requests, responses and access control of \<open>internal/app/app.go\<close>: the middlewares of \<open>Router\<close>,
  \<open>requireAuth\<close> with bearer tokens, sessions and the CSRF check, \<open>requireAdmin\<close>, and the mapping of errors
  to responses. What \<open>net/http\<close> has parsed of a request is given: its headers, query, form, cookies, files
  and what a handler reads of its body. A handler answers with a value of type \<open>response io\<close>; an error of
  that computation is a panic. The text that \<open>encoding/json\<close> and the templates make of a payload is not
  modelled.
\<close>

section \<open>Requests\<close>

record request_user =
  ru_ID :: string
  ru_Username :: string
  ru_IsAdmin :: bool
  ru_CSRF :: string
  ru_IsToken :: bool

text \<open>A file of a multipart form: \<open>Absent\<close> is \<open>http.ErrMissingFile\<close>.\<close>

datatype form_file = Absent | FileError string | FormFile string reader

text \<open>
  \<open>rq_Context\<close> names the request's context; \<open>rq_User\<close> and \<open>rq_RequestID\<close> are the values the middlewares
  put into it. \<open>rq_Body\<close> is what is left of the body when the handler reads it.
\<close>

record request =
  rq_Method :: string
  rq_Path :: string
  rq_EscapedPath :: string
  rq_Query :: url_values
  rq_RawQuery :: string
  rq_Host :: string
  rq_Header :: "string \<Rightarrow> string"
  rq_Form :: "string \<Rightarrow> string list"
  rq_MultipartError :: "string option"
  rq_File :: "string \<Rightarrow> form_file"
  rq_Cookie :: "string \<Rightarrow> string option"
  rq_RemoteAddr :: string
  rq_TLS :: bool
  rq_Body :: reader
  rq_ContentLength :: int
  rq_PathValue :: "string \<Rightarrow> string"
  rq_Context :: string
  rq_RequestID :: string
  rq_User :: "request_user option"

definition FormValue :: "request \<Rightarrow> string \<Rightarrow> string" where
  "FormValue r k = (case rq_Form r k of [] \<Rightarrow> '''' | v # _ \<Rightarrow> v)"

definition query_get :: "request \<Rightarrow> string \<Rightarrow> string" where
  "query_get r k = (case map_of (rq_Query r) k of Some (v # _) \<Rightarrow> v | _ \<Rightarrow> '''')"

definition no_user :: request_user where
  "no_user = \<lparr>ru_ID = '''', ru_Username = '''', ru_IsAdmin = False, ru_CSRF = '''', ru_IsToken = False\<rparr>"

definition current :: "request \<Rightarrow> request_user" where
  "current r = (case rq_User r of Some u \<Rightarrow> u | None \<Rightarrow> no_user)"

definition reqID :: "request \<Rightarrow> string" where "reqID r = rq_RequestID r"

definition sourceIP :: "request \<Rightarrow> string" where
  "sourceIP r = (case SplitHostPort (rq_RemoteAddr r) of None \<Rightarrow> rq_RemoteAddr r | Some (host, port) \<Rightarrow> host)"

definition errorString :: "err option \<Rightarrow> string" where
  "errorString e = (case e of None \<Rightarrow> '''' | Some x \<Rightarrow> err_text x)"

definition atoiDefault :: "string \<Rightarrow> int \<Rightarrow> int" where
  "atoiDefault s d = (case Sscanf_d (TrimSpace s) of None \<Rightarrow> d | Some v \<Rightarrow> if v = 0 then d else v)"

definition defaultString :: "string \<Rightarrow> string \<Rightarrow> string" where
  "defaultString s d = (if TrimSpace s = '''' then d else TrimSpace s)"

definition list_sep :: "char \<Rightarrow> bool" where
  "list_sep c \<longleftrightarrow> c = CHR '','' \<or> c = CHR 0x0A \<or> c = CHR 0x0D \<or> c = CHR 0x09 \<or> c = CHR '' ''"

definition parseListField :: "string \<Rightarrow> string list" where
  "parseListField value = filter (\<lambda>f. f \<noteq> '''') (map TrimSpace (FieldsFunc value list_sep))"

section \<open>Responses\<close>

record create_vm_form =
  cf_Name :: string
  cf_VCPUCount :: int
  cf_MemMiB :: int
  cf_SSHPort :: int
  cf_DevUser :: string
  cf_SSHKeyID :: string
  cf_ExtraAuthorizedKeys :: string
  cf_RepoURL :: string
  cf_GitRef :: string
  cf_EgressMode :: string
  cf_EgressPolicyID :: string
  cf_NetworkMode :: string
  cf_NetworkID :: string
  cf_BaseImageID :: string
  cf_RootFSSizeMiB :: int
  cf_KernelID :: string

record token_form =
  tf_Name :: string
  tf_OwnerUserID :: string
  tf_IsAdmin :: bool
  tf_ExpiresAt :: string

record token_view =
  tv_Token :: api_token
  tv_Status :: string
  tv_Scope :: string

record token_filter =
  flt_Key :: string
  flt_Label :: string
  flt_Count :: int
  flt_Active :: bool
  flt_Href :: string

record token_counts =
  tc_Active :: int
  tc_Revoked :: int
  tc_Expired :: int
  tc_All :: int

record test_job_view =
  tjv_Job :: kernel_test_job
  tjv_KernelName :: string
  tjv_GatewayLabel :: string
  tjv_GatewayStateClass :: string
  tjv_CreatedAt :: time

text \<open>A value of type \<open>any\<close> that is encoded as JSON or given to a template.\<close>

datatype payload =
    PNil
  | PText string
  | PInt int
  | PBool bool
  | PTime time
  | PTexts "string list"
  | PFields fields
  | PMap "(string \<times> payload) list"
  | PList "payload list"
  | PUser request_user
  | PUsers "user list"
  | PVM vm
  | PVMs "vm list"
  | PKey ssh_key
  | PKeys "ssh_key list"
  | PNetwork network
  | PNetworks "network list"
  | PRule ingress_rule
  | PRules "ingress_rule list"
  | PPolicy egress_policy
  | PPolicies "egress_policy list"
  | PImage base_image
  | PImages "base_image list"
  | PBuildJob image_build_job
  | PBuildJobs "image_build_job list"
  | PHook image_hook
  | PHooks "image_hook list"
  | PKernel kernel
  | PKernels "kernel list"
  | PTestJob kernel_test_job
  | PTestViews "test_job_view list"
  | PScanJob kernel_discovery_job
  | PScanJobs "kernel_discovery_job list"
  | PScanItems "kernel_discovery_item list"
  | PExecJob vm_exec_job
  | PExecJobs "vm_exec_job list"
  | PExecResult exec_result
  | PHostStatus host_status
  | POrphans host_orphans
  | PToken api_token
  | PTokens "api_token list"
  | PTokenViews "token_view list"
  | PTokenFilters "token_filter list"
  | PTokenCounts token_counts
  | PTokenForm token_form
  | PVMForm create_vm_form

definition POpt :: "('a \<Rightarrow> payload) \<Rightarrow> 'a option \<Rightarrow> payload" where
  "POpt f x = (case x of None \<Rightarrow> PNil | Some y \<Rightarrow> f y)"

record cookie =
  ck_Name :: string
  ck_Value :: string
  ck_Path :: string
  ck_HttpOnly :: bool
  ck_SameSite :: string
  ck_Secure :: bool
  ck_MaxAge :: int

datatype body =
    Text string
  | Json payload
  | Page string payload
  | Location string
  | File string
  | Embedded string
  | Hijacked

record response =
  rs_Status :: nat
  rs_Header :: "(string \<times> string) list"
  rs_Cookies :: "cookie list"
  rs_Body :: body

type_synonym handler = "request \<Rightarrow> response io"

definition respond :: "nat \<Rightarrow> body \<Rightarrow> response io" where
  "respond status b = returnE \<lparr>rs_Status = status, rs_Header = [], rs_Cookies = [], rs_Body = b\<rparr>"

definition with_header :: "string \<Rightarrow> string \<Rightarrow> response io \<Rightarrow> response io" where
  "with_header k v m = bindE m (\<lambda>rs. returnE (rs\<lparr>rs_Header := (k, v) # rs_Header rs\<rparr>))"

definition set_cookie :: "cookie \<Rightarrow> response io \<Rightarrow> response io" where
  "set_cookie ck m = bindE m (\<lambda>rs. returnE (rs\<lparr>rs_Cookies := ck # rs_Cookies rs\<rparr>))"

text \<open>\<open>http.Error\<close>, \<open>http.NotFound\<close>, \<open>http.Redirect\<close> with 303, and the two methods \<open>render\<close> and \<open>json\<close>.\<close>

definition http_Error :: "string \<Rightarrow> nat \<Rightarrow> response io" where
  "http_Error message status =
     with_header ''Content-Type'' ''text/plain; charset=utf-8''
       (with_header ''X-Content-Type-Options'' ''nosniff'' (respond status (Text (message @ NL))))"

definition http_NotFound :: "response io" where
  "http_NotFound = http_Error ''404 page not found'' 404"

definition SeeOther :: "string \<Rightarrow> response io" where
  "SeeOther target = respond 303 (Location target)"

definition render :: "string \<Rightarrow> (string \<times> payload) list \<Rightarrow> response io" where
  "render name data = with_header ''Content-Type'' ''text/html; charset=utf-8'' (respond 200 (Page name (PMap data)))"

definition json :: "nat \<Rightarrow> payload \<Rightarrow> response io" where
  "json status v = with_header ''Content-Type'' ''application/json'' (respond status (Json v))"

section \<open>Errors\<close>

definition StatusText :: "nat \<Rightarrow> string" where
  "StatusText status =
     (if status = 400 then ''Bad Request'' else if status = 401 then ''Unauthorized'' else if status = 403 then ''Forbidden''
      else if status = 404 then ''Not Found'' else if status = 409 then ''Conflict''
      else if status = 422 then ''Unprocessable Entity'' else if status = 500 then ''Internal Server Error'' else '''')"

definition writeAPIError :: "request \<Rightarrow> nat \<Rightarrow> string \<Rightarrow> string \<Rightarrow> fields \<Rightarrow> response io" where
  "writeAPIError r status code message fs =
     json status (PMap [(''error'', PMap [(''code'', PText (if code = '''' then ''internal'' else code)),
        (''message'', PText (if message = '''' then StatusText status else message)), (''fields'', PFields fs),
        (''request_id'', PText (reqID r))])])"

definition has_any :: "string \<Rightarrow> string list \<Rightarrow> bool" where
  "has_any msg parts = list_ex (Contains msg) parts"

definition classify_text :: "string \<Rightarrow> nat \<times> string \<times> fields" where
  "classify_text text =
     (let msg = ToLower text
      in if has_any msg [''not found'', ''does not exist''] then (404, ''not_found'', [])
         else if has_any msg [''unique constraint'', ''already exists'', ''already in use'', ''assigned to''] then (409, ''conflict'', [])
         else if has_any msg [''required'', ''must '', ''invalid'', ''outside''] then (400, ''invalid'', [])
         else (500, ''internal'', []))"

fun classifyError :: "err \<Rightarrow> nat \<times> string \<times> fields" where
  "classifyError (HttpError status code message fs) = (status, code, fs)"
| "classifyError (DomainError c message fs) =
     (case c of
        CodeInvalid \<Rightarrow> (400, error_code_text c, fs)
      | CodeNotFound \<Rightarrow> (404, error_code_text c, fs)
      | CodeConflict \<Rightarrow> (409, error_code_text c, fs)
      | CodeUnusable \<Rightarrow> (422, error_code_text c, fs)
      | CodeInternal \<Rightarrow> (500, error_code_text c, fs))"
| "classifyError (PlainError message) = classify_text message"

definition apiError :: "request \<Rightarrow> err \<Rightarrow> response io" where
  "apiError r e = (case classifyError e of (status, code, fs) \<Rightarrow> writeAPIError r status code (err_text e) fs)"

definition forbidden :: "string \<Rightarrow> err" where
  "forbidden message = HttpError 403 ''forbidden'' message []"

text \<open>An error page for a browser, an error object for the API.\<close>

definition deny :: "request \<Rightarrow> nat \<Rightarrow> string \<Rightarrow> string \<Rightarrow> response io" where
  "deny r status code message =
     (if HasPrefix (rq_Path r) ''/api/'' then writeAPIError r status code message [] else http_Error message status)"

section \<open>Middlewares\<close>

definition requestID :: "handler \<Rightarrow> handler" where
  "requestID next r =
     bindE (if rq_Header r ''X-Request-ID'' = '''' then Hex 8 else returnE (rq_Header r ''X-Request-ID'')) (\<lambda>rid.
       with_header ''X-Request-ID'' rid (next (r\<lparr>rq_RequestID := rid\<rparr>)))"

definition securityHeaders :: "handler \<Rightarrow> handler" where
  "securityHeaders next r =
     with_header ''X-Content-Type-Options'' ''nosniff'' (with_header ''X-Frame-Options'' ''DENY''
       (with_header ''Referrer-Policy'' ''same-origin'' (next r)))"

definition hostGuard :: "handler \<Rightarrow> handler" where
  "hostGuard next r =
     bindE (config_get (\<lambda>c. TrustedHosts (Server c))) (\<lambda>trusted.
       if trusted = [] \<or> list_ex (EqualFold (rq_Host r)) trusted then next r
       else http_Error ''untrusted host'' 400)"

section \<open>Credentials\<close>

definition bearerToken :: "request \<Rightarrow> string" where
  "bearerToken r =
     (let auth = TrimSpace (rq_Header r ''Authorization'')
      in if auth = '''' then ''''
         else case cut auth (CHR '' '') of
             (typ, None) \<Rightarrow> ''''
           | (typ, Some v) \<Rightarrow> if EqualFold typ ''Bearer'' then TrimSpace v else '''')"

definition hashAPIToken :: "string \<Rightarrow> string" where
  "hashAPIToken secret = sha256_hex secret"

definition token_user :: "api_token \<Rightarrow> request_user" where
  "token_user token = \<lparr>ru_ID = tok_ID token, ru_Username = ''token:'' @ tok_Name token, ru_IsAdmin = tok_IsAdmin token,
     ru_CSRF = '''', ru_IsToken = True\<rparr>"

definition owner_user :: "api_token \<Rightarrow> user \<Rightarrow> request_user" where
  "owner_user token owner = \<lparr>ru_ID = usr_ID owner, ru_Username = usr_Username owner,
     ru_IsAdmin = (tok_IsAdmin token \<and> usr_IsAdmin owner), ru_CSRF = '''', ru_IsToken = True\<rparr>"

definition currentTokenUser :: "string \<Rightarrow> request_user option io" where
  "currentTokenUser secret =
     bindE (store_GetAPITokenByHash (hashAPIToken secret)) (\<lambda>found. case found of
         None \<Rightarrow> returnE None
       | Some token \<Rightarrow>
           bindE Now (\<lambda>now.
             if tok_RevokedAt token \<noteq> None \<or> (case tok_ExpiresAt token of None \<Rightarrow> False | Some t \<Rightarrow> t < now) then returnE None
             else seqE (ignoreE (store_TouchAPIToken (tok_ID token)))
               (if tok_OwnerUserID token = '''' then returnE (Some (token_user token))
                else bindE (store_UserByID (tok_OwnerUserID token)) (\<lambda>owner. case owner of
                    None \<Rightarrow> returnE None
                  | Some u \<Rightarrow> returnE (Some (owner_user token u))))))"

definition isStateChanging :: "string \<Rightarrow> bool" where
  "isStateChanging method \<longleftrightarrow> method \<noteq> ''GET'' \<and> method \<noteq> ''HEAD'' \<and> method \<noteq> ''OPTIONS''"

definition session_cookie :: string where "session_cookie = ''bap_web_session''"

definition currentUser :: "request \<Rightarrow> (user \<times> session) option io" where
  "currentUser r =
     (case rq_Cookie r session_cookie of
        None \<Rightarrow> returnE None
      | Some v \<Rightarrow>
          if v = '''' then returnE None
          else bindE (tryE (store_SessionByID v)) (\<lambda>found. case found of
              Inr (Some sess) \<Rightarrow>
                bindE Now (\<lambda>now.
                bindE (config_get (\<lambda>c. SessionAbsoluteTimeout (Security c))) (\<lambda>limit.
                  if ses_ExpiresAt sess < now \<or> limit < now - ses_CreatedAt sess
                  then seqE (ignoreE (store_DeleteSession (ses_ID sess))) (returnE None)
                  else bindE (tryE (store_UserByID (ses_UserID sess))) (\<lambda>owner. returnE (case owner of
                      Inr (Some u) \<Rightarrow> Some (u, sess) | _ \<Rightarrow> None))))
            | _ \<Rightarrow> returnE None))"

definition session_user :: "user \<Rightarrow> session \<Rightarrow> request_user" where
  "session_user u sess = \<lparr>ru_ID = usr_ID u, ru_Username = usr_Username u, ru_IsAdmin = usr_IsAdmin u,
     ru_CSRF = ses_CSRFToken sess, ru_IsToken = False\<rparr>"

definition optionalBrowserUser :: "request \<Rightarrow> request_user option io" where
  "optionalBrowserUser r =
     bindE (currentUser r) (\<lambda>found. returnE (map_option (\<lambda>(u, sess). session_user u sess) found))"

text \<open>The token of a state-changing request, from the header or else from the form.\<close>

definition csrf_token :: "request \<Rightarrow> string" where
  "csrf_token r = (let t = rq_Header r ''X-CSRF-Token'' in if t = '''' then FormValue r ''csrf'' else t)"

definition csrf_ok :: "request \<Rightarrow> session \<Rightarrow> bool" where
  "csrf_ok r sess \<longleftrightarrow> (isStateChanging (rq_Method r) \<longrightarrow> csrf_token r \<noteq> '''' \<and> csrf_token r = ses_CSRFToken sess)"

definition session_auth :: "handler \<Rightarrow> handler" where
  "session_auth next r =
     bindE (currentUser r) (\<lambda>found. case found of
         None \<Rightarrow>
           if HasPrefix (rq_Path r) ''/api/'' then writeAPIError r 401 ''unauthorized'' ''authentication required'' []
           else SeeOther ''/login''
       | Some (u, sess) \<Rightarrow>
           if \<not> csrf_ok r sess then deny r 403 ''forbidden'' ''invalid csrf token''
           else bindE Now (\<lambda>now.
                bindE (config_get (\<lambda>c. SessionIdleTimeout (Security c))) (\<lambda>idle.
                seqE (ignoreE (store_TouchSession (ses_ID sess) (now + idle)))
                  (next (r\<lparr>rq_User := Some (session_user u sess)\<rparr>)))))"

definition token_auth :: "string \<Rightarrow> handler \<Rightarrow> handler" where
  "token_auth secret next r =
     bindE (tryE (currentTokenUser secret)) (\<lambda>found. case found of
         Inl e \<Rightarrow> http_Error (err_text e) 500
       | Inr None \<Rightarrow> deny r 401 ''unauthorized'' ''invalid bearer token''
       | Inr (Some u) \<Rightarrow> next (r\<lparr>rq_User := Some u\<rparr>))"

definition requireAuth :: "handler \<Rightarrow> handler" where
  "requireAuth next r =
     bindE (tryE store_HasUsers) (\<lambda>has. case has of
         Inl e \<Rightarrow> http_Error (err_text e) 500
       | Inr False \<Rightarrow> SeeOther ''/setup''
       | Inr True \<Rightarrow> if bearerToken r \<noteq> '''' then token_auth (bearerToken r) next r else session_auth next r)"

definition requireAdmin :: "handler \<Rightarrow> handler" where
  "requireAdmin next r =
     (if \<not> ru_IsAdmin (current r) then deny r 403 ''forbidden'' ''admin privileges required'' else next r)"

definition checkWSOrigin :: "request \<Rightarrow> bool io" where
  "checkWSOrigin r =
     config_get (\<lambda>c. rq_Header r ''Origin'' = '''' \<or> rq_Header r ''Origin'' \<in> set (AllowedOrigins (Server c)))"

section \<open>Handlers that audit a call\<close>

definition audit :: "request \<Rightarrow> string \<Rightarrow> string \<Rightarrow> string \<Rightarrow> string \<Rightarrow> unit io" where
  "audit r action target outcome message =
     ignoreE (store_Audit (ru_Username (current r)) (sourceIP r) action target outcome (reqID r) message)"

text \<open>
  \<open>x, err := call()\<close>, the audit entry of its outcome, and one of two responses. The target of the entry is
  made of the result if there is one.
\<close>

definition audited :: "request \<Rightarrow> string \<Rightarrow> string \<Rightarrow> ('a \<Rightarrow> string) \<Rightarrow> 'a io \<Rightarrow> (err \<Rightarrow> response io) \<Rightarrow> ('a \<Rightarrow> response io) \<Rightarrow> response io"
where
  "audited r action target target_of call on_error on_success =
     bindE (tryE call) (\<lambda>result. case result of
         Inl e \<Rightarrow> seqE (audit r action target ''failure'' (err_text e)) (on_error e)
       | Inr x \<Rightarrow> seqE (audit r action (target_of x) ''success'' '''') (on_success x))"

text \<open>\<open>if err != nil { respond and return }\<close> without an audit entry.\<close>

definition orError :: "(err \<Rightarrow> response io) \<Rightarrow> 'a io \<Rightarrow> ('a \<Rightarrow> response io) \<Rightarrow> response io" where
  "orError on_error m f = bindE (tryE m) (\<lambda>result. case result of Inl e \<Rightarrow> on_error e | Inr x \<Rightarrow> f x)"

text \<open>What \<open>json.Decoder.Decode\<close> gives: \<open>io.EOF\<close> is told apart where the code does.\<close>

datatype 'a decoded = Decoded 'a | DecodeEOF | DecodeError string

definition with_json :: "(reader \<Rightarrow> 'a decoded) \<Rightarrow> request \<Rightarrow> ('a \<Rightarrow> response io) \<Rightarrow> response io" where
  "with_json dec r f =
     (case dec (rq_Body r) of
        Decoded x \<Rightarrow> f x
      | DecodeEOF \<Rightarrow> writeAPIError r 400 ''bad_request'' ''EOF'' []
      | DecodeError m \<Rightarrow> writeAPIError r 400 ''bad_request'' m [])"

text \<open>A body that may be empty: the value then is the zero value.\<close>

definition decodeOptionalJSON :: "(reader \<Rightarrow> 'a decoded) \<Rightarrow> 'a \<Rightarrow> request \<Rightarrow> string + 'a" where
  "decodeOptionalJSON dec zero r =
     (if rq_ContentLength r = 0 then Inr zero
      else case dec (rq_Body r) of Decoded x \<Rightarrow> Inr x | DecodeEOF \<Rightarrow> Inr zero | DecodeError m \<Rightarrow> Inl m)"

definition with_optional_json :: "(reader \<Rightarrow> 'a decoded) \<Rightarrow> 'a \<Rightarrow> request \<Rightarrow> ('a \<Rightarrow> response io) \<Rightarrow> response io" where
  "with_optional_json dec zero r f =
     (case decodeOptionalJSON dec zero r of Inl m \<Rightarrow> writeAPIError r 400 ''bad_request'' m [] | Inr x \<Rightarrow> f x)"

end
