(* ===== verification/Tokens.thy ===== *)
theory Tokens
  imports Http "HOL-Library.AList"
begin

text \<open>
  Set-up, login and logout, API tokens and their page, and the small API endpoints of
  \<open>internal/app/app.go\<close>. \<open>bcrypt\<close> is a library whose answers the host gives.
\<close>

section \<open>Set-up and login\<close>

definition setupGet :: handler where
  "setupGet r =
     bindE (tryE store_HasUsers) (\<lambda>has. case has of
         Inl e \<Rightarrow> http_Error (err_text e) 500
       | Inr True \<Rightarrow> SeeOther ''/login''
       | Inr False \<Rightarrow> render ''setup.html'' [(''Title'', PText ''Setup'')])"

definition GenerateFromPassword :: "string \<Rightarrow> string io" where
  "GenerateFromPassword password = perform (Lib ''bcrypt.GenerateFromPassword'' [password])"

definition CompareHashAndPassword :: "string \<Rightarrow> string \<Rightarrow> unit io" where
  "CompareHashAndPassword hash password = do_effect (Lib ''bcrypt.CompareHashAndPassword'' [hash, password])"

definition setupPost :: handler where
  "setupPost r =
     orError (\<lambda>e. http_Error (err_text e) 500) store_HasUsers (\<lambda>has.
       if has then http_Error ''setup already complete'' 403
       else
         (let username = TrimSpace (FormValue r ''username''); password = FormValue r ''password''
          in if username = '''' \<or> length password < 12
             then http_Error ''username and password of at least 12 characters required'' 400
             else orError (\<lambda>e. http_Error (err_text e) 500) (GenerateFromPassword password) (\<lambda>hash.
               bindE (Hex 16) (\<lambda>uid.
               bindE Now (\<lambda>now.
               orError (\<lambda>e. http_Error (err_text e) 500)
                 (store_CreateUser \<lparr>usr_ID = uid, usr_Username = username, usr_PasswordHash = hash, usr_IsAdmin = True, usr_CreatedAt = now\<rparr>)
                 (\<lambda>_. seqE (ignoreE (store_Audit username (sourceIP r) ''setup_admin'' (''user:'' @ uid) ''success'' (reqID r) ''initial admin created''))
                        (SeeOther ''/login'')))))))"

definition loginGet :: handler where
  "loginGet r =
     bindE (tryE store_HasUsers) (\<lambda>has. if has = Inr True then render ''login.html'' [(''Title'', PText ''Login'')]
       else SeeOther ''/setup'')"

text \<open>The user of the credentials, if they are valid.\<close>

definition credentials :: "string \<Rightarrow> string \<Rightarrow> user option io" where
  "credentials username password =
     bindE (tryE (store_UserByUsername username)) (\<lambda>found. case found of
         Inr (Some u) \<Rightarrow>
           bindE (tryE (CompareHashAndPassword (usr_PasswordHash u) password)) (\<lambda>result.
             returnE (case result of Inl e \<Rightarrow> None | Inr _ \<Rightarrow> Some u))
       | _ \<Rightarrow> returnE None)"

definition login_cookie :: "request \<Rightarrow> string \<Rightarrow> cookie" where
  "login_cookie r sid = \<lparr>ck_Name = session_cookie, ck_Value = sid, ck_Path = ''/'', ck_HttpOnly = True, ck_SameSite = ''Lax'',
     ck_Secure = (rq_TLS r \<or> rq_Header r ''X-Forwarded-Proto'' = ''https''), ck_MaxAge = 0\<rparr>"

definition loginPost :: handler where
  "loginPost r =
     (let username = TrimSpace (FormValue r ''username''); password = FormValue r ''password''
      in bindE (credentials username password) (\<lambda>found. case found of
          None \<Rightarrow>
            seqE (ignoreE (store_Audit username (sourceIP r) ''login'' (''user:'' @ username) ''failure'' (reqID r) ''invalid credentials''))
              (http_Error ''invalid credentials'' 401)
        | Some u \<Rightarrow>
            bindE Now (\<lambda>now.
            bindE (Hex 32) (\<lambda>sid.
            bindE (Hex 32) (\<lambda>csrf.
            bindE (config_get (\<lambda>c. SessionIdleTimeout (Security c))) (\<lambda>idle.
            orError (\<lambda>e. http_Error (err_text e) 500)
              (store_CreateSession \<lparr>ses_ID = sid, ses_UserID = usr_ID u, ses_CSRFToken = csrf, ses_CreatedAt = now,
                 ses_LastSeenAt = now, ses_ExpiresAt = now + idle\<rparr>)
              (\<lambda>_. set_cookie (login_cookie r sid)
                 (seqE (ignoreE (store_Audit (usr_Username u) (sourceIP r) ''login'' (''user:'' @ usr_ID u) ''success'' (reqID r) ''''))
                    (SeeOther ''/'')))))))))"

definition logout_cookie :: cookie where
  "logout_cookie = \<lparr>ck_Name = session_cookie, ck_Value = '''', ck_Path = ''/'', ck_HttpOnly = False, ck_SameSite = '''',
     ck_Secure = False, ck_MaxAge = -1\<rparr>"

definition logoutPost :: handler where
  "logoutPost r =
     seqE (case rq_Cookie r session_cookie of None \<Rightarrow> returnE () | Some v \<Rightarrow> ignoreE (store_DeleteSession v))
       (set_cookie logout_cookie (SeeOther ''/login''))"

section \<open>Tokens and their status\<close>

definition defaultAPITokenTTL :: duration where "defaultAPITokenTTL = 30 * 24 * Hour"

definition apiTokenStatus :: "api_token \<Rightarrow> time \<Rightarrow> string" where
  "apiTokenStatus token now =
     (if tok_RevokedAt token \<noteq> None then ''revoked''
      else case tok_ExpiresAt token of
          None \<Rightarrow> ''active''
        | Some t \<Rightarrow> if \<not> now < t then ''expired'' else ''active'')"

definition token_view_of :: "time \<Rightarrow> api_token \<Rightarrow> token_view" where
  "token_view_of now token = \<lparr>tv_Token = token, tv_Status = apiTokenStatus token now,
     tv_Scope = (if tok_IsAdmin token then ''admin'' else ''user'')\<rparr>"

definition count_status :: "token_counts \<Rightarrow> string \<Rightarrow> token_counts" where
  "count_status counts status =
     (if status = ''active'' then counts\<lparr>tc_Active := tc_Active counts + 1\<rparr>
      else if status = ''revoked'' then counts\<lparr>tc_Revoked := tc_Revoked counts + 1\<rparr>
      else if status = ''expired'' then counts\<lparr>tc_Expired := tc_Expired counts + 1\<rparr>
      else counts)"

definition apiTokenViews :: "api_token list \<Rightarrow> (token_view list \<times> token_counts) io" where
  "apiTokenViews tokens =
     bindE Now (\<lambda>now.
       (let views = map (token_view_of now) tokens
        in returnE (views, foldl count_status \<lparr>tc_Active = 0, tc_Revoked = 0, tc_Expired = 0, tc_All = int (length tokens)\<rparr>
                             (map tv_Status views))))"

definition apiTokenFilterFromRequest :: "request \<Rightarrow> string" where
  "apiTokenFilterFromRequest r =
     (let s = ToLower (TrimSpace (query_get r ''status''))
      in if s \<in> {''revoked'', ''expired'', ''all''} then s else ''active'')"

definition filterAPITokenViews :: "token_view list \<Rightarrow> string \<Rightarrow> token_view list" where
  "filterAPITokenViews tokens flt = (if flt = ''all'' then tokens else filter (\<lambda>v. tv_Status v = flt) tokens)"

definition apiTokenFilters :: "string \<Rightarrow> token_counts \<Rightarrow> token_filter list" where
  "apiTokenFilters active counts =
     map (\<lambda>(k, label, n). \<lparr>flt_Key = k, flt_Label = label, flt_Count = n, flt_Active = (k = active),
            flt_Href = ''/tokens?status='' @ QueryEscape k\<rparr>)
       [(''active'', ''Active'', tc_Active counts), (''revoked'', ''Revoked'', tc_Revoked counts),
        (''expired'', ''Expired'', tc_Expired counts), (''all'', ''All'', tc_All counts)]"

definition formatRFC3339 :: "time \<Rightarrow> string" where
  "formatRFC3339 t = formatTime (t - t mod Second)"

definition defaultAPITokenForm :: "request_user \<Rightarrow> token_form io" where
  "defaultAPITokenForm u =
     bindE Now (\<lambda>now. returnE \<lparr>tf_Name = '''', tf_OwnerUserID = ru_ID u, tf_IsAdmin = False,
       tf_ExpiresAt = formatRFC3339 (now + defaultAPITokenTTL)\<rparr>)"

section \<open>Creating and revoking\<close>

record token_request =
  trq_Name :: string
  trq_OwnerUserID :: string
  trq_IsAdmin :: "bool option"
  trq_ExpiresAt :: string

text \<open>The owner that the actor may ask for.\<close>

definition token_owner :: "request_user \<Rightarrow> token_request \<Rightarrow> bool \<Rightarrow> err + string" where
  "token_owner actor req admin =
     (let ownerID = TrimSpace (trq_OwnerUserID req)
      in if ru_IsAdmin actor then Inr (if ownerID = '''' then ru_ID actor else ownerID)
         else if ownerID \<noteq> '''' \<and> ownerID \<noteq> ru_ID actor then Inl (forbidden ''users can only create API tokens for themselves'')
         else if admin then Inl (forbidden ''users cannot create admin API tokens'')
         else Inr (ru_ID actor))"

definition token_expiry :: "string \<Rightarrow> time io" where
  "token_expiry s =
     (if TrimSpace s \<noteq> ''''
      then (case ParseRFC3339 (TrimSpace s) of
              None \<Rightarrow> throwE (Invalid ''Token expiry is invalid'' [(''expires_at'', ''must be RFC3339'')])
            | Some t \<Rightarrow> returnE t)
      else bindE Now (\<lambda>now. returnE (now + defaultAPITokenTTL)))"

definition createAPIToken :: "request_user \<Rightarrow> token_request \<Rightarrow> (api_token \<times> string) io" where
  "createAPIToken actor req =
     seqE (failIf (ru_IsToken actor \<and> \<not> ru_IsAdmin actor) (forbidden ''non-admin bearer tokens cannot create API tokens''))
     (let name = TrimSpace (trq_Name req); admin = (case trq_IsAdmin req of None \<Rightarrow> False | Some b \<Rightarrow> b)
      in seqE (failIf (name = '''') (Invalid ''Token name is required'' [(''name'', ''required'')]))
         (bindE (liftE (token_owner actor req admin)) (\<lambda>ownerID.
          bindE (store_UserByID ownerID) (\<lambda>found. case found of
              None \<Rightarrow> throwE (NotFound ''Token owner user not found'')
            | Some owner \<Rightarrow>
                seqE (failIf (admin \<and> \<not> usr_IsAdmin owner)
                  (Invalid ''Admin API tokens can only be created for admin users'' [(''is_admin'', ''owner is not an admin user'')]))
                (bindE (token_expiry (trq_ExpiresAt req)) (\<lambda>expires.
                 bindE Now (\<lambda>now.
                 seqE (failIf (\<not> now < expires) (Invalid ''Token expiry must be in the future'' [(''expires_at'', ''must be in the future'')]))
                 (bindE (Hex 32) (\<lambda>random.
                  bindE (Hex 16) (\<lambda>tid.
                  bindE Now (\<lambda>created.
                    (let secret = ''bap_'' @ random;
                         token = \<lparr>tok_ID = tid, tok_Name = name, tok_Prefix = take 16 secret, tok_IsAdmin = admin,
                           tok_OwnerUserID = usr_ID owner, tok_OwnerUsername = usr_Username owner, tok_CreatedBy = ru_Username actor,
                           tok_CreatedAt = created, tok_LastUsedAt = None, tok_ExpiresAt = Some expires, tok_RevokedAt = None\<rparr>
                     in seqE (store_CreateAPIToken token (hashAPIToken secret)) (returnE (token, secret))))))))))))))"

definition revokeAPIToken :: "request_user \<Rightarrow> string \<Rightarrow> unit io" where
  "revokeAPIToken actor tid =
     bindE (store_GetAPITokenByID tid) (\<lambda>found. case found of
         None \<Rightarrow> throwE (NotFound ''API token not found'')
       | Some token \<Rightarrow>
           seqE (failIf (\<not> ru_IsAdmin actor \<and> (tok_OwnerUserID token = '''' \<or> tok_OwnerUserID token \<noteq> ru_ID actor))
             (forbidden ''users can only revoke their own API tokens''))
           (store_RevokeAPIToken tid))"

definition visible_tokens :: "request \<Rightarrow> api_token list io" where
  "visible_tokens r =
     (if ru_IsAdmin (current r) then store_ListAPITokens else store_ListAPITokensByOwner (ru_ID (current r)))"

section \<open>The tokens page\<close>

text \<open>\<open>data[k] = v\<close> and an \<open>Error\<close> left behind by a listing that failed; its list is then empty.\<close>

type_synonym page_data = "(string \<times> payload) list"

definition set_field :: "string \<Rightarrow> payload \<Rightarrow> page_data \<Rightarrow> page_data" where
  "set_field k v data = AList.update k v data"

definition listing :: "'a list io \<Rightarrow> page_data \<Rightarrow> ('a list \<Rightarrow> page_data \<Rightarrow> response io) \<Rightarrow> response io" where
  "listing m data f =
     bindE (tryE m) (\<lambda>result. case result of
         Inl e \<Rightarrow> f [] (set_field ''Error'' (PText (err_text e)) data)
       | Inr xs \<Rightarrow> f xs data)"

definition set_fields :: "page_data \<Rightarrow> page_data \<Rightarrow> page_data" where
  "set_fields fs data = foldl (\<lambda>d (k, v). set_field k v d) data fs"

definition renderAPITokensPage :: "request \<Rightarrow> page_data \<Rightarrow> response io" where
  "renderAPITokensPage r data0 =
     listing (visible_tokens r) data0 (\<lambda>tokens data1.
     listing (if ru_IsAdmin (current r) then store_ListUsers else returnE []) data1 (\<lambda>all_users data2.
     bindE (if map_of data2 ''Form'' = None
            then bindE (defaultAPITokenForm (current r)) (\<lambda>form. returnE (set_field ''Form'' (PTokenForm form) data2))
            else returnE data2) (\<lambda>data3.
     bindE (apiTokenViews tokens) (\<lambda>(views, counts).
       (let flt = apiTokenFilterFromRequest r
        in render ''api_tokens.html'' (set_fields
            [(''Title'', PText ''API Tokens''), (''User'', PUser (current r)),
             (''Tokens'', PTokenViews (filterAPITokenViews views flt)), (''TokenFilters'', PTokenFilters (apiTokenFilters flt counts)),
             (''TokenFilter'', PText flt), (''TokenCounts'', PTokenCounts counts), (''Users'', PUsers all_users)] data3))))))"

definition apiTokensPage :: handler where
  "apiTokensPage r = renderAPITokensPage r []"

definition token_form_of :: "request \<Rightarrow> token_form" where
  "token_form_of r = \<lparr>tf_Name = TrimSpace (FormValue r ''name''), tf_OwnerUserID = TrimSpace (FormValue r ''owner_user_id''),
     tf_IsAdmin = (FormValue r ''is_admin'' = ''true''), tf_ExpiresAt = TrimSpace (FormValue r ''expires_at'')\<rparr>"

definition uiAPITokenCreate :: handler where
  "uiAPITokenCreate r =
     with_header ''Cache-Control'' ''no-store''
       (let form = token_form_of r
        in orError (\<lambda>e. renderAPITokensPage r [(''Error'', PText (err_text e)), (''Form'', PTokenForm form)])
             (createAPIToken (current r) \<lparr>trq_Name = tf_Name form, trq_OwnerUserID = tf_OwnerUserID form,
                trq_IsAdmin = Some (tf_IsAdmin form), trq_ExpiresAt = tf_ExpiresAt form\<rparr>)
             (\<lambda>(token, secret).
               seqE (audit r ''api_token_create'' (''api-token:'' @ tok_ID token) ''success'' '''')
                 (renderAPITokensPage r [(''CreatedToken'', PToken token), (''Secret'', PText secret)])))"

definition uiAPITokenAction :: handler where
  "uiAPITokenAction r =
     (if TrimSpace (FormValue r ''action'') \<noteq> ''revoke''
      then renderAPITokensPage r [(''Error'', PText ''Unknown token action'')]
      else
        (let tid = rq_PathValue r ''id''
         in orError (\<lambda>e. renderAPITokensPage r [(''Error'', PText (err_text e))]) (revokeAPIToken (current r) tid) (\<lambda>_.
              seqE (audit r ''api_token_revoke'' (''api-token:'' @ tid) ''success'' '''')
                (SeeOther (''/tokens?status='' @ QueryEscape (apiTokenFilterFromRequest r))))))"

section \<open>The API\<close>

definition apiHealth :: handler where
  "apiHealth r = bindE Now (\<lambda>now. json 200 (PMap [(''ok'', PBool True), (''time'', PTime now)]))"

definition apiSession :: handler where
  "apiSession r =
     (let u = current r
      in json 200 (PMap [(''user'', PText (ru_Username u)), (''is_admin'', PBool (ru_IsAdmin u)), (''csrf'', PText (ru_CSRF u))]))"

text \<open>The password hash is not part of a user's response.\<close>

definition user_response :: "user \<Rightarrow> payload" where
  "user_response u = PMap [(''id'', PText (usr_ID u)), (''username'', PText (usr_Username u)), (''is_admin'', PBool (usr_IsAdmin u))]"

definition apiUserList :: handler where
  "apiUserList r = orError (apiError r) store_ListUsers (\<lambda>us. json 200 (PList (map user_response us)))"

definition apiTokenList :: handler where
  "apiTokenList r = orError (apiError r) (visible_tokens r) (\<lambda>tokens. json 200 (PTokens tokens))"

definition apiTokenCreate :: "(reader \<Rightarrow> token_request decoded) \<Rightarrow> handler" where
  "apiTokenCreate dec r =
     with_header ''Cache-Control'' ''no-store''
       (with_json dec r (\<lambda>req.
         orError (apiError r) (createAPIToken (current r) req) (\<lambda>(token, secret).
           seqE (audit r ''api_token_create'' (''api-token:'' @ tok_ID token) ''success'' '''')
             (json 201 (PMap [(''token'', PToken token), (''secret'', PText secret)])))))"

definition apiTokenRevoke :: handler where
  "apiTokenRevoke r =
     (let tid = rq_PathValue r ''id''
      in orError (apiError r) (revokeAPIToken (current r) tid) (\<lambda>_.
           seqE (audit r ''api_token_revoke'' (''api-token:'' @ tid) ''success'' '''')
             (json 200 (PMap [(''revoked'', PText tid)]))))"

end
