(* ===== verification/Api.thy ===== *)
theory Api
  imports Tokens
begin

text \<open>
  The JSON API of \<open>internal/app/app.go\<close>: one definition per handler. The decoders are what \<open>encoding/json\<close>
  makes of a body, and what \<open>encoding/xml\<close> makes of the answer of the kernel mirror. A nil slice and an
  empty one are the same list.
\<close>

section \<open>Requests\<close>

record key_request =
  kr_Name :: string
  kr_PublicKey :: string

record resource_request =
  rr_VCPUCount :: int
  rr_MemMiB :: int
  rr_Restart :: bool

record network_request =
  nr_Name :: string
  nr_CIDR :: string
  nr_GatewayIP :: string

record ingress_request =
  ir_Protocol :: string
  ir_HostPort :: int
  ir_GuestPort :: int
  ir_Description :: string

record policy_request =
  pr_Name :: string
  pr_Mode :: string
  pr_TCPPorts :: string
  pr_UDPPorts :: string
  pr_CIDRs :: string

record vm_policy_request =
  vp_Mode :: string
  vp_EgressPolicyID :: string

record decoders =
  dec_token :: "reader \<Rightarrow> token_request decoded"
  dec_key :: "reader \<Rightarrow> key_request decoded"
  dec_image :: "reader \<Rightarrow> register_image decoded"
  dec_build :: "reader \<Rightarrow> build_request decoded"
  dec_status :: "reader \<Rightarrow> string decoded"
  dec_hook :: "reader \<Rightarrow> hook_request decoded"
  dec_scan :: "reader \<Rightarrow> string decoded"
  dec_import :: "reader \<Rightarrow> import_kernel decoded"
  dec_kernel_update :: "reader \<Rightarrow> kernel_update decoded"
  dec_vm :: "reader \<Rightarrow> create_vm_form decoded"
  dec_resources :: "reader \<Rightarrow> resource_request decoded"
  dec_exec :: "reader \<Rightarrow> exec_request decoded"
  dec_ingress :: "reader \<Rightarrow> ingress_request decoded"
  dec_network :: "reader \<Rightarrow> network_request decoded"
  dec_policy :: "reader \<Rightarrow> policy_request decoded"
  dec_vm_policy :: "reader \<Rightarrow> vm_policy_request decoded"
  dec_xml :: xml_decoder

definition toLifecycle :: "create_vm_form \<Rightarrow> create_request" where
  "toLifecycle f = \<lparr>cr_Name = cf_Name f, cr_VCPUCount = cf_VCPUCount f, cr_MemMiB = cf_MemMiB f, cr_SSHPort = cf_SSHPort f,
     cr_DevUser = cf_DevUser f, cr_SSHKeyID = cf_SSHKeyID f, cr_ExtraAuthorizedKeys = cf_ExtraAuthorizedKeys f,
     cr_RepoURL = cf_RepoURL f, cr_GitRef = cf_GitRef f, cr_EgressMode = cf_EgressMode f, cr_EgressPolicyID = cf_EgressPolicyID f,
     cr_NetworkMode = cf_NetworkMode f, cr_NetworkID = cf_NetworkID f, cr_BaseImageID = cf_BaseImageID f,
     cr_RootFSSizeMiB = cf_RootFSSizeMiB f, cr_KernelID = cf_KernelID f, cr_AllowPendingKernel = False\<rparr>"

definition createVMRequestFromForm :: "request \<Rightarrow> create_vm_form" where
  "createVMRequestFromForm r = \<lparr>cf_Name = FormValue r ''name'', cf_VCPUCount = atoiDefault (FormValue r ''vcpu_count'') 2,
     cf_MemMiB = atoiDefault (FormValue r ''mem_mib'') 2048, cf_SSHPort = atoiDefault (FormValue r ''ssh_port'') 0,
     cf_DevUser = defaultString (FormValue r ''dev_user'') ''dev'', cf_SSHKeyID = FormValue r ''ssh_key_id'',
     cf_ExtraAuthorizedKeys = FormValue r ''extra_authorized_keys'', cf_RepoURL = FormValue r ''repo_url'',
     cf_GitRef = defaultString (FormValue r ''git_ref'') ''HEAD'',
     cf_EgressMode = defaultString (FormValue r ''egress_mode'') ''allow_all'',
     cf_EgressPolicyID = FormValue r ''egress_policy_id'',
     cf_NetworkMode = defaultString (FormValue r ''network_mode'') ''routed_ptp'', cf_NetworkID = FormValue r ''network_id'',
     cf_BaseImageID = FormValue r ''base_image_id'', cf_RootFSSizeMiB = atoiDefault (FormValue r ''rootfs_size_mib'') 0,
     cf_KernelID = FormValue r ''kernel_id''\<rparr>"

section \<open>Shapes of handlers\<close>

abbreviation actor_of :: "request \<Rightarrow> string" where "actor_of r \<equiv> ru_Username (current r)"
abbreviation path_id :: "request \<Rightarrow> string" where "path_id r \<equiv> rq_PathValue r ''id''"

text \<open>A listing, one row, a call whose outcome is audited, a deletion, and the last lines of a file.\<close>

definition list_json :: "request \<Rightarrow> 'a io \<Rightarrow> ('a \<Rightarrow> payload) \<Rightarrow> response io" where
  "list_json r m f = orError (apiError r) m (\<lambda>xs. json 200 (f xs))"

definition found_or_404 :: "request \<Rightarrow> 'a option io \<Rightarrow> string \<Rightarrow> ('a \<Rightarrow> response io) \<Rightarrow> response io" where
  "found_or_404 r m missing f =
     orError (apiError r) m (\<lambda>found. case found of
         None \<Rightarrow> writeAPIError r 404 ''not_found'' missing []
       | Some x \<Rightarrow> f x)"

definition audited_json ::
  "request \<Rightarrow> string \<Rightarrow> string \<Rightarrow> ('a \<Rightarrow> string) \<Rightarrow> 'a io \<Rightarrow> nat \<Rightarrow> ('a \<Rightarrow> payload) \<Rightarrow> response io"
where
  "audited_json r action target target_of call status f =
     audited r action target target_of call (apiError r) (\<lambda>x. json status (f x))"

definition deleted :: "string \<Rightarrow> payload" where
  "deleted x = PMap [(''deleted'', PText x)]"

definition audited_delete :: "request \<Rightarrow> string \<Rightarrow> string \<Rightarrow> string \<Rightarrow> unit io \<Rightarrow> response io" where
  "audited_delete r action kind x call =
     audited_json r action (kind @ '':'' @ x) (\<lambda>_. kind @ '':'' @ x) call 200 (\<lambda>_. deleted x)"

definition tailFile :: "string \<Rightarrow> int \<Rightarrow> (string \<times> string list) io" where
  "tailFile path lines0 =
     (let n = (if lines0 \<le> 0 \<or> 2000 < lines0 then 300 else nat lines0)
      in bindE (ask (Os ''Open'' [path])) (\<lambda>r. case r of
           Fail m out \<Rightarrow> if out = ''ENOENT'' then returnE (path, []) else throwE (PlainError m)
         | _ \<Rightarrow> bindE (perform (Os ''ReadLines'' [path])) (\<lambda>body.
                 returnE (path, tail_lines n [] (butlast (Split body (CHR 0x0A)))))))"

definition lines_wanted :: "request \<Rightarrow> int" where
  "lines_wanted r = atoiDefault (query_get r ''lines'') 300"

definition log_json :: "string \<Rightarrow> string list \<Rightarrow> payload" where
  "log_json path ls = PMap [(''path'', PText path), (''lines'', PTexts ls)]"

definition job_log :: "request \<Rightarrow> string \<Rightarrow> response io" where
  "job_log r path = orError (apiError r) (tailFile path (lines_wanted r)) (\<lambda>(_, ls). json 200 (log_json path ls))"

section \<open>The host\<close>

definition apiHostStatus :: handler where
  "apiHostStatus r = bindE HostStatus (\<lambda>st. json 200 (PHostStatus st))"

definition apiHostOrphans :: handler where
  "apiHostOrphans r = list_json r HostOrphans POrphans"

text \<open>The two results of \<open>CleanupHostOrphans\<close>; with an error the orphans are not used.\<close>

definition cleanup_result :: "host_orphans io" where
  "cleanup_result = bindE CleanupHostOrphans (\<lambda>(orphans, e). case e of None \<Rightarrow> returnE orphans | Some x \<Rightarrow> throwE x)"

definition apiHostOrphansCleanup :: handler where
  "apiHostOrphansCleanup r =
     audited_json r ''host_orphans_cleanup'' ''host'' (\<lambda>_. ''host'') cleanup_result 200 (\<lambda>o1. PMap [(''cleaned'', POrphans o1)])"

section \<open>SSH keys\<close>

definition apiSSHKeyList :: handler where
  "apiSSHKeyList r = list_json r store_ListSSHKeys PKeys"

definition apiSSHKeyGet :: handler where
  "apiSSHKeyGet r = found_or_404 r (store_GetSSHKey (path_id r)) ''SSH key not found'' (\<lambda>key. json 200 (PKey key))"

text \<open>\<open>lifecycle.Invalid(err.Error(), nil)\<close>.\<close>

definition invalid_api :: "request \<Rightarrow> err \<Rightarrow> response io" where
  "invalid_api r e = apiError r (Invalid (err_text e) [])"

definition apiSSHKeyGenerate :: "decoders \<Rightarrow> handler" where
  "apiSSHKeyGenerate D r =
     with_header ''Cache-Control'' ''no-store''
       (with_json (dec_key D) r (\<lambda>req.
         orError (invalid_api r) (Generate (kr_Name req) (actor_of r)) (\<lambda>generated.
         orError (apiError r) (store_CreateSSHKey (gen_Key generated)) (\<lambda>_.
           seqE (audit r ''ssh_key_generate'' (''ssh-key:'' @ key_ID (gen_Key generated)) ''success'' '''')
             (json 201 (PMap [(''key'', PKey (gen_Key generated)), (''private_key'', PText (gen_PrivateKey generated))]))))))"

definition apiSSHKeyImport :: "decoders \<Rightarrow> handler" where
  "apiSSHKeyImport D r =
     with_json (dec_key D) r (\<lambda>req.
       orError (invalid_api r) (Import (kr_Name req) (kr_PublicKey req) (actor_of r)) (\<lambda>key.
       orError (apiError r) (store_CreateSSHKey key) (\<lambda>_.
         seqE (audit r ''ssh_key_import'' (''ssh-key:'' @ key_ID key) ''success'' '''') (json 201 (PKey key)))))"

definition apiSSHKeyDelete :: handler where
  "apiSSHKeyDelete r =
     orError (apiError r) (store_DeleteSSHKey (path_id r)) (\<lambda>_.
       seqE (audit r ''ssh_key_delete'' (''ssh-key:'' @ path_id r) ''success'' '''') (json 200 (deleted (path_id r))))"

section \<open>Base images\<close>

definition apiBaseImageList :: handler where
  "apiBaseImageList r = list_json r store_ListBaseImages PImages"

definition apiBaseImageRegister :: "decoders \<Rightarrow> handler" where
  "apiBaseImageRegister D r =
     with_json (dec_image D) r (\<lambda>req.
       audited_json r ''base_image_register'' ''base-image'' (\<lambda>img. ''base-image:'' @ img_ID img)
         (RegisterBaseImage req (actor_of r)) 201 PImage)"

definition apiBaseImageBuild :: "decoders \<Rightarrow> handler" where
  "apiBaseImageBuild D r =
     with_json (dec_build D) r (\<lambda>req.
       audited_json r ''base_image_build'' ''image-build-job'' (\<lambda>job. ''image-build-job:'' @ bj_ID job)
         (StartImageBuild req (actor_of r)) 202 PBuildJob)"

definition apiBaseImageUpdate :: "decoders \<Rightarrow> handler" where
  "apiBaseImageUpdate D r =
     with_json (dec_status D) r (\<lambda>status.
       audited_json r ''base_image_status'' (''base-image:'' @ path_id r) (\<lambda>_. ''base-image:'' @ path_id r)
         (UpdateBaseImageStatus (path_id r) status) 200 (POpt PImage))"

definition apiBaseImageDelete :: handler where
  "apiBaseImageDelete r = audited_delete r ''base_image_delete'' ''base-image'' (path_id r) (DeleteBaseImage (path_id r))"

definition apiImageBuildJobGet :: handler where
  "apiImageBuildJobGet r =
     found_or_404 r (store_GetImageBuildJob (path_id r)) ''image build job not found'' (\<lambda>job. json 200 (PBuildJob job))"

definition apiImageBuildJobLogs :: handler where
  "apiImageBuildJobLogs r =
     found_or_404 r (store_GetImageBuildJob (path_id r)) ''image build job not found'' (\<lambda>job. job_log r (bj_LogPath job))"

section \<open>Image hooks\<close>

definition apiImageHookList :: handler where
  "apiImageHookList r = list_json r store_ListImageHooks PHooks"

definition apiImageHookCreate :: "decoders \<Rightarrow> handler" where
  "apiImageHookCreate D r =
     with_json (dec_hook D) r (\<lambda>req.
       audited_json r ''image_hook_create'' ''image-hook'' (\<lambda>hook. ''image-hook:'' @ hook_ID hook)
         (CreateImageHook req (actor_of r)) 201 PHook)"

definition apiImageHookDelete :: handler where
  "apiImageHookDelete r = audited_delete r ''image_hook_delete'' ''image-hook'' (path_id r) (DeleteImageHook (path_id r))"

section \<open>Kernels\<close>

definition apiKernelList :: handler where
  "apiKernelList r = list_json r store_ListKernels PKernels"

definition apiKernelFirecrackerCIScan :: "decoders \<Rightarrow> handler" where
  "apiKernelFirecrackerCIScan D r =
     (let go = (\<lambda>prefix. audited_json r ''kernel_discovery_scan'' ''kernel-discovery'' (\<lambda>job. ''kernel-discovery:'' @ kdj_ID job)
                  (StartKernelDiscovery prefix (actor_of r)) 202 PScanJob)
      in case dec_scan D (rq_Body r) of
           Decoded prefix \<Rightarrow> go prefix
         | DecodeEOF \<Rightarrow> go ''''
         | DecodeError m \<Rightarrow> writeAPIError r 400 ''bad_request'' m [])"

definition apiKernelDiscoveryJobList :: handler where
  "apiKernelDiscoveryJobList r = list_json r store_ListKernelDiscoveryJobs PScanJobs"

definition apiKernelDiscoveryJobGet :: handler where
  "apiKernelDiscoveryJobGet r =
     found_or_404 r (store_GetKernelDiscoveryJob (path_id r)) ''kernel discovery job not found'' (\<lambda>job. json 200 (PScanJob job))"

definition apiKernelDiscoveryItemList :: handler where
  "apiKernelDiscoveryItemList r = list_json r (store_ListKernelDiscoveryItems (query_get r ''job_id'')) PScanItems"

definition apiKernelImportFirecrackerCI :: "decoders \<Rightarrow> handler" where
  "apiKernelImportFirecrackerCI D r =
     with_json (dec_import D) r (\<lambda>req.
       audited_json r ''kernel_import_firecracker_ci'' ''kernel'' (\<lambda>krn. ''kernel:'' @ krn_ID krn)
         (ImportFirecrackerCIKernel (dec_xml D) req (actor_of r)) 201 PKernel)"

definition uploadKernelFromRequest :: "request \<Rightarrow> kernel io" where
  "uploadKernelFromRequest r =
     (case rq_MultipartError r of
        Some m \<Rightarrow> throwE (Invalid ''Kernel upload form is invalid'' [(''kernel'', m)])
      | None \<Rightarrow>
          case rq_File r ''kernel'' of
            FormFile kernelName file \<Rightarrow>
              (let upload = (\<lambda>configName config. UploadKernel \<lparr>uk_Name = FormValue r ''name'', uk_Version = FormValue r ''version'',
                     uk_KernelName = kernelName, uk_KernelReader = Some file, uk_ConfigName = configName, uk_ConfigReader = config\<rparr>
                     (actor_of r))
               in case rq_File r ''config'' of
                    FormFile configName config \<Rightarrow> upload configName (Some config)
                  | Absent \<Rightarrow> upload '''' None
                  | FileError m \<Rightarrow> throwE (Invalid ''Kernel config upload is invalid'' [(''config'', m)]))
          | _ \<Rightarrow> throwE (Invalid ''Kernel file is required'' [(''kernel'', ''required'')]))"

definition apiKernelUpload :: handler where
  "apiKernelUpload r =
     audited_json r ''kernel_upload'' ''kernel'' (\<lambda>krn. ''kernel:'' @ krn_ID krn) (uploadKernelFromRequest r) 201 PKernel"

definition apiKernelUpdate :: "decoders \<Rightarrow> handler" where
  "apiKernelUpdate D r =
     with_json (dec_kernel_update D) r (\<lambda>req.
       audited_json r ''kernel_update'' (''kernel:'' @ path_id r) (\<lambda>_. ''kernel:'' @ path_id r)
         (UpdateKernel (path_id r) req) 200 (POpt PKernel))"

definition apiKernelDelete :: handler where
  "apiKernelDelete r = audited_delete r ''kernel_delete'' ''kernel'' (path_id r) (DeleteKernel (path_id r))"

definition apiKernelTest :: handler where
  "apiKernelTest r =
     audited_json r ''kernel_test'' (''kernel:'' @ path_id r) (\<lambda>job. ''kernel-test-job:'' @ ktj_ID job)
       (StartKernelTest (path_id r) (actor_of r)) 202 (\<lambda>job. PTestJob (EnrichKernelTestJob job))"

definition apiKernelTestJobGet :: handler where
  "apiKernelTestJobGet r =
     found_or_404 r (store_GetKernelTestJob (path_id r)) ''kernel test job not found''
       (\<lambda>job. json 200 (PTestJob (EnrichKernelTestJob job)))"

definition apiKernelTestJobLogs :: handler where
  "apiKernelTestJobLogs r =
     found_or_404 r (store_GetKernelTestJob (path_id r)) ''kernel test job not found'' (\<lambda>job. job_log r (ktj_LogPath job))"

section \<open>Virtual machines\<close>

definition apiVMList :: handler where
  "apiVMList r = list_json r store_ListVMs PVMs"

definition apiVMGet :: handler where
  "apiVMGet r = found_or_404 r (store_GetVM (path_id r)) ''VM not found'' (\<lambda>vm. json 200 (PVM vm))"

definition apiVMCreate :: "decoders \<Rightarrow> handler" where
  "apiVMCreate D r =
     with_json (dec_vm D) r (\<lambda>req.
       orError (apiError r) (CreateVM (toLifecycle req)) (\<lambda>vm.
         seqE (audit r ''vm_create'' (''vm:'' @ vm_ID vm) ''success'' '''') (json 201 (PVM vm))))"

text \<open>The VM is read again; an error of that read is dropped.\<close>

definition apiAction :: "string \<Rightarrow> handler" where
  "apiAction action r =
     audited r (''vm_'' @ action) (''vm:'' @ path_id r) (\<lambda>_. ''vm:'' @ path_id r)
       (if action = ''start'' then StartVM (path_id r) else if action = ''stop'' then StopVM (path_id r) else returnE ())
       (apiError r)
       (\<lambda>_. bindE (tryE (store_GetVM (path_id r))) (\<lambda>found. json 200 (case found of Inr (Some vm) \<Rightarrow> PVM vm | _ \<Rightarrow> PNil)))"

definition apiVMStart :: handler where "apiVMStart r = apiAction ''start'' r"
definition apiVMStop :: handler where "apiVMStop r = apiAction ''stop'' r"

definition no_resources :: resource_request where
  "no_resources = \<lparr>rr_VCPUCount = 0, rr_MemMiB = 0, rr_Restart = False\<rparr>"

definition apiVMRestart :: "decoders \<Rightarrow> handler" where
  "apiVMRestart D r =
     with_optional_json (dec_resources D) no_resources r (\<lambda>req.
       audited_json r ''vm_restart'' (''vm:'' @ path_id r) (\<lambda>_. ''vm:'' @ path_id r)
         (RestartVM (path_id r) (rr_VCPUCount req) (rr_MemMiB req)) 200 (POpt PVM))"

definition apiVMResources :: "decoders \<Rightarrow> handler" where
  "apiVMResources D r =
     with_json (dec_resources D) r (\<lambda>req.
       audited_json r ''vm_resources_update'' (''vm:'' @ path_id r) (\<lambda>_. ''vm:'' @ path_id r)
         (UpdateResources (path_id r) (rr_VCPUCount req) (rr_MemMiB req) (rr_Restart req)) 200 (POpt PVM))"

definition apiVMLogs :: handler where
  "apiVMLogs r =
     found_or_404 r (store_GetVM (path_id r)) ''VM not found'' (\<lambda>vm.
       orError (apiError r) (VMLogs vm (lines_wanted r)) (\<lambda>(path, ls). json 200 (log_json path ls)))"

definition apiVMDelete :: handler where
  "apiVMDelete r =
     orError (apiError r) (DeleteVM (path_id r)) (\<lambda>_.
       seqE (audit r ''vm_delete'' (''vm:'' @ path_id r) ''success'' '''') (json 200 (deleted (path_id r))))"

section \<open>Commands in a VM\<close>

definition apiVMExec :: "decoders \<Rightarrow> handler" where
  "apiVMExec D r =
     with_json (dec_exec D) r (\<lambda>req.
       audited_json r ''vm_exec'' (''vm:'' @ path_id r) (\<lambda>_. ''vm:'' @ path_id r)
         (ExecuteVMCommand (rq_Context r) (path_id r) req) 200 PExecResult)"

definition apiVMExecJobList :: handler where
  "apiVMExecJobList r = list_json r (store_ListVMExecJobs (path_id r)) PExecJobs"

definition apiVMExecJobCreate :: "decoders \<Rightarrow> handler" where
  "apiVMExecJobCreate D r =
     with_json (dec_exec D) r (\<lambda>req.
       audited_json r ''vm_exec_job_create'' (''vm:'' @ path_id r) (\<lambda>job. ''vm-exec-job:'' @ exe_ID job)
         (StartVMExecJob (path_id r) req (actor_of r)) 202 PExecJob)"

abbreviation job_id :: "request \<Rightarrow> string" where "job_id r \<equiv> rq_PathValue r ''job_id''"

definition apiVMExecJobGet :: handler where
  "apiVMExecJobGet r =
     found_or_404 r (store_GetVMExecJob (path_id r) (job_id r)) ''exec job not found'' (\<lambda>job. json 200 (PExecJob job))"

definition apiVMExecJobLogs :: handler where
  "apiVMExecJobLogs r =
     found_or_404 r (store_GetVMExecJob (path_id r) (job_id r)) ''exec job not found'' (\<lambda>job.
       if exe_LogPath job = '''' then json 200 (log_json '''' []) else job_log r (exe_LogPath job))"

definition apiVMExecJobCancel :: handler where
  "apiVMExecJobCancel r =
     audited_json r ''vm_exec_job_cancel'' (''vm-exec-job:'' @ job_id r) (\<lambda>_. ''vm-exec-job:'' @ job_id r)
       (CancelVMExecJob (path_id r) (job_id r)) 200 PExecJob"

section \<open>Networks and policies\<close>

definition referenced :: "string \<Rightarrow> 'a option io \<Rightarrow> 'a option io" where
  "referenced key m =
     (if key = '''' then returnE None
      else bindE (tryE m) (\<lambda>found. returnE (case found of Inr x \<Rightarrow> x | Inl e \<Rightarrow> None)))"

definition apiVMNetwork :: handler where
  "apiVMNetwork r =
     found_or_404 r (store_GetVM (path_id r)) ''VM not found'' (\<lambda>vm.
       orError (apiError r) (store_ListIngressRules (vm_ID vm)) (\<lambda>ingress.
       bindE (referenced (vm_NetworkID vm) (store_GetNetwork (vm_NetworkID vm))) (\<lambda>net.
       bindE (referenced (vm_EgressPolicyID vm) (store_GetEgressPolicy (vm_EgressPolicyID vm))) (\<lambda>policy.
         json 200 (PMap [(''vm'', PVM vm), (''network'', POpt PNetwork net), (''ingress_rules'', PRules ingress),
           (''egress_policy'', POpt PPolicy policy)])))))"

definition apiIngressRuleCreate :: "decoders \<Rightarrow> handler" where
  "apiIngressRuleCreate D r =
     with_json (dec_ingress D) r (\<lambda>req.
       audited_json r ''ingress_rule_create'' (''vm:'' @ path_id r) (\<lambda>rule. ''ingress-rule:'' @ ing_ID rule)
         (AddIngressRule (path_id r) (ir_Protocol req) (ir_HostPort req) (ir_GuestPort req) (ir_Description req)) 201 PRule)"

abbreviation rule_id :: "request \<Rightarrow> string" where "rule_id r \<equiv> rq_PathValue r ''rule_id''"

definition apiIngressRuleDelete :: handler where
  "apiIngressRuleDelete r =
     audited_delete r ''ingress_rule_delete'' ''ingress-rule'' (rule_id r) (DeleteIngressRule (path_id r) (rule_id r))"

definition apiVMEgressPolicy :: "decoders \<Rightarrow> handler" where
  "apiVMEgressPolicy D r =
     with_json (dec_vm_policy D) r (\<lambda>req.
       audited_json r ''egress_policy_assign'' (''vm:'' @ path_id r) (\<lambda>_. ''vm:'' @ path_id r)
         (SetVMEgressPolicy (path_id r) (vp_Mode req) (vp_EgressPolicyID req)) 200 (POpt PVM))"

definition apiNetworkList :: handler where
  "apiNetworkList r = list_json r store_ListNetworks PNetworks"

definition apiNetworkCreate :: "decoders \<Rightarrow> handler" where
  "apiNetworkCreate D r =
     with_json (dec_network D) r (\<lambda>req.
       audited_json r ''network_create'' ''network'' (\<lambda>net. ''network:'' @ nw_ID net)
         (CreateNetwork (nr_Name req) (nr_CIDR req) (nr_GatewayIP req)) 201 PNetwork)"

definition apiNetworkDelete :: handler where
  "apiNetworkDelete r = audited_delete r ''network_delete'' ''network'' (path_id r) (DeleteNetwork (path_id r))"

definition apiEgressPolicyList :: handler where
  "apiEgressPolicyList r = list_json r store_ListEgressPolicies PPolicies"

definition apiEgressPolicyCreate :: "decoders \<Rightarrow> handler" where
  "apiEgressPolicyCreate D r =
     with_json (dec_policy D) r (\<lambda>req.
       audited_json r ''egress_policy_create'' ''egress-policy'' (\<lambda>policy. ''egress-policy:'' @ ep_ID policy)
         (CreateEgressPolicy (pr_Name req) (pr_Mode req) (pr_TCPPorts req) (pr_UDPPorts req) (pr_CIDRs req)) 201 PPolicy)"

definition apiEgressPolicyDelete :: handler where
  "apiEgressPolicyDelete r =
     audited_delete r ''egress_policy_delete'' ''egress-policy'' (path_id r) (DeleteEgressPolicy (path_id r))"

section \<open>Terminals\<close>

text \<open>
  The websocket library asks \<open>checkWSOrigin\<close>; when it does not upgrade the connection it has sent the
  response itself, and the handler sends none.
\<close>

definition upgrade :: "request \<Rightarrow> (response, unit) sum io" where
  "upgrade r =
     bindE (checkWSOrigin r) (\<lambda>allowed.
       if \<not> allowed then bindE (respond 403 (Text (''Forbidden'' @ NL))) (\<lambda>rs. returnE (Inl rs))
       else bindE (ask (Lib ''websocket.Upgrade'' [])) (\<lambda>reply. case reply of
           Ok _ \<Rightarrow> returnE (Inr ())
         | Fail m out \<Rightarrow> bindE (respond 400 (Text out)) (\<lambda>rs. returnE (Inl rs))
         | Response c status sent \<Rightarrow> bindE (respond c (Text sent)) (\<lambda>rs. returnE (Inl rs))))"

definition is_canceled :: "err \<Rightarrow> bool" where
  "is_canceled e \<longleftrightarrow> e = PlainError ''context canceled''"

definition terminal_text :: "err \<Rightarrow> string" where
  "terminal_text e = [CHR 0x0D, CHR 0x0A] @ ''terminal error: '' @ err_text e @ [CHR 0x0D, CHR 0x0A]"

definition wsTerminal :: handler where
  "wsTerminal r =
     bindE (tryE (store_GetVM (path_id r))) (\<lambda>found. case found of
         Inr (Some vm) \<Rightarrow>
           bindE (upgrade r) (\<lambda>up. case up of
               Inl rs \<Rightarrow> returnE rs
             | Inr _ \<Rightarrow>
                 deferE (ignoreE (do_effect (Lib ''websocket.Close'' [])))
                   (seqE (audit r ''terminal_start'' (''vm:'' @ path_id r) ''success'' ''metadata'')
                   (bindE (tryE (SSHTerminal vm \<lparr>ts_Rows = atoiDefault (query_get r ''rows'') 0, ts_Cols = atoiDefault (query_get r ''cols'') 0\<rparr>))
                     (\<lambda>result.
                       seqE (case result of
                           Inl e \<Rightarrow> whenE (\<not> is_canceled e) (ignoreE (do_effect (Lib ''websocket.WriteMessage'' [terminal_text e])))
                         | Inr _ \<Rightarrow> returnE ())
                       (seqE (audit r ''terminal_end'' (''vm:'' @ path_id r) ''success'' ''metadata'') (respond 101 Hijacked))))))
       | _ \<Rightarrow> http_NotFound)"

end
