(* ===== verification/Pages.thy ===== *)
theory Pages
  imports Api
begin

text \<open>
  The browser side of \<open>internal/app/app.go\<close>: the pages, what they are given, and one definition per form
  handler. A page is the name of its template with the data of it; the target of a redirect is the argument
  of \<open>http.Redirect\<close>.
\<close>

section \<open>Documents and static files\<close>

definition static :: handler where
  "static r =
     (let path = TrimPrefix (rq_Path r) ''/static/''
      in if path = '''' \<or> Contains path ''..'' then http_NotFound
         else bindE (config_get (\<lambda>c. StaticDir (Server c))) (\<lambda>dir.
           if dir \<noteq> '''' then
             bindE (stat (Join [dir, path])) (\<lambda>s. case s of
                 Found fi \<Rightarrow> if \<not> fi_IsDir fi then respond 200 (File (Join [dir, path])) else respond 200 (Embedded (rq_Path r))
               | _ \<Rightarrow> respond 200 (Embedded (rq_Path r)))
           else respond 200 (Embedded (rq_Path r))))"

definition serveEmbeddedDoc :: "string \<Rightarrow> string \<Rightarrow> response io" where
  "serveEmbeddedDoc path contentType =
     orError (\<lambda>e. http_Error ''documentation not found'' 404) (perform (Os ''webFS.ReadFile'' [path])) (\<lambda>b.
       with_header ''Content-Type'' contentType
         (with_header ''Cache-Control'' ''public, max-age=300'' (respond 200 (Text b))))"

definition openapiSpec :: handler where
  "openapiSpec r = serveEmbeddedDoc ''docs/openapi.json'' ''application/json; charset=utf-8''"
definition agentDocsMarkdown :: handler where
  "agentDocsMarkdown r = serveEmbeddedDoc ''docs/agents.md'' ''text/markdown; charset=utf-8''"
definition llmsTxt :: handler where
  "llmsTxt r = serveEmbeddedDoc ''docs/llms.txt'' ''text/plain; charset=utf-8''"

definition apiDocsPage :: handler where
  "apiDocsPage r = bindE (optionalBrowserUser r) (\<lambda>u. render ''api_docs.html'' [(''Title'', PText ''API Docs''), (''User'', POpt PUser u)])"

definition agentDocsPage :: handler where
  "agentDocsPage r = bindE (optionalBrowserUser r) (\<lambda>u. render ''docs_agents.html'' [(''Title'', PText ''Agent Docs''), (''User'', POpt PUser u)])"

text \<open>The metadata server that guests ask for authorized keys, from their own address only.\<close>

definition metadataAuthorizedKeys :: handler where
  "metadataAuthorizedKeys r =
     (let vmID = TrimSpace (query_get r ''vm_id''); usr = TrimSpace (query_get r ''user'')
      in if vmID = '''' then http_NotFound
         else bindE (tryE (store_GetVM vmID)) (\<lambda>found. case found of
             Inr (Some vm) \<Rightarrow>
               if sourceIP r \<noteq> vm_GuestIP vm then http_Error ''forbidden'' 403
               else orError (\<lambda>e. http_Error (err_text e) 500) (AuthorizedKeys vm usr) (\<lambda>keys.
                 with_header ''Content-Type'' ''text/plain; charset=utf-8''
                   (with_header ''Cache-Control'' ''no-store'' (respond 200 (Text keys))))
           | _ \<Rightarrow> http_NotFound))"

section \<open>The dashboard\<close>

definition first_usable :: "('a \<Rightarrow> string) \<Rightarrow> 'a list \<Rightarrow> 'a option" where
  "first_usable status xs = find (\<lambda>x. status x = ''active'') xs"

definition defaultCreateVMRequest :: "ssh_key list \<Rightarrow> base_image list \<Rightarrow> kernel list \<Rightarrow> create_vm_form" where
  "defaultCreateVMRequest keys images krns =
     \<lparr>cf_Name = '''', cf_VCPUCount = 2, cf_MemMiB = 2048, cf_SSHPort = 0, cf_DevUser = ''dev'',
      cf_SSHKeyID = (case keys of [] \<Rightarrow> '''' | key # _ \<Rightarrow> key_ID key),
      cf_ExtraAuthorizedKeys = '''', cf_RepoURL = '''', cf_GitRef = ''HEAD'', cf_EgressMode = ''allow_all'', cf_EgressPolicyID = '''',
      cf_NetworkMode = ''routed_ptp'', cf_NetworkID = '''',
      cf_BaseImageID = (case first_usable img_Status images of None \<Rightarrow> '''' | Some img \<Rightarrow> img_ID img),
      cf_RootFSSizeMiB = (case first_usable img_Status images of None \<Rightarrow> 0 | Some img \<Rightarrow> img_VirtualSizeMiB img),
      cf_KernelID = (case first_usable krn_Status krns of None \<Rightarrow> '''' | Some krn \<Rightarrow> krn_ID krn)\<rparr>"

definition dashboardData :: "request \<Rightarrow> page_data io" where
  "dashboardData r =
     bindE store_ListVMs (\<lambda>machines.
     bindE store_ListSSHKeys (\<lambda>keys.
     bindE store_ListNetworks (\<lambda>nets.
     bindE store_ListEgressPolicies (\<lambda>policies.
     bindE store_ListBaseImages (\<lambda>images.
     bindE store_ListKernels (\<lambda>krns.
     bindE HostStatus (\<lambda>st.
       returnE [(''Title'', PText ''BAP Web''), (''User'', PUser (current r)), (''VMs'', PVMs machines), (''SSHKeys'', PKeys keys),
         (''Networks'', PNetworks nets), (''EgressPolicies'', PPolicies policies), (''BaseImages'', PImages images),
         (''Kernels'', PKernels krns), (''HostStatus'', PHostStatus st),
         (''CreateVMForm'', PVMForm (defaultCreateVMRequest keys images krns))])))))))"

definition http_500 :: "err \<Rightarrow> response io" where
  "http_500 e = http_Error (err_text e) 500"

definition dashboard :: handler where
  "dashboard r = orError http_500 (dashboardData r) (render ''dashboard.html'')"

definition renderDashboardError :: "request \<Rightarrow> err \<Rightarrow> response io" where
  "renderDashboardError r e =
     orError http_500 (dashboardData r) (\<lambda>data. render ''dashboard.html'' (set_field ''DashboardError'' (PText (err_text e)) data))"

section \<open>SSH keys\<close>

definition renderSSHKeysPage :: "request \<Rightarrow> page_data \<Rightarrow> response io" where
  "renderSSHKeysPage r data0 =
     listing store_ListSSHKeys data0 (\<lambda>keys data1.
       render ''ssh_keys.html'' (set_fields [(''Title'', PText ''SSH Keys''), (''User'', PUser (current r)), (''SSHKeys'', PKeys keys)] data1))"

definition sshKeysPage :: handler where "sshKeysPage r = renderSSHKeysPage r []"

definition keys_error :: "request \<Rightarrow> err \<Rightarrow> response io" where
  "keys_error r e = renderSSHKeysPage r [(''Error'', PText (err_text e))]"

definition uiSSHKeyGenerate :: handler where
  "uiSSHKeyGenerate r =
     with_header ''Cache-Control'' ''no-store''
       (orError (keys_error r) (Generate (FormValue r ''name'') (actor_of r)) (\<lambda>generated.
        orError (keys_error r) (store_CreateSSHKey (gen_Key generated)) (\<lambda>_.
          seqE (audit r ''ssh_key_generate'' (''ssh-key:'' @ key_ID (gen_Key generated)) ''success'' '''')
            (renderSSHKeysPage r [(''CreatedKey'', PKey (gen_Key generated)), (''PrivateKey'', PText (gen_PrivateKey generated))]))))"

definition uiSSHKeyImport :: handler where
  "uiSSHKeyImport r =
     orError (keys_error r) (Import (FormValue r ''name'') (FormValue r ''public_key'') (actor_of r)) (\<lambda>key.
     orError (keys_error r) (store_CreateSSHKey key) (\<lambda>_.
       seqE (audit r ''ssh_key_import'' (''ssh-key:'' @ key_ID key) ''success'' '''') (SeeOther ''/ssh-keys'')))"

definition uiSSHKeyDelete :: handler where
  "uiSSHKeyDelete r =
     orError (keys_error r) (store_DeleteSSHKey (path_id r)) (\<lambda>_.
       seqE (audit r ''ssh_key_delete'' (''ssh-key:'' @ path_id r) ''success'' '''') (SeeOther ''/ssh-keys''))"

section \<open>Images\<close>

definition renderImagesPage :: "request \<Rightarrow> page_data \<Rightarrow> response io" where
  "renderImagesPage r data =
     orError http_500 store_ListBaseImages (\<lambda>images.
     orError http_500 store_ListImageBuildJobs (\<lambda>jobs.
     orError http_500 store_ListImageHooks (\<lambda>hooks.
       render ''images.html'' (set_fields
         [(''Title'', PText ''Images''), (''User'', PUser (current r)), (''BaseImages'', PImages images),
          (''ImageBuildJobs'', PBuildJobs jobs), (''ImageHooks'', PHooks hooks),
          (''OpenBuildJobID'', PText (query_get r ''build_job''))] data))))"

definition imagesPage :: handler where "imagesPage r = renderImagesPage r []"

definition images_error :: "request \<Rightarrow> err \<Rightarrow> response io" where
  "images_error r e = renderImagesPage r [(''Error'', PText (err_text e))]"

definition uiBaseImageRegister :: handler where
  "uiBaseImageRegister r =
     audited r ''base_image_register'' ''base-image'' (\<lambda>img. ''base-image:'' @ img_ID img)
       (RegisterBaseImage \<lparr>ri_Name = FormValue r ''name'', ri_Path = FormValue r ''path'',
          ri_Status = defaultString (FormValue r ''status'') ''active'', ri_Filesystem = FormValue r ''filesystem'',
          ri_Provenance = FormValue r ''provenance''\<rparr> (actor_of r))
       (images_error r) (\<lambda>_. SeeOther ''/images'')"

definition uiBaseImageBuild :: handler where
  "uiBaseImageBuild r =
     audited r ''base_image_build'' ''image-build-job'' (\<lambda>job. ''image-build-job:'' @ bj_ID job)
       (StartImageBuild \<lparr>br_Name = FormValue r ''name'', br_Filesystem = defaultString (FormValue r ''filesystem'') ''ext4'',
          br_SizeMiB = atoiDefault (FormValue r ''size_mib'') 0, br_Packages = parseListField (FormValue r ''packages''),
          br_HookIDs = rq_Form r ''hook_ids''\<rparr> (actor_of r))
       (images_error r) (\<lambda>job. SeeOther (''/images?build_job='' @ bj_ID job @ ''#build-job-'' @ bj_ID job))"

definition polling_status :: "string \<Rightarrow> bool" where
  "polling_status st \<longleftrightarrow> st = ''queued'' \<or> st = ''running''"

definition log_page :: "request \<Rightarrow> string \<Rightarrow> payload \<Rightarrow> string \<Rightarrow> string \<Rightarrow> response io" where
  "log_page r template job path status =
     orError http_500 (tailFile path (lines_wanted r)) (\<lambda>(_, ls).
       render template [(''Job'', job), (''LogPath'', PText path), (''Lines'', PTexts ls), (''Poll'', PBool (polling_status status))])"

definition uiImageBuildJobLogs :: handler where
  "uiImageBuildJobLogs r =
     orError http_500 (store_GetImageBuildJob (path_id r)) (\<lambda>found. case found of
         None \<Rightarrow> http_NotFound
       | Some job \<Rightarrow> log_page r ''image_build_log.html'' (PBuildJob job) (bj_LogPath job) (bj_Status job))"

definition uiBaseImageAction :: handler where
  "uiBaseImageAction r =
     (let action = TrimSpace (FormValue r ''action'');
          set_status = (\<lambda>st. seqE (UpdateBaseImageStatus (path_id r) st) (returnE ()));
          call = (if action = ''make_active'' then set_status ''active''
                  else if action = ''mark_deprecated'' then set_status ''deprecated''
                  else if action = ''archive'' then set_status ''archived''
                  else if action = ''delete'' then DeleteBaseImage (path_id r)
                  else throwE (Invalid ''Base image action is invalid'' [(''action'', ''select a valid action'')]))
      in audited r (if action = ''delete'' then ''base_image_delete'' else ''base_image_status'')
           (''base-image:'' @ path_id r) (\<lambda>_. ''base-image:'' @ path_id r) call (images_error r) (\<lambda>_. SeeOther ''/images''))"

definition uiBaseImageStatus :: handler where
  "uiBaseImageStatus r =
     audited r ''base_image_status'' (''base-image:'' @ path_id r) (\<lambda>_. ''base-image:'' @ path_id r)
       (UpdateBaseImageStatus (path_id r) (FormValue r ''status'')) (images_error r) (\<lambda>_. SeeOther ''/images'')"

definition uiBaseImageDelete :: handler where
  "uiBaseImageDelete r =
     audited r ''base_image_delete'' (''base-image:'' @ path_id r) (\<lambda>_. ''base-image:'' @ path_id r)
       (DeleteBaseImage (path_id r)) (images_error r) (\<lambda>_. SeeOther ''/images'')"

definition uiImageHookCreate :: handler where
  "uiImageHookCreate r =
     audited r ''image_hook_create'' ''image-hook'' (\<lambda>hook. ''image-hook:'' @ hook_ID hook)
       (CreateImageHook \<lparr>hr_Name = FormValue r ''name'', hr_SourceType = FormValue r ''source_type'', hr_Content = FormValue r ''content'',
          hr_GitURL = FormValue r ''git_url'', hr_GitRef = FormValue r ''git_ref'', hr_GitPath = FormValue r ''git_path''\<rparr> (actor_of r))
       (images_error r) (\<lambda>_. SeeOther ''/images'')"

definition uiImageHookDelete :: handler where
  "uiImageHookDelete r =
     audited r ''image_hook_delete'' (''image-hook:'' @ path_id r) (\<lambda>_. ''image-hook:'' @ path_id r)
       (DeleteImageHook (path_id r)) (images_error r) (\<lambda>_. SeeOther ''/images'')"

section \<open>Kernels\<close>

definition kernelDiscoveryJobByID :: "kernel_discovery_job list \<Rightarrow> string \<Rightarrow> kernel_discovery_job option" where
  "kernelDiscoveryJobByID jobs jid = (if jid = '''' then None else find (\<lambda>j. kdj_ID j = jid) jobs)"

text \<open>The text of the creation time depends on the host's time zone; the view has the time itself.\<close>

definition test_view_of :: "kernel list \<Rightarrow> kernel_test_job \<Rightarrow> test_job_view" where
  "test_view_of krns job =
     (let enriched = EnrichKernelTestJob job;
          kname = (case map_of (rev (map (\<lambda>k. (krn_ID k, krn_Name k)) krns)) (ktj_KernelID job) of None \<Rightarrow> '''' | Some n \<Rightarrow> n);
          gateway = (case ktj_GatewayOK enriched of
              None \<Rightarrow> (''unknown'', ''unknown'')
            | Some ok \<Rightarrow> if ok then (''ok'', ''succeeded'') else (''failed'', ''failed''))
      in \<lparr>tjv_Job = enriched, tjv_KernelName = (if kname = '''' then ktj_KernelID job else kname),
          tjv_GatewayLabel = fst gateway, tjv_GatewayStateClass = snd gateway, tjv_CreatedAt = ktj_CreatedAt job\<rparr>)"

definition kernelTestJobViews :: "kernel_test_job list \<Rightarrow> kernel list \<Rightarrow> test_job_view list" where
  "kernelTestJobViews jobs krns = map (test_view_of krns) jobs"

definition discovery_job_id :: "string \<Rightarrow> string io" where
  "discovery_job_id open_id =
     (if open_id = '''' then bindE store_LatestKernelDiscoveryJob (\<lambda>latest. returnE (case latest of None \<Rightarrow> '''' | Some j \<Rightarrow> kdj_ID j))
      else returnE open_id)"

definition renderKernelsPage :: "request \<Rightarrow> page_data \<Rightarrow> response io" where
  "renderKernelsPage r data =
     orError http_500 store_ListKernels (\<lambda>krns.
     orError http_500 store_ListKernelTestJobs (\<lambda>jobs.
     orError http_500 store_ListKernelDiscoveryJobs (\<lambda>scans.
       (let open_id = query_get r ''discovery_job''
        in orError http_500 (discovery_job_id open_id) (\<lambda>jid.
           orError http_500 (store_ListKernelDiscoveryItems jid) (\<lambda>items.
             (let active = kernelDiscoveryJobByID scans jid;
                  poll = (case active of None \<Rightarrow> '''' | Some j \<Rightarrow> if polling_status (kdj_Status j) then kdj_ID j else '''')
              in bindE (config_get (\<lambda>c. TrimRight (FirecrackerCIBaseURL (Kernels c)) (CHR ''/''))) (\<lambda>base.
                 render ''kernels.html'' (set_fields
                  [(''Title'', PText ''Kernels''), (''User'', PUser (current r)), (''Kernels'', PKernels krns),
                   (''KernelTestJobs'', PTestViews (kernelTestJobViews jobs krns)), (''KernelDiscoveryJobs'', PScanJobs scans),
                   (''KernelDiscoveryItems'', PScanItems items), (''OpenDiscoveryJobID'', PText open_id),
                   (''DiscoveryJobID'', PText jid), (''ActiveDiscoveryJob'', POpt PScanJob active),
                   (''PollDiscoveryJobID'', PText poll), (''FirecrackerCIBaseURL'', PText base),
                   (''OpenKernelTestJobID'', PText (query_get r ''test_job''))] data)))))))))"

definition kernelsPage :: handler where "kernelsPage r = renderKernelsPage r []"

definition kernels_error :: "request \<Rightarrow> err \<Rightarrow> response io" where
  "kernels_error r e = renderKernelsPage r [(''Error'', PText (err_text e))]"

definition uiKernelImportFirecrackerCI :: "decoders \<Rightarrow> handler" where
  "uiKernelImportFirecrackerCI D r =
     audited r ''kernel_import_firecracker_ci'' ''kernel'' (\<lambda>krn. ''kernel:'' @ krn_ID krn)
       (ImportFirecrackerCIKernel (dec_xml D) \<lparr>ik_Name = FormValue r ''name'', ik_Version = FormValue r ''version'',
          ik_CIPrefix = FormValue r ''ci_prefix'', ik_ArtifactID = FormValue r ''artifact_id''\<rparr> (actor_of r))
       (kernels_error r) (\<lambda>_. SeeOther ''/kernels'')"

definition uiKernelFirecrackerCIScan :: handler where
  "uiKernelFirecrackerCIScan r =
     audited r ''kernel_discovery_scan'' ''kernel-discovery'' (\<lambda>job. ''kernel-discovery:'' @ kdj_ID job)
       (StartKernelDiscovery (FormValue r ''ci_prefix'') (actor_of r)) (kernels_error r)
       (\<lambda>job. SeeOther (''/kernels?discovery_job='' @ kdj_ID job @ ''#kernel-discovery''))"

definition uiKernelUpload :: handler where
  "uiKernelUpload r =
     audited r ''kernel_upload'' ''kernel'' (\<lambda>krn. ''kernel:'' @ krn_ID krn) (uploadKernelFromRequest r)
       (kernels_error r) (\<lambda>_. SeeOther ''/kernels'')"

definition uiKernelTest :: handler where
  "uiKernelTest r =
     audited r ''kernel_test'' (''kernel:'' @ path_id r) (\<lambda>job. ''kernel-test-job:'' @ ktj_ID job)
       (StartKernelTest (path_id r) (actor_of r)) (kernels_error r)
       (\<lambda>job. SeeOther (''/kernels?test_job='' @ ktj_ID job @ ''#kernel-test-job-'' @ ktj_ID job))"

definition uiKernelStatus :: handler where
  "uiKernelStatus r =
     audited r ''kernel_update'' (''kernel:'' @ path_id r) (\<lambda>_. ''kernel:'' @ path_id r)
       (UpdateKernel (path_id r) \<lparr>ku_Name = '''', ku_Status = FormValue r ''status'', ku_BootArgs = FormValue r ''boot_args''\<rparr>)
       (kernels_error r) (\<lambda>_. SeeOther ''/kernels'')"

definition uiKernelDelete :: handler where
  "uiKernelDelete r =
     audited r ''kernel_delete'' (''kernel:'' @ path_id r) (\<lambda>_. ''kernel:'' @ path_id r)
       (DeleteKernel (path_id r)) (kernels_error r) (\<lambda>_. SeeOther ''/kernels'')"

definition uiKernelTestJobLogs :: handler where
  "uiKernelTestJobLogs r =
     orError http_500 (store_GetKernelTestJob (path_id r)) (\<lambda>found. case found of
         None \<Rightarrow> http_NotFound
       | Some job \<Rightarrow> log_page r ''kernel_test_log.html'' (PTestJob (EnrichKernelTestJob job)) (ktj_LogPath job) (ktj_Status job))"

section \<open>The table of VMs and the page of a VM\<close>

definition vmsTable :: handler where
  "vmsTable r = orError http_500 store_ListVMs (\<lambda>machines.
     render ''vms_table.html'' [(''User'', PUser (current r)), (''VMs'', PVMs machines)])"

definition vmsTableError :: "request \<Rightarrow> err \<Rightarrow> response io" where
  "vmsTableError r e = orError http_500 store_ListVMs (\<lambda>machines.
     render ''vms_table.html'' [(''User'', PUser (current r)), (''VMs'', PVMs machines), (''TableError'', PText (err_text e))])"

definition vmDetailData :: "request \<Rightarrow> string \<Rightarrow> page_data option io" where
  "vmDetailData r vid =
     bindE (store_GetVM vid) (\<lambda>found. case found of
         None \<Rightarrow> returnE None
       | Some vm \<Rightarrow>
           bindE (referenced (vm_SSHKeyID vm) (store_GetSSHKey (vm_SSHKeyID vm))) (\<lambda>key.
           bindE (store_ListIngressRules (vm_ID vm)) (\<lambda>rules.
           bindE store_ListNetworks (\<lambda>nets.
           bindE store_ListEgressPolicies (\<lambda>policies.
           bindE (referenced (vm_NetworkID vm) (store_GetNetwork (vm_NetworkID vm))) (\<lambda>net.
           bindE (referenced (vm_EgressPolicyID vm) (store_GetEgressPolicy (vm_EgressPolicyID vm))) (\<lambda>policy.
           bindE (VMLogs vm (lines_wanted r)) (\<lambda>(path, ls).
             returnE (Some [(''Title'', PText (vm_Name vm)), (''User'', PUser (current r)), (''VM'', PVM vm), (''SSHKey'', POpt PKey key),
               (''IngressRules'', PRules rules), (''Networks'', PNetworks nets), (''Network'', POpt PNetwork net),
               (''EgressPolicies'', PPolicies policies), (''EgressPolicy'', POpt PPolicy policy),
               (''LogPath'', PText path), (''LogLines'', PTexts ls)])))))))))"

definition detail_page :: "request \<Rightarrow> string \<Rightarrow> (page_data \<Rightarrow> page_data) \<Rightarrow> response io" where
  "detail_page r vid f =
     orError http_500 (vmDetailData r vid) (\<lambda>found. case found of
         None \<Rightarrow> http_NotFound
       | Some data \<Rightarrow> render ''vm_detail.html'' (f data))"

definition vmDetail :: handler where
  "vmDetail r = detail_page r (path_id r) (\<lambda>data. data)"

definition renderVMDetailError :: "request \<Rightarrow> string \<Rightarrow> err \<Rightarrow> response io" where
  "renderVMDetailError r vid e = detail_page r vid (set_field ''DetailError'' (PText (err_text e)))"

section \<open>Creating a VM\<close>

definition no_vm_form :: create_vm_form where
  "no_vm_form = \<lparr>cf_Name = '''', cf_VCPUCount = 0, cf_MemMiB = 0, cf_SSHPort = 0, cf_DevUser = '''', cf_SSHKeyID = '''',
     cf_ExtraAuthorizedKeys = '''', cf_RepoURL = '''', cf_GitRef = '''', cf_EgressMode = '''', cf_EgressPolicyID = '''',
     cf_NetworkMode = '''', cf_NetworkID = '''', cf_BaseImageID = '''', cf_RootFSSizeMiB = 0, cf_KernelID = ''''\<rparr>"

definition filled_in :: "create_vm_form \<Rightarrow> bool" where
  "filled_in f \<longleftrightarrow> cf_Name f \<noteq> '''' \<or> cf_SSHKeyID f \<noteq> '''' \<or> cf_ExtraAuthorizedKeys f \<noteq> '''' \<or> cf_NetworkID f \<noteq> ''''
     \<or> cf_BaseImageID f \<noteq> '''' \<or> cf_KernelID f \<noteq> '''' \<or> cf_VCPUCount f \<noteq> 0 \<or> cf_MemMiB f \<noteq> 0 \<or> cf_RootFSSizeMiB f \<noteq> 0"

definition form_errors :: "err option \<Rightarrow> page_data" where
  "form_errors e = (case e of
       None \<Rightarrow> []
     | Some x \<Rightarrow> [(''CreateVMError'', PText (err_text x)), (''CreateVMFields'', PFields (snd (snd (classifyError x))))])"

definition renderCreateVMForm :: "request \<Rightarrow> create_vm_form \<Rightarrow> err option \<Rightarrow> string \<Rightarrow> response io" where
  "renderCreateVMForm r form formErr success =
     orError http_500 (dashboardData r) (\<lambda>data.
       render ''new_vm_form.html'' (set_fields
         ((if filled_in form then [(''CreateVMForm'', PVMForm form)] else []) @ form_errors formErr @
          (if success \<noteq> '''' then [(''CreateVMSuccess'', PText success)] else [])) data))"

definition vmCreateForm :: handler where
  "vmCreateForm r =
     (let req = createVMRequestFromForm r
      in audited r ''vm_create'' (''vm:'' @ cf_Name req) (\<lambda>vm. ''vm:'' @ vm_ID vm) (CreateVM (toLifecycle req))
           (\<lambda>e. renderCreateVMForm r req (Some e) '''')
           (\<lambda>vm. with_header ''HX-Trigger'' ''vmsChanged''
              (renderCreateVMForm r no_vm_form None (''VM '' @ vm_Name vm @ '' created.''))))"

section \<open>Actions on a VM\<close>

definition from_detail :: "request \<Rightarrow> bool" where
  "from_detail r \<longleftrightarrow> query_get r ''redirect'' = ''detail''"

definition action_error :: "request \<Rightarrow> err \<Rightarrow> response io" where
  "action_error r e = (if from_detail r then renderVMDetailError r (path_id r) e else vmsTableError r e)"

definition action_done :: "request \<Rightarrow> string \<Rightarrow> response io" where
  "action_done r target = (if from_detail r then SeeOther target else vmsTable r)"

definition restart_vm :: "string \<Rightarrow> unit io" where
  "restart_vm vid = seqE (RestartVM vid 0 0) (returnE ())"

definition vmAction :: "string \<Rightarrow> handler" where
  "vmAction action r =
     audited r (''vm_'' @ action) (''vm:'' @ path_id r) (\<lambda>_. ''vm:'' @ path_id r)
       (if action = ''start'' then StartVM (path_id r) else if action = ''stop'' then StopVM (path_id r)
        else if action = ''restart'' then restart_vm (path_id r) else returnE ())
       (action_error r) (\<lambda>_. action_done r (''/vms/'' @ path_id r))"

definition vmStartForm :: handler where "vmStartForm r = vmAction ''start'' r"
definition vmStopForm :: handler where "vmStopForm r = vmAction ''stop'' r"
definition vmRestartForm :: handler where "vmRestartForm r = vmAction ''restart'' r"

definition vmDeleteForm :: handler where
  "vmDeleteForm r =
     audited r ''vm_delete'' (''vm:'' @ path_id r) (\<lambda>_. ''vm:'' @ path_id r) (DeleteVM (path_id r))
       (action_error r) (\<lambda>_. action_done r ''/'')"

definition vmActionForm :: handler where
  "vmActionForm r =
     (let action = TrimSpace (FormValue r ''action'');
          call = (if action = ''start'' then StartVM (path_id r) else if action = ''stop'' then StopVM (path_id r)
                  else if action = ''restart'' then restart_vm (path_id r) else if action = ''delete'' then DeleteVM (path_id r)
                  else throwE (Invalid ''VM action is invalid'' [(''action'', ''select a valid action'')]))
      in audited r (if action \<in> {''start'', ''stop'', ''restart'', ''delete''} then ''vm_'' @ action else ''vm_action'')
           (''vm:'' @ path_id r) (\<lambda>_. ''vm:'' @ path_id r) call (action_error r)
           (\<lambda>_. action_done r (if action = ''delete'' then ''/'' else ''/vms/'' @ path_id r)))"

text \<open>The redirect reads the id of the VM that the call returned: without one the handler panics.\<close>

definition back_to_vm :: "vm option \<Rightarrow> string \<Rightarrow> response io" where
  "back_to_vm vm anchor = (case vm of
       None \<Rightarrow> throwE (PlainError ''invalid memory address or nil pointer dereference'')
     | Some v \<Rightarrow> SeeOther (''/vms/'' @ vm_ID v @ anchor))"

definition detail_error :: "request \<Rightarrow> err \<Rightarrow> response io" where
  "detail_error r e = renderVMDetailError r (path_id r) e"

definition vmResourcesForm :: handler where
  "vmResourcesForm r =
     audited r ''vm_resources_update'' (''vm:'' @ path_id r) (\<lambda>_. ''vm:'' @ path_id r)
       (UpdateResources (path_id r) (atoiDefault (FormValue r ''vcpu_count'') 0) (atoiDefault (FormValue r ''mem_mib'') 0)
          (FormValue r ''restart'' = ''true'' \<or> FormValue r ''restart'' = ''on''))
       (detail_error r) (\<lambda>vm. back_to_vm vm ''#resources'')"

definition vmIngressRuleForm :: handler where
  "vmIngressRuleForm r =
     audited r ''ingress_rule_create'' (''vm:'' @ path_id r) (\<lambda>rule. ''ingress-rule:'' @ ing_ID rule)
       (AddIngressRule (path_id r) (FormValue r ''protocol'') (atoiDefault (FormValue r ''host_port'') 0)
          (atoiDefault (FormValue r ''guest_port'') 0) (FormValue r ''description''))
       (detail_error r) (\<lambda>_. SeeOther (''/vms/'' @ path_id r @ ''#networking''))"

definition vmIngressRuleDeleteForm :: handler where
  "vmIngressRuleDeleteForm r =
     audited r ''ingress_rule_delete'' (''ingress-rule:'' @ rule_id r) (\<lambda>_. ''ingress-rule:'' @ rule_id r)
       (DeleteIngressRule (path_id r) (rule_id r)) (detail_error r) (\<lambda>_. SeeOther (''/vms/'' @ path_id r @ ''#networking''))"

definition vmEgressPolicyForm :: handler where
  "vmEgressPolicyForm r =
     audited r ''egress_policy_assign'' (''vm:'' @ path_id r) (\<lambda>_. ''vm:'' @ path_id r)
       (SetVMEgressPolicy (path_id r) (FormValue r ''egress_mode'') (FormValue r ''egress_policy_id''))
       (detail_error r) (\<lambda>vm. back_to_vm vm ''#networking'')"

section \<open>Networks, policies and the host\<close>

definition uiNetworkCreate :: handler where
  "uiNetworkCreate r =
     audited r ''network_create'' ''network'' (\<lambda>net. ''network:'' @ nw_ID net)
       (CreateNetwork (FormValue r ''name'') (FormValue r ''cidr'') (FormValue r ''gateway_ip''))
       (renderDashboardError r) (\<lambda>_. SeeOther ''/#networks'')"

definition uiNetworkDelete :: handler where
  "uiNetworkDelete r =
     audited r ''network_delete'' (''network:'' @ path_id r) (\<lambda>_. ''network:'' @ path_id r) (DeleteNetwork (path_id r))
       (renderDashboardError r) (\<lambda>_. SeeOther ''/#networks'')"

definition uiEgressPolicyCreate :: handler where
  "uiEgressPolicyCreate r =
     audited r ''egress_policy_create'' ''egress-policy'' (\<lambda>policy. ''egress-policy:'' @ ep_ID policy)
       (CreateEgressPolicy (FormValue r ''name'') (FormValue r ''mode'') (FormValue r ''tcp_ports'') (FormValue r ''udp_ports'')
          (FormValue r ''cidrs''))
       (renderDashboardError r) (\<lambda>_. SeeOther ''/#egress-policies'')"

definition uiEgressPolicyDelete :: handler where
  "uiEgressPolicyDelete r =
     audited r ''egress_policy_delete'' (''egress-policy:'' @ path_id r) (\<lambda>_. ''egress-policy:'' @ path_id r)
       (DeleteEgressPolicy (path_id r)) (renderDashboardError r) (\<lambda>_. SeeOther ''/#egress-policies'')"

definition uiHostOrphansCleanup :: handler where
  "uiHostOrphansCleanup r =
     audited r ''host_orphans_cleanup'' ''host'' (\<lambda>_. ''host'') cleanup_result (renderDashboardError r) (\<lambda>_. SeeOther ''/'')"

end
