(* ===== verification/StoreOpen.thy ===== *)
theory StoreOpen
  imports Service
begin

text \<open>
  \<open>store.Open\<close> and \<open>migrate\<close> of \<open>internal/store/store.go\<close>. The tables of the model have the columns and
  constraints of the current schema: a column that an old database lacks reads as its default, which is the value
  that \<open>ALTER TABLE\<close> gives it, so statements that define tables, columns and indexes, and the copy of
  \<open>rebuildAPITokens\<close>, change no row. What the driver says of the schema is the host's reply. The two migrations
  of rows are the owners of old API tokens and the keys of old VMs.
\<close>

section \<open>The schema\<close>

text \<open>A statement that changes no row.\<close>

definition statement :: "string \<Rightarrow> unit io" where
  "statement q = exec q Inr"

definition table_statements :: "string list" where
  "table_statements = ''PRAGMA journal_mode=WAL'' # map (\<lambda>t. ''CREATE TABLE IF NOT EXISTS '' @ t)
     [''users'', ''sessions'', ''api_tokens'', ''vms'', ''ssh_keys'', ''networks'', ''ingress_rules'', ''egress_policies'',
      ''base_images'', ''image_build_jobs'', ''image_hooks'', ''kernels'', ''kernel_test_jobs'', ''kernel_discovery_jobs'',
      ''kernel_discovery_items'', ''vm_exec_jobs'', ''audit_events'']"

text \<open>The rows of a \<open>PRAGMA\<close>, one per line of the reply.\<close>

definition pragma :: "string \<Rightarrow> string list io" where
  "pragma q = bindE (perform (Sql (''PRAGMA '' @ q))) (\<lambda>out. returnE (filter (\<lambda>l. l \<noteq> '''') (Split out (CHR 0x0A))))"

text \<open>\<open>table_info\<close>: the reply's lines are the names of the columns.\<close>

definition ensureColumn :: "string \<Rightarrow> string \<Rightarrow> string \<Rightarrow> unit io" where
  "ensureColumn table column definition_text =
     bindE (pragma (''table_info('' @ table @ '')'')) (\<lambda>cols.
       if column \<in> set cols then returnE ()
       else statement (''ALTER TABLE '' @ table @ '' ADD COLUMN '' @ column @ '' '' @ definition_text))"

definition text_column :: string where "text_column = ''TEXT NOT NULL DEFAULT '' @ [CHR 0x27, CHR 0x27]"

section \<open>API tokens\<close>

definition quoteIdent :: "string \<Rightarrow> string" where
  "quoteIdent s = [CHR 0x22] @ ReplaceAll s [CHR 0x22] [CHR 0x22, CHR 0x22] @ [CHR 0x22]"

definition indexColumns :: "string \<Rightarrow> string list io" where
  "indexColumns name = pragma (''index_info('' @ quoteIdent name @ '')'')"

fun name_alone :: "string list \<Rightarrow> bool io" where
  "name_alone [] = returnE False"
| "name_alone (index # rest) = bindE (indexColumns index) (\<lambda>cols. if cols = [''name''] then returnE True else name_alone rest)"

text \<open>\<open>index_list\<close>: a line is 1 for a unique index or 0, a space and the name.\<close>

definition apiTokensHaveGlobalNameUnique :: "bool io" where
  "apiTokensHaveGlobalNameUnique =
     bindE (pragma ''index_list(api_tokens)'') (\<lambda>ls. name_alone (map (drop 2) (filter (\<lambda>l. HasPrefix l ''1 '') ls)))"

text \<open>A transaction; an error before the commit rolls it back.\<close>

definition rebuildAPITokens :: "unit io" where
  "rebuildAPITokens =
     seqE (statement ''BEGIN'')
    (seqE (onErrorE (ignoreE (statement ''ROLLBACK''))
       (forE [''CREATE TABLE api_tokens_new'', ''INSERT INTO api_tokens_new SELECT FROM api_tokens'', ''DROP TABLE api_tokens'',
              ''ALTER TABLE api_tokens_new RENAME TO api_tokens''] statement))
     (statement ''COMMIT''))"

text \<open>Tokens without an owner belong to the user who made them.\<close>

definition maker :: "db \<Rightarrow> api_token_row \<Rightarrow> user option" where
  "maker d r = find (\<lambda>u. usr_Username u = tok_CreatedBy (atr_Token r)) (users d)"

definition ownerless :: "db \<Rightarrow> api_token_row \<Rightarrow> bool" where
  "ownerless d r \<longleftrightarrow> tok_OwnerUserID (atr_Token r) = '''' \<and> tok_CreatedBy (atr_Token r) \<noteq> '''' \<and> maker d r \<noteq> None"

definition adopt :: "db \<Rightarrow> api_token_row \<Rightarrow> api_token_row" where
  "adopt d r = (case maker d r of None \<Rightarrow> r | Some u \<Rightarrow> r\<lparr>atr_Token := (atr_Token r)\<lparr>tok_OwnerUserID := usr_ID u\<rparr>\<rparr>)"

definition migrateAPITokens :: "unit io" where
  "migrateAPITokens =
     seqE (ensureColumn ''api_tokens'' ''owner_user_id'' text_column)
    (seqE (exec ''UPDATE api_tokens''
       (\<lambda>d. put (tbl_update api_tokens_uniq (ownerless d) (adopt d) (api_tokens d)) (\<lambda>rows. d\<lparr>api_tokens := rows\<rparr>)))
    (bindE apiTokensHaveGlobalNameUnique (\<lambda>global.
       seqE (whenE global rebuildAPITokens)
         (statement ''CREATE UNIQUE INDEX IF NOT EXISTS api_tokens_owner_name_idx ON api_tokens(owner_user_id, name)''))))"

section \<open>SSH keys\<close>

definition legacy_key :: "vm \<Rightarrow> string \<times> string \<times> string \<Rightarrow> string \<Rightarrow> string \<Rightarrow> ssh_key" where
  "legacy_key vm k kid name = (case k of (normalized, fingerprint, keyType) \<Rightarrow>
     \<lparr>key_ID = kid, key_Name = name, key_PublicKey = normalized, key_Fingerprint = fingerprint, key_KeyType = keyType,
      key_CreatedBy = ''migration'', key_CreatedAt = vm_CreatedAt vm, key_LastUsedAt = None\<rparr>)"

definition name_taken :: "err \<Rightarrow> bool" where
  "name_taken e \<longleftrightarrow> Contains (err_text e) ''UNIQUE constraint failed: ssh_keys.name''"

definition legacy_name :: "vm \<Rightarrow> string" where "legacy_name vm = vm_Name vm @ ''-legacy''"

definition numbered :: "string \<Rightarrow> int \<Rightarrow> string" where "numbered name i = name @ ''-'' @ Itoa i"

definition out_of_names :: err where "out_of_names = PlainError ''no more rounds''"

text \<open>
  The loop over \<open>i\<close> until a name is free; a row's text for its creation time is never empty, and the clock is
  read for the default anyway.
\<close>

fun insert_legacy :: "nat \<Rightarrow> vm \<Rightarrow> string \<times> string \<times> string \<Rightarrow> int \<Rightarrow> string \<Rightarrow> string \<Rightarrow> string io" where
  "insert_legacy 0 vm k i kid name = throwE out_of_names"
| "insert_legacy (Suc n) vm k i kid name =
     bindE (tryE (bindE Now (\<lambda>_. store_CreateSSHKey (legacy_key vm k kid name)))) (\<lambda>r. case r of
         Inr _ \<Rightarrow> returnE kid
       | Inl e \<Rightarrow>
           if \<not> name_taken e then throwE e
           else bindE (Hex 4) (\<lambda>x. insert_legacy n vm k (i + 1) (''legacy-'' @ vm_ID vm @ ''-'' @ x) (numbered (legacy_name vm) i)))"

text \<open>One round more than there are rows that could have taken a name.\<close>

definition legacy_rounds :: "nat io" where
  "legacy_rounds = getsW (\<lambda>w. Suc (length (ssh_keys (database w))))"

definition legacy_key_id :: "vm \<Rightarrow> string \<times> string \<times> string \<Rightarrow> string io" where
  "legacy_key_id vm k =
     bindE (store_GetSSHKeyByFingerprint (fst (snd k))) (\<lambda>existing. case existing of
         Some key \<Rightarrow> returnE (key_ID key)
       | None \<Rightarrow> bindE legacy_rounds (\<lambda>n. insert_legacy n vm k 2 (''legacy-'' @ vm_ID vm) (legacy_name vm)))"

definition set_legacy_key :: "string \<Rightarrow> string \<Rightarrow> string \<Rightarrow> unit io" where
  "set_legacy_key vid kid key = exec ''UPDATE vms''
     (\<lambda>d. put (tbl_update vms_uniq (\<lambda>v. vm_ID v = vid) (\<lambda>v. v\<lparr>vm_SSHKeyID := kid, vm_ManagedSSHPublicKey := key\<rparr>) (vms d))
           (\<lambda>rows. d\<lparr>vms := rows\<rparr>))"

definition migrate_legacy :: "vm \<Rightarrow> unit io" where
  "migrate_legacy vm =
     (if vm_SSHKeyID vm \<noteq> '''' then returnE ()
      else bindE (tryE (NormalizePublicKey (vm_ManagedSSHPublicKey vm))) (\<lambda>r. case r of
          Inl e \<Rightarrow> returnE ()
        | Inr k \<Rightarrow> bindE (legacy_key_id vm k) (\<lambda>kid. set_legacy_key (vm_ID vm) kid (fst k))))"

definition migrateLegacySSHKeys :: "unit io" where
  "migrateLegacySSHKeys =
     bindE (query ''SELECT FROM vms'' (\<lambda>d. filter (\<lambda>v. vm_ManagedSSHPublicKey v \<noteq> '''') (vms d))) (\<lambda>legacyKeys.
       forE legacyKeys migrate_legacy)"

section \<open>Opening\<close>

definition migrate :: "unit io" where
  "migrate =
     seqE (forE table_statements statement)
    (seqE (ensureColumn ''vms'' ''ssh_key_id'' text_column)
    (seqE (ensureColumn ''vms'' ''egress_policy_id'' text_column)
    (seqE (ensureColumn ''vms'' ''base_image_id'' text_column)
    (seqE (ensureColumn ''vms'' ''rootfs_size_mib'' ''INTEGER NOT NULL DEFAULT 0'')
    (seqE (ensureColumn ''vms'' ''kernel_id'' text_column)
    (seqE migrateAPITokens migrateLegacySSHKeys))))))"

definition store_Close :: "unit io" where
  "store_Close = do_effect (Lib ''sql.DB.Close'' [])"

definition store_Open :: "string \<Rightarrow> string \<Rightarrow> unit io" where
  "store_Open driver dsn =
     (if driver \<noteq> ''sqlite'' then throwE (PlainError (''unsupported database driver '' @ Quote driver))
      else seqE (do_effect (Lib ''sql.Open'' [''sqlite'', dsn])) (onErrorE (ignoreE store_Close) migrate))"


section \<open>The database evolves\<close>

lemma ro_statement [ro]: "ro_io (statement q)"
  unfolding statement_def exec_def by (intro ro) (simp add: ro_io_def)
lemma ro_pragma [ro]: "ro_io (pragma q)" unfolding pragma_def by (intro ro)
lemma ro_ensureColumn [ro]: "ro_io (ensureColumn t c d)" unfolding ensureColumn_def by (intro ro)
lemma ro_name_alone [ro]: "ro_io (name_alone xs)"
  by (induction xs) (auto simp: indexColumns_def intro!: ro)
lemma ro_index_check [ro]: "ro_io apiTokensHaveGlobalNameUnique" unfolding apiTokensHaveGlobalNameUnique_def by (intro ro ro_name_alone)
lemma ro_rebuild [ro]: "ro_io rebuildAPITokens"
  unfolding rebuildAPITokens_def onErrorE_def ignoreE_def by (intro ro)
lemma ro_store_Close [ro]: "ro_io store_Close" unfolding store_Close_def by (intro ro)

lemma evolves_CreateSSHKey [evo]: "evolves (store_CreateSSHKey k)"
  unfolding store_CreateSSHKey_def by (rule evolves_table) (simp add: table_facts)

lemma evolves_migrateAPITokens: "evolves migrateAPITokens"
  unfolding migrateAPITokens_def
  by (intro evo evolves_ro [OF ro_ensureColumn] evolves_ro [OF ro_index_check] evolves_ro [OF ro_rebuild]
      evolves_ro [OF ro_statement] evolves_table) (simp add: table_facts)

lemma evolves_insert_legacy: "evolves (insert_legacy n vm k i kid name)"
  by (induction n arbitrary: i kid name) (simp_all, (intro evo; simp)+)

lemma evolves_legacy_key_id: "evolves (legacy_key_id vm k)"
  unfolding legacy_key_id_def legacy_rounds_def store_GetSSHKeyByFingerprint_def by (intro evo evolves_insert_legacy)

text \<open>The id that a legacy key gets is that of a row.\<close>

lemma insert_legacy_known:
  "insert_legacy n vm k i kid name w = (Inr x, w') \<Longrightarrow> x \<in> key_ID ` set (ssh_keys (database w'))"
proof (induction n arbitrary: i kid name w)
  case (Suc n)
  obtain r v where r: "bindE Now (\<lambda>_. store_CreateSSHKey (legacy_key vm k kid name)) w = (r, v)" by fastforce
  show ?case
  proof (cases r)
    case (Inl e)
    then show ?thesis using Suc r by (auto simp: bindE_def tryE_def throwE_def split: if_splits sum.splits prod.splits)
  next
    case (Inr u)
    then have x: "x = kid" "w' = v" using Suc.prems r by (auto simp: bindE_def tryE_def returnE_def)
    obtain v0 where "store_CreateSSHKey (legacy_key vm k kid name) v0 = (Inr u, v)" using r Inr by (auto simp: io_run)
    from exec_db [OF this [unfolded store_CreateSSHKey_def]] show ?thesis
      using x by (auto simp: put_Inr legacy_key_def split: prod.splits dest!: tbl_insert_Inr)
  qed
qed (simp add: throwE_def)

lemma legacy_key_id_known:
  assumes "legacy_key_id vm k w = (Inr kid, v)"
  shows "kid \<in> key_ID ` set (ssh_keys (database v))"
proof -
  obtain found v1 where f: "store_GetSSHKeyByFingerprint (fst (snd k)) w = (Inr found, v1)"
    and rest: "(case found of Some key \<Rightarrow> returnE (key_ID key)
       | None \<Rightarrow> bindE legacy_rounds (\<lambda>n. insert_legacy n vm k 2 (''legacy-'' @ vm_ID vm) (legacy_name vm))) v1 = (Inr kid, v)"
    using assms by (auto simp: legacy_key_id_def io_run)
  show ?thesis
  proof (cases found)
    case None
    then show ?thesis using rest by (auto simp: io_run intro: insert_legacy_known)
  next
    case (Some key)
    then have "key \<in> set (ssh_keys (database v1))" "v = v1" "kid = key_ID key"
      using query_db [OF f [unfolded store_GetSSHKeyByFingerprint_def]] rest
      by (auto simp: returnE_def dest!: sym [of "Some key"] find_SomeD)
    then show ?thesis by simp
  qed
qed

lemma sound_set_legacy_key: "kid \<in> key_ID ` set (ssh_keys (database w)) \<Longrightarrow> sound w (set_legacy_key vid kid key)"
  unfolding set_legacy_key_def by (rule sound_exec) (auto simp: put_Inr intro: key_backfilled)

lemma evolves_migrate_legacy: "evolves (migrate_legacy vm)"
proof (rule evolves_sound)
  fix w :: world
  have k: "sound v (bindE (legacy_key_id vm k) (\<lambda>kid. set_legacy_key (vm_ID vm) kid (fst k)))" for v k
    by (rule sound_bind [OF sound_evolves [OF evolves_legacy_key_id]]) (rule sound_set_legacy_key, rule legacy_key_id_known)
  show "sound w (migrate_legacy vm)"
    unfolding migrate_legacy_def
    by (intro sound_if sound_ro [OF ro_return] sound_bind sound_evolves [OF evolves_try [OF evolves_ro [OF ro_NormalizePublicKey]]])
      (simp add: k sound_ro ro_return split: sum.split)
qed

lemma evolves_migrate: "evolves migrate"
  unfolding migrate_def migrateLegacySSHKeys_def
  by (intro evo evolves_ro [OF ro_statement] evolves_ro [OF ro_ensureColumn] evolves_migrateAPITokens evolves_migrate_legacy)

lemma evolves_store_Open: "evolves (store_Open driver dsn)"
  unfolding store_Open_def by (intro evo evolves_ro [OF ro_store_Close] evolves_migrate)

section \<open>The search for a name ends\<close>

text \<open>The names that the loop has still to try, from a number on, that a row has.\<close>

definition later_names :: "string \<Rightarrow> int \<Rightarrow> string set" where
  "later_names base i = numbered base ` {i..}"

lemma later_names_next: "later_names base i = insert (numbered base i) (later_names base (i + 1))"
proof -
  have "{i..} = insert i {i + 1..}" by auto
  then show ?thesis by (simp add: later_names_def)
qed

lemma numbered_later: "numbered base i \<notin> later_names base (i + 1)"
  by (auto simp: later_names_def numbered_def dest: Itoa_inj)

lemma other_errors_pass: "\<not> name_taken (unique_error ''ssh_keys.id (1555)'')" "\<not> name_taken (unique_error ''ssh_keys.fingerprint (2067)'')"
  by code_simp+

lemma insert_legacy_ends:
  assumes "sql_ok (host_of w)" "name \<notin> later_names (legacy_name vm) i"
    and "card (key_Name ` set (ssh_keys (database w)) \<inter> insert name (later_names (legacy_name vm) i)) < n"
  shows "fst (insert_legacy n vm k i kid name w) \<noteq> Inl out_of_names"
  using assms
proof (induction n arbitrary: i kid name w)
  case (Suc n)
  let ?names = "key_Name ` set (ssh_keys (database w))" and ?key = "legacy_key vm k kid name"
  let ?w1 = "w\<lparr>trail := Clock # trail w\<rparr>"
  let ?w2 = "?w1\<lparr>trail := Sql ''INSERT INTO ssh_keys'' # trail ?w1\<rparr>"
  have sql: "sql_ok (host_of ?w1)" using Suc.prems(1) by simp
  show ?case
  proof (cases "violated ssh_keys_uniq (ssh_keys (database w)) ?key")
    case None
    then show ?thesis
      by (simp add: bindE_def tryE_def returnE_def Now_def store_CreateSSHKey_def exec_ok [OF sql] tbl_insert_def put_def)
  next
    case (Some c)
    then have c: "c \<in> {''ssh_keys.id (1555)'', ''ssh_keys.name (2067)'', ''ssh_keys.fingerprint (2067)''}"
      by (auto simp: violated_def ssh_keys_uniq_def split: if_splits)
    have taken: "name \<in> ?names" if "name_taken (unique_error c)"
    proof -
      have "c = ''ssh_keys.name (2067)''" using that c other_errors_pass by blast
      then show ?thesis using Some by (auto simp: violated_def ssh_keys_uniq_def list_ex_iff legacy_key_def split: if_splits prod.splits)
    qed
    have run: "insert_legacy (Suc n) vm k i kid name w = (if \<not> name_taken (unique_error c) then (Inl (unique_error c), ?w2)
        else bindE (Hex 4) (\<lambda>x. insert_legacy n vm k (i + 1) (''legacy-'' @ vm_ID vm @ ''-'' @ x) (numbered (legacy_name vm) i)) ?w2)"
      using Some by (simp add: bindE_def tryE_def returnE_def throwE_def Now_def store_CreateSSHKey_def exec_ok [OF sql] tbl_insert_def put_def)
    show ?thesis
    proof (cases "name_taken (unique_error c)")
      case False
      then show ?thesis using run c by (auto simp: out_of_names_def unique_error_def)
    next
      case True
      let ?later = "later_names (legacy_name vm)"
      have eq: "?names \<inter> insert name (?later i) = insert name (?names \<inter> ?later i)" using taken [OF True] by auto
      have "card (?names \<inter> ?later i) < n"
        using Suc.prems(2,3) unfolding eq by (subst (asm) card_insert_disjoint) auto
      moreover have "insert (numbered (legacy_name vm) i) (?later (i + 1)) = ?later i" by (rule later_names_next [symmetric])
      ultimately have "fst (insert_legacy n vm k (i + 1) kid' (numbered (legacy_name vm) i) v) \<noteq> Inl out_of_names"
        if "host_of v = host_of w" "database v = database w" for v :: world and kid'
        using Suc.IH [of v "numbered (legacy_name vm) i" "i + 1" kid'] Suc.prems(1) that numbered_later by simp
      then show ?thesis using run True by (simp add: bindE_def Hex_def)
    qed
  qed
qed simp

text \<open>The rounds of \<open>legacy_rounds\<close> are enough, as \<open>migrateLegacySSHKeys\<close> starts with the name without a number.\<close>

lemma legacy_name_first: "legacy_name vm \<notin> later_names (legacy_name vm) i"
  by (auto simp: later_names_def numbered_def)

lemma legacy_rounds_enough:
  assumes "sql_ok (host_of w)"
  shows "fst (bindE legacy_rounds (\<lambda>n. insert_legacy n vm k 2 kid (legacy_name vm)) w) \<noteq> Inl out_of_names"
proof -
  have "card (key_Name ` set (ssh_keys (database w)) \<inter> A) \<le> length (ssh_keys (database w))" for A
    by (meson List.finite_set card_image_le card_length card_mono finite_imageI inf_le1 order_trans)
  then have "card (key_Name ` set (ssh_keys (database w)) \<inter> A) < Suc (length (ssh_keys (database w)))" for A
    by (simp add: le_imp_less_Suc)
  from insert_legacy_ends [OF assms legacy_name_first this] show ?thesis
    by (simp add: legacy_rounds_def bindE_def getsW_def)
qed

end
