(* ===== verification/Routes.thy ===== *)
theory Routes
  imports Pages StoreOpen
begin

text \<open>
  The router of \<open>internal/app/app.go\<close>: the table of patterns with the access each handler is wrapped in, the
  matching of \<open>http.ServeMux\<close> (Go 1.24) on the escaped path, the middlewares around it, the metadata
  server and \<open>New\<close>.
\<close>

section \<open>Patterns\<close>

datatype seg = Lit string | Wild string | Multi

definition parse_seg :: "string \<Rightarrow> seg" where
  "parse_seg s =
     (if s = '''' then Multi else if HasPrefix s ''{'' \<and> HasSuffix s ''}'' then Wild (butlast (tl s)) else Lit s)"

text \<open>A method and a path; a path that ends with a slash stands for all that begins with it.\<close>

definition parse_pattern :: "string \<Rightarrow> string \<times> seg list" where
  "parse_pattern p = (case cut p (CHR '' '') of
       (m, None) \<Rightarrow> ('''', map parse_seg (Split (tl m) (CHR ''/'')))
     | (m, Some path) \<Rightarrow> (m, map parse_seg (Split (tl path) (CHR ''/''))))"

text \<open>The segments of a path, each unescaped; a final slash is a segment of its own.\<close>

definition pathUnescape :: "string \<Rightarrow> string" where
  "pathUnescape s = (case url_unescape EncodePath s of Inl e \<Rightarrow> s | Inr x \<Rightarrow> x)"

definition path_segs :: "string \<Rightarrow> string list" where
  "path_segs p =
     (if p = '''' then []
      else let ss = Split (tl p) (CHR ''/'')
           in map pathUnescape (butlast ss) @ [if last ss = '''' then ''/'' else pathUnescape (last ss)])"

text \<open>The values of the wildcards if the pattern matches.\<close>

fun match_segs :: "seg list \<Rightarrow> string list \<Rightarrow> (string \<times> string) list option" where
  "match_segs [] [] = Some []"
| "match_segs (Multi # ps) (s # ss) = Some []"
| "match_segs (Lit l # ps) (s # ss) = (if s = l then match_segs ps ss else None)"
| "match_segs (Wild x # ps) (s # ss) =
     (if s = ''/'' then None else map_option (\<lambda>vs. (x, s) # vs) (match_segs ps ss))"
| "match_segs _ _ = None"

text \<open>A match is exact unless a final slash stands for something.\<close>

fun exact_match :: "seg list \<Rightarrow> string list \<Rightarrow> bool" where
  "exact_match [] ss = (ss = [])"
| "exact_match (Multi # ps) ss = (ss = [''/''])"
| "exact_match (p # ps) [] = False"
| "exact_match (p # ps) (s # ss) = exact_match ps ss"

section \<open>ServeMux\<close>

datatype access = Public | User | Admin

definition guarded :: "access \<Rightarrow> handler \<Rightarrow> handler" where
  "guarded acc h = (case acc of Public \<Rightarrow> h | User \<Rightarrow> requireAuth h | Admin \<Rightarrow> requireAuth (requireAdmin h))"

type_synonym route = "string \<times> access \<times> handler"

definition cleanPath :: "string \<Rightarrow> string" where
  "cleanPath p =
     (if p = '''' then ''/''
      else let q = (if HasPrefix p ''/'' then p else ''/'' @ p); np = Clean q
           in if HasSuffix q ''/'' \<and> np \<noteq> ''/'' then np @ ''/'' else np)"

text \<open>
  The routes whose pattern matches a method and segments. A pattern without a final slash is more specific
  than one with it, and then the longer one is; a \<open>GET\<close> pattern also serves \<open>HEAD\<close>.
\<close>

definition serves :: "string \<Rightarrow> string \<Rightarrow> bool" where
  "serves pattern_method method \<longleftrightarrow> pattern_method = method \<or> pattern_method = ''GET'' \<and> method = ''HEAD''"

definition route_match :: "string \<Rightarrow> string list \<Rightarrow> route \<Rightarrow> (string \<times> string) list option" where
  "route_match method ss rt =
     (case parse_pattern (fst rt) of (m, ps) \<Rightarrow> if serves m method then match_segs ps ss else None)"

definition is_subtree :: "route \<Rightarrow> bool" where
  "is_subtree rt \<longleftrightarrow> (case parse_pattern (fst rt) of (m, ps) \<Rightarrow> Multi \<in> set ps)"

definition longer :: "route \<Rightarrow> route \<Rightarrow> route" where
  "longer a b = (if length (snd (parse_pattern (fst b))) < length (snd (parse_pattern (fst a))) then a else b)"

definition find_route :: "route list \<Rightarrow> string \<Rightarrow> string list \<Rightarrow> route option" where
  "find_route rs method ss =
     (let ms = filter (\<lambda>rt. route_match method ss rt \<noteq> None) rs
      in case filter (\<lambda>rt. \<not> is_subtree rt) ms of
           rt # _ \<Rightarrow> Some rt
         | [] \<Rightarrow> (case ms of [] \<Rightarrow> None | rt # rest \<Rightarrow> Some (foldl longer rt rest)))"

definition exactly :: "route option \<Rightarrow> string list \<Rightarrow> bool" where
  "exactly found ss \<longleftrightarrow> (case found of None \<Rightarrow> False | Some rt \<Rightarrow> exact_match (snd (parse_pattern (fst rt))) ss)"

text \<open>The methods that some pattern serves for a path, as the \<open>Allow\<close> header lists them.\<close>

definition matchingMethods :: "route list \<Rightarrow> string \<Rightarrow> string list" where
  "matchingMethods rs path =
     (let hit = (\<lambda>p rt. match_segs (snd (parse_pattern (fst rt))) (path_segs p) \<noteq> None);
          found = filter (\<lambda>rt. hit path rt \<or> \<not> HasSuffix path ''/'' \<and> hit (path @ ''/'') rt) rs;
          ms = map (\<lambda>rt. fst (parse_pattern (fst rt))) found
      in sort (remdups (ms @ (if ''GET'' \<in> set ms then [''HEAD''] else []))))"

definition redirect_url :: "request \<Rightarrow> string \<Rightarrow> response io" where
  "redirect_url r path = respond 301 (Location (url_String (no_url\<lparr>u_Path := path, u_RawQuery := rq_RawQuery r\<rparr>)))"

definition not_allowed :: "string list \<Rightarrow> response io" where
  "not_allowed methods = with_header ''Allow'' (join '', '' methods) (http_Error ''Method Not Allowed'' 405)"

definition path_values :: "(string \<times> string) list \<Rightarrow> string \<Rightarrow> string" where
  "path_values vs k = (case map_of vs k of None \<Rightarrow> '''' | Some v \<Rightarrow> v)"

definition dispatch :: "route \<Rightarrow> string list \<Rightarrow> handler" where
  "dispatch rt ss r =
     (case route_match (rq_Method r) ss rt of
        None \<Rightarrow> http_NotFound
      | Some vs \<Rightarrow> (case rt of (p, acc, h) \<Rightarrow> guarded acc h (r\<lparr>rq_PathValue := path_values vs\<rparr>)))"

definition ServeMux :: "route list \<Rightarrow> handler" where
  "ServeMux rs r =
     (let connect = (rq_Method r = ''CONNECT'');
          path = (if connect then rq_EscapedPath r else cleanPath (rq_EscapedPath r));
          found = find_route rs (rq_Method r) (path_segs path);
          slash = find_route rs (rq_Method r) (path_segs (path @ ''/''))
      in if \<not> exactly found (path_segs path) \<and> \<not> HasSuffix path ''/'' \<and> exactly slash (path_segs (path @ ''/''))
         then redirect_url r (cleanPath (rq_Path r) @ ''/'')
         else if \<not> connect \<and> path \<noteq> rq_EscapedPath r then redirect_url r path
         else case found of
             Some rt \<Rightarrow> dispatch rt (path_segs path) r
           | None \<Rightarrow>
               (let methods = matchingMethods rs path in if methods \<noteq> [] then not_allowed methods else http_NotFound))"

section \<open>The table\<close>

definition routes :: "decoders \<Rightarrow> route list" where
  "routes D =
     [
      (''GET /static/'', Public, static),
      (''GET /openapi.json'', Public, openapiSpec),
      (''GET /docs/api'', Public, apiDocsPage),
      (''GET /docs/agents'', Public, agentDocsPage),
      (''GET /docs/agents.md'', Public, agentDocsMarkdown),
      (''GET /llms.txt'', Public, llmsTxt),
      (''GET /setup'', Public, setupGet),
      (''POST /setup'', Public, setupPost),
      (''GET /login'', Public, loginGet),
      (''POST /login'', Public, loginPost),
      (''POST /logout'', User, logoutPost),
      (''GET /'', User, dashboard),
      (''GET /ssh-keys'', User, sshKeysPage),
      (''GET /tokens'', User, apiTokensPage),
      (''GET /images'', Admin, imagesPage),
      (''GET /kernels'', Admin, kernelsPage),
      (''POST /ui/ssh-keys/generate'', User, uiSSHKeyGenerate),
      (''POST /ui/ssh-keys/import'', User, uiSSHKeyImport),
      (''POST /ui/ssh-keys/{id}/delete'', User, uiSSHKeyDelete),
      (''POST /ui/api-tokens'', User, uiAPITokenCreate),
      (''POST /ui/api-tokens/{id}/action'', User, uiAPITokenAction),
      (''POST /ui/base-images/register'', Admin, uiBaseImageRegister),
      (''POST /ui/base-images/build'', Admin, uiBaseImageBuild),
      (''POST /ui/base-images/{id}/action'', Admin, uiBaseImageAction),
      (''POST /ui/base-images/{id}/status'', Admin, uiBaseImageStatus),
      (''POST /ui/base-images/{id}/delete'', Admin, uiBaseImageDelete),
      (''GET /ui/image-build-jobs/{id}/logs'', Admin, uiImageBuildJobLogs),
      (''POST /ui/image-hooks'', Admin, uiImageHookCreate),
      (''POST /ui/image-hooks/{id}/delete'', Admin, uiImageHookDelete),
      (''POST /ui/kernels/import-firecracker-ci'', Admin, uiKernelImportFirecrackerCI D),
      (''POST /ui/kernels/firecracker-ci/scan'', Admin, uiKernelFirecrackerCIScan),
      (''POST /ui/kernels/upload'', Admin, uiKernelUpload),
      (''POST /ui/kernels/{id}/test'', Admin, uiKernelTest),
      (''POST /ui/kernels/{id}/status'', Admin, uiKernelStatus),
      (''POST /ui/kernels/{id}/delete'', Admin, uiKernelDelete),
      (''GET /ui/kernel-test-jobs/{id}/logs'', Admin, uiKernelTestJobLogs),
      (''GET /ui/vms-table'', User, vmsTable),
      (''POST /ui/vms'', User, vmCreateForm),
      (''POST /ui/vms/{id}/action'', User, vmActionForm),
      (''POST /ui/vms/{id}/start'', User, vmStartForm),
      (''POST /ui/vms/{id}/stop'', User, vmStopForm),
      (''POST /ui/vms/{id}/restart'', User, vmRestartForm),
      (''POST /ui/vms/{id}/delete'', User, vmDeleteForm),
      (''POST /ui/vms/{id}/resources'', User, vmResourcesForm),
      (''POST /ui/vms/{id}/ingress-rules'', User, vmIngressRuleForm),
      (''POST /ui/vms/{id}/ingress-rules/{rule_id}/delete'', User, vmIngressRuleDeleteForm),
      (''POST /ui/vms/{id}/egress-policy'', User, vmEgressPolicyForm),
      (''POST /ui/networks'', User, uiNetworkCreate),
      (''POST /ui/networks/{id}/delete'', User, uiNetworkDelete),
      (''POST /ui/egress-policies'', User, uiEgressPolicyCreate),
      (''POST /ui/egress-policies/{id}/delete'', User, uiEgressPolicyDelete),
      (''POST /ui/host/orphans/cleanup'', User, uiHostOrphansCleanup),
      (''GET /vms/{id}'', User, vmDetail),
      (''GET /api/health'', Public, apiHealth),
      (''GET /api/session'', User, apiSession),
      (''GET /api/tokens'', User, apiTokenList),
      (''POST /api/tokens'', User, apiTokenCreate (dec_token D)),
      (''DELETE /api/tokens/{id}'', User, apiTokenRevoke),
      (''GET /api/users'', Admin, apiUserList),
      (''GET /api/host/status'', User, apiHostStatus),
      (''GET /api/host/orphans'', User, apiHostOrphans),
      (''POST /api/host/orphans/cleanup'', User, apiHostOrphansCleanup),
      (''GET /api/ssh-keys'', User, apiSSHKeyList),
      (''POST /api/ssh-keys/generate'', User, apiSSHKeyGenerate D),
      (''POST /api/ssh-keys/import'', User, apiSSHKeyImport D),
      (''GET /api/ssh-keys/{id}'', User, apiSSHKeyGet),
      (''DELETE /api/ssh-keys/{id}'', User, apiSSHKeyDelete),
      (''GET /api/base-images'', User, apiBaseImageList),
      (''POST /api/base-images/register'', Admin, apiBaseImageRegister D),
      (''POST /api/base-images/build'', Admin, apiBaseImageBuild D),
      (''PATCH /api/base-images/{id}'', Admin, apiBaseImageUpdate D),
      (''DELETE /api/base-images/{id}'', Admin, apiBaseImageDelete),
      (''GET /api/image-build-jobs/{id}'', Admin, apiImageBuildJobGet),
      (''GET /api/image-build-jobs/{id}/logs'', Admin, apiImageBuildJobLogs),
      (''GET /api/image-hooks'', Admin, apiImageHookList),
      (''POST /api/image-hooks'', Admin, apiImageHookCreate D),
      (''DELETE /api/image-hooks/{id}'', Admin, apiImageHookDelete),
      (''GET /api/kernels'', User, apiKernelList),
      (''POST /api/kernels/firecracker-ci/scan'', Admin, apiKernelFirecrackerCIScan D),
      (''GET /api/kernels/firecracker-ci/scan-jobs'', Admin, apiKernelDiscoveryJobList),
      (''GET /api/kernels/firecracker-ci/scan-jobs/{id}'', Admin, apiKernelDiscoveryJobGet),
      (''GET /api/kernels/firecracker-ci/items'', Admin, apiKernelDiscoveryItemList),
      (''POST /api/kernels/import-firecracker-ci'', Admin, apiKernelImportFirecrackerCI D),
      (''POST /api/kernels/upload'', Admin, apiKernelUpload),
      (''PATCH /api/kernels/{id}'', Admin, apiKernelUpdate D),
      (''DELETE /api/kernels/{id}'', Admin, apiKernelDelete),
      (''POST /api/kernels/{id}/test'', Admin, apiKernelTest),
      (''GET /api/kernel-test-jobs/{id}'', Admin, apiKernelTestJobGet),
      (''GET /api/kernel-test-jobs/{id}/logs'', Admin, apiKernelTestJobLogs),
      (''GET /api/vms'', User, apiVMList),
      (''POST /api/vms'', User, apiVMCreate D),
      (''GET /api/vms/{id}'', User, apiVMGet),
      (''POST /api/vms/{id}/start'', User, apiVMStart),
      (''POST /api/vms/{id}/stop'', User, apiVMStop),
      (''POST /api/vms/{id}/restart'', User, apiVMRestart D),
      (''PUT /api/vms/{id}/resources'', User, apiVMResources D),
      (''GET /api/vms/{id}/logs'', User, apiVMLogs),
      (''POST /api/vms/{id}/exec'', User, apiVMExec D),
      (''GET /api/vms/{id}/exec-jobs'', User, apiVMExecJobList),
      (''POST /api/vms/{id}/exec-jobs'', User, apiVMExecJobCreate D),
      (''GET /api/vms/{id}/exec-jobs/{job_id}'', User, apiVMExecJobGet),
      (''GET /api/vms/{id}/exec-jobs/{job_id}/logs'', User, apiVMExecJobLogs),
      (''POST /api/vms/{id}/exec-jobs/{job_id}/cancel'', User, apiVMExecJobCancel),
      (''GET /api/vms/{id}/network'', User, apiVMNetwork),
      (''POST /api/vms/{id}/ingress-rules'', User, apiIngressRuleCreate D),
      (''DELETE /api/vms/{id}/ingress-rules/{rule_id}'', User, apiIngressRuleDelete),
      (''PUT /api/vms/{id}/egress-policy'', User, apiVMEgressPolicy D),
      (''DELETE /api/vms/{id}'', User, apiVMDelete),
      (''GET /api/networks'', User, apiNetworkList),
      (''POST /api/networks'', User, apiNetworkCreate D),
      (''DELETE /api/networks/{id}'', User, apiNetworkDelete),
      (''GET /api/egress-policies'', User, apiEgressPolicyList),
      (''POST /api/egress-policies'', User, apiEgressPolicyCreate D),
      (''DELETE /api/egress-policies/{id}'', User, apiEgressPolicyDelete),
      (''GET /ws/vms/{id}/terminal'', User, wsTerminal)]"

definition Router :: "decoders \<Rightarrow> handler" where
  "Router D = securityHeaders (hostGuard (requestID (ServeMux (routes D))))"

definition metadata_routes :: "route list" where
  "metadata_routes = [(''GET /metadata/v1/authorized-keys'', Public, metadataAuthorizedKeys)]"

definition metadata_server :: handler where
  "metadata_server = ServeMux metadata_routes"

section \<open>Starting\<close>

definition ensureDirs :: "unit io" where
  "ensureDirs =
     bindE (config_get (\<lambda>c. [StateDir (Paths c), LogDir (Paths c), KeyDir (Paths c), RuntimeDir (Paths c), ImageDir (Paths c),
         KernelDir (Paths c), BaseImageDir (Paths c), BuildDir (Images c), HookDir (Images c)])) (\<lambda>dirs.
       forE dirs (\<lambda>dir. mkdirAll dir ''0700''))"

text \<open>
  What \<open>New\<close> does once the store is open and the templates are parsed: every error is logged only. \<open>Close\<close>
  ignores its errors.
\<close>

definition startMetadataServer :: "unit io" where
  "startMetadataServer =
     bindE (config_get (\<lambda>c. MetadataBindAddress (Server c) @ '':'' @ Itoa (MetadataPort (Server c)))) (\<lambda>addr.
       ignoreE (do_effect (Go ''metadata server'' [addr])))"

definition startup :: "unit io" where
  "startup =
     seqE (ignoreE Reconcile)
     (seqE startMetadataServer
     (seqE (ignoreE MigrateSSHAccess)
     (seqE (ignoreE EnsureDefaultBaseImage)
     (seqE (ignoreE EnsureDefaultKernel)
       (bindE (config_get Database) (\<lambda>d.
         whenE (Driver d = ''sqlite'') (ignoreE (os_call ''Chmod'' [DSN d, ''0600'']))))))))"

text \<open>\<open>lifecycle.New\<close>: a new process has no terminal keys and no running jobs.\<close>

definition new_service :: "unit io" where
  "new_service = modifyW (\<lambda>w. w\<lparr>terminalKeys := [], execCancels := [], canceledCtx := []\<rparr>)"

definition New :: "unit io" where
  "New =
     seqE ensureDirs
       (bindE (config_get Database) (\<lambda>d.
          seqE (store_Open (Driver d) (DSN d))
         (seqE (onErrorE (ignoreE store_Close) (do_effect (Lib ''template.ParseFS'' [''templates/*.html''])))
         (seqE new_service startup))))"

definition Close :: "unit io" where
  "Close = seqE (ignoreE (do_effect (Lib ''http.Server.Shutdown'' [''2s'']))) (ignoreE store_Close)"

end
