(* ===== verification/WebSteps.thy ===== *)
theory WebSteps
  imports Routes
begin

text \<open>
  Every handler of the web application writes by the steps of \<open>Evolution\<close>: the composition rules \<open>evo\<close> for the
  shapes of \<open>Http\<close> and \<open>Api\<close>, the tables of users, sessions, tokens, keys and audit entries, which no invariant
  speaks of, and then one line per handler. So the invariants of the service hold after any requests.
\<close>

section \<open>Shapes of handlers\<close>

lemma evolves_bool [evo]: "evolves m \<Longrightarrow> evolves n \<Longrightarrow> evolves (case b of True \<Rightarrow> m | False \<Rightarrow> n)"
  by (cases b) simp_all

lemma evolves_respond [evo]: "evolves (respond s b)" unfolding respond_def by (intro evo)
lemma evolves_with_header [evo]: "evolves m \<Longrightarrow> evolves (with_header k v m)" unfolding with_header_def by (intro evo)
lemma evolves_set_cookie [evo]: "evolves m \<Longrightarrow> evolves (set_cookie ck m)" unfolding set_cookie_def by (intro evo)
lemma evolves_answers [evo]:
  "evolves (http_Error t s)" "evolves http_NotFound" "evolves (SeeOther t)" "evolves (render n data)" "evolves (json s v)"
  unfolding http_Error_def http_NotFound_def SeeOther_def render_def json_def by (intro evo)+
lemma evolves_api_errors [evo]: "evolves (writeAPIError r s c t fs)" "evolves (apiError r e)" "evolves (deny r s c t)"
  "evolves (http_500 e)"
  unfolding writeAPIError_def apiError_def deny_def http_500_def by (intro evo)+

lemma evolves_orError [evo]:
  "(\<And>e. evolves (g e)) \<Longrightarrow> evolves m \<Longrightarrow> (\<And>x. evolves (f x)) \<Longrightarrow> evolves (orError g m f)"
  unfolding orError_def by (intro evo)

lemma evolves_with_json [evo]: "(\<And>x. evolves (f x)) \<Longrightarrow> evolves (with_json dec r f)"
  unfolding with_json_def by (cases "dec (rq_Body r)") (auto intro!: evo)

lemma evolves_with_optional_json [evo]: "(\<And>x. evolves (f x)) \<Longrightarrow> evolves (with_optional_json dec z r f)"
  unfolding with_optional_json_def by (intro evo)

section \<open>Tables of their own\<close>

lemma evolves_users_and_keys [evo]:
  "evolves (store_CreateUser u)" "evolves (store_CreateSession s)" "evolves (store_CreateAPIToken t h)"
  unfolding store_CreateUser_def store_CreateSession_def store_CreateAPIToken_def
  by (rule evolves_table, simp add: table_facts)+

lemma evolves_update_token [evo]: "evolves (update_token tid f)"
  unfolding update_token_def by (rule evolves_table) (simp add: table_facts)

lemma evolves_touches [evo]:
  "evolves (store_TouchAPIToken tid)" "evolves (store_RevokeAPIToken tid)" "evolves (store_TouchSession sid t)"
  unfolding store_TouchSession_def store_TouchAPIToken_def store_RevokeAPIToken_def
  by ((intro evo)+, intro evo evolves_table, simp add: table_facts)

lemma evolves_deletions [evo]: "evolves (store_DeleteSession sid)" "evolves (store_DeleteSSHKey kid)"
  unfolding store_DeleteSession_def store_DeleteSSHKey_def
  by (intro evo evolves_aside, auto simp: table_facts)+

lemma evolves_Audit [evo]: "evolves (store_Audit a s c t out rid m)"
  unfolding store_Audit_def by (intro evo evolves_aside) (auto simp: table_facts)

lemma evolves_audit [evo]: "evolves (audit r a t out m)" unfolding audit_def by (intro evo)

lemma evolves_audited [evo]:
  "evolves m \<Longrightarrow> (\<And>e. evolves (g e)) \<Longrightarrow> (\<And>x. evolves (f x)) \<Longrightarrow> evolves (audited r a t tf m g f)"
  unfolding audited_def by (intro evo)

section \<open>Credentials\<close>

lemmas read_rows = store_HasUsers_def store_UserByUsername_def store_UserByID_def store_ListUsers_def store_SessionByID_def
  store_ListAPITokens_def store_ListAPITokensByOwner_def store_GetAPITokenByID_def store_GetAPITokenByHash_def
  store_ListSSHKeys_def store_GetSSHKey_def store_ListBaseImages_def store_ListImageBuildJobs_def store_GetImageBuildJob_def
  store_ListImageHooks_def store_ListKernels_def store_ListKernelTestJobs_def store_GetKernelTestJob_def
  store_ListKernelDiscoveryJobs_def store_GetKernelDiscoveryJob_def store_ListKernelDiscoveryItems_def
  store_LatestKernelDiscoveryJob_def store_ListVMs_def store_GetVM_def store_ListNetworks_def store_GetNetwork_def
  store_ListIngressRules_def store_ListEgressPolicies_def store_GetEgressPolicy_def store_ListVMExecJobs_def store_GetVMExecJob_def

lemma ro_reads [ro]:
  "ro_io store_HasUsers" "ro_io (store_UserByUsername n)" "ro_io (store_UserByID u)" "ro_io store_ListUsers"
  "ro_io (store_SessionByID s)" "ro_io store_ListAPITokens" "ro_io (store_ListAPITokensByOwner u)"
  "ro_io (store_GetAPITokenByID t)" "ro_io (store_GetAPITokenByHash h)" "ro_io store_ListSSHKeys" "ro_io (store_GetSSHKey k)"
  "ro_io store_ListBaseImages" "ro_io store_ListImageBuildJobs" "ro_io (store_GetImageBuildJob j)" "ro_io store_ListImageHooks"
  "ro_io store_ListKernels" "ro_io store_ListKernelTestJobs" "ro_io (store_GetKernelTestJob j)"
  "ro_io store_ListKernelDiscoveryJobs" "ro_io (store_GetKernelDiscoveryJob j)" "ro_io (store_ListKernelDiscoveryItems j)"
  "ro_io store_LatestKernelDiscoveryJob" "ro_io store_ListNetworks" "ro_io store_ListEgressPolicies"
  "ro_io (store_ListVMExecJobs v)" "ro_io (store_GetVMExecJob v j)"
  unfolding read_rows by (intro ro)+

lemmas evolves_reads [evo] = ro_reads [THEN evolves_ro] evolves_ro [OF ro_ListVMs] evolves_ro [OF ro_GetVM]
  evolves_ro [OF ro_GetNetwork] evolves_ro [OF ro_GetEgressPolicy] evolves_ro [OF ro_ListIngressRules]

lemma evolves_credentials [evo]: "evolves (currentTokenUser secret)" "evolves (currentUser r)" "evolves (optionalBrowserUser r)"
  unfolding currentTokenUser_def currentUser_def optionalBrowserUser_def by (intro evo)+

lemma evolves_middlewares [evo]:
  "(\<And>r. evolves (h r)) \<Longrightarrow> evolves (session_auth h r)" "(\<And>r. evolves (h r)) \<Longrightarrow> evolves (token_auth secret h r)"
  "(\<And>r. evolves (h r)) \<Longrightarrow> evolves (requireAdmin h r)" "(\<And>r. evolves (h r)) \<Longrightarrow> evolves (requestID h r)"
  "(\<And>r. evolves (h r)) \<Longrightarrow> evolves (securityHeaders h r)" "(\<And>r. evolves (h r)) \<Longrightarrow> evolves (hostGuard h r)"
  unfolding session_auth_def token_auth_def requireAdmin_def requestID_def securityHeaders_def hostGuard_def
  by (intro evo; simp)+

lemma evolves_requireAuth [evo]: "(\<And>r. evolves (h r)) \<Longrightarrow> evolves (requireAuth h r)"
  unfolding requireAuth_def by (intro evo)

lemma evolves_guarded [evo]: "(\<And>r. evolves (h r)) \<Longrightarrow> evolves (guarded acc h r)"
  by (cases acc) (simp_all add: guarded_def evo)

section \<open>Readers of the host\<close>

lemma ro_tailFile [ro]: "ro_io (tailFile p n)"
  unfolding tailFile_def Let_def by (intro ro)

lemma ro_VMLogs [ro]: "ro_io (VMLogs vm n)"
  unfolding VMLogs_def Let_def by (intro ro)

lemma ro_check_entry [ro]: "ro_io m \<Longrightarrow> ro_io (check_entry n m)"
  unfolding check_entry_def by (intro ro)

lemma ro_NetworkConflicts [ro]: "ro_io NetworkConflicts"
  unfolding NetworkConflicts_def Let_def by (intro ro)

lemma ro_checks [ro]: "list_all (\<lambda>c. ro_io (snd c)) cs \<Longrightarrow> ro_io (mapE (\<lambda>(n, m). check_entry n m) cs)"
  by (induction cs) (auto intro!: ro)

lemma ro_HostStatus [ro]: "ro_io HostStatus"
  unfolding HostStatus_def Let_def commandOK_def
  by (intro ro) (simp add: ro_requireFile ro_requireExecutable ro_run ro_bind ro_DefaultKernel ro_option ro_throw)

lemma ro_cleanup_result [ro]: "ro_io cleanup_result"
  unfolding cleanup_result_def by (intro ro ro_CleanupHostOrphans)

lemma ro_SSHTerminal [ro]: "ro_io (SSHTerminal vm sz)"
  unfolding SSHTerminal_def Let_def by (intro ro)

lemma ro_referenced [ro]: "ro_io m \<Longrightarrow> ro_io (referenced k m)"
  unfolding referenced_def by (intro ro)

lemma ro_dashboardData [ro]: "ro_io (dashboardData r)" unfolding dashboardData_def by (intro ro)
lemma ro_vmDetailData [ro]: "ro_io (vmDetailData r vid)" unfolding vmDetailData_def by (intro ro)
lemma ro_bcrypt [ro]: "ro_io (GenerateFromPassword p)" "ro_io (CompareHashAndPassword h p)" "ro_io (credentials u p)"
  unfolding GenerateFromPassword_def CompareHashAndPassword_def credentials_def by (intro ro)+
lemma ro_token_parts [ro]: "ro_io (token_expiry s)" "ro_io (defaultAPITokenForm u)" "ro_io (apiTokenViews ts)" "ro_io (visible_tokens r)"
  unfolding token_expiry_def defaultAPITokenForm_def apiTokenViews_def visible_tokens_def Let_def by (intro ro)+
lemma ro_upgrade [ro]: "ro_io (upgrade r)"
  unfolding upgrade_def checkWSOrigin_def respond_def by (intro ro)
lemma ro_discovery_job_id [ro]: "ro_io (discovery_job_id s)" unfolding discovery_job_id_def by (intro ro)

lemmas evolves_readers [evo] = evolves_ro [OF ro_tailFile] evolves_ro [OF ro_VMLogs] evolves_ro [OF ro_HostStatus]
  evolves_ro [OF ro_HostOrphans] evolves_ro [OF ro_cleanup_result] evolves_ro [OF ro_SSHTerminal]
  evolves_ro [OF ro_dashboardData] evolves_ro [OF ro_vmDetailData]
  evolves_ro [OF ro_bcrypt(1)] evolves_ro [OF ro_bcrypt(2)] evolves_ro [OF ro_bcrypt(3)]
  evolves_ro [OF ro_token_parts(1)] evolves_ro [OF ro_token_parts(2)] evolves_ro [OF ro_token_parts(3)]
  evolves_ro [OF ro_token_parts(4)] evolves_ro [OF ro_upgrade] evolves_ro [OF ro_AuthorizedKeys]
  evolves_ro [OF ro_Import] evolves_ro [OF ro_ExecuteVMCommand] evolves_ro [OF ro_discovery_job_id]

lemmas evolves_service [evo] = evolves_CreateVM evolves_StartVM evolves_StopVM evolves_DeleteVM evolves_RestartVM
  evolves_UpdateResources evolves_CreateNetwork evolves_DeleteNetwork evolves_CreateEgressPolicy evolves_DeleteEgressPolicy
  evolves_SetVMEgressPolicy evolves_AddIngressRule evolves_DeleteIngressRule evolves_Reconcile evolves_MigrateSSHAccess
  evolves_StartVMExecJob evolves_CancelVMExecJob evolves_RegisterBaseImage evolves_UpdateBaseImageStatus evolves_DeleteBaseImage
  evolves_CreateImageHook evolves_DeleteImageHook evolves_StartImageBuild evolves_UploadKernel evolves_ImportKernel
  evolves_UpdateKernel evolves_DeleteKernel evolves_StartKernelDiscovery evolves_StartKernelTest

section \<open>Handlers\<close>

lemma evolves_shapes [evo]:
  "evolves m \<Longrightarrow> evolves (list_json r m f)" "evolves q \<Longrightarrow> (\<And>x. evolves (g x)) \<Longrightarrow> evolves (found_or_404 r q t g)"
  "evolves n \<Longrightarrow> evolves (audited_json r a t tf n s k)" "evolves d \<Longrightarrow> evolves (audited_delete r a kd x d)"
  "evolves (job_log r p)" "evolves (invalid_api r e)"
  unfolding list_json_def found_or_404_def audited_json_def audited_delete_def job_log_def invalid_api_def
  by (intro evo; simp)+

lemma evolves_referenced [evo]: "evolves m \<Longrightarrow> evolves (referenced k m)"
  unfolding referenced_def by (intro evo)

lemma evolves_listing [evo]: "evolves m \<Longrightarrow> (\<And>xs d. evolves (f xs d)) \<Longrightarrow> evolves (listing m data f)"
  unfolding listing_def by (intro evo)

lemma evolves_entry [evo]: "evolves (setupGet r)" "evolves (setupPost r)" "evolves (loginGet r)" "evolves (loginPost r)" "evolves (logoutPost r)"
  unfolding setupGet_def setupPost_def loginGet_def loginPost_def logoutPost_def Let_def by (intro evo)+

lemma evolves_token_calls [evo]: "evolves (createAPIToken u req)" "evolves (revokeAPIToken u tid)" "evolves (renderAPITokensPage r data)"
  unfolding createAPIToken_def revokeAPIToken_def renderAPITokensPage_def Let_def by (intro evo)+

lemma evolves_tokens [evo]: "evolves (apiTokensPage r)" "evolves (uiAPITokenCreate r)" "evolves (uiAPITokenAction r)" "evolves (apiHealth r)"
  "evolves (apiSession r)" "evolves (apiUserList r)" "evolves (apiTokenList r)" "evolves (apiTokenCreate dec r)" "evolves (apiTokenRevoke r)"
  unfolding apiTokensPage_def uiAPITokenCreate_def uiAPITokenAction_def apiHealth_def apiSession_def apiUserList_def
    apiTokenList_def apiTokenCreate_def apiTokenRevoke_def Let_def
  by (intro evo)+

lemma evolves_documents [evo]: "evolves (static r)" "evolves (serveEmbeddedDoc p t)" "evolves (apiDocsPage r)" "evolves (agentDocsPage r)"
  "evolves (metadataAuthorizedKeys r)"
  unfolding static_def serveEmbeddedDoc_def apiDocsPage_def agentDocsPage_def metadataAuthorizedKeys_def Let_def
  by (intro evo)+

lemma evolves_more_documents [evo]: "evolves (openapiSpec r)" "evolves (agentDocsMarkdown r)" "evolves (llmsTxt r)"
  unfolding openapiSpec_def agentDocsMarkdown_def llmsTxt_def by (intro evo)+

section \<open>The API\<close>

lemma evolves_uploadKernelFromRequest [evo]: "evolves (uploadKernelFromRequest r)"
  unfolding uploadKernelFromRequest_def Let_def by (auto intro!: evo split: option.splits form_file.splits)

lemma evolves_apiAction [evo]: "evolves (apiAction a r)"
  unfolding apiAction_def by (intro evo)

lemma evolves_scan [evo]: "evolves (apiKernelFirecrackerCIScan D r)"
  unfolding apiKernelFirecrackerCIScan_def Let_def by (cases "dec_scan D (rq_Body r)") (auto intro!: evo)

lemma evolves_wsTerminal [evo]: "evolves (wsTerminal r)"
  unfolding wsTerminal_def by (intro evo)

lemma evolves_api1 [evo]:
  "evolves (apiHostStatus r)" "evolves (apiHostOrphans r)" "evolves (apiHostOrphansCleanup r)"
  "evolves (apiSSHKeyList r)" "evolves (apiSSHKeyGet r)" "evolves (apiSSHKeyGenerate D r)"
  "evolves (apiSSHKeyImport D r)" "evolves (apiSSHKeyDelete r)" "evolves (apiBaseImageList r)"
  "evolves (apiBaseImageRegister D r)" "evolves (apiBaseImageBuild D r)" "evolves (apiBaseImageUpdate D r)"
  "evolves (apiBaseImageDelete r)" "evolves (apiImageBuildJobGet r)" "evolves (apiImageBuildJobLogs r)"
  "evolves (apiImageHookList r)" "evolves (apiImageHookCreate D r)" "evolves (apiImageHookDelete r)"
  unfolding apiHostStatus_def apiHostOrphans_def apiHostOrphansCleanup_def apiSSHKeyList_def apiSSHKeyGet_def
  apiSSHKeyGenerate_def apiSSHKeyImport_def apiSSHKeyDelete_def apiBaseImageList_def apiBaseImageRegister_def
  apiBaseImageBuild_def apiBaseImageUpdate_def apiBaseImageDelete_def apiImageBuildJobGet_def apiImageBuildJobLogs_def
  apiImageHookList_def apiImageHookCreate_def apiImageHookDelete_def Let_def
  by (intro evo)+

lemma evolves_api2 [evo]:
  "evolves (apiKernelList r)" "evolves (apiKernelDiscoveryJobList r)" "evolves (apiKernelDiscoveryJobGet r)"
  "evolves (apiKernelDiscoveryItemList r)" "evolves (apiKernelImportFirecrackerCI D r)" "evolves (apiKernelUpload r)"
  "evolves (apiKernelUpdate D r)" "evolves (apiKernelDelete r)" "evolves (apiKernelTest r)"
  "evolves (apiKernelTestJobGet r)" "evolves (apiKernelTestJobLogs r)" "evolves (apiVMList r)" "evolves (apiVMGet r)"
  "evolves (apiVMCreate D r)" "evolves (apiVMRestart D r)" "evolves (apiVMResources D r)" "evolves (apiVMLogs r)"
  "evolves (apiVMDelete r)"
  unfolding apiKernelList_def apiKernelDiscoveryJobList_def apiKernelDiscoveryJobGet_def
  apiKernelDiscoveryItemList_def apiKernelImportFirecrackerCI_def apiKernelUpload_def apiKernelUpdate_def
  apiKernelDelete_def apiKernelTest_def apiKernelTestJobGet_def apiKernelTestJobLogs_def apiVMList_def apiVMGet_def
  apiVMCreate_def apiVMRestart_def apiVMResources_def apiVMLogs_def apiVMDelete_def Let_def
  by (intro evo)+

lemma evolves_api3 [evo]:
  "evolves (apiVMExec D r)" "evolves (apiVMExecJobList r)" "evolves (apiVMExecJobCreate D r)"
  "evolves (apiVMExecJobGet r)" "evolves (apiVMExecJobLogs r)" "evolves (apiVMExecJobCancel r)"
  "evolves (apiVMNetwork r)" "evolves (apiIngressRuleCreate D r)" "evolves (apiIngressRuleDelete r)"
  "evolves (apiVMEgressPolicy D r)" "evolves (apiNetworkList r)" "evolves (apiNetworkCreate D r)"
  "evolves (apiNetworkDelete r)" "evolves (apiEgressPolicyList r)" "evolves (apiEgressPolicyCreate D r)"
  "evolves (apiEgressPolicyDelete r)" "evolves (apiVMStart r)" "evolves (apiVMStop r)"
  unfolding apiVMExec_def apiVMExecJobList_def apiVMExecJobCreate_def apiVMExecJobGet_def apiVMExecJobLogs_def
  apiVMExecJobCancel_def apiVMNetwork_def apiIngressRuleCreate_def apiIngressRuleDelete_def apiVMEgressPolicy_def
  apiNetworkList_def apiNetworkCreate_def apiNetworkDelete_def apiEgressPolicyList_def apiEgressPolicyCreate_def
  apiEgressPolicyDelete_def apiVMStart_def apiVMStop_def Let_def
  by (intro evo)+

section \<open>The pages\<close>

lemma evolves_renders [evo]: "evolves (renderDashboardError r e)" "evolves (renderSSHKeysPage r data)" "evolves (keys_error r e)"
  "evolves (renderImagesPage r data)" "evolves (images_error r e)" "evolves (renderKernelsPage r data)" "evolves (kernels_error r e)"
  "evolves (vmsTable r)" "evolves (vmsTableError r e)" "evolves (detail_page r vid f)" "evolves (renderVMDetailError r vid e)"
  "evolves (renderCreateVMForm r form fe t)" "evolves (action_error r e)" "evolves (action_done r t)" "evolves (restart_vm vid)"
  "evolves (back_to_vm v t)" "evolves (detail_error r e)" "evolves (log_page r t job p st)"
  unfolding renderDashboardError_def renderSSHKeysPage_def keys_error_def renderImagesPage_def images_error_def
    renderKernelsPage_def kernels_error_def vmsTable_def vmsTableError_def detail_page_def renderVMDetailError_def
    renderCreateVMForm_def action_error_def action_done_def restart_vm_def back_to_vm_def detail_error_def log_page_def Let_def
  by (intro evo)+

lemma evolves_vmAction [evo]: "evolves (vmAction a r)"
  unfolding vmAction_def by (intro evo)

lemma evolves_pages1 [evo]:
  "evolves (dashboard r)" "evolves (sshKeysPage r)" "evolves (uiSSHKeyGenerate r)" "evolves (uiSSHKeyImport r)"
  "evolves (uiSSHKeyDelete r)" "evolves (imagesPage r)" "evolves (uiBaseImageRegister r)"
  "evolves (uiBaseImageBuild r)" "evolves (uiImageBuildJobLogs r)" "evolves (uiBaseImageAction r)"
  "evolves (uiBaseImageStatus r)" "evolves (uiBaseImageDelete r)" "evolves (uiImageHookCreate r)"
  unfolding dashboard_def sshKeysPage_def uiSSHKeyGenerate_def uiSSHKeyImport_def uiSSHKeyDelete_def imagesPage_def
  uiBaseImageRegister_def uiBaseImageBuild_def uiImageBuildJobLogs_def uiBaseImageAction_def uiBaseImageStatus_def
  uiBaseImageDelete_def uiImageHookCreate_def Let_def
  by (intro evo)+

lemma evolves_pages2 [evo]:
  "evolves (uiImageHookDelete r)" "evolves (kernelsPage r)" "evolves (uiKernelImportFirecrackerCI D r)"
  "evolves (uiKernelFirecrackerCIScan r)" "evolves (uiKernelUpload r)" "evolves (uiKernelTest r)"
  "evolves (uiKernelStatus r)" "evolves (uiKernelDelete r)" "evolves (uiKernelTestJobLogs r)" "evolves (vmDetail r)"
  "evolves (vmCreateForm r)" "evolves (vmStartForm r)" "evolves (vmStopForm r)"
  unfolding uiImageHookDelete_def kernelsPage_def uiKernelImportFirecrackerCI_def uiKernelFirecrackerCIScan_def
  uiKernelUpload_def uiKernelTest_def uiKernelStatus_def uiKernelDelete_def uiKernelTestJobLogs_def vmDetail_def
  vmCreateForm_def vmStartForm_def vmStopForm_def Let_def
  by (intro evo)+

lemma evolves_pages3 [evo]:
  "evolves (vmRestartForm r)" "evolves (vmDeleteForm r)" "evolves (vmActionForm r)" "evolves (vmResourcesForm r)"
  "evolves (vmIngressRuleForm r)" "evolves (vmIngressRuleDeleteForm r)" "evolves (vmEgressPolicyForm r)"
  "evolves (uiNetworkCreate r)" "evolves (uiNetworkDelete r)" "evolves (uiEgressPolicyCreate r)"
  "evolves (uiEgressPolicyDelete r)" "evolves (uiHostOrphansCleanup r)"
  unfolding vmRestartForm_def vmDeleteForm_def vmActionForm_def vmResourcesForm_def vmIngressRuleForm_def
  vmIngressRuleDeleteForm_def vmEgressPolicyForm_def uiNetworkCreate_def uiNetworkDelete_def uiEgressPolicyCreate_def
  uiEgressPolicyDelete_def uiHostOrphansCleanup_def Let_def
  by (intro evo)+

section \<open>The router\<close>

lemma evolves_redirects [evo]: "evolves (redirect_url r p)" "evolves (not_allowed ms)"
  unfolding redirect_url_def not_allowed_def by (intro evo)+

text \<open>Every handler of the table.\<close>

lemma evolves_routes: "list_all (\<lambda>(p, acc, h). \<forall>r. evolves (h r)) (routes D)"
  unfolding routes_def by (simp add: evo)

lemma evolves_dispatch: "(\<And>r. evolves (snd (snd rt) r)) \<Longrightarrow> evolves (dispatch rt ss r)"
  unfolding dispatch_def by (cases rt) (auto intro!: evo split: option.splits)

lemma longer_cases: "longer a b = a \<or> longer a b = b" by (simp add: longer_def)

lemma foldl_longer: "foldl longer rt rs \<in> set (rt # rs)"
proof (induction rs arbitrary: rt)
  case (Cons a rs)
  show ?case using Cons.IH [of "longer rt a"] longer_cases [of rt a] by auto
qed simp

lemma find_route_mem: "find_route rs m ss = Some rt \<Longrightarrow> rt \<in> set rs"
proof -
  assume f: "find_route rs m ss = Some rt"
  let ?ms = "filter (\<lambda>rt. route_match m ss rt \<noteq> None) rs"
  have "rt \<in> set ?ms"
  proof (cases "filter (\<lambda>rt. \<not> is_subtree rt) ?ms")
    case (Cons a l)
    then have "a \<in> set (filter (\<lambda>rt. \<not> is_subtree rt) ?ms)" by simp
    then show ?thesis using f Cons by (simp add: find_route_def)
  next
    case Nil
    show ?thesis
    proof (cases ?ms)
      case (Cons a l)
      then show ?thesis using f Nil foldl_longer [of a l] by (simp add: find_route_def)
    qed (use f in \<open>simp add: find_route_def\<close>)
  qed
  then show ?thesis by simp
qed

lemma evolves_ServeMux [evo]:
  assumes "list_all (\<lambda>(p, acc, h). \<forall>r. evolves (h r)) rs"
  shows "evolves (ServeMux rs r)"
proof -
  have d: "evolves (dispatch rt ss r)" if "find_route rs m p = Some rt" for m p rt ss
    using assms find_route_mem [OF that] by (intro evolves_dispatch) (auto simp: list_all_iff)
  have o: "evolves (case find_route rs m p of None \<Rightarrow> a | Some rt \<Rightarrow> dispatch rt ss r)" if "evolves a" for m p ss a
    using d that by (cases "find_route rs m p") auto
  show ?thesis unfolding ServeMux_def Let_def by (intro evolves_if evolves_redirects o evolves_answers)
qed

lemma evolves_Router: "evolves (Router D r)"
  unfolding Router_def by (intro evo evolves_routes)

lemma evolves_metadata: "evolves (metadata_server r)"
  unfolding metadata_server_def metadata_routes_def by (rule evolves_ServeMux) (simp add: evolves_documents)

lemma evolves_ensureDirs: "evolves ensureDirs"
  unfolding ensureDirs_def by (intro evo)

lemma evolves_startup: "evolves startup"
  unfolding startup_def startMetadataServer_def
  by (intro evo evolves_EnsureDefaultBaseImage evolves_EnsureDefaultKernel)

lemma ro_new_service: "ro_io new_service"
  by (simp add: ro_io_def new_service_def modifyW_def)

lemma evolves_New: "evolves New"
  unfolding New_def
  by (intro evo evolves_ro [OF ro_new_service] evolves_ensureDirs evolves_store_Open evolves_ro [OF ro_store_Close] evolves_startup)

lemma evolves_Close: "evolves Close"
  unfolding Close_def by (intro evo evolves_ro [OF ro_store_Close])

end
