(* ===== verification/Operation.thy ===== *)
theory Operation
  imports WebSteps
begin

text \<open>
  The whole program as the events that change its state: the start and the stop, requests to the web application and to the
  metadata server, and the goroutines and calls of the service that run besides them; each runs to its end
  before the next. \<open>operate\<close> runs a list of events.
\<close>

datatype event = Start | Stop | Web decoders request | Metadata request | Background call

fun happen :: "event \<Rightarrow> unit io" where
  "happen Start = New"
| "happen Stop = Close"
| "happen (Web D r) = seqE (Router D r) (returnE ())"
| "happen (Metadata r) = seqE (metadata_server r) (returnE ())"
| "happen (Background c) = perform_call c"

definition operate :: "event list \<Rightarrow> world \<Rightarrow> world" where
  "operate events w = fold (\<lambda>e w. snd (happen e w)) events w"

lemma evolves_happen: "evolves (happen e)"
  by (cases e) (simp_all add: evolves_New evolves_Close evolves_done evolves_Router evolves_metadata evolves_call)

lemma operate_steps: "good (database w) \<Longrightarrow> db_steps (database w) (database (operate events w))"
proof (induction events arbitrary: w)
  case (Cons e events)
  have s: "db_steps (database w) (database (snd (happen e w)))"
    using evolves_happen Cons.prems by (simp add: evolves_def)
  show ?case using db_steps_trans [OF s Cons.IH [OF good_steps [OF s Cons.prems]]] by (simp add: operate_def)
qed (simp add: operate_def)

end
