(* ===== verification/Daemon.thy ===== *)
theory Daemon
  imports Operation
begin

text \<open>
  \<open>cmd/bap-webd/main.go\<close>: one run of the process, from its flags to its exit. What happens while it serves is
  a list of events; it ends with a signal or because the server stops. A failure is an exit with status 1
  (\<open>log.Fatalf\<close>, which runs no deferred call).
\<close>

datatype ending = Signal string | ServerClosed | ServerFailed err

definition fatal :: "string \<Rightarrow> err \<Rightarrow> 'a io" where
  "fatal what e = throwE (PlainError (what @ '': '' @ err_text e))"

text \<open>A process starts once and stops once; in between there are requests and calls.\<close>

definition serving :: "event \<Rightarrow> bool" where
  "serving e = (case e of Start \<Rightarrow> False | Stop \<Rightarrow> False | _ \<Rightarrow> True)"

definition serve_events :: "event list \<Rightarrow> unit io" where
  "serve_events events = (\<lambda>w. (Inr (), operate (filter serving events) w))"

definition shutdown :: "ending \<Rightarrow> unit io" where
  "shutdown ending =
     (case ending of
        ServerFailed e \<Rightarrow> fatal ''server'' e
      | _ \<Rightarrow> seqE (ignoreE (do_effect (Lib ''http.Server.Shutdown'' [''10s'']))) Close)"

definition main ::
  "(string \<Rightarrow> err + string) \<Rightarrow> (string \<Rightarrow> config \<Rightarrow> err + config) \<Rightarrow> string option \<Rightarrow> event list \<Rightarrow> ending \<Rightarrow> unit io"
where
  "main read unmarshal flag events ending =
     (let cfgPath = (case flag of None \<Rightarrow> ''./config.example.yaml'' | Some p \<Rightarrow> p)
      in case Load read unmarshal cfgPath of
           Inl e \<Rightarrow> fatal ''load config'' e
         | Inr c \<Rightarrow>
             seqE (modifyW (\<lambda>w. w\<lparr>cfg := c\<rparr>))
               (bindE (tryE New) (\<lambda>started.
                  case started of
                    Inl e \<Rightarrow> fatal ''initialize app'' e
                  | Inr _ \<Rightarrow> seqE (serve_events events) (shutdown ending))))"

text \<open>A run that is not cut short by an error closes the application and exits with status 0.\<close>

lemma ignored: "\<exists>w'. ignoreE m w = (Inr (), w')"
  by (cases "m w") (auto simp: ignoreE_def tryE_def bindE_def returnE_def)

lemma Close_done: "\<exists>w'. Close w = (Inr (), w')"
proof -
  obtain w1 where "ignoreE (do_effect (Lib ''http.Server.Shutdown'' [''2s''])) w = (Inr (), w1)" using ignored by blast
  then show ?thesis using ignored [of store_Close w1] by (simp add: Close_def seqE_def bindE_def)
qed

lemma shutdown_done: "(\<exists>w'. shutdown ending w = (Inr (), w')) \<longleftrightarrow> (\<forall>e. ending \<noteq> ServerFailed e)"
proof (cases ending)
  case (Signal s)
  obtain w1 where "ignoreE (do_effect (Lib ''http.Server.Shutdown'' [''10s''])) w = (Inr (), w1)" using ignored by blast
  then show ?thesis using Signal Close_done [of w1] by (simp add: shutdown_def seqE_def bindE_def)
next
  case ServerClosed
  obtain w1 where "ignoreE (do_effect (Lib ''http.Server.Shutdown'' [''10s''])) w = (Inr (), w1)" using ignored by blast
  then show ?thesis using ServerClosed Close_done [of w1] by (simp add: shutdown_def seqE_def bindE_def)
qed (simp add: shutdown_def fatal_def throwE_def)

lemma main_exit_status:
  "fst (main read unmarshal flag events ending w) = Inr () \<longleftrightarrow>
     (\<exists>c. Load read unmarshal (case flag of None \<Rightarrow> ''./config.example.yaml'' | Some p \<Rightarrow> p) = Inr c
        \<and> fst (New (w\<lparr>cfg := c\<rparr>)) = Inr ()) \<and> (\<forall>e. ending \<noteq> ServerFailed e)"
proof (cases "Load read unmarshal (case flag of None \<Rightarrow> ''./config.example.yaml'' | Some p \<Rightarrow> p)")
  case (Inr c)
  obtain r w1 where new: "New (w\<lparr>cfg := c\<rparr>) = (r, w1)" by fastforce
  show ?thesis
    using Inr new shutdown_done [of ending "operate (filter serving events) w1"]
    by (cases r; cases "shutdown ending (operate (filter serving events) w1)")
      (auto simp: main_def seqE_def bindE_def tryE_def modifyW_def serve_events_def fatal_def throwE_def)
qed (simp add: main_def fatal_def throwE_def)

text \<open>What a run does to the database is what its events do, so the theorems on \<open>operate\<close> are about runs.\<close>

lemma evolves_serve: "evolves (serve_events events)"
  by (simp add: evolves_def serve_events_def operate_steps)

lemma evolves_shutdown: "evolves (shutdown ending)"
  unfolding shutdown_def fatal_def by (cases ending) (simp; intro evo evolves_Close)+

lemma evolves_configure: "evolves (modifyW (\<lambda>w. w\<lparr>cfg := c\<rparr>))"
  by (simp add: evolves_def modifyW_def)

lemma evolves_main: "evolves (main read unmarshal flag events ending)"
  unfolding main_def fatal_def Let_def
  by (intro evo evolves_configure evolves_New evolves_serve evolves_shutdown)

text \<open>Run after run on the same database, every invariant of the steps holds.\<close>

lemma main_good: "good (database w) \<Longrightarrow> good (database (snd (main read unmarshal flag events ending w)))"
  using good_steps evolves_main unfolding evolves_def by blast

end
