(* ===== verification/ExecRace.thy ===== *)
theory ExecRace
  imports ExecJobs
begin

text \<open>
  The goroutine of an exec job and a request that cancels it, in every interleaving of their atomic
  parts. \<open>runner_alone\<close> and \<open>canceller_alone\<close> tie the parts back to the Go functions. A cancellation
  that is answered holds from then on unless the goroutine is about to mark the job as running or has
  already looked for a cancellation; \<open>late_cancel_lost\<close> shows the second window.
\<close>

section \<open>The two programs\<close>

datatype exec_pc =
    PStart
  | PRegistered
  | PLoaded vm_exec_job
  | PMarked vm_exec_job
  | PExecuted vm_exec_job time "err + exec_result"
  | PConfirmed vm_exec_job
  | PEnding
  | PDone

fun exec_step :: "string \<Rightarrow> string \<Rightarrow> exec_request \<Rightarrow> exec_pc \<Rightarrow> exec_pc io" where
  "exec_step j v req PStart = seqE (exec_register j) (returnE PRegistered)"
| "exec_step j v req PRegistered =
     bindE (exec_load j v) (\<lambda>found. returnE (case found of None \<Rightarrow> PEnding | Some job \<Rightarrow> PLoaded job))"
| "exec_step j v req (PLoaded job) = bindE (exec_mark j job) (\<lambda>job'. returnE (PMarked job'))"
| "exec_step j v req (PMarked job) =
     bindE (tryE (ExecuteVMCommand j v req)) (\<lambda>result. bindE Now (\<lambda>completed. returnE (PExecuted job completed result)))"
| "exec_step j v req (PExecuted job completed result) =
     bindE (exec_recheck j v) (\<lambda>canceled.
       returnE (if canceled then PEnding else PConfirmed (exec_outcome job completed result)))"
| "exec_step j v req (PConfirmed job) = seqE (exec_complete job) (returnE PEnding)"
| "exec_step j v req PEnding = seqE (exec_unregister j) (returnE PDone)"
| "exec_step j v req PDone = throwE (PlainError ''done'')"

datatype cancel_pc =
    CAsked
  | CRead vm_exec_job
  | CSignalled vm_exec_job
  | CAnswered vm_exec_job

fun cancel_step :: "string \<Rightarrow> string \<Rightarrow> cancel_pc \<Rightarrow> cancel_pc io" where
  "cancel_step v j CAsked =
     bindE (cancel_read v j) (\<lambda>job. returnE (if final_status (exe_Status job) then CAnswered job else CRead job))"
| "cancel_step v j (CRead job) = seqE (cancel_signal j) (returnE (CSignalled job))"
| "cancel_step v j (CSignalled job) = bindE (cancel_write job) (\<lambda>job'. returnE (CAnswered job'))"
| "cancel_step v j (CAnswered job) = throwE (PlainError ''answered'')"

type_synonym race_state = "world \<times> exec_pc \<times> cancel_pc"

inductive exec_race :: "string \<Rightarrow> string \<Rightarrow> exec_request \<Rightarrow> race_state \<Rightarrow> race_state \<Rightarrow> bool"
  for j :: string and v :: string and req :: exec_request
where
  goroutine: "exec_step j v req pc w = (Inr pc', w') \<Longrightarrow> exec_race j v req (w, pc, c) (w', pc', c)"
| request: "cancel_step v j c w = (Inr c', w') \<Longrightarrow> exec_race j v req (w, pc, c) (w', pc, c')"

inductive_cases exec_raceE: "exec_race j v req (w, pc, c) s"

abbreviation races :: "string \<Rightarrow> string \<Rightarrow> exec_request \<Rightarrow> race_state \<Rightarrow> race_state \<Rightarrow> bool" where
  "races j v req \<equiv> (exec_race j v req)\<^sup>*\<^sup>*"

lemma races_step: "exec_race j v req s t \<Longrightarrow> races j v req t u \<Longrightarrow> races j v req s u"
  by (rule converse_rtranclp_into_rtranclp)

lemma go_step: "exec_step j v req pc w = (Inr pc', w') \<Longrightarrow> races j v req (w', pc', c) s \<Longrightarrow> races j v req (w, pc, c) s"
  by (rule races_step [OF goroutine])




section \<open>Computations that report no error\<close>

definition no_error :: "'a io \<Rightarrow> bool" where
  "no_error m \<longleftrightarrow> (\<forall>w. \<exists>x w'. m w = (Inr x, w'))"

named_theorems no_error

lemma no_errorD: "no_error m \<Longrightarrow> m w = (r, w') \<Longrightarrow> \<exists>x. r = Inr x"
  unfolding no_error_def by (metis prod.inject)

lemma no_errorE:
  assumes "no_error m"
  obtains x w' where "m w = (Inr x, w')"
  using assms unfolding no_error_def by blast

lemma no_error_return [no_error]: "no_error (returnE x)" by (simp add: no_error_def returnE_def)
lemma no_error_try [no_error]: "no_error (tryE m)" by (simp add: no_error_def tryE_def split: prod.split)
lemma no_error_Now [no_error]: "no_error Now" by (simp add: no_error_def Now_def)
lemma no_error_modify [no_error]: "no_error (modifyW f)" by (simp add: no_error_def modifyW_def)
lemma no_error_bind [no_error]: "no_error m \<Longrightarrow> (\<And>x. no_error (f x)) \<Longrightarrow> no_error (bindE m f)"
  unfolding no_error_def bindE_def by (metis (no_types, lifting) case_prod_conv sum.simps(6))
lemma no_error_seq [no_error]: "no_error m \<Longrightarrow> no_error n \<Longrightarrow> no_error (seqE m n)"
  unfolding seqE_def by (rule no_error_bind)
lemma no_error_ignore [no_error]: "no_error (ignoreE m)" unfolding ignoreE_def by (intro no_error)
lemma no_error_if [no_error]: "no_error m \<Longrightarrow> no_error n \<Longrightarrow> no_error (if b then m else n)" by simp
lemma no_error_option [no_error]:
  "no_error m \<Longrightarrow> (\<And>x. no_error (f x)) \<Longrightarrow> no_error (case r of None \<Rightarrow> m | Some x \<Rightarrow> f x)" by (cases r) simp_all
lemma no_error_sum [no_error]:
  "(\<And>x. no_error (f x)) \<Longrightarrow> (\<And>x. no_error (g x)) \<Longrightarrow> no_error (case r of Inl x \<Rightarrow> f x | Inr x \<Rightarrow> g x)" by (cases r) simp_all
lemma no_error_let [no_error]: "(\<And>x. no_error (f x)) \<Longrightarrow> no_error (let x = t in f x)" by simp
lemma no_error_defer [no_error]: "no_error m \<Longrightarrow> no_error (deferE d m)"
  unfolding no_error_def deferE_def by (metis (no_types, lifting) case_prod_conv)

lemma no_error_writeLog [no_error]: "no_error (writeVMExecJobLog job)"
  unfolding writeVMExecJobLog_def by (intro no_error)
lemma no_error_load [no_error]: "no_error (exec_load j v)" unfolding exec_load_def by (intro no_error)
lemma no_error_mark [no_error]: "no_error (exec_mark j job)" unfolding exec_mark_def by (intro no_error)
lemma no_error_recheck [no_error]: "no_error (exec_recheck j v)" unfolding exec_recheck_def by (intro no_error)
lemma no_error_complete [no_error]: "no_error (exec_complete job)" unfolding exec_complete_def by (intro no_error)
lemma no_error_register [no_error]: "no_error (exec_register j)" unfolding exec_register_def by (intro no_error)
lemma no_error_unregister [no_error]: "no_error (exec_unregister j)" unfolding exec_unregister_def by (intro no_error)

section \<open>Each alone is its Go function\<close>

lemma runner_alone:
  assumes "runVMExecJob j v req w = (r, w')"
  shows "r = Inr () \<and> races j v req (w, PStart, c) (w', PDone, c)"
proof -
  obtain w1 where w1: "exec_register j w = (Inr (), w1)" by (simp add: exec_register_def modifyW_def)
  let ?body = "bindE (exec_load j v) (\<lambda>found. case found of
            None \<Rightarrow> returnE ()
          | Some job0 \<Rightarrow>
              bindE (exec_mark j job0) (\<lambda>job.
              bindE (tryE (ExecuteVMCommand j v req)) (\<lambda>result.
              bindE Now (\<lambda>completed.
              bindE (exec_recheck j v) (\<lambda>canceled.
                if canceled then returnE () else exec_complete (exec_outcome job completed result))))))"
  have body: "no_error ?body" by (intro no_error)
  obtain w2 where w2: "?body w1 = (Inr (), w2)" by (rule no_errorE [OF body, of w1]) simp
  have r: "r = Inr ()" "exec_unregister j w2 = (Inr (), w')"
    using assms w1 w2 by (auto simp: runVMExecJob_def seqE_def bindE_def [of "exec_register j"] deferE_def exec_unregister_def modifyW_def)
  have last_step: "races j v req (w2, PEnding, c) (w', PDone, c)"
    by (rule go_step [OF _ rtranclp.rtrancl_refl]) (simp add: seqE_def bindE_def r(2) returnE_def)
  obtain found w3 where load: "exec_load j v w1 = (Inr found, w3)" by (rule no_errorE [OF no_error_load])
  have "races j v req (w1, PRegistered, c) (w', PDone, c)"
  proof (cases found)
    case None
    then have "w3 = w2" using w2 load by (simp add: bindE_def returnE_def)
    with None show ?thesis
      by (intro go_step [OF _ last_step]) (simp add: bindE_def load returnE_def)
  next
    case (Some job0)
    obtain job w4 where mark: "exec_mark j job0 w3 = (Inr job, w4)" by (rule no_errorE [OF no_error_mark])
    obtain res w5 where run: "ExecuteVMCommand j v req w4 = (res, w5)" by fastforce
    obtain t w6 where now: "Now w5 = (Inr t, w6)" by (simp add: Now_def)
    obtain b w7 where re: "exec_recheck j v w6 = (Inr b, w7)" by (rule no_errorE [OF no_error_recheck])
    have fin: "(if b then returnE () else exec_complete (exec_outcome job t res)) w7 = (Inr (), w2)"
      using w2 load Some mark run now re by (simp add: bindE_def tryE_def)
    have tail: "races j v req (w7, if b then PEnding else PConfirmed (exec_outcome job t res), c) (w', PDone, c)"
    proof (cases b)
      case True
      then show ?thesis using fin last_step by (simp add: returnE_def)
    next
      case False
      then show ?thesis
        using fin by (simp, intro go_step [OF _ last_step]) (simp add: seqE_def bindE_def returnE_def)
    qed
    show ?thesis
      by (rule go_step, simp add: bindE_def load Some returnE_def,
          rule go_step, simp add: bindE_def mark returnE_def,
          rule go_step, simp add: bindE_def tryE_def run now returnE_def,
          rule go_step [OF _ tail], simp add: bindE_def re returnE_def)
  qed
  then have "races j v req (w, PStart, c) (w', PDone, c)"
    by (rule go_step [rotated]) (simp add: seqE_def bindE_def w1 returnE_def)
  with r show ?thesis by simp
qed

lemma canceller_alone:
  assumes "CancelVMExecJob v j w = (Inr job, w')"
  shows "races j v req (w, pc, CAsked) (w', pc, CAnswered job)"
proof -
  obtain job0 w1 where read: "cancel_read v j w = (Inr job0, w1)"
    and rest: "(if final_status (exe_Status job0) then returnE job0 else seqE (cancel_signal j) (cancel_write job0)) w1 = (Inr job, w')"
    using assms by (auto simp: CancelVMExecJob_def io_run)
  show ?thesis
  proof (cases "final_status (exe_Status job0)")
    case True
    then have "job = job0" "w' = w1" using rest by (simp_all add: returnE_def)
    then show ?thesis
      by (simp, intro races_step [OF request rtranclp.rtrancl_refl]) (simp add: bindE_def read True returnE_def)
  next
    case False
    then obtain w2 where s: "cancel_signal j w1 = (Inr (), w2)" "cancel_write job0 w2 = (Inr job, w')"
      using rest by (auto simp: seqE_Inr)
    show ?thesis
      by (rule races_step [OF request], simp add: bindE_def read False returnE_def,
          rule races_step [OF request], simp add: seqE_def bindE_def s(1) returnE_def,
          rule races_step [OF request], simp add: bindE_def s(2) returnE_def, rule rtranclp.rtrancl_refl)
  qed
qed


section \<open>A cancellation that holds\<close>

definition job_row :: "string \<Rightarrow> string \<Rightarrow> db \<Rightarrow> vm_exec_job option" where
  "job_row j v d = find (\<lambda>r. exe_VMID r = v \<and> exe_ID r = j) (vm_exec_jobs d)"

definition job_canceled :: "string \<Rightarrow> string \<Rightarrow> db \<Rightarrow> bool" where
  "job_canceled j v d = (case job_row j v d of Some r \<Rightarrow> exe_Status r = ''canceled'' | None \<Rightarrow> False)"

text \<open>The goroutine is neither between loading the job and marking it, nor past its last look.\<close>

fun before_window :: "exec_pc \<Rightarrow> bool" where
  "before_window (PLoaded job) = False"
| "before_window (PConfirmed job) = False"
| "before_window pc = True"

lemma GetVMExecJob_ok:
  "sql_ok (host_of w) \<Longrightarrow> \<exists>w'. store_GetVMExecJob v j w = (Inr (job_row j v (database w)), w')"
  by (simp add: store_GetVMExecJob_def query_ok job_row_def)

lemma exec_load_canceled:
  assumes "sql_ok (host_of w)" "job_canceled j v (database w)" "exec_load j v w = (Inr found, w')"
  shows "found = None"
proof -
  obtain w1 where "store_GetVMExecJob v j w = (Inr (job_row j v (database w)), w1)" using GetVMExecJob_ok assms(1) by blast
  then show ?thesis
    using assms(2,3) by (auto simp: exec_load_def ctx_io_def io_run job_canceled_def split: option.splits if_splits)
qed

lemma exec_recheck_canceled:
  assumes "sql_ok (host_of w)" "job_canceled j v (database w)" "exec_recheck j v w = (Inr b, w')"
  shows "b"
proof -
  obtain w1 where "store_GetVMExecJob v j w = (Inr (job_row j v (database w)), w1)" using GetVMExecJob_ok assms(1) by blast
  then show ?thesis
    using assms(2,3) by (auto simp: exec_recheck_def io_run job_canceled_def split: option.splits if_splits)
qed

lemma exec_step_canceled:
  assumes s: "exec_step j v req pc w = (Inr pc', w')" and pc: "before_window pc"
    and h: "sql_ok (host_of w)" and c: "job_canceled j v (database w)"
  shows "before_window pc' \<and> database w' = database w \<and> host_of w' = host_of w"
proof -
  have "ro_io (exec_step j v req pc)" using pc by (cases pc) (auto intro!: ro)
  then have "database w' = database w \<and> host_of w' = host_of w" using ro_io_run s by blast
  moreover have "before_window pc'"
  proof (cases pc)
    case PRegistered
    then show ?thesis using s exec_load_canceled [OF h c] by (auto simp: io_run)
  next
    case (PExecuted job t r)
    then show ?thesis using s exec_recheck_canceled [OF h c] by (auto simp: io_run split: if_splits)
  qed (use s pc in \<open>auto simp: io_run\<close>)
  ultimately show ?thesis by simp
qed

lemma races_canceled:
  assumes "races j v req s t" "s = (w, pc, CAnswered a)" "before_window pc" "sql_ok (host_of w)" "job_canceled j v (database w)"
  shows "\<exists>w' pc'. t = (w', pc', CAnswered a) \<and> before_window pc' \<and> database w' = database w \<and> host_of w' = host_of w"
  using assms
proof (induction arbitrary: rule: rtranclp_induct)
  case (step t u)
  then obtain w1 pc1 where t: "t = (w1, pc1, CAnswered a)" "before_window pc1" "database w1 = database w" "host_of w1 = host_of w"
    by blast
  have "exec_race j v req (w1, pc1, CAnswered a) u" using step.hyps(2) t(1) by simp
  then show ?case
  proof (cases rule: exec_race.cases)
    case (goroutine pc' w')
    then show ?thesis using exec_step_canceled [OF goroutine(2)] t step.prems by simp
  qed (simp add: throwE_def)
qed simp

text \<open>
  C24: once a cancellation is answered and its row written, no interleaving with the goroutine changes the
  row again, provided the goroutine is in neither window and the database engine answers.
\<close>

theorem cancel_holds:
  assumes "races j v req (w, pc, CAnswered a) (w', pc', c)"
    and "before_window pc" "sql_ok (host_of w)" "job_canceled j v (database w)"
  shows "job_canceled j v (database w') \<and> before_window pc'"
  using races_canceled [OF assms(1) refl assms(2-4)] assms(4) by auto


section \<open>A cancellation that is lost\<close>

lemma find_replaced:
  "\<exists>r \<in> set rows. exe_ID r = exe_ID job \<Longrightarrow>
     find (\<lambda>r. exe_VMID r = exe_VMID job \<and> exe_ID r = exe_ID job) (map (\<lambda>r. if exe_ID r = exe_ID job then job else r) rows) = Some job"
  by (induction rows) auto

lemma UpdateVMExecJob_ok:
  assumes "sql_ok (host_of w)" "uniq_ok vm_exec_jobs_uniq (vm_exec_jobs (database w))"
    "\<exists>r \<in> set (vm_exec_jobs (database w)). exe_ID r = exe_ID job"
  shows "\<exists>w'. store_UpdateVMExecJob job w = (Inr (), w') \<and> host_of w' = host_of w
    \<and> uniq_ok vm_exec_jobs_uniq (vm_exec_jobs (database w'))
    \<and> job_row (exe_ID job) (exe_VMID job) (database w') = Some job \<and> job \<in> set (vm_exec_jobs (database w'))"
proof -
  let ?rows = "vm_exec_jobs (database w)"
  let ?new = "map (\<lambda>r. if exe_ID r = exe_ID job then job else r) ?rows"
  have u: "tbl_update vm_exec_jobs_uniq (\<lambda>r. exe_ID r = exe_ID job) (\<lambda>_. job) ?rows = Inr ?new"
    by (rule tbl_update_succeeds [OF assms(2)]) (simp add: vm_exec_jobs_uniq_def)
  show ?thesis
    using exec_ok [OF assms(1), of "''UPDATE vm_exec_jobs''"] u tbl_update_uniq [OF u assms(2)] find_replaced [OF assms(3)] assms(3)
    by (auto simp: store_UpdateVMExecJob_def put_def job_row_def)
qed

lemma job_row_in: "job_row j v d = Some r \<Longrightarrow> r \<in> set (vm_exec_jobs d) \<and> exe_ID r = j \<and> exe_VMID r = v"
  unfolding job_row_def by (drule find_SomeD) simp

text \<open>
  C28: between the goroutine's last look for a cancellation and its final write, a cancellation is answered
  as successful and then overwritten with the job's own outcome.
\<close>

theorem late_cancel_lost:
  assumes h: "sql_ok (host_of w)" "uniq_ok vm_exec_jobs_uniq (vm_exec_jobs (database w))"
    and r: "job_row j v (database w) = Some r" "\<not> final_status (exe_Status r)" and job: "exe_ID job = j" "exe_VMID job = v"
  shows "\<exists>w' a. races j v req (w, PConfirmed job, CAsked) (w', PEnding, CAnswered a)
    \<and> exe_Status a = ''canceled'' \<and> job_row j v (database w') = Some job"
proof -
  have row: "r \<in> set (vm_exec_jobs (database w))" "exe_ID r = j" "exe_VMID r = v" using job_row_in [OF r(1)] by simp_all
  obtain w1 where read: "store_GetVMExecJob v j w = (Inr (Some r), w1)" using GetVMExecJob_ok [OF h(1), of v j] r(1) by auto
  have "ro_io (store_GetVMExecJob v j)" unfolding store_GetVMExecJob_def by (intro ro)
  then have w1: "database w1 = database w" "host_of w1 = host_of w" using ro_io_run read by blast+
  obtain w2 where signal: "cancel_signal j w1 = (Inr (), w2)" by (simp add: cancel_signal_def modifyW_def)
  then have w2: "database w2 = database w" "host_of w2 = host_of w" using ro_io_run [OF ro_cancel_signal] w1 by fastforce+
  obtain t w3 where now: "Now w2 = (Inr t, w3)" by (simp add: Now_def)
  then have w3: "database w3 = database w" "host_of w3 = host_of w" using ro_io_run [OF ro_Now] w2 by fastforce+
  let ?a = "r\<lparr>exe_Status := ''canceled'', exe_Error := ''canceled'', exe_CompletedAt := Some t\<rparr>"
  obtain w4 where upd: "store_UpdateVMExecJob ?a w3 = (Inr (), w4)" "host_of w4 = host_of w"
      "uniq_ok vm_exec_jobs_uniq (vm_exec_jobs (database w4))" "?a \<in> set (vm_exec_jobs (database w4))"
    using UpdateVMExecJob_ok [of w3 ?a] h w3 row by auto
  obtain w5 where final: "store_UpdateVMExecJob job w4 = (Inr (), w5)" "job_row j v (database w5) = Some job"
    using UpdateVMExecJob_ok [of w4 job] h(1) upd job row by force
  obtain u w6 where log: "writeVMExecJobLog job w5 = (Inr u, w6)" by (rule no_errorE [OF no_error_writeLog])
  have w6: "database w6 = database w5" using ro_io_run [OF ro_writeVMExecJobLog log] by simp
  have "races j v req (w, PConfirmed job, CAsked) (w6, PEnding, CAnswered ?a)"
    apply (rule races_step [OF request], simp add: cancel_read_def bindE_def read r(2) returnE_def)
    apply (rule races_step [OF request], simp add: seqE_def bindE_def signal returnE_def)
    apply (rule races_step [OF request], simp add: cancel_write_def seqE_def bindE_def now upd(1) returnE_def Let_def)
    apply (rule races_step [OF goroutine], simp add: exec_complete_def ignoreE_def tryE_def seqE_def bindE_def final(1) log returnE_def)
    apply (rule rtranclp.rtrancl_refl)
    done
  then show ?thesis using final(2) w6 by (intro exI [of _ w6] exI [of _ ?a]) simp
qed

section \<open>A job canceled before it starts\<close>

definition is_ssh :: "effect \<Rightarrow> bool" where
  "is_ssh e = (case e of Ssh _ _ \<Rightarrow> True | _ \<Rightarrow> False)"


definition ssh_log :: "world \<Rightarrow> effect list" where
  "ssh_log w = filter is_ssh (trail w)"

lemma blind_ssh: "\<not> is_ssh e \<Longrightarrow> blind ssh_log e"
  by (simp add: blind_def ssh_log_def)

lemma stable_writeLog [stable]: "stable ssh_log (writeVMExecJobLog job)"
  unfolding writeVMExecJobLog_def mkdirAll_def os_call_def by (intro stable) (simp_all add: blind_ssh is_ssh_def)

lemma stable_exec_load [stable]: "stable ssh_log (exec_load j v)"
proof -
  have "stable ssh_log (store_GetVMExecJob v j)"
    unfolding store_GetVMExecJob_def by (intro stable) (simp add: blind_ssh is_ssh_def)
  then have "stable ssh_log (ctx_io j (store_GetVMExecJob v j))" by (simp add: stable_def ctx_io_def)
  then show ?thesis unfolding exec_load_def by (intro stable)
qed

text \<open>
  C25: a job that is canceled before its goroutine loads it is never run: no ssh connection is made and the
  database stays as it is.
\<close>

theorem canceled_job_never_runs:
  assumes "runVMExecJob j v req w = (r, w')" "sql_ok (host_of w)" "job_canceled j v (database w)"
  shows "ssh_log w' = ssh_log w \<and> database w' = database w"
proof -
  obtain w1 where w1: "exec_register j w = (Inr (), w1)" "database w1 = database w" "host_of w1 = host_of w" "ssh_log w1 = ssh_log w"
    by (simp add: exec_register_def modifyW_def ssh_log_def)
  obtain found w2 where load: "exec_load j v w1 = (Inr found, w2)" by (rule no_errorE [OF no_error_load])
  have "found = None" using exec_load_canceled [OF _ _ load] w1 assms(2,3) by simp
  then have w': "w' = snd (exec_unregister j w2)"
    using assms(1) w1(1) load by (auto simp: runVMExecJob_def seqE_def bindE_def deferE_def returnE_def)
  have "database w2 = database w" "ssh_log w2 = ssh_log w"
    using ro_io_run [OF ro_exec_load load] stableD [OF stable_exec_load load] w1 by simp_all
  then show ?thesis by (simp add: w' exec_unregister_def modifyW_def ssh_log_def)
qed

end
