(* ===== verification/Answers.thy ===== *)
theory Answers
  imports WebSteps ExecRace
begin

text \<open>
  Every request is answered: no handler panics. The one dereference that could, in \<open>vmResourcesForm\<close> and
  \<open>vmEgressPolicyForm\<close>, is of a VM that was read again after it was found, and nothing in between removes it.
\<close>

section \<open>Composition\<close>

lemma no_error_bool [no_error]: "no_error m \<Longrightarrow> no_error n \<Longrightarrow> no_error (case b of True \<Rightarrow> m | False \<Rightarrow> n)" by (cases b) simp_all
lemma no_error_prod [no_error]: "(\<And>x y. no_error (f x y)) \<Longrightarrow> no_error (case r of (x, y) \<Rightarrow> f x y)" by (cases r) simp
lemma no_error_stat_reply [no_error]:
  "(\<And>x. no_error (f x)) \<Longrightarrow> (\<And>x. no_error (g x)) \<Longrightarrow> (\<And>x. no_error (h x)) \<Longrightarrow>
    no_error (case r of Found x \<Rightarrow> f x | Missing x \<Rightarrow> g x | StatFailed x \<Rightarrow> h x)"
  by (cases r) simp_all
lemma no_error_reply [no_error]:
  "(\<And>x. no_error (f x)) \<Longrightarrow> (\<And>x y. no_error (g x y)) \<Longrightarrow> (\<And>x y z. no_error (h x y z)) \<Longrightarrow>
    no_error (case r of Ok x \<Rightarrow> f x | Fail x y \<Rightarrow> g x y | Response x y z \<Rightarrow> h x y z)"
  by (cases r) simp_all
lemma no_error_Hex [no_error]: "no_error (Hex n)" by (simp add: no_error_def Hex_def)
lemma no_error_stat [no_error]: "no_error (stat p)" by (simp add: no_error_def stat_def)
lemma no_error_ask [no_error]: "no_error (ask e)" by (simp add: no_error_def ask_def)
lemma no_error_gets [no_error]: "no_error (getsW f)" by (simp add: no_error_def getsW_def)
lemma no_error_config [no_error]: "no_error (config_get f)" unfolding config_get_def by (rule no_error_gets)
lemma no_error_when [no_error]: "no_error m \<Longrightarrow> no_error (whenE b m)" by (simp add: whenE_def no_error_return)
lemma no_error_mapE [no_error]: "(\<And>x. x \<in> set xs \<Longrightarrow> no_error (f x)) \<Longrightarrow> no_error (mapE f xs)"
proof (induction xs)
  case (Cons x xs)
  then have "no_error (f x)" "no_error (mapE f xs)" by simp_all
  then show ?case by (simp, intro no_error)
qed (simp add: no_error_return)
lemma no_error_errorOf [no_error]: "no_error (errorOf m)" unfolding errorOf_def by (intro no_error)

lemma no_error_respond [no_error]: "no_error (respond s b)" unfolding respond_def by (intro no_error)
lemma no_error_with_header [no_error]: "no_error m \<Longrightarrow> no_error (with_header k v m)" unfolding with_header_def by (intro no_error)
lemma no_error_set_cookie [no_error]: "no_error m \<Longrightarrow> no_error (set_cookie ck m)" unfolding set_cookie_def by (intro no_error)
lemma no_error_answers [no_error]:
  "no_error (http_Error t s)" "no_error http_NotFound" "no_error (SeeOther t)" "no_error (render n data)" "no_error (json s v)"
  unfolding http_Error_def http_NotFound_def SeeOther_def render_def json_def by (intro no_error)+
lemma no_error_api_errors [no_error]: "no_error (writeAPIError r s c t fs)" "no_error (apiError r e)" "no_error (deny r s c t)"
  "no_error (http_500 e)" "no_error (invalid_api r e)"
  unfolding writeAPIError_def apiError_def deny_def http_500_def invalid_api_def by (intro no_error)+
lemma no_error_orError [no_error]: "(\<And>e. no_error (g e)) \<Longrightarrow> (\<And>x. no_error (f x)) \<Longrightarrow> no_error (orError g m f)"
  unfolding orError_def by (intro no_error)
lemma no_error_with_json [no_error]: "(\<And>x. no_error (f x)) \<Longrightarrow> no_error (with_json dec r f)"
  unfolding with_json_def by (cases "dec (rq_Body r)") (auto intro!: no_error)
lemma no_error_with_optional_json [no_error]: "(\<And>x. no_error (f x)) \<Longrightarrow> no_error (with_optional_json dec z r f)"
  unfolding with_optional_json_def by (intro no_error)
lemma no_error_audit [no_error]: "no_error (audit r a t out m)" unfolding audit_def by (intro no_error)
lemma no_error_listing [no_error]: "(\<And>xs d. no_error (f xs d)) \<Longrightarrow> no_error (listing m data f)" unfolding listing_def by (intro no_error)

text \<open>The continuation of an audited call only sees results of the call.\<close>

lemma no_error_audited_result:
  assumes "\<And>e. no_error (g e)" "\<And>w x w'. m w = (Inr x, w') \<Longrightarrow> no_error (f x)"
  shows "no_error (audited r a t tf m g f)"
  unfolding no_error_def
proof
  fix w
  obtain q v where m: "m w = (q, v)" by fastforce
  have "no_error (case q of Inl e \<Rightarrow> seqE (audit r a t ''failure'' (err_text e)) (g e) | Inr x \<Rightarrow> seqE (audit r a (tf x) ''success'' '''') (f x))"
    using assms(2) m by (cases q) (auto intro!: no_error assms(1))
  then show "\<exists>x w'. audited r a t tf m g f w = (Inr x, w')"
    using m by (simp add: audited_def bindE_def tryE_def no_error_def)
qed

lemma no_error_audited [no_error]: "(\<And>e. no_error (g e)) \<Longrightarrow> (\<And>x. no_error (f x)) \<Longrightarrow> no_error (audited r a t tf m g f)"
  by (rule no_error_audited_result)

lemma no_error_shapes [no_error]:
  "no_error (list_json r m f)" "(\<And>x. no_error (g x)) \<Longrightarrow> no_error (found_or_404 r q t g)"
  "no_error (audited_json r a t tf n s k)" "no_error (audited_delete r a kd x d)" "no_error (job_log r p)"
  unfolding list_json_def found_or_404_def audited_json_def audited_delete_def job_log_def by (intro no_error; simp)+

section \<open>A VM that was found is found again\<close>

definition vm_ids :: "world \<Rightarrow> string list" where
  "vm_ids w = map vm_ID (vms (database w))"

lemma stable_ro: "ro_io m \<Longrightarrow> stable vm_ids m" by (simp add: stable_def ro_io_def vm_ids_def)

lemma stable_ids_exec:
  assumes "\<And>d d'. f d = Inr d' \<Longrightarrow> map vm_ID (vms d') = map vm_ID (vms d)"
  shows "stable vm_ids (exec q f)"
  unfolding stable_def
proof
  fix w
  obtain r w' where e: "exec q f w = (r, w')" by fastforce
  show "vm_ids (snd (exec q f w)) = vm_ids w" using exec_db [OF e] e assms by (cases r) (auto simp: vm_ids_def)
qed

lemma stable_UpdateVM: "stable vm_ids (store_UpdateVM vm)"
  unfolding store_UpdateVM_def
  by (intro stable_bind stable_ro [OF ro_Now] stable_ids_exec) (auto simp: put_Inr dest!: tbl_update_Inr)

lemmas stable_vm_parts = stable_return stable_throw stable_bind stable_seq stable_try stable_ignore stable_when stable_failIf
  stable_if stable_option stable_let stable_UpdateVM stable_ro [OF ro_ask] stable_ro [OF ro_Now] stable_ro [OF ro_require_vm]
  stable_ro [OF ro_ensureVMNetworkUsable] stable_ro [OF ro_processRunning] stable_ro [OF ro_setupTap] stable_ro [OF ro_applyNFT]
  stable_ro [OF ro_startFirecracker] stable_ro [OF ro_firecrackerAction] stable_ro [OF ro_kill_vm] stable_ro [OF ro_cleanupVMRuntime]
  stable_ro [OF ro_valid_resources] stable_ro [OF ro_GetVM] stable_ro [OF ro_GetEgressPolicy] stable_errorOf

lemma stable_start_stop: "stable vm_ids (StartVM vid)" "stable vm_ids (StopVM vid)"
  unfolding StartVM_def StopVM_def ensureTapName_def failVM_def Let_def by (intro stable_vm_parts)+

text \<open>\<open>finds vid m\<close>: a run of \<open>m\<close> in a world that has the VM gives a VM.\<close>

definition finds :: "string \<Rightarrow> vm option io \<Rightarrow> bool" where
  "finds vid m \<longleftrightarrow> (\<forall>w w'. vid \<in> set (vm_ids w) \<longrightarrow> m w \<noteq> (Inr None, w'))"

lemma finds_GetVM: "finds vid (store_GetVM vid)"
  unfolding finds_def store_GetVM_def
  by (auto simp: query_run vm_ids_def find_None_iff eq_commute [of None] dest!: ro_ioD [OF ro_perform])

lemma finds_bind:
  assumes "stable vm_ids m" "\<And>x. finds vid (f x)"
  shows "finds vid (bindE m f)"
  unfolding finds_def
proof (intro allI impI notI)
  fix w w' assume v: "vid \<in> set (vm_ids w)" and b: "bindE m f w = (Inr None, w')"
  obtain x u where "m w = (Inr x, u)" "f x u = (Inr None, w')" using b by (auto simp: bindE_Inr)
  then show False using stableD [OF assms(1), of w "Inr x" u] assms(2) [of x] v by (auto simp: finds_def)
qed

lemma finds_seq: "stable vm_ids m \<Longrightarrow> finds vid n \<Longrightarrow> finds vid (seqE m n)"
  unfolding seqE_def by (rule finds_bind)

lemma require_vm_found: "require_vm vid w = (Inr vm, w') \<Longrightarrow> vid \<in> set (vm_ids w)"
  by (auto simp: require_vm_def bindE_Inr store_GetVM_def query_run vm_ids_def find_Some_iff option_run throwE_run
      returnE_run dest!: ro_ioD [OF ro_perform])

lemma bind_require_found:
  assumes "bindE (require_vm vid) f w = (Inr found, w')" "\<And>vm. finds vid (f vm)"
  shows "found \<noteq> None"
proof
  assume "found = None"
  then obtain vm v where r: "require_vm vid w = (Inr vm, v)" "f vm v = (Inr None, w')" using assms(1) by (auto simp: bindE_Inr)
  have "vm_ids v = vm_ids w" using stableD [OF stable_ro [OF ro_require_vm] r(1)] .
  then show False using assms(2) [of vm] require_vm_found [OF r(1)] r(2) by (auto simp: finds_def)
qed

lemma UpdateResources_found: "UpdateResources vid c m b w = (Inr found, w') \<Longrightarrow> found \<noteq> None"
  unfolding UpdateResources_def Let_def
  by (erule bind_require_found) (intro finds_bind finds_seq finds_GetVM stable_vm_parts stable_start_stop)

lemma SetVMEgressPolicy_found: "SetVMEgressPolicy vid mode pid w = (Inr found, w') \<Longrightarrow> found \<noteq> None"
  unfolding SetVMEgressPolicy_def Let_def
  by (erule bind_require_found) (intro finds_bind finds_seq finds_GetVM stable_vm_parts)

section \<open>Handlers\<close>

lemma no_error_credentials [no_error]: "no_error (credentials u p)" "no_error (currentUser r)" "no_error (optionalBrowserUser r)"
  unfolding credentials_def currentUser_def optionalBrowserUser_def by (intro no_error)+

lemma no_error_middlewares [no_error]:
  "(\<And>r. no_error (h r)) \<Longrightarrow> no_error (session_auth h r)" "(\<And>r. no_error (h r)) \<Longrightarrow> no_error (token_auth secret h r)"
  "(\<And>r. no_error (h r)) \<Longrightarrow> no_error (requireAdmin h r)" "(\<And>r. no_error (h r)) \<Longrightarrow> no_error (requestID h r)"
  "(\<And>r. no_error (h r)) \<Longrightarrow> no_error (securityHeaders h r)" "(\<And>r. no_error (h r)) \<Longrightarrow> no_error (hostGuard h r)"
  unfolding session_auth_def token_auth_def requireAdmin_def requestID_def securityHeaders_def hostGuard_def
  by (intro no_error; simp)+

lemma no_error_requireAuth [no_error]: "(\<And>r. no_error (h r)) \<Longrightarrow> no_error (requireAuth h r)"
  unfolding requireAuth_def by (intro no_error)

lemma no_error_parts [no_error]: "no_error HostStatus" "no_error (defaultAPITokenForm u)" "no_error (apiTokenViews ts)"
  "no_error (referenced k m)" "no_error (upgrade r)" "no_error (serveEmbeddedDoc pa t)"
  unfolding HostStatus_def check_entry_def defaultAPITokenForm_def apiTokenViews_def referenced_def upgrade_def checkWSOrigin_def
    serveEmbeddedDoc_def Let_def
  by (intro no_error)+

lemma no_error_renders [no_error]: "no_error (renderDashboardError r e)" "no_error (renderSSHKeysPage r data)"
  "no_error (keys_error r e)" "no_error (renderImagesPage r data)" "no_error (images_error r e)" "no_error (renderKernelsPage r data)"
  "no_error (kernels_error r e)" "no_error (vmsTable r)" "no_error (vmsTableError r e)" "no_error (detail_page r vid f)"
  "no_error (renderVMDetailError r vid e)" "no_error (renderCreateVMForm r form fe t)" "no_error (action_error r e)"
  "no_error (action_done r t)" "no_error (detail_error r e)" "no_error (log_page r t job pa st)" "no_error (renderAPITokensPage r data)"
  "no_error (apiAction a r)" "no_error (vmAction a r)" "no_error (not_allowed ms)" "no_error (redirect_url r pa)"
  unfolding renderDashboardError_def renderSSHKeysPage_def keys_error_def renderImagesPage_def images_error_def
    renderKernelsPage_def kernels_error_def vmsTable_def vmsTableError_def detail_page_def renderVMDetailError_def
    renderCreateVMForm_def action_error_def action_done_def detail_error_def log_page_def renderAPITokensPage_def
    apiAction_def vmAction_def not_allowed_def redirect_url_def Let_def
  by (intro no_error)+

lemma no_error_back: "no_error (back_to_vm (Some v) t)"
  unfolding back_to_vm_def by (simp add: no_error)

lemma no_error_resources [no_error]: "no_error (vmResourcesForm r)" "no_error (vmEgressPolicyForm r)"
proof -
  have u: "no_error (back_to_vm x t)" if "UpdateResources vid c m b w = (Inr x, w')" for vid c m b w x w' t
    using UpdateResources_found [OF that] no_error_back by (cases x) simp_all
  show "no_error (vmResourcesForm r)" unfolding vmResourcesForm_def
    by (rule no_error_audited_result, intro no_error, erule u)
  have e: "no_error (back_to_vm x t)" if "SetVMEgressPolicy vid mode pid w = (Inr x, w')" for vid mode pid w x w' t
    using SetVMEgressPolicy_found [OF that] no_error_back by (cases x) simp_all
  show "no_error (vmEgressPolicyForm r)" unfolding vmEgressPolicyForm_def
    by (rule no_error_audited_result, intro no_error, erule e)
qed

lemma no_error_scan [no_error]: "no_error (apiKernelFirecrackerCIScan D r)"
  unfolding apiKernelFirecrackerCIScan_def Let_def by (cases "dec_scan D (rq_Body r)") (auto intro!: no_error)

lemma no_error_handlers1 [no_error]:
  "no_error (static r)" "no_error (openapiSpec r)" "no_error (apiDocsPage r)" "no_error (agentDocsPage r)"
  "no_error (agentDocsMarkdown r)" "no_error (llmsTxt r)" "no_error (setupGet r)" "no_error (setupPost r)"
  "no_error (loginGet r)" "no_error (loginPost r)" "no_error (logoutPost r)" "no_error (dashboard r)"
  "no_error (sshKeysPage r)" "no_error (apiTokensPage r)" "no_error (imagesPage r)" "no_error (kernelsPage r)"
  "no_error (uiSSHKeyGenerate r)" "no_error (uiSSHKeyImport r)" "no_error (uiSSHKeyDelete r)"
  "no_error (uiAPITokenCreate r)" "no_error (uiAPITokenAction r)" "no_error (uiBaseImageRegister r)"
  "no_error (uiBaseImageBuild r)"
  unfolding static_def openapiSpec_def apiDocsPage_def agentDocsPage_def agentDocsMarkdown_def llmsTxt_def
  setupGet_def setupPost_def loginGet_def loginPost_def logoutPost_def dashboard_def sshKeysPage_def apiTokensPage_def
  imagesPage_def kernelsPage_def uiSSHKeyGenerate_def uiSSHKeyImport_def uiSSHKeyDelete_def uiAPITokenCreate_def
  uiAPITokenAction_def uiBaseImageRegister_def uiBaseImageBuild_def Let_def
  by (intro no_error)+

lemma no_error_handlers2 [no_error]:
  "no_error (uiBaseImageAction r)" "no_error (uiBaseImageStatus r)" "no_error (uiBaseImageDelete r)"
  "no_error (uiImageBuildJobLogs r)" "no_error (uiImageHookCreate r)" "no_error (uiImageHookDelete r)"
  "no_error (uiKernelImportFirecrackerCI D r)" "no_error (uiKernelFirecrackerCIScan r)" "no_error (uiKernelUpload r)"
  "no_error (uiKernelTest r)" "no_error (uiKernelStatus r)" "no_error (uiKernelDelete r)"
  "no_error (uiKernelTestJobLogs r)" "no_error (vmCreateForm r)" "no_error (vmActionForm r)"
  "no_error (vmStartForm r)" "no_error (vmStopForm r)" "no_error (vmRestartForm r)" "no_error (vmDeleteForm r)"
  "no_error (vmIngressRuleForm r)" "no_error (vmIngressRuleDeleteForm r)" "no_error (uiNetworkCreate r)"
  "no_error (uiNetworkDelete r)"
  unfolding uiBaseImageAction_def uiBaseImageStatus_def uiBaseImageDelete_def uiImageBuildJobLogs_def
  uiImageHookCreate_def uiImageHookDelete_def uiKernelImportFirecrackerCI_def uiKernelFirecrackerCIScan_def
  uiKernelUpload_def uiKernelTest_def uiKernelStatus_def uiKernelDelete_def uiKernelTestJobLogs_def vmCreateForm_def
  vmActionForm_def vmStartForm_def vmStopForm_def vmRestartForm_def vmDeleteForm_def vmIngressRuleForm_def
  vmIngressRuleDeleteForm_def uiNetworkCreate_def uiNetworkDelete_def Let_def
  by (intro no_error)+

lemma no_error_handlers3 [no_error]:
  "no_error (uiEgressPolicyCreate r)" "no_error (uiEgressPolicyDelete r)" "no_error (uiHostOrphansCleanup r)"
  "no_error (vmDetail r)" "no_error (apiHealth r)" "no_error (apiSession r)" "no_error (apiTokenList r)"
  "no_error (apiTokenCreate (dec_token D) r)" "no_error (apiTokenRevoke r)" "no_error (apiUserList r)"
  "no_error (apiHostStatus r)" "no_error (apiHostOrphans r)" "no_error (apiHostOrphansCleanup r)"
  "no_error (apiSSHKeyList r)" "no_error (apiSSHKeyGenerate D r)" "no_error (apiSSHKeyImport D r)"
  "no_error (apiSSHKeyGet r)" "no_error (apiSSHKeyDelete r)" "no_error (apiBaseImageList r)"
  "no_error (apiBaseImageRegister D r)" "no_error (apiBaseImageBuild D r)" "no_error (apiBaseImageUpdate D r)"
  "no_error (apiBaseImageDelete r)"
  unfolding uiEgressPolicyCreate_def uiEgressPolicyDelete_def uiHostOrphansCleanup_def vmDetail_def apiHealth_def
  apiSession_def apiTokenList_def apiTokenCreate_def apiTokenRevoke_def apiUserList_def apiHostStatus_def
  apiHostOrphans_def apiHostOrphansCleanup_def apiSSHKeyList_def apiSSHKeyGenerate_def apiSSHKeyImport_def
  apiSSHKeyGet_def apiSSHKeyDelete_def apiBaseImageList_def apiBaseImageRegister_def apiBaseImageBuild_def
  apiBaseImageUpdate_def apiBaseImageDelete_def Let_def
  by (intro no_error)+

lemma no_error_handlers4 [no_error]:
  "no_error (apiImageBuildJobGet r)" "no_error (apiImageBuildJobLogs r)" "no_error (apiImageHookList r)"
  "no_error (apiImageHookCreate D r)" "no_error (apiImageHookDelete r)" "no_error (apiKernelList r)"
  "no_error (apiKernelDiscoveryJobList r)" "no_error (apiKernelDiscoveryJobGet r)"
  "no_error (apiKernelDiscoveryItemList r)" "no_error (apiKernelImportFirecrackerCI D r)"
  "no_error (apiKernelUpload r)" "no_error (apiKernelUpdate D r)" "no_error (apiKernelDelete r)"
  "no_error (apiKernelTest r)" "no_error (apiKernelTestJobGet r)" "no_error (apiKernelTestJobLogs r)"
  "no_error (apiVMList r)" "no_error (apiVMCreate D r)" "no_error (apiVMGet r)" "no_error (apiVMStart r)"
  "no_error (apiVMStop r)" "no_error (apiVMRestart D r)" "no_error (apiVMResources D r)"
  unfolding apiImageBuildJobGet_def apiImageBuildJobLogs_def apiImageHookList_def apiImageHookCreate_def
  apiImageHookDelete_def apiKernelList_def apiKernelDiscoveryJobList_def apiKernelDiscoveryJobGet_def
  apiKernelDiscoveryItemList_def apiKernelImportFirecrackerCI_def apiKernelUpload_def apiKernelUpdate_def
  apiKernelDelete_def apiKernelTest_def apiKernelTestJobGet_def apiKernelTestJobLogs_def apiVMList_def apiVMCreate_def
  apiVMGet_def apiVMStart_def apiVMStop_def apiVMRestart_def apiVMResources_def Let_def
  by (intro no_error)+

lemma no_error_handlers5 [no_error]:
  "no_error (apiVMLogs r)" "no_error (apiVMExec D r)" "no_error (apiVMExecJobList r)"
  "no_error (apiVMExecJobCreate D r)" "no_error (apiVMExecJobGet r)" "no_error (apiVMExecJobLogs r)"
  "no_error (apiVMExecJobCancel r)" "no_error (apiVMNetwork r)" "no_error (apiIngressRuleCreate D r)"
  "no_error (apiIngressRuleDelete r)" "no_error (apiVMEgressPolicy D r)" "no_error (apiVMDelete r)"
  "no_error (apiNetworkList r)" "no_error (apiNetworkCreate D r)" "no_error (apiNetworkDelete r)"
  "no_error (apiEgressPolicyList r)" "no_error (apiEgressPolicyCreate D r)" "no_error (apiEgressPolicyDelete r)"
  "no_error (wsTerminal r)" "no_error (metadataAuthorizedKeys r)"
  unfolding apiVMLogs_def apiVMExec_def apiVMExecJobList_def apiVMExecJobCreate_def apiVMExecJobGet_def
  apiVMExecJobLogs_def apiVMExecJobCancel_def apiVMNetwork_def apiIngressRuleCreate_def apiIngressRuleDelete_def
  apiVMEgressPolicy_def apiVMDelete_def apiNetworkList_def apiNetworkCreate_def apiNetworkDelete_def
  apiEgressPolicyList_def apiEgressPolicyCreate_def apiEgressPolicyDelete_def wsTerminal_def
  metadataAuthorizedKeys_def Let_def
  by (intro no_error)+

section \<open>The router\<close>

lemma no_error_routes: "(p, acc, h) \<in> set (routes D) \<Longrightarrow> no_error (h r)"
  unfolding routes_def by (auto intro!: no_error)

lemma no_error_guarded: "(\<And>r. no_error (h r)) \<Longrightarrow> no_error (guarded acc h r)"
  by (cases acc) (simp_all add: guarded_def no_error)

lemma no_error_ServeMux:
  assumes "\<And>p acc h r. (p, acc, h) \<in> set rs \<Longrightarrow> no_error (h r)"
  shows "no_error (ServeMux rs r)"
proof -
  have d: "no_error (dispatch rt ss r)" if "find_route rs m p = Some rt" for m p rt ss
  proof -
    obtain q acc h where rt: "rt = (q, acc, h)" by (cases rt)
    then have "no_error (guarded acc h r)" for r
      using find_route_mem [OF that] assms [of q acc h] by (intro no_error_guarded) simp
    then show ?thesis unfolding rt dispatch_def by (simp add: no_error_answers split: option.split)
  qed
  have o: "no_error (case find_route rs m p of None \<Rightarrow> a | Some rt \<Rightarrow> dispatch rt ss r)" if "no_error a" for m p ss a
    using d that by (cases "find_route rs m p") auto
  show ?thesis unfolding ServeMux_def Let_def by (intro no_error_if no_error_renders o no_error_answers)
qed


end
