(* ===== verification/Access.thy ===== *)
theory Access
  imports WebSteps
begin

text \<open>
  Who may change what over HTTP. \<open>admin_state\<close> is the part of the database that only administrators may change,
  \<open>protected\<close> is all but sessions and the audit log; \<open>keeps\<close> says that a computation leaves such a part alone
  once the instance is set up. Every route a non-administrator reaches keeps \<open>admin_state\<close>, and without
  valid credentials no route changes \<open>protected\<close>.
\<close>

section \<open>Parts of the database\<close>

text \<open>The grants of tokens: what is not changed by a use or a revocation.\<close>

definition grant :: "api_token_row \<Rightarrow> api_token_row" where
  "grant t = t\<lparr>atr_Token := (atr_Token t)\<lparr>tok_LastUsedAt := None, tok_RevokedAt := None\<rparr>\<rparr>"

definition admin_grants :: "db \<Rightarrow> api_token_row list" where
  "admin_grants d = map grant (filter (\<lambda>t. tok_IsAdmin (atr_Token t)) (api_tokens d))"

definition admin_state ::
  "db \<Rightarrow> (user list \<times> api_token_row list) \<times> (base_image list \<times> image_build_job list \<times> image_hook list)
     \<times> kernel list \<times> kernel_test_job list \<times> kernel_discovery_job list \<times> kernel_discovery_item list"
where
  "admin_state d = ((users d, admin_grants d), (base_images d, image_build_jobs d, image_hooks d),
     kernels d, kernel_test_jobs d, kernel_discovery_jobs d, kernel_discovery_items d)"

definition protected :: "db \<Rightarrow> db" where
  "protected d = d\<lparr>sessions := [], audit_events := []\<rparr>"

definition keeps :: "(db \<Rightarrow> 'p) \<Rightarrow> 'a io \<Rightarrow> bool" where
  "keeps g m \<longleftrightarrow> (\<forall>w. users (database w) \<noteq> [] \<longrightarrow>
     users (database (snd (m w))) = users (database w) \<and> g (database (snd (m w))) = g (database w))"

named_theorems keep

lemma keepsD: "keeps g m \<Longrightarrow> users (database w) \<noteq> [] \<Longrightarrow> m w = (r, w') \<Longrightarrow>
    users (database w') = users (database w) \<and> g (database w') = g (database w)"
  unfolding keeps_def by (drule spec [of _ w]) simp

lemma keepsI:
  "(\<And>w r w'. users (database w) \<noteq> [] \<Longrightarrow> m w = (r, w') \<Longrightarrow> users (database w') = users (database w) \<and> g (database w') = g (database w))
     \<Longrightarrow> keeps g m"
  unfolding keeps_def by (metis prod.collapse)

lemma keeps_ro: "ro_io m \<Longrightarrow> keeps g m" by (simp add: keeps_def ro_io_def)

lemma keeps_bind [keep]:
  assumes "keeps g m" "\<And>x. keeps g (f x)"
  shows "keeps g (bindE m f)"
proof (rule keepsI)
  fix w r w' assume u: "users (database w) \<noteq> []" and b: "bindE m f w = (r, w')"
  obtain q v where m: "m w = (q, v)" by fastforce
  then have k: "users (database v) = users (database w) \<and> g (database v) = g (database w)" using keepsD [OF assms(1) u] by blast
  show "users (database w') = users (database w) \<and> g (database w') = g (database w)"
  proof (cases q)
    case (Inr x)
    then have "f x v = (r, w')" using b m by (simp add: bindE_def)
    then show ?thesis using keepsD [OF assms(2), of v] k u by metis
  qed (use b m k in \<open>simp add: bindE_def\<close>)
qed

lemma keeps_seq [keep]: "keeps g m \<Longrightarrow> keeps g n \<Longrightarrow> keeps g (seqE m n)" unfolding seqE_def by (rule keeps_bind)
lemma keeps_try [keep]: "keeps g m \<Longrightarrow> keeps g (tryE m)" by (auto simp: keeps_def tryE_def split: prod.splits)
lemma keeps_ignore [keep]: "keeps g m \<Longrightarrow> keeps g (ignoreE m)" unfolding ignoreE_def by (intro keep keeps_ro [OF ro_return])

lemma keeps_defer [keep]:
  assumes "keeps g d" "keeps g m"
  shows "keeps g (deferE d m)"
proof (rule keepsI)
  fix w r w' assume u: "users (database w) \<noteq> []" and b: "deferE d m w = (r, w')"
  obtain q v where m: "m w = (q, v)" by fastforce
  obtain q' v' where d: "d v = (q', v')" by fastforce
  have "w' = v'" using b m d by (simp add: deferE_def)
  then show "users (database w') = users (database w) \<and> g (database w') = g (database w)"
    using keepsD [OF assms(2) u m] keepsD [OF assms(1) _ d] u by auto
qed

lemma keeps_if [keep]: "keeps g m \<Longrightarrow> keeps g n \<Longrightarrow> keeps g (if b then m else n)" by simp
lemma keeps_let [keep]: "(\<And>x. keeps g (f x)) \<Longrightarrow> keeps g (let x = a in f x)" by simp
lemma keeps_bool [keep]: "keeps g m \<Longrightarrow> keeps g n \<Longrightarrow> keeps g (case b of True \<Rightarrow> m | False \<Rightarrow> n)" by (cases b) simp_all
lemma keeps_option [keep]: "keeps g m \<Longrightarrow> (\<And>x. keeps g (f x)) \<Longrightarrow> keeps g (case r of None \<Rightarrow> m | Some x \<Rightarrow> f x)"
  by (cases r) simp_all
lemma keeps_sum [keep]: "(\<And>e. keeps g (f e)) \<Longrightarrow> (\<And>x. keeps g (h x)) \<Longrightarrow> keeps g (case r of Inl e \<Rightarrow> f e | Inr x \<Rightarrow> h x)"
  by (cases r) simp_all
lemma keeps_prod [keep]: "(\<And>x y. keeps g (f x y)) \<Longrightarrow> keeps g (case r of (x, y) \<Rightarrow> f x y)" by (cases r) simp
lemma keeps_stat_reply [keep]:
  "(\<And>x. keeps g (f x)) \<Longrightarrow> (\<And>x. keeps g (h x)) \<Longrightarrow> (\<And>x. keeps g (k x)) \<Longrightarrow>
    keeps g (case r of Found x \<Rightarrow> f x | Missing x \<Rightarrow> h x | StatFailed x \<Rightarrow> k x)"
  by (cases r) simp_all
lemma keeps_when [keep]: "keeps g m \<Longrightarrow> keeps g (whenE b m)" by (simp add: whenE_def keeps_ro ro_return)
lemma keeps_errorOf [keep]: "keeps g m \<Longrightarrow> keeps g (errorOf m)" unfolding errorOf_def by (intro keep keeps_ro [OF ro_return])

text \<open>One statement.\<close>

lemma keeps_exec:
  assumes "\<And>d d'. f d = Inr d' \<Longrightarrow> users d' = users d \<and> g d' = g d"
  shows "keeps g (exec q f)"
proof (rule keepsI)
  fix w r w' assume e: "exec q f w = (r, w')"
  show "users (database w') = users (database w) \<and> g (database w') = g (database w)"
    using exec_db [OF e] assms by (cases r) auto
qed

lemma keeps_table:
  "(\<And>d rows. f d = Inr rows \<Longrightarrow> users (h d rows) = users d \<and> g (h d rows) = g d) \<Longrightarrow> keeps g (exec q (\<lambda>d. put (f d) (h d)))"
  by (rule keeps_exec) (auto simp: put_Inr)

lemmas keeps_primitive [keep] = keeps_ro [OF ro_return] keeps_ro [OF ro_throw] keeps_ro [OF ro_lift] keeps_ro [OF ro_gets]
  keeps_ro [OF ro_config] keeps_ro [OF ro_ask] keeps_ro [OF ro_stat] keeps_ro [OF ro_Now] keeps_ro [OF ro_Hex]
  keeps_ro [OF ro_failIf] keeps_ro [OF ro_perform] keeps_ro [OF ro_do_effect] keeps_ro [OF ro_query]

section \<open>Shapes of handlers\<close>

lemma keeps_respond [keep]: "keeps g (respond s b)" unfolding respond_def by (intro keep)
lemma keeps_with_header [keep]: "keeps g m \<Longrightarrow> keeps g (with_header k v m)" unfolding with_header_def by (intro keep)
lemma keeps_set_cookie [keep]: "keeps g m \<Longrightarrow> keeps g (set_cookie ck m)" unfolding set_cookie_def by (intro keep)
lemma keeps_answers [keep]:
  "keeps g (http_Error t s)" "keeps g http_NotFound" "keeps g (SeeOther t)" "keeps g (render n data)" "keeps g (json s v)"
  unfolding http_Error_def http_NotFound_def SeeOther_def render_def json_def by (intro keep)+
lemma keeps_api_errors [keep]: "keeps g (writeAPIError r s c t fs)" "keeps g (apiError r e)" "keeps g (deny r s c t)" "keeps g (http_500 e)"
  unfolding writeAPIError_def apiError_def deny_def http_500_def by (intro keep)+
lemma keeps_orError [keep]:
  "(\<And>e. keeps g (h e)) \<Longrightarrow> keeps g m \<Longrightarrow> (\<And>x. keeps g (f x)) \<Longrightarrow> keeps g (orError h m f)"
  unfolding orError_def by (intro keep)
lemma keeps_with_json [keep]: "(\<And>x. keeps g (f x)) \<Longrightarrow> keeps g (with_json dec r f)"
  unfolding with_json_def by (cases "dec (rq_Body r)") (auto intro!: keep)
lemma keeps_with_optional_json [keep]: "(\<And>x. keeps g (f x)) \<Longrightarrow> keeps g (with_optional_json dec z r f)"
  unfolding with_optional_json_def by (intro keep)
lemma keeps_listing [keep]: "keeps g m \<Longrightarrow> (\<And>xs d. keeps g (f xs d)) \<Longrightarrow> keeps g (listing m data f)"
  unfolding listing_def by (intro keep)

section \<open>Statements that leave the administrators' part alone\<close>

lemmas db_parts = admin_state_def admin_grants_def protected_def

lemma grants_updated:
  assumes "tbl_update us P h rows = Inr rows'" "\<And>r. grant (h r) = grant r"
  shows "map grant (filter (\<lambda>t. tok_IsAdmin (atr_Token t)) rows') = map grant (filter (\<lambda>t. tok_IsAdmin (atr_Token t)) rows)"
proof -
  have a: "tok_IsAdmin (atr_Token (h r)) = tok_IsAdmin (atr_Token r)" for r
    using arg_cong [OF assms(2), of "\<lambda>x. tok_IsAdmin (atr_Token x)" r] by (simp add: grant_def)
  have "rows' = map (\<lambda>r. if P r then h r else r) rows" using assms(1) by (rule tbl_update_Inr)
  moreover have "map grant (filter (\<lambda>t. tok_IsAdmin (atr_Token t)) (map (\<lambda>r. if P r then h r else r) rows))
      = map grant (filter (\<lambda>t. tok_IsAdmin (atr_Token t)) rows)"
    by (induction rows) (auto simp: a assms(2))
  ultimately show ?thesis by simp
qed

lemma keeps_update_token:
  assumes "\<And>k. k\<lparr>tok_LastUsedAt := None, tok_RevokedAt := None\<rparr> = (h k)\<lparr>tok_LastUsedAt := None, tok_RevokedAt := None\<rparr>"
  shows "keeps admin_state (update_token tid h)"
proof -
  have g: "grant (r\<lparr>atr_Token := h (atr_Token r)\<rparr>) = grant r" for r
    using assms [of "atr_Token r"] by (simp add: grant_def)
  show ?thesis unfolding update_token_def
    by (rule keeps_table) (use grants_updated [OF _ g] in \<open>fastforce simp: db_parts\<close>)
qed

lemma keeps_token_rows [keep]:
  "keeps admin_state (store_TouchAPIToken tid)" "keeps admin_state (store_RevokeAPIToken tid)"
  unfolding store_TouchAPIToken_def store_RevokeAPIToken_def
  by (intro keep keeps_update_token, simp)+

lemma keeps_vm_rows [keep]:
  "keeps admin_state (store_CreateVM vm)" "keeps admin_state (store_UpdateVM vm)" "keeps admin_state (store_DeleteVM vid)"
  "keeps admin_state (store_CreateNetwork n)" "keeps admin_state (store_DeleteNetwork nid)"
  "keeps admin_state (store_CreateIngressRule rule)" "keeps admin_state (store_DeleteIngressRule vid rid)"
  "keeps admin_state (store_CreateEgressPolicy p)" "keeps admin_state (store_DeleteEgressPolicy pid)"
  "keeps admin_state (store_CreateVMExecJob j)" "keeps admin_state (store_UpdateVMExecJob j)"
  unfolding store_CreateVM_def store_UpdateVM_def store_DeleteVM_def store_CreateNetwork_def store_DeleteNetwork_def
    store_CreateIngressRule_def store_DeleteIngressRule_def store_CreateEgressPolicy_def store_DeleteEgressPolicy_def
    store_CreateVMExecJob_def store_UpdateVMExecJob_def
  by (intro keep keeps_exec, auto simp: db_parts put_Inr)+

lemma keeps_own_rows [keep]:
  "keeps admin_state (store_CreateSession s)" "keeps admin_state (store_TouchSession sid t)" "keeps admin_state (store_DeleteSession sid)"
  "keeps admin_state (store_CreateSSHKey k)" "keeps admin_state (store_TouchSSHKey kid)" "keeps admin_state (store_DeleteSSHKey kid)"
  "keeps admin_state (store_Audit a s2 c t2 out rid m)"
  unfolding store_CreateSession_def store_TouchSession_def store_DeleteSession_def store_CreateSSHKey_def store_TouchSSHKey_def
    store_DeleteSSHKey_def store_Audit_def
  by (intro keep keeps_exec, auto simp: db_parts put_Inr)+

lemma keeps_session_rows [keep]:
  "keeps protected (store_CreateSession s)" "keeps protected (store_DeleteSession sid)" "keeps protected (store_Audit a s2 c t2 out rid m)"
  unfolding store_CreateSession_def store_DeleteSession_def store_Audit_def
  by (intro keep keeps_exec, auto simp: db_parts put_Inr)+

text \<open>A new token is no grant of an administrator.\<close>

lemma keeps_CreateAPIToken [keep]: "\<not> tok_IsAdmin t \<Longrightarrow> keeps admin_state (store_CreateAPIToken t h)"
  unfolding store_CreateAPIToken_def
  by (rule keeps_table) (auto simp: db_parts token_row_def dest!: tbl_insert_Inr)

section \<open>Operations of the service that every user may call\<close>

lemmas keeps_ro_parts [keep] = keeps_ro [OF ro_require_vm] keeps_ro [OF ro_GetVM] keeps_ro [OF ro_valid_resources]
  keeps_ro [OF ro_create_defaults] keeps_ro [OF ro_create_primary_key] keeps_ro [OF ro_GetVMByName]
  keeps_ro [OF ro_resolveKernelForVM] keeps_ro [OF ro_resolveBaseImageForVM] keeps_ro [OF ro_allocatePort]
  keeps_ro [OF ro_allocateNetwork] keeps_ro [OF ro_prepareRootFS] keeps_ro [OF ro_ensureVMNetworkUsable]
  keeps_ro [OF ro_processRunning] keeps_ro [OF ro_setupTap] keeps_ro [OF ro_applyNFT] keeps_ro [OF ro_startFirecracker]
  keeps_ro [OF ro_firecrackerAction] keeps_ro [OF ro_kill_vm] keeps_ro [OF ro_cleanupVMRuntime] keeps_ro [OF ro_removeFile]
  keeps_ro [OF ro_validateSharedNetwork] keeps_ro [OF ro_GetNetwork] keeps_ro [OF ro_cleanupBridge]
  keeps_ro [OF ro_GetEgressPolicy] keeps_ro [OF ro_UsedSSHPorts] keeps_ro [OF ro_portOpen] keeps_ro [OF ro_HostOrphans]
  keeps_ro [OF ro_cleanup_result] keeps_ro [OF ro_tailFile] keeps_ro [OF ro_VMLogs] keeps_ro [OF ro_HostStatus]
  keeps_ro [OF ro_SSHTerminal] keeps_ro [OF ro_dashboardData] keeps_ro [OF ro_vmDetailData] keeps_ro [OF ro_upgrade]
  keeps_ro [OF ro_AuthorizedKeys] keeps_ro [OF ro_Generate] keeps_ro [OF ro_Import] keeps_ro [OF ro_ExecuteVMCommand]
  keeps_ro [OF ro_bcrypt(1)] keeps_ro [OF ro_bcrypt(2)] keeps_ro [OF ro_bcrypt(3)] keeps_ro [OF ro_token_parts(1)]
  keeps_ro [OF ro_token_parts(2)] keeps_ro [OF ro_token_parts(3)] keeps_ro [OF ro_token_parts(4)] keeps_ro [OF ro_discovery_job_id]
  keeps_ro [OF ro_ListVMs] keeps_ro [OF ro_ListIngressRules] keeps_ro [OF ro_referenced [OF ro_GetNetwork]]
  keeps_ro [OF ro_referenced [OF ro_GetEgressPolicy]]

lemmas keeps_reads [keep] = ro_reads [THEN keeps_ro]

lemma keeps_vm_helpers [keep]: "keeps admin_state (failVM vm e)" "keeps admin_state (ensureTapName vm)"
  unfolding failVM_def ensureTapName_def Let_def by (intro keep)+

lemma keeps_start_stop [keep]: "keeps admin_state (StartVM vid)" "keeps admin_state (StopVM vid)"
  unfolding StartVM_def StopVM_def Let_def by (intro keep)+

lemma keeps_UpdateResources [keep]: "keeps admin_state (UpdateResources vid c m restart)"
  unfolding UpdateResources_def Let_def by (intro keep)

lemma keeps_vm_calls [keep]:
  "keeps admin_state (CreateVM req)" "keeps admin_state (DeleteVM vid)" "keeps admin_state (RestartVM vid c m)"
  "keeps admin_state (SetVMEgressPolicy vid mode pid)" "keeps admin_state (AddIngressRule vid proto hp gp descr)"
  "keeps admin_state (DeleteIngressRule vid rid)"
  unfolding CreateVM_def DeleteVM_def RestartVM_def SetVMEgressPolicy_def AddIngressRule_def DeleteIngressRule_def Let_def
  by (intro keep)+

lemma keeps_network_calls [keep]:
  "keeps admin_state (CreateNetwork name cidr gw)" "keeps admin_state (DeleteNetwork nid)"
  "keeps admin_state (CreateEgressPolicy name mode tcp udp cidrs)" "keeps admin_state (DeleteEgressPolicy pid)"
  unfolding CreateNetwork_def DeleteNetwork_def CreateEgressPolicy_def DeleteEgressPolicy_def Let_def by (intro keep)+

lemma keeps_cancel_signal [keep]: "keeps g (cancel_signal j)" by (rule keeps_ro) (rule ro_cancel_signal)

lemma keeps_exec_calls [keep]: "keeps admin_state (StartVMExecJob vid req actor)" "keeps admin_state (CancelVMExecJob vid jid)"
  unfolding StartVMExecJob_def CancelVMExecJob_def cancel_read_def cancel_write_def require_running_def Let_def
  by (intro keep)+

section \<open>Handlers for every user\<close>

lemma keeps_audit [keep]: "keeps admin_state (audit r a t out m)" "keeps protected (audit r a t out m)" unfolding audit_def by (intro keep)+

lemma keeps_audited [keep]:
  "keeps admin_state m \<Longrightarrow> (\<And>e. keeps admin_state (h e)) \<Longrightarrow> (\<And>x. keeps admin_state (f x)) \<Longrightarrow> keeps admin_state (audited r a t tf m h f)"
  unfolding audited_def by (intro keep)

lemma keeps_shapes [keep]:
  "keeps admin_state m \<Longrightarrow> keeps admin_state (list_json r m f)"
  "keeps admin_state q \<Longrightarrow> (\<And>x. keeps admin_state (h x)) \<Longrightarrow> keeps admin_state (found_or_404 r q t h)"
  "keeps admin_state n \<Longrightarrow> keeps admin_state (audited_json r a t tf n s k)"
  "keeps admin_state d \<Longrightarrow> keeps admin_state (audited_delete r a kd x d)"
  "keeps admin_state (job_log r p)" "keeps admin_state (invalid_api r e)"
  unfolding list_json_def found_or_404_def audited_json_def audited_delete_def job_log_def invalid_api_def
  by (intro keep; simp)+

lemma createAPIToken_keeps: "\<not> ru_IsAdmin u \<Longrightarrow> keeps admin_state (createAPIToken u req)"
proof -
  assume u: "\<not> ru_IsAdmin u"
  let ?admin = "case trq_IsAdmin req of None \<Rightarrow> False | Some b \<Rightarrow> b"
  show ?thesis
  proof (cases "token_owner u req ?admin")
    case (Inl e)
    then show ?thesis unfolding createAPIToken_def Let_def by (simp add: keep liftE_def bindE_def) (intro keep; simp add: keeps_def)
  next
    case (Inr owner)
    then have "\<not> ?admin" using u by (auto simp: token_owner_def Let_def split: if_splits)
    then show ?thesis unfolding createAPIToken_def Let_def by (intro keep) simp
  qed
qed

lemma keeps_token_calls [keep]: "keeps admin_state (revokeAPIToken u tid)" "keeps admin_state (renderAPITokensPage r data)"
  unfolding revokeAPIToken_def renderAPITokensPage_def Let_def by (intro keep)+

lemma keeps_token_handlers:
  assumes "\<not> ru_IsAdmin (current r)"
  shows "keeps admin_state (uiAPITokenCreate r)" "keeps admin_state (apiTokenCreate dec r)"
  unfolding uiAPITokenCreate_def apiTokenCreate_def Let_def by (intro keep createAPIToken_keeps assms)+

lemma keeps_renders [keep]: "keeps admin_state (renderDashboardError r e)" "keeps admin_state (renderSSHKeysPage r data)"
  "keeps admin_state (keys_error r e)" "keeps admin_state (vmsTable r)" "keeps admin_state (vmsTableError r e)"
  "keeps admin_state (detail_page r vid f)" "keeps admin_state (renderVMDetailError r vid e)"
  "keeps admin_state (renderCreateVMForm r form fe t)" "keeps admin_state (action_error r e)" "keeps admin_state (action_done r t)"
  "keeps admin_state (restart_vm vid)" "keeps admin_state (back_to_vm v t)" "keeps admin_state (detail_error r e)"
  unfolding renderDashboardError_def renderSSHKeysPage_def keys_error_def vmsTable_def vmsTableError_def detail_page_def
    renderVMDetailError_def renderCreateVMForm_def action_error_def action_done_def restart_vm_def back_to_vm_def detail_error_def Let_def
  by (intro keep)+

lemma keeps_actions [keep]: "keeps admin_state (apiAction a r)" "keeps admin_state (vmAction a r)" "keeps admin_state (wsTerminal r)"
  unfolding apiAction_def vmAction_def wsTerminal_def by (intro keep)+

lemma keeps_user1 [keep]:
  "keeps admin_state (logoutPost r)" "keeps admin_state (dashboard r)" "keeps admin_state (sshKeysPage r)"
  "keeps admin_state (apiTokensPage r)" "keeps admin_state (uiSSHKeyGenerate r)"
  "keeps admin_state (uiSSHKeyImport r)" "keeps admin_state (uiSSHKeyDelete r)"
  "keeps admin_state (uiAPITokenAction r)" "keeps admin_state (vmCreateForm r)" "keeps admin_state (vmActionForm r)"
  "keeps admin_state (vmDeleteForm r)" "keeps admin_state (vmResourcesForm r)"
  "keeps admin_state (vmIngressRuleForm r)" "keeps admin_state (vmIngressRuleDeleteForm r)"
  "keeps admin_state (vmEgressPolicyForm r)" "keeps admin_state (uiNetworkCreate r)"
  "keeps admin_state (uiNetworkDelete r)" "keeps admin_state (uiEgressPolicyCreate r)"
  "keeps admin_state (uiEgressPolicyDelete r)"
  unfolding logoutPost_def dashboard_def sshKeysPage_def apiTokensPage_def uiSSHKeyGenerate_def uiSSHKeyImport_def
  uiSSHKeyDelete_def uiAPITokenAction_def vmCreateForm_def vmActionForm_def vmDeleteForm_def vmResourcesForm_def
  vmIngressRuleForm_def vmIngressRuleDeleteForm_def vmEgressPolicyForm_def uiNetworkCreate_def uiNetworkDelete_def
  uiEgressPolicyCreate_def uiEgressPolicyDelete_def Let_def
  by (intro keep)+

lemma keeps_user2 [keep]:
  "keeps admin_state (uiHostOrphansCleanup r)" "keeps admin_state (vmDetail r)" "keeps admin_state (apiSession r)"
  "keeps admin_state (apiTokenList r)" "keeps admin_state (apiTokenRevoke r)" "keeps admin_state (apiHostStatus r)"
  "keeps admin_state (apiHostOrphans r)" "keeps admin_state (apiHostOrphansCleanup r)"
  "keeps admin_state (apiSSHKeyList r)" "keeps admin_state (apiSSHKeyGenerate D r)"
  "keeps admin_state (apiSSHKeyImport D r)" "keeps admin_state (apiSSHKeyGet r)"
  "keeps admin_state (apiSSHKeyDelete r)" "keeps admin_state (apiBaseImageList r)"
  "keeps admin_state (apiKernelList r)" "keeps admin_state (apiVMList r)" "keeps admin_state (apiVMCreate D r)"
  "keeps admin_state (apiVMGet r)" "keeps admin_state (apiVMRestart D r)"
  unfolding uiHostOrphansCleanup_def vmDetail_def apiSession_def apiTokenList_def apiTokenRevoke_def apiHostStatus_def
  apiHostOrphans_def apiHostOrphansCleanup_def apiSSHKeyList_def apiSSHKeyGenerate_def apiSSHKeyImport_def
  apiSSHKeyGet_def apiSSHKeyDelete_def apiBaseImageList_def apiKernelList_def apiVMList_def apiVMCreate_def
  apiVMGet_def apiVMRestart_def Let_def
  by (intro keep)+

lemma keeps_user3 [keep]:
  "keeps admin_state (apiVMResources D r)" "keeps admin_state (apiVMLogs r)" "keeps admin_state (apiVMExec D r)"
  "keeps admin_state (apiVMExecJobList r)" "keeps admin_state (apiVMExecJobCreate D r)"
  "keeps admin_state (apiVMExecJobGet r)" "keeps admin_state (apiVMExecJobLogs r)"
  "keeps admin_state (apiVMExecJobCancel r)" "keeps admin_state (apiVMNetwork r)"
  "keeps admin_state (apiIngressRuleCreate D r)" "keeps admin_state (apiIngressRuleDelete r)"
  "keeps admin_state (apiVMEgressPolicy D r)" "keeps admin_state (apiVMDelete r)"
  "keeps admin_state (apiNetworkList r)" "keeps admin_state (apiNetworkCreate D r)"
  "keeps admin_state (apiNetworkDelete r)" "keeps admin_state (apiEgressPolicyList r)"
  "keeps admin_state (apiEgressPolicyCreate D r)" "keeps admin_state (apiEgressPolicyDelete r)"
  unfolding apiVMResources_def apiVMLogs_def apiVMExec_def apiVMExecJobList_def apiVMExecJobCreate_def
  apiVMExecJobGet_def apiVMExecJobLogs_def apiVMExecJobCancel_def apiVMNetwork_def apiIngressRuleCreate_def
  apiIngressRuleDelete_def apiVMEgressPolicy_def apiVMDelete_def apiNetworkList_def apiNetworkCreate_def
  apiNetworkDelete_def apiEgressPolicyList_def apiEgressPolicyCreate_def apiEgressPolicyDelete_def Let_def
  by (intro keep)+

lemma keeps_aliases [keep]:
  "keeps admin_state (apiVMStart r)" "keeps admin_state (apiVMStop r)" "keeps admin_state (vmStartForm r)"
  "keeps admin_state (vmStopForm r)" "keeps admin_state (vmRestartForm r)"
  unfolding apiVMStart_def apiVMStop_def vmStartForm_def vmStopForm_def vmRestartForm_def Let_def
  by (intro keep)+

section \<open>One world\<close>

definition keeps_at :: "(db \<Rightarrow> 'p) \<Rightarrow> world \<Rightarrow> 'a io \<Rightarrow> bool" where
  "keeps_at g w m \<longleftrightarrow> (users (database w) \<noteq> [] \<longrightarrow>
     users (database (snd (m w))) = users (database w) \<and> g (database (snd (m w))) = g (database w))"

lemma keeps_keeps_at: "keeps g m \<Longrightarrow> keeps_at g w m" by (simp add: keeps_def keeps_at_def)

lemma keeps_at_bind:
  assumes "ro_io m" "\<And>x v. m w = (Inr x, v) \<Longrightarrow> database v = database w \<Longrightarrow> host_of v = host_of w \<Longrightarrow> keeps_at g v (f x)"
  shows "keeps_at g w (bindE m f)"
proof -
  obtain q v where m: "m w = (q, v)" by fastforce
  then have d: "database v = database w" "host_of v = host_of w" using assms(1) by (auto simp: ro_io_def dest: spec [of _ w])
  show ?thesis using m d assms(2) [of _ v] by (cases q) (simp_all add: keeps_at_def bindE_def)
qed

lemma keeps_at_try:
  assumes "ro_io m" "\<And>q v. m w = (q, v) \<Longrightarrow> database v = database w \<Longrightarrow> host_of v = host_of w \<Longrightarrow> keeps_at g v (f q)"
  shows "keeps_at g w (bindE (tryE m) f)"
  using assms by (intro keeps_at_bind [OF ro_try]) (auto simp: tryE_run)

lemma keeps_at_then: "keeps_at g w m \<Longrightarrow> (\<And>x. keeps g (f x)) \<Longrightarrow> keeps_at g w (bindE m f)"
proof -
  assume m: "keeps_at g w m" and f: "\<And>x. keeps g (f x)"
  obtain q v where e: "m w = (q, v)" by fastforce
  show ?thesis
  proof (cases q)
    case (Inr x)
    then show ?thesis using m keeps_keeps_at [OF f, of v x] e by (auto simp: keeps_at_def bindE_def)
  qed (use m e in \<open>simp add: keeps_at_def bindE_def\<close>)
qed

lemma keeps_at_header: "keeps_at g w m \<Longrightarrow> keeps_at g w (with_header k v m)"
  unfolding with_header_def by (rule keeps_at_then, assumption) (intro keep)

lemma HasUsers_run: "store_HasUsers w = (Inr b, v) \<Longrightarrow> b = (users (database w) \<noteq> [])"
  by (auto simp: store_HasUsers_def query_run dest!: ro_ioD [OF ro_perform])

lemma keeps_setupPost [keep]: "keeps g (setupPost r)"
  unfolding keeps_def
proof (intro allI impI)
  fix w :: world assume u: "users (database w) \<noteq> []"
  have "keeps_at g w (setupPost r)" unfolding setupPost_def orError_def
  proof (rule keeps_at_try [OF ro_reads(1)], goal_cases)
    case (1 q v)
    then show ?case using HasUsers_run [of w _ v] u by (cases q) (auto intro!: keeps_keeps_at keep)
  qed
  then show "users (database (snd (setupPost r w))) = users (database w) \<and> g (database (snd (setupPost r w))) = g (database w)"
    using u by (simp add: keeps_at_def)
qed

section \<open>Routes that anybody reaches\<close>

text \<open>A part of the database that neither logins nor the end of a session nor audit entries change.\<close>

locale public_part =
  fixes g :: "db \<Rightarrow> 'p"
  assumes create: "keeps g (store_CreateSession s)"
    and delete: "keeps g (store_DeleteSession sid)"
    and entry: "keeps g (store_Audit a s2 c t2 out rid m)"
begin

lemma currentUser: "keeps g (currentUser r)"
  unfolding currentUser_def by (intro keep delete)

lemma public: "(p, Public, h) \<in> set (routes D) \<Longrightarrow> keeps g (h r)"
proof -
  have b: "keeps g (optionalBrowserUser r)" for r unfolding optionalBrowserUser_def by (intro keep currentUser)
  have "keeps g (static r)" "keeps g (serveEmbeddedDoc pa t)" "keeps g (apiDocsPage r)" "keeps g (agentDocsPage r)"
    "keeps g (setupGet r)" "keeps g (loginGet r)" "keeps g (loginPost r)" "keeps g (apiHealth r)" for pa t
    unfolding static_def serveEmbeddedDoc_def apiDocsPage_def agentDocsPage_def setupGet_def loginGet_def loginPost_def
      apiHealth_def Let_def
    by (intro keep b create entry)+
  then show "(p, Public, h) \<in> set (routes D) \<Longrightarrow> keeps g (h r)"
    by (auto simp: routes_def openapiSpec_def agentDocsMarkdown_def llmsTxt_def keeps_setupPost)
qed

end

interpretation admin_part: public_part admin_state by unfold_locales (intro keep)+
interpretation protected_part: public_part protected by unfold_locales (intro keep)+

section \<open>Credentials\<close>

text \<open>A token and a session that make the sender of a request an administrator.\<close>

definition admin_token :: "db \<Rightarrow> request \<Rightarrow> bool" where
  "admin_token d r = list_ex (\<lambda>t. atr_Hash t = hashAPIToken (bearerToken r) \<and> tok_IsAdmin (atr_Token t)
     \<and> tok_RevokedAt (atr_Token t) = None
     \<and> (tok_OwnerUserID (atr_Token t) = '''' \<or> list_ex (\<lambda>u. usr_ID u = tok_OwnerUserID (atr_Token t) \<and> usr_IsAdmin u) (users d)))
     (api_tokens d)"

definition admin_session :: "db \<Rightarrow> request \<Rightarrow> bool" where
  "admin_session d r = list_ex (\<lambda>s. rq_Cookie r session_cookie = Some (ses_ID s)
     \<and> list_ex (\<lambda>u. usr_ID u = ses_UserID s \<and> usr_IsAdmin u) (users d)) (sessions d)"

definition caller_admin :: "db \<Rightarrow> request \<Rightarrow> bool" where
  "caller_admin d r = (if bearerToken r \<noteq> '''' then admin_token d r else admin_session d r)"

text \<open>Every token and session that the request names is of no use at a time.\<close>

definition token_dead :: "time \<Rightarrow> api_token \<Rightarrow> bool" where
  "token_dead now t \<longleftrightarrow> tok_RevokedAt t \<noteq> None \<or> (case tok_ExpiresAt t of None \<Rightarrow> False | Some e \<Rightarrow> e < now)"

definition session_dead :: "time \<Rightarrow> request \<Rightarrow> session \<Rightarrow> bool" where
  "session_dead now r s \<longleftrightarrow> ses_ExpiresAt s < now
     \<or> rq_Method r \<notin> {''GET'', ''HEAD'', ''OPTIONS''} \<and> (csrf_token r = '''' \<or> csrf_token r \<noteq> ses_CSRFToken s)"

definition no_credentials :: "time \<Rightarrow> db \<Rightarrow> request \<Rightarrow> bool" where
  "no_credentials now d r =
     (if bearerToken r \<noteq> ''''
      then list_all (\<lambda>t. atr_Hash t = hashAPIToken (bearerToken r) \<longrightarrow> token_dead now (atr_Token t)) (api_tokens d)
      else list_all (\<lambda>s. rq_Cookie r session_cookie = Some (ses_ID s) \<longrightarrow> session_dead now r s) (sessions d))"

lemma Now_run: "Now w = (q, v) \<longleftrightarrow> q = Inr (clock (host_of w) (trail w)) \<and> v = w\<lparr>trail := Clock # trail w\<rparr>"
  by (auto simp: Now_def)

lemma GetAPITokenByHash_run:
  assumes "store_GetAPITokenByHash h w = (Inr (Some t), v)"
  shows "\<exists>row \<in> set (api_tokens (database w)). atr_Hash row = h \<and> t = scanAPIToken (database w) row"
proof -
  have "Some t = map_option (scanAPIToken (database w)) (find (\<lambda>r. atr_Hash r = h) (api_tokens (database w)))"
    using assms by (auto simp: store_GetAPITokenByHash_def query_run dest!: ro_ioD [OF ro_perform])
  then obtain row where "find (\<lambda>r. atr_Hash r = h) (api_tokens (database w)) = Some row" "t = scanAPIToken (database w) row"
    by (metis map_option_eq_Some)
  then show ?thesis by (auto simp: find_Some_iff)
qed

lemma scanAPIToken_same [simp]:
  "tok_IsAdmin (scanAPIToken d row) = tok_IsAdmin (atr_Token row)" "tok_RevokedAt (scanAPIToken d row) = tok_RevokedAt (atr_Token row)"
  "tok_ExpiresAt (scanAPIToken d row) = tok_ExpiresAt (atr_Token row)" "tok_ID (scanAPIToken d row) = tok_ID (atr_Token row)"
  "tok_OwnerUserID (scanAPIToken d row) = tok_OwnerUserID (atr_Token row)" "tok_Name (scanAPIToken d row) = tok_Name (atr_Token row)"
  by (simp_all add: scanAPIToken_def split: option.splits)

lemma UserByID_run: "store_UserByID uid w = (Inr (Some u), v) \<Longrightarrow> u \<in> set (users (database w)) \<and> usr_ID u = uid"
  by (auto simp: store_UserByID_def query_run find_Some_iff2 dest!: ro_ioD [OF ro_perform])

lemma Touch_users: "ignoreE (store_TouchAPIToken tid) w = (q, v) \<Longrightarrow> users (database w) \<noteq> [] \<Longrightarrow> users (database v) = users (database w)"
  using keepsD [OF keeps_ignore [OF keeps_token_rows(1)], of w tid q v] by simp

lemma currentTokenUser_admin:
  assumes run: "currentTokenUser (bearerToken r) w = (Inr (Some u), w')" and adm: "ru_IsAdmin u" and us: "users (database w) \<noteq> []"
  shows "admin_token (database w) r"
proof -
  obtain t w1 where t: "store_GetAPITokenByHash (hashAPIToken (bearerToken r)) w = (Inr (Some t), w1)"
    using run by (auto simp: currentTokenUser_def bindE_def returnE_def split: prod.splits sum.splits option.splits)
  have d1: "database w1 = database w" using ro_db [OF ro_reads(9) t] .
  obtain row where row: "row \<in> set (api_tokens (database w))" "atr_Hash row = hashAPIToken (bearerToken r)"
    "t = scanAPIToken (database w) row" using GetAPITokenByHash_run [OF t] by blast
  define w2 where "w2 = w1\<lparr>trail := Clock # trail w1\<rparr>"
  obtain q w3 where touch: "ignoreE (store_TouchAPIToken (tok_ID t)) w2 = (q, w3)" by fastforce
  have d3: "users (database w3) = users (database w)" using Touch_users [OF touch] us d1 by (simp add: w2_def)
  have live: "tok_RevokedAt t = None" and rest:
    "(if tok_OwnerUserID t = '''' then returnE (Some (token_user t))
      else bindE (store_UserByID (tok_OwnerUserID t)) (\<lambda>owner. case owner of None \<Rightarrow> returnE None | Some o' \<Rightarrow> returnE (Some (owner_user t o')))) w3
       = (Inr (Some u), w')"
    using run t touch
    by (auto simp: currentTokenUser_def bindE_def seqE_def Now_def w2_def returnE_def split: prod.splits sum.splits if_splits option.splits)
  have "tok_IsAdmin t \<and> (tok_OwnerUserID t = '''' \<or> (\<exists>o' \<in> set (users (database w)). usr_ID o' = tok_OwnerUserID t \<and> usr_IsAdmin o'))"
  proof (cases "tok_OwnerUserID t = ''''")
    case False
    then obtain o' w4 where "store_UserByID (tok_OwnerUserID t) w3 = (Inr (Some o'), w4)" "u = owner_user t o'"
      using rest by (auto simp: bindE_def returnE_def split: prod.splits sum.splits option.splits)
    then show ?thesis using UserByID_run [of "tok_OwnerUserID t" w3 o' w4] d3 adm by (auto simp: owner_user_def)
  qed (use rest adm in \<open>auto simp: returnE_def token_user_def\<close>)
  then show ?thesis using row live by (auto simp: admin_token_def list_ex_iff)
qed

lemma currentTokenUser_dead:
  assumes run: "currentTokenUser (bearerToken r) w = (q, w')" and dead: "no_credentials now (database w) r" "bearerToken r \<noteq> ''''"
    and later: "\<And>tr. now \<le> clock (host_of w) tr"
  shows "database w' = database w \<and> (\<forall>u. q \<noteq> Inr (Some u))"
proof -
  obtain f w1 where f: "store_GetAPITokenByHash (hashAPIToken (bearerToken r)) w = (f, w1)" by fastforce
  have d1: "database w1 = database w" "host_of w1 = host_of w" using ro_ioD [OF ro_reads(9) f] ro_host [OF ro_reads(9) f] by simp_all
  show ?thesis
  proof (cases "\<exists>t. f = Inr (Some t)")
    case True
    then obtain t where t: "f = Inr (Some t)" by blast
    then obtain row where row: "row \<in> set (api_tokens (database w))" "atr_Hash row = hashAPIToken (bearerToken r)"
      "t = scanAPIToken (database w) row" using GetAPITokenByHash_run f by blast
    then have "token_dead now (atr_Token row)" using dead by (simp add: no_credentials_def list_all_iff)
    then have "tok_RevokedAt t \<noteq> None \<or> (case tok_ExpiresAt t of None \<Rightarrow> False | Some e \<Rightarrow> e < clock (host_of w1) (trail w1))"
      using row(3) later [of "trail w1"] d1 by (auto simp: token_dead_def split: option.splits)
    then show ?thesis using run f t d1
      by (auto simp: currentTokenUser_def bindE_def Now_def returnE_def split: if_splits)
  qed (use run f d1 in \<open>auto simp: currentTokenUser_def bindE_def returnE_def split: sum.splits option.splits\<close>)
qed

lemma currentUser_run:
  assumes run: "currentUser r w = (Inr (Some (u, s)), w')"
  shows "s \<in> set (sessions (database w)) \<and> rq_Cookie r session_cookie = Some (ses_ID s) \<and> u \<in> set (users (database w))
    \<and> usr_ID u = ses_UserID s \<and> (\<exists>tr. clock (host_of w) tr \<le> ses_ExpiresAt s)"
proof -
  obtain v where v: "rq_Cookie r session_cookie = Some v" "v \<noteq> ''''"
    using run by (auto simp: currentUser_def returnE_def split: option.splits if_splits)
  obtain f w1 where f: "store_SessionByID v w = (f, w1)" by fastforce
  have d1: "database w1 = database w" "host_of w1 = host_of w" using ro_ioD [OF ro_reads(5) f] ro_host [OF ro_reads(5) f] by simp_all
  obtain s' where s': "f = Inr (Some s')"
    using run v f by (auto simp: currentUser_def bindE_def tryE_def returnE_def split: sum.splits option.splits)
  have mem: "s' \<in> set (sessions (database w))" "ses_ID s' = v"
    using f s' by (auto simp: store_SessionByID_def query_run find_Some_iff2 dest!: ro_ioD [OF ro_perform])
  define w2 where "w2 = w1\<lparr>trail := Clock # trail w1\<rparr>"
  obtain f2 w3 where f2: "store_UserByID (ses_UserID s') w2 = (f2, w3)" by fastforce
  have "\<not> (ses_ExpiresAt s' < clock (host_of w1) (trail w1))" "f2 = Inr (Some u)" "s = s'"
    using run v f s' f2
    by (auto simp: currentUser_def bindE_def tryE_def seqE_def Now_def w2_def config_get_def getsW_def returnE_def
        split: sum.splits option.splits if_splits prod.splits)
  then show ?thesis using mem v UserByID_run [of "ses_UserID s'" w2 u w3] f2 d1
    by (auto simp: w2_def intro: exI [of _ "trail w1"])
qed

section \<open>Guarded handlers\<close>

text \<open>Like \<open>keeps_at_try\<close>, for a computation that writes.\<close>

lemma keeps_at_tried:
  assumes "keeps g m" "\<And>q v. m w = (q, v) \<Longrightarrow> users (database w) \<noteq> [] \<Longrightarrow> keeps_at g v (f q)"
  shows "keeps_at g w (bindE (tryE m) f)"
  unfolding keeps_at_def
proof
  assume u: "users (database w) \<noteq> []"
  obtain q v where m: "m w = (q, v)" by fastforce
  have b: "bindE (tryE m) f w = f q v" using m by (simp add: bindE_def tryE_def)
  show "users (database (snd (bindE (tryE m) f w))) = users (database w) \<and> g (database (snd (bindE (tryE m) f w))) = g (database w)"
    using keepsD [OF assms(1) u m] assms(2) [OF m u] u unfolding b keeps_at_def by auto
qed

lemma keeps_at_tried_ok:
  assumes "keeps g m" "\<And>x v. m w = (Inr x, v) \<Longrightarrow> users (database w) \<noteq> [] \<Longrightarrow> keeps_at g v (f x)"
  shows "keeps_at g w (bindE m f)"
  unfolding keeps_at_def
proof
  assume u: "users (database w) \<noteq> []"
  obtain q v where m: "m w = (q, v)" by fastforce
  show "users (database (snd (bindE m f w))) = users (database w) \<and> g (database (snd (bindE m f w))) = g (database w)"
    using keepsD [OF assms(1) u m] assms(2) [of _ v] m u by (cases q) (auto simp: keeps_at_def bindE_def)
qed

lemma current_user [simp]: "current (r\<lparr>rq_User := Some u\<rparr>) = u"
  by (simp add: current_def)

lemma keeps_touch [keep]: "keeps admin_state (currentTokenUser secret)"
  unfolding currentTokenUser_def by (intro keep)

lemma requireAuth_keeps:
  assumes non: "\<not> caller_admin (database w) r" and h: "\<And>r. \<not> ru_IsAdmin (current r) \<Longrightarrow> keeps admin_state (h r)"
  shows "keeps_at admin_state w (requireAuth h r)"
  unfolding requireAuth_def
proof (rule keeps_at_try [OF ro_reads(1)], goal_cases)
  case (1 has v)
  have "keeps_at admin_state v (token_auth (bearerToken r) h r)" if b: "bearerToken r \<noteq> ''''"
    unfolding token_auth_def
  proof (rule keeps_at_tried [OF keeps_touch], goal_cases)
    case (1 q v2)
    have "\<not> ru_IsAdmin u" if "q = Inr (Some u)" for u
      using currentTokenUser_admin [of r v u v2] 1 that non b \<open>database v = database w\<close> by (auto simp: caller_admin_def)
    then show ?case by (auto intro!: keeps_keeps_at keep h split: sum.splits option.splits)
  qed
  moreover have "keeps_at admin_state v (session_auth h r)" if b: "bearerToken r = ''''"
    unfolding session_auth_def
  proof (rule keeps_at_tried_ok [OF admin_part.currentUser], goal_cases)
    case (1 found v2)
    have "\<not> usr_IsAdmin u" if "found = Some (u, s)" for u s
      using currentUser_run [of r v u s v2] 1 that non b \<open>database v = database w\<close>
      by (auto simp: caller_admin_def admin_session_def list_ex_iff)
    then show ?case
      by (auto intro!: keeps_keeps_at keep h simp: session_user_def split: option.splits)
  qed
  ultimately show ?case by (auto intro!: keeps_keeps_at keep split: sum.splits bool.splits)
qed

lemma requireAdmin_keeps: "\<not> ru_IsAdmin (current r) \<Longrightarrow> keeps g (requireAdmin h r)"
  unfolding requireAdmin_def by (simp add: keep)

lemma requireAuth_dead:
  assumes dead: "no_credentials now (database w) r" and later: "\<And>tr. now \<le> clock (host_of w) tr"
  shows "keeps_at protected w (requireAuth h r)"
  unfolding requireAuth_def
proof (rule keeps_at_try [OF ro_reads(1)], goal_cases)
  case (1 has v)
  note dv = \<open>database v = database w\<close> and hv = \<open>host_of v = host_of w\<close>
  have "keeps_at protected v (token_auth (bearerToken r) h r)" if b: "bearerToken r \<noteq> ''''"
  proof -
    obtain q v2 where q: "currentTokenUser (bearerToken r) v = (q, v2)" by fastforce
    have "database v2 = database v" "\<forall>u. q \<noteq> Inr (Some u)"
      using currentTokenUser_dead [OF q, of now] dead b dv hv later by auto
    moreover have "keeps_at protected v2 (http_Error t s)" "keeps_at protected v2 (deny r s t1 t2)" for t t1 t2 s
      by (intro keeps_keeps_at keep)+
    ultimately show ?thesis using q
      by (cases q) (auto simp: token_auth_def keeps_at_def bindE_def tryE_def split: option.splits)
  qed
  moreover have "keeps_at protected v (session_auth h r)" if b: "bearerToken r = ''''"
    unfolding session_auth_def
  proof (rule keeps_at_tried_ok [OF protected_part.currentUser], goal_cases)
    case (1 found v2)
    have "\<not> csrf_ok r s" if f: "found = Some (u, s)" for u s
    proof -
      have run: "currentUser r v = (Inr (Some (u, s)), v2)" using 1 f by simp
      from currentUser_run [OF run] obtain tr where s: "s \<in> set (sessions (database v))" "rq_Cookie r session_cookie = Some (ses_ID s)"
        "clock (host_of v) tr \<le> ses_ExpiresAt s" by blast
      then have "session_dead now r s" using dead b dv by (simp add: no_credentials_def list_all_iff)
      then show ?thesis using s(3) later [of tr] hv by (auto simp: session_dead_def csrf_ok_def isStateChanging_def)
    qed
    then show ?case by (auto intro!: keeps_keeps_at keep split: option.splits)
  qed
  ultimately show ?case by (auto intro!: keeps_keeps_at keep split: sum.splits bool.splits)
qed

section \<open>The router\<close>

text \<open>The middlewares and the mux change only what names the request and the values of its wildcards.\<close>

lemma keeps_at_router:
  assumes "\<And>p acc h v rid pv. (p, acc, h) \<in> set (routes D) \<Longrightarrow> database v = database w \<Longrightarrow> host_of v = host_of w \<Longrightarrow>
      keeps_at g v (guarded acc h (r\<lparr>rq_RequestID := rid, rq_PathValue := pv\<rparr>))"
  shows "keeps_at g w (Router D r)"
proof -
  have o: "keeps g (redirect_url q p)" "keeps g (not_allowed ms)" for q p ms
    unfolding redirect_url_def not_allowed_def by (intro keep)+
  have d: "keeps_at g v (dispatch rt ss (r\<lparr>rq_RequestID := rid\<rparr>))"
    if rt: "find_route (routes D) m p = Some rt" and v: "database v = database w" "host_of v = host_of w" for rt ss rid m p v
    using assms [OF _ v, of "fst rt" "fst (snd rt)" "snd (snd rt)"] find_route_mem [OF rt]
    by (cases rt) (auto simp: dispatch_def intro!: keeps_keeps_at keep split: option.splits)
  have "keeps_at g v (ServeMux (routes D) (r\<lparr>rq_RequestID := rid\<rparr>))"
    if v: "database v = database w" "host_of v = host_of w" for v rid
    unfolding ServeMux_def Let_def using d [OF _ v] o
    by (auto intro!: keeps_keeps_at [OF o(1)] keeps_keeps_at [OF o(2)] keeps_keeps_at keep split: option.splits)
  then have q: "keeps_at g w (requestID (ServeMux (routes D)) r)"
    unfolding requestID_def by (intro keeps_at_bind ro keeps_at_header) simp_all
  have "keeps_at g w (hostGuard (requestID (ServeMux (routes D))) r)"
    unfolding hostGuard_def
  proof (rule keeps_at_bind [OF ro_config], goal_cases)
    case (1 x v)
    then have "v = w" by (simp add: config_get_run)
    then show ?case using q by (auto intro!: keeps_keeps_at keep)
  qed
  then show ?thesis unfolding Router_def securityHeaders_def by (intro keeps_at_header)
qed

text \<open>What a route does with the request of somebody who is no administrator, or nobody.\<close>

lemma routes_keep: "(p, User, h) \<in> set (routes D) \<Longrightarrow> \<not> ru_IsAdmin (current r) \<Longrightarrow> keeps admin_state (h r)"
  unfolding routes_def by (auto simp: keep keeps_token_handlers)

lemma same_credentials [simp]:
  "caller_admin d (r\<lparr>rq_RequestID := rid, rq_PathValue := pv\<rparr>) = caller_admin d r"
  "no_credentials now d (r\<lparr>rq_RequestID := rid, rq_PathValue := pv\<rparr>) = no_credentials now d r"
  by (simp_all add: caller_admin_def admin_token_def admin_session_def no_credentials_def session_dead_def csrf_ok_def
      csrf_token_def FormValue_def bearerToken_def Let_def)

lemma guarded_keeps:
  assumes "(p, acc, h) \<in> set (routes D)" "\<not> caller_admin (database w) r"
  shows "keeps_at admin_state w (guarded acc h r)"
proof (cases acc)
  case Public
  then show ?thesis using admin_part.public [of p h D] assms(1) by (simp add: guarded_def keeps_keeps_at)
next
  case User
  then show ?thesis using requireAuth_keeps [OF assms(2)] routes_keep [of p h D] assms(1) by (simp add: guarded_def)
next
  case Admin
  have "keeps_at admin_state w (requireAuth (requireAdmin h) r)"
    by (rule requireAuth_keeps [OF assms(2)], rule requireAdmin_keeps)
  then show ?thesis using Admin by (simp add: guarded_def)
qed

text \<open>
  C4: a request that carries neither a live token nor a live session with its CSRF token, in any form, on any
  path and whatever the host answers, changes nothing in the database of an instance that is set up but
  sessions and the audit log.
\<close>

theorem unauthenticated_harmless:
  assumes "users (database w) \<noteq> []" "no_credentials now (database w) r" "\<forall>tr. now \<le> clock (host_of w) tr"
  shows "protected (database (snd (Router D r w))) = protected (database w)"
proof -
  have "keeps_at protected w (Router D r)"
  proof (rule keeps_at_router)
    fix p acc h rid pv and v :: world
    assume rt: "(p, acc, h) \<in> set (routes D)" and v: "database v = database w" "host_of v = host_of w"
    let ?r = "r\<lparr>rq_RequestID := rid, rq_PathValue := pv\<rparr>"
    have "keeps_at protected v (requireAuth k ?r)" for k
      using assms(2,3) v by (intro requireAuth_dead [where now = now]) simp_all
    then show "keeps_at protected v (guarded acc h ?r)"
      using protected_part.public [of p h D] rt by (cases acc) (simp_all add: guarded_def keeps_keeps_at)
  qed
  then show ?thesis using assms(1) by (simp add: keeps_at_def)
qed

text \<open>
  C5: a request whose token or session does not belong to an administrator never changes what only
  administrators may: the users, the base images, hooks, kernels and their jobs, nor does it make a token with
  administrator rights.
\<close>

theorem only_admins_administer:
  assumes "users (database w) \<noteq> []" "\<not> caller_admin (database w) r"
  shows "admin_state (database (snd (Router D r w))) = admin_state (database w)"
proof -
  have "keeps_at admin_state w (Router D r)"
  proof (rule keeps_at_router)
    fix p acc h rid pv and v :: world
    assume "(p, acc, h) \<in> set (routes D)" "database v = database w"
    then show "keeps_at admin_state v (guarded acc h (r\<lparr>rq_RequestID := rid, rq_PathValue := pv\<rparr>))"
      using assms(2) by (intro guarded_keeps) simp_all
  qed
  then show ?thesis using assms(1) by (simp add: keeps_at_def)
qed

end
