(* ===== verification/TokenGrants.thy ===== *)
theory TokenGrants
  imports Access
begin

text \<open>
  API tokens from creation to use: what \<open>createAPIToken\<close> grants, and that the secret it returns, of which only
  the hash is stored, is accepted as a bearer token of the owner.
\<close>

lemma Hex_run: "Hex n w = (q, v) \<longleftrightarrow> q = Inr (random_hex (host_of w) (trail w) n) \<and> v = w\<lparr>trail := Random n # trail w\<rparr>"
  by (auto simp: Hex_def)

lemma option_io_run:
  "(case x of None \<Rightarrow> throwE e | Some y \<Rightarrow> f y) w = (Inr z, v) \<longleftrightarrow> (\<exists>y. x = Some y \<and> f y w = (Inr z, v))"
  by (cases x) (auto simp: throwE_def)

lemma createAPIToken_parts:
  assumes "createAPIToken actor req w = (Inr (tok, secret), w')"
  obtains owner uid w1 e w2 rnd tid created v where
    "token_owner actor req (tok_IsAdmin tok) = Inr uid" "store_UserByID uid w = (Inr (Some owner), w1)"
    "tok_IsAdmin tok \<longrightarrow> usr_IsAdmin owner" "token_expiry (trq_ExpiresAt req) w1 = (Inr e, w2)"
    "clock (host_of w2) (trail w2) < e" "secret = ''bap_'' @ rnd"
    "tok_OwnerUserID tok = usr_ID owner" "tok_RevokedAt tok = None" "tok_ExpiresAt tok = Some e"
    "store_CreateAPIToken tok (hashAPIToken secret) v = (Inr (), w')" "database v = database w2"
proof -
  let ?admin = "case trq_IsAdmin req of None \<Rightarrow> False | Some b \<Rightarrow> b"
  show thesis using assms that
    unfolding createAPIToken_def Let_def
    by (auto simp: io_run Now_run Hex_run option_io_run split del: option.split if_split) 
qed

lemma ro_expiry_db: "token_expiry s w = (q, v) \<Longrightarrow> database v = database w \<and> host_of v = host_of w"
  using ro_db [OF ro_token_parts(1), of s w q v] ro_host [OF ro_token_parts(1), of s w q v] by simp

lemma UserByID_find: "store_UserByID uid w = (Inr found, v) \<Longrightarrow>
    found = find (\<lambda>u. usr_ID u = uid) (users (database w)) \<and> database v = database w \<and> host_of v = host_of w"
  using ro_db [OF ro_reads(3), of uid w "Inr found" v] ro_host [OF ro_reads(3), of uid w "Inr found" v]
  by (auto simp: store_UserByID_def query_run dest!: ro_ioD [OF ro_perform])

text \<open>Who may ask for which token.\<close>

lemma token_owner_rules:
  assumes "token_owner actor req admin = Inr uid"
  shows "(admin \<longrightarrow> ru_IsAdmin actor) \<and> (ru_IsAdmin actor \<or> uid = ru_ID actor)"
  using assms by (auto simp: token_owner_def Let_def split: if_splits)

lemma CreateAPIToken_db:
  assumes "store_CreateAPIToken tok h v = (Inr (), w')"
  shows "violated api_tokens_uniq (api_tokens (database v)) (token_row tok h) = None
    \<and> database w' = (database v)\<lparr>api_tokens := api_tokens (database v) @ [token_row tok h]\<rparr>"
  using exec_db [OF assms [unfolded store_CreateAPIToken_def]] by (auto simp: put_Inr dest!: tbl_insert_Inr)

lemma created_token_found:
  assumes "violated api_tokens_uniq rows (token_row tok h) = None"
  shows "find (\<lambda>r. atr_Hash r = h) (rows @ [token_row tok h]) = Some (token_row tok h)"
proof -
  have "\<forall>x \<in> set rows. atr_Hash x \<noteq> h" using assms by (auto simp: violated_None api_tokens_uniq_def token_row_def)
  then have "find (\<lambda>r. atr_Hash r = h) rows = None" by (auto simp: find_None_iff)
  then have "find (\<lambda>r. atr_Hash r = h) (rows @ rest) = find (\<lambda>r. atr_Hash r = h) rest" for rest
    by (induction rows) (auto split: if_splits)
  then show ?thesis by (simp add: token_row_def)
qed

text \<open>A live token with an owner, in a database whose engine answers.\<close>

lemma currentTokenUser_accepts:
  assumes found: "find (\<lambda>r. atr_Hash r = hashAPIToken secret) (api_tokens (database w)) = Some row"
    and owner: "find (\<lambda>u. usr_ID u = tok_OwnerUserID (atr_Token row)) (users (database w)) = Some owner"
    and named: "tok_OwnerUserID (atr_Token row) \<noteq> ''''" and live: "\<And>tr. \<not> token_dead (clock (host_of w) tr) (atr_Token row)"
    and sql: "sql_ok (host_of w)"
  shows "\<exists>w'. currentTokenUser secret w = (Inr (Some (owner_user (scanAPIToken (database w) row) owner)), w')"
proof -
  let ?t = "scanAPIToken (database w) row"
  let ?w1 = "w\<lparr>trail := Sql ''SELECT FROM api_tokens'' # trail w\<rparr>"
  let ?w2 = "?w1\<lparr>trail := Clock # trail ?w1\<rparr>"
  have q: "store_GetAPITokenByHash (hashAPIToken secret) w = (Inr (Some ?t), ?w1)"
    using found by (simp add: store_GetAPITokenByHash_def query_ok [OF sql])
  obtain x w3 where touch: "ignoreE (store_TouchAPIToken (tok_ID ?t)) ?w2 = (x, w3)" by fastforce
  then have x: "x = Inr ()" by (auto simp: ignoreE_def bindE_def tryE_def returnE_def split: prod.splits)
  have "users (database w) \<noteq> []" using owner by auto
  then have u3: "users (database w3) = users (database w)" using Touch_users [OF touch] by simp
  have "stable host_of (ignoreE (store_TouchAPIToken (tok_ID ?t)))"
    unfolding store_TouchAPIToken_def update_token_def
    by (intro stable_ignore stable_bind stable_Now) (auto simp: blind_def stable_def exec_def seqE_def bindE_def dest: ro_host [OF ro_perform] split: prod.splits sum.splits)
  then have h3: "host_of w3 = host_of w" using touch by (auto dest: stableD)
  have o3: "store_UserByID (tok_OwnerUserID ?t) w3 = (Inr (Some owner), w3\<lparr>trail := Sql ''SELECT FROM users'' # trail w3\<rparr>)"
    using sql h3 u3 owner by (simp add: store_UserByID_def query_ok)
  have l: "tok_RevokedAt (atr_Token row) = None"
    "\<not> (case tok_ExpiresAt (atr_Token row) of None \<Rightarrow> False | Some t \<Rightarrow> t < clock (host_of w) (trail ?w1))"
    using live [of "trail ?w1"] by (simp_all add: token_dead_def split: option.splits)
  show ?thesis using q l named touch x o3
    by (simp add: currentTokenUser_def bindE_def Now_def seqE_def returnE_def cong: option.case_cong)
qed


end
