(* ===== verification/ImageBuilds.thy ===== *)
theory ImageBuilds
  imports BaseImages
begin

text \<open>
  What a build of a base image leaves behind: an image that was mounted is unmounted on every exit, also
  before the build directory is removed, and what the loop over the hooks writes to their rows.
\<close>

section \<open>What the parts of a build do to any world\<close>

context trail_relation
begin

lemma runs_log_write [runs]: "runs R (log_write l t)" unfolding log_write_def by (intro runs)
lemma runs_logf [runs]: "runs R (logf l t)" unfolding logf_def by (intro runs)
lemma runs_runLogged [runs]: "runs R (runLogged l n a)" unfolding runLogged_def by (intro runs)
lemma runs_umount_all [runs]: "runs R (umount_all ts)" unfolding umount_all_def by (intro runs)
lemma runs_EvalSymlinks [runs]: "runs R (EvalSymlinks p)" unfolding EvalSymlinks_def by (intro runs)
lemma runs_fileSHA256 [runs]: "runs R (fileSHA256 p)" unfolding fileSHA256_def by (intro runs)
lemma runs_output_of [runs]: "runs R (output_of n a)" unfolding output_of_def by (intro runs)
lemma runs_chroot [runs]: "runs R (writeAndRunChrootScript l m n c)"
  unfolding writeAndRunChrootScript_def Let_def by (intro runs)
lemma runs_clone_hook [runs]: "runs R (clone_hook l h d)" unfolding clone_hook_def by (intro runs)
lemma runs_sparse_image [runs]: "runs R (sparse_image l j p)" unfolding sparse_image_def by (intro runs)

lemma runs_bind_devices [runs]: "runs R (bind_devices d ms devs)"
  by (induction devs arbitrary: ms) (auto simp: Let_def intro!: runs)

lemma runs_bindMinimalDevices [runs]: "runs R (bindMinimalDevices m)"
  unfolding bindMinimalDevices_def Let_def by (intro runs)

lemma runs_pseudo_mounts [runs]: "runs R (pseudo_mounts m ms rest)"
  by (induction m ms rest rule: pseudo_mounts.induct) (auto simp: Let_def intro!: runs)

lemma runs_mountPseudo [runs]: "runs R (mountBuildPseudoFilesystems m)"
  unfolding mountBuildPseudoFilesystems_def by (intro runs)

end

context world_relation
begin

lemma runs_run_git_hook [runs]: "runs R (run_git_hook l m b h)" unfolding run_git_hook_def Let_def by (intro runs)
lemma runs_runBuildHook [runs]: "runs R (runBuildHook l m b h)" unfolding runBuildHook_def by (intro runs)
lemma runs_build_hook [runs]: "runs R (build_hook l m b h)" unfolding build_hook_def by (intro runs)
lemma runs_fill_image [runs]: "runs R (fill_image l m b ps hs)" unfolding fill_image_def by (intro runs)
lemma runs_mounted_build [runs]: "runs R (mounted_build l m b ps hs)" unfolding mounted_build_def by (intro runs)
lemma runs_register_build [runs]: "runs R (register_build l j p)" unfolding register_build_def Let_def by (intro runs)

end

section \<open>The image is unmounted\<close>

lemma run_recorded: "run n a w = (r, w') \<Longrightarrow> trail w' = Exec n a # trail w"
  by (auto simp: run_def bindE_def ask_def throwE_def returnE_def split: reply.splits)

lemma onErrorE_ok: "m w = (Inr x, v) \<Longrightarrow> onErrorE d m w = (Inr x, v)"
  by (simp add: onErrorE_def bindE_def tryE_def returnE_def)

lemma onErrorE_fail: "m w = (Inl e, v) \<Longrightarrow> onErrorE (ignoreE d) m w = (Inl e, snd (d v))"
  by (cases "d v") (simp add: onErrorE_def ignoreE_def seqE_def bindE_def tryE_def returnE_def throwE_def)

text \<open>
  What the commands so far have left mounted on \<open>target\<close>: a mount that succeeded and that no \<open>umount\<close> of
  the same directory has followed.
\<close>

fun still_mounted :: "host \<Rightarrow> string \<Rightarrow> effect list \<Rightarrow> bool" where
  "still_mounted h target [] = False"
| "still_mounted h target (e # t) =
     (if e = Exec ''umount'' [target] then False
      else case e of
        Exec name args \<Rightarrow>
          if name = ''mount'' \<and> args \<noteq> [] \<and> last args = target
             \<and> (case answer h t e of Fail m out \<Rightarrow> False | _ \<Rightarrow> True)
          then True else still_mounted h target t
      | _ \<Rightarrow> still_mounted h target t)"

definition mount_state :: "string \<Rightarrow> world \<Rightarrow> bool" where
  "mount_state target w = still_mounted (host_of w) target (trail w)"

lemma mount_blind [simp]:
  "(\<forall>args. e \<noteq> Exec ''mount'' args \<and> e \<noteq> Exec ''umount'' args) \<Longrightarrow> blind (mount_state target) e"
  by (auto simp: blind_def mount_state_def split: effect.splits)

lemma runLogged_ok: "runLogged l n a w = (Inr x, v) \<Longrightarrow> trail v = Exec n a # trail w \<and> host_of v = host_of w"
  by (auto simp: runLogged_def bindE_def ask_def returnE_def seqE_def throwE_def split: reply.splits sum.splits prod.splits)

lemma unmounted_after: "trail v = Exec ''umount'' [target] # t \<Longrightarrow> \<not> mount_state target v"
  by (simp add: mount_state_def)

lemma mounted_build_unmounts:
  assumes "mounted_build log mountRoot buildRoot packages hooks w = (r, w')"
  shows "\<not> mount_state mountRoot w'"
proof -
  let ?m = "seqE (fill_image log mountRoot buildRoot packages hooks) (runLogged log ''umount'' [mountRoot])"
  obtain q v where q: "?m w = (q, v)" by fastforce
  show ?thesis
  proof (cases q)
    case (Inl e)
    then have "w' = snd (run ''umount'' [mountRoot] v)"
      using assms q onErrorE_fail [of ?m w e v "run ''umount'' [mountRoot]"] by (simp add: mounted_build_def)
    then show ?thesis
      using run_recorded [of "''umount''" "[mountRoot]" v] unmounted_after by (metis prod.collapse)
  next
    case (Inr x)
    then have "w' = v" using assms q onErrorE_ok [of ?m w x v] by (simp add: mounted_build_def)
    then show ?thesis using q Inr runLogged_ok unmounted_after by (fastforce simp: seqE_Inr)
  qed
qed

section \<open>Every exit of a build\<close>

lemma stable_log_write [stable]: "stable (mount_state t) (log_write l s)"
  unfolding log_write_def os_call_def by (intro stable) simp
lemma stable_logf [stable]: "stable (mount_state t) (logf l s)" unfolding logf_def by (intro stable) simp
lemma stable_os_call [stable]: "stable (mount_state t) (os_call n a)" unfolding os_call_def by (intro stable) simp
lemma stable_mkdirAll [stable]: "stable (mount_state t) (mkdirAll p m)" unfolding mkdirAll_def by (intro stable)
lemma stable_runLogged [stable]: "n \<noteq> ''mount'' \<Longrightarrow> n \<noteq> ''umount'' \<Longrightarrow> stable (mount_state t) (runLogged l n a)"
  unfolding runLogged_def by (intro stable) simp
lemma stable_onError [stable]: "stable f d \<Longrightarrow> stable f m \<Longrightarrow> stable f (onErrorE d m)"
  unfolding onErrorE_def by (intro stable)
lemma stable_sparse_image [stable]: "stable (mount_state t) (sparse_image l j p)"
  unfolding sparse_image_def by (intro stable) simp_all
lemma stable_fileSHA256 [stable]: "stable (mount_state t) (fileSHA256 p)"
  unfolding fileSHA256_def by (intro stable) simp
lemma stable_imageSizes [stable]: "stable (mount_state t) (imageSizes p)"
  unfolding imageSizes_def by (intro stable) (auto split: stat_reply.splits intro!: stable)

lemma stable_exec: "blind f (Sql q) \<Longrightarrow> (\<And>w d. f (w\<lparr>database := d\<rparr>) = f w) \<Longrightarrow> stable f (exec q g)"
  unfolding exec_def by (intro stable, assumption) (simp add: stable_def split: sum.splits)

lemma stable_CreateBaseImage [stable]: "stable (mount_state t) (store_CreateBaseImage i)"
  unfolding store_CreateBaseImage_def by (rule stable_exec) (simp_all add: mount_state_def)

lemma stable_register_build [stable]: "stable (mount_state t) (register_build l j p)"
  unfolding register_build_def Let_def by (intro stable) simp_all

definition build_mount :: "config \<Rightarrow> image_build_job \<Rightarrow> string" where
  "build_mount c job = Join [Join [BuildDir (Images c), bj_ID job], ''mnt'']"

text \<open>No new mount stays on \<open>target\<close>; the configuration is the same.\<close>

definition unmounting :: "config \<Rightarrow> string \<Rightarrow> world \<Rightarrow> world \<Rightarrow> bool" where
  "unmounting c target w w' \<longleftrightarrow> (cfg w = c \<longrightarrow> cfg w' = c \<and> (mount_state target w' \<longrightarrow> mount_state target w))"

interpretation unmounting: run_relation "unmounting c target" for c target
  by unfold_locales (auto simp: unmounting_def)

lemma runs_stable: "runs same_host m \<Longrightarrow> stable (mount_state target) m \<Longrightarrow> runs (unmounting c target) m"
  by (simp add: runs_def stable_def unmounting_def same_host_def)

lemma runs_config_get: "runs (unmounting c target) (f (g c)) \<Longrightarrow> runs (unmounting c target) (bindE (config_get g) f)"
proof (rule runsI)
  fix w r w' assume f: "runs (unmounting c target) (f (g c))" and "bindE (config_get g) f w = (r, w')"
  then have "f (g (cfg w)) w = (r, w')" by (simp add: bindE_def config_get_def getsW_def)
  then show "unmounting c target w w'" using runsD [OF f] by (cases "cfg w = c") (auto simp: unmounting_def)
qed

lemma ask_bind: "bindE (ask e) f w = f (answer (host_of w) (trail w) e) (w\<lparr>trail := e # trail w\<rparr>)"
  by (simp add: bindE_def ask_def)

lemma runs_mount_then:
  assumes "\<And>w r w'. n w = (r, w') \<Longrightarrow> \<not> mount_state target w'" "runs same_host n"
  shows "runs (unmounting c target) (seqE (runLogged l ''mount'' (a @ [target])) n)"
proof (rule runsI)
  fix w r w' assume m: "seqE (runLogged l ''mount'' (a @ [target])) n w = (r, w')"
  have "runs same_host (seqE (runLogged l ''mount'' (a @ [target])) n)" using assms(2) by (intro runs)
  from runsD [OF this m] have c: "cfg w' = cfg w" by (simp add: same_host_def)
  obtain q v where q: "runLogged l ''mount'' (a @ [target]) w = (q, v)" by fastforce
  show "unmounting c target w w'"
  proof (cases q)
    case (Inr x)
    then have "n v = (r, w')" using m q by (simp add: seqE_def bindE_def)
    then show ?thesis using assms(1) c by (simp add: unmounting_def)
  next
    case (Inl e)
    then have w': "w' = v" using m q by (simp add: seqE_def bindE_def)
    let ?e = "Exec ''mount'' (a @ [target])"
    let ?v = "w\<lparr>trail := ?e # trail w\<rparr>"
    obtain m out where a: "answer (host_of w) (trail w) ?e = Fail m out"
      using q Inl by (auto simp: runLogged_def ask_bind returnE_def split: reply.splits)
    then have "seqE (log_write l (''mount'' @ '' '' @ join '' '' (redactArgs (a @ [target])) @ '' failed: '' @ m @ NL))
        (throwE (PlainError (''mount'' @ '' failed: '' @ m)) :: unit io) ?v = (q, v)"
      using q by (simp add: runLogged_def ask_bind)
    moreover have "stable (mount_state target) (seqE (log_write l s) (throwE e1 :: unit io))" for s e1 by (intro stable)
    ultimately have "mount_state target v = mount_state target ?v" using stableD by blast
    also have "\<dots> = mount_state target w" using a by (simp add: mount_state_def)
    finally show ?thesis using w' c by (simp add: unmounting_def)
  qed
qed


section \<open>A device mount that is left\<close>

text \<open>
  When binding the device files fails after some are mounted, the error path
  unmounts the image but none of those, so they are still mounted when the build directory is removed.
\<close>

lemma device_mounts_leak:
  assumes "seqE (logf log ''installing packages'') (runLogged log ''dnf'' ([''install'', ''--installroot='' @ mountRoot,
      ''--releasever=10'', ''--setopt=install_weak_deps=False'', ''-y''] @ baseRootFSPackages @ packages)) w = (Inr (), u)"
    and "bindMinimalDevices mountRoot u = (Inr (binds, Some e), v)" "mount_state target v" "target \<noteq> mountRoot"
  shows "\<exists>w'. mounted_build log mountRoot buildRoot packages hooks w = (Inl e, w') \<and> mount_state target w'"
proof -
  have "fill_image log mountRoot buildRoot packages hooks w = (Inl e, v)"
    using assms(1,2) by (auto simp: fill_image_def seqE_def bindE_def throwE_def split: sum.splits prod.splits)
  then have "seqE (fill_image log mountRoot buildRoot packages hooks) (runLogged log ''umount'' [mountRoot]) w = (Inl e, v)"
    by (simp add: seqE_def bindE_def)
  then have m: "mounted_build log mountRoot buildRoot packages hooks w = (Inl e, snd (run ''umount'' [mountRoot] v))"
    unfolding mounted_build_def by (rule onErrorE_fail)
  have "trail (snd (run ''umount'' [mountRoot] v)) = Exec ''umount'' [mountRoot] # trail v"
    using run_recorded [of "''umount''" "[mountRoot]" v] by (metis prod.collapse)
  moreover have "host_of (snd (run ''umount'' [mountRoot] v)) = host_of v"
    using ro_host [OF ro_run] by (metis prod.collapse)
  ultimately have "mount_state target (snd (run ''umount'' [mountRoot] v))"
    using assms(3,4) by (simp add: mount_state_def)
  with m show ?thesis by blast
qed

text \<open>A host on which the second device cannot be mounted.\<close>

definition busy_host :: host where
  "busy_host = \<lparr>clock = \<lambda>_. 0, random_hex = \<lambda>_ _. ''00'',
     answer = \<lambda>_ e. if e = Exec ''mount'' [''--bind'', ''/dev/zero'', ''/b/mnt/dev/zero''] then Fail ''exit status 32'' ''busy'' else Ok '''',
     stat_of = \<lambda>_ p. Missing p, ssh_run = \<lambda>_ _. \<lparr>run_stdout = [], run_stderr = [], run_result = None, run_cut = False\<rparr>\<rparr>"

definition busy_world :: "config \<Rightarrow> world" where
  "busy_world c = \<lparr>database = empty_db, cfg = c, terminalKeys = [], execCancels = [], canceledCtx = [],
     host_of = busy_host, trail = []\<rparr>"

lemma busy_paths:
  "Join [''/b/mnt'', ''dev''] = ''/b/mnt/dev''" "Join [''/b/mnt/dev'', ''null''] = ''/b/mnt/dev/null''"
  "Join [''/b/mnt/dev'', ''zero''] = ''/b/mnt/dev/zero''" "Join [''/dev'', ''null''] = ''/dev/null''"
  "Join [''/dev'', ''zero''] = ''/dev/zero''"
  by code_simp+

lemma bind_sample:
  assumes "host_of u = busy_host"
  shows "\<exists>v e. bindMinimalDevices ''/b/mnt'' u = (Inr ([''/b/mnt/dev/null''], Some e), v) \<and> mount_state ''/b/mnt/dev/null'' v"
  using assms
  by (simp add: Let_def bindMinimalDevices_def busy_paths errorOf_def mkdirAll_def os_call_def do_effect_def perform_def writeFile_def
      run_def stat_def seqE_def tryE_def ask_bind bindE_def ask_def returnE_def throwE_def busy_host_def mount_state_def)

lemma device_mounts_leak_sample:
  "\<exists>w' e. mounted_build ''/l'' ''/b/mnt'' ''/b'' [] [] (busy_world c) = (Inl e, w') \<and> mount_state ''/b/mnt/dev/null'' w'"
proof -
  have "\<exists>u. seqE (logf ''/l'' ''installing packages'') (runLogged ''/l'' ''dnf'' ([''install'', ''--installroot='' @ ''/b/mnt'',
      ''--releasever=10'', ''--setopt=install_weak_deps=False'', ''-y''] @ baseRootFSPackages @ [])) (busy_world c) = (Inr (), u)"
    by (simp add: logf_def log_write_def os_call_def do_effect_def ignoreE_def Now_def seqE_def bindE_def tryE_def perform_def
        ask_def returnE_def runLogged_def busy_world_def busy_host_def)
  then obtain u where u: "seqE (logf ''/l'' ''installing packages'') (runLogged ''/l'' ''dnf'' ([''install'', ''--installroot='' @ ''/b/mnt'',
      ''--releasever=10'', ''--setopt=install_weak_deps=False'', ''-y''] @ baseRootFSPackages @ [])) (busy_world c) = (Inr (), u)" by blast
  have "runs same_host (seqE (logf ''/l'' ''installing packages'') (runLogged ''/l'' ''dnf'' ([''install'', ''--installroot='' @ ''/b/mnt'',
      ''--releasever=10'', ''--setopt=install_weak_deps=False'', ''-y''] @ baseRootFSPackages @ [])))" by (intro runs)
  from runsD [OF this u] have "host_of u = busy_host" by (simp add: same_host_def busy_world_def)
  then obtain v e where v: "bindMinimalDevices ''/b/mnt'' u = (Inr ([''/b/mnt/dev/null''], Some e), v)" "mount_state ''/b/mnt/dev/null'' v"
    using bind_sample by blast
  show ?thesis using device_mounts_leak [OF u v] by blast
qed

section \<open>What the loop over the hooks writes\<close>

definition hook_row :: "image_hook \<Rightarrow> db \<Rightarrow> bool" where
  "hook_row hook d \<longleftrightarrow> uniq_ok image_hooks_uniq (image_hooks d)
     \<and> (\<exists>r \<in> set (image_hooks d). hook_ID r = hook_ID hook \<and> hook_Name r = hook_Name hook)"

definition hook_kept :: "image_hook \<Rightarrow> world \<Rightarrow> world \<Rightarrow> bool" where
  "hook_kept hook w w' \<longleftrightarrow> (hook_row hook (database w) \<longrightarrow> hook_row hook (database w')) \<and> host_of w' = host_of w"

interpretation hook_kept: trail_relation "hook_kept hook" for hook
  by unfold_locales (auto simp: hook_kept_def)

lemma put_hook:
  assumes "hook_row hook d" "hook_ID h = hook_ID hook" "hook_Name h = hook_Name hook"
  shows "\<exists>rows. tbl_update image_hooks_uniq (\<lambda>r. hook_ID r = hook_ID h) (\<lambda>_. h) (image_hooks d) = Inr rows
    \<and> uniq_ok image_hooks_uniq rows \<and> h \<in> set rows"
proof -
  obtain r where u: "uniq_ok image_hooks_uniq (image_hooks d)"
    and r: "r \<in> set (image_hooks d)" "hook_ID r = hook_ID h" "hook_Name r = hook_Name h"
    using assms by (auto simp: hook_row_def)
  have "\<forall>x \<in> set (image_hooks d). hook_ID x = hook_ID h \<longrightarrow> x = r"
    using image_hooks_tbl.same_key [OF u] r by metis
  then have t: "tbl_update image_hooks_uniq (\<lambda>r. hook_ID r = hook_ID h) (\<lambda>_. h) (image_hooks d)
      = Inr (map (\<lambda>x. if hook_ID x = hook_ID h then h else x) (image_hooks d))"
    by (intro tbl_update_succeeds [OF u]) (auto simp: image_hooks_uniq_def r)
  show ?thesis using t tbl_update_uniq [OF t u] r(1,2) by force
qed

lemma runs_put_hook:
  assumes "hook_ID h = hook_ID hook" "hook_Name h = hook_Name hook"
  shows "runs (hook_kept hook) (store_UpdateImageHook h)"
  unfolding store_UpdateImageHook_def
proof (intro runs)
  fix t
  let ?h = "h\<lparr>hook_UpdatedAt := t\<rparr>"
  show "runs (hook_kept hook) (exec ''UPDATE image_hooks'' (\<lambda>d. put (tbl_update image_hooks_uniq (\<lambda>i. hook_ID i = hook_ID h)
      (\<lambda>_. ?h) (image_hooks d)) (\<lambda>rows. d\<lparr>image_hooks := rows\<rparr>)))"
  proof (rule runsI)
    fix w r w' assume e: "exec ''UPDATE image_hooks'' (\<lambda>d. put (tbl_update image_hooks_uniq (\<lambda>i. hook_ID i = hook_ID h)
      (\<lambda>_. ?h) (image_hooks d)) (\<lambda>rows. d\<lparr>image_hooks := rows\<rparr>)) w = (r, w')"
    have "runs same_host (exec ''UPDATE image_hooks'' (\<lambda>d. put (tbl_update image_hooks_uniq (\<lambda>i. hook_ID i = hook_ID h)
      (\<lambda>_. ?h) (image_hooks d)) (\<lambda>rows. d\<lparr>image_hooks := rows\<rparr>)))" by (intro runs)
    from runsD [OF this e] have "host_of w' = host_of w" by (simp add: same_host_def)
    moreover have "hook_row hook (database w')" if row: "hook_row hook (database w)"
    proof -
      obtain rows where rows: "tbl_update image_hooks_uniq (\<lambda>r. hook_ID r = hook_ID h) (\<lambda>_. ?h) (image_hooks (database w)) = Inr rows"
          "uniq_ok image_hooks_uniq rows" "?h \<in> set rows"
        using put_hook [OF row, of ?h] assms by auto
      have "database w' = database w \<or> database w' = (database w)\<lparr>image_hooks := rows\<rparr>"
        using exec_db [OF e] rows(1) by (auto simp: put_def split: sum.splits)
      moreover have "hook_row hook ((database w)\<lparr>image_hooks := rows\<rparr>)"
        using rows(2,3) assms by (auto simp: hook_row_def intro!: bexI [of _ ?h])
      ultimately show ?thesis using row by metis
    qed
    ultimately show "hook_kept hook w w'" by (simp add: hook_kept_def)
  qed
qed

lemma runs_kept_runBuildHook: "runs (hook_kept hook) (runBuildHook l m b hook)"
  unfolding runBuildHook_def run_git_hook_def Let_def by (intro runs runs_put_hook) simp_all

text \<open>
  C38: a counterexample: whatever \<open>runBuildHook\<close> stored about a hook, the row that the build leaves is the
  one it loaded, with a new time of use: the commit and the checksum that a git hook resolved to are
  overwritten by those it had before the build.
\<close>

theorem resolved_commit_lost:
  assumes "build_hook log mountRoot buildRoot hook w = (Inr (), w')" "sql_ok (host_of w)" "hook_row hook (database w)"
  shows "\<exists>t u. find (\<lambda>r. hook_ID r = hook_ID hook) (image_hooks (database w'))
    = Some (hook\<lparr>hook_LastUsedAt := Some t, hook_UpdatedAt := u\<rparr>)"
proof -
  obtain w1 t w2 where r: "runBuildHook log mountRoot buildRoot hook w = (Inr (), w1)" "Now w1 = (Inr t, w2)"
      "ignoreE (store_UpdateImageHook (hook\<lparr>hook_LastUsedAt := Some t\<rparr>)) w2 = (Inr (), w')"
    using assms(1) by (auto simp: build_hook_def io_run)
  have k: "hook_row hook (database w2)" "sql_ok (host_of w2)"
    using runsD [OF runs_kept_runBuildHook r(1)] assms(2,3) ro_io_run [OF ro_Now r(2)] by (simp_all add: hook_kept_def)
  obtain u w3 where u: "Now w2 = (Inr u, w3)" by (simp add: Now_def)
  let ?h = "hook\<lparr>hook_LastUsedAt := Some t, hook_UpdatedAt := u\<rparr>"
  have k3: "hook_row hook (database w3)" "sql_ok (host_of w3)" using k ro_io_run [OF ro_Now u] by simp_all
  obtain rows where rows: "tbl_update image_hooks_uniq (\<lambda>r. hook_ID r = hook_ID ?h) (\<lambda>_. ?h) (image_hooks (database w3)) = Inr rows"
      "uniq_ok image_hooks_uniq rows" "?h \<in> set rows"
    using put_hook [OF k3(1), of ?h] by auto
  have "database w' = (database w3)\<lparr>image_hooks := rows\<rparr>"
    using r(3) u exec_ok [OF k3(2)] rows(1)
    by (simp add: ignoreE_def seqE_def bindE_def tryE_def returnE_def store_UpdateImageHook_def put_def split: prod.splits) auto
  then show ?thesis
    using image_hooks_tbl.find_key [OF rows(2,3)] by auto
qed

end
