(* ===== verification/TimeText.thy ===== *)
theory TimeText
  imports GoHttp
begin

text \<open>
  The text of an instant reads back as the instant: \<open>time.Parse\<close> with \<open>time.RFC3339Nano\<close>, which accepts what
  \<open>time.RFC3339\<close> accepts, inverts \<open>formatTime\<close> for the years from 0 to 9999.
\<close>

section \<open>Years\<close>

lemma div_shift: "0 < b \<Longrightarrow> x = y + k * b \<Longrightarrow> x div b = k + y div (b :: int)"
  by simp

lemma divided: "0 < b \<Longrightarrow> (x :: int) = b * (x div b) + x mod b \<and> 0 \<le> x mod b \<and> x mod b < b"
  by simp

lemma days_before_cycle: "days_before_year (400 * a + z) = 146097 * a + days_before_year z"
proof -
  have "(400 * a + z + 3) div 4 = 100 * a + (z + 3) div 4" by (rule div_shift) simp_all
  moreover have "(400 * a + z + 99) div 100 = 4 * a + (z + 99) div 100" by (rule div_shift) simp_all
  moreover have "(400 * a + z + 399) div 400 = a + (z + 399) div 400" by (rule div_shift) simp_all
  ultimately show ?thesis by (simp add: days_before_year_def)
qed

lemma days_before_century:
  assumes "0 \<le> b" "b \<le> 3" "0 \<le> x" "x < 100"
  shows "days_before_year (100 * b + x) =
    36524 * b + 365 * x + (x + 3) div 4 - (if x = 0 then 0 else 1) + (if b = 0 \<and> x = 0 then 0 else 1)"
proof -
  have 1: "(100 * b + x + 3) div 4 = 25 * b + (x + 3) div 4" by (rule div_shift) simp_all
  have "(x + 99) div 100 = (if x = 0 then 0 else 1)"
    using assms int_div_pos_eq [of "x + 99" 100 1 "x - 1"] by auto
  moreover have "(100 * b + x + 99) div 100 = b + (x + 99) div 100" by (rule div_shift) simp_all
  moreover have "(100 * b + x + 399) div 400 = (if b = 0 \<and> x = 0 then 0 else 1)"
    using assms int_div_pos_eq [of "100 * b + x + 399" 400 1 "100 * b + x - 1"] by auto
  ultimately show ?thesis using 1 by (simp add: days_before_year_def)
qed

lemma century_days:
  assumes "0 \<le> b" "b \<le> 3" "0 \<le> c" "c \<le> 24" "0 \<le> e" "e \<le> 3"
  shows "days_before_year (100 * b + (4 * c + e)) = 36524 * b + 1461 * c + 365 * e + (if e = 0 then 0 else 1)
    + (if c = 0 \<and> e = 0 then 0 else - 1) + (if b = 0 \<and> c = 0 \<and> e = 0 then 0 else 1)"
proof -
  have "(e + 3) div 4 = (if e = 0 then 0 else 1)" using assms int_div_pos_eq [of "e + 3" 4 1 "e - 1"] by auto
  moreover have "(4 * c + e + 3) div 4 = c + (e + 3) div 4" by (rule div_shift) simp_all
  moreover have "4 * c + e = 0 \<longleftrightarrow> c = 0 \<and> e = 0" using assms by presburger
  moreover have "0 \<le> 4 * c + e" "4 * c + e < 100" using assms by linarith+
  ultimately show ?thesis using days_before_century [of b "4 * c + e"] assms by auto
qed

lemma mod_shift: "0 \<le> y \<Longrightarrow> y < b \<Longrightarrow> x = y + k * b \<Longrightarrow> x mod b = (y :: int)"
  by simp

lemma century_leap:
  assumes "0 \<le> b" "b \<le> 3" "0 \<le> c" "c \<le> 24" "0 \<le> e" "e \<le> 3"
  shows "leap (400 * a + (100 * b + (4 * c + e))) \<longleftrightarrow> e = 0 \<and> (c \<noteq> 0 \<or> b = 0)"
proof -
  have "(400 * a + (100 * b + (4 * c + e))) mod 4 = e" by (rule mod_shift [where k = "100 * a + 25 * b + c"]) (use assms in simp_all)
  moreover have "(400 * a + (100 * b + (4 * c + e))) mod 100 = 4 * c + e"
    by (rule mod_shift [where k = "4 * a + b"]) (use assms in simp_all)
  moreover have "(400 * a + (100 * b + (4 * c + e))) mod 400 = 100 * b + (4 * c + e)"
    by (rule mod_shift [where k = a]) (use assms in simp_all)
  ultimately show ?thesis using assms by (auto simp: leap_def)
qed

text \<open>Four years that begin with a year of \<open>first\<close> days; centuries and cycles of four years likewise.\<close>

lemma after_first:
  assumes "0 \<le> (r :: int)" "r < first + k * len" "0 < len" "0 < first"
    and "n = (if r < first then 0 else 1 + (r - first) div len)" "y = (if r < first then r else (r - first) mod len)"
  shows "0 \<le> n \<and> n \<le> k \<or> n = 0" "0 \<le> y" "y < (if n = 0 then first else len)"
    "r = (if n = 0 then y else first + (n - 1) * len + y)"
proof -
  let ?q = "(r - first) div len" and ?m = "(r - first) mod len"
  have d: "r - first = len * ?q + ?m" "0 \<le> ?m" "?m < len" using divided [OF assms(3), of "r - first"] by simp_all
  have q: "0 \<le> ?q" if "first \<le> r" using that assms(3) by (simp add: pos_imp_zdiv_nonneg_iff)
  have k: "?q < k" if "first \<le> r"
  proof -
    have "r - first < len * k" using assms(2) by (simp add: algebra_simps)
    then have "len * ?q < len * k" using d(1,2) by linarith
    then show ?thesis using assms(3) by simp
  qed
  show "0 \<le> n \<and> n \<le> k \<or> n = 0" using assms(5) q k by auto
  show "0 \<le> y" using assms(1,6) d by auto
  show "y < (if n = 0 then first else len)" using assms(5,6) d q by auto
  show "r = (if n = 0 then y else first + (n - 1) * len + y)" using assms(5,6) d(1) q by (auto simp: algebra_simps)
qed

lemma year_of_day_correct:
  assumes "year_of_day d = (y, yday)"
  shows "d = days_before_year y + yday \<and> 0 \<le> yday \<and> yday < (if leap y then 366 else 365)"
proof -
  define a r where ar: "a = d div 146097" "r = d mod 146097"
  define b where b: "b = (if r < 36525 then 0 else 1 + (r - 36525) div 36524)"
  define s where s: "s = (if r < 36525 then r else (r - 36525) mod 36524)"
  define g :: int where g: "g = (if b = 0 then 1461 else 1460)"
  define c where c: "c = (if s < g then 0 else 1 + (s - g) div 1461)"
  define q where q: "q = (if s < g then s else (s - g) mod 1461)"
  define f :: int where f: "f = (if b \<noteq> 0 \<and> c = 0 then 365 else 366)"
  define e where e: "e = (if q < f then 0 else 1 + (q - f) div 365)"
  define yd where yd: "yd = (if q < f then q else (q - f) mod 365)"
  have r: "0 \<le> r" "r < 146097" "d = 146097 * a + r" by (simp_all add: ar)
  have B: "0 \<le> b" "b \<le> 3" "0 \<le> s" "s < (if b = 0 then 36525 else 36524)" "r = (if b = 0 then s else 36525 + (b - 1) * 36524 + s)"
    using after_first [of r 36525 3 36524 b s] r b s by auto
  have G: "0 < g" "s < g + 24 * 1461" using B(4) by (auto simp: g split: if_splits)
  have C: "0 \<le> c" "c \<le> 24" "0 \<le> q" "q < (if c = 0 then g else 1461)" "s = (if c = 0 then q else g + (c - 1) * 1461 + q)"
    using after_first [OF B(3) G(2) _ G(1) c q] by auto
  have F: "0 < f" "q < f + 3 * 365" using C(4) by (auto simp: f g split: if_splits)
  have E: "0 \<le> e" "e \<le> 3" "0 \<le> yd" "yd < (if e = 0 then f else 365)" "q = (if e = 0 then yd else f + (e - 1) * 365 + yd)"
    using after_first [OF C(3) F(2) _ F(1) e yd] by auto
  have old: "(if b = 0 then s div 1461 else if s < 1460 then 0 else 1 + (s - 1460) div 1461) = c"
    "(if b = 0 then s mod 1461 else if s < 1460 then s else (s - 1460) mod 1461) = q"
  proof -
    have "s div 1461 = 1 + (s - 1461) div 1461" "s mod 1461 = (s - 1461) mod 1461"
      using div_shift [of 1461 s "s - 1461" 1] by (simp_all add: mod_diff_right_eq)
    moreover have "s div 1461 = 0" "s mod 1461 = s" if "s < 1461" using that B(3) by simp_all
    ultimately show "(if b = 0 then s div 1461 else if s < 1460 then 0 else 1 + (s - 1460) div 1461) = c"
      "(if b = 0 then s mod 1461 else if s < 1460 then s else (s - 1460) mod 1461) = q"
      by (auto simp: c q g)
  qed
  have y: "y = 400 * a + (100 * b + (4 * c + e))" "yday = yd"
    using assms unfolding year_of_day_def Let_def ar [symmetric] b [symmetric] s [symmetric] old f [symmetric] e [symmetric] yd [symmetric]
    by auto
  have l: "leap y \<longleftrightarrow> e = 0 \<and> (c \<noteq> 0 \<or> b = 0)" unfolding y by (rule century_leap [OF B(1,2) C(1,2) E(1,2)])
  have "days_before_year y = 146097 * a + (36524 * b + 1461 * c + 365 * e + (if e = 0 then 0 else 1)
    + (if c = 0 \<and> e = 0 then 0 else - 1) + (if b = 0 \<and> c = 0 \<and> e = 0 then 0 else 1))"
    unfolding y days_before_cycle century_days [OF B(1,2) C(1,2) E(1,2)] ..
  then show ?thesis using r B C E l unfolding y(2) by (auto simp: f g split: if_splits)
qed

section \<open>Months\<close>

lemma month_split_correct:
  "0 \<le> d \<Longrightarrow> d < sum_list ms \<Longrightarrow> month_split ms d = (k, r) \<Longrightarrow>
    k < length ms \<and> 0 \<le> r \<and> r < ms ! k \<and> d = sum_list (take k ms) + r"
proof (induction ms arbitrary: d k r)
  case (Cons m ms)
  show ?case
  proof (cases "d < m")
    case False
    obtain k' where k: "k = Suc k'" "month_split ms (d - m) = (k', r)"
      using Cons.prems(3) False by (auto simp: Let_def split: prod.splits)
    with Cons.IH [of "d - m" k' r] Cons.prems False show ?thesis by auto
  qed (use Cons.prems in auto)
qed simp

lemma month_lengths_facts: "length (month_lengths l) = 12" "sum_list (month_lengths l) = (if l then 366 else 365)"
  by (simp_all add: month_lengths_def)

section \<open>Digits\<close>

lemma show_nat_length: "0 < n \<Longrightarrow> v < 10 ^ n \<Longrightarrow> length (show_nat v) \<le> n"
proof (induction n arbitrary: v)
  case (Suc n)
  show ?case
  proof (cases "v < 10")
    case False
    then have "0 < n" using Suc.prems(2) by (cases n) auto
    moreover have "v div 10 < 10 ^ n" using Suc.prems(2) by (simp add: less_mult_imp_div_less)
    ultimately show ?thesis using Suc.IH [of "v div 10"] False by (simp add: show_nat.simps [of v])
  qed (simp add: show_nat.simps [of v])
qed simp

lemma read_digits_zeros: "read_digits (replicate k (CHR ''0'') @ s) = read_digits s"
  by (induction k) (simp_all add: read_digits_def digit_val_def)

lemma pad_facts:
  assumes "0 < n" "0 \<le> v" "v < 10 ^ n"
  shows "length (pad n v) = n" "list_all is_digit (pad n v)" "int (read_digits (pad n v)) = v"
proof -
  have "nat v < 10 ^ n" using assms by (simp add: nat_less_iff)
  then have l: "length (show_nat (nat v)) \<le> n" using show_nat_length assms(1) by blast
  then show "length (pad n v) = n" by (simp add: pad_def Let_def)
  have "list_all is_digit (show_nat (nat v))" using show_nat_set by (auto simp: list_all_iff)
  moreover have "is_digit (CHR ''0'')" by (simp add: is_digit_def)
  ultimately show "list_all is_digit (pad n v)" by (auto simp: pad_def Let_def list_all_iff)
  show "int (read_digits (pad n v)) = v" using assms(2) by (simp add: pad_def Let_def read_digits_zeros)
qed

lemma two_pad: "0 \<le> v \<Longrightarrow> v \<le> 99 \<Longrightarrow> lo \<le> v \<Longrightarrow> v \<le> hi \<Longrightarrow> two (pad 2 v @ rest) lo hi = Some (v, rest)"
proof -
  assume v: "0 \<le> v" "v \<le> 99" "lo \<le> v" "v \<le> hi"
  have "length (pad 2 v) = 2" using pad_facts(1) [of 2 v] v by simp
  then obtain a b where ab: "pad 2 v = [a, b]" by (auto simp: numeral_2_eq_2 length_Suc_conv)
  have "is_digit a" "is_digit b" "int (read_digits [a, b]) = v" using pad_facts(2,3) [of 2 v] v ab by simp_all
  then show ?thesis using v ab by (simp add: two_def)
qed

lemma hour_pad: "0 \<le> v \<Longrightarrow> v \<le> 23 \<Longrightarrow> hour_of (pad 2 v @ rest) = Some (v, rest)"
proof -
  assume v: "0 \<le> v" "v \<le> 23"
  have "length (pad 2 v) = 2" using pad_facts(1) [of 2 v] v by simp
  then obtain a b where ab: "pad 2 v = [a, b]" by (auto simp: numeral_2_eq_2 length_Suc_conv)
  have "is_digit a" "is_digit b" using pad_facts(2) [of 2 v] v ab by simp_all
  then show ?thesis using two_pad [of v 0 23 rest] v ab by (simp add: hour_of_def)
qed

lemma year_pad: "0 \<le> y \<Longrightarrow> y \<le> 9999 \<Longrightarrow> year_part (pad 4 y @ rest) = Some (y, rest)"
  using pad_facts [of 4 y] by (simp add: year_part_def Let_def)

section \<open>Fractions\<close>

lemma trim_zeros_split: "\<exists>k. s = trim_zeros s @ replicate k (CHR ''0'')"
proof -
  have "rev s = takeWhile (\<lambda>c. c = CHR ''0'') (rev s) @ dropWhile (\<lambda>c. c = CHR ''0'') (rev s)" by simp
  then have "s = trim_zeros s @ rev (takeWhile (\<lambda>c. c = CHR ''0'') (rev s))"
    unfolding trim_zeros_def by (metis rev_append rev_rev_ident)
  moreover have "rev (takeWhile (\<lambda>c. c = CHR ''0'') (rev s)) = replicate (length (takeWhile (\<lambda>c. c = CHR ''0'') (rev s))) (CHR ''0'')"
    by (rule replicate_eqI) (auto dest: set_takeWhileD)
  ultimately show ?thesis by metis
qed

lemma fraction_frac_text:
  assumes "0 \<le> ns" "ns < 1000000000"
  shows "fraction (frac_text ns @ ''Z'') = (ns, ''Z'')"
proof (cases "ns = 0")
  case False
  let ?p = "pad 9 ns" and ?ds = "trim_zeros (pad 9 ns)"
  have p: "length ?p = 9" "list_all is_digit ?p" "int (read_digits ?p) = ns" using pad_facts [of 9 ns] assms by simp_all
  obtain k where k: "?p = ?ds @ replicate k (CHR ''0'')" using trim_zeros_split by blast
  have digits: "\<forall>c \<in> set ?ds. is_digit c" using p(2) k by (metis Un_iff list_all_iff set_append)
  have "?ds \<noteq> []"
  proof
    assume "?ds = []"
    then have "read_digits ?p = read_digits (replicate k (CHR ''0'') @ [])" using k by simp
    then show False using p(3) False read_digits_zeros [of k "[]"] by simp
  qed
  then obtain d rest where d: "?ds = d # rest" by (cases ?ds) auto
  have z: "\<not> is_digit (CHR ''Z'')" by (simp add: is_digit_def)
  have t: "takeWhile is_digit (?ds @ ''Z'') = ?ds" "dropWhile is_digit (?ds @ ''Z'') = ''Z''"
    using digits z by (simp_all add: takeWhile_append2 dropWhile_append2)
  have "replicate 9 (CHR ''0'') = replicate k (CHR ''0'') @ replicate (9 - k) (CHR ''0'')"
    using p(1) k by (metis append_eq_conv_conj drop_replicate le_add2 length_append length_replicate min.absorb1 replicate_add take_replicate)
  then have "?ds @ replicate 9 (CHR ''0'') = ?p @ replicate (9 - k) (CHR ''0'')" using k by (metis append_assoc)
  then have f: "take 9 (?ds @ replicate 9 (CHR ''0'')) = ?p" using p(1) by (metis append_eq_conv_conj)
  have "is_digit d" using digits d by simp
  then show ?thesis using False d t f p(3) by (simp add: fraction_def frac_text_def Let_def)
qed (simp add: fraction_def frac_text_def)

section \<open>The round trip\<close>

text \<open>The instants of the years from 0 to 9999.\<close>

definition dated :: "time \<Rightarrow> bool" where
  "dated t \<longleftrightarrow> - 62167219200 * Second \<le> t \<and> t < 253402300800 * Second"

lemma year_difference:
  fixes y z :: int
  assumes "y < z" "a \<le> b" "c \<le> d" "y + 99 = 100 * p + r" "0 \<le> r" "r < 100" "z + 99 = 100 * q + s" "0 \<le> s" "s < 100"
  shows "365 * y + a - p + c \<le> 365 * z + b - q + d"
  using assms by linarith

lemma days_mono: "y \<le> z \<Longrightarrow> days_before_year y \<le> days_before_year z"
  unfolding days_before_year_def
  by (cases "y = z", simp)
    (rule year_difference [where r = "(y + 99) mod 100" and s = "(z + 99) mod 100"], simp_all add: zdiv_mono1)

lemma dated_year:
  assumes "dated t" "year_of_day (t div 1000000000 div 86400 + epoch_day) = (y, yday)"
  shows "0 \<le> y \<and> y \<le> 9999"
proof -
  let ?d = "t div 1000000000 div 86400"
  have t: "- 62167219200000000000 \<le> t" "t < 253402300800000000000" using assms(1) by (simp_all add: dated_def Second_def)
  have b: "- 719528 \<le> ?d" "?d < 2932897"
    using t divided [of 1000000000 t] divided [of 86400 "t div 1000000000"] by linarith+
  have c: "?d + epoch_day = days_before_year y + yday" "0 \<le> yday" "yday < 366"
    using year_of_day_correct [OF assms(2)] by (auto split: if_splits)
  have k: "days_before_year (- 1) = - 365" "days_before_year (- 2) = - 730" "days_before_year 10000 = 3652425"
    by (simp_all add: days_before_year_def)
  have "y \<noteq> - 1" using year_of_day_correct [OF assms(2)] k b by (auto simp: epoch_day_def leap_def)
  moreover have "\<not> y \<le> - 2" using days_mono [of y "- 2"] k b c by (auto simp: epoch_day_def)
  moreover have "\<not> 10000 \<le> y" using days_mono [of 10000 y] k b c by (auto simp: epoch_day_def)
  ultimately show ?thesis by linarith
qed

lemma clock_parts: "(t :: int) = 1000000000 * s + n \<Longrightarrow> s = 86400 * d + r \<Longrightarrow> r = 60 * k + x \<Longrightarrow> k = 60 * h + m \<Longrightarrow>
    t = ((d * 24 + h) * 60 + m) * 60 * 1000000000 + x * 1000000000 + n"
  by simp

lemma time_split:
  fixes t :: time
  shows "t = ((t div 1000000000 div 86400 * 24 + t div 1000000000 mod 86400 div 3600) * 60
    + t div 1000000000 mod 86400 div 60 mod 60) * 60 * 1000000000 + t div 1000000000 mod 86400 mod 60 * 1000000000 + t mod 1000000000"
proof (rule clock_parts)
  show "t = 1000000000 * (t div 1000000000) + t mod 1000000000" by simp
  show "t div 1000000000 = 86400 * (t div 1000000000 div 86400) + t div 1000000000 mod 86400" by simp
  show "t div 1000000000 mod 86400 = 60 * (t div 1000000000 mod 86400 div 60) + t div 1000000000 mod 86400 mod 60"
    by (rule mult_div_mod_eq [symmetric])
  have "x div 60 div 60 = x div 3600" for x :: int using zdiv_zmult2_eq [of 60 x 60] by simp
  then show "t div 1000000000 mod 86400 div 60 = 60 * (t div 1000000000 mod 86400 div 3600) + t div 1000000000 mod 86400 div 60 mod 60"
    using mult_div_mod_eq [of 60 "t div 1000000000 mod 86400 div 60"] by simp
qed

lemma expect_here: "expect [c] (c # s) = Some s" "expect [] s = Some s"
  by (simp_all add: expect_def)

lemma parse_parts:
  assumes "0 \<le> y" "y \<le> 9999" "m < 12" "0 \<le> d" "d < month_lengths (leap y) ! m" "d < 31"
    and "0 \<le> hh" "hh \<le> 23" "0 \<le> mm" "mm \<le> 59" "0 \<le> ss" "ss \<le> 59" "0 \<le> ns" "ns < 1000000000"
  shows "ParseRFC3339 (pad 4 y @ ''-'' @ pad 2 (int m + 1) @ ''-'' @ pad 2 (d + 1) @ ''T''
         @ pad 2 hh @ '':'' @ pad 2 mm @ '':'' @ pad 2 ss @ frac_text ns @ ''Z'')
    = Some (((day_of_date y (int m + 1) (d + 1) * 24 + hh) * 60 + mm) * 60 * Second + ss * Second + ns)"
  unfolding ParseRFC3339_def using assms
  by (simp add: bind_part_def year_pad two_pad hour_pad expect_here fraction_frac_text zone_def)

lemma parse_format:
  assumes "dated t"
  shows "ParseRFC3339 (formatTime t) = Some t"
proof -
  let ?secs = "t div 1000000000" and ?ns = "t mod 1000000000"
  let ?day = "?secs div 86400" and ?sod = "?secs mod 86400"
  obtain y yday where y: "year_of_day (?day + epoch_day) = (y, yday)" by fastforce
  obtain m d where md: "month_split (month_lengths (leap y)) yday = (m, d)" by fastforce
  have Y: "0 \<le> y" "y \<le> 9999" using dated_year [OF assms y] by simp_all
  have D: "?day + epoch_day = days_before_year y + yday" "0 \<le> yday" "yday < sum_list (month_lengths (leap y))"
    using year_of_day_correct [OF y] by (simp_all add: month_lengths_facts)
  have M: "m < 12" "0 \<le> d" "d < month_lengths (leap y) ! m" "yday = sum_list (take m (month_lengths (leap y))) + d"
    using month_split_correct [OF D(2,3) md] by (simp_all add: month_lengths_facts)
  have "x \<le> 31" if "x \<in> set (month_lengths (leap y))" for x using that by (auto simp: month_lengths_def split: if_splits)
  from this [OF nth_mem [of m]] have d31: "d < 31" using M(1,3) by (simp add: month_lengths_facts)
  have sod: "0 \<le> ?sod" "?sod < 86400" by simp_all
  have h: "0 \<le> ?sod div 3600" "?sod div 3600 \<le> 23" "0 \<le> ?sod div 60 mod 60" "?sod div 60 mod 60 \<le> 59" "0 \<le> ?sod mod 60" "?sod mod 60 \<le> 59"
    using sod divided [of 3600 ?sod] divided [of 60 ?sod] divided [of 60 "?sod div 60"] by linarith+
  have written: "formatTime t = pad 4 y @ ''-'' @ pad 2 (int m + 1) @ ''-'' @ pad 2 (d + 1) @ ''T''
         @ pad 2 (?sod div 3600) @ '':'' @ pad 2 (?sod div 60 mod 60) @ '':'' @ pad 2 (?sod mod 60) @ frac_text ?ns @ ''Z''"
    using y md by (simp add: formatTime_def Let_def)
  have day: "day_of_date y (int m + 1) (d + 1) = ?day" using D(1) M(4) by (simp add: day_of_date_def)
  have ns: "0 \<le> ?ns" "?ns < 1000000000" by simp_all
  show ?thesis
    unfolding written parse_parts [OF Y M(1-3) d31 h ns] day Second_def by (simp only: time_split [of t, symmetric])
qed

end
