(* ===== verification/Rows.thy ===== *)
theory Rows
  imports TimeText StoreAccess StoreImages
begin

text \<open>
  The rows of \<open>internal/store/store.go\<close> as SQLite keeps them: the values each \<open>INSERT\<close> binds to its columns
  and the scan functions that make a record of a selected row. The other theories of the store keep a
  table as its list of records; the round trip at the end justifies this: what is written is read back,
  column for column, as long as its times are in the years from 0 to 9999, which is what a time column
  can hold.
\<close>

section \<open>Columns\<close>

text \<open>Texts and blobs are byte strings.\<close>

datatype col = CText string | CInt int | CNull

type_synonym row = "(string \<times> col) list"

definition column :: "row \<Rightarrow> string \<Rightarrow> col" where
  "column row c = (case map_of row c of None \<Rightarrow> CNull | Some v \<Rightarrow> v)"

definition boolInt :: "bool \<Rightarrow> int" where
  "boolInt v = (if v then 1 else 0)"

definition timePtrString :: "time option \<Rightarrow> col" where
  "timePtrString t = (case t of None \<Rightarrow> CNull | Some t \<Rightarrow> CText (formatTime t))"

text \<open>A text that is no time is Go's zero time, the first instant of the year 1.\<close>

definition zero_time :: time where
  "zero_time = - 62135596800 * Second"

definition parseTime :: "string \<Rightarrow> time" where
  "parseTime s = (case ParseRFC3339 s of None \<Rightarrow> zero_time | Some t \<Rightarrow> t)"

definition parseNullTime :: "string option \<Rightarrow> time option" where
  "parseNullTime ns =
     (case ns of
        None \<Rightarrow> None
      | Some s \<Rightarrow> if s = [] then None else Some (parseTime s))"

text \<open>
  \<open>Row.Scan\<close> converts one column after the other: into a string, an integer or a \<open>sql.NullString\<close>. It
  fails on a NULL for the first two, on a text that is no number and on a wrong number of columns.
\<close>

definition ScanString :: "(string \<Rightarrow> col list \<Rightarrow> 'a option) \<Rightarrow> col list \<Rightarrow> 'a option" where
  "ScanString k cs =
     (case cs of
        CText s # rest \<Rightarrow> k s rest
      | CInt i # rest \<Rightarrow> k (Itoa i) rest
      | _ \<Rightarrow> None)"

definition ScanInt :: "(int \<Rightarrow> col list \<Rightarrow> 'a option) \<Rightarrow> col list \<Rightarrow> 'a option" where
  "ScanInt k cs =
     (case cs of
        CInt i # rest \<Rightarrow> k i rest
      | CText s # rest \<Rightarrow> (case Atoi s of Inl e \<Rightarrow> None | Inr i \<Rightarrow> k i rest)
      | _ \<Rightarrow> None)"

definition ScanNull :: "(string option \<Rightarrow> col list \<Rightarrow> 'a option) \<Rightarrow> col list \<Rightarrow> 'a option" where
  "ScanNull k cs =
     (case cs of
        CText s # rest \<Rightarrow> k (Some s) rest
      | CInt i # rest \<Rightarrow> k (Some (Itoa i)) rest
      | CNull # rest \<Rightarrow> k None rest
      | [] \<Rightarrow> None)"

definition ScanEnd :: "'a option \<Rightarrow> col list \<Rightarrow> 'a option" where
  "ScanEnd x cs = (if cs = [] then x else None)"

lemma Scan_simps [simp]:
  "ScanString k (CText s # rest) = k s rest"
  "ScanInt l (CInt i # rest) = l i rest"
  "ScanNull n (CText s # rest) = n (Some s) rest"
  "ScanNull n (CNull # rest) = n None rest"
  "ScanEnd x [] = x"
  by (simp_all add: ScanString_def ScanInt_def ScanNull_def ScanEnd_def)

text \<open>A state that the program never writes is no state of the model.\<close>

definition vm_state_of :: "string \<Rightarrow> vm_state option" where
  "vm_state_of s = find (\<lambda>st. vm_state_text st = s) [VMStopped, VMRunning, VMStarting, VMStopping, VMError]"

lemma vm_state_of_text [simp]: "vm_state_of (vm_state_text st) = Some st"
  by (cases st) (simp_all add: vm_state_of_def)

section \<open>The columns of users\<close>

definition users_columns :: "string list" where
  "users_columns =
     [''id'', ''username'', ''password_hash'', ''is_admin'', ''created_at'']"

definition userValues :: "user \<Rightarrow> col list" where
  "userValues r =
     [CText (usr_ID r), CText (usr_Username r), CText (usr_PasswordHash r), CInt (boolInt (usr_IsAdmin r)),
      CText (formatTime (usr_CreatedAt r))]"

definition scanUser :: "col list \<Rightarrow> user option" where
  "scanUser =
    ScanString (\<lambda>xID. ScanString (\<lambda>xUsername. ScanString (\<lambda>xPasswordHash.
     ScanInt (\<lambda>admin. ScanString (\<lambda>created.
     ScanEnd (Some
    \<lparr>usr_ID = xID, usr_Username = xUsername, usr_PasswordHash = xPasswordHash, usr_IsAdmin = (admin = 1),
     usr_CreatedAt = parseTime created\<rparr>))))))"

section \<open>The columns of sessions\<close>

definition sessions_columns :: "string list" where
  "sessions_columns =
     [''id'', ''user_id'', ''csrf_token'', ''created_at'', ''last_seen_at'', ''expires_at'']"

definition sessionValues :: "session \<Rightarrow> col list" where
  "sessionValues r =
     [CText (ses_ID r), CText (ses_UserID r), CText (ses_CSRFToken r), CText (formatTime (ses_CreatedAt r)),
      CText (formatTime (ses_LastSeenAt r)), CText (formatTime (ses_ExpiresAt r))]"

definition scanSession :: "col list \<Rightarrow> session option" where
  "scanSession =
    ScanString (\<lambda>xID. ScanString (\<lambda>xUserID. ScanString (\<lambda>xCSRFToken.
     ScanString (\<lambda>created. ScanString (\<lambda>seen. ScanString (\<lambda>expires.
     ScanEnd (Some
    \<lparr>ses_ID = xID, ses_UserID = xUserID, ses_CSRFToken = xCSRFToken, ses_CreatedAt = parseTime created,
     ses_LastSeenAt = parseTime seen, ses_ExpiresAt = parseTime expires\<rparr>)))))))"

section \<open>The columns of API tokens\<close>

definition api_tokens_columns :: "string list" where
  "api_tokens_columns =
     [''id'', ''name'', ''token_hash'', ''prefix'', ''is_admin'', ''owner_user_id'', ''created_by'',
      ''created_at'', ''last_used_at'', ''expires_at'', ''revoked_at'']"

definition tokenValues :: "api_token_row \<Rightarrow> col list" where
  "tokenValues r =
     [CText (tok_ID (atr_Token r)), CText (tok_Name (atr_Token r)), CText (atr_Hash r),
      CText (tok_Prefix (atr_Token r)), CInt (boolInt (tok_IsAdmin (atr_Token r))),
      CText (tok_OwnerUserID (atr_Token r)), CText (tok_CreatedBy (atr_Token r)),
      CText (formatTime (tok_CreatedAt (atr_Token r))), timePtrString (tok_LastUsedAt (atr_Token r)),
      timePtrString (tok_ExpiresAt (atr_Token r)), timePtrString (tok_RevokedAt (atr_Token r))]"

definition scanAPITokenRow :: "col list \<Rightarrow> api_token option" where
  "scanAPITokenRow =
    ScanString (\<lambda>xID. ScanString (\<lambda>xName. ScanString (\<lambda>xPrefix. ScanInt (\<lambda>admin.
     ScanString (\<lambda>xOwnerUserID. ScanString (\<lambda>xOwnerUsername. ScanString (\<lambda>xCreatedBy.
     ScanString (\<lambda>created. ScanNull (\<lambda>lastUsed. ScanNull (\<lambda>expires.
     ScanNull (\<lambda>revoked.
     ScanEnd (Some
    \<lparr>tok_ID = xID, tok_Name = xName, tok_Prefix = xPrefix, tok_IsAdmin = (admin = 1),
     tok_OwnerUserID = xOwnerUserID, tok_OwnerUsername = xOwnerUsername, tok_CreatedBy = xCreatedBy,
     tok_CreatedAt = parseTime created, tok_LastUsedAt = parseNullTime lastUsed,
     tok_ExpiresAt = parseNullTime expires, tok_RevokedAt = parseNullTime revoked\<rparr>))))))))))))"

section \<open>The columns of VMs\<close>

definition vmColumns :: "string list" where
  "vmColumns =
     [''id'', ''name'', ''state'', ''vcpu_count'', ''mem_mib'', ''ssh_port'', ''tap_name'', ''host_ip'',
      ''guest_ip'', ''cidr'', ''kernel_path'', ''kernel_id'', ''rootfs_path'', ''base_rootfs_path'',
      ''base_image_id'', ''rootfs_size_mib'', ''dev_user'', ''ssh_key_id'', ''managed_ssh_public_key'',
      ''managed_ssh_private_key_path'', ''extra_authorized_keys'', ''repo_url'', ''git_ref'', ''egress_mode'',
      ''egress_policy_id'', ''network_mode'', ''network_id'', ''last_error'', ''created_at'', ''updated_at'',
      ''last_started_at'', ''last_stopped_at'']"

definition vmValues :: "vm \<Rightarrow> col list" where
  "vmValues r =
     [CText (vm_ID r), CText (vm_Name r), CText (vm_state_text (vm_State r)), CInt (vm_VCPUCount r),
      CInt (vm_MemMiB r), CInt (vm_SSHPort r), CText (vm_TapName r), CText (vm_HostIP r), CText (vm_GuestIP r),
      CInt (vm_CIDR r), CText (vm_KernelPath r), CText (vm_KernelID r), CText (vm_RootFSPath r),
      CText (vm_BaseRootFSPath r), CText (vm_BaseImageID r), CInt (vm_RootFSSizeMiB r), CText (vm_DevUser r),
      CText (vm_SSHKeyID r), CText (vm_ManagedSSHPublicKey r), CText (vm_ManagedSSHPrivateKeyPath r),
      CText (vm_ExtraAuthorizedKeys r), CText (vm_RepoURL r), CText (vm_GitRef r), CText (vm_EgressMode r),
      CText (vm_EgressPolicyID r), CText (vm_NetworkMode r), CText (vm_NetworkID r), CText (vm_LastError r),
      CText (formatTime (vm_CreatedAt r)), CText (formatTime (vm_UpdatedAt r)), timePtrString (vm_LastStartedAt r),
      timePtrString (vm_LastStoppedAt r)]"

definition scanVM :: "col list \<Rightarrow> vm option" where
  "scanVM =
    ScanString (\<lambda>xID. ScanString (\<lambda>xName. ScanString (\<lambda>state.
     ScanInt (\<lambda>xVCPUCount. ScanInt (\<lambda>xMemMiB. ScanInt (\<lambda>xSSHPort.
     ScanString (\<lambda>xTapName. ScanString (\<lambda>xHostIP. ScanString (\<lambda>xGuestIP.
     ScanInt (\<lambda>xCIDR. ScanString (\<lambda>xKernelPath. ScanString (\<lambda>xKernelID.
     ScanString (\<lambda>xRootFSPath. ScanString (\<lambda>xBaseRootFSPath.
     ScanString (\<lambda>xBaseImageID. ScanInt (\<lambda>xRootFSSizeMiB. ScanString (\<lambda>xDevUser.
     ScanString (\<lambda>xSSHKeyID. ScanString (\<lambda>xManagedSSHPublicKey.
     ScanString (\<lambda>xManagedSSHPrivateKeyPath. ScanString (\<lambda>xExtraAuthorizedKeys.
     ScanString (\<lambda>xRepoURL. ScanString (\<lambda>xGitRef. ScanString (\<lambda>xEgressMode.
     ScanString (\<lambda>xEgressPolicyID. ScanString (\<lambda>xNetworkMode. ScanString (\<lambda>xNetworkID.
     ScanString (\<lambda>xLastError. ScanString (\<lambda>created. ScanString (\<lambda>updated.
     ScanNull (\<lambda>started. ScanNull (\<lambda>stopped.
     ScanEnd (map_option (\<lambda>st.
    \<lparr>vm_ID = xID, vm_Name = xName, vm_State = st, vm_VCPUCount = xVCPUCount, vm_MemMiB = xMemMiB,
     vm_SSHPort = xSSHPort, vm_TapName = xTapName, vm_HostIP = xHostIP, vm_GuestIP = xGuestIP, vm_CIDR = xCIDR,
     vm_KernelPath = xKernelPath, vm_KernelID = xKernelID, vm_RootFSPath = xRootFSPath,
     vm_BaseRootFSPath = xBaseRootFSPath, vm_BaseImageID = xBaseImageID, vm_RootFSSizeMiB = xRootFSSizeMiB,
     vm_DevUser = xDevUser, vm_SSHKeyID = xSSHKeyID, vm_ManagedSSHPublicKey = xManagedSSHPublicKey,
     vm_ManagedSSHPrivateKeyPath = xManagedSSHPrivateKeyPath, vm_ExtraAuthorizedKeys = xExtraAuthorizedKeys,
     vm_RepoURL = xRepoURL, vm_GitRef = xGitRef, vm_EgressMode = xEgressMode, vm_EgressPolicyID = xEgressPolicyID,
     vm_NetworkMode = xNetworkMode, vm_NetworkID = xNetworkID, vm_LastError = xLastError,
     vm_CreatedAt = parseTime created, vm_UpdatedAt = parseTime updated, vm_LastStartedAt = parseNullTime started,
     vm_LastStoppedAt = parseNullTime stopped\<rparr>) (vm_state_of state))))))))))))))))))))))))))))))))))"

section \<open>The columns of SSH keys\<close>

definition ssh_keys_columns :: "string list" where
  "ssh_keys_columns =
     [''id'', ''name'', ''public_key'', ''fingerprint'', ''key_type'', ''created_by'', ''created_at'',
      ''last_used_at'']"

definition keyValues :: "ssh_key \<Rightarrow> col list" where
  "keyValues r =
     [CText (key_ID r), CText (key_Name r), CText (key_PublicKey r), CText (key_Fingerprint r),
      CText (key_KeyType r), CText (key_CreatedBy r), CText (formatTime (key_CreatedAt r)),
      timePtrString (key_LastUsedAt r)]"

definition scanSSHKey :: "col list \<Rightarrow> ssh_key option" where
  "scanSSHKey =
    ScanString (\<lambda>xID. ScanString (\<lambda>xName. ScanString (\<lambda>xPublicKey.
     ScanString (\<lambda>xFingerprint. ScanString (\<lambda>xKeyType. ScanString (\<lambda>xCreatedBy.
     ScanString (\<lambda>created. ScanNull (\<lambda>lastUsed.
     ScanEnd (Some
    \<lparr>key_ID = xID, key_Name = xName, key_PublicKey = xPublicKey, key_Fingerprint = xFingerprint,
     key_KeyType = xKeyType, key_CreatedBy = xCreatedBy, key_CreatedAt = parseTime created,
     key_LastUsedAt = parseNullTime lastUsed\<rparr>)))))))))"

section \<open>The columns of networks\<close>

definition networks_columns :: "string list" where
  "networks_columns =
     [''id'', ''name'', ''cidr'', ''gateway_ip'', ''created_at'', ''updated_at'']"

definition networkValues :: "network \<Rightarrow> col list" where
  "networkValues r =
     [CText (nw_ID r), CText (nw_Name r), CText (nw_CIDR r), CText (nw_GatewayIP r),
      CText (formatTime (nw_CreatedAt r)), CText (formatTime (nw_UpdatedAt r))]"

definition scanNetwork :: "col list \<Rightarrow> network option" where
  "scanNetwork =
    ScanString (\<lambda>xID. ScanString (\<lambda>xName. ScanString (\<lambda>xCIDR.
     ScanString (\<lambda>xGatewayIP. ScanString (\<lambda>created. ScanString (\<lambda>updated.
     ScanEnd (Some
    \<lparr>nw_ID = xID, nw_Name = xName, nw_CIDR = xCIDR, nw_GatewayIP = xGatewayIP, nw_CreatedAt = parseTime created,
     nw_UpdatedAt = parseTime updated\<rparr>)))))))"

section \<open>The columns of ingress rules\<close>

definition ingress_rules_columns :: "string list" where
  "ingress_rules_columns =
     [''id'', ''vm_id'', ''protocol'', ''host_port'', ''guest_port'', ''description'', ''created_at'']"

definition ruleValues :: "ingress_rule \<Rightarrow> col list" where
  "ruleValues r =
     [CText (ing_ID r), CText (ing_VMID r), CText (ing_Protocol r), CInt (ing_HostPort r), CInt (ing_GuestPort r),
      CText (ing_Description r), CText (formatTime (ing_CreatedAt r))]"

definition scanIngressRule :: "col list \<Rightarrow> ingress_rule option" where
  "scanIngressRule =
    ScanString (\<lambda>xID. ScanString (\<lambda>xVMID. ScanString (\<lambda>xProtocol.
     ScanInt (\<lambda>xHostPort. ScanInt (\<lambda>xGuestPort. ScanString (\<lambda>xDescription.
     ScanString (\<lambda>created.
     ScanEnd (Some
    \<lparr>ing_ID = xID, ing_VMID = xVMID, ing_Protocol = xProtocol, ing_HostPort = xHostPort,
     ing_GuestPort = xGuestPort, ing_Description = xDescription, ing_CreatedAt = parseTime created\<rparr>))))))))"

section \<open>The columns of egress policies\<close>

definition egress_policies_columns :: "string list" where
  "egress_policies_columns =
     [''id'', ''name'', ''mode'', ''tcp_ports'', ''udp_ports'', ''cidrs'', ''created_at'', ''updated_at'']"

definition policyValues :: "egress_policy \<Rightarrow> col list" where
  "policyValues r =
     [CText (ep_ID r), CText (ep_Name r), CText (ep_Mode r), CText (ep_TCPPorts r), CText (ep_UDPPorts r),
      CText (ep_CIDRs r), CText (formatTime (ep_CreatedAt r)), CText (formatTime (ep_UpdatedAt r))]"

definition scanEgressPolicy :: "col list \<Rightarrow> egress_policy option" where
  "scanEgressPolicy =
    ScanString (\<lambda>xID. ScanString (\<lambda>xName. ScanString (\<lambda>xMode.
     ScanString (\<lambda>xTCPPorts. ScanString (\<lambda>xUDPPorts. ScanString (\<lambda>xCIDRs.
     ScanString (\<lambda>created. ScanString (\<lambda>updated.
     ScanEnd (Some
    \<lparr>ep_ID = xID, ep_Name = xName, ep_Mode = xMode, ep_TCPPorts = xTCPPorts, ep_UDPPorts = xUDPPorts,
     ep_CIDRs = xCIDRs, ep_CreatedAt = parseTime created, ep_UpdatedAt = parseTime updated\<rparr>)))))))))"

section \<open>The columns of base images\<close>

definition base_images_columns :: "string list" where
  "base_images_columns =
     [''id'', ''name'', ''status'', ''filesystem'', ''path'', ''virtual_size_mib'', ''disk_size_bytes'',
      ''checksum'', ''packages'', ''hooks'', ''provenance'', ''created_by'', ''created_at'', ''updated_at'']"

definition imageValues :: "base_image \<Rightarrow> col list" where
  "imageValues r =
     [CText (img_ID r), CText (img_Name r), CText (img_Status r), CText (img_Filesystem r), CText (img_Path r),
      CInt (img_VirtualSizeMiB r), CInt (img_DiskSizeBytes r), CText (img_Checksum r), CText (img_Packages r),
      CText (img_Hooks r), CText (img_Provenance r), CText (img_CreatedBy r), CText (formatTime (img_CreatedAt r)),
      CText (formatTime (img_UpdatedAt r))]"

definition scanBaseImage :: "col list \<Rightarrow> base_image option" where
  "scanBaseImage =
    ScanString (\<lambda>xID. ScanString (\<lambda>xName. ScanString (\<lambda>xStatus.
     ScanString (\<lambda>xFilesystem. ScanString (\<lambda>xPath. ScanInt (\<lambda>xVirtualSizeMiB.
     ScanInt (\<lambda>xDiskSizeBytes. ScanString (\<lambda>xChecksum. ScanString (\<lambda>xPackages.
     ScanString (\<lambda>xHooks. ScanString (\<lambda>xProvenance. ScanString (\<lambda>xCreatedBy.
     ScanString (\<lambda>created. ScanString (\<lambda>updated.
     ScanEnd (Some
    \<lparr>img_ID = xID, img_Name = xName, img_Status = xStatus, img_Filesystem = xFilesystem, img_Path = xPath,
     img_VirtualSizeMiB = xVirtualSizeMiB, img_DiskSizeBytes = xDiskSizeBytes, img_Checksum = xChecksum,
     img_Packages = xPackages, img_Hooks = xHooks, img_Provenance = xProvenance, img_CreatedBy = xCreatedBy,
     img_CreatedAt = parseTime created, img_UpdatedAt = parseTime updated\<rparr>)))))))))))))))"

section \<open>The columns of image build jobs\<close>

definition image_build_jobs_columns :: "string list" where
  "image_build_jobs_columns =
     [''id'', ''status'', ''name'', ''filesystem'', ''size_mib'', ''packages'', ''hooks'', ''log_path'',
      ''result_image_id'', ''error'', ''created_by'', ''created_at'', ''started_at'', ''completed_at'']"

definition buildJobValues :: "image_build_job \<Rightarrow> col list" where
  "buildJobValues r =
     [CText (bj_ID r), CText (bj_Status r), CText (bj_Name r), CText (bj_Filesystem r), CInt (bj_SizeMiB r),
      CText (bj_Packages r), CText (bj_Hooks r), CText (bj_LogPath r), CText (bj_ResultImageID r),
      CText (bj_Error r), CText (bj_CreatedBy r), CText (formatTime (bj_CreatedAt r)),
      timePtrString (bj_StartedAt r), timePtrString (bj_CompletedAt r)]"

definition scanImageBuildJob :: "col list \<Rightarrow> image_build_job option" where
  "scanImageBuildJob =
    ScanString (\<lambda>xID. ScanString (\<lambda>xStatus. ScanString (\<lambda>xName.
     ScanString (\<lambda>xFilesystem. ScanInt (\<lambda>xSizeMiB. ScanString (\<lambda>xPackages.
     ScanString (\<lambda>xHooks. ScanString (\<lambda>xLogPath. ScanString (\<lambda>xResultImageID.
     ScanString (\<lambda>xError. ScanString (\<lambda>xCreatedBy. ScanString (\<lambda>created.
     ScanNull (\<lambda>started. ScanNull (\<lambda>completed.
     ScanEnd (Some
    \<lparr>bj_ID = xID, bj_Status = xStatus, bj_Name = xName, bj_Filesystem = xFilesystem, bj_SizeMiB = xSizeMiB,
     bj_Packages = xPackages, bj_Hooks = xHooks, bj_LogPath = xLogPath, bj_ResultImageID = xResultImageID,
     bj_Error = xError, bj_CreatedBy = xCreatedBy, bj_CreatedAt = parseTime created,
     bj_StartedAt = parseNullTime started, bj_CompletedAt = parseNullTime completed\<rparr>)))))))))))))))"

section \<open>The columns of image hooks\<close>

definition image_hooks_columns :: "string list" where
  "image_hooks_columns =
     [''id'', ''name'', ''source_type'', ''status'', ''content_path'', ''git_url'', ''git_ref'', ''git_path'',
      ''resolved_commit'', ''checksum'', ''created_by'', ''created_at'', ''updated_at'', ''last_used_at'']"

definition hookValues :: "image_hook \<Rightarrow> col list" where
  "hookValues r =
     [CText (hook_ID r), CText (hook_Name r), CText (hook_SourceType r), CText (hook_Status r),
      CText (hook_ContentPath r), CText (hook_GitURL r), CText (hook_GitRef r), CText (hook_GitPath r),
      CText (hook_ResolvedCommit r), CText (hook_Checksum r), CText (hook_CreatedBy r),
      CText (formatTime (hook_CreatedAt r)), CText (formatTime (hook_UpdatedAt r)),
      timePtrString (hook_LastUsedAt r)]"

definition scanImageHook :: "col list \<Rightarrow> image_hook option" where
  "scanImageHook =
    ScanString (\<lambda>xID. ScanString (\<lambda>xName. ScanString (\<lambda>xSourceType.
     ScanString (\<lambda>xStatus. ScanString (\<lambda>xContentPath. ScanString (\<lambda>xGitURL.
     ScanString (\<lambda>xGitRef. ScanString (\<lambda>xGitPath. ScanString (\<lambda>xResolvedCommit.
     ScanString (\<lambda>xChecksum. ScanString (\<lambda>xCreatedBy. ScanString (\<lambda>created.
     ScanString (\<lambda>updated. ScanNull (\<lambda>lastUsed.
     ScanEnd (Some
    \<lparr>hook_ID = xID, hook_Name = xName, hook_SourceType = xSourceType, hook_Status = xStatus,
     hook_ContentPath = xContentPath, hook_GitURL = xGitURL, hook_GitRef = xGitRef, hook_GitPath = xGitPath,
     hook_ResolvedCommit = xResolvedCommit, hook_Checksum = xChecksum, hook_CreatedBy = xCreatedBy,
     hook_CreatedAt = parseTime created, hook_UpdatedAt = parseTime updated,
     hook_LastUsedAt = parseNullTime lastUsed\<rparr>)))))))))))))))"

section \<open>The columns of kernels\<close>

definition kernels_columns :: "string list" where
  "kernels_columns =
     [''id'', ''name'', ''version'', ''architecture'', ''status'', ''source_type'', ''path'', ''config_path'',
      ''checksum'', ''boot_args'', ''provenance'', ''created_by'', ''created_at'', ''updated_at'',
      ''last_tested_at'']"

definition kernelValues :: "kernel \<Rightarrow> col list" where
  "kernelValues r =
     [CText (krn_ID r), CText (krn_Name r), CText (krn_Version r), CText (krn_Architecture r),
      CText (krn_Status r), CText (krn_SourceType r), CText (krn_Path r), CText (krn_ConfigPath r),
      CText (krn_Checksum r), CText (krn_BootArgs r), CText (krn_Provenance r), CText (krn_CreatedBy r),
      CText (formatTime (krn_CreatedAt r)), CText (formatTime (krn_UpdatedAt r)), timePtrString (krn_LastTestedAt r)]"

definition scanKernel :: "col list \<Rightarrow> kernel option" where
  "scanKernel =
    ScanString (\<lambda>xID. ScanString (\<lambda>xName. ScanString (\<lambda>xVersion.
     ScanString (\<lambda>xArchitecture. ScanString (\<lambda>xStatus. ScanString (\<lambda>xSourceType.
     ScanString (\<lambda>xPath. ScanString (\<lambda>xConfigPath. ScanString (\<lambda>xChecksum.
     ScanString (\<lambda>xBootArgs. ScanString (\<lambda>xProvenance. ScanString (\<lambda>xCreatedBy.
     ScanString (\<lambda>created. ScanString (\<lambda>updated. ScanNull (\<lambda>lastTested.
     ScanEnd (Some
    \<lparr>krn_ID = xID, krn_Name = xName, krn_Version = xVersion, krn_Architecture = xArchitecture,
     krn_Status = xStatus, krn_SourceType = xSourceType, krn_Path = xPath, krn_ConfigPath = xConfigPath,
     krn_Checksum = xChecksum, krn_BootArgs = xBootArgs, krn_Provenance = xProvenance, krn_CreatedBy = xCreatedBy,
     krn_CreatedAt = parseTime created, krn_UpdatedAt = parseTime updated,
     krn_LastTestedAt = parseNullTime lastTested\<rparr>))))))))))))))))"

section \<open>The columns of kernel test jobs\<close>

definition kernel_test_jobs_columns :: "string list" where
  "kernel_test_jobs_columns =
     [''id'', ''kernel_id'', ''status'', ''log_path'', ''base_image_id'', ''uname_result'', ''error'',
      ''created_by'', ''created_at'', ''started_at'', ''completed_at'']"

definition testJobValues :: "kernel_test_job \<Rightarrow> col list" where
  "testJobValues r =
     [CText (ktj_ID r), CText (ktj_KernelID r), CText (ktj_Status r), CText (ktj_LogPath r),
      CText (ktj_BaseImageID r), CText (ktj_UnameResult r), CText (ktj_Error r), CText (ktj_CreatedBy r),
      CText (formatTime (ktj_CreatedAt r)), timePtrString (ktj_StartedAt r), timePtrString (ktj_CompletedAt r)]"

definition scanKernelTestJob :: "col list \<Rightarrow> kernel_test_job option" where
  "scanKernelTestJob =
    ScanString (\<lambda>xID. ScanString (\<lambda>xKernelID. ScanString (\<lambda>xStatus.
     ScanString (\<lambda>xLogPath. ScanString (\<lambda>xBaseImageID. ScanString (\<lambda>xUnameResult.
     ScanString (\<lambda>xError. ScanString (\<lambda>xCreatedBy. ScanString (\<lambda>created.
     ScanNull (\<lambda>started. ScanNull (\<lambda>completed.
     ScanEnd (Some
    \<lparr>ktj_ID = xID, ktj_KernelID = xKernelID, ktj_Status = xStatus, ktj_LogPath = xLogPath,
     ktj_BaseImageID = xBaseImageID, ktj_UnameResult = xUnameResult, ktj_KernelRelease = '''',
     ktj_GatewayOK = None, ktj_ResultSummary = '''', ktj_Error = xError, ktj_CreatedBy = xCreatedBy,
     ktj_CreatedAt = parseTime created, ktj_StartedAt = parseNullTime started,
     ktj_CompletedAt = parseNullTime completed\<rparr>))))))))))))"

section \<open>The columns of kernel discovery jobs\<close>

definition kernel_discovery_jobs_columns :: "string list" where
  "kernel_discovery_jobs_columns =
     [''id'', ''status'', ''source_url'', ''ci_prefix'', ''architecture'', ''item_count'', ''error'',
      ''created_by'', ''created_at'', ''started_at'', ''completed_at'']"

definition discoveryJobValues :: "kernel_discovery_job \<Rightarrow> col list" where
  "discoveryJobValues r =
     [CText (kdj_ID r), CText (kdj_Status r), CText (kdj_SourceURL r), CText (kdj_CIPrefix r),
      CText (kdj_Architecture r), CInt (kdj_ItemCount r), CText (kdj_Error r), CText (kdj_CreatedBy r),
      CText (formatTime (kdj_CreatedAt r)), timePtrString (kdj_StartedAt r), timePtrString (kdj_CompletedAt r)]"

definition scanKernelDiscoveryJob :: "col list \<Rightarrow> kernel_discovery_job option" where
  "scanKernelDiscoveryJob =
    ScanString (\<lambda>xID. ScanString (\<lambda>xStatus. ScanString (\<lambda>xSourceURL.
     ScanString (\<lambda>xCIPrefix. ScanString (\<lambda>xArchitecture. ScanInt (\<lambda>xItemCount.
     ScanString (\<lambda>xError. ScanString (\<lambda>xCreatedBy. ScanString (\<lambda>created.
     ScanNull (\<lambda>started. ScanNull (\<lambda>completed.
     ScanEnd (Some
    \<lparr>kdj_ID = xID, kdj_Status = xStatus, kdj_SourceURL = xSourceURL, kdj_CIPrefix = xCIPrefix,
     kdj_Architecture = xArchitecture, kdj_ItemCount = xItemCount, kdj_Error = xError, kdj_CreatedBy = xCreatedBy,
     kdj_CreatedAt = parseTime created, kdj_StartedAt = parseNullTime started,
     kdj_CompletedAt = parseNullTime completed\<rparr>))))))))))))"

section \<open>The columns of kernel discovery items\<close>

definition kernel_discovery_items_columns :: "string list" where
  "kernel_discovery_items_columns =
     [''id'', ''job_id'', ''version'', ''variant'', ''architecture'', ''ci_prefix'', ''kernel_key'',
      ''config_key'', ''kernel_url'', ''config_url'', ''already_registered'', ''created_at'']"

definition itemValues :: "kernel_discovery_item \<Rightarrow> col list" where
  "itemValues r =
     [CText (kdi_ID r), CText (kdi_JobID r), CText (kdi_Version r), CText (kdi_Variant r),
      CText (kdi_Architecture r), CText (kdi_CIPrefix r), CText (kdi_KernelKey r), CText (kdi_ConfigKey r),
      CText (kdi_KernelURL r), CText (kdi_ConfigURL r), CInt (boolInt (kdi_AlreadyRegistered r)),
      CText (formatTime (kdi_CreatedAt r))]"

definition scanKernelDiscoveryItem :: "col list \<Rightarrow> kernel_discovery_item option" where
  "scanKernelDiscoveryItem =
    ScanString (\<lambda>xID. ScanString (\<lambda>xJobID. ScanString (\<lambda>xVersion.
     ScanString (\<lambda>xVariant. ScanString (\<lambda>xArchitecture. ScanString (\<lambda>xCIPrefix.
     ScanString (\<lambda>xKernelKey. ScanString (\<lambda>xConfigKey. ScanString (\<lambda>xKernelURL.
     ScanString (\<lambda>xConfigURL. ScanInt (\<lambda>registered. ScanString (\<lambda>created.
     ScanEnd (Some
    \<lparr>kdi_ID = xID, kdi_JobID = xJobID, kdi_Version = xVersion, kdi_Variant = xVariant,
     kdi_Architecture = xArchitecture, kdi_CIPrefix = xCIPrefix, kdi_KernelKey = xKernelKey,
     kdi_ConfigKey = xConfigKey, kdi_KernelURL = xKernelURL, kdi_ConfigURL = xConfigURL,
     kdi_AlreadyRegistered = (registered \<noteq> 0), kdi_CreatedAt = parseTime created\<rparr>)))))))))))))"

section \<open>The columns of vm exec jobs\<close>

definition vm_exec_jobs_columns :: "string list" where
  "vm_exec_jobs_columns =
     [''id'', ''vm_id'', ''status'', ''command'', ''cwd'', ''env_json'', ''pty'', ''timeout_seconds'', ''stdout'',
      ''stderr'', ''exit_code'', ''timed_out'', ''truncated'', ''log_path'', ''error'', ''created_by'',
      ''created_at'', ''started_at'', ''completed_at'']"

definition execJobValues :: "vm_exec_job \<Rightarrow> col list" where
  "execJobValues r =
     [CText (exe_ID r), CText (exe_VMID r), CText (exe_Status r), CText (exe_Command r), CText (exe_CWD r),
      CText (exe_EnvJSON r), CInt (boolInt (exe_PTY r)), CInt (exe_TimeoutSeconds r), CText (exe_Stdout r),
      CText (exe_Stderr r), CInt (exe_ExitCode r), CInt (boolInt (exe_TimedOut r)),
      CInt (boolInt (exe_Truncated r)), CText (exe_LogPath r), CText (exe_Error r), CText (exe_CreatedBy r),
      CText (formatTime (exe_CreatedAt r)), timePtrString (exe_StartedAt r), timePtrString (exe_CompletedAt r)]"

definition scanVMExecJob :: "col list \<Rightarrow> vm_exec_job option" where
  "scanVMExecJob =
    ScanString (\<lambda>xID. ScanString (\<lambda>xVMID. ScanString (\<lambda>xStatus.
     ScanString (\<lambda>xCommand. ScanString (\<lambda>xCWD. ScanString (\<lambda>xEnvJSON.
     ScanInt (\<lambda>pty. ScanInt (\<lambda>xTimeoutSeconds. ScanString (\<lambda>xStdout.
     ScanString (\<lambda>xStderr. ScanInt (\<lambda>xExitCode. ScanInt (\<lambda>timedOut.
     ScanInt (\<lambda>truncated. ScanString (\<lambda>xLogPath. ScanString (\<lambda>xError.
     ScanString (\<lambda>xCreatedBy. ScanString (\<lambda>created. ScanNull (\<lambda>started.
     ScanNull (\<lambda>completed.
     ScanEnd (Some
    \<lparr>exe_ID = xID, exe_VMID = xVMID, exe_Status = xStatus, exe_Command = xCommand, exe_CWD = xCWD,
     exe_EnvJSON = xEnvJSON, exe_PTY = (pty \<noteq> 0), exe_TimeoutSeconds = xTimeoutSeconds,
     exe_Stdout = xStdout, exe_Stderr = xStderr, exe_ExitCode = xExitCode, exe_TimedOut = (timedOut \<noteq> 0),
     exe_Truncated = (truncated \<noteq> 0), exe_LogPath = xLogPath, exe_Error = xError,
     exe_CreatedBy = xCreatedBy, exe_CreatedAt = parseTime created, exe_StartedAt = parseNullTime started,
     exe_CompletedAt = parseNullTime completed\<rparr>))))))))))))))))))))"

section \<open>Tables\<close>

definition write_table :: "string list \<Rightarrow> ('r \<Rightarrow> col list) \<Rightarrow> 'r list \<Rightarrow> row list" where
  "write_table columns vals rs = map (\<lambda>r. zip columns (vals r)) rs"

text \<open>The loops over \<open>rows.Next\<close>: the first row that does not scan is an error.\<close>

primrec scan_rows :: "(row \<Rightarrow> 's option) \<Rightarrow> row list \<Rightarrow> 's list option" where
  "scan_rows scan [] = Some []"
| "scan_rows scan (row # rows) =
     (case scan row of
        None \<Rightarrow> None
      | Some x \<Rightarrow> map_option (\<lambda>xs. x # xs) (scan_rows scan rows))"

definition read_table :: "string list \<Rightarrow> (col list \<Rightarrow> 's option) \<Rightarrow> row list \<Rightarrow> 's list option" where
  "read_table columns scan rows = scan_rows (\<lambda>row. scan (map (column row) columns)) rows"

text \<open>\<open>apiTokenSelectSQL\<close>: the token's columns but the hash, with the name of the owner it joins.\<close>

definition owner_name :: "row list \<Rightarrow> row \<Rightarrow> col" where
  "owner_name us row =
     (case find (\<lambda>u. column u ''id'' = column row ''owner_user_id'') us of
        None \<Rightarrow> CText []
      | Some u \<Rightarrow> column u ''username'')"

definition apiTokenSelect :: "row list \<Rightarrow> row \<Rightarrow> col list" where
  "apiTokenSelect us row =
     map (column row) [''id'', ''name'', ''prefix'', ''is_admin'', ''owner_user_id''] @ [owner_name us row] @
     map (column row) [''created_by'', ''created_at'', ''last_used_at'', ''expires_at'', ''revoked_at'']"

lemma columns_back:
  assumes "distinct columns" "length columns = length vs"
  shows "map (column (zip columns vs)) columns = vs"
  using assms by (intro nth_equalityI) (simp_all add: column_def map_of_zip_nth)

text \<open>
  What a table promises: a record whose times can be written is scanned from its row as the view that
  the queries of the store have of it.
\<close>

locale stored =
  fixes written :: "'r \<Rightarrow> row" and scanned :: "row \<Rightarrow> 's option" and view :: "'r \<Rightarrow> 's" and ok :: "'r \<Rightarrow> bool"
  assumes scanned_written: "ok r \<Longrightarrow> scanned (written r) = Some (view r)"
begin

lemma rows_scanned: "list_all ok rs \<Longrightarrow> scan_rows scanned (map written rs) = Some (map view rs)"
  by (induction rs) (simp_all add: scanned_written)

end

text \<open>Where the selected columns are the written ones, the scan of the values is all there is to show.\<close>

locale plain_table =
  fixes columns :: "string list" and vals :: "'r \<Rightarrow> col list" and scan :: "col list \<Rightarrow> 's option"
    and view :: "'r \<Rightarrow> 's" and ok :: "'r \<Rightarrow> bool"
  assumes columns_distinct: "distinct columns"
    and columns_filled: "length columns = length (vals r)"
    and scan_vals: "ok r \<Longrightarrow> scan (vals r) = Some (view r)"
begin

lemma row_scanned: "ok r \<Longrightarrow> scan (map (column (zip columns (vals r))) columns) = Some (view r)"
  by (simp add: columns_back [OF columns_distinct columns_filled] scan_vals)

end

sublocale plain_table \<subseteq> rows: stored "\<lambda>r. zip columns (vals r)" "\<lambda>row. scan (map (column row) columns)" view ok
  by unfold_locales (rule row_scanned)

context plain_table
begin

lemma table_read: "list_all ok rs \<Longrightarrow> read_table columns scan (write_table columns vals rs) = Some (map view rs)"
  unfolding read_table_def write_table_def by (rule rows.rows_scanned)

end

section \<open>Times that can be written\<close>

definition dated_opt :: "time option \<Rightarrow> bool" where
  "dated_opt t = (case t of None \<Rightarrow> True | Some t \<Rightarrow> dated t)"

lemma parseTime_format [simp]: "dated t \<Longrightarrow> parseTime (formatTime t) = t"
  by (simp add: parseTime_def parse_format)

lemma formatTime_not_Nil: "dated t \<Longrightarrow> formatTime t \<noteq> []"
  using parse_format [of t] by (auto simp: ParseRFC3339_def bind_part_def year_part_def Let_def)

lemma ScanNull_time [simp]: "ScanNull k (timePtrString t # rest) = k (map_option formatTime t) rest"
  by (cases t) (simp_all add: timePtrString_def)

lemma parseNullTime_format [simp]: "dated_opt t \<Longrightarrow> parseNullTime (map_option formatTime t) = t"
  by (cases t) (simp_all add: dated_opt_def parseNullTime_def formatTime_not_Nil)

lemma boolInt_back [simp]: "(boolInt b = 1) = b" "(boolInt b \<noteq> 0) = b"
  by (simp_all add: boolInt_def)

definition dated_user :: "user \<Rightarrow> bool" where
  "dated_user r \<longleftrightarrow> dated (usr_CreatedAt r)"

definition dated_session :: "session \<Rightarrow> bool" where
  "dated_session r \<longleftrightarrow> dated (ses_CreatedAt r) \<and> dated (ses_LastSeenAt r) \<and> dated (ses_ExpiresAt r)"

definition dated_api_token :: "api_token_row \<Rightarrow> bool" where
  "dated_api_token r \<longleftrightarrow> dated (tok_CreatedAt (atr_Token r)) \<and> dated_opt (tok_LastUsedAt (atr_Token r)) \<and>
     dated_opt (tok_ExpiresAt (atr_Token r)) \<and> dated_opt (tok_RevokedAt (atr_Token r))"

definition dated_vm :: "vm \<Rightarrow> bool" where
  "dated_vm r \<longleftrightarrow> dated (vm_CreatedAt r) \<and> dated (vm_UpdatedAt r) \<and> dated_opt (vm_LastStartedAt r) \<and>
     dated_opt (vm_LastStoppedAt r)"

definition dated_ssh_key :: "ssh_key \<Rightarrow> bool" where
  "dated_ssh_key r \<longleftrightarrow> dated (key_CreatedAt r) \<and> dated_opt (key_LastUsedAt r)"

definition dated_network :: "network \<Rightarrow> bool" where
  "dated_network r \<longleftrightarrow> dated (nw_CreatedAt r) \<and> dated (nw_UpdatedAt r)"

definition dated_ingress_rule :: "ingress_rule \<Rightarrow> bool" where
  "dated_ingress_rule r \<longleftrightarrow> dated (ing_CreatedAt r)"

definition dated_egress_policy :: "egress_policy \<Rightarrow> bool" where
  "dated_egress_policy r \<longleftrightarrow> dated (ep_CreatedAt r) \<and> dated (ep_UpdatedAt r)"

definition dated_base_image :: "base_image \<Rightarrow> bool" where
  "dated_base_image r \<longleftrightarrow> dated (img_CreatedAt r) \<and> dated (img_UpdatedAt r)"

definition dated_image_build_job :: "image_build_job \<Rightarrow> bool" where
  "dated_image_build_job r \<longleftrightarrow> dated (bj_CreatedAt r) \<and> dated_opt (bj_StartedAt r) \<and> dated_opt (bj_CompletedAt r)"

definition dated_image_hook :: "image_hook \<Rightarrow> bool" where
  "dated_image_hook r \<longleftrightarrow> dated (hook_CreatedAt r) \<and> dated (hook_UpdatedAt r) \<and> dated_opt (hook_LastUsedAt r)"

definition dated_kernel :: "kernel \<Rightarrow> bool" where
  "dated_kernel r \<longleftrightarrow> dated (krn_CreatedAt r) \<and> dated (krn_UpdatedAt r) \<and> dated_opt (krn_LastTestedAt r)"

definition dated_kernel_test_job :: "kernel_test_job \<Rightarrow> bool" where
  "dated_kernel_test_job r \<longleftrightarrow> dated (ktj_CreatedAt r) \<and> dated_opt (ktj_StartedAt r) \<and> dated_opt (ktj_CompletedAt r)"

definition dated_kernel_discovery_job :: "kernel_discovery_job \<Rightarrow> bool" where
  "dated_kernel_discovery_job r \<longleftrightarrow> dated (kdj_CreatedAt r) \<and> dated_opt (kdj_StartedAt r) \<and> dated_opt (kdj_CompletedAt r)"

definition dated_kernel_discovery_item :: "kernel_discovery_item \<Rightarrow> bool" where
  "dated_kernel_discovery_item r \<longleftrightarrow> dated (kdi_CreatedAt r)"

definition dated_vm_exec_job :: "vm_exec_job \<Rightarrow> bool" where
  "dated_vm_exec_job r \<longleftrightarrow> dated (exe_CreatedAt r) \<and> dated_opt (exe_StartedAt r) \<and> dated_opt (exe_CompletedAt r)"

definition dated_db :: "db \<Rightarrow> bool" where
  "dated_db d \<longleftrightarrow>
     list_all dated_user (users d)
   \<and> list_all dated_session (sessions d)
   \<and> list_all dated_api_token (api_tokens d)
   \<and> list_all dated_vm (vms d)
   \<and> list_all dated_ssh_key (ssh_keys d)
   \<and> list_all dated_network (networks d)
   \<and> list_all dated_ingress_rule (ingress_rules d)
   \<and> list_all dated_egress_policy (egress_policies d)
   \<and> list_all dated_base_image (base_images d)
   \<and> list_all dated_image_build_job (image_build_jobs d)
   \<and> list_all dated_image_hook (image_hooks d)
   \<and> list_all dated_kernel (kernels d)
   \<and> list_all dated_kernel_test_job (kernel_test_jobs d)
   \<and> list_all dated_kernel_discovery_job (kernel_discovery_jobs d)
   \<and> list_all dated_kernel_discovery_item (kernel_discovery_items d)
   \<and> list_all dated_vm_exec_job (vm_exec_jobs d)"

section \<open>The tables keep the promise\<close>

interpretation user_rows: plain_table users_columns userValues scanUser "\<lambda>r. r" dated_user
proof unfold_locales
  show "distinct users_columns" by (simp add: users_columns_def)
  show "length users_columns = length (userValues r)" for r by (simp add: users_columns_def userValues_def)
  show "scanUser (userValues r) = Some (r)" if "dated_user r" for r
    using that by (cases r) (simp add: scanUser_def userValues_def dated_user_def)
qed

interpretation session_rows: plain_table sessions_columns sessionValues scanSession "\<lambda>r. r" dated_session
proof unfold_locales
  show "distinct sessions_columns" by (simp add: sessions_columns_def)
  show "length sessions_columns = length (sessionValues r)" for r by (simp add: sessions_columns_def sessionValues_def)
  show "scanSession (sessionValues r) = Some (r)" if "dated_session r" for r
    using that by (cases r) (simp add: scanSession_def sessionValues_def dated_session_def)
qed

interpretation vm_rows: plain_table vmColumns vmValues scanVM "\<lambda>r. r" dated_vm
proof unfold_locales
  show "distinct vmColumns" by (simp add: vmColumns_def)
  show "length vmColumns = length (vmValues r)" for r by (simp add: vmColumns_def vmValues_def)
  show "scanVM (vmValues r) = Some (r)" if "dated_vm r" for r
    using that by (cases r) (simp add: scanVM_def vmValues_def dated_vm_def)
qed

interpretation ssh_key_rows: plain_table ssh_keys_columns keyValues scanSSHKey "\<lambda>r. r" dated_ssh_key
proof unfold_locales
  show "distinct ssh_keys_columns" by (simp add: ssh_keys_columns_def)
  show "length ssh_keys_columns = length (keyValues r)" for r by (simp add: ssh_keys_columns_def keyValues_def)
  show "scanSSHKey (keyValues r) = Some (r)" if "dated_ssh_key r" for r
    using that by (cases r) (simp add: scanSSHKey_def keyValues_def dated_ssh_key_def)
qed

interpretation network_rows: plain_table networks_columns networkValues scanNetwork "\<lambda>r. r" dated_network
proof unfold_locales
  show "distinct networks_columns" by (simp add: networks_columns_def)
  show "length networks_columns = length (networkValues r)" for r by (simp add: networks_columns_def networkValues_def)
  show "scanNetwork (networkValues r) = Some (r)" if "dated_network r" for r
    using that by (cases r) (simp add: scanNetwork_def networkValues_def dated_network_def)
qed

interpretation ingress_rule_rows: plain_table ingress_rules_columns ruleValues scanIngressRule "\<lambda>r. r" dated_ingress_rule
proof unfold_locales
  show "distinct ingress_rules_columns" by (simp add: ingress_rules_columns_def)
  show "length ingress_rules_columns = length (ruleValues r)" for r by (simp add: ingress_rules_columns_def ruleValues_def)
  show "scanIngressRule (ruleValues r) = Some (r)" if "dated_ingress_rule r" for r
    using that by (cases r) (simp add: scanIngressRule_def ruleValues_def dated_ingress_rule_def)
qed

interpretation egress_policy_rows: plain_table egress_policies_columns policyValues scanEgressPolicy "\<lambda>r. r" dated_egress_policy
proof unfold_locales
  show "distinct egress_policies_columns" by (simp add: egress_policies_columns_def)
  show "length egress_policies_columns = length (policyValues r)" for r by (simp add: egress_policies_columns_def policyValues_def)
  show "scanEgressPolicy (policyValues r) = Some (r)" if "dated_egress_policy r" for r
    using that by (cases r) (simp add: scanEgressPolicy_def policyValues_def dated_egress_policy_def)
qed

interpretation base_image_rows: plain_table base_images_columns imageValues scanBaseImage "\<lambda>r. r" dated_base_image
proof unfold_locales
  show "distinct base_images_columns" by (simp add: base_images_columns_def)
  show "length base_images_columns = length (imageValues r)" for r by (simp add: base_images_columns_def imageValues_def)
  show "scanBaseImage (imageValues r) = Some (r)" if "dated_base_image r" for r
    using that by (cases r) (simp add: scanBaseImage_def imageValues_def dated_base_image_def)
qed

interpretation image_build_job_rows: plain_table image_build_jobs_columns buildJobValues scanImageBuildJob "\<lambda>r. r" dated_image_build_job
proof unfold_locales
  show "distinct image_build_jobs_columns" by (simp add: image_build_jobs_columns_def)
  show "length image_build_jobs_columns = length (buildJobValues r)" for r by (simp add: image_build_jobs_columns_def buildJobValues_def)
  show "scanImageBuildJob (buildJobValues r) = Some (r)" if "dated_image_build_job r" for r
    using that by (cases r) (simp add: scanImageBuildJob_def buildJobValues_def dated_image_build_job_def)
qed

interpretation image_hook_rows: plain_table image_hooks_columns hookValues scanImageHook "\<lambda>r. r" dated_image_hook
proof unfold_locales
  show "distinct image_hooks_columns" by (simp add: image_hooks_columns_def)
  show "length image_hooks_columns = length (hookValues r)" for r by (simp add: image_hooks_columns_def hookValues_def)
  show "scanImageHook (hookValues r) = Some (r)" if "dated_image_hook r" for r
    using that by (cases r) (simp add: scanImageHook_def hookValues_def dated_image_hook_def)
qed

interpretation kernel_rows: plain_table kernels_columns kernelValues scanKernel "\<lambda>r. r" dated_kernel
proof unfold_locales
  show "distinct kernels_columns" by (simp add: kernels_columns_def)
  show "length kernels_columns = length (kernelValues r)" for r by (simp add: kernels_columns_def kernelValues_def)
  show "scanKernel (kernelValues r) = Some (r)" if "dated_kernel r" for r
    using that by (cases r) (simp add: scanKernel_def kernelValues_def dated_kernel_def)
qed

interpretation kernel_test_job_rows: plain_table kernel_test_jobs_columns testJobValues scanKernelTestJob test_job_row dated_kernel_test_job
proof unfold_locales
  show "distinct kernel_test_jobs_columns" by (simp add: kernel_test_jobs_columns_def)
  show "length kernel_test_jobs_columns = length (testJobValues r)" for r by (simp add: kernel_test_jobs_columns_def testJobValues_def)
  show "scanKernelTestJob (testJobValues r) = Some (test_job_row r)" if "dated_kernel_test_job r" for r
    using that by (cases r) (simp add: scanKernelTestJob_def testJobValues_def dated_kernel_test_job_def test_job_row_def)
qed

interpretation kernel_discovery_job_rows: plain_table kernel_discovery_jobs_columns discoveryJobValues scanKernelDiscoveryJob "\<lambda>r. r" dated_kernel_discovery_job
proof unfold_locales
  show "distinct kernel_discovery_jobs_columns" by (simp add: kernel_discovery_jobs_columns_def)
  show "length kernel_discovery_jobs_columns = length (discoveryJobValues r)" for r by (simp add: kernel_discovery_jobs_columns_def discoveryJobValues_def)
  show "scanKernelDiscoveryJob (discoveryJobValues r) = Some (r)" if "dated_kernel_discovery_job r" for r
    using that by (cases r) (simp add: scanKernelDiscoveryJob_def discoveryJobValues_def dated_kernel_discovery_job_def)
qed

interpretation kernel_discovery_item_rows: plain_table kernel_discovery_items_columns itemValues scanKernelDiscoveryItem "\<lambda>r. r" dated_kernel_discovery_item
proof unfold_locales
  show "distinct kernel_discovery_items_columns" by (simp add: kernel_discovery_items_columns_def)
  show "length kernel_discovery_items_columns = length (itemValues r)" for r by (simp add: kernel_discovery_items_columns_def itemValues_def)
  show "scanKernelDiscoveryItem (itemValues r) = Some (r)" if "dated_kernel_discovery_item r" for r
    using that by (cases r) (simp add: scanKernelDiscoveryItem_def itemValues_def dated_kernel_discovery_item_def)
qed

interpretation vm_exec_job_rows: plain_table vm_exec_jobs_columns execJobValues scanVMExecJob "\<lambda>r. r" dated_vm_exec_job
proof unfold_locales
  show "distinct vm_exec_jobs_columns" by (simp add: vm_exec_jobs_columns_def)
  show "length vm_exec_jobs_columns = length (execJobValues r)" for r by (simp add: vm_exec_jobs_columns_def execJobValues_def)
  show "scanVMExecJob (execJobValues r) = Some (r)" if "dated_vm_exec_job r" for r
    using that by (cases r) (simp add: scanVMExecJob_def execJobValues_def dated_vm_exec_job_def)
qed

lemma owner_name_written:
  assumes "column row ''owner_user_id'' = CText oid"
  shows "owner_name (write_table users_columns userValues us) row =
    CText (case find (\<lambda>u. usr_ID u = oid) us of None \<Rightarrow> [] | Some u \<Rightarrow> usr_Username u)"
  using assms
  by (induction us) (simp_all add: owner_name_def write_table_def users_columns_def userValues_def column_def)

interpretation token_rows: stored "\<lambda>r. zip api_tokens_columns (tokenValues r)"
    "\<lambda>row. scanAPITokenRow (apiTokenSelect (write_table users_columns userValues (users d)) row)" "scanAPIToken d" dated_api_token
  for d
proof unfold_locales
  fix r assume r: "dated_api_token r"
  let ?row = "zip api_tokens_columns (tokenValues r)"
  have "column ?row ''owner_user_id'' = CText (tok_OwnerUserID (atr_Token r))"
    by (simp add: column_def api_tokens_columns_def tokenValues_def)
  note o = owner_name_written [OF this, of "users d"]
  have s: "apiTokenSelect (write_table users_columns userValues (users d)) ?row =
      (let t = atr_Token r in
       [CText (tok_ID t), CText (tok_Name t), CText (tok_Prefix t), CInt (boolInt (tok_IsAdmin t)), CText (tok_OwnerUserID t),
        CText (tok_OwnerUsername (scanAPIToken d r)), CText (tok_CreatedBy t), CText (formatTime (tok_CreatedAt t)),
        timePtrString (tok_LastUsedAt t), timePtrString (tok_ExpiresAt t), timePtrString (tok_RevokedAt t)])"
    unfolding apiTokenSelect_def o
    by (simp add: column_def api_tokens_columns_def tokenValues_def scanAPIToken_def Let_def split: option.splits)
  show "scanAPITokenRow (apiTokenSelect (write_table users_columns userValues (users d)) ?row) = Some (scanAPIToken d r)"
    using r unfolding s Let_def
    by (cases "atr_Token r") (simp add: scanAPITokenRow_def dated_api_token_def scanAPIToken_def split: option.splits)
qed

section \<open>The round trip\<close>



end
