(* ===== verification/Spec2Isabelle.thy ===== *)
theory Spec2Isabelle
  imports Daemon Answers TokenGrants ImageBuilds Rows
begin

text \<open>
  A model of bap-web, a Go web service that runs Firecracker microVMs on one host, and the theorems that
  make it correct.

  \<^bold>\<open>The program.\<close> \<open>internal/config\<close> loads the configuration; \<open>internal/model\<close> has the data;
  \<open>internal/store\<close> keeps it in SQLite; \<open>internal/lifecycle\<close> is the service (VMs, networks, policies,
  firewall, guest file systems, exec jobs, terminals, base images, kernels); \<open>internal/app\<close> answers HTTP
  requests with it.

  \<^bold>\<open>Conventions.\<close> A Go function that calls the host is a value of type \<open>'a io\<close>, a function from a
  \<open>world\<close> to an error or a value and a world (theory World). A world has the database, the configuration,
  the in-memory tables (terminal keys, running exec jobs, canceled contexts), the host, and the trail of
  effects so far. The host is a parameter: it answers each effect (a command, a file operation, an HTTP or
  SSH exchange, a clock reading, a random id) as any function of the trail before it, so that every theorem
  holds for every host, and the trail is what the theorems about issued commands speak of. \<open>bindE\<close> and
  \<open>seqE\<close> stop at an error as \<open>if err != nil { return err }\<close> does, \<open>ignoreE\<close> is \<open>_ = f()\<close>, \<open>tryE\<close>
  keeps the error as a value and \<open>deferE\<close> is \<open>defer\<close>. Errors are the values of package
  \<open>lifecycle\<close> (Prelude). A string is a list of bytes.

  \<^bold>\<open>The Go library.\<close> GoStrings, GoStrconv, GoNet, GoRegexp, GoTime, GoPath, GoEncoding, GoUrl, GoHttp and
  GoCrypto model what the code uses of \<open>strings\<close>, \<open>strconv\<close>, \<open>net\<close>, \<open>regexp\<close>, \<open>time\<close>,
  \<open>path/filepath\<close>, \<open>encoding\<close>, \<open>net/url\<close>, \<open>net/http\<close> and \<open>crypto/sha256\<close>, each with the laws the
  components use (printing and parsing addresses, numbers and, in TimeText, instants; cleaned paths; base64).

  \<^bold>\<open>The data.\<close> Model has the structs of \<open>model.go\<close>; ConfigModel the configuration; SqlTable tables as
  lists of records with uniqueness constraints (a locale, interpreted for every table in Schema); StoreAccess,
  StoreVM and StoreImages one definition per method of \<open>Store\<close>; StoreOpen \<open>Open\<close> and \<open>migrate\<close>. Rows has
  the columns of each table, the values that are bound to them and the scan functions, and the proof that
  records read back as they were written (the locales \<open>stored\<close> and \<open>plain_table\<close>).

  \<^bold>\<open>The service.\<close> Names, Cidr, Policy and ExecText are its pure functions; NetAlloc, NetProofs and
  NetLayout the allocation of ports and addresses and the plan they follow; HostOps and Guest the helpers
  over the host and the guest's root file system; Firewall \<open>applyNFT\<close>; Machine the jailer and
  Firecracker's API; Lifecycle the exported operations on VMs and networks; SshAccess, ExecJobs and Terminal
  commands, jobs and terminals; SshKeys the package \<open>sshkeys\<close>; BaseImages (\<open>images.go\<close>) images, hooks and
  build jobs, with ImageBuilds for what a build leaves behind; KernelNames, Kernels and KernelTests
  (\<open>kernels.go\<close>) versions and object keys, registration, uploads, imports and discovery, and boot tests.
  Runs has the rules for what every run of a function does to the world.

  \<^bold>\<open>The web application.\<close> Http has requests, responses and the middlewares (\<open>requireAuth\<close>,
  \<open>requireAdmin\<close>); Tokens set-up, login and API tokens; Api the JSON handlers; Pages the pages and forms and
  the metadata server's handler; Routes the table of patterns with its matching, \<open>New\<close> and \<open>Close\<close>. Access
  proves who may change what, Answers that every request gets a response, TokenGrants what a token that was
  created lets its bearer do.

  \<^bold>\<open>The whole program.\<close> Operation has the events that change its state, each run to its end before the
  next: the start, the stop, a request, a guest's metadata request, and a call or goroutine of the service.
  \<open>operate\<close> runs a list of them; Daemon's \<open>main\<close> is one run of the process made of them.

  \<^bold>\<open>Abstract specifications.\<close> Packets gives nftables rules a meaning on packets and proves what the rules
  of \<open>applyNFT\<close> let pass. Evolution is a step relation on databases, \<open>db_step\<close>, with its invariants
  (the locale \<open>db_invariant\<close>, interpreted for the plan, the sizes and the links between rows); Plan,
  Creation, Catalogue, Service and WebSteps prove that every operation and every handler, on every exit and
  for every host, changes the database by such steps only. ExecRace is a step relation for a job's goroutine
  and a cancellation, in every interleaving.

  \<^bold>\<open>Fuel.\<close> \<open>scan\<close> (address search) gets one round per address of the range; \<open>wait_loop\<close> 151 rounds, one
  more than its deadline of 15 seconds has polls of 100 milliseconds; \<open>smoke_loop\<close> 46 for a deadline of 90
  seconds and pauses of two; \<open>insert_legacy\<close> one round more than there are SSH keys. Each is proved enough.
  \<open>list_keys\<close> has as many rounds as requests fit before its context's deadline, an argument, and ends with
  the deadline's error; \<open>secure_dirs\<close> climbs to the root by a measure.

  \<^bold>\<open>Not modelled.\<close> The encoding and decoding of JSON, YAML and XML (the decoders are arguments, a response
  has the value that is encoded), the texts of templates and embedded files, and the target that
  \<open>http.Redirect\<close> cleans. The text of SQL statements: an old database is one whose missing columns read as
  their defaults, what \<open>PRAGMA\<close> answers is a reply of the host, and rows that compare equal in an
  \<open>ORDER BY\<close> come in the order they were inserted. bcrypt, the ssh and websocket libraries and the programs
  the service calls (nft, ip, mount, ssh, Firecracker) are answers of the host. Of \<open>main\<close>, the flag's text
  and what ends the server are arguments. \<open>generateKey\<close> of \<open>service.go\<close> has no caller. Requests do not
  interleave, except for an exec job and its cancellation.
\<close>

section \<open>Configuration\<close>



section \<open>Paths and names\<close>

text \<open>
  C18: the guest's key directory is \<open>home/<user>/.ssh\<close> below the mounted root file system, for every user
  name that the check accepts.
\<close>

theorem guestSSHDir_inside:
  assumes "IsAbs root" "guestSSHDir root u = Inr p"
  shows "pathWithin p root \<and> (\<exists>v. normalizeDevUser u = Inr v \<and> clean_comps p = clean_comps root @ [''home'', v, ''.ssh''])"
proof -
  obtain v where v: "normalizeDevUser u = Inr v" "p = Join [Clean root, ''home'', v, ''.ssh'']"
    using assms(2) by (auto simp: guestSSHDir_def Let_def split: sum.splits if_splits)
  have n: "list_all name_comp [''home'', v, ''.ssh'']"
    using normalizeDevUser_name [OF v(1)] by (simp add: name_comp_def)
  have p: "IsAbs p" "clean_comps p = clean_comps root @ [''home'', v, ''.ssh'']"
    using Join_abs [OF IsAbs_Clean [OF assms(1)] n] ssh_dir_comps(1) [OF assms(1) v(1)] v(2) by simp_all
  then show ?thesis using v(1) pathWithin_abs [OF p(1) assms(1)] by blast
qed

lemma guestSSHDir_inside_witness:
  "pathWithin ''/mnt/home/dev/.ssh'' ''/mnt'' \<and> (\<exists>v. normalizeDevUser ''dev'' = Inr v
     \<and> clean_comps ''/mnt/home/dev/.ssh'' = clean_comps ''/mnt'' @ [''home'', v, ''.ssh''])"
  by (rule guestSSHDir_inside) (simp add: IsAbs_def, code_simp)

text \<open>
  C19: the path of a git hook that \<open>cleanRelativePath\<close> keeps stays below the directory it is joined to.
\<close>

theorem cleanRelativePath_inside:
  assumes "IsAbs root" "cleanRelativePath path \<noteq> ''''"
  shows "pathWithin (Join [root, cleanRelativePath path]) root"
proof -
  obtain ns where ns: "ns \<noteq> []" "list_all name_comp ns" "cleanRelativePath path = join ''/'' ns"
    using cleanRelativePath_names [OF refl assms(2)] by blast
  have "Join [root, cleanRelativePath path] = Join (root # ns)"
    using ns assms by (auto simp: Join_def IsAbs_iff join_Cons list_all_iff name_comp_def)
  then show ?thesis using Join_abs [OF assms(1) ns(2,1)] pathWithin_abs [OF _ assms(1)] by metis
qed

lemma cleanRelativePath_inside_witness:
  "pathWithin (Join [''/work'', cleanRelativePath ''hooks/../run.sh'']) ''/work''"
  by (rule cleanRelativePath_inside) (simp add: IsAbs_def, code_simp)

text \<open>
  C22: for a hexadecimal id the TAP and bridge names are valid Linux interface names.
\<close>

theorem interface_names_valid:
  assumes "list_all is_alnum nid"
  shows "validIFName (tapNameForID nid) \<and> validIFName (bridgeName nid)"
proof -
  have ok: "c \<notin> set if_forbidden" "to_lower_char c \<notin> set if_forbidden" if "is_alnum c" for c
  proof -
    show "c \<notin> set if_forbidden"
      using that by (auto simp: if_forbidden_def is_alnum_def is_lower_def is_upper_def is_digit_def)
    then show "to_lower_char c \<notin> set if_forbidden"
      by (auto simp: if_forbidden_def to_lower_char_def Let_def dest!: arg_cong [of _ _ "of_char :: char \<Rightarrow> nat"] split: if_splits)
  qed
  have "\<forall>c \<in> set (tapNameForID nid). c \<notin> set if_forbidden"
    using assms ok(1) by (auto simp: tapNameForID_def Let_def list_all_iff if_forbidden_def dest!: in_set_takeD)
  moreover have "\<forall>c \<in> set (bridgeName nid). c \<notin> set if_forbidden"
  proof
    fix c assume "c \<in> set (bridgeName nid)"
    then have "c \<in> set (''br-bap-'' @ ToLower nid)"
      by (auto simp: bridgeName_def Let_def split: if_splits dest!: in_set_takeD)
    then consider "c \<in> set ''br-bap-''" | x where "x \<in> set nid" "c = to_lower_char x"
      by (auto simp: ToLower_def)
    then show "c \<notin> set if_forbidden"
    proof cases
      case 1
      then show ?thesis by (auto simp: if_forbidden_def)
    next
      case 2
      then show ?thesis using assms ok(2) [of x] by (simp add: list_all_iff)
    qed
  qed
  moreover have "0 < length (tapNameForID nid) \<and> length (tapNameForID nid) \<le> 15"
    "0 < length (bridgeName nid) \<and> length (bridgeName nid) \<le> 15"
    by (auto simp: tapNameForID_def bridgeName_def Let_def maxLinuxIFNameLen_def)
  ultimately show ?thesis by (auto simp: validIFName_def maxLinuxIFNameLen_def list_ex_iff)
qed

lemma interface_names_valid_witness:
  "validIFName (tapNameForID ''0a1b2c3d4e5f6071'') \<and> validIFName (bridgeName ''0a1b2c3d4e5f6071'')"
  by (rule interface_names_valid) code_simp

section \<open>Addresses\<close>

text \<open>C32: an IPv4 address survives being printed and parsed, as a number and as an address.\<close>

theorem ipv4_round_trip:
  "ipToUint32 (uint32ToIP v) = v \<and> ParseIP (IP_String (uint32ToIP v)) = Some (uint32ToIP v)"
proof
  show "ipToUint32 (uint32ToIP v) = v" by simp
  show "ParseIP (IP_String (uint32ToIP v)) = Some (uint32ToIP v)"
    using IP_String_v4 [OF To4_uint32ToIP] by (simp add: ParseIP_dotted uint32ToIP_bytes)
qed

text \<open>C16: two IPv4 networks are reported as overlapping exactly when they share an address.\<close>

theorem cidrOverlaps_shared_address:
  assumes "v4_net a b n" "v4_net c d m"
  shows "cidrOverlaps a c \<longleftrightarrow> (\<exists>x. Net_Contains a (uint32ToIP x) \<and> Net_Contains c (uint32ToIP x))"
  using overlap_iff_share [OF assms] by (auto simp: net_addrs_def)

lemma cidrOverlaps_shared_address_witness:
  "cidrOverlaps (mk_net 0xAC1F0000 16) (mk_net 0xAC1F0100 24) \<longleftrightarrow>
     (\<exists>x. Net_Contains (mk_net 0xAC1F0000 16) (uint32ToIP x) \<and> Net_Contains (mk_net 0xAC1F0100 24) (uint32ToIP x))"
  by (rule cidrOverlaps_shared_address) (rule v4_net_mk_net, simp)+

text \<open>
  C20: the port list of a policy is stored as distinct decimal numbers between 1 and 65535, and
  normalising it again changes nothing.
\<close>

theorem normalizePorts_normal:
  assumes "normalizePorts s = Inr t"
  shows "(\<exists>ps. splitCSV t = map Itoa ps \<and> distinct ps \<and> (\<forall>p \<in> set ps. 1 \<le> p \<and> p \<le> 65535))
    \<and> normalizePorts t = Inr t"
  using normalizePorts_ok [OF assms] normalizePorts_again [OF assms] by blast

lemma normalizePorts_normal_witness:
  "(\<exists>ps. splitCSV ''443,22'' = map Itoa ps \<and> distinct ps \<and> (\<forall>p \<in> set ps. 1 \<le> p \<and> p \<le> 65535))
    \<and> normalizePorts ''443,22'' = Inr ''443,22''"
  by (rule normalizePorts_normal [of "'' 443, 22,443''"]) code_simp

section \<open>Allocation\<close>

definition quiet_host :: host where
  "quiet_host = \<lparr>clock = \<lambda>_. 0, random_hex = \<lambda>_ _. ''00c0ffee'', answer = \<lambda>_ _. Ok '''',
     stat_of = \<lambda>_ p. Missing p,
     ssh_run = \<lambda>_ _. \<lparr>run_stdout = [], run_stderr = [], run_result = None, run_cut = False\<rparr>\<rparr>"

definition sample_world :: "db \<Rightarrow> world" where
  "sample_world d = \<lparr>database = d,
     cfg = sample_cfg\<lparr>NetworkCfg := NetworkCfg sample_cfg\<lparr>VMCIDR := cidr_text 0xAC1F0000 28\<rparr>\<rparr>,
     terminalKeys = [], execCancels = [], canceledCtx = [], host_of = quiet_host, trail = []\<rparr>"

text \<open>
  C14: \<open>allocateP2P\<close> answers with the first /30 of the configured range, in address order, whose guest
  address no VM has and which meets no shared network, and fails when there is none.
\<close>

theorem allocateP2P_first:
  assumes "sql_ok (host_of w)"
    and "ParseCIDR (VMCIDR (NetworkCfg (cfg w))) = Inr (uint32ToIP v, mk_net v ones)" "ones \<le> 30"
  shows "fst (allocateP2P w) =
    (case find (\<lambda>i. p2p_free (guest_ips (database w)) (shared_nets (database w)) ((v AND prefix_mask ones) + of_nat (4 * i)))
            [0..<p2p_slots ones] of
       None \<Rightarrow> Inl (PlainError ''no free /30 networks'')
     | Some i \<Rightarrow> (let b = (v AND prefix_mask ones) + of_nat (4 * i)
                 in Inr (addr_text (b + 1), addr_text (b + 2), 30)))"
  using allocateP2P_search [OF assms] by (simp add: first_p2p_def)

lemma quiet_sql: "sql_ok (host_of (sample_world d))"
  by (simp add: sql_ok_def sample_world_def quiet_host_def)

lemma sample_range: "ParseCIDR (VMCIDR (NetworkCfg (cfg (sample_world d)))) = Inr (uint32ToIP 0xAC1F0000, mk_net 0xAC1F0000 28)"
  using ParseCIDR_text [of 28 "0xAC1F0000"] by (simp add: sample_world_def cidr_text_def)

lemma allocateP2P_first_witness:
  "fst (allocateP2P (sample_world empty_db)) = Inr (addr_text 0xAC1F0001, addr_text 0xAC1F0002, 30)"
proof -
  have m: "(0xAC1F0000 :: u32) AND prefix_mask 28 = 0xAC1F0000" by (simp add: word_unat_eq_iff unat_and_prefix_mask)
  have s: "[0..<p2p_slots 28] = [0, 1, 2, 3]" by (simp add: p2p_slots_def upt_rec)
  have d: "vms (database (sample_world empty_db)) = []" "networks (database (sample_world empty_db)) = []"
    by (simp_all add: sample_world_def empty_db_def)
  show ?thesis
    using allocateP2P_first [OF quiet_sql sample_range, of empty_db]
    by (simp add: m s p2p_free_def guest_ips_def shared_nets_def d Let_def)
qed

text \<open>
  C13: a shared address is a host address of the network, not its gateway, and no VM has it yet.
\<close>

theorem allocateShared_fresh:
  assumes "allocateShared n w = (Inr (host, guest, bits), w')" "network_at n b k"
  shows "guest \<noteq> host \<and> bits = int k \<and> guest \<notin> vm_GuestIP ` set (vms (database w))
    \<and> (\<exists>x. guest = addr_text x \<and> unat b < unat x \<and> unat x < unat b + net_size k - 1)"
proof -
  have "ParseCIDR (nw_CIDR n) = Inr (uint32ToIP b, mk_net b k)"
    using assms(2) ParseCIDR_text [of k b] by (simp add: network_at_def cidr_text_def)
  then obtain v ones x where v: "uint32ToIP b = uint32ToIP v" "mk_net b k = mk_net v ones" "ones \<le> 30"
    "guest = addr_text x" "bits = int ones" "guest \<noteq> host" "unat (v AND prefix_mask ones) < unat x"
    "unat x < unat (v AND prefix_mask ones) + net_size ones - 1" "guest \<notin> guest_ips (database w)"
    using allocateShared_ok [OF assms(1)] by auto
  have "v = b" using v(1) ipToUint32_uint32ToIP by metis
  moreover have "ones = k"
    using v(2,3) assms(2) by (auto simp: mk_net_def network_at_def dest: arg_cong [of _ _ Mask_Size] simp: Mask_Size_CIDRMask)
  ultimately show ?thesis using v assms(2) by (auto simp: network_at_def guest_ips_def)
qed

definition lab_hosts :: network where
  "lab_hosts = \<lparr>nw_ID = ''n2'', nw_Name = ''lab'', nw_CIDR = cidr_text 0xAC1F0200 30,
     nw_GatewayIP = addr_text 0xAC1F0201, nw_CreatedAt = 0, nw_UpdatedAt = 0\<rparr>"

lemma lab_mask: "(0xAC1F0200 :: u32) AND prefix_mask 30 = 0xAC1F0200"
  by (simp add: word_unat_eq_iff unat_and_prefix_mask)

lemma lab_hosts_at: "network_at lab_hosts 0xAC1F0200 30"
  by (simp add: network_at_def lab_hosts_def lab_mask)

lemma scan_34:
  "scan 4 cond step ok x = (if \<not> cond x then None else if ok x then Some x else scan 3 cond step ok (x + step))"
  "scan 3 cond step ok x = (if \<not> cond x then None else if ok x then Some x else scan 2 cond step ok (x + step))"
  by (simp_all add: eval_nat_numeral)

lemma allocateShared_sample:
  "\<exists>w'. allocateShared lab_hosts (sample_world empty_db) = (Inr (addr_text 0xAC1F0201, addr_text 0xAC1F0202, 30), w')"
proof -
  have net: "ParseCIDR (nw_CIDR lab_hosts) = Inr (uint32ToIP 0xAC1F0200, mk_net 0xAC1F0200 30)"
    using ParseCIDR_text [of 30 "0xAC1F0200"] by (simp add: lab_hosts_def cidr_text_def)
  have v4: "v4_net (mk_net 0xAC1F0200 30) 0xAC1F0200 30"
    using v4_net_mk_net [of 30 "0xAC1F0200"] by (simp add: lab_mask)
  have "Net_Contains (mk_net 0xAC1F0200 30) (bytes_of_u32 0xAC1F0201) =
      Net_Contains (mk_net 0xAC1F0200 30) (uint32ToIP 0xAC1F0201)"
    by (simp add: Net_Contains_def Let_def cong: option.case_cong prod.case_cong)
  then have gw: "Net_Contains (mk_net 0xAC1F0200 30) (bytes_of_u32 0xAC1F0201)"
    using Contains_iff_range [OF v4, of "0xAC1F0201"] by (simp add: net_size_def)
  have s: "Mask_Size (net_Mask (mk_net 0xAC1F0200 30)) = (30, 32)" "To4 (net_IP (mk_net 0xAC1F0200 30)) = Some (bytes_of_u32 0xAC1F0200)"
    by (simp_all add: mk_net_def Mask_Size_CIDRMask lab_mask)
  have g: "ParseIP4 (nw_GatewayIP lab_hosts) = Some (bytes_of_u32 0xAC1F0201)"
    by (simp add: lab_hosts_def ParseIP4_addr_text)
  have i: "IP_String (bytes_of_u32 0xAC1F0201) = addr_text 0xAC1F0201"
    using IP_String_v4 [of "bytes_of_u32 0xAC1F0201"] by (simp add: addr_text_dotted)
  have "vms (database (sample_world empty_db)) = []" by (simp add: sample_world_def empty_db_def)
  then show ?thesis
    using quiet_sql [of empty_db]
    by (simp add: allocateShared_def store_UsedGuestIPs_def bindE_def query_ok liftE_def returnE_def net s g gw i
        ipToUint32_def scan_34 addr_text_inj Let_def)
qed

lemma allocateShared_fresh_witness:
  "addr_text 0xAC1F0202 \<noteq> addr_text 0xAC1F0201 \<and> (30::int) = int 30 \<and> addr_text 0xAC1F0202 \<notin> {}
    \<and> (\<exists>x. addr_text 0xAC1F0202 = addr_text x \<and> unat (0xAC1F0200 :: u32) < unat x \<and> unat x < unat (0xAC1F0200 :: u32) + net_size 30 - 1)"
proof -
  obtain w' where "allocateShared lab_hosts (sample_world empty_db) = (Inr (addr_text 0xAC1F0201, addr_text 0xAC1F0202, 30), w')"
    using allocateShared_sample by blast
  from allocateShared_fresh [OF this lab_hosts_at] show ?thesis by simp
qed

text \<open>
  C15: the SSH port of a new VM is in the configured range, is no VM's SSH port and no ingress rule's
  host port, and is the requested one if one was requested.
\<close>

theorem allocatePort_free:
  assumes "allocatePort requested w = (Inr p, w')"
  shows "(\<exists>start stop. parseRange (SSHPortRange (NetworkCfg (cfg w))) = Inr (start, stop) \<and> start \<le> p \<and> p \<le> stop)
    \<and> (requested \<noteq> 0 \<longrightarrow> p = requested)
    \<and> p \<notin> vm_SSHPort ` set (vms (database w)) \<and> p \<notin> ing_HostPort ` set (ingress_rules (database w))"
  using allocatePort_ok [OF assms] by blast

lemma sample_ports: "parseRange (SSHPortRange (NetworkCfg (cfg (sample_world d)))) = Inr (20000, 29999)"
proof -
  have "Itoa 20000 = ''20000''" "Itoa 29999 = ''29999''"
    by (simp_all add: Itoa_def digit_char_def show_nat.simps) code_simp+
  then have "parseRange ''20000-29999'' = Inr (20000, 29999)"
    using Atoi_Itoa [of 20000] Atoi_Itoa [of 29999] by (simp add: parseRange_def)
  then show ?thesis by (simp add: sample_world_def sample_cfg_def Defaults_def)
qed

lemma allocatePort_sample: "\<exists>w'. allocatePort 20000 (sample_world empty_db) = (Inr 20000, w')"
proof -
  have "\<exists>w'. allocatePort 20000 w = (Inr 20000, w')"
    if w: "sql_ok (host_of w)" "\<And>t e. answer (host_of w) t e = Ok []" "vms (database w) = []" "ingress_rules (database w) = []"
      "parseRange (SSHPortRange (NetworkCfg (cfg w))) = Inr (20000, 29999)" for w
    using w by (simp add: allocatePort_def store_UsedSSHPorts_def store_UsedIngressHostPorts_def config_get_def getsW_def
        liftE_def bindE_def query_ok portOpen_def ask_def returnE_def Let_def)
  then show ?thesis
    using quiet_sql sample_ports by (simp add: sample_world_def quiet_host_def empty_db_def)
qed

lemma allocatePort_free_witness:
  "\<exists>p. fst (allocatePort 20000 (sample_world empty_db)) = Inr p \<and> (20000 \<noteq> (0::int) \<longrightarrow> p = 20000)"
proof -
  obtain w' where "allocatePort 20000 (sample_world empty_db) = (Inr 20000, w')" using allocatePort_sample by blast
  then show ?thesis using allocatePort_free [of 20000 "sample_world empty_db" 20000 w'] by simp
qed





section \<open>Sample runs\<close>

definition nft_host :: host where
  "nft_host = quiet_host\<lparr>answer := \<lambda>_ e. if e = Output ''ip'' [''route'', ''show'', ''default'']
     then Ok ''default via 192.0.2.1 dev eth0'' else Ok ''''\<rparr>"

lemma default_eth0: "dev_field (Fields ''default via 192.0.2.1 dev eth0'') = Some ''eth0''"
  by code_simp

lemma applyNFT_sample: "\<exists>w'. applyNFT ((sample_world empty_db)\<lparr>host_of := nft_host\<rparr>) = (Inr (), w')"
  by (simp add: applyNFT_def store_ListVMs_def query_def perform_def bindE_def seqE_def ask_def returnE_def getsW_def
      ignoreE_def tryE_def run_def runShell_def nft_chains_def addRule_def defaultIF_def default_eth0 order_desc_def
      applyFirewalldMetadata_def errorOf_def commandOK_def nft_host_def quiet_host_def sample_world_def empty_db_def)

lemma applyNFT_commands_witness:
  "\<exists>(w' :: world) lan rs. ruleset (cfg (sample_world empty_db)) empty_db lan = Some rs \<and>
     shell_log (trail w') = map chain_command nft_chains @ map rule_text rs"
proof -
  obtain w' where "applyNFT ((sample_world empty_db)\<lparr>host_of := nft_host\<rparr>) = (Inr (), w')" using applyNFT_sample by blast
  from applyNFT_commands [OF this] obtain lan rs where
    "ruleset (cfg (sample_world empty_db)) empty_db lan = Some rs"
    "shell_log (trail w') = map chain_command nft_chains @ map rule_text rs"
    by (auto simp: sample_world_def shell_log_def)
  then show ?thesis by (intro exI [of _ w'] exI [of _ lan] exI [of _ rs]) simp
qed

definition ticking_host :: host where
  "ticking_host = quiet_host\<lparr>clock := \<lambda>t. sum_list (map (\<lambda>e. case e of Sleep d \<Rightarrow> max 0 d | _ \<Rightarrow> 0) t)\<rparr>"

lemma ticking_steady: "steady ticking_host"
  by (auto simp: steady_def ticking_host_def split: effect.splits)



section \<open>Images and kernels\<close>

text \<open>A host whose files are there and without links, each a megabyte that only its owner may write.\<close>

definition file_answer :: "effect \<Rightarrow> reply" where
  "file_answer e = (case e of Os f args \<Rightarrow> if f = ''EvalSymlinks'' then Ok (hd args) else Ok ''''
     | Output c args \<Rightarrow> if c = ''git'' then Ok ''c0ffee'' else Ok '''' | _ \<Rightarrow> Ok '''')"

definition file_host :: host where
  "file_host = quiet_host\<lparr>answer := \<lambda>_ e. file_answer e, stat_of := \<lambda>_ p.
     Found \<lparr>fi_Size = 1048576, fi_Mode = 0x1ED, fi_IsDir = False, fi_IsSocket = False, fi_Blocks = 0\<rparr>\<rparr>"

definition file_world :: "db \<Rightarrow> world" where
  "file_world d = (sample_world d)\<lparr>host_of := file_host\<rparr>"

lemma file_stat: "host_of w = file_host \<Longrightarrow> must_stat p w =
    (Inr \<lparr>fi_Size = 1048576, fi_Mode = 0x1ED, fi_IsDir = False, fi_IsSocket = False, fi_Blocks = 0\<rparr>, w\<lparr>trail := Stat p # trail w\<rparr>)"
  by (simp add: must_stat_def bindE_def stat_def returnE_def file_host_def)

lemma file_private: "\<not> world_writable \<lparr>fi_Size = 1048576, fi_Mode = 0x1ED, fi_IsDir = False, fi_IsSocket = False, fi_Blocks = 0\<rparr>"
  by (simp add: world_writable_def)

definition sample_image :: register_image where
  "sample_image = \<lparr>ri_Name = ''base'', ri_Path = ''/var/lib/microvms/base/base.ext4'', ri_Status = '''', ri_Filesystem = ''ext4'',
     ri_Provenance = ''''\<rparr>"

lemma sample_image_facts: "TrimSpace ''base'' = ''base''" "MatchString nameRe ''base''" "TrimSpace [] = []" "TrimSpace ''ext4'' = ''ext4''"
  "defaultImageString [] ''active'' = ''active''" "defaultImageString ''ext4'' ''unknown'' = ''ext4''" "validImageStatus ''active''"
  "pathWithin ''/var/lib/microvms/base/base.ext4'' (BaseImageDir (Paths sample_cfg))"
  "\<not> MaxBaseImageMiB (Images sample_cfg) < 1"
  by code_simp+


lemma sample_dirs:
  "Dir ''/var/lib/microvms/base/base.ext4'' = ''/var/lib/microvms/base''" "Dir ''/var/lib/microvms/base'' = ''/var/lib/microvms''"
  "Dir ''/var/lib/microvms'' = ''/var/lib''" "Dir ''/var/lib'' = ''/var''" "Dir ''/var'' = ''/''" "Dir ''/'' = ''/''"
  by code_simp+

lemma first_row: "tbl_insert us r [] = Inr [r]"
  using violated_None [of us "[]" r] by (simp add: tbl_insert_def)

lemmas io_eval = bindE_def seqE_def tryE_def returnE_def throwE_def failIf_def getsW_def config_get_def Now_def Hex_def stat_def
  ask_def perform_def do_effect_def ignoreE_def deferE_def Let_def

lemma sample_image_run: "\<exists>img w'. RegisterBaseImage sample_image ''admin'' (file_world empty_db) = (Inr img, w')"
proof -
  note dirs = secure_dirs.simps [of "''/var/lib/microvms/base''"] secure_dirs.simps [of "''/var/lib/microvms''"]
    secure_dirs.simps [of "''/var/lib''"] secure_dirs.simps [of "''/var''"] secure_dirs.simps [of "''/''"]
  show ?thesis
    by (simp add: RegisterBaseImage_def sample_image_def sample_image_facts invalidOn_def validateImagePath_def validate_below_def
      io_eval EvalSymlinks_def requireFile_def secureExistingPath_def dirs sample_dirs file_stat file_private must_stat_def
      world_writable_def imageSizes_def fileSHA256_def os_call_def store_CreateBaseImage_def exec_def empty_db_def
      file_world_def file_host_def file_answer_def sample_world_def quiet_host_def put_def
      first_row del: MatchString.simps)
qed



definition sample_build :: image_build_job where
  "sample_build = \<lparr>bj_ID = ''b'', bj_Status = ''running'', bj_Name = ''base'', bj_Filesystem = ''ext4'', bj_SizeMiB = 1024,
     bj_Packages = '''', bj_Hooks = '''', bj_LogPath = ''/l'', bj_ResultImageID = '''', bj_Error = '''', bj_CreatedBy = ''admin'',
     bj_CreatedAt = 0, bj_StartedAt = None, bj_CompletedAt = None\<rparr>"


definition sample_hook :: image_hook where
  "sample_hook = \<lparr>hook_ID = ''h'', hook_Name = ''setup'', hook_SourceType = ''git'', hook_Status = ''active'', hook_ContentPath = '''',
     hook_GitURL = ''https://git.example/r'', hook_GitRef = ''main'', hook_GitPath = ''h.sh'', hook_ResolvedCommit = '''',
     hook_Checksum = '''', hook_CreatedBy = ''admin'', hook_CreatedAt = 0, hook_UpdatedAt = 0, hook_LastUsedAt = None\<rparr>"

lemma sample_hook_paths: "Join [''/b'', ''git-h''] = ''/b/git-h''" "Join [''/b/git-h'', ''h.sh''] = ''/b/git-h/h.sh''"
  "pathWithin ''/b/git-h/h.sh'' ''/b/git-h''" "TrimSpace ''c0ffee'' = ''c0ffee''" "\<not> MaxHookBytes (Images sample_cfg) < 0"
  "ReplaceAll [] [CHR 0x0D, CHR 0x0A] NL = []"
  by code_simp+

lemma sample_hook_run:
  "\<exists>w'. build_hook ''/l'' ''/b/mnt'' ''/b'' sample_hook (file_world (empty_db\<lparr>image_hooks := [sample_hook]\<rparr>)) = (Inr (), w')"
proof -
  have ign: "ignoreE m w = (Inr (), snd (m w))" for m :: "unit io" and w by (simp add: ignoreE_def tryE_def bindE_def returnE_def split: prod.splits)
  have up: "host_of (snd (store_UpdateImageHook h w)) = host_of w" "cfg (snd (store_UpdateImageHook h w)) = cfg w" for h w
    by (simp_all add: store_UpdateImageHook_def exec_def io_eval split: reply.splits sum.splits)
  show ?thesis
    by (simp add: build_hook_def runBuildHook_def run_git_hook_def clone_hook_def errorOf_def runLogged_def output_of_def EvalSymlinks_def
      sample_hook_def sample_hook_paths bindE_def seqE_def tryE_def returnE_def throwE_def failIf_def getsW_def config_get_def Now_def
      stat_def ask_def perform_def do_effect_def deferE_def Let_def ign fileSHA256_def os_call_def readFile_def writeAndRunChrootScript_def
      mkdirAll_def writeFile_def up
      file_world_def file_host_def file_answer_def sample_world_def quiet_host_def)
qed

lemma resolved_commit_lost_witness:
  "\<exists>(w' :: world) t u. find (\<lambda>r. hook_ID r = ''h'') (image_hooks (database w')) = Some (sample_hook\<lparr>hook_LastUsedAt := Some t, hook_UpdatedAt := u\<rparr>)"
proof -
  let ?w = "file_world (empty_db\<lparr>image_hooks := [sample_hook]\<rparr>)"
  have sql: "sql_ok (host_of ?w)" by (simp add: sql_ok_def file_world_def file_host_def file_answer_def)
  have row: "hook_row sample_hook (database ?w)" by (simp add: hook_row_def uniq_ok_def file_world_def sample_world_def image_hooks_uniq_def)
  obtain w' where "build_hook ''/l'' ''/b/mnt'' ''/b'' sample_hook ?w = (Inr (), w')" using sample_hook_run by blast
  from resolved_commit_lost [OF this sql row] show ?thesis by (auto simp: sample_hook_def)
qed

lemma compareKernelVersions_order_witness:
  "0 < compareKernelVersions ''6.1.10'' ''6.1.9'' \<and> 0 < compareKernelVersions ''6.1.9'' ''5.10.223''
     \<and> 0 < compareKernelVersions ''6.1.10'' ''5.10.223''"
proof -
  have "0 < compareKernelVersions ''6.1.10'' ''6.1.9''" "0 < compareKernelVersions ''6.1.9'' ''5.10.223''" by code_simp+
  then show ?thesis using compareKernelVersions_order [of "''6.1.10''" "''6.1.9''" "''5.10.223''"] by blast
qed

lemma waitForKernelTestSSH_ends_witness:
  "fst (smoke_loop smoke_rounds (90 * Second) [''dev@172.31.0.2''] '''' ((sample_world empty_db)\<lparr>host_of := ticking_host\<rparr>)) \<noteq> Inr OutOfRounds"
  using waitForKernelTestSSH_ends [of "(sample_world empty_db)\<lparr>host_of := ticking_host\<rparr>" "[''dev@172.31.0.2'']" "''''"] ticking_steady
  by (simp add: sample_world_def ticking_host_def)

definition sample_keys :: "string list" where
  "sample_keys = [''firecracker-ci/v1.12/x86_64/vmlinux-5.10.223'', ''firecracker-ci/v1.12/x86_64/vmlinux-5.10.223.config'',
     ''firecracker-ci/v1.12/x86_64/vmlinux-6.1.102'']"

lemma sample_key_facts:
  "supportedFirecrackerCIKernelKey ''firecracker-ci/v1.12/x86_64/vmlinux-5.10.223''"
  "\<not> supportedFirecrackerCIKernelKey ''firecracker-ci/v1.12/x86_64/vmlinux-5.10.223.config''"
  "supportedFirecrackerCIKernelKey ''firecracker-ci/v1.12/x86_64/vmlinux-6.1.102''"
  "TrimPrefix (Base ''firecracker-ci/v1.12/x86_64/vmlinux-5.10.223'') ''vmlinux-'' = ''5.10.223''"
  "TrimPrefix (Base ''firecracker-ci/v1.12/x86_64/vmlinux-6.1.102'') ''vmlinux-'' = ''6.1.102''"
  "newer ''6.1.102'' ''5.10.223''" "\<not> newer ''5.10.223'' ''6.1.102''"
  by code_simp+

lemma sample_urls: "firecrackerCIURL c ''firecracker-ci/v1.12/x86_64/vmlinux-6.1.102'' \<noteq> firecrackerCIURL c ''firecracker-ci/v1.12/x86_64/vmlinux-5.10.223''"
  by (simp add: firecrackerCIURL_def)

lemma sample_discovery: "\<exists>items w'. discoveryItemsFromKeys ''j'' ''firecracker-ci/v1.12/'' ''x86_64'' sample_keys (sample_world empty_db)
    = (Inr items, w') \<and> map kdi_Version items = [''6.1.102'', ''5.10.223'']"
  by (simp add: discoveryItemsFromKeys_def store_ListKernels_def query_def sample_keys_def sample_key_facts sample_urls io_eval
      sample_world_def quiet_host_def empty_db_def order_desc_def sort_by_def)


section \<open>Exec jobs\<close>

definition sample_job :: "string \<Rightarrow> vm_exec_job" where
  "sample_job status = \<lparr>exe_ID = ''j'', exe_VMID = ''a'', exe_Status = status, exe_Command = ''uptime'', exe_CWD = '''',
     exe_EnvJSON = ''{}'', exe_PTY = False, exe_TimeoutSeconds = 30, exe_Stdout = '''', exe_Stderr = '''', exe_ExitCode = -1,
     exe_TimedOut = False, exe_Truncated = False, exe_LogPath = '''', exe_Error = '''', exe_CreatedBy = ''admin'',
     exe_CreatedAt = 0, exe_StartedAt = None, exe_CompletedAt = None\<rparr>"

definition job_world :: "string \<Rightarrow> world" where
  "job_world status = sample_world (empty_db\<lparr>vm_exec_jobs := [sample_job status]\<rparr>)"

lemma job_world_facts:
  "sql_ok (host_of (job_world s))" "vm_exec_jobs (database (job_world s)) = [sample_job s]"
  "job_row ''j'' ''a'' (database (job_world s)) = Some (sample_job s)"
  "job_canceled ''j'' ''a'' (database (job_world s)) = (s = ''canceled'')"
  by (simp_all add: job_world_def quiet_sql job_row_def job_canceled_def) (simp_all add: sample_world_def sample_job_def)

lemma executeVMCommand_keys_witness:
  "terminalKeys (snd (executeVMCommand alpha sample_request (sample_world empty_db))) = []"
proof -
  obtain r w' where r: "executeVMCommand alpha sample_request (sample_world empty_db) = (r, w')" by fastforce
  have "fresh_keys (host_of (sample_world empty_db)) (terminalKeys (sample_world empty_db))"
    by (simp add: fresh_keys_def sample_world_def quiet_host_def)
  from executeVMCommand_keys [OF r this] r show ?thesis by (simp add: sample_world_def)
qed

lemma cancel_holds_witness:
  "job_canceled ''j'' ''a'' (database (snd (runVMExecJob ''j'' ''a'' sample_request (job_world ''canceled''))))"
proof -
  obtain r w' where r: "runVMExecJob ''j'' ''a'' sample_request (job_world ''canceled'') = (r, w')" by fastforce
  have "races ''j'' ''a'' sample_request (job_world ''canceled'', PStart, CAnswered (sample_job ''canceled''))
      (w', PDone, CAnswered (sample_job ''canceled''))"
    using runner_alone [OF r] by simp
  from cancel_holds [OF this] r show ?thesis by (simp add: job_world_facts)
qed

lemma late_cancel_lost_witness:
  "\<exists>w' a. races ''j'' ''a'' sample_request (job_world ''running'', PConfirmed (sample_job ''succeeded''), CAsked) (w', PEnding, CAnswered a)
    \<and> exe_Status a = ''canceled'' \<and> job_row ''j'' ''a'' (database w') = Some (sample_job ''succeeded'')"
  by (rule late_cancel_lost [where r = "sample_job ''running''"])
    (simp_all add: job_world_facts uniq_ok_def vm_exec_jobs_uniq_def, simp_all add: sample_job_def final_status_def)

lemma canceled_job_never_runs_witness:
  "ssh_log (snd (runVMExecJob ''j'' ''a'' sample_request (job_world ''canceled''))) = ssh_log (job_world ''canceled'')"
proof -
  obtain r w' where r: "runVMExecJob ''j'' ''a'' sample_request (job_world ''canceled'') = (r, w')" by fastforce
  from canceled_job_never_runs [OF r] r show ?thesis by (simp add: job_world_facts)
qed

section \<open>The web application\<close>

definition sample_user :: "bool \<Rightarrow> user" where
  "sample_user admin = \<lparr>usr_ID = ''u'', usr_Username = ''ann'', usr_PasswordHash = ''$2a$'', usr_IsAdmin = admin, usr_CreatedAt = 0\<rparr>"

definition sample_session :: session where
  "sample_session = \<lparr>ses_ID = ''s'', ses_UserID = ''u'', ses_CSRFToken = ''t'', ses_CreatedAt = 0, ses_LastSeenAt = 0,
     ses_ExpiresAt = Hour\<rparr>"

definition user_world :: "bool \<Rightarrow> world" where
  "user_world admin = sample_world (empty_db\<lparr>users := [sample_user admin], sessions := [sample_session]\<rparr>)"

text \<open>A request to delete something, with the session's cookie and a value for the form's CSRF field.\<close>

definition delete_request :: "string \<Rightarrow> string \<Rightarrow> request" where
  "delete_request path csrf = \<lparr>rq_Method = ''POST'', rq_Path = path, rq_EscapedPath = path, rq_Query = [],
     rq_RawQuery = '''', rq_Host = ''bap.lan'', rq_Header = (\<lambda>_. ''''), rq_Form = (\<lambda>k. if k = ''csrf'' then [csrf] else []),
     rq_MultipartError = None, rq_File = (\<lambda>_. Absent), rq_Cookie = (\<lambda>k. if k = session_cookie then Some ''s'' else None),
     rq_RemoteAddr = ''10.0.0.9:4000'', rq_TLS = False, rq_Body = ([], None), rq_ContentLength = 0, rq_PathValue = (\<lambda>_. ''''),
     rq_Context = ''c'', rq_RequestID = '''', rq_User = None\<rparr>"

lemma delete_request_facts: "bearerToken (delete_request path csrf) = ''''"
    "users (database (user_world admin)) = [sample_user admin]" "sessions (database (user_world admin)) = [sample_session]"
    "clock (host_of (user_world admin)) tr = 0"
  by (simp_all add: bearerToken_def delete_request_def user_world_def sample_world_def quiet_host_def Let_def)

lemma unauthenticated_harmless_witness:
  "\<forall>D. protected (database (snd (Router D (delete_request ''/ui/vms/a/delete'' ''forged'') (user_world True)))) = protected (database (user_world True))"
proof
  fix D
  have "no_credentials 0 (database (user_world True)) (delete_request ''/ui/vms/a/delete'' ''forged'')"
    by (simp add: no_credentials_def delete_request_facts)
      (simp add: session_dead_def csrf_token_def FormValue_def delete_request_def sample_session_def)
  then show "protected (database (snd (Router D (delete_request ''/ui/vms/a/delete'' ''forged'') (user_world True)))) = protected (database (user_world True))"
    by (intro unauthenticated_harmless [where now = 0]) (simp_all add: delete_request_facts)
qed

lemma only_admins_administer_witness:
  "\<forall>D. admin_state (database (snd (Router D (delete_request ''/ui/kernels/a/delete'' ''t'') (user_world False)))) = admin_state (database (user_world False))"
proof
  fix D
  have "\<not> caller_admin (database (user_world False)) (delete_request ''/ui/kernels/a/delete'' ''t'')"
    by (simp add: caller_admin_def admin_session_def delete_request_facts sample_user_def)
  then show "admin_state (database (snd (Router D (delete_request ''/ui/kernels/a/delete'' ''t'') (user_world False)))) = admin_state (database (user_world False))"
    by (intro only_admins_administer) (simp_all add: delete_request_facts)
qed

definition sample_token_request :: token_request where
  "sample_token_request = \<lparr>trq_Name = ''ci'', trq_OwnerUserID = '''', trq_IsAdmin = None, trq_ExpiresAt = ''''\<rparr>"

definition sample_token :: api_token where
  "sample_token = \<lparr>tok_ID = ''00c0ffee'', tok_Name = ''ci'', tok_Prefix = ''bap_00c0ffee'', tok_IsAdmin = False, tok_OwnerUserID = ''u'',
     tok_OwnerUsername = ''ann'', tok_CreatedBy = ''ann'', tok_CreatedAt = 0, tok_LastUsedAt = None,
     tok_ExpiresAt = Some defaultAPITokenTTL, tok_RevokedAt = None\<rparr>"

lemma sample_trim: "TrimSpace ''ci'' = ''ci''" "TrimSpace ''u'' = ''u''" "0 < defaultAPITokenTTL" "\<not> defaultAPITokenTTL < 0"
  by code_simp+

lemma sample_token_created:
  "\<exists>w'. createAPIToken (session_user (sample_user False) sample_session) sample_token_request (user_world False)
    = (Inr (sample_token, ''bap_00c0ffee''), w') \<and> host_of w' = quiet_host"
  by (simp add: createAPIToken_def token_owner_def token_expiry_def sample_token_request_def session_user_def sample_user_def
      sample_token_def sample_trim store_UserByID_def query_def store_CreateAPIToken_def exec_def user_world_def sample_world_def quiet_host_def
      empty_db_def io_eval liftE_def Now_def Hex_def put_def first_row)


section \<open>The whole program\<close>

text \<open>
  C3: every event of the program, a request of any kind with any answers of the host as well as a call of a
  goroutine, whether it succeeds or fails, changes the database only by steps of the abstract specification
  \<open>db_step\<close>.
\<close>

theorem event_refines_steps:
  assumes "db_ok (database w)" "plan_ok (database w)"
  shows "db_steps (database w) (database (snd (happen e w)))"
  using evolves_happen assms by (simp add: evolves_def good_def)

lemma event_refines_steps_witness:
  "\<forall>D. db_steps (database (user_world True)) (database (snd (happen (Web D (delete_request ''/ui/vms/a/delete'' ''t'')) (user_world True))))"
proof
  fix D
  have "good (database (user_world True))"
    using good_empty by (simp add: good_def user_world_def sample_world_def db_ok_def plan_ok_def empty_db_def uniq_ok_def
      users_uniq_def sessions_uniq_def net_ok_def ports_ok_def)
  then show "db_steps (database (user_world True)) (database (snd (happen (Web D (delete_request ''/ui/vms/a/delete'' ''t'')) (user_world True))))"
    by (intro event_refines_steps) (simp_all add: good_def)
qed

lemma call_refines_steps:
  "db_ok (database w) \<Longrightarrow> plan_ok (database w) \<Longrightarrow> db_steps (database w) (database (snd (perform_call c w)))"
  using evolves_call by (simp add: evolves_def good_def)

lemma steps_invariants: "db_steps empty_db d \<Longrightarrow> db_ok d \<and> plan_ok d \<and> sizes_ok d \<and> links_ok d"
  using good_steps [OF _ good_empty] sizes.reachable links.reachable by (auto simp: good_def)

text \<open>
  C2: whatever the program did since it began with an empty database, the uniqueness constraints hold,
  the address and port plan holds, every VM is within the size limits, and every row that another names
  is there.
\<close>

theorem operation_invariants:
  assumes "database w = empty_db"
  shows "db_ok (database (operate events w)) \<and> plan_ok (database (operate events w))
    \<and> sizes_ok (database (operate events w)) \<and> links_ok (database (operate events w))"
  using steps_invariants operate_steps [of w events] assms good_empty by simp

lemma operation_invariants_witness:
  "\<forall>D. plan_ok (database (operate [Start, Web D (delete_request ''/ui/vms/a/delete'' ''t''), Background CallReconcile] (sample_world empty_db)))"
  using operation_invariants [of "sample_world empty_db"] by (simp add: sample_world_def)

lemma service_invariants:
  assumes "database w = empty_db"
  shows "db_ok (database (serve calls w)) \<and> plan_ok (database (serve calls w))
    \<and> sizes_ok (database (serve calls w)) \<and> links_ok (database (serve calls w))"
  using steps_invariants serve_steps [of w calls] assms good_empty by simp

lemma applyNFT_isolation:
  assumes "good (database w)" "applyNFT w = (Inr (), w')"
  shows "\<exists>lan rs. shell_log (trail w') = shell_log (trail w) @ map chain_command nft_chains @ map rule_text rs
    \<and> (\<forall>v \<in> set (vms (database w')). \<forall>p. vm_live v \<and> addr_matches (vm_GuestIP v) (p_src p) \<and> fresh_outbound lan p \<longrightarrow>
          (\<forall>cidr \<in> set (protected_cidrs (cfg w)). addr_matches cidr (p_dst p) \<longrightarrow> \<not> forwarded rs p)
        \<and> (p_oif p = lan \<and> forwarded rs p \<longrightarrow> egress_permits (database w') v p))"
proof -
  have ok: "net_ok (database w)" "uniq_ok vms_uniq (vms (database w))" using assms(1) by (simp_all add: good_def plan_ok_def db_ok_def)
  obtain lan rs where r: "ruleset (cfg w) (database w) lan = Some rs" "database w' = database w"
      "shell_log (trail w') = shell_log (trail w) @ map chain_command nft_chains @ map rule_text rs"
    using applyNFT_log [OF assms(2)] by blast
  show ?thesis
    unfolding r(2)
    by (intro exI [of _ lan] exI [of _ rs] conjI ballI allI impI r(3))
      (use protected_drop [OF r(1) ok] egress_only_permitted [OF r(1) ok] in blast)+
qed



lemma served_isolation:
  assumes "database w = empty_db" "applyNFT (serve calls w) = (Inr (), w')"
  shows "\<exists>lan rs. shell_log (trail w') = shell_log (trail (serve calls w)) @ map chain_command nft_chains @ map rule_text rs
    \<and> (\<forall>v \<in> set (vms (database w')). \<forall>p. vm_live v \<and> addr_matches (vm_GuestIP v) (p_src p) \<and> fresh_outbound lan p \<longrightarrow>
          (\<forall>cidr \<in> set (protected_cidrs (cfg (serve calls w))). addr_matches cidr (p_dst p) \<longrightarrow> \<not> forwarded rs p)
        \<and> (p_oif p = lan \<and> forwarded rs p \<longrightarrow> egress_permits (database w') v p))"
  using applyNFT_isolation [OF _ assms(2)] good_steps [OF serve_steps [of w calls]] assms(1) good_empty by simp

end
